(* ===== verification/Py_Prelude.thy ===== *)
theory Py_Prelude
  imports Complex_Main "HOL-Library.AList"
begin

text \<open>
  The Python runtime the model rests on: exceptions as values, the sequential checks of a
  dataclass's \<open>__post_init__\<close>, decimal strings, and the dynamically typed values that the
  program stores in its JSON mappings. Every other theory imports this one.

  A raising computation is a value of \<open>'a res = exn + 'a\<close>. The exception keeps the message,
  because the coordinator and the commit port copy messages into their failure reports.
  Strings are lists of characters; code points above 255 are outside the model.
\<close>

named_theorems init_defs \<open>definitions of the validating constructors\<close>
named_theorems res_simps \<open>rewriting of results, checks and dictionary lookups\<close>
named_theorems init_dests \<open>what a successful constructor says of its result\<close>

section \<open>Exceptions and results\<close>

text \<open>
  One constructor per exception class the modelled files raise; \<open>OtherError\<close> is any other
  subclass of \<open>Exception\<close> (its class name and \<open>str\<close>), raised by code outside the model such
  as an adapter, and \<open>RaisedFrom e c\<close> is \<open>e\<close> with \<open>c\<close> as its \<open>__cause__\<close>.
  \<open>CancelledError\<close> derives from \<open>BaseException\<close> only.
\<close>

datatype exn =
    TypeError string
  | ValueError string
  | RuntimeError string
  | KeyError string
  | CursorEpochMismatchError string
  | InvalidDispatchAuthorizationError string
  | InvalidReconciliationPreconditionError string
  | StateVersionConflictError string
  | TransitionFingerprintMismatchError string
  | CommandDispositionConflictError string
  | RuntimeCommandAdmissionConflictError string
  | EffectMutationConflictError string
  | RecoveryEvidenceConflictError string
  | ExecutorAttemptConflictError string
  | ChildBindingConflictError string
  | RecoveryLeaseConflictError string
  | StaleRecoveryGuardError string
  | StaleMailboxCutError int int
  | SessionOwnershipConflictError string string
  | KeyExpiredError string string string
  | UnknownRuntimeVersionError string
  | CrossVersionWriteError string
  | NewRuntimeCheckpointRejectedError string
  | NewRuntimeSettledWriteError string
  | OtherError string string
  | RaisedFrom exn exn
  | CancelledError

type_synonym 'a res = "exn + 'a"

text \<open>\<open>except Exception\<close> catches everything but \<open>CancelledError\<close>.\<close>

fun is_exception :: "exn \<Rightarrow> bool" where
  "is_exception CancelledError = False"
| "is_exception (RaisedFrom e _) = is_exception e"
| "is_exception _ = True"

text \<open>\<open>except ValueError\<close> catches the subclasses too.\<close>

fun is_value_error :: "exn \<Rightarrow> bool" where
  "is_value_error (ValueError _) = True"
| "is_value_error (CursorEpochMismatchError _) = True"
| "is_value_error (InvalidDispatchAuthorizationError _) = True"
| "is_value_error (InvalidReconciliationPreconditionError _) = True"
| "is_value_error (UnknownRuntimeVersionError _) = True"
| "is_value_error (CrossVersionWriteError _) = True"
| "is_value_error (NewRuntimeSettledWriteError _) = True"
| "is_value_error (RaisedFrom e _) = is_value_error e"
| "is_value_error _ = False"

fun is_type_error :: "exn \<Rightarrow> bool" where
  "is_type_error (TypeError _) = True"
| "is_type_error (RaisedFrom e _) = is_type_error e"
| "is_type_error _ = False"

definition bind_res :: "'a res \<Rightarrow> ('a \<Rightarrow> 'b res) \<Rightarrow> 'b res" where
  "bind_res m f = (case m of Inl e \<Rightarrow> Inl e | Inr x \<Rightarrow> f x)"

definition map_res :: "('a \<Rightarrow> 'b) \<Rightarrow> 'a res \<Rightarrow> 'b res" where
  "map_res f m = (case m of Inl e \<Rightarrow> Inl e | Inr x \<Rightarrow> Inr (f x))"

fun traverse_res :: "('a \<Rightarrow> 'b res) \<Rightarrow> 'a list \<Rightarrow> 'b list res" where
  "traverse_res f [] = Inr []"
| "traverse_res f (x # xs) =
     bind_res (f x) (\<lambda>y. bind_res (traverse_res f xs) (\<lambda>ys. Inr (y # ys)))"

definition is_ok :: "'a res \<Rightarrow> bool" where
  "is_ok m \<longleftrightarrow> (case m of Inl _ \<Rightarrow> False | Inr _ \<Rightarrow> True)"

lemma bind_res_simps [simp]:
  "bind_res (Inl e) f = Inl e"
  "bind_res (Inr x) f = f x"
  by (simp_all add: bind_res_def)

text \<open>Evaluation looks into what follows only once the first part has its value.\<close>

lemma bind_res_unfold [code_unfold]: "bind_res m f = (case m of Inl e \<Rightarrow> Inl e | Inr x \<Rightarrow> f x)"
  by (simp add: bind_res_def)

lemma map_res_simps [simp]:
  "map_res f (Inl e) = Inl e"
  "map_res f (Inr x) = Inr (f x)"
  by (simp_all add: map_res_def)

lemma is_ok_simps [simp]:
  "is_ok (Inl e) = False"
  "is_ok (Inr x) = True"
  by (simp_all add: is_ok_def)

lemma bind_res_eq_Inr [res_simps]:
  "bind_res m f = Inr y \<longleftrightarrow> (\<exists>x. m = Inr x \<and> f x = Inr y)"
  by (cases m) auto

lemma bind_res_eq_Inl:
  "bind_res m f = Inl e \<longleftrightarrow> m = Inl e \<or> (\<exists>x. m = Inr x \<and> f x = Inl e)"
  by (cases m) auto

lemma map_res_eq_Inr [res_simps]:
  "map_res f m = Inr y \<longleftrightarrow> (\<exists>x. m = Inr x \<and> y = f x)"
  by (cases m) auto

lemma map_res_eq_Inl [simp]: "map_res f m = Inl e \<longleftrightarrow> m = Inl e"
  by (cases m) auto

lemma is_ok_iff: "is_ok m \<longleftrightarrow> (\<exists>x. m = Inr x)"
  by (cases m) auto

lemma not_is_ok_iff: "\<not> is_ok m \<longleftrightarrow> (\<exists>e. m = Inl e)"
  by (cases m) auto

lemma traverse_res_length:
  "traverse_res f xs = Inr ys \<Longrightarrow> length ys = length xs"
  by (induction xs arbitrary: ys) (auto simp: res_simps)

lemma traverse_res_nth:
  "traverse_res f xs = Inr ys \<Longrightarrow> i < length xs \<Longrightarrow> f (xs ! i) = Inr (ys ! i)"
  by (induction xs arbitrary: ys i) (auto simp: res_simps nth_Cons split: nat.splits)

lemma traverse_res_image: "traverse_res f xs = Inr ys \<Longrightarrow> y \<in> set ys \<Longrightarrow> \<exists>x \<in> set xs. f x = Inr y"
  by (induction xs arbitrary: ys) (auto simp: res_simps)

lemma traverse_res_member: "traverse_res f xs = Inr ys \<Longrightarrow> x \<in> set xs \<Longrightarrow> \<exists>y \<in> set ys. f x = Inr y"
  by (induction xs arbitrary: ys) (auto simp: res_simps)

lemma traverse_res_cong:
  "(\<And>x. x \<in> set xs \<Longrightarrow> f x = g x) \<Longrightarrow> traverse_res f xs = traverse_res g xs"
  by (induction xs) auto

lemma traverse_res_map_Inr:
  "(\<And>x. x \<in> set xs \<Longrightarrow> f (g x) = Inr (h x)) \<Longrightarrow> traverse_res f (map g xs) = Inr (map h xs)"
  by (induction xs) auto

section \<open>Sequential checks\<close>

text \<open>
  A \<open>__post_init__\<close> body is a sequence of tests, each raising when it fails. A test is an
  \<open>exn option\<close> (the exception it would raise), and \<open>checks\<close> runs the tests in order: the first
  failing one decides.
\<close>

type_synonym check = "exn option"

fun checks :: "check list \<Rightarrow> 'a \<Rightarrow> 'a res" where
  "checks [] v = Inr v"
| "checks (None # cs) v = checks cs v"
| "checks (Some e # cs) v = Inl e"

definition fails_when :: "bool \<Rightarrow> exn \<Rightarrow> check" where
  "fails_when b e = (if b then Some e else None)"

text \<open>A test that runs only when a field is present, and one guarded by a condition.\<close>

definition when_some :: "'a option \<Rightarrow> ('a \<Rightarrow> check) \<Rightarrow> check" where
  "when_some x f = (case x of None \<Rightarrow> None | Some v \<Rightarrow> f v)"

definition check_if :: "bool \<Rightarrow> check \<Rightarrow> check" where
  "check_if b c = (if b then c else None)"

definition check_of :: "'a res \<Rightarrow> check" where
  "check_of m = (case m of Inl e \<Rightarrow> Some e | Inr _ \<Rightarrow> None)"

lemma checks_eq_Inr [res_simps]:
  "checks cs v = Inr w \<longleftrightarrow> w = v \<and> list_all (\<lambda>c. c = None) cs"
  by (induction cs v rule: checks.induct) auto

lemma checks_pass [simp]: "list_all (\<lambda>c. c = None) cs \<Longrightarrow> checks cs v = Inr v"
  by (simp add: checks_eq_Inr)

lemma fails_when_None [simp]: "fails_when b e = None \<longleftrightarrow> \<not> b"
  by (simp add: fails_when_def)

lemma fails_when_Some [simp]: "fails_when b e = Some e' \<longleftrightarrow> b \<and> e' = e"
  by (auto simp: fails_when_def)

lemma when_some_simps [simp]:
  "when_some None f = None"
  "when_some (Some x) f = f x"
  by (simp_all add: when_some_def)

lemma when_some_None [res_simps]:
  "when_some x f = None \<longleftrightarrow> (\<forall>v. x = Some v \<longrightarrow> f v = None)"
  by (cases x) auto

lemma check_if_None [simp]: "check_if b c = None \<longleftrightarrow> (b \<longrightarrow> c = None)"
  by (simp add: check_if_def)

lemma check_of_None [simp]: "check_of m = None \<longleftrightarrow> is_ok m"
  by (cases m) (simp_all add: check_of_def)

section \<open>Characters and decimal strings\<close>

text \<open>Python's \<open>str.strip\<close> whitespace and \<open>str.isdigit\<close> digits among the first 256 code points.\<close>

definition char_code :: "char \<Rightarrow> nat" where
  "char_code c = of_char c"

definition is_space :: "char \<Rightarrow> bool" where
  "is_space c \<longleftrightarrow>
     char_code c \<in> {9, 10, 11, 12, 13, 28, 29, 30, 31, 32, 133, 160}"

definition is_ascii_digit :: "char \<Rightarrow> bool" where
  "is_ascii_digit c \<longleftrightarrow> 48 \<le> char_code c \<and> char_code c \<le> 57"

definition is_digit_char :: "char \<Rightarrow> bool" where
  "is_digit_char c \<longleftrightarrow> is_ascii_digit c \<or> char_code c \<in> {178, 179, 185}"

text \<open>\<open>not s.strip()\<close>: nothing but whitespace.\<close>

definition is_blank :: "string \<Rightarrow> bool" where
  "is_blank s \<longleftrightarrow> list_all is_space s"

text \<open>\<open>s.strip()\<close>.\<close>

definition py_strip :: "string \<Rightarrow> string" where
  "py_strip s = rev (dropWhile is_space (rev (dropWhile is_space s)))"

definition py_isdigit :: "string \<Rightarrow> bool" where
  "py_isdigit s \<longleftrightarrow> s \<noteq> [] \<and> list_all is_digit_char s"

fun digits_value :: "nat \<Rightarrow> string \<Rightarrow> nat" where
  "digits_value acc [] = acc"
| "digits_value acc (c # cs) = digits_value (acc * 10 + (char_code c - 48)) cs"

definition quote_char :: char where
  "quote_char = CHR 0x27"

text \<open>
  \<open>int(s)\<close> for a string that passed \<open>isdigit\<close>: the superscript digits are digits for
  \<open>isdigit\<close>, but \<open>int\<close> refuses them.
\<close>

definition py_int :: "string \<Rightarrow> nat res" where
  "py_int s =
     (if list_all is_ascii_digit s then Inr (digits_value 0 s)
      else Inl (ValueError (''invalid literal for int() with base 10: ''
                 @ [quote_char] @ s @ [quote_char])))"

fun str_of_nat :: "nat \<Rightarrow> string" where
  "str_of_nat n =
     (if n < 10 then [char_of (48 + n)]
      else str_of_nat (n div 10) @ [char_of (48 + n mod 10)])"

declare str_of_nat.simps [simp del]

definition str_of_int :: "int \<Rightarrow> string" where
  "str_of_int i = (if i < 0 then CHR ''-'' # str_of_nat (nat (- i)) else str_of_nat (nat i))"

lemma char_code_digit [simp]: "d < 10 \<Longrightarrow> char_code (char_of (48 + d)) = 48 + d"
  by (simp add: char_code_def)

lemma digits_value_append:
  "digits_value acc (xs @ ys) = digits_value (digits_value acc xs) ys"
  by (induction xs arbitrary: acc) auto

lemma str_of_nat_digits: "list_all is_ascii_digit (str_of_nat n)"
proof (induction n rule: str_of_nat.induct)
  case (1 n)
  then show ?case
    by (cases "n < 10") (simp_all add: str_of_nat.simps [of n] is_ascii_digit_def)
qed

lemma str_of_nat_nonempty [simp]: "str_of_nat n \<noteq> []" "[] \<noteq> str_of_nat n"
  by (simp_all add: str_of_nat.simps [of n])

lemma digits_value_str_of_nat: "digits_value 0 (str_of_nat n) = n"
proof (induction n rule: str_of_nat.induct)
  case (1 n)
  show ?case
  proof (cases "n < 10")
    case True
    then show ?thesis by (simp add: str_of_nat.simps [of n])
  next
    case False
    with 1 show ?thesis
      by (simp add: str_of_nat.simps [of n] digits_value_append)
  qed
qed

lemma str_of_nat_inject [simp]: "str_of_nat m = str_of_nat n \<longleftrightarrow> m = n"
  by (metis digits_value_str_of_nat)

lemma py_int_str_of_nat [simp]: "py_int (str_of_nat n) = Inr n"
  by (simp add: py_int_def str_of_nat_digits digits_value_str_of_nat)

lemma py_isdigit_str_of_nat [simp]: "py_isdigit (str_of_nat n)"
  using str_of_nat_digits [of n]
  by (auto simp: py_isdigit_def is_digit_char_def list_all_iff)

lemma char_of_digit_eq_zero: "d < 10 \<Longrightarrow> char_of (48 + d) = CHR ''0'' \<longleftrightarrow> d = (0::nat)"
proof
  assume d: "d < 10" and eq: "char_of (48 + d) = CHR ''0''"
  have "char_code (char_of (48 + d)) = char_code (CHR ''0'')"
    by (simp only: eq)
  with d show "d = 0" by (simp add: char_code_def)
next
  assume d: "d = 0"
  have "char_of (of_char (CHR ''0'') :: nat) = CHR ''0''" by (rule char_of_char)
  with d show "char_of (48 + d) = CHR ''0''" by simp
qed

lemma str_of_nat_no_leading_zero:
  "hd (str_of_nat n) = CHR ''0'' \<longleftrightarrow> n = 0"
proof (induction n rule: str_of_nat.induct)
  case (1 n)
  then show ?case
    by (cases "n < 10") (simp_all add: str_of_nat.simps [of n] char_of_digit_eq_zero)
qed

lemma str_of_nat_length_one: "length (str_of_nat n) = 1 \<longleftrightarrow> n < 10"
  by (cases "n < 10") (simp_all add: str_of_nat.simps [of n])

lemma str_of_int_nat: "0 \<le> i \<Longrightarrow> str_of_int i = str_of_nat (nat i)"
  by (simp add: str_of_int_def)

lemma str_of_int_of_nat [simp]: "str_of_int (int n) = str_of_nat n"
  by (simp add: str_of_int_def)

text \<open>Two f-strings that end in different decimal numbers after the same prefix differ.\<close>

lemma prefix_str_of_nat_inject [simp]:
  "p @ str_of_nat m = p @ str_of_nat n \<longleftrightarrow> m = n"
  by simp

section \<open>Exception messages\<close>

fun exn_class :: "exn \<Rightarrow> string" where
  "exn_class (TypeError _) = ''TypeError''"
| "exn_class (ValueError _) = ''ValueError''"
| "exn_class (RuntimeError _) = ''RuntimeError''"
| "exn_class (KeyError _) = ''KeyError''"
| "exn_class (CursorEpochMismatchError _) = ''CursorEpochMismatchError''"
| "exn_class (InvalidDispatchAuthorizationError _) = ''InvalidDispatchAuthorizationError''"
| "exn_class (InvalidReconciliationPreconditionError _) = ''InvalidReconciliationPreconditionError''"
| "exn_class (StateVersionConflictError _) = ''StateVersionConflictError''"
| "exn_class (TransitionFingerprintMismatchError _) = ''TransitionFingerprintMismatchError''"
| "exn_class (CommandDispositionConflictError _) = ''CommandDispositionConflictError''"
| "exn_class (RuntimeCommandAdmissionConflictError _) = ''RuntimeCommandAdmissionConflictError''"
| "exn_class (EffectMutationConflictError _) = ''EffectMutationConflictError''"
| "exn_class (RecoveryEvidenceConflictError _) = ''RecoveryEvidenceConflictError''"
| "exn_class (ExecutorAttemptConflictError _) = ''ExecutorAttemptConflictError''"
| "exn_class (ChildBindingConflictError _) = ''ChildBindingConflictError''"
| "exn_class (RecoveryLeaseConflictError _) = ''RecoveryLeaseConflictError''"
| "exn_class (StaleRecoveryGuardError _) = ''StaleRecoveryGuardError''"
| "exn_class (StaleMailboxCutError _ _) = ''StaleMailboxCutError''"
| "exn_class (SessionOwnershipConflictError _ _) = ''SessionOwnershipConflictError''"
| "exn_class (KeyExpiredError _ _ _) = ''KeyExpiredError''"
| "exn_class (UnknownRuntimeVersionError _) = ''UnknownRuntimeVersionError''"
| "exn_class (CrossVersionWriteError _) = ''CrossVersionWriteError''"
| "exn_class (NewRuntimeCheckpointRejectedError _) = ''NewRuntimeCheckpointRejectedError''"
| "exn_class (NewRuntimeSettledWriteError _) = ''NewRuntimeSettledWriteError''"
| "exn_class (OtherError c _) = c"
| "exn_class (RaisedFrom e _) = exn_class e"
| "exn_class CancelledError = ''CancelledError''"

text \<open>\<open>str(exc)\<close>; that of a \<open>KeyError\<close> is the \<open>repr\<close> of its key.\<close>

fun exn_str :: "exn \<Rightarrow> string" where
  "exn_str (TypeError m) = m"
| "exn_str (ValueError m) = m"
| "exn_str (RuntimeError m) = m"
| "exn_str (KeyError k) = [quote_char] @ k @ [quote_char]"
| "exn_str (CursorEpochMismatchError m) = m"
| "exn_str (InvalidDispatchAuthorizationError m) = m"
| "exn_str (InvalidReconciliationPreconditionError m) = m"
| "exn_str (StateVersionConflictError m) = m"
| "exn_str (TransitionFingerprintMismatchError m) = m"
| "exn_str (CommandDispositionConflictError m) = m"
| "exn_str (RuntimeCommandAdmissionConflictError m) = m"
| "exn_str (EffectMutationConflictError m) = m"
| "exn_str (RecoveryEvidenceConflictError m) = m"
| "exn_str (ExecutorAttemptConflictError m) = m"
| "exn_str (ChildBindingConflictError m) = m"
| "exn_str (RecoveryLeaseConflictError m) = m"
| "exn_str (StaleRecoveryGuardError m) = m"
| "exn_str (StaleMailboxCutError e c) =
     ''dispatch authorization mailbox cut is stale: expected '' @ str_of_int e
       @ '', current '' @ str_of_int c"
| "exn_str (SessionOwnershipConflictError m _) = m"
| "exn_str (KeyExpiredError s f c) =
     ''key expired for session '' @ s @ '': cursor '' @ c @ '' is below retention floor '' @ f"
| "exn_str (UnknownRuntimeVersionError m) = m"
| "exn_str (CrossVersionWriteError m) = m"
| "exn_str (NewRuntimeCheckpointRejectedError m) = m"
| "exn_str (NewRuntimeSettledWriteError m) = m"
| "exn_str (OtherError _ m) = m"
| "exn_str (RaisedFrom e _) = exn_str e"
| "exn_str CancelledError = []"

text \<open>The exception a handler matches: \<open>raise e from c\<close> is handled as \<open>e\<close>.\<close>

fun handled_as :: "exn \<Rightarrow> exn" where
  "handled_as (RaisedFrom e _) = handled_as e"
| "handled_as e = e"

end
