(* ===== verification/Py_Values.thy ===== *)
theory Py_Values
  imports Py_Prelude
begin

text \<open>
  The dynamically typed values the runtime stores in its JSON mappings, Python's equality on
  them, and the two normalisers of the code: \<open>_freeze_value\<close> / \<open>_freeze_mapping\<close> of
  \<open>agentkit/runtime/contracts.py\<close> and \<open>_plain_json\<close> of
  \<open>coding_agent/stores/rtstore/harness.py\<close>.

  A mapping (a \<open>dict\<close> or a \<open>MappingProxyType\<close> over one) is an association list in insertion
  order; \<open>PObj\<close> stands for any object that is not a JSON value.
\<close>

datatype pyfloat = FFinite rat | FInf | FNegInf | FNaN

datatype pyval =
    PNone
  | PBool bool
  | PInt int
  | PFloat pyfloat
  | PStr string
  | PTuple "pyval list"
  | PList "pyval list"
  | PDict "(pyval \<times> pyval) list"
  | PObj nat

type_synonym dict = "(pyval \<times> pyval) list"

section \<open>Tests on values\<close>

fun is_str :: "pyval \<Rightarrow> bool" where
  "is_str (PStr _) = True"
| "is_str _ = False"

fun is_dict :: "pyval \<Rightarrow> bool" where
  "is_dict (PDict _) = True"
| "is_dict _ = False"

text \<open>\<open>isinstance(v, int)\<close> holds of a bool too; the code refuses bools first.\<close>

fun as_plain_int :: "pyval \<Rightarrow> int option" where
  "as_plain_int (PInt i) = Some i"
| "as_plain_int _ = None"

fun as_str :: "pyval \<Rightarrow> string option" where
  "as_str (PStr s) = Some s"
| "as_str _ = None"

fun as_nonempty_str :: "pyval \<Rightarrow> string option" where
  "as_nonempty_str (PStr s) = (if s = [] then None else Some s)"
| "as_nonempty_str _ = None"

fun as_bool :: "pyval \<Rightarrow> bool option" where
  "as_bool (PBool b) = Some b"
| "as_bool _ = None"

fun as_dict :: "pyval \<Rightarrow> dict option" where
  "as_dict (PDict d) = Some d"
| "as_dict _ = None"

fun as_seq :: "pyval \<Rightarrow> pyval list option" where
  "as_seq (PTuple xs) = Some xs"
| "as_seq (PList xs) = Some xs"
| "as_seq _ = None"

fun as_list :: "pyval \<Rightarrow> pyval list option" where
  "as_list (PList xs) = Some xs"
| "as_list _ = None"

text \<open>Membership in a set literal hashes the value: a mapping or a list has no hash.\<close>

fun hashable :: "pyval \<Rightarrow> bool" where
  "hashable (PDict _) = False"
| "hashable (PList _) = False"
| "hashable (PTuple xs) = list_all hashable xs"
| "hashable _ = True"

text \<open>\<open>bool(v)\<close>; \<open>a or b\<close> on values.\<close>

fun truthy :: "pyval \<Rightarrow> bool" where
  "truthy PNone = False"
| "truthy (PBool b) = b"
| "truthy (PInt i) = (i \<noteq> 0)"
| "truthy (PFloat (FFinite q)) = (q \<noteq> 0)"
| "truthy (PFloat _) = True"
| "truthy (PStr s) = (s \<noteq> [])"
| "truthy (PTuple xs) = (xs \<noteq> [])"
| "truthy (PList xs) = (xs \<noteq> [])"
| "truthy (PDict d) = (d \<noteq> [])"
| "truthy (PObj _) = True"

definition or_val :: "pyval \<Rightarrow> pyval \<Rightarrow> pyval" where
  "or_val v w = (if truthy v then v else w)"

definition opt_str :: "string option \<Rightarrow> pyval" where
  "opt_str x = (case x of None \<Rightarrow> PNone | Some s \<Rightarrow> PStr s)"

lemma as_Some_iff [simp]:
  "as_plain_int v = Some i \<longleftrightarrow> v = PInt i"
  "as_str v = Some s \<longleftrightarrow> v = PStr s"
  "as_nonempty_str v = Some s \<longleftrightarrow> v = PStr s \<and> s \<noteq> []"
  "as_bool v = Some b \<longleftrightarrow> v = PBool b"
  "as_dict v = Some d \<longleftrightarrow> v = PDict d"
  "as_list v = Some xs \<longleftrightarrow> v = PList xs"
  by (cases v; auto)+

lemma as_seq_Some: "as_seq v = Some xs \<longleftrightarrow> v = PTuple xs \<or> v = PList xs"
  by (cases v) auto

lemma opt_str_simps [simp]:
  "opt_str None = PNone"
  "opt_str (Some s) = PStr s"
  by (simp_all add: opt_str_def)

section \<open>Dictionaries\<close>

text \<open>\<open>d.get(k)\<close>, \<open>d.get(k, default)\<close>, \<open>d[k] = v\<close>, \<open>d.pop(k, None)\<close> and \<open>{**d, **e}\<close>.\<close>

definition dict_find :: "dict \<Rightarrow> string \<Rightarrow> pyval option" where
  "dict_find d k = map_of d (PStr k)"

definition dict_get :: "dict \<Rightarrow> string \<Rightarrow> pyval" where
  "dict_get d k = (case dict_find d k of None \<Rightarrow> PNone | Some v \<Rightarrow> v)"

definition dict_get_or :: "dict \<Rightarrow> string \<Rightarrow> pyval \<Rightarrow> pyval" where
  "dict_get_or d k v0 = (case dict_find d k of None \<Rightarrow> v0 | Some v \<Rightarrow> v)"

definition dict_set :: "string \<Rightarrow> pyval \<Rightarrow> dict \<Rightarrow> dict" where
  "dict_set k v d = AList.update (PStr k) v d"

definition dict_pop :: "string \<Rightarrow> dict \<Rightarrow> dict" where
  "dict_pop k d = AList.delete (PStr k) d"

fun dict_union :: "dict \<Rightarrow> dict \<Rightarrow> dict" where
  "dict_union d [] = d"
| "dict_union d ((k, v) # e) = dict_union (AList.update k v d) e"

text \<open>A dict literal with string keys.\<close>

definition dict_of :: "(string \<times> pyval) list \<Rightarrow> dict" where
  "dict_of kvs = map (\<lambda>(k, v). (PStr k, v)) kvs"

lemma dict_find_dict_of [simp]: "dict_find (dict_of kvs) k = map_of kvs k"
  by (induction kvs) (auto simp: dict_find_def dict_of_def)

lemma dict_find_set [simp]:
  "dict_find (dict_set k v d) k' = (if k' = k then Some v else dict_find d k')"
  by (simp add: dict_find_def dict_set_def update_conv)

lemma dict_find_pop [simp]:
  "dict_find (dict_pop k d) k' = (if k' = k then None else dict_find d k')"
  by (simp add: dict_find_def dict_pop_def delete_conv)

lemma dict_find_Nil [simp]: "dict_find [] k = None"
  by (simp add: dict_find_def)

lemma dict_get_find: "dict_find d k = Some v \<Longrightarrow> dict_get d k = v"
  by (simp add: dict_get_def)

lemma dict_get_or_find: "dict_find d k = Some v \<Longrightarrow> dict_get_or d k w = v"
  by (simp add: dict_get_or_def)

lemma dict_get_set [simp]:
  "dict_get (dict_set k v d) k' = (if k' = k then v else dict_get d k')"
  by (simp add: dict_get_def)

lemma dict_get_pop [simp]:
  "dict_get (dict_pop k d) k' = (if k' = k then PNone else dict_get d k')"
  by (simp add: dict_get_def)

lemma dict_get_union:
  "dict_get (dict_union d e) k =
     (case map_of (rev e) (PStr k) of None \<Rightarrow> dict_get d k | Some v \<Rightarrow> v)"
proof (induction d e rule: dict_union.induct)
  case (2 d l v e)
  then show ?case
    by (auto simp: dict_get_def dict_find_def map_add_def update_conv split: option.splits)
qed simp

lemma map_of_rev_distinct: "distinct (map fst e) \<Longrightarrow> map_of (rev e) = map_of e"
  by (rule map_of_eqI) (auto simp: rev_map [symmetric] map_of_eq_Some_iff)

lemma dict_get_union_right:
  "distinct (map fst e) \<Longrightarrow> dict_find e k = Some v \<Longrightarrow> dict_get (dict_union d e) k = v"
  by (simp add: dict_get_union dict_find_def map_of_rev_distinct del: dict_union.simps)

lemma distinct_dict_set [simp]: "distinct (map fst d) \<Longrightarrow> distinct (map fst (dict_set k v d))"
  by (simp add: dict_set_def distinct_update)

lemma dict_get_or_set [simp]:
  "dict_get_or (dict_set k v d) k' w = (if k' = k then v else dict_get_or d k' w)"
  by (simp add: dict_get_or_def)

lemma dict_get_or_pop [simp]:
  "dict_get_or (dict_pop k d) k' w = (if k' = k then w else dict_get_or d k' w)"
  by (simp add: dict_get_or_def)

section \<open>Python equality\<close>

text \<open>
  \<open>==\<close> on values: bools, ints and finite floats compare as numbers, a tuple never equals a
  list, and mappings compare by content whatever their order. Keys are compared
  structurally: the mappings the program compares have string keys.
\<close>

fun as_number :: "pyval \<Rightarrow> rat option" where
  "as_number (PBool b) = Some (if b then 1 else 0)"
| "as_number (PInt i) = Some (of_int i)"
| "as_number (PFloat (FFinite q)) = Some q"
| "as_number _ = None"

fun py_eq :: "pyval \<Rightarrow> pyval \<Rightarrow> bool"
  and py_eq_seq :: "pyval list \<Rightarrow> pyval list \<Rightarrow> bool"
  and py_eq_items :: "dict \<Rightarrow> dict \<Rightarrow> bool" where
  "py_eq (PTuple xs) v = (case v of PTuple ys \<Rightarrow> py_eq_seq xs ys | _ \<Rightarrow> False)"
| "py_eq (PList xs) v = (case v of PList ys \<Rightarrow> py_eq_seq xs ys | _ \<Rightarrow> False)"
| "py_eq (PDict d) v =
     (case v of PDict e \<Rightarrow> length d = length e \<and> py_eq_items d e | _ \<Rightarrow> False)"
| "py_eq PNone v = (v = PNone)"
| "py_eq (PStr s) v = (v = PStr s)"
| "py_eq (PObj n) v = (v = PObj n)"
| "py_eq (PFloat FNaN) v = False"
| "py_eq (PFloat FInf) v = (v = PFloat FInf)"
| "py_eq (PFloat FNegInf) v = (v = PFloat FNegInf)"
| "py_eq (PFloat (FFinite q)) v = (as_number v = Some q)"
| "py_eq (PBool b) v = (as_number v = Some (if b then 1 else 0))"
| "py_eq (PInt i) v = (as_number v = Some (of_int i))"
| "py_eq_seq [] ys = (ys = [])"
| "py_eq_seq (x # xs) ys = (case ys of [] \<Rightarrow> False | y # ys' \<Rightarrow> py_eq x y \<and> py_eq_seq xs ys')"
| "py_eq_items [] e = True"
| "py_eq_items ((k, x) # d) e =
     ((case map_of e k of None \<Rightarrow> False | Some y \<Rightarrow> py_eq x y) \<and> py_eq_items d e)"

lemma py_eq_PStr [simp]: "py_eq v (PStr s) \<longleftrightarrow> v = PStr s"
  by (cases v rule: pyval.exhaust) (auto elim: py_eq.elims split: pyval.splits)

lemma py_eq_PNone [simp]: "py_eq v PNone \<longleftrightarrow> v = PNone"
  by (cases v rule: pyval.exhaust) (auto elim: py_eq.elims split: pyval.splits)

section \<open>Freezing a contract value\<close>

text \<open>
  \<open>_freeze_value\<close>: mappings need string keys, tuples and lists both become tuples, a
  non-finite float is refused, everything that is not a JSON value is refused.
\<close>

fun freeze_value :: "pyval \<Rightarrow> pyval res"
  and freeze_seq :: "pyval list \<Rightarrow> pyval list res"
  and freeze_items :: "dict \<Rightarrow> dict res" where
  "freeze_value (PDict d) =
     (if list_ex (\<lambda>(k, _). \<not> is_str k) d
      then Inl (TypeError ''runtime contract mapping keys must be strings'')
      else map_res PDict (freeze_items d))"
| "freeze_value (PTuple xs) = map_res PTuple (freeze_seq xs)"
| "freeze_value (PList xs) = map_res PTuple (freeze_seq xs)"
| "freeze_value (PFloat f) =
     (case f of FFinite _ \<Rightarrow> Inr (PFloat f)
      | _ \<Rightarrow> Inl (ValueError ''runtime contract values must contain finite floats''))"
| "freeze_value PNone = Inr PNone"
| "freeze_value (PBool b) = Inr (PBool b)"
| "freeze_value (PInt i) = Inr (PInt i)"
| "freeze_value (PStr s) = Inr (PStr s)"
| "freeze_value (PObj _) =
     Inl (TypeError ''runtime contract values must contain host-neutral JSON values'')"
| "freeze_seq [] = Inr []"
| "freeze_seq (x # xs) =
     bind_res (freeze_value x) (\<lambda>y. bind_res (freeze_seq xs) (\<lambda>ys. Inr (y # ys)))"
| "freeze_items [] = Inr []"
| "freeze_items ((k, x) # d) =
     bind_res (freeze_value x) (\<lambda>y. bind_res (freeze_items d) (\<lambda>e. Inr ((k, y) # e)))"

definition freeze_mapping :: "string \<Rightarrow> dict \<Rightarrow> dict res" where
  "freeze_mapping field_name d =
     (if list_ex (\<lambda>(k, _). \<not> is_str k) d
      then Inl (TypeError (field_name @ '' keys must be strings''))
      else freeze_items d)"

text \<open>What a frozen value looks like: string keys, tuples only, finite floats, no objects.\<close>

fun frozen :: "pyval \<Rightarrow> bool"
  and frozen_seq :: "pyval list \<Rightarrow> bool"
  and frozen_dict :: "dict \<Rightarrow> bool" where
  "frozen (PDict d) = frozen_dict d"
| "frozen (PTuple xs) = frozen_seq xs"
| "frozen (PList xs) = False"
| "frozen (PFloat f) = (case f of FFinite _ \<Rightarrow> True | _ \<Rightarrow> False)"
| "frozen PNone = True"
| "frozen (PBool b) = True"
| "frozen (PInt i) = True"
| "frozen (PStr s) = True"
| "frozen (PObj n) = False"
| "frozen_seq [] = True"
| "frozen_seq (x # xs) = (frozen x \<and> frozen_seq xs)"
| "frozen_dict [] = True"
| "frozen_dict ((k, x) # d) = (is_str k \<and> frozen x \<and> frozen_dict d)"

lemma frozen_seq_all: "frozen_seq xs \<longleftrightarrow> list_all frozen xs"
  by (induction xs) auto

lemma frozen_dict_all: "frozen_dict d \<longleftrightarrow> (\<forall>(k, x) \<in> set d. is_str k \<and> frozen x)"
  by (induction d) auto

lemma frozen_dict_keys: "frozen_dict d \<Longrightarrow> \<not> list_ex (\<lambda>(k, _). \<not> is_str k) d"
  by (induction d) auto

lemma freeze_items_keys:
  "freeze_items d = Inr e \<Longrightarrow> map fst e = map fst d"
  by (induction d arbitrary: e) (auto simp: res_simps)

lemma list_ex_keys_cong:
  fixes d e :: dict
  assumes "map fst d = map fst e"
  shows "list_ex (\<lambda>(k, _). \<not> is_str k) d \<longleftrightarrow> list_ex (\<lambda>(k, _). \<not> is_str k) e"
proof -
  have keys: "list_ex (\<lambda>(k, _). \<not> is_str k) d \<longleftrightarrow> list_ex (\<lambda>k. \<not> is_str k) (map fst d)"
    for d :: dict
    by (induction d) auto
  show ?thesis by (simp only: keys assms)
qed

text \<open>Freezing keeps a frozen value as it is, and its result is always frozen.\<close>

lemma freeze_frozen_id:
  "frozen v \<Longrightarrow> freeze_value v = Inr v"
  "frozen_seq xs \<Longrightarrow> freeze_seq xs = Inr xs"
  "frozen_dict d \<Longrightarrow> freeze_items d = Inr d"
  by (induction v and xs and d rule: freeze_value_freeze_seq_freeze_items.induct)
     (auto dest: frozen_dict_keys split: pyfloat.splits)

lemma freeze_result_frozen:
  "freeze_value v = Inr w \<Longrightarrow> frozen w"
  "freeze_seq xs = Inr ys \<Longrightarrow> frozen_seq ys"
  "freeze_items d = Inr e \<Longrightarrow> \<not> list_ex (\<lambda>(k, _). \<not> is_str k) d \<Longrightarrow> frozen_dict e"
  by (induction v and xs and d arbitrary: w and ys and e
        rule: freeze_value_freeze_seq_freeze_items.induct)
     (auto simp: res_simps split: pyfloat.splits if_splits)

lemma freeze_mapping_frozen:
  "freeze_mapping f d = Inr e \<Longrightarrow> frozen_dict e"
  by (auto simp: freeze_mapping_def intro: freeze_result_frozen split: if_splits)

lemma freeze_mapping_id [simp]: "frozen_dict d \<Longrightarrow> freeze_mapping f d = Inr d"
  by (simp add: freeze_mapping_def frozen_dict_keys freeze_frozen_id)

lemma freeze_items_find:
  "freeze_items d = Inr e \<Longrightarrow>
     (case dict_find d k of None \<Rightarrow> dict_find e k = None
      | Some v \<Rightarrow> \<exists>w. dict_find e k = Some w \<and> freeze_value v = Inr w)"
  by (induction d arbitrary: e) (auto simp: dict_find_def res_simps split: option.splits)

lemma frozen_find: "frozen_dict d \<Longrightarrow> dict_find d k = Some v \<Longrightarrow> frozen v"
  by (induction d) (auto simp: dict_find_def split: if_splits)

lemma frozen_get: "frozen_dict d \<Longrightarrow> frozen (dict_get d k)"
  by (auto simp: dict_get_def dest: frozen_find split: option.splits)

lemma frozen_dict_set [simp]: "frozen_dict d \<Longrightarrow> frozen v \<Longrightarrow> frozen_dict (dict_set k v d)"
proof (induction d)
  case Nil
  then show ?case by (simp add: dict_set_def)
next
  case (Cons p d)
  then show ?case by (cases p) (auto simp: dict_set_def)
qed

lemma frozen_dict_pop [simp]: "frozen_dict d \<Longrightarrow> frozen_dict (dict_pop k d)"
  by (induction d) (auto simp: dict_pop_def)

lemma frozen_dict_of [simp]:
  "frozen_dict (dict_of kvs) \<longleftrightarrow> list_all (\<lambda>(k, v). frozen v) kvs"
  by (induction kvs) (auto simp: dict_of_def)

lemma frozen_opt_str [simp]: "frozen (opt_str x)"
  by (cases x) simp_all

section \<open>Plain JSON\<close>

text \<open>\<open>_plain_json\<close>: the same recursion, with lists in place of tuples.\<close>

fun plain_json :: "pyval \<Rightarrow> pyval res"
  and plain_seq :: "pyval list \<Rightarrow> pyval list res"
  and plain_items :: "dict \<Rightarrow> dict res" where
  "plain_json (PDict d) =
     (if list_ex (\<lambda>(k, _). \<not> is_str k) d
      then Inl (TypeError ''transition mutation mapping keys must be strings'')
      else map_res PDict (plain_items d))"
| "plain_json (PTuple xs) = map_res PList (plain_seq xs)"
| "plain_json (PList xs) = map_res PList (plain_seq xs)"
| "plain_json (PFloat f) =
     (case f of FFinite _ \<Rightarrow> Inr (PFloat f)
      | _ \<Rightarrow> Inl (ValueError ''transition mutation contains a non-finite float''))"
| "plain_json PNone = Inr PNone"
| "plain_json (PBool b) = Inr (PBool b)"
| "plain_json (PInt i) = Inr (PInt i)"
| "plain_json (PStr s) = Inr (PStr s)"
| "plain_json (PObj _) =
     Inl (TypeError ''transition mutation contains a non-JSON value'')"
| "plain_seq [] = Inr []"
| "plain_seq (x # xs) =
     bind_res (plain_json x) (\<lambda>y. bind_res (plain_seq xs) (\<lambda>ys. Inr (y # ys)))"
| "plain_items [] = Inr []"
| "plain_items ((k, x) # d) =
     bind_res (plain_json x) (\<lambda>y. bind_res (plain_items d) (\<lambda>e. Inr ((k, y) # e)))"

lemma plain_items_keys:
  "plain_items d = Inr e \<Longrightarrow> map fst e = map fst d"
  by (induction d arbitrary: e) (auto simp: res_simps)

text \<open>A frozen value always has a plain form, and freezing that form gives the value back.\<close>

lemma freeze_plain_roundtrip:
  "frozen v \<Longrightarrow> \<exists>p. plain_json v = Inr p \<and> freeze_value p = Inr v"
  "frozen_seq xs \<Longrightarrow> \<exists>ps. plain_seq xs = Inr ps \<and> freeze_seq ps = Inr xs"
  "frozen_dict d \<Longrightarrow> \<exists>e. plain_items d = Inr e \<and> freeze_items e = Inr d"
proof (induction v and xs and d rule: plain_json_plain_seq_plain_items.induct)
  case (1 d)
  then have keys: "\<not> list_ex (\<lambda>(k, _). \<not> is_str k) d"
    by (simp add: frozen_dict_keys)
  with 1 obtain e where e: "plain_items d = Inr e" "freeze_items e = Inr d"
    by auto
  have "\<not> list_ex (\<lambda>(k, _). \<not> is_str k) e"
    using keys list_ex_keys_cong [OF plain_items_keys [OF e(1)]] by simp
  with keys e show ?case by auto
qed (auto split: pyfloat.splits)

end
