(* ===== verification/Contracts_Base.thy ===== *)
theory Contracts_Base
  imports Py_Values
begin

text \<open>
  \<open>agentkit/runtime/contracts.py\<close>, first part: the field validators, the committed state and
  its commit reference, commands and their dispositions, effect plans, the effect status
  lifecycle and its mutations, stream frames, committed facts and transition receipts.

  A dataclass is a \<open>record\<close> (its fields carry a short prefix, because record fields are global
  names) and its \<open>__post_init__\<close> is \<open><Class>_init\<close>: it takes the record as the caller filled it
  and returns the validated, frozen record or the exception. So \<open>replace(x, f=v)\<close> is
  \<open><Class>_init (x\<lparr>f := v\<rparr>)\<close>. The \<open>isinstance\<close> tests of typed fields hold by typing; those
  on values read back from JSON mappings are in the model.
\<close>

section \<open>Field validators\<close>

definition require_non_empty :: "string \<Rightarrow> string \<Rightarrow> check" where
  "require_non_empty field_name value =
     fails_when (value = []) (ValueError (field_name @ '' must be non-empty''))"

definition require_non_blank :: "string \<Rightarrow> string \<Rightarrow> check" where
  "require_non_blank field_name value =
     (case require_non_empty field_name value of
        Some e \<Rightarrow> Some e
      | None \<Rightarrow> fails_when (is_blank value) (ValueError (field_name @ '' must not be blank'')))"

definition require_non_negative_int :: "string \<Rightarrow> int \<Rightarrow> check" where
  "require_non_negative_int field_name value =
     fails_when (value < 0) (ValueError (field_name @ '' must be non-negative''))"

definition require_positive_int :: "string \<Rightarrow> int \<Rightarrow> check" where
  "require_positive_int field_name value =
     (case require_non_negative_int field_name value of
        Some e \<Rightarrow> Some e
      | None \<Rightarrow> fails_when (value = 0) (ValueError (field_name @ '' must be positive'')))"

definition require_optional_sequence :: "string option \<Rightarrow> string \<Rightarrow> check" where
  "require_optional_sequence value field_name =
     (case value of
        None \<Rightarrow> None
      | Some s \<Rightarrow>
          (if \<not> py_isdigit s
           then Some (ValueError (field_name @ '' must be a positive decimal string''))
           else case py_int s of
                  Inl e \<Rightarrow> Some e
                | Inr n \<Rightarrow>
                    fails_when (n = 0)
                      (ValueError (field_name @ '' must be a positive decimal string''))))"

lemma require_non_empty_None [simp]: "require_non_empty f s = None \<longleftrightarrow> s \<noteq> []"
  by (simp add: require_non_empty_def)

lemma require_non_empty_Some [simp]:
  "require_non_empty f s = Some e \<longleftrightarrow> s = [] \<and> e = ValueError (f @ '' must be non-empty'')"
  by (simp add: require_non_empty_def)

lemma is_blank_Nil [simp]: "is_blank []"
  by (simp add: is_blank_def)

lemma require_non_blank_None [simp]: "require_non_blank f s = None \<longleftrightarrow> \<not> is_blank s"
  by (auto simp: require_non_blank_def require_non_empty_def fails_when_def)

lemma require_non_negative_int_None [simp]: "require_non_negative_int f i = None \<longleftrightarrow> 0 \<le> i"
  by (simp add: require_non_negative_int_def not_less)

lemma require_positive_int_None [simp]: "require_positive_int f i = None \<longleftrightarrow> 0 < i"
  by (auto simp: require_positive_int_def require_non_negative_int_def fails_when_def)

lemma require_optional_sequence_None [simp]:
  "require_optional_sequence None f = None"
  "require_optional_sequence (Some s) f = None \<longleftrightarrow>
     py_isdigit s \<and> (\<exists>n. py_int s = Inr n \<and> 0 < n)"
  by (auto simp: require_optional_sequence_def split: sum.splits)

lemma not_blank_nonempty: "\<not> is_blank s \<Longrightarrow> s \<noteq> []"
  by auto

section \<open>Committed state\<close>

record CommitRef =
  cr_transition_id :: string
  cr_fact_seq_start :: "string option"
  cr_fact_seq_end :: "string option"

definition CommitRef_init :: "CommitRef \<Rightarrow> CommitRef res" where
  "CommitRef_init c =
     checks
       [require_non_empty ''transition_id'' (cr_transition_id c),
        require_optional_sequence (cr_fact_seq_start c) ''fact_seq_start'',
        require_optional_sequence (cr_fact_seq_end c) ''fact_seq_end'',
        fails_when ((cr_fact_seq_start c = None) \<noteq> (cr_fact_seq_end c = None))
          (ValueError ''fact sequence bounds must both be set or both be absent''),
        (case (cr_fact_seq_start c, cr_fact_seq_end c) of
           (Some s, Some e) \<Rightarrow>
             (case (py_int s, py_int e) of
                (Inr m, Inr n) \<Rightarrow>
                  fails_when (m > n) (ValueError ''fact_seq_start must not exceed fact_seq_end'')
              | _ \<Rightarrow> None)
         | _ \<Rightarrow> None)]
       c"

record OperationStateCAS =
  cas_run_id :: string
  cas_revision :: int
  cas_projection_epoch :: int

definition OperationStateCAS_init :: "OperationStateCAS \<Rightarrow> OperationStateCAS res" where
  "OperationStateCAS_init c =
     checks
       [require_non_empty ''run_id'' (cas_run_id c),
        require_non_negative_int ''revision'' (cas_revision c),
        require_non_negative_int ''projection_epoch'' (cas_projection_epoch c)]
       c"

record OperationStateVersion =
  osv_run_id :: string
  osv_revision :: int
  osv_projection_epoch :: int
  osv_commit_ref :: CommitRef
  osv_value :: dict

definition OperationStateVersion_init ::
    "OperationStateVersion \<Rightarrow> OperationStateVersion res" where
  "OperationStateVersion_init v =
     bind_res
       (checks
          [require_non_empty ''run_id'' (osv_run_id v),
           require_non_negative_int ''revision'' (osv_revision v),
           require_non_negative_int ''projection_epoch'' (osv_projection_epoch v)]
          v)
       (\<lambda>v. map_res (\<lambda>m. v\<lparr>osv_value := m\<rparr>) (freeze_mapping ''value'' (osv_value v)))"

definition osv_cas :: "OperationStateVersion \<Rightarrow> OperationStateCAS res" where
  "osv_cas v =
     OperationStateCAS_init
       \<lparr>cas_run_id = osv_run_id v, cas_revision = osv_revision v,
        cas_projection_epoch = osv_projection_epoch v\<rparr>"

section \<open>Commands\<close>

record RuntimeCommand =
  cmd_command_id :: string
  cmd_command_kind :: string
  cmd_payload :: dict

definition RuntimeCommand_init :: "RuntimeCommand \<Rightarrow> RuntimeCommand res" where
  "RuntimeCommand_init c =
     bind_res
       (checks
          [require_non_empty ''command_id'' (cmd_command_id c),
           require_non_empty ''command_kind'' (cmd_command_kind c)]
          c)
       (\<lambda>c. map_res (\<lambda>m. c\<lparr>cmd_payload := m\<rparr>) (freeze_mapping ''payload'' (cmd_payload c)))"

datatype CommandDispositionKind = CDK_APPLIED | CDK_REJECTED | CDK_SUPERSEDED

fun disposition_kind_value :: "CommandDispositionKind \<Rightarrow> string" where
  "disposition_kind_value CDK_APPLIED = ''applied''"
| "disposition_kind_value CDK_REJECTED = ''rejected''"
| "disposition_kind_value CDK_SUPERSEDED = ''superseded''"

text \<open>The three disposition classes: command id, and the reason or the superseding command.\<close>

datatype CommandDisposition =
    AppliedCommandDisposition (disp_command_id: string)
  | RejectedCommandDisposition (disp_command_id: string) (disp_reason_code: string)
  | SupersededCommandDisposition (disp_command_id: string) (disp_superseded_by: string)

fun disp_kind :: "CommandDisposition \<Rightarrow> CommandDispositionKind" where
  "disp_kind (AppliedCommandDisposition _) = CDK_APPLIED"
| "disp_kind (RejectedCommandDisposition _ _) = CDK_REJECTED"
| "disp_kind (SupersededCommandDisposition _ _) = CDK_SUPERSEDED"

fun CommandDisposition_init :: "CommandDisposition \<Rightarrow> CommandDisposition res" where
  "CommandDisposition_init (AppliedCommandDisposition c) =
     checks [require_non_empty ''command_id'' c] (AppliedCommandDisposition c)"
| "CommandDisposition_init (RejectedCommandDisposition c r) =
     checks [require_non_empty ''command_id'' c, require_non_empty ''reason_code'' r]
       (RejectedCommandDisposition c r)"
| "CommandDisposition_init (SupersededCommandDisposition c s) =
     checks
       [require_non_empty ''command_id'' c,
        require_non_empty ''superseded_by_command_id'' s,
        fails_when (c = s) (ValueError ''a command cannot supersede itself'')]
       (SupersededCommandDisposition c s)"

section \<open>Facts and effect plans\<close>

record PendingFact =
  pf_fact_id :: string
  pf_fact_kind :: string
  pf_payload :: dict

definition PendingFact_init :: "PendingFact \<Rightarrow> PendingFact res" where
  "PendingFact_init f =
     bind_res
       (checks
          [require_non_empty ''fact_id'' (pf_fact_id f),
           require_non_empty ''fact_kind'' (pf_fact_kind f)]
          f)
       (\<lambda>f. map_res (\<lambda>m. f\<lparr>pf_payload := m\<rparr>) (freeze_mapping ''payload'' (pf_payload f)))"

text \<open>
  \<open>requires_approval\<close> and \<open>approval_request_id\<close> go together; the same test is in
  \<open>EffectPlan\<close> and in \<open>ModelToolCall\<close>.
\<close>

definition approval_pair_checks :: "bool \<Rightarrow> string option \<Rightarrow> check list" where
  "approval_pair_checks requires_approval approval_request_id =
     [check_if requires_approval
        (case approval_request_id of
           None \<Rightarrow> Some (ValueError ''approval_request_id is required when requires_approval is true'')
         | Some a \<Rightarrow> require_non_empty ''approval_request_id'' a),
      check_if (\<not> requires_approval)
        (fails_when (approval_request_id \<noteq> None)
           (ValueError ''approval_request_id is valid only when requires_approval is true''))]"

definition approval_pair_ok :: "bool \<Rightarrow> string option \<Rightarrow> bool" where
  "approval_pair_ok req a \<longleftrightarrow> (if req then \<exists>s. a = Some s \<and> s \<noteq> [] else a = None)"

lemma approval_pair_checks_pass [simp]:
  "list_all (\<lambda>c. c = None) (approval_pair_checks req a) \<longleftrightarrow> approval_pair_ok req a"
  by (cases a) (auto simp: approval_pair_checks_def approval_pair_ok_def)

record EffectPlan =
  plan_effect_id :: string
  plan_attempt_id :: string
  plan_effect_kind :: string
  plan_payload :: dict
  plan_idempotency_key :: "string option"
  plan_requires_approval :: bool
  plan_approval_request_id :: "string option"

definition EffectPlan_init :: "EffectPlan \<Rightarrow> EffectPlan res" where
  "EffectPlan_init p =
     bind_res
       (checks
          ([require_non_empty ''effect_id'' (plan_effect_id p),
            require_non_empty ''attempt_id'' (plan_attempt_id p),
            require_non_empty ''effect_kind'' (plan_effect_kind p),
            when_some (plan_idempotency_key p) (require_non_empty ''idempotency_key'')]
           @ approval_pair_checks (plan_requires_approval p) (plan_approval_request_id p))
          p)
       (\<lambda>p. map_res (\<lambda>m. p\<lparr>plan_payload := m\<rparr>) (freeze_mapping ''payload'' (plan_payload p)))"

section \<open>The effect lifecycle\<close>

datatype EffectStatus = PREPARED | REJECTED | DISPATCHED | COMPLETED | FAILED | UNKNOWN

fun effect_status_value :: "EffectStatus \<Rightarrow> string" where
  "effect_status_value PREPARED = ''prepared''"
| "effect_status_value REJECTED = ''rejected''"
| "effect_status_value DISPATCHED = ''dispatched''"
| "effect_status_value COMPLETED = ''completed''"
| "effect_status_value FAILED = ''failed''"
| "effect_status_value UNKNOWN = ''unknown''"

datatype ReconciliationOutcome = RO_COMPLETED | RO_FAILED

fun reconciliation_outcome_value :: "ReconciliationOutcome \<Rightarrow> string" where
  "reconciliation_outcome_value RO_COMPLETED = ''completed''"
| "reconciliation_outcome_value RO_FAILED = ''failed''"

record ReconciliationRecord =
  rec_effect_id :: string
  rec_attempt_id :: string
  rec_observed_outcome :: ReconciliationOutcome
  rec_evidence_ref :: string
  rec_actor_id :: string
  rec_owner_epoch :: int
  rec_transition_id :: string

definition ReconciliationRecord_init ::
    "ReconciliationRecord \<Rightarrow> ReconciliationRecord res" where
  "ReconciliationRecord_init r =
     checks
       [require_non_empty ''effect_id'' (rec_effect_id r),
        require_non_empty ''attempt_id'' (rec_attempt_id r),
        require_non_empty ''evidence_ref'' (rec_evidence_ref r),
        require_non_empty ''actor_id'' (rec_actor_id r),
        require_positive_int ''owner_epoch'' (rec_owner_epoch r),
        require_non_empty ''transition_id'' (rec_transition_id r)]
       r"

definition legal_effect_transitions :: "(EffectStatus \<times> EffectStatus) list" where
  "legal_effect_transitions =
     [(PREPARED, REJECTED), (PREPARED, DISPATCHED), (DISPATCHED, COMPLETED),
      (DISPATCHED, FAILED), (DISPATCHED, UNKNOWN), (UNKNOWN, COMPLETED), (UNKNOWN, FAILED)]"

record EffectMutation =
  mut_effect_id :: string
  mut_attempt_id :: string
  mut_status :: EffectStatus
  mut_payload :: dict
  mut_expected_status :: "EffectStatus option"
  mut_reconciliation :: "ReconciliationRecord option"

definition EffectMutation_init :: "EffectMutation \<Rightarrow> EffectMutation res" where
  "EffectMutation_init m =
     bind_res
       (checks
          [require_non_empty ''effect_id'' (mut_effect_id m),
           require_non_empty ''attempt_id'' (mut_attempt_id m),
           (case mut_expected_status m of
              None \<Rightarrow>
                fails_when (mut_status m \<noteq> PREPARED)
                  (ValueError ''a new effect must enter the prepared state'')
            | Some s \<Rightarrow>
                fails_when ((s, mut_status m) \<notin> set legal_effect_transitions)
                  (ValueError (''invalid effect transition: '' @ effect_status_value s
                     @ '' -> '' @ effect_status_value (mut_status m)))),
           (if mut_expected_status m = Some UNKNOWN
            then case mut_reconciliation m of
                   None \<Rightarrow>
                     Some (ValueError ''unknown effect settlement requires a reconciliation record'')
                 | Some r \<Rightarrow>
                     (if rec_effect_id r \<noteq> mut_effect_id m
                      then Some (ValueError ''reconciliation effect_id must match effect mutation'')
                      else if rec_attempt_id r \<noteq> mut_attempt_id m
                      then Some (ValueError ''reconciliation attempt_id must match effect mutation'')
                      else fails_when
                             (reconciliation_outcome_value (rec_observed_outcome r)
                                \<noteq> effect_status_value (mut_status m))
                             (ValueError ''reconciliation outcome must match effect mutation status''))
            else fails_when (mut_reconciliation m \<noteq> None)
                   (ValueError ''reconciliation is valid only for an unknown effect settlement''))]
          m)
       (\<lambda>m. map_res (\<lambda>d. m\<lparr>mut_payload := d\<rparr>) (freeze_mapping ''payload'' (mut_payload m)))"

definition EffectMutation_prepare :: "EffectPlan \<Rightarrow> EffectMutation res" where
  "EffectMutation_prepare plan =
     EffectMutation_init
       \<lparr>mut_effect_id = plan_effect_id plan,
        mut_attempt_id = plan_attempt_id plan,
        mut_status = PREPARED,
        mut_payload = dict_of
          [(''effect_kind'', PStr (plan_effect_kind plan)),
           (''payload'', PDict (plan_payload plan)),
           (''idempotency_key'', opt_str (plan_idempotency_key plan))],
        mut_expected_status = None,
        mut_reconciliation = None\<rparr>"

section \<open>Frames, notices and receipts\<close>

datatype StreamFrameKind = TOKEN_DELTA | THINKING_DELTA | HEARTBEAT

record StreamFrame =
  frame_frame_id :: string
  frame_kind :: StreamFrameKind
  frame_payload :: dict

definition StreamFrame_init :: "StreamFrame \<Rightarrow> StreamFrame res" where
  "StreamFrame_init f =
     bind_res (checks [require_non_empty ''frame_id'' (frame_frame_id f)] f)
       (\<lambda>f. bind_res (freeze_mapping ''payload'' (frame_payload f))
         (\<lambda>m. checks
            [fails_when (dict_find m ''tool_calls'' \<noteq> None \<or> dict_find m ''usage'' \<noteq> None)
               (ValueError ''StreamFrame cannot carry tool calls or usage'')]
            (f\<lparr>frame_payload := m\<rparr>)))"

record CommittedFactNotice =
  notice_fact_id :: string
  notice_fact_kind :: string
  notice_payload :: dict
  notice_session_seq :: "string option"
  notice_projection_epoch :: "int option"
  notice_event_record_id :: "string option"

definition CommittedFactNotice_init :: "CommittedFactNotice \<Rightarrow> CommittedFactNotice res" where
  "CommittedFactNotice_init n =
     bind_res
       (checks
          [require_non_empty ''fact_id'' (notice_fact_id n),
           require_non_empty ''fact_kind'' (notice_fact_kind n),
           require_optional_sequence (notice_session_seq n) ''session_seq'',
           when_some (notice_projection_epoch n) (require_non_negative_int ''projection_epoch''),
           when_some (notice_event_record_id n) (require_non_empty ''event_record_id'')]
          n)
       (\<lambda>n. map_res (\<lambda>m. n\<lparr>notice_payload := m\<rparr>)
               (freeze_mapping ''payload'' (notice_payload n)))"

record TransitionReceipt =
  rcpt_session_id :: string
  rcpt_projection_epoch :: int
  rcpt_transition_id :: string
  rcpt_mutation_fingerprint :: string
  rcpt_state_version :: OperationStateVersion
  rcpt_facts :: "CommittedFactNotice list"
  rcpt_effect_plans :: "EffectPlan list"

definition TransitionReceipt_init :: "TransitionReceipt \<Rightarrow> TransitionReceipt res" where
  "TransitionReceipt_init r =
     checks
       [require_non_empty ''session_id'' (rcpt_session_id r),
        require_non_negative_int ''projection_epoch'' (rcpt_projection_epoch r),
        require_non_empty ''transition_id'' (rcpt_transition_id r),
        require_non_empty ''mutation_fingerprint'' (rcpt_mutation_fingerprint r),
        fails_when (osv_projection_epoch (rcpt_state_version r) \<noteq> rcpt_projection_epoch r)
          (ValueError ''state_version projection_epoch must match receipt''),
        fails_when
          (cr_transition_id (osv_commit_ref (rcpt_state_version r)) \<noteq> rcpt_transition_id r)
          (ValueError ''state_version transition_id must match receipt''),
        fails_when
          (list_ex (\<lambda>n. case notice_projection_epoch n of None \<Rightarrow> False
                        | Some e \<Rightarrow> e \<noteq> rcpt_projection_epoch r) (rcpt_facts r))
          (ValueError ''fact projection_epoch must match receipt''),
        fails_when (\<not> distinct (map plan_effect_id (rcpt_effect_plans r)))
          (ValueError ''effect_plans must contain unique effect identities'')]
       r"

lemmas base_init_defs [init_defs] =
  CommitRef_init_def OperationStateCAS_init_def OperationStateVersion_init_def
  RuntimeCommand_init_def PendingFact_init_def EffectPlan_init_def
  ReconciliationRecord_init_def EffectMutation_init_def StreamFrame_init_def
  CommittedFactNotice_init_def TransitionReceipt_init_def

section \<open>What the constructors guarantee\<close>

text \<open>A constructed effect plan: identities present, approval fields paired, payload frozen.\<close>

definition plan_ok :: "EffectPlan \<Rightarrow> bool" where
  "plan_ok p \<longleftrightarrow>
     plan_effect_id p \<noteq> [] \<and> plan_attempt_id p \<noteq> [] \<and> plan_effect_kind p \<noteq> [] \<and>
     plan_idempotency_key p \<noteq> Some [] \<and>
     approval_pair_ok (plan_requires_approval p) (plan_approval_request_id p) \<and>
     frozen_dict (plan_payload p)"

lemma EffectPlan_init_ok [init_dests]: "EffectPlan_init p = Inr q \<Longrightarrow> plan_ok q"
  by (cases "plan_idempotency_key p")
     (auto simp: EffectPlan_init_def plan_ok_def res_simps dest: freeze_mapping_frozen)

lemma EffectPlan_init_id: "plan_ok p \<Longrightarrow> EffectPlan_init p = Inr p"
  by (cases "plan_idempotency_key p")
     (auto simp: EffectPlan_init_def plan_ok_def res_simps)

lemma EffectPlan_init_iff:
  "frozen_dict (plan_payload p) \<Longrightarrow> is_ok (EffectPlan_init p) \<longleftrightarrow> plan_ok p"
  by (cases "plan_idempotency_key p")
     (auto simp: EffectPlan_init_def plan_ok_def is_ok_iff res_simps)

end
