(* ===== verification/Contracts_Steps.thy ===== *)
theory Contracts_Steps
  imports Contracts_Base
begin

text \<open>
  \<open>agentkit/runtime/contracts.py\<close>, second part: model requests and results, settlements, the
  engine step inputs, the validators that bind a settlement or a model completion to the
  committed state, next actions and transition proposals.
\<close>

section \<open>Model requests and results\<close>

record ModelToolCall =
  call_tool_call_id :: string
  call_name :: string
  call_arguments :: dict
  call_idempotency_key :: "string option"
  call_requires_approval :: bool
  call_approval_request_id :: "string option"

definition ModelToolCall_init :: "ModelToolCall \<Rightarrow> ModelToolCall res" where
  "ModelToolCall_init c =
     bind_res
       (checks
          ([require_non_empty ''tool_call_id'' (call_tool_call_id c),
            require_non_empty ''name'' (call_name c),
            when_some (call_idempotency_key c) (require_non_empty ''idempotency_key'')]
           @ approval_pair_checks (call_requires_approval c) (call_approval_request_id c))
          c)
       (\<lambda>c. map_res (\<lambda>m. c\<lparr>call_arguments := m\<rparr>)
               (freeze_mapping ''arguments'' (call_arguments c)))"

record ModelUsage =
  usage_input_tokens :: int
  usage_output_tokens :: int
  usage_provider_details :: dict

definition ModelUsage_init :: "ModelUsage \<Rightarrow> ModelUsage res" where
  "ModelUsage_init u =
     bind_res
       (checks
          [require_non_negative_int ''input_tokens'' (usage_input_tokens u),
           require_non_negative_int ''output_tokens'' (usage_output_tokens u)]
          u)
       (\<lambda>u. map_res (\<lambda>m. u\<lparr>usage_provider_details := m\<rparr>)
               (freeze_mapping ''provider_details'' (usage_provider_details u)))"

definition usage_total_tokens :: "ModelUsage \<Rightarrow> int" where
  "usage_total_tokens u = usage_input_tokens u + usage_output_tokens u"

record ProviderStopMetadata =
  stop_reason_code :: string
  stop_details :: dict

definition ProviderStopMetadata_init ::
    "ProviderStopMetadata \<Rightarrow> ProviderStopMetadata res" where
  "ProviderStopMetadata_init p =
     bind_res (checks [require_non_empty ''reason'' (stop_reason_code p)] p)
       (\<lambda>p. map_res (\<lambda>m. p\<lparr>stop_details := m\<rparr>) (freeze_mapping ''details'' (stop_details p)))"

record ModelGenerationResult =
  gen_result_id :: string
  gen_request_id :: string
  gen_assistant_content :: string
  gen_finalized_thinking :: "string option"
  gen_tool_calls :: "ModelToolCall list"
  gen_usage :: ModelUsage
  gen_provider_stop :: ProviderStopMetadata

definition ModelGenerationResult_init ::
    "ModelGenerationResult \<Rightarrow> ModelGenerationResult res" where
  "ModelGenerationResult_init r =
     checks
       [require_non_empty ''result_id'' (gen_result_id r),
        require_non_empty ''request_id'' (gen_request_id r),
        fails_when (\<not> distinct (map call_tool_call_id (gen_tool_calls r)))
          (ValueError ''tool_calls must contain unique tool_call_id values'')]
       r"

record ModelRequest =
  mreq_request_id :: string
  mreq_run_id :: string
  mreq_round_index :: int
  mreq_commands :: "RuntimeCommand list"
  mreq_context :: dict

definition ModelRequest_init :: "ModelRequest \<Rightarrow> ModelRequest res" where
  "ModelRequest_init r =
     bind_res
       (checks
          [require_non_empty ''request_id'' (mreq_request_id r),
           require_non_empty ''run_id'' (mreq_run_id r),
           require_positive_int ''round_index'' (mreq_round_index r),
           fails_when (\<not> distinct (map cmd_command_id (mreq_commands r)))
             (ValueError ''commands must contain unique command identities'')]
          r)
       (\<lambda>r. map_res (\<lambda>m. r\<lparr>mreq_context := m\<rparr>) (freeze_mapping ''context'' (mreq_context r)))"

section \<open>Settlements\<close>

datatype EffectSettlementOutcome = ESO_COMPLETED | ESO_FAILED | ESO_INDETERMINATE

fun settlement_outcome_value :: "EffectSettlementOutcome \<Rightarrow> string" where
  "settlement_outcome_value ESO_COMPLETED = ''completed''"
| "settlement_outcome_value ESO_FAILED = ''failed''"
| "settlement_outcome_value ESO_INDETERMINATE = ''indeterminate''"

record EffectSettlement =
  es_input_id :: string
  es_tool_call_id :: string
  es_tool_name :: string
  es_effect_id :: string
  es_attempt_id :: string
  es_authorization_transition_id :: string
  es_owner_epoch :: int
  es_outcome :: EffectSettlementOutcome
  es_result :: pyval
  es_reason_code :: "string option"
  es_reason_message :: "string option"

definition EffectSettlement_init :: "EffectSettlement \<Rightarrow> EffectSettlement res" where
  "EffectSettlement_init s =
     bind_res
       (checks
          [require_non_empty ''input_id'' (es_input_id s),
           require_non_empty ''tool_call_id'' (es_tool_call_id s),
           require_non_empty ''tool_name'' (es_tool_name s),
           require_non_empty ''effect_id'' (es_effect_id s),
           require_non_empty ''attempt_id'' (es_attempt_id s),
           require_non_empty ''authorization_transition_id'' (es_authorization_transition_id s),
           require_positive_int ''owner_epoch'' (es_owner_epoch s),
           (if es_outcome s = ESO_COMPLETED
            then fails_when (es_reason_code s \<noteq> None \<or> es_reason_message s \<noteq> None)
                   (ValueError ''completed effect settlement cannot carry a failure reason'')
            else case (es_reason_code s, es_reason_message s) of
                   (Some c, Some m) \<Rightarrow>
                     (case require_non_empty ''reason_code'' c of
                        Some e \<Rightarrow> Some e
                      | None \<Rightarrow> require_non_blank ''reason_message'' m)
                 | _ \<Rightarrow>
                     Some (ValueError ''failed and indeterminate settlements require a stable reason''))]
          s)
       (\<lambda>s. map_res (\<lambda>v. s\<lparr>es_result := v\<rparr>) (freeze_value (es_result s)))"

definition EffectSettlement_completed ::
    "string \<Rightarrow> string \<Rightarrow> string \<Rightarrow> string \<Rightarrow> string \<Rightarrow> string \<Rightarrow> int \<Rightarrow> pyval
     \<Rightarrow> EffectSettlement res" where
  "EffectSettlement_completed input_id tool_call_id tool_name effect_id attempt_id
       authorization_transition_id owner_epoch result =
     EffectSettlement_init
       \<lparr>es_input_id = input_id, es_tool_call_id = tool_call_id, es_tool_name = tool_name,
        es_effect_id = effect_id, es_attempt_id = attempt_id,
        es_authorization_transition_id = authorization_transition_id,
        es_owner_epoch = owner_epoch, es_outcome = ESO_COMPLETED, es_result = result,
        es_reason_code = None, es_reason_message = None\<rparr>"

record ApprovalSettlement =
  ap_input_id :: string
  ap_command_id :: string
  ap_tool_call_id :: string
  ap_tool_name :: string
  ap_effect_id :: string
  ap_attempt_id :: string
  ap_transition_id :: string
  ap_owner_epoch :: int
  ap_approved :: bool
  ap_rejection_reason_code :: "string option"
  ap_rejection_message :: "string option"

definition ApprovalSettlement_init :: "ApprovalSettlement \<Rightarrow> ApprovalSettlement res" where
  "ApprovalSettlement_init s =
     checks
       [require_non_empty ''input_id'' (ap_input_id s),
        require_non_empty ''command_id'' (ap_command_id s),
        require_non_empty ''tool_call_id'' (ap_tool_call_id s),
        require_non_empty ''tool_name'' (ap_tool_name s),
        require_non_empty ''effect_id'' (ap_effect_id s),
        require_non_empty ''attempt_id'' (ap_attempt_id s),
        require_non_empty ''transition_id'' (ap_transition_id s),
        require_positive_int ''owner_epoch'' (ap_owner_epoch s),
        (if ap_approved s
         then fails_when (ap_rejection_reason_code s \<noteq> None \<or> ap_rejection_message s \<noteq> None)
                (ValueError ''approved settlement cannot carry a rejection reason'')
         else case (ap_rejection_reason_code s, ap_rejection_message s) of
                (Some c, Some m) \<Rightarrow>
                  (case require_non_empty ''rejection_reason_code'' c of
                     Some e \<Rightarrow> Some e
                   | None \<Rightarrow> require_non_blank ''rejection_message'' m)
              | _ \<Rightarrow> Some (ValueError ''approval denial requires a stable rejection reason''))]
       s"

section \<open>Engine step inputs\<close>

record Initial =
  init_input_id :: string
  init_command_batch :: "RuntimeCommand list"
  init_mailbox_cut :: int

definition Initial_init :: "Initial \<Rightarrow> Initial res" where
  "Initial_init i =
     checks
       [require_non_empty ''input_id'' (init_input_id i),
        fails_when (\<not> distinct (map cmd_command_id (init_command_batch i)))
          (ValueError ''command_batch must contain unique command identities''),
        require_non_negative_int ''mailbox_cut'' (init_mailbox_cut i)]
       i"

datatype EngineStepInput =
    Initial Initial
  | ModelGenerationCompleted ModelGenerationResult
  | EffectSettled EffectSettlement
  | ApprovalResolved ApprovalSettlement

text \<open>The \<open>input_id\<close> attribute or property of each variant.\<close>

fun step_input_id :: "EngineStepInput \<Rightarrow> string" where
  "step_input_id (Initial i) = init_input_id i"
| "step_input_id (ModelGenerationCompleted r) = gen_result_id r"
| "step_input_id (EffectSettled s) = es_input_id s"
| "step_input_id (ApprovalResolved s) = ap_input_id s"

text \<open>\<open>type(step_input).__name__\<close>.\<close>

fun step_input_class :: "EngineStepInput \<Rightarrow> string" where
  "step_input_class (Initial _) = ''Initial''"
| "step_input_class (ModelGenerationCompleted _) = ''ModelGenerationCompleted''"
| "step_input_class (EffectSettled _) = ''EffectSettled''"
| "step_input_class (ApprovalResolved _) = ''ApprovalResolved''"

datatype Settlement = SettleEffect EffectSettlement | SettleApproval ApprovalSettlement

section \<open>Reading the runtime state back\<close>

text \<open>
  The engine keeps its own state under one key of the committed value; the readers below
  validate what they find there, because it comes back from a store.
\<close>

definition runtime_key :: string where
  "runtime_key = ''_agentkit_runtime''"

definition identity_value :: "dict \<Rightarrow> string \<Rightarrow> string \<Rightarrow> string res" where
  "identity_value mapping key subject =
     (case as_nonempty_str (dict_get mapping key) of
        Some s \<Rightarrow> Inr s
      | None \<Rightarrow> Inl (ValueError (subject @ '' '' @ key @ '' must be non-empty'')))"

definition runtime_marker :: "OperationStateVersion \<Rightarrow> string \<Rightarrow> dict option res" where
  "runtime_marker state_version key =
     (let runtime_state = dict_get (osv_value state_version) runtime_key in
      if runtime_state = PNone then Inr None
      else case as_dict runtime_state of
             None \<Rightarrow> Inl (ValueError ''engine runtime state must be a mapping'')
           | Some rt \<Rightarrow>
               (let marker = dict_get rt key in
                if marker = PNone then Inr None
                else case as_dict marker of
                       None \<Rightarrow> Inl (ValueError (''engine runtime '' @ key @ '' must be a mapping''))
                     | Some m \<Rightarrow> Inr (Some m)))"

definition retained_authorization_transition_id ::
    "OperationStateVersion \<Rightarrow> string option res" where
  "retained_authorization_transition_id state_version =
     bind_res (runtime_marker state_version ''reconciled_effect'') (\<lambda>m1.
     bind_res (case m1 of None \<Rightarrow> runtime_marker state_version ''active_effect_authorization''
               | Some m \<Rightarrow> Inr (Some m)) (\<lambda>m2.
     case m2 of
       None \<Rightarrow> Inr None
     | Some marker \<Rightarrow>
         map_res Some
           (identity_value marker ''authorization_transition_id''
              ''retained effect authorization'')))"

text \<open>The mapping a settlement is compared with, and the settlement's side of it.\<close>

definition settlement_literal :: "EffectSettlement \<Rightarrow> (string \<times> pyval) list" where
  "settlement_literal s =
     [(''input_id'', PStr (es_input_id s)),
      (''effect_id'', PStr (es_effect_id s)),
      (''attempt_id'', PStr (es_attempt_id s)),
      (''tool_call_id'', PStr (es_tool_call_id s)),
      (''tool_name'', PStr (es_tool_name s)),
      (''authorization_transition_id'', PStr (es_authorization_transition_id s)),
      (''outcome'', PStr (settlement_outcome_value (es_outcome s))),
      (''result'', es_result s),
      (''reason_code'', opt_str (es_reason_code s)),
      (''reason_message'', opt_str (es_reason_message s))]"

definition validate_reconciled_settlement_binding ::
    "OperationStateVersion \<Rightarrow> EffectSettlement \<Rightarrow> unit res" where
  "validate_reconciled_settlement_binding state_version settlement =
     bind_res (runtime_marker state_version ''reconciled_effect'') (\<lambda>m.
     case m of
       None \<Rightarrow> Inr ()
     | Some marker \<Rightarrow>
         bind_res (identity_value marker ''reconciled_input_id'' ''reconciled effect'') (\<lambda>inp.
         bind_res (identity_value marker ''effect_id'' ''reconciled effect'') (\<lambda>eff.
         bind_res (identity_value marker ''attempt_id'' ''reconciled effect'') (\<lambda>att.
         bind_res (identity_value marker ''tool_call_id'' ''reconciled effect'') (\<lambda>tcid.
         bind_res (identity_value marker ''tool_name'' ''reconciled effect'') (\<lambda>tn.
         bind_res (identity_value marker ''authorization_transition_id'' ''reconciled effect'')
           (\<lambda>auth.
         let expected =
               [(''input_id'', PStr inp), (''effect_id'', PStr eff), (''attempt_id'', PStr att),
                (''tool_call_id'', PStr tcid), (''tool_name'', PStr tn),
                (''authorization_transition_id'', PStr auth),
                (''outcome'', dict_get marker ''outcome''),
                (''result'', dict_get marker ''result''),
                (''reason_code'', dict_get marker ''reason_code''),
                (''reason_message'', dict_get marker ''reason_message'')]
         in if py_eq (PDict (dict_of (settlement_literal settlement))) (PDict (dict_of expected))
            then Inr ()
            else Inl (ValueError ''settlement must match committed reconciled effect''))))))))"

definition has_outstanding_effect_recovery :: "OperationStateVersion \<Rightarrow> bool res" where
  "has_outstanding_effect_recovery state_version =
     (let runtime_state = dict_get (osv_value state_version) runtime_key in
      if runtime_state = PNone then Inr False
      else case as_dict runtime_state of
             None \<Rightarrow> Inl (ValueError ''engine runtime state must be a mapping'')
           | Some rt \<Rightarrow>
               (case as_seq (dict_get_or rt ''pending_effect_plans'' (PTuple [])) of
                  None \<Rightarrow> Inl (ValueError ''pending effect plans must be a sequence'')
                | Some plans \<Rightarrow>
                    Inr (plans \<noteq> [] \<or> dict_get rt ''unknown_effect'' \<noteq> PNone
                         \<or> dict_get rt ''reconciled_effect'' \<noteq> PNone)))"

definition pending_effect_identity ::
    "OperationStateVersion \<Rightarrow> (string \<times> string \<times> string \<times> string) res" where
  "pending_effect_identity state_version =
     (case as_dict (dict_get (osv_value state_version) runtime_key) of
        None \<Rightarrow> Inl (ValueError ''settlement requires engine runtime state'')
      | Some rt \<Rightarrow>
          (case as_seq (dict_get rt ''pending_effect_plans'') of
             Some (raw_plan # rest) \<Rightarrow>
               (case as_dict raw_plan of
                  None \<Rightarrow> Inl (ValueError ''pending effect plan must be a mapping'')
                | Some plan \<Rightarrow>
                    (case as_dict (dict_get plan ''payload'') of
                       None \<Rightarrow> Inl (ValueError ''pending effect plan payload must be a mapping'')
                     | Some payload \<Rightarrow>
                         bind_res (identity_value plan ''effect_id'' ''pending effect plan'') (\<lambda>e.
                         bind_res (identity_value plan ''attempt_id'' ''pending effect plan'') (\<lambda>a.
                         bind_res (identity_value payload ''tool_call_id'' ''pending effect plan'')
                           (\<lambda>c.
                         bind_res (identity_value payload ''tool_name'' ''pending effect plan'')
                           (\<lambda>n. Inr (e, a, c, n)))))))
           | _ \<Rightarrow> Inl (ValueError ''settlement requires a pending effect plan'')))"

definition effect_plan_identity ::
    "EffectPlan \<Rightarrow> (string \<times> string \<times> string \<times> string) res" where
  "effect_plan_identity plan =
     (case as_nonempty_str (dict_get (plan_payload plan) ''tool_call_id'') of
        None \<Rightarrow> Inl (ValueError ''effect plan tool_call_id must be non-empty'')
      | Some c \<Rightarrow>
          (case as_nonempty_str (dict_get (plan_payload plan) ''tool_name'') of
             None \<Rightarrow> Inl (ValueError ''effect plan tool_name must be non-empty'')
           | Some n \<Rightarrow> Inr (plan_effect_id plan, plan_attempt_id plan, c, n)))"

text \<open>The loop over the four identity fields: the first difference raises.\<close>

fun match_fields ::
    "string \<Rightarrow> (string \<times> string \<times> string) list \<Rightarrow> unit res" where
  "match_fields subject [] = Inr ()"
| "match_fields subject ((field_name, actual, expected) # rest) =
     (if actual \<noteq> expected
      then Inl (ValueError (subject @ '' '' @ field_name @ '' must match pending effect plan''))
      else match_fields subject rest)"

definition match_identity ::
    "string \<Rightarrow> string \<times> string \<times> string \<times> string
     \<Rightarrow> string \<times> string \<times> string \<times> string \<Rightarrow> unit res" where
  "match_identity subject actual expected =
     (case (actual, expected) of
        ((e, a, c, n), (e', a', c', n')) \<Rightarrow>
          match_fields subject
            [(''effect_id'', e, e'), (''attempt_id'', a, a'), (''tool_call_id'', c, c'),
             (''tool_name'', n, n')])"

lemma match_identity_Inr [res_simps]:
  "match_identity subject x y = Inr u \<longleftrightarrow> x = y"
  by (auto simp: match_identity_def split: prod.splits)

definition validate_effect_plan_binding ::
    "OperationStateVersion \<Rightarrow> EffectPlan \<Rightarrow> unit res" where
  "validate_effect_plan_binding state_version plan =
     bind_res (pending_effect_identity state_version) (\<lambda>expected.
     bind_res (effect_plan_identity plan) (\<lambda>actual.
     match_identity ''effect plan'' actual expected))"

fun settlement_owner_epoch :: "Settlement \<Rightarrow> int" where
  "settlement_owner_epoch (SettleEffect s) = es_owner_epoch s"
| "settlement_owner_epoch (SettleApproval s) = ap_owner_epoch s"

fun settlement_identity :: "Settlement \<Rightarrow> string \<times> string \<times> string \<times> string" where
  "settlement_identity (SettleEffect s) =
     (es_effect_id s, es_attempt_id s, es_tool_call_id s, es_tool_name s)"
| "settlement_identity (SettleApproval s) =
     (ap_effect_id s, ap_attempt_id s, ap_tool_call_id s, ap_tool_name s)"

definition validate_settlement_binding ::
    "OperationStateVersion \<Rightarrow> Settlement \<Rightarrow> int \<Rightarrow> unit res" where
  "validate_settlement_binding state_version settlement owner_epoch =
     (if settlement_owner_epoch settlement \<noteq> owner_epoch
      then Inl (ValueError ''settlement owner_epoch must match request owner_epoch'')
      else
        bind_res
          (case settlement of
             SettleEffect s \<Rightarrow>
               bind_res (retained_authorization_transition_id state_version) (\<lambda>t.
               case t of
                 None \<Rightarrow> Inl (ValueError ''effect settlement requires retained authorization'')
               | Some expected \<Rightarrow>
                   bind_res (validate_reconciled_settlement_binding state_version s) (\<lambda>_.
                   Inr (''authorization_transition_id'', es_authorization_transition_id s, expected)))
           | SettleApproval s \<Rightarrow>
               Inr (''transition_id'', ap_transition_id s,
                    cr_transition_id (osv_commit_ref state_version)))
          (\<lambda>(transition_field, transition_id, expected_transition_id).
             if transition_id \<noteq> expected_transition_id
             then Inl (ValueError (''settlement '' @ transition_field
                         @ '' must match owning committed transition''))
             else bind_res (pending_effect_identity state_version)
                    (match_identity ''settlement'' (settlement_identity settlement))))"

definition validate_model_completion_binding ::
    "OperationStateVersion \<Rightarrow> ModelGenerationResult \<Rightarrow> unit res" where
  "validate_model_completion_binding state_version result =
     (case as_dict (dict_get (osv_value state_version) runtime_key) of
        None \<Rightarrow> Inl (ValueError ''model completion requires engine runtime state'')
      | Some rt \<Rightarrow>
          (case as_nonempty_str (dict_get rt ''active_model_request_id'') of
             None \<Rightarrow> Inl (ValueError ''model completion requires an active model request'')
           | Some active \<Rightarrow>
               (if gen_request_id result \<noteq> active
                then Inl (ValueError
                       ''model completion request_id must match the active model request'')
                else Inr ())))"

record EngineStepRequest =
  esr_state_version :: OperationStateVersion
  esr_step_input :: EngineStepInput

section \<open>Next actions and proposals\<close>

datatype PreparedEffectActionKind = DISPATCH | APPROVAL_WAIT

record EffectReference =
  ref_effect_id :: string
  ref_attempt_id :: string
  ref_tool_call_id :: string
  ref_approval_request_id :: "string option"

definition EffectReference_init :: "EffectReference \<Rightarrow> EffectReference res" where
  "EffectReference_init r =
     checks
       [require_non_empty ''effect_id'' (ref_effect_id r),
        require_non_empty ''attempt_id'' (ref_attempt_id r),
        require_non_empty ''tool_call_id'' (ref_tool_call_id r),
        when_some (ref_approval_request_id r) (require_non_empty ''approval_request_id'')]
       r"

definition EffectReference_from_plan :: "EffectPlan \<Rightarrow> EffectReference res" where
  "EffectReference_from_plan plan =
     (case as_nonempty_str (dict_get (plan_payload plan) ''tool_call_id'') of
        None \<Rightarrow> Inl (ValueError ''effect plan payload requires a non-empty tool_call_id'')
      | Some c \<Rightarrow>
          EffectReference_init
            \<lparr>ref_effect_id = plan_effect_id plan, ref_attempt_id = plan_attempt_id plan,
             ref_tool_call_id = c, ref_approval_request_id = plan_approval_request_id plan\<rparr>)"

datatype NextAction =
    ModelGenerationAction ModelRequest
  | PreparedEffectAction (pea_effect_plan: EffectPlan) (pea_action_kind: PreparedEffectActionKind)
  | TerminalAction "string option" string
  | BlockedAction string "EffectReference option"
  | SafeYieldAction string

fun NextAction_init :: "NextAction \<Rightarrow> NextAction res" where
  "NextAction_init (ModelGenerationAction r) = Inr (ModelGenerationAction r)"
| "NextAction_init (PreparedEffectAction p k) =
     checks
       [fails_when (k = APPROVAL_WAIT \<and> \<not> plan_requires_approval p)
          (ValueError ''approval wait effect plan requires_approval'')]
       (PreparedEffectAction p k)"
| "NextAction_init (TerminalAction m r) =
     checks [require_non_empty ''stop_reason'' r] (TerminalAction m r)"
| "NextAction_init (BlockedAction r e) =
     checks [require_non_empty ''reason'' r] (BlockedAction r e)"
| "NextAction_init (SafeYieldAction r) =
     checks [require_non_empty ''reason'' r] (SafeYieldAction r)"

record TransitionProposal =
  prop_transition_id :: string
  prop_state_value :: dict
  prop_next_action :: NextAction
  prop_pending_facts :: "PendingFact list"
  prop_dispositions :: "CommandDisposition list"
  prop_effect_plans :: "EffectPlan list"

definition TransitionProposal_init :: "TransitionProposal \<Rightarrow> TransitionProposal res" where
  "TransitionProposal_init p =
     bind_res (checks [require_non_empty ''transition_id'' (prop_transition_id p)] p) (\<lambda>p.
     bind_res (freeze_mapping ''state_value'' (prop_state_value p)) (\<lambda>v.
     checks
       [fails_when (\<not> distinct (map disp_command_id (prop_dispositions p)))
          (ValueError ''a proposal may disposition each command at most once''),
        fails_when (\<not> distinct (map plan_effect_id (prop_effect_plans p)))
          (ValueError ''effect_plans must contain unique effect identities''),
        (case prop_next_action p of
           PreparedEffectAction plan _ \<Rightarrow>
             fails_when
               (prop_effect_plans p \<noteq> []
                \<and> plan_effect_id plan \<notin> set (map plan_effect_id (prop_effect_plans p)))
               (ValueError ''prepared next action must refer to an ordered effect plan'')
         | _ \<Rightarrow> None)]
       (p\<lparr>prop_state_value := v\<rparr>)))"

lemmas step_init_defs [init_defs] =
  ModelToolCall_init_def ModelUsage_init_def ProviderStopMetadata_init_def
  ModelGenerationResult_init_def ModelRequest_init_def EffectSettlement_init_def
  ApprovalSettlement_init_def Initial_init_def EffectReference_init_def
  TransitionProposal_init_def

section \<open>What the constructors guarantee\<close>

definition call_ok :: "ModelToolCall \<Rightarrow> bool" where
  "call_ok c \<longleftrightarrow>
     call_tool_call_id c \<noteq> [] \<and> call_name c \<noteq> [] \<and> call_idempotency_key c \<noteq> Some [] \<and>
     approval_pair_ok (call_requires_approval c) (call_approval_request_id c) \<and>
     frozen_dict (call_arguments c)"

lemma ModelToolCall_init_ok [init_dests]: "ModelToolCall_init c = Inr d \<Longrightarrow> call_ok d"
  by (cases "call_idempotency_key c")
     (auto simp: ModelToolCall_init_def call_ok_def res_simps dest: freeze_mapping_frozen)

text \<open>A model result as the constructors build it: unique, well-formed tool calls.\<close>

definition gen_ok :: "ModelGenerationResult \<Rightarrow> bool" where
  "gen_ok r \<longleftrightarrow>
     gen_result_id r \<noteq> [] \<and> gen_request_id r \<noteq> [] \<and>
     distinct (map call_tool_call_id (gen_tool_calls r)) \<and> list_all call_ok (gen_tool_calls r)"

lemma ModelGenerationResult_init_ok:
  "list_all call_ok (gen_tool_calls r) \<Longrightarrow> ModelGenerationResult_init r = Inr s \<Longrightarrow>
     s = r \<and> gen_ok s"
  by (auto simp: ModelGenerationResult_init_def gen_ok_def res_simps)

definition settlement_reason_ok :: "EffectSettlement \<Rightarrow> bool" where
  "settlement_reason_ok s \<longleftrightarrow>
     (if es_outcome s = ESO_COMPLETED
      then es_reason_code s = None \<and> es_reason_message s = None
      else \<exists>c m. es_reason_code s = Some c \<and> c \<noteq> [] \<and> es_reason_message s = Some m
                 \<and> \<not> is_blank m)"

definition settlement_ok :: "EffectSettlement \<Rightarrow> bool" where
  "settlement_ok s \<longleftrightarrow>
     es_input_id s \<noteq> [] \<and> es_tool_call_id s \<noteq> [] \<and> es_tool_name s \<noteq> [] \<and>
     es_effect_id s \<noteq> [] \<and> es_attempt_id s \<noteq> [] \<and> es_authorization_transition_id s \<noteq> [] \<and>
     0 < es_owner_epoch s \<and> settlement_reason_ok s \<and> frozen (es_result s)"

lemma EffectSettlement_init_ok [init_dests]:
  "EffectSettlement_init s = Inr t \<Longrightarrow> settlement_ok t"
  by (auto simp: EffectSettlement_init_def settlement_ok_def settlement_reason_ok_def res_simps
           dest: freeze_result_frozen(1) split: option.splits if_splits)

lemma EffectSettlement_init_id: "settlement_ok s \<Longrightarrow> EffectSettlement_init s = Inr s"
  by (auto simp: EffectSettlement_init_def settlement_ok_def settlement_reason_ok_def res_simps
           freeze_frozen_id split: option.splits if_splits)

end
