(* ===== verification/Contracts_Results.thy ===== *)
theory Contracts_Results
  imports Contracts_Steps
begin

text \<open>
  \<open>agentkit/runtime/contracts.py\<close>, third part: the requests of a segment and of the commit
  port, the single-use dispatch permit, the results a port returns, control snapshots and
  segment outcomes.
\<close>

section \<open>Requests\<close>

record RunSegmentRequest =
  seg_session_id :: string
  seg_owner_id :: string
  seg_owner_epoch :: int
  seg_state_version :: OperationStateVersion
  seg_step_input :: EngineStepInput
  seg_max_rounds :: int

definition step_input_binding :: "RunSegmentRequest \<Rightarrow> unit res" where
  "step_input_binding r =
     (case seg_step_input r of
        Initial _ \<Rightarrow>
          bind_res (has_outstanding_effect_recovery (seg_state_version r)) (\<lambda>b.
          if b then Inl (ValueError ''initial input is forbidden during outstanding effect recovery'')
          else Inr ())
      | ModelGenerationCompleted result \<Rightarrow>
          validate_model_completion_binding (seg_state_version r) result
      | EffectSettled s \<Rightarrow>
          validate_settlement_binding (seg_state_version r) (SettleEffect s) (seg_owner_epoch r)
      | ApprovalResolved s \<Rightarrow>
          validate_settlement_binding (seg_state_version r) (SettleApproval s) (seg_owner_epoch r))"

definition RunSegmentRequest_init :: "RunSegmentRequest \<Rightarrow> RunSegmentRequest res" where
  "RunSegmentRequest_init r =
     checks
       [require_non_empty ''session_id'' (seg_session_id r),
        require_non_empty ''owner_id'' (seg_owner_id r),
        require_positive_int ''owner_epoch'' (seg_owner_epoch r),
        check_of (step_input_binding r),
        require_positive_int ''max_rounds'' (seg_max_rounds r)]
       r"

definition validate_commit_request :: "string \<Rightarrow> string \<Rightarrow> int \<Rightarrow> check list" where
  "validate_commit_request session_id owner_id owner_epoch =
     [require_non_empty ''session_id'' session_id,
      require_non_empty ''owner_id'' owner_id,
      require_positive_int ''owner_epoch'' owner_epoch]"

lemma validate_commit_request_pass [simp]:
  "list_all (\<lambda>c. c = None) (validate_commit_request s o' e) \<longleftrightarrow> s \<noteq> [] \<and> o' \<noteq> [] \<and> 0 < e"
  by (auto simp: validate_commit_request_def)

record CommitTransitionRequest =
  ctr_session_id :: string
  ctr_owner_id :: string
  ctr_owner_epoch :: int
  ctr_engine_request :: EngineStepRequest
  ctr_proposal :: TransitionProposal

definition CommitTransitionRequest_init ::
    "CommitTransitionRequest \<Rightarrow> CommitTransitionRequest res" where
  "CommitTransitionRequest_init r =
     checks (validate_commit_request (ctr_session_id r) (ctr_owner_id r) (ctr_owner_epoch r)) r"

record CommitSettlementRequest =
  csr_session_id :: string
  csr_owner_id :: string
  csr_owner_epoch :: int
  csr_engine_request :: EngineStepRequest
  csr_proposal :: TransitionProposal
  csr_settlement :: Settlement
  csr_effect_mutation :: EffectMutation

fun settlement_effect_id :: "Settlement \<Rightarrow> string" where
  "settlement_effect_id (SettleEffect s) = es_effect_id s"
| "settlement_effect_id (SettleApproval s) = ap_effect_id s"

fun settlement_attempt_id :: "Settlement \<Rightarrow> string" where
  "settlement_attempt_id (SettleEffect s) = es_attempt_id s"
| "settlement_attempt_id (SettleApproval s) = ap_attempt_id s"

definition CommitSettlementRequest_init ::
    "CommitSettlementRequest \<Rightarrow> CommitSettlementRequest res" where
  "CommitSettlementRequest_init r =
     checks
       (validate_commit_request (csr_session_id r) (csr_owner_id r) (csr_owner_epoch r)
        @ [check_of
             (validate_settlement_binding (esr_state_version (csr_engine_request r))
                (csr_settlement r) (csr_owner_epoch r)),
           fails_when
             (mut_effect_id (csr_effect_mutation r) \<noteq> settlement_effect_id (csr_settlement r))
             (ValueError ''effect mutation and settlement effect_id must match''),
           fails_when
             (mut_attempt_id (csr_effect_mutation r) \<noteq> settlement_attempt_id (csr_settlement r))
             (ValueError ''effect mutation and settlement attempt_id must match'')])
       r"

record DispatchAuthorizationRequest =
  dar_session_id :: string
  dar_owner_id :: string
  dar_owner_epoch :: int
  dar_mailbox_cut :: int
  dar_engine_request :: EngineStepRequest
  dar_proposal :: TransitionProposal
  dar_effect_plan :: EffectPlan
  dar_effect_mutation :: EffectMutation
  dar_approval_settlement :: "ApprovalSettlement option"

text \<open>The tests on the proposal's next action: it dispatches the very plan being authorized.\<close>

definition dispatch_action_check :: "DispatchAuthorizationRequest \<Rightarrow> check" where
  "dispatch_action_check r =
     (case prop_next_action (dar_proposal r) of
        PreparedEffectAction p k \<Rightarrow>
          (if k \<noteq> DISPATCH
           then Some (ValueError ''dispatch authorization proposal must use the dispatch action'')
           else check_of
                  (bind_res (effect_plan_identity p) (\<lambda>i.
                   bind_res (effect_plan_identity (dar_effect_plan r)) (\<lambda>j.
                   if i \<noteq> j
                   then Inl (ValueError
                          ''dispatch authorization plan must match proposal next action'')
                   else Inr ()))))
      | _ \<Rightarrow> Some (ValueError ''dispatch authorization proposal must prepare an effect dispatch''))"

text \<open>The tests on the approval settlement of an approval-gated effect.\<close>

definition dispatch_approval_check ::
    "DispatchAuthorizationRequest \<Rightarrow> ApprovalSettlement \<Rightarrow> check" where
  "dispatch_approval_check r a =
     check_of
       (bind_res
          (validate_settlement_binding (esr_state_version (dar_engine_request r))
             (SettleApproval a) (dar_owner_epoch r)) (\<lambda>_.
        if \<not> ap_approved a
        then Inl (ValueError ''dispatch authorization cannot carry an approval denial'')
        else if ap_effect_id a \<noteq> plan_effect_id (dar_effect_plan r)
        then Inl (ValueError ''approval and plan effect_id must match'')
        else if ap_attempt_id a \<noteq> plan_attempt_id (dar_effect_plan r)
        then Inl (ValueError ''approval and plan attempt_id must match'')
        else bind_res (effect_plan_identity (dar_effect_plan r)) (\<lambda>(e, att, c, n).
               if ap_tool_call_id a \<noteq> c
               then Inl (ValueError ''approval and plan tool_call_id must match'')
               else if ap_tool_name a \<noteq> n
               then Inl (ValueError ''approval and plan tool_name must match'')
               else Inr ())))"

definition DispatchAuthorizationRequest_init ::
    "DispatchAuthorizationRequest \<Rightarrow> DispatchAuthorizationRequest res" where
  "DispatchAuthorizationRequest_init r =
     checks
       (validate_commit_request (dar_session_id r) (dar_owner_id r) (dar_owner_epoch r)
        @ [require_non_negative_int ''mailbox_cut'' (dar_mailbox_cut r),
           check_of
             (validate_effect_plan_binding (esr_state_version (dar_engine_request r))
                (dar_effect_plan r)),
           dispatch_action_check r,
           fails_when (mut_effect_id (dar_effect_mutation r) \<noteq> plan_effect_id (dar_effect_plan r))
             (ValueError ''effect mutation and plan effect_id must match''),
           fails_when (mut_attempt_id (dar_effect_mutation r) \<noteq> plan_attempt_id (dar_effect_plan r))
             (ValueError ''effect mutation and plan attempt_id must match''),
           fails_when
             (mut_expected_status (dar_effect_mutation r) \<noteq> Some PREPARED
              \<or> mut_status (dar_effect_mutation r) \<noteq> DISPATCHED)
             (ValueError ''dispatch authorization requires prepared -> dispatched mutation''),
           fails_when
             (plan_requires_approval (dar_effect_plan r) \<and> dar_approval_settlement r = None)
             (ValueError ''approved settlement is required before dispatch''),
           fails_when
             (\<not> plan_requires_approval (dar_effect_plan r) \<and> dar_approval_settlement r \<noteq> None)
             (ValueError ''approval settlement is valid only for an approval-gated effect''),
           when_some (dar_approval_settlement r) (dispatch_approval_check r)])
       r"

record CommitReconciliationRequest =
  crr_session_id :: string
  crr_owner_id :: string
  crr_owner_epoch :: int
  crr_state_version :: OperationStateVersion
  crr_record :: ReconciliationRecord

definition reconciliation_binding :: "CommitReconciliationRequest \<Rightarrow> unit res" where
  "reconciliation_binding r =
     bind_res (runtime_marker (crr_state_version r) ''unknown_effect'') (\<lambda>m.
     case m of
       None \<Rightarrow> Inl (ValueError ''reconciliation requires a committed unknown effect'')
     | Some unknown \<Rightarrow>
         (if dict_get unknown ''effect_id'' \<noteq> PStr (rec_effect_id (crr_record r))
          then Inl (ValueError ''reconciliation effect_id must match unknown effect'')
          else if dict_get unknown ''attempt_id'' \<noteq> PStr (rec_attempt_id (crr_record r))
          then Inl (ValueError ''reconciliation attempt_id must match unknown effect'')
          else if \<not> hashable (dict_get unknown ''authorization_transition_id'')
                    \<or> \<not> hashable (dict_get unknown ''indeterminate_input_id'')
          then Inl (TypeError ''unhashable type'')
          else if PStr (rec_transition_id (crr_record r))
                    \<in> {dict_get unknown ''authorization_transition_id'',
                        dict_get unknown ''indeterminate_input_id''}
          then Inl (ValueError ''reconciliation transition identity must be fresh'')
          else Inr ()))"

definition CommitReconciliationRequest_init ::
    "CommitReconciliationRequest \<Rightarrow> CommitReconciliationRequest res" where
  "CommitReconciliationRequest_init r =
     checks
       [require_non_empty ''session_id'' (crr_session_id r),
        require_non_empty ''owner_id'' (crr_owner_id r),
        require_positive_int ''owner_epoch'' (crr_owner_epoch r),
        fails_when (rec_owner_epoch (crr_record r) \<noteq> crr_owner_epoch r)
          (ValueError ''reconciliation owner_epoch must match request''),
        check_of (reconciliation_binding r)]
       r"

section \<open>The dispatch permit\<close>

record DispatchPermit =
  permit_opaque_token :: string
  permit_session_id :: string
  permit_effect_id :: string
  permit_attempt_id :: string
  permit_authorization_transition_id :: string
  permit_owner_epoch :: int
  permit_idempotency_key :: "string option"
  permit_claimed :: bool

definition DispatchPermit_issue ::
    "string \<Rightarrow> string \<Rightarrow> string \<Rightarrow> string \<Rightarrow> string \<Rightarrow> int \<Rightarrow> string option
     \<Rightarrow> DispatchPermit res" where
  "DispatchPermit_issue opaque_token session_id effect_id attempt_id
       authorization_transition_id owner_epoch idempotency_key =
     checks
       [require_non_empty ''opaque_token'' opaque_token,
        require_non_empty ''session_id'' session_id,
        require_non_empty ''effect_id'' effect_id,
        require_non_empty ''attempt_id'' attempt_id,
        require_non_empty ''authorization_transition_id'' authorization_transition_id,
        require_positive_int ''owner_epoch'' owner_epoch,
        when_some idempotency_key (require_non_empty ''idempotency_key'')]
       \<lparr>permit_opaque_token = opaque_token, permit_session_id = session_id,
        permit_effect_id = effect_id, permit_attempt_id = attempt_id,
        permit_authorization_transition_id = authorization_transition_id,
        permit_owner_epoch = owner_epoch, permit_idempotency_key = idempotency_key,
        permit_claimed = False\<rparr>"

definition DispatchPermit_claim :: "DispatchPermit \<Rightarrow> DispatchPermit res" where
  "DispatchPermit_claim p =
     (if permit_claimed p then Inl (RuntimeError ''dispatch permit is already claimed'')
      else Inr (p\<lparr>permit_claimed := True\<rparr>))"

section \<open>Commit results\<close>

record FailureReport =
  fail_code :: string
  fail_message :: string
  fail_details :: dict

definition FailureReport_init :: "FailureReport \<Rightarrow> FailureReport res" where
  "FailureReport_init f =
     bind_res
       (checks
          [require_non_empty ''code'' (fail_code f),
           require_non_empty ''message'' (fail_message f),
           fails_when (is_blank (fail_message f)) (ValueError ''message must not be blank'')]
          f)
       (\<lambda>f. map_res (\<lambda>m. f\<lparr>fail_details := m\<rparr>) (freeze_mapping ''details'' (fail_details f)))"

definition failure_report :: "string \<Rightarrow> string \<Rightarrow> FailureReport res" where
  "failure_report code message =
     FailureReport_init \<lparr>fail_code = code, fail_message = message, fail_details = []\<rparr>"

text \<open>
  One datatype for the eight result classes; the unions \<open>CommitTransitionResult\<close> and
  \<open>DispatchAuthorizationResult\<close> differ in which success class they contain.
\<close>

datatype CommitResult =
    CommittedCommitResult OperationStateVersion "CommittedFactNotice list" "TransitionReceipt option"
  | DispatchAuthorizedResult OperationStateVersion DispatchPermit "CommittedFactNotice list"
      "TransitionReceipt option"
  | ExactReplayCommitResult OperationStateVersion TransitionReceipt
  | CASConflictCommitResult OperationStateVersion
  | StaleOwnerCommitResult int int
  | StaleMailboxCutCommitResult int int
  | InvalidTransitionCommitResult string string
  | StorageFailureCommitResult FailureReport

datatype CommitResultKind =
    CRK_COMMITTED | CRK_EXACT_REPLAY | CRK_CAS_CONFLICT | CRK_STALE_OWNER
  | CRK_STALE_MAILBOX_CUT | CRK_INVALID_TRANSITION | CRK_STORAGE_FAILURE

fun commit_result_kind :: "CommitResult \<Rightarrow> CommitResultKind" where
  "commit_result_kind (CommittedCommitResult _ _ _) = CRK_COMMITTED"
| "commit_result_kind (DispatchAuthorizedResult _ _ _ _) = CRK_COMMITTED"
| "commit_result_kind (ExactReplayCommitResult _ _) = CRK_EXACT_REPLAY"
| "commit_result_kind (CASConflictCommitResult _) = CRK_CAS_CONFLICT"
| "commit_result_kind (StaleOwnerCommitResult _ _) = CRK_STALE_OWNER"
| "commit_result_kind (StaleMailboxCutCommitResult _ _) = CRK_STALE_MAILBOX_CUT"
| "commit_result_kind (InvalidTransitionCommitResult _ _) = CRK_INVALID_TRANSITION"
| "commit_result_kind (StorageFailureCommitResult _) = CRK_STORAGE_FAILURE"

fun CommitResult_init :: "CommitResult \<Rightarrow> CommitResult res" where
  "CommitResult_init (StaleOwnerCommitResult e c) =
     checks
       [require_positive_int ''expected_owner_epoch'' e,
        require_positive_int ''current_owner_epoch'' c]
       (StaleOwnerCommitResult e c)"
| "CommitResult_init (StaleMailboxCutCommitResult e c) =
     checks
       [require_non_negative_int ''expected_mailbox_cut'' e,
        require_non_negative_int ''current_mailbox_cut'' c]
       (StaleMailboxCutCommitResult e c)"
| "CommitResult_init (InvalidTransitionCommitResult r m) =
     checks
       [require_non_empty ''reason_code'' r, require_non_empty ''message'' m,
        fails_when (is_blank m) (ValueError ''message must not be blank'')]
       (InvalidTransitionCommitResult r m)"
| "CommitResult_init r = Inr r"

section \<open>Effect results, control and outcomes\<close>

datatype EffectExecutionResult =
    EffectCompletedResult pyval
  | EffectFailedResult FailureReport
  | EffectIndeterminateResult string string "string option"

fun EffectExecutionResult_init :: "EffectExecutionResult \<Rightarrow> EffectExecutionResult res" where
  "EffectExecutionResult_init (EffectCompletedResult v) =
     map_res EffectCompletedResult (freeze_value v)"
| "EffectExecutionResult_init (EffectFailedResult f) = Inr (EffectFailedResult f)"
| "EffectExecutionResult_init (EffectIndeterminateResult r m e) =
     checks
       [require_non_empty ''reason_code'' r, require_non_empty ''message'' m,
        fails_when (is_blank m) (ValueError ''message must not be blank''),
        when_some e (require_non_empty ''evidence_ref'')]
       (EffectIndeterminateResult r m e)"

record ControlSnapshot =
  snap_generation :: int
  snap_raised :: bool
  snap_reason :: "string option"

definition ControlSnapshot_init :: "ControlSnapshot \<Rightarrow> ControlSnapshot res" where
  "ControlSnapshot_init s =
     checks
       [require_non_negative_int ''value'' (snap_generation s),
        (if snap_raised s
         then case snap_reason s of
                None \<Rightarrow> Some (ValueError ''raised control snapshot requires a reason'')
              | Some r \<Rightarrow> require_non_empty ''reason'' r
         else fails_when (snap_reason s \<noteq> None)
                (ValueError ''unraised control snapshot cannot carry a reason''))]
       s"

datatype SegmentOutcome =
    CompletedOutcome OperationStateVersion "string option" int string
  | BlockedOutcome OperationStateVersion string "EffectReference option" int
  | SafeYieldOutcome OperationStateVersion string int
  | CancelledOutcome OperationStateVersion CommandDisposition int
  | RoundLimitOutcome OperationStateVersion int
  | FailedOutcome "OperationStateVersion option" FailureReport int

fun outcome_steps :: "SegmentOutcome \<Rightarrow> int" where
  "outcome_steps (CompletedOutcome _ _ n _) = n"
| "outcome_steps (BlockedOutcome _ _ _ n) = n"
| "outcome_steps (SafeYieldOutcome _ _ n) = n"
| "outcome_steps (CancelledOutcome _ _ n) = n"
| "outcome_steps (RoundLimitOutcome _ n) = n"
| "outcome_steps (FailedOutcome _ _ n) = n"

fun SegmentOutcome_init :: "SegmentOutcome \<Rightarrow> SegmentOutcome res" where
  "SegmentOutcome_init (CompletedOutcome v m n r) =
     checks [require_non_negative_int ''steps_taken'' n, require_non_empty ''stop_reason'' r]
       (CompletedOutcome v m n r)"
| "SegmentOutcome_init (BlockedOutcome v r e n) =
     checks [require_non_negative_int ''steps_taken'' n, require_non_empty ''reason'' r]
       (BlockedOutcome v r e n)"
| "SegmentOutcome_init (SafeYieldOutcome v r n) =
     checks [require_non_negative_int ''steps_taken'' n, require_non_empty ''reason'' r]
       (SafeYieldOutcome v r n)"
| "SegmentOutcome_init (CancelledOutcome v d n) =
     checks [require_non_negative_int ''steps_taken'' n] (CancelledOutcome v d n)"
| "SegmentOutcome_init (RoundLimitOutcome v n) =
     checks [require_non_negative_int ''steps_taken'' n] (RoundLimitOutcome v n)"
| "SegmentOutcome_init (FailedOutcome v f n) =
     checks [require_non_negative_int ''steps_taken'' n] (FailedOutcome v f n)"

lemma SegmentOutcome_init_Inr: "SegmentOutcome_init x = Inr y \<Longrightarrow> y = x \<and> 0 \<le> outcome_steps y"
  by (cases x) (auto simp: res_simps)

record DeliveryFailure =
  df_sink :: string
  df_message :: string

definition DeliveryFailure_init :: "DeliveryFailure \<Rightarrow> DeliveryFailure res" where
  "DeliveryFailure_init d =
     checks
       [require_non_empty ''sink'' (df_sink d),
        require_non_empty ''message'' (df_message d),
        fails_when (is_blank (df_message d)) (ValueError ''message must not be blank'')]
       d"

lemmas result_init_defs [init_defs] =
  RunSegmentRequest_init_def CommitTransitionRequest_init_def CommitSettlementRequest_init_def
  DispatchAuthorizationRequest_init_def CommitReconciliationRequest_init_def
  DispatchPermit_issue_def FailureReport_init_def ControlSnapshot_init_def
  DeliveryFailure_init_def

section \<open>What the constructors guarantee\<close>

lemma DispatchAuthorizationRequest_init_Inr:
  "DispatchAuthorizationRequest_init r = Inr s \<Longrightarrow> s = r"
  by (auto simp: DispatchAuthorizationRequest_init_def res_simps)

lemma CommitSettlementRequest_init_Inr:
  "CommitSettlementRequest_init r = Inr s \<Longrightarrow> s = r"
  by (auto simp: CommitSettlementRequest_init_def res_simps)

lemma DispatchPermit_issue_Inr:
  "DispatchPermit_issue tok sid e a t n k = Inr p \<Longrightarrow>
     p = \<lparr>permit_opaque_token = tok, permit_session_id = sid, permit_effect_id = e,
          permit_attempt_id = a, permit_authorization_transition_id = t,
          permit_owner_epoch = n, permit_idempotency_key = k, permit_claimed = False\<rparr>"
  by (auto simp: DispatchPermit_issue_def res_simps)

end
