(* ===== verification/Engine.thy ===== *)
theory Engine
  imports Contracts_Results
begin

text \<open>
  \<open>agentkit/runtime/engine.py\<close>: \<open>AgentEngine.propose\<close> and its helpers. The engine is a pure
  function from a committed state version and one step input to a transition proposal; all of
  its own state lives in the mapping under \<open>_agentkit_runtime\<close>, and the helpers that read it
  back raise on anything malformed.
\<close>

section \<open>The runtime state\<close>

definition transition_id_of :: "EngineStepRequest \<Rightarrow> string" where
  "transition_id_of request =
     osv_run_id (esr_state_version request) @ '':transition:''
       @ step_input_class (esr_step_input request) @ '':''
       @ step_input_id (esr_step_input request)"

definition with_runtime_state :: "dict \<Rightarrow> dict \<Rightarrow> dict" where
  "with_runtime_state state_value runtime_state =
     dict_set runtime_key (PDict runtime_state) state_value"

definition default_runtime_state :: dict where
  "default_runtime_state =
     dict_of [(''round_index'', PInt 0), (''mailbox_cut'', PInt 0), (''commands'', PTuple []),
              (''pending_effect_plans'', PTuple [])]"

definition runtime_state :: "dict \<Rightarrow> dict res" where
  "runtime_state state_value =
     (let value = dict_get state_value runtime_key in
      if value = PNone then Inr default_runtime_state
      else case as_dict value of
             None \<Rightarrow> Inl (TypeError ''engine runtime state must be a mapping'')
           | Some d \<Rightarrow> Inr d)"

definition marker_mapping :: "dict \<Rightarrow> string \<Rightarrow> dict option res" where
  "marker_mapping rt key =
     (let marker = dict_get rt key in
      if marker = PNone then Inr None
      else case as_dict marker of
             None \<Rightarrow> Inl (TypeError (''engine runtime '' @ key @ '' must be a mapping''))
           | Some m \<Rightarrow> Inr (Some m))"

definition active_effect_authorization :: "dict \<Rightarrow> dict res" where
  "active_effect_authorization rt =
     bind_res (marker_mapping rt ''active_effect_authorization'') (\<lambda>m.
     case m of
       None \<Rightarrow> Inl (ValueError ''indeterminate effect settlement requires retained authorization'')
     | Some marker \<Rightarrow> Inr marker)"

definition validate_effect_settlement_authorization ::
    "dict \<Rightarrow> EffectSettlement \<Rightarrow> unit res" where
  "validate_effect_settlement_authorization rt s =
     bind_res (marker_mapping rt ''reconciled_effect'') (\<lambda>m1.
     bind_res (case m1 of None \<Rightarrow> marker_mapping rt ''active_effect_authorization''
               | Some m \<Rightarrow> Inr (Some m)) (\<lambda>m2.
     bind_res (case m2 of None \<Rightarrow> marker_mapping rt ''unknown_effect''
               | Some m \<Rightarrow> Inr (Some m)) (\<lambda>m3.
     case m3 of
       None \<Rightarrow> Inl (ValueError ''effect settlement requires retained authorization'')
     | Some marker \<Rightarrow>
         (let expected =
                map (\<lambda>k. (k, dict_get marker k))
                  [''effect_id'', ''attempt_id'', ''tool_call_id'', ''tool_name'',
                   ''authorization_transition_id''];
              actual =
                [(''effect_id'', PStr (es_effect_id s)),
                 (''attempt_id'', PStr (es_attempt_id s)),
                 (''tool_call_id'', PStr (es_tool_call_id s)),
                 (''tool_name'', PStr (es_tool_name s)),
                 (''authorization_transition_id'', PStr (es_authorization_transition_id s))]
          in if py_eq (PDict (dict_of actual)) (PDict (dict_of expected)) then Inr ()
             else Inl (ValueError ''effect settlement must match retained authorization'')))))"

definition validate_reconciled_settlement :: "pyval \<Rightarrow> EffectSettlement \<Rightarrow> unit res" where
  "validate_reconciled_settlement marker s =
     (case as_dict marker of
        None \<Rightarrow> Inl (TypeError ''engine runtime reconciled_effect must be a mapping'')
      | Some m \<Rightarrow>
          (let expected =
                 (''input_id'', dict_get m ''reconciled_input_id'') #
                 map (\<lambda>k. (k, dict_get m k))
                   [''effect_id'', ''attempt_id'', ''tool_call_id'', ''tool_name'',
                    ''authorization_transition_id'', ''outcome'', ''result'', ''reason_code'',
                    ''reason_message'']
           in if py_eq (PDict (dict_of (settlement_literal s))) (PDict (dict_of expected))
              then Inr ()
              else Inl (ValueError ''effect settlement must match reconciled effect'')))"

definition runtime_int :: "dict \<Rightarrow> string \<Rightarrow> int res" where
  "runtime_int rt key =
     (case as_plain_int (dict_get_or rt key (PInt 0)) of
        Some i \<Rightarrow>
          (if i < 0 then Inl (ValueError (''engine runtime '' @ key
                               @ '' must be a non-negative integer''))
           else Inr i)
      | None \<Rightarrow> Inl (ValueError (''engine runtime '' @ key @ '' must be a non-negative integer'')))"

section \<open>Commands and effect plans as values\<close>

definition command_value :: "RuntimeCommand \<Rightarrow> pyval" where
  "command_value c =
     PDict (dict_of [(''command_id'', PStr (cmd_command_id c)),
                     (''command_kind'', PStr (cmd_command_kind c)),
                     (''payload'', PDict (cmd_payload c))])"

definition command_of_value :: "pyval \<Rightarrow> RuntimeCommand res" where
  "command_of_value raw =
     (case as_dict raw of
        None \<Rightarrow> Inl (TypeError ''engine runtime command must be a mapping'')
      | Some d \<Rightarrow>
          (case (as_str (dict_get d ''command_id''), as_str (dict_get d ''command_kind'')) of
             (Some i, Some k) \<Rightarrow>
               (case as_dict (dict_get_or d ''payload'' (PDict [])) of
                  None \<Rightarrow> Inl (TypeError ''engine runtime command payload must be a mapping'')
                | Some p \<Rightarrow>
                    RuntimeCommand_init
                      \<lparr>cmd_command_id = i, cmd_command_kind = k, cmd_payload = p\<rparr>)
           | _ \<Rightarrow> Inl (TypeError ''engine runtime command identity must be a string'')))"

definition commands_of :: "dict \<Rightarrow> RuntimeCommand list res" where
  "commands_of rt =
     (case as_seq (dict_get_or rt ''commands'' (PTuple [])) of
        None \<Rightarrow> Inl (TypeError ''engine runtime commands must be a sequence'')
      | Some raws \<Rightarrow> traverse_res command_of_value raws)"

definition effect_plan_value :: "EffectPlan \<Rightarrow> pyval" where
  "effect_plan_value p =
     PDict (dict_of [(''effect_id'', PStr (plan_effect_id p)),
                     (''attempt_id'', PStr (plan_attempt_id p)),
                     (''effect_kind'', PStr (plan_effect_kind p)),
                     (''payload'', PDict (plan_payload p)),
                     (''idempotency_key'', opt_str (plan_idempotency_key p)),
                     (''requires_approval'', PBool (plan_requires_approval p)),
                     (''approval_request_id'', opt_str (plan_approval_request_id p))])"

definition required_string :: "dict \<Rightarrow> string \<Rightarrow> string res" where
  "required_string raw key =
     (case as_nonempty_str (dict_get raw key) of
        Some s \<Rightarrow> Inr s
      | None \<Rightarrow> Inl (ValueError (''pending effect plan '' @ key @ '' must be non-empty'')))"

definition optional_string :: "dict \<Rightarrow> string \<Rightarrow> string option res" where
  "optional_string raw key =
     (if dict_get raw key = PNone then Inr None
      else case as_nonempty_str (dict_get raw key) of
             Some s \<Rightarrow> Inr (Some s)
           | None \<Rightarrow> Inl (ValueError (''pending effect plan '' @ key
                            @ '' must be non-empty when present'')))"

definition required_bool :: "dict \<Rightarrow> string \<Rightarrow> bool res" where
  "required_bool raw key =
     (case as_bool (dict_get_or raw key (PBool False)) of
        Some b \<Rightarrow> Inr b
      | None \<Rightarrow> Inl (TypeError (''pending effect plan '' @ key @ '' must be a bool'')))"

definition effect_plan_of_value :: "pyval \<Rightarrow> EffectPlan res" where
  "effect_plan_of_value raw =
     (case as_dict raw of
        None \<Rightarrow> Inl (TypeError ''pending effect plan must be a mapping'')
      | Some d \<Rightarrow>
          (case as_dict (dict_get d ''payload'') of
             None \<Rightarrow> Inl (TypeError ''pending effect plan payload must be a mapping'')
           | Some payload \<Rightarrow>
               bind_res (required_string d ''effect_id'') (\<lambda>eff.
               bind_res (required_string d ''attempt_id'') (\<lambda>att.
               bind_res (required_string d ''effect_kind'') (\<lambda>kind.
               bind_res (optional_string d ''idempotency_key'') (\<lambda>key.
               bind_res (required_bool d ''requires_approval'') (\<lambda>req.
               bind_res (optional_string d ''approval_request_id'') (\<lambda>apr.
               EffectPlan_init
                 \<lparr>plan_effect_id = eff, plan_attempt_id = att, plan_effect_kind = kind,
                  plan_payload = payload, plan_idempotency_key = key,
                  plan_requires_approval = req, plan_approval_request_id = apr\<rparr>))))))))"

definition pending_effect_plans :: "dict \<Rightarrow> EffectPlan list res" where
  "pending_effect_plans rt =
     (case as_seq (dict_get_or rt ''pending_effect_plans'' (PTuple [])) of
        None \<Rightarrow> Inl (TypeError ''pending effect plans must be a sequence'')
      | Some raws \<Rightarrow> traverse_res effect_plan_of_value raws)"

definition prepared_action :: "EffectPlan \<Rightarrow> NextAction res" where
  "prepared_action plan =
     NextAction_init
       (PreparedEffectAction plan
          (if plan_requires_approval plan then APPROVAL_WAIT else DISPATCH))"

definition require_next_effect ::
    "EffectPlan list \<Rightarrow> string \<Rightarrow> string \<Rightarrow> string \<Rightarrow> string \<Rightarrow> unit res" where
  "require_next_effect plans effect_id attempt_id tool_call_id tool_name =
     (case plans of
        [] \<Rightarrow> Inl (ValueError ''settlement has no pending effect plan'')
      | next_plan # rest \<Rightarrow>
          (if plan_effect_id next_plan \<noteq> effect_id
           then Inl (ValueError ''settlement effect_id does not match next effect plan'')
           else if plan_attempt_id next_plan \<noteq> attempt_id
           then Inl (ValueError ''settlement attempt_id does not match next effect plan'')
           else bind_res (required_string (plan_payload next_plan) ''tool_call_id'') (\<lambda>c.
             if c \<noteq> tool_call_id
             then Inl (ValueError ''settlement tool_call_id does not match next effect plan'')
             else bind_res (required_string (plan_payload next_plan) ''tool_name'') (\<lambda>n.
               if n \<noteq> tool_name
               then Inl (ValueError ''settlement tool_name does not match next effect plan'')
               else Inr ()))))"

section \<open>Conversation and model requests\<close>

definition assistant_message :: "ModelGenerationResult \<Rightarrow> pyval" where
  "assistant_message result =
     PDict (dict_of
       [(''role'', PStr ''assistant''),
        (''content'', PStr (gen_assistant_content result)),
        (''tool_calls'', PTuple (map (\<lambda>call. PDict (dict_of
           [(''tool_call_id'', PStr (call_tool_call_id call)),
            (''name'', PStr (call_name call)),
            (''arguments'', PDict (call_arguments call))])) (gen_tool_calls result)))])"

definition append_conversation_messages :: "dict \<Rightarrow> pyval list \<Rightarrow> dict res" where
  "append_conversation_messages state_value appended =
     (case as_dict (dict_get_or state_value ''context'' (PDict [])) of
        None \<Rightarrow> Inl (TypeError ''state context must be a mapping'')
      | Some context \<Rightarrow>
          (case as_seq (dict_get_or context ''messages'' (PTuple [])) of
             None \<Rightarrow> Inl (TypeError ''state context messages must be a sequence'')
           | Some messages \<Rightarrow>
               (if list_ex (\<lambda>m. \<not> is_dict m) messages
                then Inl (TypeError ''state context messages must contain mappings'')
                else Inr (dict_set ''context''
                            (PDict (dict_set ''messages'' (PTuple (messages @ appended)) context))
                            state_value))))"

definition require_active_model_request :: "dict \<Rightarrow> string \<Rightarrow> unit res" where
  "require_active_model_request rt request_id =
     (case as_nonempty_str (dict_get rt ''active_model_request_id'') of
        None \<Rightarrow> Inl (ValueError ''model completion requires an active model request'')
      | Some active \<Rightarrow>
          (if request_id \<noteq> active
           then Inl (ValueError ''model completion request_id must match the active model request'')
           else Inr ()))"

definition model_request :: "string \<Rightarrow> dict \<Rightarrow> ModelRequest res" where
  "model_request run_id state_value =
     bind_res (runtime_state state_value) (\<lambda>rt.
     bind_res (runtime_int rt ''round_index'') (\<lambda>r.
     case as_dict (dict_get_or state_value ''context'' (PDict [])) of
       None \<Rightarrow> Inl (TypeError ''state context must be a mapping'')
     | Some context \<Rightarrow>
         bind_res (commands_of rt) (\<lambda>cmds.
         ModelRequest_init
           \<lparr>mreq_request_id = run_id @ '':model:'' @ str_of_int (r + 1), mreq_run_id = run_id,
            mreq_round_index = r + 1, mreq_commands = cmds, mreq_context = context\<rparr>)))"

definition activate_model_request :: "string \<Rightarrow> dict \<Rightarrow> (dict \<times> ModelRequest) res" where
  "activate_model_request run_id state_value =
     bind_res (model_request run_id state_value) (\<lambda>req.
     bind_res (runtime_state state_value) (\<lambda>rt.
     Inr (with_runtime_state state_value
            (dict_set ''active_model_request_id'' (PStr (mreq_request_id req)) rt), req)))"

text \<open>After a settlement: the next pending plan, or a new model request when none is left.\<close>

definition next_after_settlement ::
    "string \<Rightarrow> EffectPlan list \<Rightarrow> dict \<Rightarrow> (dict \<times> NextAction) res" where
  "next_after_settlement run_id remaining state_value =
     (case remaining of
        plan # rest \<Rightarrow> map_res (\<lambda>a. (state_value, a)) (prepared_action plan)
      | [] \<Rightarrow>
          bind_res (activate_model_request run_id state_value) (\<lambda>(v, req).
          map_res (\<lambda>a. (v, a)) (NextAction_init (ModelGenerationAction req))))"

section \<open>The four proposals\<close>

definition propose_initial :: "EngineStepRequest \<Rightarrow> Initial \<Rightarrow> TransitionProposal res" where
  "propose_initial request step_input =
     (let sv = esr_state_version request;
          rt = dict_of [(''round_index'', PInt 0),
                        (''mailbox_cut'', PInt (init_mailbox_cut step_input)),
                        (''commands'', PTuple (map command_value (init_command_batch step_input))),
                        (''pending_effect_plans'', PTuple [])]
      in bind_res
           (activate_model_request (osv_run_id sv) (with_runtime_state (osv_value sv) rt))
           (\<lambda>(state_value, req).
         bind_res (NextAction_init (ModelGenerationAction req)) (\<lambda>action.
         TransitionProposal_init
           \<lparr>prop_transition_id = transition_id_of request, prop_state_value = state_value,
            prop_next_action = action, prop_pending_facts = [], prop_dispositions = [],
            prop_effect_plans = []\<rparr>)))"

definition pending_fact :: "string \<Rightarrow> string \<Rightarrow> (string \<times> pyval) list \<Rightarrow> PendingFact res" where
  "pending_fact fact_id fact_kind payload =
     PendingFact_init
       \<lparr>pf_fact_id = fact_id, pf_fact_kind = fact_kind, pf_payload = dict_of payload\<rparr>"

definition effect_id_of :: "string \<Rightarrow> nat \<Rightarrow> string" where
  "effect_id_of transition_id index = transition_id @ '':effect:'' @ str_of_nat index"

definition plan_of_call :: "string \<Rightarrow> nat \<Rightarrow> ModelToolCall \<Rightarrow> EffectPlan res" where
  "plan_of_call transition_id index call =
     EffectPlan_init
       \<lparr>plan_effect_id = effect_id_of transition_id index,
        plan_attempt_id = effect_id_of transition_id index @ '':attempt:1'',
        plan_effect_kind = ''tool'',
        plan_payload = dict_of
          [(''tool_call_id'', PStr (call_tool_call_id call)),
           (''tool_name'', PStr (call_name call)),
           (''arguments'', PDict (call_arguments call))],
        plan_idempotency_key = call_idempotency_key call,
        plan_requires_approval = call_requires_approval call,
        plan_approval_request_id = call_approval_request_id call\<rparr>"

definition tool_call_fact ::
    "string \<Rightarrow> nat \<Rightarrow> ModelToolCall \<Rightarrow> EffectPlan \<Rightarrow> PendingFact res" where
  "tool_call_fact transition_id index call plan =
     pending_fact (transition_id @ '':tool-call:'' @ str_of_nat index) ''tool_call''
       [(''tool_call_id'', PStr (call_tool_call_id call)),
        (''tool_name'', PStr (call_name call)),
        (''arguments'', PDict (call_arguments call)),
        (''effect_id'', PStr (plan_effect_id plan)),
        (''attempt_id'', PStr (plan_attempt_id plan))]"

definition approval_request_fact ::
    "string \<Rightarrow> nat \<Rightarrow> ModelToolCall \<Rightarrow> EffectPlan \<Rightarrow> PendingFact res" where
  "approval_request_fact transition_id index call plan =
     pending_fact (transition_id @ '':approval-request:'' @ str_of_nat index) ''approval_requested''
       [(''approval_request_id'', opt_str (call_approval_request_id call)),
        (''tool_call_id'', PStr (call_tool_call_id call)),
        (''tool_name'', PStr (call_name call)),
        (''arguments'', PDict (call_arguments call)),
        (''effect_id'', PStr (plan_effect_id plan)),
        (''attempt_id'', PStr (plan_attempt_id plan))]"

text \<open>The loop over the tool calls: one plan and one or two facts each, in call order.\<close>

fun plans_and_facts ::
    "string \<Rightarrow> nat \<Rightarrow> ModelToolCall list \<Rightarrow> (EffectPlan list \<times> PendingFact list) res" where
  "plans_and_facts transition_id index [] = Inr ([], [])"
| "plans_and_facts transition_id index (call # calls) =
     bind_res (plan_of_call transition_id index call) (\<lambda>plan.
     bind_res (tool_call_fact transition_id index call plan) (\<lambda>fact.
     bind_res
       (if call_requires_approval call
        then map_res (\<lambda>f. [fact, f]) (approval_request_fact transition_id index call plan)
        else Inr [fact]) (\<lambda>here.
     bind_res (plans_and_facts transition_id (Suc index) calls) (\<lambda>(plans, facts).
     Inr (plan # plans, here @ facts)))))"

definition completion_head_facts ::
    "string \<Rightarrow> ModelGenerationResult \<Rightarrow> PendingFact list res" where
  "completion_head_facts transition_id result =
     bind_res
       (pending_fact (transition_id @ '':assistant'') ''assistant_message''
          [(''content'', PStr (gen_assistant_content result))]) (\<lambda>a.
     case gen_finalized_thinking result of
       None \<Rightarrow> Inr [a]
     | Some t \<Rightarrow>
         map_res (\<lambda>f. [a, f])
           (pending_fact (transition_id @ '':thinking'') ''finalized_thinking''
              [(''text'', PStr t)]))"

definition propose_model_completion ::
    "EngineStepRequest \<Rightarrow> ModelGenerationResult \<Rightarrow> TransitionProposal res" where
  "propose_model_completion request result =
     (let sv = esr_state_version request; tid = transition_id_of request in
      bind_res (runtime_state (osv_value sv)) (\<lambda>rt.
      bind_res (require_active_model_request rt (gen_request_id result)) (\<lambda>_.
      bind_res (runtime_int rt ''round_index'') (\<lambda>r.
      bind_res (completion_head_facts tid result) (\<lambda>head.
      bind_res (plans_and_facts tid 0 (gen_tool_calls result)) (\<lambda>(plans, facts).
      let rt1 = dict_pop ''active_model_request_id'' rt;
          rt2 = dict_set ''round_index'' (PInt (r + 1)) rt1;
          rt3 = dict_set ''pending_effect_plans'' (PTuple (map effect_plan_value plans)) rt2;
          rt4 = dict_set ''last_assistant_content'' (PStr (gen_assistant_content result)) rt3
      in bind_res
           (append_conversation_messages (with_runtime_state (osv_value sv) rt4)
              [assistant_message result]) (\<lambda>state_value.
         bind_res
           (case plans of
              plan # rest \<Rightarrow> prepared_action plan
            | [] \<Rightarrow> NextAction_init
                      (TerminalAction (Some (gen_assistant_content result)) ''no_tool_calls''))
           (\<lambda>action.
         TransitionProposal_init
           \<lparr>prop_transition_id = tid, prop_state_value = state_value,
            prop_next_action = action, prop_pending_facts = head @ facts,
            prop_dispositions = [], prop_effect_plans = plans\<rparr>))))))))"

text \<open>
  A settlement of the first pending effect. The tests in order: a retained authorization that
  matches, the first pending plan, the reconciled marker, and the two rules that tie UNKNOWN
  effects to a committed reconciliation.
\<close>

definition settlement_guard :: "dict \<Rightarrow> EffectSettlement \<Rightarrow> EffectPlan list res" where
  "settlement_guard rt s =
     bind_res (pending_effect_plans rt) (\<lambda>plans.
     bind_res (validate_effect_settlement_authorization rt s) (\<lambda>_.
     bind_res
       (require_next_effect plans (es_effect_id s) (es_attempt_id s) (es_tool_call_id s)
          (es_tool_name s)) (\<lambda>_.
     let reconciled = dict_get rt ''reconciled_effect'' in
     bind_res
       (if reconciled \<noteq> PNone then validate_reconciled_settlement reconciled s else Inr ()) (\<lambda>_.
     if es_outcome s \<noteq> ESO_INDETERMINATE \<and> dict_get rt ''unknown_effect'' \<noteq> PNone
        \<and> reconciled = PNone
     then Inl (ValueError ''terminal UNKNOWN settlement requires committed reconciliation'')
     else if es_outcome s = ESO_INDETERMINATE \<and> reconciled \<noteq> PNone
     then Inl (ValueError ''reconciled effect cannot become indeterminate'')
     else Inr plans))))"

definition propose_indeterminate ::
    "EngineStepRequest \<Rightarrow> dict \<Rightarrow> EffectPlan list \<Rightarrow> EffectSettlement
     \<Rightarrow> TransitionProposal res" where
  "propose_indeterminate request rt plans s =
     (let sv = esr_state_version request in
      bind_res (active_effect_authorization rt) (\<lambda>active.
      let rt' = dict_set ''unknown_effect''
                  (PDict (dict_set ''indeterminate_input_id'' (PStr (es_input_id s)) active)) rt
      in bind_res (EffectReference_from_plan (hd plans)) (\<lambda>ref.
         bind_res (NextAction_init (BlockedAction ''indeterminate_dispatch'' (Some ref))) (\<lambda>action.
         TransitionProposal_init
           \<lparr>prop_transition_id = transition_id_of request,
            prop_state_value = with_runtime_state (osv_value sv) rt',
            prop_next_action = action, prop_pending_facts = [], prop_dispositions = [],
            prop_effect_plans = []\<rparr>))))"

definition tool_result_payload :: "EffectSettlement \<Rightarrow> (string \<times> pyval) list" where
  "tool_result_payload s =
     [(''tool_call_id'', PStr (es_tool_call_id s)),
      (''tool_name'', PStr (es_tool_name s)),
      (''effect_id'', PStr (es_effect_id s)),
      (''attempt_id'', PStr (es_attempt_id s)),
      (''result'', es_result s),
      (''is_error'', PBool (es_outcome s \<noteq> ESO_COMPLETED)),
      (''outcome'', PStr (settlement_outcome_value (es_outcome s)))]
     @ (case es_reason_code s of None \<Rightarrow> [] | Some c \<Rightarrow> [(''reason_code'', PStr c)])
     @ (case es_reason_message s of None \<Rightarrow> [] | Some m \<Rightarrow> [(''reason_message'', PStr m)])"

definition tool_message :: "string \<Rightarrow> string \<Rightarrow> pyval \<Rightarrow> bool \<Rightarrow> pyval" where
  "tool_message tool_call_id name content is_error =
     PDict (dict_of
       [(''role'', PStr ''tool''), (''tool_call_id'', PStr tool_call_id),
        (''name'', PStr name), (''content'', content), (''is_error'', PBool is_error)])"

definition settled_runtime :: "dict \<Rightarrow> EffectPlan list \<Rightarrow> dict" where
  "settled_runtime rt remaining =
     dict_pop ''reconciled_effect'' (dict_pop ''unknown_effect''
       (dict_pop ''active_effect_authorization''
         (dict_set ''pending_effect_plans'' (PTuple (map effect_plan_value remaining)) rt)))"

definition propose_effect_settlement ::
    "EngineStepRequest \<Rightarrow> EffectSettlement \<Rightarrow> TransitionProposal res" where
  "propose_effect_settlement request s =
     (let sv = esr_state_version request; tid = transition_id_of request in
      bind_res (runtime_state (osv_value sv)) (\<lambda>rt.
      bind_res (settlement_guard rt s) (\<lambda>plans.
      if es_outcome s = ESO_INDETERMINATE then propose_indeterminate request rt plans s
      else
        bind_res
          (append_conversation_messages
             (with_runtime_state (osv_value sv) (settled_runtime rt (tl plans)))
             [tool_message (es_tool_call_id s) (es_tool_name s) (es_result s)
                (es_outcome s \<noteq> ESO_COMPLETED)]) (\<lambda>state_value.
        bind_res (next_after_settlement (osv_run_id sv) (tl plans) state_value) (\<lambda>(v, action).
        bind_res (pending_fact (tid @ '':tool-result'') ''tool_result'' (tool_result_payload s))
          (\<lambda>fact.
        TransitionProposal_init
          \<lparr>prop_transition_id = tid, prop_state_value = v, prop_next_action = action,
           prop_pending_facts = [fact], prop_dispositions = [], prop_effect_plans = []\<rparr>))))))"

definition approval_guard :: "EngineStepRequest \<Rightarrow> dict \<Rightarrow> ApprovalSettlement
     \<Rightarrow> EffectPlan list res" where
  "approval_guard request rt s =
     bind_res (pending_effect_plans rt) (\<lambda>plans.
     if ap_transition_id s \<noteq> cr_transition_id (osv_commit_ref (esr_state_version request))
     then Inl (ValueError
            ''approval settlement transition_id must match owning committed transition'')
     else
       bind_res
         (require_next_effect plans (ap_effect_id s) (ap_attempt_id s) (ap_tool_call_id s)
            (ap_tool_name s)) (\<lambda>_.
       if \<not> plan_requires_approval (hd plans)
       then Inl (ValueError ''approval settlement does not match an approval-wait effect'')
       else Inr plans))"

definition propose_approval_grant ::
    "EngineStepRequest \<Rightarrow> EffectPlan \<Rightarrow> ApprovalSettlement \<Rightarrow> TransitionProposal res" where
  "propose_approval_grant request plan s =
     bind_res (NextAction_init (PreparedEffectAction plan DISPATCH)) (\<lambda>action.
     bind_res (CommandDisposition_init (AppliedCommandDisposition (ap_command_id s))) (\<lambda>disp.
     TransitionProposal_init
       \<lparr>prop_transition_id = transition_id_of request,
        prop_state_value = osv_value (esr_state_version request),
        prop_next_action = action, prop_pending_facts = [], prop_dispositions = [disp],
        prop_effect_plans = []\<rparr>))"

definition rejection_content :: "string \<Rightarrow> ApprovalSettlement \<Rightarrow> pyval" where
  "rejection_content code s =
     PDict (dict_of [(''reason_code'', PStr code),
                     (''message'', opt_str (ap_rejection_message s))])"

definition propose_approval_denial ::
    "EngineStepRequest \<Rightarrow> dict \<Rightarrow> EffectPlan list \<Rightarrow> string \<Rightarrow> ApprovalSettlement
     \<Rightarrow> TransitionProposal res" where
  "propose_approval_denial request rt remaining code s =
     (let sv = esr_state_version request; tid = transition_id_of request;
          rt' = dict_set ''pending_effect_plans'' (PTuple (map effect_plan_value remaining)) rt
      in bind_res
           (append_conversation_messages (with_runtime_state (osv_value sv) rt')
              [tool_message (ap_tool_call_id s) (ap_tool_name s) (rejection_content code s) True])
           (\<lambda>state_value.
         bind_res (next_after_settlement (osv_run_id sv) remaining state_value) (\<lambda>(v, action).
         bind_res
           (pending_fact (tid @ '':tool-result'') ''tool_result''
              [(''tool_call_id'', PStr (ap_tool_call_id s)),
               (''tool_name'', PStr (ap_tool_name s)),
               (''effect_id'', PStr (ap_effect_id s)),
               (''attempt_id'', PStr (ap_attempt_id s)),
               (''result'', rejection_content code s),
               (''is_error'', PBool True),
               (''reason_code'', PStr code)]) (\<lambda>fact.
         bind_res
           (CommandDisposition_init (RejectedCommandDisposition (ap_command_id s) code)) (\<lambda>disp.
         TransitionProposal_init
           \<lparr>prop_transition_id = tid, prop_state_value = v, prop_next_action = action,
            prop_pending_facts = [fact], prop_dispositions = [disp],
            prop_effect_plans = []\<rparr>)))))"

definition propose_approval_resolution ::
    "EngineStepRequest \<Rightarrow> ApprovalSettlement \<Rightarrow> TransitionProposal res" where
  "propose_approval_resolution request s =
     bind_res (runtime_state (osv_value (esr_state_version request))) (\<lambda>rt.
     bind_res (approval_guard request rt s) (\<lambda>plans.
     if ap_approved s then propose_approval_grant request (hd plans) s
     else case ap_rejection_reason_code s of
            None \<Rightarrow> Inl (ValueError ''approval denial requires a rejection reason code'')
          | Some code \<Rightarrow> propose_approval_denial request rt (tl plans) code s))"

definition propose :: "EngineStepRequest \<Rightarrow> TransitionProposal res" where
  "propose request =
     (case esr_step_input request of
        Initial i \<Rightarrow> propose_initial request i
      | ModelGenerationCompleted r \<Rightarrow> propose_model_completion request r
      | EffectSettled s \<Rightarrow> propose_effect_settlement request s
      | ApprovalResolved s \<Rightarrow> propose_approval_resolution request s)"

end
