(* ===== verification/Coordinator.thy ===== *)
theory Coordinator
  imports Engine
begin

text \<open>
  \<open>agentkit/runtime/coordinator.py\<close>: the segment loop around the engine and its helpers.

  The ports (commit port, model adapter, effect executor, control probe, sinks) are
  parameters: functions on an abstract world \<open>'w\<close>, which return a result or an exception and
  the world they leave. Every port call the coordinator makes is recorded in a trace, so that
  the properties can speak of their order. One iteration of the loop, one round of the
  mailbox-cut loop and one wake-up of \<open>_generate\<close> are the steps of \<open>seg_step\<close>; \<open>seg_loop\<close>
  iterates it, and not returning is \<open>None\<close>.
\<close>

fun exception_message :: "exn \<Rightarrow> string" where
  "exception_message (RaisedFrom e c) =
     (if \<not> is_blank (exn_str e) then exn_str e
      else exn_class e @ '': '' @ exception_message c)"
| "exception_message e = (if \<not> is_blank (exn_str e) then exn_str e else exn_class e)"

section \<open>Reading a request and its settlement\<close>

definition mailbox_cut_of :: "RunSegmentRequest \<Rightarrow> int res" where
  "mailbox_cut_of request =
     (case seg_step_input request of
        Initial i \<Rightarrow> Inr (init_mailbox_cut i)
      | _ \<Rightarrow>
          (case as_dict (dict_get (osv_value (seg_state_version request)) runtime_key) of
             None \<Rightarrow> Inl (ValueError ''resumed segment state is missing the mailbox cut'')
           | Some rt \<Rightarrow>
               (case as_plain_int (dict_get rt ''mailbox_cut'') of
                  None \<Rightarrow> Inl (ValueError ''resumed segment mailbox cut must be an integer'')
                | Some n \<Rightarrow>
                    (if n < 0
                     then Inl (ValueError ''resumed segment mailbox cut must be non-negative'')
                     else Inr n))))"

definition is_settlement_input :: "EngineStepInput \<Rightarrow> bool" where
  "is_settlement_input i \<longleftrightarrow>
     (case i of EffectSettled _ \<Rightarrow> True | ApprovalResolved _ \<Rightarrow> True | _ \<Rightarrow> False)"

definition approved_settlement :: "EngineStepInput \<Rightarrow> ApprovalSettlement option" where
  "approved_settlement i =
     (case i of ApprovalResolved s \<Rightarrow> if ap_approved s then Some s else None | _ \<Rightarrow> None)"

definition settlement_of :: "EngineStepInput \<Rightarrow> Settlement res" where
  "settlement_of i =
     (case i of
        EffectSettled s \<Rightarrow> Inr (SettleEffect s)
      | ApprovalResolved s \<Rightarrow> Inr (SettleApproval s)
      | _ \<Rightarrow> Inl (TypeError ''step input does not carry a settlement''))"

fun status_by_outcome :: "EffectSettlementOutcome \<Rightarrow> EffectStatus" where
  "status_by_outcome ESO_COMPLETED = COMPLETED"
| "status_by_outcome ESO_FAILED = FAILED"
| "status_by_outcome ESO_INDETERMINATE = UNKNOWN"

definition settlement_mutation :: "Settlement \<Rightarrow> EffectMutation res" where
  "settlement_mutation settlement =
     (case settlement of
        SettleApproval s \<Rightarrow>
          (if ap_approved s
           then Inl (ValueError ''approved settlement commits with dispatch authorization'')
           else EffectMutation_init
             \<lparr>mut_effect_id = ap_effect_id s, mut_attempt_id = ap_attempt_id s,
              mut_status = REJECTED,
              mut_payload = dict_of
                [(''reason_code'', opt_str (ap_rejection_reason_code s)),
                 (''message'', opt_str (ap_rejection_message s))],
              mut_expected_status = Some PREPARED, mut_reconciliation = None\<rparr>)
      | SettleEffect s \<Rightarrow>
          EffectMutation_init
            \<lparr>mut_effect_id = es_effect_id s, mut_attempt_id = es_attempt_id s,
             mut_status = status_by_outcome (es_outcome s),
             mut_payload = dict_of
               [(''result'', es_result s), (''reason_code'', opt_str (es_reason_code s)),
                (''reason_message'', opt_str (es_reason_message s))],
             mut_expected_status = Some DISPATCHED, mut_reconciliation = None\<rparr>)"

definition is_post_reconciliation_settlement ::
    "OperationStateVersion \<Rightarrow> Settlement \<Rightarrow> bool" where
  "is_post_reconciliation_settlement state_version settlement \<longleftrightarrow>
     (case settlement of
        SettleApproval _ \<Rightarrow> False
      | SettleEffect s \<Rightarrow>
          (case as_dict (dict_get (osv_value state_version) runtime_key) of
             None \<Rightarrow> False
           | Some rt \<Rightarrow>
               (case as_dict (dict_get rt ''reconciled_effect'') of
                  None \<Rightarrow> False
                | Some marker \<Rightarrow>
                    dict_get marker ''reconciled_input_id'' = PStr (es_input_id s))))"

section \<open>Reading a commit result\<close>

definition commit_failure :: "CommitResult \<Rightarrow> SegmentOutcome res" where
  "commit_failure result =
     bind_res
       (case result of
          ExactReplayCommitResult v _ \<Rightarrow>
            map_res (\<lambda>f. (Some v, f))
              (failure_report ''exact_replay_requires_recovery''
                 ''exact replay requires coordinator recovery'')
        | CASConflictCommitResult v \<Rightarrow>
            map_res (\<lambda>f. (Some v, f))
              (failure_report ''cas_conflict'' ''operation state compare-and-swap conflict'')
        | StaleOwnerCommitResult _ _ \<Rightarrow>
            map_res (\<lambda>f. (None, f)) (failure_report ''stale_owner'' ''owner epoch is stale'')
        | StaleMailboxCutCommitResult _ _ \<Rightarrow>
            map_res (\<lambda>f. (None, f))
              (failure_report ''stale_mailbox_cut'' ''mailbox cut is stale'')
        | InvalidTransitionCommitResult c m \<Rightarrow>
            map_res (\<lambda>f. (None, f)) (failure_report c m)
        | StorageFailureCommitResult f \<Rightarrow> Inr (None, f)
        | _ \<Rightarrow> Inl (TypeError ''commit port returned an unsupported result''))
       (\<lambda>(v, f). SegmentOutcome_init (FailedOutcome v f 0))"

text \<open>A committed result is its state version and notices; otherwise the failed outcome.\<close>

definition committed_result ::
    "CommitResult \<Rightarrow> (SegmentOutcome + OperationStateVersion \<times> CommittedFactNotice list) res" where
  "committed_result result =
     (case result of
        CommittedCommitResult v notices _ \<Rightarrow> Inr (Inr (v, notices))
      | ExactReplayCommitResult v receipt \<Rightarrow> Inr (Inr (v, rcpt_facts receipt))
      | _ \<Rightarrow> map_res Inl (commit_failure result))"

definition authorized_result ::
    "CommitResult \<Rightarrow>
       (SegmentOutcome + OperationStateVersion \<times> DispatchPermit \<times> CommittedFactNotice list) res" where
  "authorized_result result =
     (case result of
        DispatchAuthorizedResult v permit notices _ \<Rightarrow> Inr (Inr (v, permit, notices))
      | _ \<Rightarrow> map_res Inl (commit_failure result))"

text \<open>\<open>_with_steps\<close> is applied to failed outcomes only.\<close>

definition with_steps ::
    "SegmentOutcome \<Rightarrow> int \<Rightarrow> OperationStateVersion \<Rightarrow> SegmentOutcome res" where
  "with_steps outcome steps_taken fallback_state =
     (case outcome of
        FailedOutcome v f _ \<Rightarrow>
          SegmentOutcome_init
            (FailedOutcome (Some (case v of None \<Rightarrow> fallback_state | Some v' \<Rightarrow> v')) f steps_taken)
      | _ \<Rightarrow> Inr outcome)"

definition safe_yield ::
    "OperationStateVersion \<Rightarrow> ControlSnapshot \<Rightarrow> int \<Rightarrow> SegmentOutcome res" where
  "safe_yield state_version snapshot steps_taken =
     (case snap_reason snapshot of
        None \<Rightarrow> Inl (ValueError ''raised control snapshot requires a reason'')
      | Some reason \<Rightarrow> SegmentOutcome_init (SafeYieldOutcome state_version reason steps_taken))"

section \<open>Dispatch authorization\<close>

definition authorization_proposal ::
    "TransitionProposal \<Rightarrow> OperationStateVersion \<Rightarrow> bool \<Rightarrow> TransitionProposal res" where
  "authorization_proposal prepared current_state preserve_pending =
     (case prop_next_action prepared of
        PreparedEffectAction plan k \<Rightarrow>
          TransitionProposal_init
            \<lparr>prop_transition_id =
               cr_transition_id (osv_commit_ref current_state) @ '':dispatch:''
                 @ plan_effect_id plan @ '':'' @ plan_attempt_id plan,
             prop_state_value =
               (if preserve_pending then prop_state_value prepared else osv_value current_state),
             prop_next_action = PreparedEffectAction plan k,
             prop_pending_facts = (if preserve_pending then prop_pending_facts prepared else []),
             prop_dispositions = (if preserve_pending then prop_dispositions prepared else []),
             prop_effect_plans = (if preserve_pending then prop_effect_plans prepared else [])\<rparr>
      | _ \<Rightarrow> Inl (ValueError ''dispatch authorization requires a prepared effect action''))"

text \<open>The two tool identities of a plan, as three helpers of the file read them.\<close>

definition plan_tool_identity :: "EffectPlan \<Rightarrow> (string \<times> string) res" where
  "plan_tool_identity plan =
     (case as_nonempty_str (dict_get (plan_payload plan) ''tool_call_id'') of
        None \<Rightarrow> Inl (ValueError ''effect plan is missing tool_call_id'')
      | Some c \<Rightarrow>
          (case as_nonempty_str (dict_get (plan_payload plan) ''tool_name'') of
             None \<Rightarrow> Inl (ValueError ''effect plan is missing tool_name'')
           | Some n \<Rightarrow> Inr (c, n)))"

definition authorization_marker ::
    "EffectPlan \<Rightarrow> string \<Rightarrow> string \<Rightarrow> string \<Rightarrow> int \<Rightarrow> dict" where
  "authorization_marker plan tool_call_id tool_name transition_id owner_epoch =
     dict_of
       [(''effect_id'', PStr (plan_effect_id plan)),
        (''attempt_id'', PStr (plan_attempt_id plan)),
        (''tool_call_id'', PStr tool_call_id),
        (''tool_name'', PStr tool_name),
        (''authorization_transition_id'', PStr transition_id),
        (''dispatch_owner_epoch'', PInt owner_epoch)]"

definition with_active_effect_authorization ::
    "TransitionProposal \<Rightarrow> int \<Rightarrow> TransitionProposal res" where
  "with_active_effect_authorization proposal owner_epoch =
     (case prop_next_action proposal of
        PreparedEffectAction plan _ \<Rightarrow>
          bind_res (plan_tool_identity plan) (\<lambda>(c, n).
          case as_dict (dict_get_or (prop_state_value proposal) runtime_key (PDict [])) of
            None \<Rightarrow> Inl (TypeError ''engine runtime state must be a mapping'')
          | Some rt \<Rightarrow>
              TransitionProposal_init (proposal\<lparr>prop_state_value :=
                with_runtime_state (prop_state_value proposal)
                  (dict_set ''active_effect_authorization''
                     (PDict (authorization_marker plan c n (prop_transition_id proposal) owner_epoch))
                     rt)\<rparr>))
      | _ \<Rightarrow> Inl (ValueError ''dispatch authorization requires a prepared effect action''))"

definition validate_dispatch_permit ::
    "DispatchPermit \<Rightarrow> string \<Rightarrow> int \<Rightarrow> EffectPlan \<Rightarrow> string \<Rightarrow> unit res" where
  "validate_dispatch_permit permit session_id owner_epoch plan authorization_transition_id =
     (if (permit_session_id permit, permit_effect_id permit, permit_attempt_id permit,
          permit_authorization_transition_id permit, permit_owner_epoch permit,
          permit_idempotency_key permit)
         \<noteq> (session_id, plan_effect_id plan, plan_attempt_id plan,
            authorization_transition_id, owner_epoch, plan_idempotency_key plan)
      then Inl (ValueError ''dispatch permit binding does not match authorization'')
      else Inr ())"

definition effect_settlement ::
    "EffectPlan \<Rightarrow> string \<Rightarrow> int \<Rightarrow> EffectExecutionResult \<Rightarrow> EffectSettlement res" where
  "effect_settlement plan authorization_transition_id owner_epoch result =
     bind_res (plan_tool_identity plan) (\<lambda>(tool_call_id, tool_name).
     let input_id = authorization_transition_id @ '':settlement:'' @ plan_attempt_id plan;
         settle = \<lambda>outcome v code msg. EffectSettlement_init
           \<lparr>es_input_id = input_id, es_tool_call_id = tool_call_id, es_tool_name = tool_name,
            es_effect_id = plan_effect_id plan, es_attempt_id = plan_attempt_id plan,
            es_authorization_transition_id = authorization_transition_id,
            es_owner_epoch = owner_epoch, es_outcome = outcome, es_result = v,
            es_reason_code = code, es_reason_message = msg\<rparr>
     in case result of
          EffectCompletedResult v \<Rightarrow>
            EffectSettlement_completed input_id tool_call_id tool_name (plan_effect_id plan)
              (plan_attempt_id plan) authorization_transition_id owner_epoch v
        | EffectFailedResult f \<Rightarrow>
            settle ESO_FAILED (PStr (fail_message f)) (Some (fail_code f)) (Some (fail_message f))
        | EffectIndeterminateResult code msg ref \<Rightarrow>
            settle ESO_INDETERMINATE (PDict (dict_of [(''evidence_ref'', opt_str ref)]))
              (Some code) (Some msg))"

section \<open>Reconciled effects\<close>

definition required_reconciled_marker_str :: "dict \<Rightarrow> string \<Rightarrow> string res" where
  "required_reconciled_marker_str marker field_name =
     (case as_nonempty_str (dict_get marker field_name) of
        Some s \<Rightarrow> Inr s
      | None \<Rightarrow> Inl (ValueError (''reconciled effect '' @ field_name
                       @ '' must be a non-empty string'')))"

definition optional_reconciled_marker_str :: "dict \<Rightarrow> string \<Rightarrow> string option res" where
  "optional_reconciled_marker_str marker field_name =
     (if dict_get marker field_name = PNone then Inr None
      else case as_nonempty_str (dict_get marker field_name) of
             Some s \<Rightarrow> Inr (Some s)
           | None \<Rightarrow> Inl (ValueError (''reconciled effect '' @ field_name
                            @ '' must be a non-empty string or None'')))"

text \<open>\<open>EffectSettlementOutcome(value)\<close>.\<close>

definition settlement_outcome_of :: "pyval \<Rightarrow> EffectSettlementOutcome res" where
  "settlement_outcome_of v =
     (if v = PStr ''completed'' then Inr ESO_COMPLETED
      else if v = PStr ''failed'' then Inr ESO_FAILED
      else if v = PStr ''indeterminate'' then Inr ESO_INDETERMINATE
      else Inl (ValueError ''not a valid EffectSettlementOutcome''))"

definition reconciled_marker_matches ::
    "dict \<Rightarrow> OperationStateVersion \<Rightarrow> ReconciliationRecord \<Rightarrow> bool" where
  "reconciled_marker_matches marker state_version r \<longleftrightarrow>
     py_eq (dict_get marker ''effect_id'') (PStr (rec_effect_id r))
     \<and> py_eq (dict_get marker ''attempt_id'') (PStr (rec_attempt_id r))
     \<and> py_eq (dict_get marker ''evidence_ref'') (PStr (rec_evidence_ref r))
     \<and> py_eq (dict_get marker ''reconciliation_owner_epoch'') (PInt (rec_owner_epoch r))
     \<and> py_eq (dict_get marker ''reconciliation_transition_id'') (PStr (rec_transition_id r))
     \<and> py_eq (dict_get marker ''outcome'')
         (PStr (reconciliation_outcome_value (rec_observed_outcome r)))
     \<and> cr_transition_id (osv_commit_ref state_version) = rec_transition_id r"

definition reconciled_effect_input ::
    "OperationStateVersion \<Rightarrow> ReconciliationRecord \<Rightarrow> int \<Rightarrow> EffectSettlement res" where
  "reconciled_effect_input state_version r owner_epoch =
     (case as_dict (dict_get (osv_value state_version) runtime_key) of
        None \<Rightarrow> Inl (ValueError ''reconciled state is missing runtime metadata'')
      | Some rt \<Rightarrow>
          (case as_dict (dict_get rt ''reconciled_effect'') of
             None \<Rightarrow> Inl (ValueError ''reconciled state is missing the reconciled effect'')
           | Some marker \<Rightarrow>
               (if \<not> reconciled_marker_matches marker state_version r
                then Inl (ValueError ''reconciled effect does not match reconciliation record'')
                else
                  bind_res (required_reconciled_marker_str marker ''reconciled_input_id'') (\<lambda>inp.
                  bind_res (required_reconciled_marker_str marker ''indeterminate_input_id'')
                    (\<lambda>ind.
                  if inp = ind
                  then Inl (ValueError ''reconciled input must differ from indeterminate input'')
                  else
                    bind_res (required_reconciled_marker_str marker ''tool_call_id'') (\<lambda>c.
                    bind_res (required_reconciled_marker_str marker ''tool_name'') (\<lambda>n.
                    bind_res (required_reconciled_marker_str marker ''authorization_transition_id'')
                      (\<lambda>auth.
                    bind_res (settlement_outcome_of (dict_get marker ''outcome'')) (\<lambda>out.
                    bind_res (optional_reconciled_marker_str marker ''reason_code'') (\<lambda>code.
                    bind_res (optional_reconciled_marker_str marker ''reason_message'') (\<lambda>msg.
                    EffectSettlement_init
                      \<lparr>es_input_id = inp, es_tool_call_id = c, es_tool_name = n,
                       es_effect_id = rec_effect_id r, es_attempt_id = rec_attempt_id r,
                       es_authorization_transition_id = auth, es_owner_epoch = owner_epoch,
                       es_outcome = out, es_result = dict_get marker ''result'',
                       es_reason_code = code, es_reason_message = msg\<rparr>)))))))))))"

end
