(* ===== verification/Step_Loop.thy ===== *)
theory Step_Loop
  imports Py_Prelude
begin

text \<open>
  Loops that may not end: a step gives the next state or the result, \<open>step_loop\<close> iterates it
  (\<open>None\<close> when it never ends), \<open>step_fuel\<close> is the executable approximation. Two interfaces:
  an invariant of the steps that decides what a result looks like, and a well-founded descent
  that makes the loop end.
\<close>

partial_function (option) step_loop :: "('s \<Rightarrow> 's + 'r) \<Rightarrow> 's \<Rightarrow> 'r option" where
  "step_loop step s = (case step s of Inl s' \<Rightarrow> step_loop step s' | Inr r \<Rightarrow> Some r)"

fun step_fuel :: "('s \<Rightarrow> 's + 'r) \<Rightarrow> nat \<Rightarrow> 's \<Rightarrow> 'r option" where
  "step_fuel step 0 s = None"
| "step_fuel step (Suc n) s = (case step s of Inl s' \<Rightarrow> step_fuel step n s' | Inr r \<Rightarrow> Some r)"

inductive step_reach :: "('s \<Rightarrow> 's + 'r) \<Rightarrow> 's \<Rightarrow> 's \<Rightarrow> bool" for step where
  refl: "step_reach step s s"
| step: "step_reach step s t \<Longrightarrow> step t = Inl u \<Longrightarrow> step_reach step s u"

inductive_cases step_reach_cases: "step_reach step s t"

lemma step_reach_front:
  "step_reach step u t \<Longrightarrow> step s = Inl u \<Longrightarrow> step_reach step s t"
  by (induction rule: step_reach.induct) (auto intro: step_reach.intros)

lemma step_loop_Inl: "step s = Inl s' \<Longrightarrow> step_loop step s = step_loop step s'"
  by (subst step_loop.simps) simp

lemma step_loop_Inr: "step s = Inr r \<Longrightarrow> step_loop step s = Some r"
  by (subst step_loop.simps) simp

text \<open>A result is the result of a step from a reachable state.\<close>

lemma step_loop_result:
  fixes step :: "'s \<Rightarrow> 's + 'r"
  shows "step_loop step s = Some r \<Longrightarrow> \<exists>t. step_reach step s t \<and> step t = Inr r"
proof (erule step_loop.raw_induct
    [where P = "\<lambda>step s r. \<exists>t. step_reach step s t \<and> step t = Inr r", rotated])
  fix loop :: "('s \<Rightarrow> 's + 'r) \<Rightarrow> 's \<Rightarrow> 'r option" and step s r
  assume IH: "\<And>step s r. loop step s = Some r \<Longrightarrow> \<exists>t. step_reach step s t \<and> step t = Inr r"
    and eq: "(case step s of Inl s' \<Rightarrow> loop step s' | Inr r \<Rightarrow> Some r) = Some r"
  show "\<exists>t. step_reach step s t \<and> step t = Inr r"
  proof (cases "step s")
    case (Inl u)
    with eq have "loop step u = Some r" by simp
    then obtain t where "step_reach step u t" "step t = Inr r" using IH by blast
    with Inl show ?thesis by (blast intro: step_reach_front)
  next
    case (Inr q)
    with eq show ?thesis by (auto intro: step_reach.refl)
  qed
qed

lemma step_fuel_loop: "step_fuel step n s = Some r \<Longrightarrow> step_loop step s = Some r"
  by (induction n arbitrary: s)
     (auto simp: step_loop_Inl step_loop_Inr split: sum.splits)

text \<open>An invariant of the steps, and what it says of the result.\<close>

locale step_invariant =
  fixes step :: "'s \<Rightarrow> 's + 'r" and inv :: "'s \<Rightarrow> bool" and post :: "'r \<Rightarrow> bool"
  assumes inv_step: "inv s \<Longrightarrow> step s = Inl s' \<Longrightarrow> inv s'"
    and inv_post: "inv s \<Longrightarrow> step s = Inr r \<Longrightarrow> post r"
begin

lemma inv_reach: "step_reach step s t \<Longrightarrow> inv s \<Longrightarrow> inv t"
  by (induction rule: step_reach.induct) (auto intro: inv_step)

lemma loop_post: "inv s \<Longrightarrow> step_loop step s = Some r \<Longrightarrow> post r"
  by (auto dest!: step_loop_result intro: inv_reach inv_post)

end

text \<open>A well-founded relation the steps descend in while the invariant holds: the loop ends.\<close>

locale step_descent = step_invariant +
  fixes below :: "('a \<times> 'a) set"
  assumes wf_below: "wf below"
    and step_below: "inv s \<Longrightarrow> step s = Inl s' \<Longrightarrow> (s', s) \<in> below"
begin

lemma fuel_enough: "inv s \<Longrightarrow> \<exists>n r. step_fuel step n s = Some r"
  using wf_below
proof (induction s rule: wf_induct_rule)
  case (less s)
  show ?case
  proof (cases "step s")
    case (Inl t)
    then obtain n r where "step_fuel step n t = Some r"
      using less.IH step_below inv_step less.prems by blast
    with Inl have "step_fuel step (Suc n) s = Some r" by simp
    then show ?thesis by blast
  next
    case (Inr r)
    then have "step_fuel step (Suc 0) s = Some r" by simp
    then show ?thesis by blast
  qed
qed

lemma loop_ends: "inv s \<Longrightarrow> \<exists>r. step_loop step s = Some r \<and> post r"
  using fuel_enough step_fuel_loop loop_post by metis

end

end
