(* ===== verification/Segment_Loop.thy ===== *)
theory Segment_Loop
  imports Coordinator Step_Loop
begin

text \<open>
  The loop of \<open>SegmentCoordinator.run\<close>, \<open>_generate\<close> and \<open>_reconcile_and_run_segment\<close> as a
  step function over an explicit state: the local variables of \<open>run\<close>, the two guarded sinks,
  the trace of port calls and the world. A step is total; what it raises is a value.
\<close>

section \<open>Ports and the host state\<close>

text \<open>
  What \<open>asyncio.wait\<close> of the generation task and the control task gives back: a frame the
  adapter emits meanwhile, the finished control task (looked at first when both are done), the
  finished generation task, or the cancellation of the coordinator's own task.
\<close>

datatype race_event =
    RaceFrame StreamFrame
  | RaceControl "ControlSnapshot res"
  | RaceGenerated "ModelGenerationResult option res"
  | RaceCancelled

record 'w ports =
  port_observe :: "'w \<Rightarrow> ControlSnapshot res \<times> 'w"
  port_commit_transition :: "CommitTransitionRequest \<Rightarrow> 'w \<Rightarrow> CommitResult res \<times> 'w"
  port_commit_settlement :: "CommitSettlementRequest \<Rightarrow> 'w \<Rightarrow> CommitResult res \<times> 'w"
  port_authorize_dispatch :: "DispatchAuthorizationRequest \<Rightarrow> 'w \<Rightarrow> CommitResult res \<times> 'w"
  port_commit_reconciliation :: "CommitReconciliationRequest \<Rightarrow> 'w \<Rightarrow> CommitResult res \<times> 'w"
  port_execute :: "DispatchPermit \<Rightarrow> 'w \<Rightarrow> EffectExecutionResult res \<times> 'w"
  port_generate :: "ModelRequest \<Rightarrow> 'w \<Rightarrow> 'w"
  port_race :: "int \<Rightarrow> 'w \<Rightarrow> race_event \<times> 'w"
  port_drain_generate :: "'w \<Rightarrow> (StreamFrame list \<times> exn option) \<times> 'w"
  port_drain_wait :: "'w \<Rightarrow> exn option \<times> 'w"
  port_emit_frame :: "StreamFrame \<Rightarrow> 'w \<Rightarrow> unit res \<times> 'w"
  port_emit_fact :: "CommittedFactNotice \<Rightarrow> 'w \<Rightarrow> unit res \<times> 'w"

datatype event =
    EvObserve "ControlSnapshot res"
  | EvTransition CommitTransitionRequest "CommitResult res"
  | EvSettle CommitSettlementRequest "CommitResult res"
  | EvAuthorize DispatchAuthorizationRequest "CommitResult res"
  | EvReconcile CommitReconciliationRequest "CommitResult res"
  | EvExecute DispatchPermit "EffectExecutionResult res"
  | EvGenerate ModelRequest
  | EvFrame StreamFrame
  | EvFact CommittedFactNotice

text \<open>The world, the \<open>_enabled\<close> flags of the two sinks, the delivery failures and the trace.\<close>

record 'w host =
  host_world :: 'w
  host_frames_enabled :: bool
  host_facts_enabled :: bool
  host_failures :: "DeliveryFailure list"
  host_trace :: "event list"

definition start_host :: "'w \<Rightarrow> 'w host" where
  "start_host w = \<lparr>host_world = w, host_frames_enabled = True, host_facts_enabled = True,
                   host_failures = [], host_trace = []\<rparr>"

definition record_event :: "event \<Rightarrow> 'w \<Rightarrow> 'w host \<Rightarrow> 'w host" where
  "record_event ev w h = h\<lparr>host_world := w, host_trace := host_trace h @ [ev]\<rparr>"

text \<open>A port call: the world moves on, the call is recorded, the result is handed back.\<close>

definition host_call ::
    "('w \<Rightarrow> 'a res \<times> 'w) \<Rightarrow> ('a res \<Rightarrow> event) \<Rightarrow> 'w host \<Rightarrow> 'a res \<times> 'w host" where
  "host_call f ev h =
     (case f (host_world h) of (r, w) \<Rightarrow> (r, record_event (ev r) w h))"

section \<open>Guarded sinks\<close>

definition delivery_failure :: "string \<Rightarrow> exn \<Rightarrow> DeliveryFailure res" where
  "delivery_failure sink e =
     DeliveryFailure_init \<lparr>df_sink = sink, df_message = exception_message e\<rparr>"

text \<open>\<open>_GuardedFrameSink.emit\<close>: what it raises goes to the adapter that called it.\<close>

definition emit_frame :: "'w ports \<Rightarrow> StreamFrame \<Rightarrow> 'w host \<Rightarrow> unit res \<times> 'w host" where
  "emit_frame ports frame h =
     (if \<not> host_frames_enabled h then (Inr (), h)
      else case host_call (port_emit_frame ports frame) (\<lambda>_. EvFrame frame) h of
             (Inr _, h1) \<Rightarrow> (Inr (), h1)
           | (Inl e, h1) \<Rightarrow>
               (if \<not> is_exception e then (Inl e, h1)
                else let h2 = h1\<lparr>host_frames_enabled := False\<rparr> in
                     case delivery_failure ''frame'' e of
                       Inl e' \<Rightarrow> (Inl e', h2)
                     | Inr d \<Rightarrow> (Inr (), h2\<lparr>host_failures := host_failures h2 @ [d]\<rparr>)))"

definition emit_frames :: "'w ports \<Rightarrow> StreamFrame list \<Rightarrow> 'w host \<Rightarrow> 'w host" where
  "emit_frames ports frames h = fold (\<lambda>f h. snd (emit_frame ports f h)) frames h"

text \<open>\<open>_GuardedCommittedFactSink.emit_all\<close>.\<close>

fun emit_each :: "'w ports \<Rightarrow> CommittedFactNotice list \<Rightarrow> 'w host \<Rightarrow> unit res \<times> 'w host" where
  "emit_each ports [] h = (Inr (), h)"
| "emit_each ports (n # ns) h =
     (case host_call (port_emit_fact ports n) (\<lambda>_. EvFact n) h of
        (Inr _, h1) \<Rightarrow> emit_each ports ns h1
      | (Inl e, h1) \<Rightarrow>
          (if \<not> is_exception e then (Inl e, h1)
           else let h2 = h1\<lparr>host_facts_enabled := False\<rparr> in
                case delivery_failure ''committed_fact'' e of
                  Inl e' \<Rightarrow> (Inl e', h2)
                | Inr d \<Rightarrow> (Inr (), h2\<lparr>host_failures := host_failures h2 @ [d]\<rparr>)))"

definition emit_all :: "'w ports \<Rightarrow> CommittedFactNotice list \<Rightarrow> 'w host \<Rightarrow> unit res \<times> 'w host" where
  "emit_all ports notices h =
     (if \<not> host_facts_enabled h then (Inr (), h) else emit_each ports notices h)"

section \<open>The state of a run\<close>

text \<open>Where \<open>run\<close> is: at the head of its loop, inside \<open>_generate\<close>, or in the mailbox-cut loop.\<close>

datatype phase =
    Top
  | Generating ModelRequest int
  | Authorizing EffectPlan TransitionProposal DispatchAuthorizationRequest

record 'w seg =
  sg_host :: "'w host"
  sg_state :: OperationStateVersion
  sg_input :: EngineStepInput
  sg_steps :: int
  sg_cut :: int
  sg_propagate :: bool
  sg_phase :: phase

text \<open>
  Control flow inside an iteration: go on with a value, start the next iteration, return an
  outcome, raise.
\<close>

datatype 'a ctl = Go 'a | Again | Return SegmentOutcome | Raise exn

type_synonym ('w, 'a) seg_action = "'w seg \<Rightarrow> 'a ctl \<times> 'w seg"

definition go :: "'a \<Rightarrow> ('w, 'a) seg_action" where
  "go x s = (Go x, s)"

definition and_then :: "('w, 'a) seg_action \<Rightarrow> ('a \<Rightarrow> ('w, 'b) seg_action) \<Rightarrow> ('w, 'b) seg_action" where
  "and_then m f s =
     (case m s of
        (Go x, s1) \<Rightarrow> f x s1
      | (Again, s1) \<Rightarrow> (Again, s1)
      | (Return v, s1) \<Rightarrow> (Return v, s1)
      | (Raise e, s1) \<Rightarrow> (Raise e, s1))"

definition lift_res :: "'a res \<Rightarrow> ('w, 'a) seg_action" where
  "lift_res r s = (case r of Inl e \<Rightarrow> (Raise e, s) | Inr x \<Rightarrow> (Go x, s))"

definition return_outcome :: "SegmentOutcome res \<Rightarrow> ('w, 'a) seg_action" where
  "return_outcome r s = (case r of Inl e \<Rightarrow> (Raise e, s) | Inr v \<Rightarrow> (Return v, s))"

definition raising :: "exn \<Rightarrow> ('w, 'a) seg_action" where
  "raising e s = (Raise e, s)"

definition current :: "('w, 'w seg) seg_action" where
  "current s = (Go s, s)"

definition update_seg :: "('w seg \<Rightarrow> 'w seg) \<Rightarrow> ('w, unit) seg_action" where
  "update_seg f s = (Go (), f s)"

text \<open>A host operation, its exception kept as a value or raised.\<close>

definition attempt :: "('w host \<Rightarrow> 'a res \<times> 'w host) \<Rightarrow> ('w, 'a res) seg_action" where
  "attempt f s = (case f (sg_host s) of (r, h) \<Rightarrow> (Go r, s\<lparr>sg_host := h\<rparr>))"

definition perform :: "('w host \<Rightarrow> 'a res \<times> 'w host) \<Rightarrow> ('w, 'a) seg_action" where
  "perform f = and_then (attempt f) lift_res"

definition observe :: "'w ports \<Rightarrow> ('w, ControlSnapshot) seg_action" where
  "observe ports = perform (host_call (port_observe ports) EvObserve)"

text \<open>\<open>snapshot = control_probe.observe()\<close>, returning a safe yield when control is raised.\<close>

definition observe_or_yield :: "'w ports \<Rightarrow> ('w, ControlSnapshot) seg_action" where
  "observe_or_yield ports =
     and_then (observe ports) (\<lambda>snapshot.
     and_then current (\<lambda>s.
     if snap_raised snapshot then return_outcome (safe_yield (sg_state s) snapshot (sg_steps s))
     else go snapshot))"

section \<open>One iteration: propose and commit\<close>

definition bound_input :: "RunSegmentRequest \<Rightarrow> 'w seg \<Rightarrow> unit res" where
  "bound_input request s =
     (if is_settlement_input (sg_input s)
      then bind_res (settlement_of (sg_input s)) (\<lambda>settlement.
             validate_settlement_binding (sg_state s) settlement (seg_owner_epoch request))
      else Inr ())"

definition engine_request_of :: "'w seg \<Rightarrow> EngineStepRequest" where
  "engine_request_of s = \<lparr>esr_state_version = sg_state s, esr_step_input = sg_input s\<rparr>"

text \<open>An approved settlement whose dispatch follows is committed by the authorization itself.\<close>

definition defers_commit :: "EngineStepInput \<Rightarrow> TransitionProposal \<Rightarrow> bool" where
  "defers_commit step_input proposal \<longleftrightarrow>
     approved_settlement step_input \<noteq> None
     \<and> (case prop_next_action proposal of PreparedEffectAction _ k \<Rightarrow> k = DISPATCH | _ \<Rightarrow> False)"

definition transition_request ::
    "RunSegmentRequest \<Rightarrow> EngineStepRequest \<Rightarrow> TransitionProposal
     \<Rightarrow> CommitTransitionRequest res" where
  "transition_request request engine_request proposal =
     CommitTransitionRequest_init
       \<lparr>ctr_session_id = seg_session_id request, ctr_owner_id = seg_owner_id request,
        ctr_owner_epoch = seg_owner_epoch request, ctr_engine_request = engine_request,
        ctr_proposal = proposal\<rparr>"

definition settlement_request ::
    "RunSegmentRequest \<Rightarrow> EngineStepRequest \<Rightarrow> TransitionProposal \<Rightarrow> Settlement
     \<Rightarrow> CommitSettlementRequest res" where
  "settlement_request request engine_request proposal settlement =
     bind_res (settlement_mutation settlement) (\<lambda>mutation.
     CommitSettlementRequest_init
       \<lparr>csr_session_id = seg_session_id request, csr_owner_id = seg_owner_id request,
        csr_owner_epoch = seg_owner_epoch request, csr_engine_request = engine_request,
        csr_proposal = proposal, csr_settlement = settlement,
        csr_effect_mutation = mutation\<rparr>)"

definition commit_call ::
    "'w ports \<Rightarrow> RunSegmentRequest \<Rightarrow> EngineStepRequest \<Rightarrow> TransitionProposal
     \<Rightarrow> ('w, CommitResult) seg_action" where
  "commit_call ports request engine_request proposal =
     (let transition =
            and_then (lift_res (transition_request request engine_request proposal)) (\<lambda>r.
            perform (host_call (port_commit_transition ports r) (EvTransition r)))
      in case settlement_of (esr_step_input engine_request) of
           Inl _ \<Rightarrow> transition
         | Inr settlement \<Rightarrow>
             (if is_post_reconciliation_settlement (esr_state_version engine_request) settlement
              then transition
              else
                and_then (lift_res (settlement_request request engine_request proposal settlement))
                  (\<lambda>r. perform (host_call (port_commit_settlement ports r) (EvSettle r)))))"

text \<open>
  After the commit of a proposal: a conflict adopts the store's state and starts over with the
  same input; a failure returns; a commit moves the state, delivers the notices, and re-raises
  a cancellation that arrived while the effect was executing.
\<close>

definition adopt_commit ::
    "'w ports \<Rightarrow> EngineStepInput \<Rightarrow> CommitResult \<Rightarrow> ('w, unit) seg_action" where
  "adopt_commit ports step_input result =
     and_then (lift_res (committed_result result)) (\<lambda>committed.
     case committed of
       Inl failed \<Rightarrow>
         and_then current (\<lambda>s. return_outcome (with_steps failed (sg_steps s) (sg_state s)))
     | Inr (v, notices) \<Rightarrow>
         and_then (update_seg (\<lambda>s. s\<lparr>sg_state := v\<rparr>)) (\<lambda>_.
         and_then (perform (emit_all ports notices)) (\<lambda>_.
         and_then current (\<lambda>s.
         if sg_propagate s \<and> (case step_input of EffectSettled _ \<Rightarrow> True | _ \<Rightarrow> False)
         then raising CancelledError
         else if is_settlement_input step_input
         then and_then (observe_or_yield ports) (\<lambda>_. go ())
         else go ()))))"

definition commit_proposal ::
    "'w ports \<Rightarrow> RunSegmentRequest \<Rightarrow> EngineStepRequest \<Rightarrow> TransitionProposal
     \<Rightarrow> ('w, unit) seg_action" where
  "commit_proposal ports request engine_request proposal =
     and_then (if is_settlement_input (esr_step_input engine_request) then go ()
               else and_then (observe_or_yield ports) (\<lambda>_. go ())) (\<lambda>_.
     and_then (commit_call ports request engine_request proposal) (\<lambda>result.
     case result of
       CASConflictCommitResult v \<Rightarrow> (\<lambda>s. (Again, s\<lparr>sg_state := v\<rparr>))
     | _ \<Rightarrow> adopt_commit ports (esr_step_input engine_request) result))"

section \<open>One iteration: act\<close>

definition begin_generation ::
    "'w ports \<Rightarrow> RunSegmentRequest \<Rightarrow> ModelRequest \<Rightarrow> ('w, unit) seg_action" where
  "begin_generation ports request mreq =
     and_then current (\<lambda>s.
     if seg_max_rounds request \<le> sg_steps s
     then return_outcome (SegmentOutcome_init (RoundLimitOutcome (sg_state s) (sg_steps s)))
     else
       and_then (observe_or_yield ports) (\<lambda>snapshot.
       update_seg (\<lambda>s. s\<lparr>
         sg_host := record_event (EvGenerate mreq)
           (port_generate ports mreq (host_world (sg_host s))) (sg_host s),
         sg_phase := Generating mreq (snap_generation snapshot)\<rparr>)))"

text \<open>The dispatch authorization request of a plan, and the proposal it carries.\<close>

definition dispatch_mutation :: "EffectPlan \<Rightarrow> string \<Rightarrow> int \<Rightarrow> EffectMutation res" where
  "dispatch_mutation plan transition_id owner_epoch =
     EffectMutation_init
       \<lparr>mut_effect_id = plan_effect_id plan, mut_attempt_id = plan_attempt_id plan,
        mut_status = DISPATCHED,
        mut_payload = dict_of
          [(''authorization_transition_id'', PStr transition_id),
           (''owner_epoch'', PInt owner_epoch)],
        mut_expected_status = Some PREPARED, mut_reconciliation = None\<rparr>"

definition dispatch_request ::
    "RunSegmentRequest \<Rightarrow> int \<Rightarrow> EngineStepRequest \<Rightarrow> TransitionProposal \<Rightarrow> bool
     \<Rightarrow> EffectPlan \<Rightarrow> (TransitionProposal \<times> DispatchAuthorizationRequest) res" where
  "dispatch_request request mcut engine_request proposal deferred plan =
     bind_res (authorization_proposal proposal (esr_state_version engine_request) deferred) (\<lambda>p0.
     bind_res (with_active_effect_authorization p0 (seg_owner_epoch request)) (\<lambda>p.
     bind_res (dispatch_mutation plan (prop_transition_id p) (seg_owner_epoch request)) (\<lambda>m.
     map_res (\<lambda>r. (p, r))
       (DispatchAuthorizationRequest_init
          \<lparr>dar_session_id = seg_session_id request, dar_owner_id = seg_owner_id request,
           dar_owner_epoch = seg_owner_epoch request, dar_mailbox_cut = mcut,
           dar_engine_request = engine_request, dar_proposal = p, dar_effect_plan = plan,
           dar_effect_mutation = m,
           dar_approval_settlement = approved_settlement (esr_step_input engine_request)\<rparr>))))"

definition begin_dispatch ::
    "'w ports \<Rightarrow> RunSegmentRequest \<Rightarrow> TransitionProposal \<Rightarrow> bool \<Rightarrow> EffectPlan
     \<Rightarrow> ('w, unit) seg_action" where
  "begin_dispatch ports request proposal deferred plan =
     and_then (observe_or_yield ports) (\<lambda>_.
     and_then current (\<lambda>s.
     and_then
       (lift_res (dispatch_request request (sg_cut s) (engine_request_of s) proposal deferred plan))
       (\<lambda>(p, r). update_seg (\<lambda>s. s\<lparr>sg_phase := Authorizing plan p r\<rparr>))))"

definition act ::
    "'w ports \<Rightarrow> RunSegmentRequest \<Rightarrow> TransitionProposal \<Rightarrow> bool \<Rightarrow> ('w, unit) seg_action" where
  "act ports request proposal deferred =
     and_then current (\<lambda>s.
     case prop_next_action proposal of
       TerminalAction msg reason \<Rightarrow>
         return_outcome (SegmentOutcome_init (CompletedOutcome (sg_state s) msg (sg_steps s) reason))
     | BlockedAction reason eff \<Rightarrow>
         return_outcome (SegmentOutcome_init (BlockedOutcome (sg_state s) reason eff (sg_steps s)))
     | SafeYieldAction reason \<Rightarrow>
         return_outcome (SegmentOutcome_init (SafeYieldOutcome (sg_state s) reason (sg_steps s)))
     | ModelGenerationAction r \<Rightarrow> begin_generation ports request r
     | PreparedEffectAction plan APPROVAL_WAIT \<Rightarrow>
         and_then (lift_res (EffectReference_from_plan plan)) (\<lambda>ref.
         return_outcome (SegmentOutcome_init
           (BlockedOutcome (sg_state s) ''approval_required'' (Some ref) (sg_steps s))))
     | PreparedEffectAction plan DISPATCH \<Rightarrow> begin_dispatch ports request proposal deferred plan)"

definition top_step :: "'w ports \<Rightarrow> RunSegmentRequest \<Rightarrow> ('w, unit) seg_action" where
  "top_step ports request =
     and_then current (\<lambda>s0.
     and_then (if is_settlement_input (sg_input s0) then go ()
               else and_then (observe_or_yield ports) (\<lambda>_. go ())) (\<lambda>_.
     and_then current (\<lambda>s.
     and_then (lift_res (bound_input request s)) (\<lambda>_.
     and_then (lift_res (propose (engine_request_of s))) (\<lambda>proposal.
     let deferred = defers_commit (sg_input s) proposal in
     and_then (if deferred then go ()
               else commit_proposal ports request (engine_request_of s) proposal) (\<lambda>_.
     act ports request proposal deferred))))))"

section \<open>Waiting for the model\<close>

text \<open>Cancelling and awaiting the control task, its own \<open>CancelledError\<close> suppressed.\<close>

definition abandon_wait :: "'w ports \<Rightarrow> ('w, unit) seg_action" where
  "abandon_wait ports s =
     (case port_drain_wait ports (host_world (sg_host s)) of
        (None, w) \<Rightarrow> (Go (), s\<lparr>sg_host := (sg_host s)\<lparr>host_world := w\<rparr>\<rparr>)
      | (Some e, w) \<Rightarrow>
          (if is_exception e then Raise e else Go (),
           s\<lparr>sg_host := (sg_host s)\<lparr>host_world := w\<rparr>\<rparr>))"

text \<open>Awaiting the generation task to its end: its \<open>CancelledError\<close> is suppressed, with \<open>quiet\<close>
  whatever it raises.\<close>

definition drain_generate :: "'w ports \<Rightarrow> bool \<Rightarrow> ('w, unit) seg_action" where
  "drain_generate ports quiet s =
     (case port_drain_generate ports (host_world (sg_host s)) of
        ((frames, raised), w) \<Rightarrow>
          let s1 = s\<lparr>sg_host := emit_frames ports frames ((sg_host s)\<lparr>host_world := w\<rparr>)\<rparr> in
          (case raised of
             None \<Rightarrow> (Go (), s1)
           | Some e \<Rightarrow> (if quiet \<or> \<not> is_exception e then Go () else Raise e, s1)))"

definition generated ::
    "ModelRequest \<Rightarrow> ModelGenerationResult option \<Rightarrow> ('w, unit) seg_action" where
  "generated mreq result =
     and_then current (\<lambda>s.
     case result of
       None \<Rightarrow> raising (RuntimeError ''model adapter returned no result'')
     | Some r \<Rightarrow>
         (if gen_request_id r \<noteq> mreq_request_id mreq
          then
            and_then (lift_res (FailureReport_init
              \<lparr>fail_code = ''model_request_id_mismatch'',
               fail_message =
                 ''model result request_id does not match the active model request'',
               fail_details = dict_of
                 [(''expected_request_id'', PStr (mreq_request_id mreq)),
                  (''actual_request_id'', PStr (gen_request_id r))]\<rparr>)) (\<lambda>f.
            return_outcome (SegmentOutcome_init
              (FailedOutcome (Some (sg_state s)) f (sg_steps s))))
          else update_seg (\<lambda>s. s\<lparr>sg_steps := sg_steps s + 1,
                                 sg_input := ModelGenerationCompleted r, sg_phase := Top\<rparr>)))"

definition generate_step ::
    "'w ports \<Rightarrow> ModelRequest \<Rightarrow> int \<Rightarrow> ('w, unit) seg_action" where
  "generate_step ports mreq generation s =
     (case port_race ports generation (host_world (sg_host s)) of (ev, w) \<Rightarrow>
        (case ev of
           RaceFrame frame \<Rightarrow>
             update_seg (\<lambda>s. s\<lparr>sg_host := snd (emit_frame ports frame (sg_host s))\<rparr>)
         | RaceControl (Inl e) \<Rightarrow>
             and_then (drain_generate ports False) (\<lambda>_. raising e)
         | RaceControl (Inr control) \<Rightarrow>
             (if snap_raised control
              then
                and_then (drain_generate ports True) (\<lambda>_.
                case snap_reason control of
                  None \<Rightarrow> generated mreq None
                | Some reason \<Rightarrow>
                    and_then current (\<lambda>s. return_outcome (SegmentOutcome_init
                      (SafeYieldOutcome (sg_state s) reason (sg_steps s)))))
              else update_seg (\<lambda>s. s\<lparr>sg_phase :=
                     Generating mreq (snap_generation control)\<rparr>))
         | RaceGenerated r \<Rightarrow>
             and_then (abandon_wait ports) (\<lambda>_.
             and_then (lift_res r) (generated mreq))
         | RaceCancelled \<Rightarrow>
             and_then (abandon_wait ports) (\<lambda>_.
             and_then (drain_generate ports False) (\<lambda>_. raising CancelledError)))
        (s\<lparr>sg_host := (sg_host s)\<lparr>host_world := w\<rparr>\<rparr>))"

section \<open>Authorizing and executing\<close>

definition execution_result ::
    "'w ports \<Rightarrow> DispatchPermit \<Rightarrow> ('w, EffectExecutionResult) seg_action" where
  "execution_result ports permit =
     and_then (observe ports) (\<lambda>snapshot.
     if snap_raised snapshot
     then case snap_reason snapshot of
            None \<Rightarrow> raising (ValueError ''raised control snapshot requires a reason'')
          | Some reason \<Rightarrow>
              lift_res (EffectExecutionResult_init
                (EffectIndeterminateResult ''control_after_dispatch'' reason None))
     else
       and_then (lift_res (DispatchPermit_claim permit)) (\<lambda>claimed.
       and_then (attempt (host_call (port_execute ports claimed) (EvExecute claimed))) (\<lambda>r.
       case r of
         Inr v \<Rightarrow> go v
       | Inl e \<Rightarrow>
           (if is_exception e
            then lift_res (EffectExecutionResult_init
                   (EffectIndeterminateResult ''effect_executor_error'' (exception_message e) None))
            else
              and_then (update_seg (\<lambda>s. s\<lparr>sg_propagate := True\<rparr>)) (\<lambda>_.
              lift_res (EffectExecutionResult_init
                (EffectIndeterminateResult ''effect_executor_cancelled''
                   ''effect executor cancelled after dispatch'' None)))))))"

definition dispatch_authorized ::
    "'w ports \<Rightarrow> RunSegmentRequest \<Rightarrow> EffectPlan \<Rightarrow> TransitionProposal \<Rightarrow> CommitResult
     \<Rightarrow> ('w, unit) seg_action" where
  "dispatch_authorized ports request plan proposal result =
     and_then (lift_res (authorized_result result)) (\<lambda>authorized.
     case authorized of
       Inl failed \<Rightarrow>
         and_then current (\<lambda>s. return_outcome (with_steps failed (sg_steps s) (sg_state s)))
     | Inr (v, permit, notices) \<Rightarrow>
         and_then (update_seg (\<lambda>s. s\<lparr>sg_state := v\<rparr>)) (\<lambda>_.
         and_then (lift_res (validate_dispatch_permit permit (seg_session_id request)
             (seg_owner_epoch request) plan (prop_transition_id proposal))) (\<lambda>_.
         and_then (perform (emit_all ports notices)) (\<lambda>_.
         and_then (execution_result ports permit) (\<lambda>outcome.
         and_then (lift_res (effect_settlement plan
             (permit_authorization_transition_id permit) (seg_owner_epoch request) outcome))
           (\<lambda>settlement.
         update_seg (\<lambda>s. s\<lparr>sg_input := EffectSettled settlement, sg_phase := Top\<rparr>)))))))"

definition authorize_step ::
    "'w ports \<Rightarrow> RunSegmentRequest \<Rightarrow> EffectPlan \<Rightarrow> TransitionProposal
     \<Rightarrow> DispatchAuthorizationRequest \<Rightarrow> ('w, unit) seg_action" where
  "authorize_step ports request plan proposal authorization_request =
     and_then (perform (host_call (port_authorize_dispatch ports authorization_request)
         (EvAuthorize authorization_request))) (\<lambda>result.
     case result of
       StaleMailboxCutCommitResult expected current_cut \<Rightarrow>
         and_then (observe_or_yield ports) (\<lambda>snapshot.
         let mcut = max current_cut (snap_generation snapshot) in
         and_then (update_seg (\<lambda>s. s\<lparr>sg_cut := mcut\<rparr>)) (\<lambda>_.
         and_then (lift_res (DispatchAuthorizationRequest_init
             (authorization_request\<lparr>dar_mailbox_cut := mcut\<rparr>))) (\<lambda>r.
         update_seg (\<lambda>s. s\<lparr>sg_phase := Authorizing plan proposal r\<rparr>))))
     | _ \<Rightarrow> dispatch_authorized ports request plan proposal result)"

section \<open>The loop\<close>

definition coordinator_error :: "exn \<Rightarrow> 'w seg \<Rightarrow> SegmentOutcome res" where
  "coordinator_error e s =
     bind_res (failure_report ''segment_coordinator_error'' (exception_message e)) (\<lambda>f.
     SegmentOutcome_init (FailedOutcome (Some (sg_state s)) f (sg_steps s)))"

text \<open>
  One step of \<open>run\<close>: \<open>Inl\<close> the state to go on with, \<open>Inr\<close> the outcome (or the exception that
  leaves \<open>run\<close>). \<open>except Exception\<close> turns every other exception into a failed outcome.
\<close>

definition seg_step ::
    "'w ports \<Rightarrow> RunSegmentRequest \<Rightarrow> 'w seg \<Rightarrow> 'w seg + SegmentOutcome res \<times> 'w seg" where
  "seg_step ports request s =
     (case (case sg_phase s of
              Top \<Rightarrow> top_step ports request
            | Generating r g \<Rightarrow> generate_step ports r g
            | Authorizing plan p r \<Rightarrow> authorize_step ports request plan p r) s of
        (Go _, s1) \<Rightarrow> Inl s1
      | (Again, s1) \<Rightarrow> Inl s1
      | (Return v, s1) \<Rightarrow> Inr (Inr v, s1)
      | (Raise e, s1) \<Rightarrow>
          Inr (if is_exception e then coordinator_error e s1 else Inl e, s1))"

definition seg_start :: "RunSegmentRequest \<Rightarrow> int \<Rightarrow> 'w \<Rightarrow> 'w seg" where
  "seg_start request mcut w =
     \<lparr>sg_host = start_host w, sg_state = seg_state_version request,
      sg_input = seg_step_input request, sg_steps = 0, sg_cut = mcut, sg_propagate = False,
      sg_phase = Top\<rparr>"

definition seg_loop ::
    "'w ports \<Rightarrow> RunSegmentRequest \<Rightarrow> 'w seg \<Rightarrow> (SegmentOutcome res \<times> 'w seg) option" where
  "seg_loop ports request s = step_loop (seg_step ports request) s"

text \<open>\<open>SegmentCoordinator.run\<close>. The mailbox cut is read before the \<open>try\<close>.\<close>

definition run_segment ::
    "'w ports \<Rightarrow> RunSegmentRequest \<Rightarrow> 'w \<Rightarrow> (SegmentOutcome res \<times> 'w host) option" where
  "run_segment ports request w =
     (case mailbox_cut_of request of
        Inl e \<Rightarrow> Some (Inl e, start_host w)
      | Inr mcut \<Rightarrow>
          map_option (\<lambda>(v, s). (v, sg_host s)) (seg_loop ports request (seg_start request mcut w)))"

section \<open>Reconcile and run\<close>

record reconcile_args =
  ra_session_id :: string
  ra_owner_id :: string
  ra_owner_epoch :: int
  ra_record :: ReconciliationRecord
  ra_max_rounds :: int

definition reconcile_failed :: "string \<Rightarrow> OperationStateVersion \<Rightarrow> exn \<Rightarrow> SegmentOutcome res" where
  "reconcile_failed code state_version e =
     bind_res (failure_report code (exception_message e)) (\<lambda>f.
     SegmentOutcome_init (FailedOutcome (Some state_version) f 0))"

text \<open>
  One round of the commit loop: \<open>Inl\<close> the state a conflict gives back; \<open>Inr\<close> the end, an
  outcome or the committed state.
\<close>

definition reconcile_step ::
    "'w ports \<Rightarrow> reconcile_args \<Rightarrow> OperationStateVersion \<times> 'w host
     \<Rightarrow> OperationStateVersion \<times> 'w host
        + (SegmentOutcome res + OperationStateVersion) \<times> 'w host" where
  "reconcile_step ports args = (\<lambda>(state_version, h).
     (case CommitReconciliationRequest_init
             \<lparr>crr_session_id = ra_session_id args, crr_owner_id = ra_owner_id args,
              crr_owner_epoch = ra_owner_epoch args, crr_state_version = state_version,
              crr_record = ra_record args\<rparr> of
        Inl e \<Rightarrow>
          Inr (Inl (if is_type_error e \<or> is_value_error e
                    then reconcile_failed ''invalid_reconciliation_state'' state_version e
                    else Inl e), h)
      | Inr r \<Rightarrow>
          (case host_call (port_commit_reconciliation ports r) (EvReconcile r) h of
             (Inl e, h1) \<Rightarrow> Inr (Inl (Inl e), h1)
           | (Inr (CASConflictCommitResult v), h1) \<Rightarrow> Inl (v, h1)
           | (Inr result, h1) \<Rightarrow>
               (case committed_result result of
                  Inl e \<Rightarrow> Inr (Inl (Inl e), h1)
                | Inr (Inl failed) \<Rightarrow> Inr (Inl (Inr failed), h1)
                | Inr (Inr (v, notices)) \<Rightarrow>
                    (case emit_all ports notices (h1\<lparr>host_facts_enabled := True\<rparr>) of
                       (Inl e, h2) \<Rightarrow> Inr (Inl (Inl e), h2)
                     | (Inr _, h2) \<Rightarrow> Inr (Inr v, h2))))))"

definition reconciled_run ::
    "'w ports \<Rightarrow> reconcile_args \<Rightarrow> OperationStateVersion \<Rightarrow> 'w host
     \<Rightarrow> (SegmentOutcome res \<times> 'w host) option" where
  "reconciled_run ports args state_version h =
     (case bind_res
             (reconciled_effect_input state_version (ra_record args) (ra_owner_epoch args))
             (\<lambda>s. RunSegmentRequest_init
                \<lparr>seg_session_id = ra_session_id args, seg_owner_id = ra_owner_id args,
                 seg_owner_epoch = ra_owner_epoch args, seg_state_version = state_version,
                 seg_step_input = EffectSettled s, seg_max_rounds = ra_max_rounds args\<rparr>) of
        Inl e \<Rightarrow>
          Some (if is_type_error e \<or> is_value_error e
                then reconcile_failed ''invalid_reconciled_effect'' state_version e else Inl e, h)
      | Inr request \<Rightarrow> run_segment ports request (host_world h))"

definition reconcile_and_run ::
    "'w ports \<Rightarrow> reconcile_args \<Rightarrow> OperationStateVersion \<Rightarrow> 'w host
     \<Rightarrow> (SegmentOutcome res \<times> 'w host) option" where
  "reconcile_and_run ports args state_version h =
     (case step_loop (reconcile_step ports args) (state_version, h) of
        None \<Rightarrow> None
      | Some (Inl r, h1) \<Rightarrow> Some (r, h1)
      | Some (Inr v, h1) \<Rightarrow> reconciled_run ports args v h1)"

end
