(* ===== verification/Segment_Laws.thy ===== *)
theory Segment_Laws
  imports Segment_Loop
begin

text \<open>
  Reasoning about the segment loop: triples for the actions of an iteration, and the protocol
  that every trace of port calls follows.
\<close>

section \<open>Triples\<close>

text \<open>
  \<open>triple P m Q X\<close>: from a state with \<open>P\<close>, the action \<open>m\<close> goes on with \<open>Q\<close>, or leaves the
  iteration (next iteration, outcome, exception) with \<open>X\<close>.
\<close>

definition ends_in ::
    "('a \<Rightarrow> 'w seg \<Rightarrow> bool) \<Rightarrow> (unit ctl \<Rightarrow> 'w seg \<Rightarrow> bool) \<Rightarrow> 'a ctl \<times> 'w seg \<Rightarrow> bool" where
  "ends_in Q X r =
     (case r of
        (Go x, s) \<Rightarrow> Q x s
      | (Again, s) \<Rightarrow> X Again s
      | (Return v, s) \<Rightarrow> X (Return v) s
      | (Raise e, s) \<Rightarrow> X (Raise e) s)"

definition triple ::
    "('w seg \<Rightarrow> bool) \<Rightarrow> ('w, 'a) seg_action \<Rightarrow> ('a \<Rightarrow> 'w seg \<Rightarrow> bool)
     \<Rightarrow> (unit ctl \<Rightarrow> 'w seg \<Rightarrow> bool) \<Rightarrow> bool" where
  "triple P m Q X \<longleftrightarrow> (\<forall>s. P s \<longrightarrow> ends_in Q X (m s))"

lemma ends_in_simps [simp]:
  "ends_in Q X (Go x, s) = Q x s"
  "ends_in Q X (Again, s) = X Again s"
  "ends_in Q X (Return v, s) = X (Return v) s"
  "ends_in Q X (Raise e, s) = X (Raise e) s"
  by (simp_all add: ends_in_def)

lemma ends_in_and_then:
  "ends_in R X (and_then m f s) = ends_in (\<lambda>x s1. ends_in R X (f x s1)) X (m s)"
  by (simp add: and_then_def ends_in_def split: prod.split ctl.split)

lemma ends_in_mono:
  assumes "ends_in Q X r" and "\<And>x s. Q x s \<Longrightarrow> Q' x s" and "\<And>c s. X c s \<Longrightarrow> X' c s"
  shows "ends_in Q' X' r"
proof -
  obtain c s where "r = (c, s)" by fastforce
  with assms show ?thesis by (cases c) simp_all
qed

lemma triple_and_then:
  assumes "triple P m Q X" and "\<And>x. triple (Q x) (f x) R X"
  shows "triple P (and_then m f) R X"
  unfolding triple_def ends_in_and_then
proof (intro allI impI)
  fix s assume "P s"
  then have "ends_in Q X (m s)" using assms(1) by (simp add: triple_def)
  then show "ends_in (\<lambda>x s1. ends_in R X (f x s1)) X (m s)"
    by (rule ends_in_mono) (use assms(2) in \<open>simp_all add: triple_def\<close>)
qed

lemma triple_weaken:
  assumes "triple P m Q X" and "\<And>s. P' s \<Longrightarrow> P s" and "\<And>x s. Q x s \<Longrightarrow> Q' x s"
    and "\<And>c s. X c s \<Longrightarrow> X' c s"
  shows "triple P' m Q' X'"
  using assms unfolding triple_def by (blast intro: ends_in_mono)

lemma triple_pre: "triple P m Q X \<Longrightarrow> (\<And>s. P' s \<Longrightarrow> P s) \<Longrightarrow> triple P' m Q X"
  unfolding triple_def by blast

lemma triple_go: "(\<And>s. P s \<Longrightarrow> Q x s) \<Longrightarrow> triple P (go x) Q X"
  by (simp add: triple_def go_def)

lemma triple_lift:
  "(\<And>e s. r = Inl e \<Longrightarrow> P s \<Longrightarrow> X (Raise e) s) \<Longrightarrow> (\<And>x s. r = Inr x \<Longrightarrow> P s \<Longrightarrow> Q x s)
     \<Longrightarrow> triple P (lift_res r) Q X"
  by (cases r) (simp_all add: triple_def lift_res_def)

lemma triple_return:
  "(\<And>e s. r = Inl e \<Longrightarrow> P s \<Longrightarrow> X (Raise e) s) \<Longrightarrow> (\<And>v s. r = Inr v \<Longrightarrow> P s \<Longrightarrow> X (Return v) s)
     \<Longrightarrow> triple P (return_outcome r) Q X"
  by (cases r) (simp_all add: triple_def return_outcome_def)

lemma triple_raising: "(\<And>s. P s \<Longrightarrow> X (Raise e) s) \<Longrightarrow> triple P (raising e) Q X"
  by (simp add: triple_def raising_def)

lemma triple_current: "triple P current (\<lambda>x s. x = s \<and> P s) X"
  by (simp add: triple_def current_def)

lemma triple_update: "(\<And>s. P s \<Longrightarrow> Q () (f s)) \<Longrightarrow> triple P (update_seg f) Q X"
  by (simp add: triple_def update_seg_def)

lemma triple_and_then_current:
  assumes "\<And>s0. P s0 \<Longrightarrow> triple (\<lambda>s. s = s0) (f s0) Q X"
  shows "triple P (and_then current f) Q X"
  using assms unfolding triple_def ends_in_and_then by (simp add: current_def)

lemma triple_if:
  "(b \<Longrightarrow> triple P m Q X) \<Longrightarrow> (\<not> b \<Longrightarrow> triple P n Q X) \<Longrightarrow> triple P (if b then m else n) Q X"
  by simp

text \<open>A host operation changes the host only.\<close>

lemma triple_attempt:
  assumes "\<And>s r h. P s \<Longrightarrow> f (sg_host s) = (r, h) \<Longrightarrow> Q r (s\<lparr>sg_host := h\<rparr>)"
  shows "triple P (attempt f) Q X"
  using assms by (auto simp: triple_def attempt_def split: prod.splits)

lemma triple_perform:
  assumes "\<And>s h x. P s \<Longrightarrow> f (sg_host s) = (Inr x, h) \<Longrightarrow> Q x (s\<lparr>sg_host := h\<rparr>)"
    and "\<And>s h e. P s \<Longrightarrow> f (sg_host s) = (Inl e, h) \<Longrightarrow> X (Raise e) (s\<lparr>sg_host := h\<rparr>)"
  shows "triple P (perform f) Q X"
  using assms
  unfolding triple_def perform_def ends_in_and_then
  by (auto simp: attempt_def lift_res_def split: prod.splits sum.splits)

lemma host_call_result:
  "host_call f ev h = (r, h') \<Longrightarrow> \<exists>w. h' = record_event (ev r) w h"
  by (auto simp: host_call_def split: prod.splits)

section \<open>The protocol of a trace\<close>

text \<open>
  What the coordinator owes after a trace of port calls: nothing; nothing more at all, because
  control was raised; or the settlement of an authorized effect, whose permit is still ready,
  was executed, or is withheld because control was raised after the authorization.
\<close>

datatype exec_status = Ready | Ran | Withheld

datatype duty =
    Free
  | Stopped
  | Held DispatchAuthorizationRequest DispatchPermit exec_status

definition bound_to :: "EffectSettlement \<Rightarrow> DispatchPermit \<Rightarrow> bool" where
  "bound_to s p \<longleftrightarrow>
     es_effect_id s = permit_effect_id p \<and> es_attempt_id s = permit_attempt_id p
     \<and> es_authorization_transition_id s = permit_authorization_transition_id p
     \<and> es_owner_epoch s = permit_owner_epoch p"

text \<open>The permit is the one the request asked for.\<close>

definition permit_for :: "DispatchAuthorizationRequest \<Rightarrow> DispatchPermit \<Rightarrow> bool" where
  "permit_for r p \<longleftrightarrow>
     permit_session_id p = dar_session_id r
     \<and> permit_effect_id p = plan_effect_id (dar_effect_plan r)
     \<and> permit_attempt_id p = plan_attempt_id (dar_effect_plan r)
     \<and> permit_authorization_transition_id p = prop_transition_id (dar_proposal r)
     \<and> permit_owner_epoch p = dar_owner_epoch r
     \<and> permit_idempotency_key p = plan_idempotency_key (dar_effect_plan r)"

definition commits :: "CommitResult res \<Rightarrow> bool" where
  "commits res \<longleftrightarrow>
     (case res of
        Inr (CommittedCommitResult _ _ _) \<Rightarrow> True
      | Inr (ExactReplayCommitResult _ _) \<Rightarrow> True
      | _ \<Rightarrow> False)"

definition control_raised :: "ControlSnapshot res \<Rightarrow> bool" where
  "control_raised r \<longleftrightarrow> (case r of Inl _ \<Rightarrow> False | Inr s \<Rightarrow> snap_raised s)"

text \<open>The settlement a commit carries for a held permit, and what remains owed after it.\<close>

definition settles_held :: "EngineStepInput \<Rightarrow> DispatchPermit \<Rightarrow> exec_status \<Rightarrow> bool" where
  "settles_held i p st \<longleftrightarrow>
     st \<noteq> Ready
     \<and> (case i of
          EffectSettled s \<Rightarrow> bound_to s p \<and> (st = Withheld \<longrightarrow> es_outcome s = ESO_INDETERMINATE)
        | _ \<Rightarrow> False)"

text \<open>After the settlement of a withheld effect the control is still raised: nothing follows.\<close>

definition paid :: "duty \<Rightarrow> duty" where
  "paid d = (case d of Held _ _ Withheld \<Rightarrow> Stopped | _ \<Rightarrow> Free)"

definition commit_duty :: "EngineStepInput \<Rightarrow> CommitResult res \<Rightarrow> duty \<Rightarrow> duty option" where
  "commit_duty i res d =
     (case d of
        Free \<Rightarrow> Some Free
      | Stopped \<Rightarrow> None
      | Held r p st \<Rightarrow>
          (if settles_held i p st then Some (if commits res then paid d else d) else None))"

definition duty_step :: "duty \<Rightarrow> event \<Rightarrow> duty option" where
  "duty_step d ev =
     (case ev of
        EvFact _ \<Rightarrow> Some d
      | EvFrame _ \<Rightarrow> Some d
      | EvReconcile _ _ \<Rightarrow> None
      | EvObserve r \<Rightarrow>
          (case d of
             Free \<Rightarrow> Some (if control_raised r then Stopped else Free)
           | Stopped \<Rightarrow> Some Stopped
           | Held q p Ready \<Rightarrow> Some (Held q p (if control_raised r then Withheld else Ready))
           | _ \<Rightarrow> None)
      | EvGenerate _ \<Rightarrow> (if d = Free then Some Free else None)
      | EvTransition c res \<Rightarrow> commit_duty (esr_step_input (ctr_engine_request c)) res d
      | EvSettle c res \<Rightarrow>
          (if (case csr_settlement c of
                 SettleEffect s \<Rightarrow> esr_step_input (csr_engine_request c) = EffectSettled s
               | SettleApproval s \<Rightarrow> esr_step_input (csr_engine_request c) = ApprovalResolved s)
           then commit_duty (esr_step_input (csr_engine_request c)) res d else None)
      | EvAuthorize r res \<Rightarrow>
          (if d = Free \<and> is_ok (DispatchAuthorizationRequest_init r)
           then Some (case res of
                        Inr (DispatchAuthorizedResult _ p _ _) \<Rightarrow> Held r p Ready
                      | _ \<Rightarrow> Free)
           else None)
      | EvExecute q _ \<Rightarrow>
          (case d of
             Held r p Ready \<Rightarrow>
               (if permit_for r p \<and> \<not> permit_claimed p \<and> q = p\<lparr>permit_claimed := True\<rparr>
                then Some (Held r p Ran) else None)
           | _ \<Rightarrow> None))"

definition duty_next :: "duty option \<Rightarrow> event \<Rightarrow> duty option" where
  "duty_next d ev = (case d of None \<Rightarrow> None | Some d' \<Rightarrow> duty_step d' ev)"

definition duty_after :: "event list \<Rightarrow> duty option" where
  "duty_after tr = foldl duty_next (Some Free) tr"

lemma duty_after_Nil [simp]: "duty_after [] = Some Free"
  by (simp add: duty_after_def)

lemma duty_after_snoc [simp]:
  "duty_after (tr @ [ev]) = (case duty_after tr of None \<Rightarrow> None | Some d \<Rightarrow> duty_step d ev)"
  by (simp add: duty_after_def duty_next_def)

definition owes :: "duty \<Rightarrow> 'w seg \<Rightarrow> bool" where
  "owes d s \<longleftrightarrow> duty_after (host_trace (sg_host s)) = Some d"

lemma owes_record:
  "owes d s \<Longrightarrow> duty_step d ev = Some d'
     \<Longrightarrow> owes d' (s\<lparr>sg_host := record_event ev w (sg_host s)\<rparr>)"
  by (simp add: owes_def record_event_def)

lemma owes_host: "owes d (s\<lparr>sg_host := h\<rparr>) \<longleftrightarrow> duty_after (host_trace h) = Some d"
  by (simp add: owes_def)

text \<open>Delivering facts and frames leaves what is owed alone.\<close>

lemma duty_fact: "duty_step d (EvFact n) = Some d" "duty_step d (EvFrame f) = Some d"
  by (simp_all add: duty_step_def)

lemma host_call_duty:
  "host_call f ev h = (r, h') \<Longrightarrow> duty_after (host_trace h) = Some d
     \<Longrightarrow> duty_after (host_trace h') = duty_step d (ev r)"
  by (auto simp: host_call_def record_event_def split: prod.splits)

lemma emit_each_duty:
  "duty_after (host_trace h) = Some d \<Longrightarrow> emit_each ports ns h = (r, h')
     \<Longrightarrow> duty_after (host_trace h') = Some d"
proof (induction ns arbitrary: h)
  case (Cons n ns)
  obtain r1 h1 where c: "host_call (port_emit_fact ports n) (\<lambda>_. EvFact n) h = (r1, h1)"
    by fastforce
  have d: "duty_after (host_trace h1) = Some d"
    using host_call_duty [OF c Cons.prems(1)] by (simp add: duty_fact)
  show ?case
    using Cons.prems(2) Cons.IH [OF d] c d
    by (auto simp: Let_def split: sum.splits if_splits)
qed simp

lemma emit_all_duty:
  "duty_after (host_trace h) = Some d \<Longrightarrow> emit_all ports ns h = (r, h')
     \<Longrightarrow> duty_after (host_trace h') = Some d"
  unfolding emit_all_def
  by (cases "host_facts_enabled h") (auto dest: emit_each_duty)

lemma emit_frame_duty:
  assumes "duty_after (host_trace h) = Some d"
  shows "duty_after (host_trace (snd (emit_frame ports f h))) = Some d"
proof -
  obtain r1 h1 where c: "host_call (port_emit_frame ports f) (\<lambda>_. EvFrame f) h = (r1, h1)"
    by fastforce
  have "duty_after (host_trace h1) = Some d"
    using host_call_duty [OF c assms] by (simp add: duty_fact)
  with c assms show ?thesis
    by (auto simp: emit_frame_def Let_def split: sum.splits)
qed

lemma emit_frames_duty:
  "duty_after (host_trace h) = Some d
     \<Longrightarrow> duty_after (host_trace (emit_frames ports fs h)) = Some d"
proof (induction fs arbitrary: h)
  case Nil
  then show ?case by (simp add: emit_frames_def)
next
  case (Cons f fs)
  show ?case
    using Cons.IH [OF emit_frame_duty [OF Cons.prems, of ports f]] by (simp add: emit_frames_def)
qed

section \<open>The protocol invariant\<close>

text \<open>The owed settlement is the one the next iteration brings.\<close>

definition settles_next :: "duty \<Rightarrow> EngineStepInput \<Rightarrow> bool" where
  "settles_next d i \<longleftrightarrow>
     d = Free \<or> (\<exists>r p st. d = Held r p st \<and> settles_held i p st)"

definition request_matches :: "RunSegmentRequest \<Rightarrow> DispatchAuthorizationRequest \<Rightarrow> bool" where
  "request_matches request r \<longleftrightarrow>
     dar_session_id r = seg_session_id request \<and> dar_owner_epoch r = seg_owner_epoch request"

definition authorizing_ok ::
    "RunSegmentRequest \<Rightarrow> EffectPlan \<Rightarrow> TransitionProposal \<Rightarrow> DispatchAuthorizationRequest \<Rightarrow> bool"
  where
  "authorizing_ok request plan p r \<longleftrightarrow>
     is_ok (DispatchAuthorizationRequest_init r) \<and> dar_effect_plan r = plan
     \<and> dar_proposal r = p \<and> request_matches request r"

definition protocol :: "RunSegmentRequest \<Rightarrow> 'w seg \<Rightarrow> bool" where
  "protocol request s \<longleftrightarrow>
     (case sg_phase s of
        Top \<Rightarrow> (\<exists>d. owes d s \<and> settles_next d (sg_input s))
      | Generating _ _ \<Rightarrow> owes Free s
      | Authorizing plan p r \<Rightarrow> owes Free s \<and> authorizing_ok request plan p r)"

fun is_failed :: "SegmentOutcome \<Rightarrow> bool" where
  "is_failed (FailedOutcome _ _ _) = True"
| "is_failed _ = False"

text \<open>How an iteration may be left; an outcome that is no failure owes nothing.\<close>

definition left_ok :: "RunSegmentRequest \<Rightarrow> unit ctl \<Rightarrow> 'w seg \<Rightarrow> bool" where
  "left_ok request c s \<longleftrightarrow>
     (case c of
        Go _ \<Rightarrow> protocol request s
      | Again \<Rightarrow> protocol request s
      | Return v \<Rightarrow> (\<exists>d. owes d s \<and> (is_failed v \<or> d = Free \<or> d = Stopped))
      | Raise _ \<Rightarrow> (\<exists>d. owes d s))"

lemma left_ok_simps [simp]:
  "left_ok request (Go x) s = protocol request s"
  "left_ok request Again s = protocol request s"
  "left_ok request (Return v) s = (\<exists>d. owes d s \<and> (is_failed v \<or> d = Free \<or> d = Stopped))"
  "left_ok request (Raise e) s = (\<exists>d. owes d s)"
  by (simp_all add: left_ok_def)

text \<open>The state an action leaves: what is owed, the input and the phase.\<close>

definition at_duty :: "duty \<Rightarrow> EngineStepInput \<Rightarrow> phase \<Rightarrow> 'w seg \<Rightarrow> bool" where
  "at_duty d i ph s \<longleftrightarrow> owes d s \<and> sg_input s = i \<and> sg_phase s = ph"

lemma at_duty_host:
  "at_duty d i ph (s\<lparr>sg_host := h\<rparr>)
     \<longleftrightarrow> duty_after (host_trace h) = Some d \<and> sg_input s = i \<and> sg_phase s = ph"
  by (simp add: at_duty_def owes_host)

lemma triple_call:
  assumes "\<And>r. \<exists>d'. duty_step d (ev r) = Some d'"
    and "\<And>r d'. duty_step d (ev (Inr r)) = Some d' \<Longrightarrow> \<forall>s. at_duty d' i ph s \<longrightarrow> Q r s"
  shows "triple (at_duty d i ph) (perform (host_call f ev)) Q (left_ok request)"
proof (rule triple_perform)
  fix s h x
  assume s: "at_duty d i ph s" and c: "host_call f ev (sg_host s) = (Inr x, h)"
  obtain d' where d': "duty_step d (ev (Inr x)) = Some d'" using assms(1) by blast
  have "duty_after (host_trace h) = Some d'"
    using host_call_duty [OF c, of d] s d' by (simp add: at_duty_def owes_def)
  with s have "at_duty d' i ph (s\<lparr>sg_host := h\<rparr>)" by (simp add: at_duty_def owes_host)
  with assms(2) [OF d'] show "Q x (s\<lparr>sg_host := h\<rparr>)" by blast
next
  fix s h e
  assume s: "at_duty d i ph s" and c: "host_call f ev (sg_host s) = (Inl e, h)"
  obtain d' where "duty_step d (ev (Inl e)) = Some d'" using assms(1) by blast
  then have "duty_after (host_trace h) = Some d'"
    using host_call_duty [OF c, of d] s by (simp add: at_duty_def owes_def)
  then show "left_ok request (Raise e) (s\<lparr>sg_host := h\<rparr>)" by (simp add: owes_host)
qed

lemma triple_facts:
  "triple (at_duty d i ph) (perform (emit_all ports ns)) (\<lambda>_. at_duty d i ph) (left_ok request)"
  by (rule triple_perform)
     (auto simp: at_duty_host at_duty_def owes_host owes_def dest: emit_all_duty)

lemma safe_yield_not_failed: "safe_yield v sn n = Inr out \<Longrightarrow> out = SafeYieldOutcome v (the (snap_reason sn)) n"
  by (auto simp: safe_yield_def res_simps split: option.splits)

lemma triple_observe_or_yield:
  assumes "d = Free \<or> d = Stopped"
  shows "triple (at_duty d i ph) (observe_or_yield ports) (\<lambda>_. at_duty d i ph) (left_ok request)"
  unfolding observe_or_yield_def observe_def
proof (rule triple_and_then)
  show "triple (at_duty d i ph) (perform (host_call (port_observe ports) EvObserve))
      (\<lambda>sn. at_duty (if snap_raised sn then Stopped else d) i ph) (left_ok request)"
    using assms
    by (intro triple_call) (auto simp: duty_step_def control_raised_def split: if_splits)
  show "triple (at_duty (if snap_raised sn then Stopped else d) i ph)
      (and_then current (\<lambda>s. if snap_raised sn
         then return_outcome (safe_yield (sg_state s) sn (sg_steps s)) else go sn))
      (\<lambda>_. at_duty d i ph) (left_ok request)" for sn
    by (rule triple_and_then_current, rule triple_if;
        rule triple_return triple_go) (auto simp: at_duty_def)
qed

lemmas triple_observe_free = triple_observe_or_yield [of Free, simplified]

lemma paid_simps [simp]:
  "paid Free = Free" "paid (Held r p Ran) = Free" "paid (Held r p Withheld) = Stopped"
  by (simp_all add: paid_def)

lemma paid_cases: "paid d = Free \<or> paid d = Stopped"
  by (auto simp: paid_def split: duty.splits exec_status.splits)

section \<open>The actions of an iteration\<close>

lemma commit_failure_failed: "commit_failure r = Inr out \<Longrightarrow> is_failed out"
  by (auto simp: commit_failure_def res_simps dest!: SegmentOutcome_init_Inr split: CommitResult.splits)

lemma with_steps_failed: "with_steps out n v = Inr out' \<Longrightarrow> is_failed out \<Longrightarrow> is_failed out'"
  by (cases out) (auto simp: with_steps_def res_simps)

lemma committed_result_cases:
  "committed_result r = Inr (Inl out) \<Longrightarrow> is_failed out \<and> \<not> commits (Inr r)"
  "committed_result r = Inr (Inr (v, ns)) \<Longrightarrow> commits (Inr r)"
  by (cases r; auto simp: committed_result_def commits_def map_res_eq_Inr dest: commit_failure_failed)+

lemma settles_next_commit:
  assumes "settles_next d i"
  obtains d' where "commit_duty i res d = Some d'" "commits res \<Longrightarrow> d' = paid d"
    "\<not> commits res \<Longrightarrow> d' = d"
  using assms that by (auto simp: settles_next_def commit_duty_def split: if_splits)

text \<open>The request of a settlement commit carries the input's settlement.\<close>

lemma settlement_request_input:
  "settlement_request request er p settlement = Inr r \<Longrightarrow>
     settlement_of (esr_step_input er) = Inr settlement \<Longrightarrow>
     csr_engine_request r = er
     \<and> (case csr_settlement r of
          SettleEffect s \<Rightarrow> esr_step_input er = EffectSettled s
        | SettleApproval s \<Rightarrow> esr_step_input er = ApprovalResolved s)"
  by (auto simp: settlement_request_def res_simps settlement_of_def
      dest!: CommitSettlementRequest_init_Inr split: EngineStepInput.splits)

lemma transition_request_input:
  "transition_request request er p = Inr r \<Longrightarrow> ctr_engine_request r = er"
  by (auto simp: transition_request_def CommitTransitionRequest_init_def res_simps)

lemma triple_lift_exit:
  assumes "\<And>s. P s \<Longrightarrow> \<exists>d. owes d s" and "\<And>x s. r = Inr x \<Longrightarrow> P s \<Longrightarrow> Q x s"
  shows "triple P (lift_res r) Q (left_ok request)"
  using assms by (intro triple_lift) auto

lemma at_duty_owes: "at_duty d i ph s \<Longrightarrow> \<exists>d. owes d s"
  by (auto simp: at_duty_def)

text \<open>A commit call leaves what the result makes of the duty.\<close>

lemma triple_commit_call:
  assumes "settles_next d i" "esr_step_input er = i"
  shows "triple (at_duty d i ph) (commit_call ports request er p)
     (\<lambda>r. at_duty (if commits (Inr r) then paid d else d) i ph) (left_ok request)"
proof -
  have ev: "\<exists>d'. commit_duty i res d = Some d'" for res
    using settles_next_commit [OF assms(1)] by metis
  have eq: "commit_duty i (Inr r) d = Some d' \<Longrightarrow> d' = (if commits (Inr r) then paid d else d)" for r d'
    using settles_next_commit [OF assms(1), of "Inr r"] by (metis option.inject)
  have transition: "triple (at_duty d i ph)
      (and_then (lift_res (transition_request request er p)) (\<lambda>r.
         perform (host_call (port_commit_transition ports r) (EvTransition r))))
      (\<lambda>r. at_duty (if commits (Inr r) then paid d else d) i ph) (left_ok request)"
  proof (rule triple_and_then)
    show "triple (at_duty d i ph) (lift_res (transition_request request er p))
       (\<lambda>r s. at_duty d i ph s \<and> ctr_engine_request r = er) (left_ok request)"
      by (rule triple_lift_exit) (auto dest: transition_request_input at_duty_owes)
    show "triple (\<lambda>s. at_duty d i ph s \<and> ctr_engine_request r = er)
       (perform (host_call (port_commit_transition ports r) (EvTransition r)))
       (\<lambda>r. at_duty (if commits (Inr r) then paid d else d) i ph) (left_ok request)" for r
    proof (cases "ctr_engine_request r = er")
      case True
      then have "duty_step d (EvTransition r res) = commit_duty i res d" for res
        using assms(2) by (simp add: duty_step_def)
      then show ?thesis
        by (intro triple_pre [OF triple_call]) (auto simp: ev dest!: eq)
    qed (simp add: triple_def)
  qed
  have settle: "triple (at_duty d i ph)
      (and_then (lift_res (settlement_request request er p settlement)) (\<lambda>r.
         perform (host_call (port_commit_settlement ports r) (EvSettle r))))
      (\<lambda>r. at_duty (if commits (Inr r) then paid d else d) i ph) (left_ok request)"
    if sett: "settlement_of (esr_step_input er) = Inr settlement" for settlement
  proof (rule triple_and_then)
    let ?ok = "\<lambda>r. csr_engine_request r = er \<and> (case csr_settlement r of
          SettleEffect s \<Rightarrow> esr_step_input er = EffectSettled s
        | SettleApproval s \<Rightarrow> esr_step_input er = ApprovalResolved s)"
    show "triple (at_duty d i ph) (lift_res (settlement_request request er p settlement))
       (\<lambda>r s. at_duty d i ph s \<and> ?ok r) (left_ok request)"
      by (rule triple_lift_exit)
         (use settlement_request_input [OF _ sett] at_duty_owes in blast)+
    show "triple (\<lambda>s. at_duty d i ph s \<and> ?ok r)
       (perform (host_call (port_commit_settlement ports r) (EvSettle r)))
       (\<lambda>r. at_duty (if commits (Inr r) then paid d else d) i ph) (left_ok request)" for r
    proof (cases "?ok r")
      case True
      then have "duty_step d (EvSettle r res) = commit_duty i res d" for res
        using assms(2) by (cases "csr_settlement r") (auto simp: duty_step_def)
      then show ?thesis
        by (intro triple_pre [OF triple_call]) (auto simp: ev dest!: eq)
    qed (simp only: triple_def, blast)
  qed
  show ?thesis
    using transition settle by (auto simp: commit_call_def Let_def split: sum.splits)
qed

lemma triple_return_exit:
  assumes "\<And>s. P s \<Longrightarrow> \<exists>d. owes d s"
    and "\<And>v s. r = Inr v \<Longrightarrow> P s \<Longrightarrow> \<exists>d. owes d s \<and> (is_failed v \<or> d = Free \<or> d = Stopped)"
  shows "triple P (return_outcome r) Q (left_ok request)"
  using assms by (intro triple_return) auto

text \<open>A commit pays what is owed; a failure or an exception leaves.\<close>

lemma triple_adopt_commit:
  "triple (at_duty (if commits (Inr r) then paid d else d) i Top) (adopt_commit ports i r)
     (\<lambda>_. at_duty (paid d) i Top) (left_ok request)"
  unfolding adopt_commit_def
proof (rule triple_and_then)
  let ?P = "\<lambda>c s. committed_result r = Inr c
      \<and> at_duty (if commits (Inr r) then paid d else d) i Top s"
  show "triple (at_duty (if commits (Inr r) then paid d else d) i Top)
      (lift_res (committed_result r)) ?P (left_ok request)"
    by (rule triple_lift_exit) (auto dest: at_duty_owes)
  have failed: "triple (?P (Inl out))
      (and_then current (\<lambda>s. return_outcome (with_steps out (sg_steps s) (sg_state s))))
      (\<lambda>_. at_duty (paid d) i Top) (left_ok request)" for out
    by (rule triple_and_then_current, rule triple_return_exit)
       (auto simp: at_duty_def dest: committed_result_cases(1) with_steps_failed split: if_splits)
  have moved: "triple (?P (Inr (v, ns))) (update_seg (\<lambda>s. s\<lparr>sg_state := v\<rparr>))
      (\<lambda>_. at_duty (paid d) i Top) (left_ok request)" for v ns
    by (rule triple_update) (auto simp: at_duty_def owes_def dest: committed_result_cases(2))
  have rest: "triple (at_duty (paid d) i Top)
      (and_then current (\<lambda>s.
         if sg_propagate s \<and> (case i of EffectSettled _ \<Rightarrow> True | _ \<Rightarrow> False)
         then raising CancelledError
         else if is_settlement_input i then and_then (observe_or_yield ports) (\<lambda>_. go ())
         else go ()))
      (\<lambda>_. at_duty (paid d) i Top) (left_ok request)"
    by (rule triple_and_then_current, intro triple_if)
       (auto intro!: triple_raising triple_go
          triple_and_then [OF triple_pre [OF triple_observe_or_yield [OF paid_cases]]]
          simp: at_duty_def)
  show "triple (?P c)
      (case c of
         Inl out \<Rightarrow> and_then current (\<lambda>s. return_outcome (with_steps out (sg_steps s) (sg_state s)))
       | Inr (v, ns) \<Rightarrow>
           and_then (update_seg (\<lambda>s. s\<lparr>sg_state := v\<rparr>)) (\<lambda>_.
           and_then (perform (emit_all ports ns)) (\<lambda>_.
           and_then current (\<lambda>s.
           if sg_propagate s \<and> (case i of EffectSettled _ \<Rightarrow> True | _ \<Rightarrow> False)
           then raising CancelledError
           else if is_settlement_input i then and_then (observe_or_yield ports) (\<lambda>_. go ())
           else go ()))))
      (\<lambda>_. at_duty (paid d) i Top) (left_ok request)" for c
  proof (cases c)
    case (Inl out)
    show ?thesis unfolding Inl sum.case by (rule failed)
  next
    case (Inr vn)
    obtain v ns where vn: "vn = (v, ns)" by fastforce
    show ?thesis
      unfolding Inr vn sum.case prod.case
      by (rule triple_and_then [OF moved], rule triple_and_then [OF triple_facts], rule rest)
  qed
qed

lemma triple_commit_proposal:
  assumes next_ok: "settles_next d i" "esr_step_input er = i"
  shows "triple (at_duty d i Top) (commit_proposal ports request er p)
     (\<lambda>_. at_duty (paid d) i Top) (left_ok request)"
  unfolding commit_proposal_def
proof (rule triple_and_then)
  have free: "d = Free" if "\<not> is_settlement_input i"
    using next_ok that
    by (auto simp: settles_next_def settles_held_def is_settlement_input_def
        split: EngineStepInput.splits)
  show "triple (at_duty d i Top)
      (if is_settlement_input (esr_step_input er) then go ()
       else and_then (observe_or_yield ports) (\<lambda>_. go ())) (\<lambda>_. at_duty d i Top) (left_ok request)"
    by (rule triple_if)
       (auto intro!: triple_go triple_and_then [OF triple_observe_free] simp: next_ok free)
  show "triple (at_duty d i Top)
      (and_then (commit_call ports request er p) (\<lambda>r. case r of
         CASConflictCommitResult v \<Rightarrow> (\<lambda>s. (Again, s\<lparr>sg_state := v\<rparr>))
       | _ \<Rightarrow> adopt_commit ports (esr_step_input er) r))
      (\<lambda>_. at_duty (paid d) i Top) (left_ok request)" for u
  proof (rule triple_and_then [OF triple_commit_call [OF next_ok]])
    have again: "triple (at_duty d i Top) (\<lambda>s. (Again, s\<lparr>sg_state := v\<rparr>))
       (\<lambda>_. at_duty (paid d) i Top) (left_ok request)" for v
      using next_ok by (auto simp: triple_def at_duty_def protocol_def owes_def)
    show "triple (at_duty (if commits (Inr r) then paid d else d) i Top)
        (case r of
           CASConflictCommitResult v \<Rightarrow> (\<lambda>s. (Again, s\<lparr>sg_state := v\<rparr>))
         | _ \<Rightarrow> adopt_commit ports (esr_step_input er) r)
        (\<lambda>_. at_duty (paid d) i Top) (left_ok request)" for r
      using triple_adopt_commit [of r d i ports request] again next_ok(2)
      by (cases r) (simp_all add: commits_def)
  qed
qed

text \<open>Acting on a committed proposal.\<close>

lemma triple_begin_generation:
  "triple (at_duty Free i Top) (begin_generation ports request r) (\<lambda>_. protocol request)
     (left_ok request)"
  unfolding begin_generation_def
proof (rule triple_and_then_current, rule triple_if)
  fix s0 :: "'a seg"
  assume s0: "at_duty Free i Top s0"
  show "triple (\<lambda>s. s = s0)
      (return_outcome (SegmentOutcome_init (RoundLimitOutcome (sg_state s0) (sg_steps s0))))
      (\<lambda>_. protocol request) (left_ok request)"
    using s0 by (intro triple_return_exit) (auto simp: at_duty_def)
  show "triple (\<lambda>s. s = s0)
      (and_then (observe_or_yield ports) (\<lambda>snapshot. update_seg (\<lambda>s. s\<lparr>
         sg_host := record_event (EvGenerate r)
           (port_generate ports r (host_world (sg_host s))) (sg_host s),
         sg_phase := Generating r (snap_generation snapshot)\<rparr>)))
      (\<lambda>_. protocol request) (left_ok request)"
    by (rule triple_and_then [OF triple_pre [OF triple_observe_free]])
       (use s0 in \<open>auto intro!: triple_update
          simp: at_duty_def protocol_def owes_def record_event_def duty_step_def\<close>)
qed

lemma with_active_shape:
  "with_active_effect_authorization p n = Inr q \<Longrightarrow>
     prop_transition_id q = prop_transition_id p \<and> prop_next_action q = prop_next_action p"
  by (auto simp: with_active_effect_authorization_def TransitionProposal_init_def res_simps
      split: NextAction.splits option.splits)

lemma dispatch_request_ok:
  assumes "dispatch_request request mcut er p deferred plan = Inr (q, r)"
  shows "authorizing_ok request plan q r"
proof -
  from assms obtain r0 where r0: "DispatchAuthorizationRequest_init r0 = Inr r"
      "dar_effect_plan r0 = plan" "dar_proposal r0 = q" "request_matches request r0"
    by (auto simp: dispatch_request_def res_simps request_matches_def)
  then show ?thesis
    using DispatchAuthorizationRequest_init_Inr [OF r0(1)] by (auto simp: authorizing_ok_def)
qed

lemma triple_begin_dispatch:
  "triple (at_duty Free i Top) (begin_dispatch ports request p deferred plan)
     (\<lambda>_. protocol request) (left_ok request)"
  unfolding begin_dispatch_def
proof (rule triple_and_then [OF triple_observe_free], rule triple_and_then_current,
    rule triple_and_then)
  fix s0 :: "'a seg"
  assume s0: "at_duty Free i Top s0"
  let ?r = "dispatch_request request (sg_cut s0) (engine_request_of s0) p deferred plan"
  show "triple (\<lambda>s. s = s0) (lift_res ?r) (\<lambda>x s. s = s0 \<and> ?r = Inr x) (left_ok request)"
    using s0 by (intro triple_lift_exit) (auto simp: at_duty_def)
  show "triple (\<lambda>s. s = s0 \<and> ?r = Inr x)
      (case x of (q, r) \<Rightarrow> update_seg (\<lambda>s. s\<lparr>sg_phase := Authorizing plan q r\<rparr>))
      (\<lambda>_. protocol request) (left_ok request)" for x
  proof (cases x)
    case (Pair q r)
    show ?thesis
      unfolding Pair prod.case
      by (rule triple_update)
         (use s0 dispatch_request_ok in \<open>auto simp: at_duty_def protocol_def owes_def\<close>)
  qed
qed

fun blocks :: "NextAction \<Rightarrow> bool" where
  "blocks (BlockedAction _ _) = True"
| "blocks _ = False"

lemma triple_act:
  assumes d: "d = Free \<or> d = Stopped \<and> blocks (prop_next_action p)"
  shows "triple (at_duty d i Top) (act ports request p deferred) (\<lambda>_. protocol request)
     (left_ok request)"
  unfolding act_def
proof (rule triple_and_then_current)
  fix s0 :: "'a seg"
  assume s0: "at_duty d i Top s0"
  have out: "triple (\<lambda>s. s = s0) (return_outcome r) (\<lambda>_. protocol request) (left_ok request)" for r
    using s0 d by (intro triple_return_exit) (auto simp: at_duty_def)
  have wait: "triple (\<lambda>s. s = s0)
      (and_then (lift_res (EffectReference_from_plan plan)) (\<lambda>ref. return_outcome
         (SegmentOutcome_init (BlockedOutcome (sg_state s0) ''approval_required'' (Some ref)
            (sg_steps s0)))))
      (\<lambda>_. protocol request) (left_ok request)" for plan
    using s0
    by (intro triple_and_then [OF triple_lift_exit [where Q = "\<lambda>_ s. s = s0"]] out)
       (auto simp: at_duty_def)
  show "triple (\<lambda>s. s = s0)
      (case prop_next_action p of
         TerminalAction msg reason \<Rightarrow> return_outcome
           (SegmentOutcome_init (CompletedOutcome (sg_state s0) msg (sg_steps s0) reason))
       | BlockedAction reason eff \<Rightarrow> return_outcome
           (SegmentOutcome_init (BlockedOutcome (sg_state s0) reason eff (sg_steps s0)))
       | SafeYieldAction reason \<Rightarrow> return_outcome
           (SegmentOutcome_init (SafeYieldOutcome (sg_state s0) reason (sg_steps s0)))
       | ModelGenerationAction r \<Rightarrow> begin_generation ports request r
       | PreparedEffectAction plan APPROVAL_WAIT \<Rightarrow>
           and_then (lift_res (EffectReference_from_plan plan)) (\<lambda>ref. return_outcome
             (SegmentOutcome_init (BlockedOutcome (sg_state s0) ''approval_required'' (Some ref)
                (sg_steps s0))))
       | PreparedEffectAction plan DISPATCH \<Rightarrow> begin_dispatch ports request p deferred plan)
      (\<lambda>_. protocol request) (left_ok request)"
    using s0 d
    by (auto intro: out wait triple_pre [OF triple_begin_generation]
        triple_pre [OF triple_begin_dispatch] simp del: SegmentOutcome_init.simps
        split: NextAction.split PreparedEffectActionKind.split)
qed

text \<open>The head of the loop: what is owed is settled by this very iteration.\<close>

lemma settles_next_free: "\<not> is_settlement_input i \<Longrightarrow> settles_next d i \<Longrightarrow> d = Free"
  by (auto simp: settles_next_def settles_held_def is_settlement_input_def
      split: EngineStepInput.splits)

lemma indeterminate_blocks:
  assumes "propose request = Inr p" "esr_step_input request = EffectSettled s"
    and "es_outcome s = ESO_INDETERMINATE"
  shows "blocks (prop_next_action p)"
  using assms
  by (auto simp: propose_def propose_effect_settlement_def propose_indeterminate_def Let_def
      res_simps TransitionProposal_init_def)

lemma paid_blocks:
  assumes "settles_next d i"
    and "propose \<lparr>esr_state_version = v, esr_step_input = i\<rparr> = Inr p"
  shows "paid d = Free \<or> paid d = Stopped \<and> blocks (prop_next_action p)"
proof (cases "\<exists>r q. d = Held r q Withheld")
  case True
  then obtain s where "i = EffectSettled s" "es_outcome s = ESO_INDETERMINATE"
    using assms(1) by (cases i) (auto simp: settles_next_def settles_held_def)
  with True indeterminate_blocks [OF assms(2)] show ?thesis by auto
next
  case False
  with assms(1) show ?thesis
    by (auto simp: settles_next_def settles_held_def paid_def split: exec_status.splits)
qed

lemma triple_lift_then:
  assumes "\<And>s. P s \<Longrightarrow> \<exists>d. owes d s" and "\<And>x. r = Inr x \<Longrightarrow> triple P (f x) Q (left_ok request)"
  shows "triple P (and_then (lift_res r) f) Q (left_ok request)"
  using assms unfolding triple_def ends_in_and_then
  by (cases r) (auto simp: lift_res_def)

lemma triple_top_step:
  "triple (\<lambda>s. protocol request s \<and> sg_phase s = Top) (top_step ports request)
     (\<lambda>_. protocol request) (left_ok request)"
  unfolding top_step_def
proof (rule triple_and_then_current)
  fix s0 :: "'a seg"
  assume "protocol request s0 \<and> sg_phase s0 = Top"
  then obtain d where d: "at_duty d (sg_input s0) Top s0" "settles_next d (sg_input s0)"
    by (auto simp: protocol_def at_duty_def)
  let ?i = "sg_input s0"
  have guard: "triple (\<lambda>s. s = s0)
      (if is_settlement_input ?i then go () else and_then (observe_or_yield ports) (\<lambda>_. go ()))
      (\<lambda>_. at_duty d ?i Top) (left_ok request)"
    by (rule triple_if)
       (use d settles_next_free [OF _ d(2)] in
         \<open>auto intro!: triple_go triple_and_then [OF triple_pre [OF triple_observe_free]]\<close>)
  have body: "triple (at_duty d ?i Top)
      (and_then current (\<lambda>s.
       and_then (lift_res (bound_input request s)) (\<lambda>_.
       and_then (lift_res (propose (engine_request_of s))) (\<lambda>proposal.
       let deferred = defers_commit (sg_input s) proposal in
       and_then (if deferred then go ()
                 else commit_proposal ports request (engine_request_of s) proposal) (\<lambda>_.
       act ports request proposal deferred)))))
      (\<lambda>_. protocol request) (left_ok request)"
  proof (rule triple_and_then_current)
    fix s1 :: "'a seg"
    assume s1: "at_duty d ?i Top s1"
    have step: "triple (\<lambda>s. s = s1)
        (if defers_commit (sg_input s1) p then go ()
         else commit_proposal ports request (engine_request_of s1) p)
        (\<lambda>_. at_duty (paid d) ?i Top) (left_ok request)" for p
    proof (rule triple_if)
      assume "defers_commit (sg_input s1) p"
      then have "d = Free"
        using d(2) s1
        by (auto simp: settles_next_def settles_held_def defers_commit_def approved_settlement_def
            at_duty_def split: EngineStepInput.splits)
      then show "triple (\<lambda>s. s = s1) (go ()) (\<lambda>_. at_duty (paid d) ?i Top) (left_ok request)"
        using s1 by (auto intro: triple_go)
    next
      show "triple (\<lambda>s. s = s1) (commit_proposal ports request (engine_request_of s1) p)
          (\<lambda>_. at_duty (paid d) ?i Top) (left_ok request)"
        using s1 d(2)
        by (intro triple_pre [OF triple_commit_proposal])
           (auto simp: engine_request_of_def at_duty_def)
    qed
    show "triple (\<lambda>s. s = s1)
        (and_then (lift_res (bound_input request s1)) (\<lambda>_.
         and_then (lift_res (propose (engine_request_of s1))) (\<lambda>proposal.
         let deferred = defers_commit (sg_input s1) proposal in
         and_then (if deferred then go ()
                   else commit_proposal ports request (engine_request_of s1) proposal) (\<lambda>_.
         act ports request proposal deferred))))
        (\<lambda>_. protocol request) (left_ok request)"
      unfolding Let_def
    proof (intro triple_lift_then)
      fix p assume p: "propose (engine_request_of s1) = Inr p"
      have "paid d = Free \<or> paid d = Stopped \<and> blocks (prop_next_action p)"
        using paid_blocks [OF d(2)] p s1 by (simp add: engine_request_of_def at_duty_def)
      then show "triple (\<lambda>s. s = s1)
          (and_then (if defers_commit (sg_input s1) p then go ()
                     else commit_proposal ports request (engine_request_of s1) p)
             (\<lambda>_. act ports request p (defers_commit (sg_input s1) p)))
          (\<lambda>_. protocol request) (left_ok request)"
        by (intro triple_and_then [OF step] triple_act)
    qed (use s1 in \<open>auto simp: at_duty_def\<close>)
  qed
  show "triple (\<lambda>s. s = s0)
      (and_then (if is_settlement_input ?i then go ()
                 else and_then (observe_or_yield ports) (\<lambda>_. go ())) (\<lambda>_.
       and_then current (\<lambda>s.
       and_then (lift_res (bound_input request s)) (\<lambda>_.
       and_then (lift_res (propose (engine_request_of s))) (\<lambda>proposal.
       let deferred = defers_commit (sg_input s) proposal in
       and_then (if deferred then go ()
                 else commit_proposal ports request (engine_request_of s) proposal) (\<lambda>_.
       act ports request proposal deferred))))))
      (\<lambda>_. protocol request) (left_ok request)"
    by (rule triple_and_then [OF guard body])
qed

section \<open>The other phases\<close>

lemma protocol_generating:
  "owes Free s \<Longrightarrow> sg_phase s = Generating r g \<Longrightarrow> protocol request s"
  by (simp add: protocol_def)

lemma triple_abandon_wait:
  "triple (at_duty d i ph) (abandon_wait ports) (\<lambda>_. at_duty d i ph) (left_ok request)"
  by (auto simp: triple_def abandon_wait_def at_duty_def owes_def split: prod.split option.split)

lemma triple_drain_generate:
  "triple (at_duty d i ph) (drain_generate ports quiet) (\<lambda>_. at_duty d i ph) (left_ok request)"
  by (auto simp: triple_def drain_generate_def at_duty_def owes_def Let_def
      intro!: emit_frames_duty split: prod.split option.split)

lemma triple_generated:
  "triple (at_duty Free i ph) (generated r result) (\<lambda>_. protocol request) (left_ok request)"
  unfolding generated_def
proof (rule triple_and_then_current)
  fix s0 :: "'a seg"
  assume s0: "at_duty Free i ph s0"
  have f: "triple (\<lambda>s. s = s0)
      (and_then (lift_res fr) (\<lambda>f. return_outcome (SegmentOutcome_init
         (FailedOutcome (Some (sg_state s0)) f (sg_steps s0)))))
      (\<lambda>_. protocol request) (left_ok request)" for fr
    using s0
    by (intro triple_and_then [OF triple_lift_exit [where Q = "\<lambda>_ s. s = s0"]] triple_return_exit)
       (auto simp: at_duty_def)
  have u: "triple (\<lambda>s. s = s0)
      (update_seg (\<lambda>s. s\<lparr>sg_steps := sg_steps s + 1, sg_input := ModelGenerationCompleted g,
         sg_phase := Top\<rparr>)) (\<lambda>_. protocol request) (left_ok request)" for g
    using s0 by (auto intro!: triple_update exI [of _ Free]
        simp: at_duty_def protocol_def owes_def settles_next_def)
  show "triple (\<lambda>s. s = s0)
      (case result of
         None \<Rightarrow> raising (RuntimeError ''model adapter returned no result'')
       | Some g \<Rightarrow>
           (if gen_request_id g \<noteq> mreq_request_id r
            then
              and_then (lift_res (FailureReport_init
                \<lparr>fail_code = ''model_request_id_mismatch'',
                 fail_message =
                   ''model result request_id does not match the active model request'',
                 fail_details = dict_of
                   [(''expected_request_id'', PStr (mreq_request_id r)),
                    (''actual_request_id'', PStr (gen_request_id g))]\<rparr>)) (\<lambda>f.
              return_outcome (SegmentOutcome_init
                (FailedOutcome (Some (sg_state s0)) f (sg_steps s0))))
            else update_seg (\<lambda>s. s\<lparr>sg_steps := sg_steps s + 1,
                                   sg_input := ModelGenerationCompleted g, sg_phase := Top\<rparr>)))
      (\<lambda>_. protocol request) (left_ok request)"
    using f u s0
    by (cases result) (auto intro!: triple_raising simp: at_duty_def simp del: SegmentOutcome_init.simps)
qed

lemma triple_generate_step:
  "triple (\<lambda>s. protocol request s \<and> sg_phase s = Generating r g) (generate_step ports r g)
     (\<lambda>_. protocol request) (left_ok request)"
  unfolding triple_def
proof (intro allI impI)
  fix s0 :: "'a seg"
  assume p: "protocol request s0 \<and> sg_phase s0 = Generating r g"
  obtain ev w where race: "port_race ports g (host_world (sg_host s0)) = (ev, w)" by fastforce
  define s where "s = s0\<lparr>sg_host := (sg_host s0)\<lparr>host_world := w\<rparr>\<rparr>"
  define ph where "ph = Generating r g"
  have s: "at_duty Free (sg_input s0) ph s"
    using p by (auto simp: s_def ph_def at_duty_def protocol_def owes_def)
  note to = triple_and_then [OF triple_drain_generate] triple_and_then [OF triple_abandon_wait]
  have frame: "triple (at_duty Free (sg_input s0) ph)
      (update_seg (\<lambda>s. s\<lparr>sg_host := snd (emit_frame ports f (sg_host s))\<rparr>))
      (\<lambda>_. protocol request) (left_ok request)" for f
    by (rule triple_update)
       (auto simp: at_duty_def ph_def owes_def intro!: protocol_generating emit_frame_duty)
  have control: "triple (at_duty Free (sg_input s0) ph)
      (and_then (drain_generate ports True) (\<lambda>_.
         case snap_reason c of
           None \<Rightarrow> generated r None
         | Some reason \<Rightarrow>
             and_then current (\<lambda>s. return_outcome (SegmentOutcome_init
               (SafeYieldOutcome (sg_state s) reason (sg_steps s))))))
      (\<lambda>_. protocol request) (left_ok request)" for c
    by (rule to(1), cases "snap_reason c")
       (auto intro!: triple_generated triple_and_then_current triple_return_exit simp: at_duty_def
         simp del: SegmentOutcome_init.simps)
  have again: "triple (at_duty Free (sg_input s0) ph)
      (update_seg (\<lambda>s :: 'a seg. s\<lparr>sg_phase := Generating r n\<rparr>)) (\<lambda>_. protocol request) (left_ok request)" for n
    by (rule triple_update) (auto simp: at_duty_def owes_def intro!: protocol_generating)
  have result: "triple (at_duty Free (sg_input s0) ph)
      (and_then (abandon_wait ports) (\<lambda>_. and_then (lift_res x) (generated r)))
      (\<lambda>_. protocol request) (left_ok request)" for x
    by (intro to(2) triple_and_then [OF triple_lift_exit [where Q = "\<lambda>_. at_duty Free (sg_input s0) ph"]]
        triple_generated) (auto dest: at_duty_owes)
  have raise: "triple (at_duty Free (sg_input s0) ph)
      (and_then (drain_generate ports False) (\<lambda>_. raising e)) (\<lambda>_ :: unit. protocol request)
      (left_ok request)" for e
    by (intro to(1) triple_raising) (auto dest: at_duty_owes)
  have cancel: "triple (at_duty Free (sg_input s0) ph)
      (and_then (abandon_wait ports) (\<lambda>_. and_then (drain_generate ports False) (\<lambda>_. raising e)))
      (\<lambda>_ :: unit. protocol request) (left_ok request)" for e
    using raise [of e] by (rule to(2))
  show "ends_in (\<lambda>_. protocol request) (left_ok request) (generate_step ports r g s0)"
  proof (cases ev)
    case (RaceControl c)
    note run = race s RaceControl
    show ?thesis
    proof (cases c)
      case (Inl e)
      with run raise [of e] show ?thesis
        by (simp add: generate_step_def s_def [symmetric] triple_def)
    next
      case (Inr sn)
      with run control [of sn] again [of "snap_generation sn"] show ?thesis
        by (simp add: generate_step_def s_def [symmetric] triple_def
            del: SegmentOutcome_init.simps)
    qed
  qed (use race s frame result cancel in
         \<open>simp_all add: generate_step_def s_def [symmetric] triple_def\<close>)
qed

lemma triple_execution_result:
  assumes "permit_for q p"
  shows "triple (at_duty (Held q p Ready) i ph) (execution_result ports p)
     (\<lambda>out s. \<exists>st. at_duty (Held q p st) i ph s \<and> st \<noteq> Ready
        \<and> (st = Withheld \<longrightarrow> (\<exists>c m e. out = EffectIndeterminateResult c m e)))
     (left_ok request)"
  unfolding execution_result_def
proof (rule triple_and_then)
  show "triple (at_duty (Held q p Ready) i ph) (observe ports)
      (\<lambda>sn. at_duty (Held q p (if snap_raised sn then Withheld else Ready)) i ph) (left_ok request)"
    unfolding observe_def
    by (rule triple_call) (auto simp: duty_step_def control_raised_def split: if_splits)
  fix sn
  let ?Q = "\<lambda>out s. \<exists>st. at_duty (Held q p st) i ph s \<and> st \<noteq> Ready
        \<and> (st = Withheld \<longrightarrow> (\<exists>c m e. out = EffectIndeterminateResult c m e))"
  have withheld: "triple (at_duty (Held q p Withheld) i ph)
      (lift_res (EffectExecutionResult_init (EffectIndeterminateResult c m None)))
      ?Q (left_ok request)" for c m
    by (rule triple_lift_exit) (auto simp: res_simps dest: at_duty_owes)
  have ran: "triple (at_duty (Held q p Ran) i ph)
      (lift_res (EffectExecutionResult_init (EffectIndeterminateResult c m None)))
      ?Q (left_ok request)" for c m
    by (rule triple_lift_exit) (auto dest: at_duty_owes)
  have claim: "triple (at_duty (Held q p Ready) i ph) (lift_res (DispatchPermit_claim p))
      (\<lambda>c s. at_duty (Held q p Ready) i ph s \<and> \<not> permit_claimed p
         \<and> c = p\<lparr>permit_claimed := True\<rparr>) (left_ok request)"
    by (rule triple_lift_exit)
       (auto simp: DispatchPermit_claim_def dest: at_duty_owes split: if_splits)
  have exec: "triple (\<lambda>s. at_duty (Held q p Ready) i ph s \<and> \<not> permit_claimed p
         \<and> c = p\<lparr>permit_claimed := True\<rparr>)
      (attempt (host_call (port_execute ports c) (EvExecute c)))
      (\<lambda>_. at_duty (Held q p Ran) i ph) (left_ok request)" for c
  proof (rule triple_attempt)
    fix s r h
    assume s: "at_duty (Held q p Ready) i ph s \<and> \<not> permit_claimed p
         \<and> c = p\<lparr>permit_claimed := True\<rparr>"
      and call: "host_call (port_execute ports c) (EvExecute c) (sg_host s) = (r, h)"
    have "duty_after (host_trace h) = Some (Held q p Ran)"
      using host_call_duty [OF call, of "Held q p Ready"] s assms
      by (simp add: at_duty_def owes_def duty_step_def)
    with s show "at_duty (Held q p Ran) i ph (s\<lparr>sg_host := h\<rparr>)"
      by (simp add: at_duty_def owes_host)
  qed
  have after: "triple (at_duty (Held q p Ran) i ph)
      (case r of
         Inr v \<Rightarrow> go v
       | Inl e \<Rightarrow>
           (if is_exception e
            then lift_res (EffectExecutionResult_init
                   (EffectIndeterminateResult ''effect_executor_error'' (exception_message e) None))
            else
              and_then (update_seg (\<lambda>s. s\<lparr>sg_propagate := True\<rparr>)) (\<lambda>_.
              lift_res (EffectExecutionResult_init
                (EffectIndeterminateResult ''effect_executor_cancelled''
                   ''effect executor cancelled after dispatch'' None)))))
      ?Q (left_ok request)" for r
  proof (cases r)
    case (Inl e)
    have "triple (at_duty (Held q p Ran) i ph) (update_seg (\<lambda>s. s\<lparr>sg_propagate := True\<rparr>))
        (\<lambda>_. at_duty (Held q p Ran) i ph) (left_ok request)"
      by (rule triple_update) (simp add: at_duty_def owes_def)
    with Inl ran show ?thesis
      by (auto intro: triple_and_then simp del: EffectExecutionResult_init.simps)
  qed (auto intro!: triple_go)
  show "triple (at_duty (Held q p (if snap_raised sn then Withheld else Ready)) i ph)
      (if snap_raised sn
       then case snap_reason sn of
              None \<Rightarrow> raising (ValueError ''raised control snapshot requires a reason'')
            | Some reason \<Rightarrow>
                lift_res (EffectExecutionResult_init
                  (EffectIndeterminateResult ''control_after_dispatch'' reason None))
       else
         and_then (lift_res (DispatchPermit_claim p)) (\<lambda>claimed.
         and_then (attempt (host_call (port_execute ports claimed) (EvExecute claimed))) (\<lambda>r.
         case r of
           Inr v \<Rightarrow> go v
         | Inl e \<Rightarrow>
             (if is_exception e
              then lift_res (EffectExecutionResult_init
                     (EffectIndeterminateResult ''effect_executor_error'' (exception_message e) None))
              else
                and_then (update_seg (\<lambda>s. s\<lparr>sg_propagate := True\<rparr>)) (\<lambda>_.
                lift_res (EffectExecutionResult_init
                  (EffectIndeterminateResult ''effect_executor_cancelled''
                     ''effect executor cancelled after dispatch'' None)))))))
      ?Q (left_ok request)"
  proof (rule triple_if)
    assume "snap_raised sn"
    then show "triple (at_duty (Held q p (if snap_raised sn then Withheld else Ready)) i ph)
       (case snap_reason sn of
              None \<Rightarrow> raising (ValueError ''raised control snapshot requires a reason'')
            | Some reason \<Rightarrow>
                lift_res (EffectExecutionResult_init
                  (EffectIndeterminateResult ''control_after_dispatch'' reason None)))
       ?Q (left_ok request)"
      using withheld
      by (cases "snap_reason sn")
         (auto intro!: triple_raising dest: at_duty_owes simp del: EffectExecutionResult_init.simps)
  next
    assume no: "\<not> snap_raised sn"
    show "triple (at_duty (Held q p (if snap_raised sn then Withheld else Ready)) i ph)
       (and_then (lift_res (DispatchPermit_claim p)) (\<lambda>claimed.
         and_then (attempt (host_call (port_execute ports claimed) (EvExecute claimed))) (\<lambda>r.
         case r of
           Inr v \<Rightarrow> go v
         | Inl e \<Rightarrow>
             (if is_exception e
              then lift_res (EffectExecutionResult_init
                     (EffectIndeterminateResult ''effect_executor_error'' (exception_message e) None))
              else
                and_then (update_seg (\<lambda>s. s\<lparr>sg_propagate := True\<rparr>)) (\<lambda>_.
                lift_res (EffectExecutionResult_init
                  (EffectIndeterminateResult ''effect_executor_cancelled''
                     ''effect executor cancelled after dispatch'' None)))))))
       ?Q (left_ok request)"
      using no by (auto intro!: triple_and_then [OF claim] triple_and_then [OF exec] after)
  qed
qed

text \<open>A dispatched effect comes back as the settlement that is owed.\<close>

lemma effect_settlement_shape:
  assumes "effect_settlement plan tid n out = Inr s"
  shows "es_effect_id s = plan_effect_id plan" "es_attempt_id s = plan_attempt_id plan"
    "es_authorization_transition_id s = tid" "es_owner_epoch s = n"
    "out = EffectIndeterminateResult c m e \<Longrightarrow> es_outcome s = ESO_INDETERMINATE"
  using assms
  by (cases out; auto simp: effect_settlement_def EffectSettlement_completed_def
      EffectSettlement_init_def res_simps Let_def)+

lemma validated_permit:
  assumes "validate_dispatch_permit permit sid n plan tid = Inr u"
  shows "permit_session_id permit = sid \<and> permit_effect_id permit = plan_effect_id plan
    \<and> permit_attempt_id permit = plan_attempt_id plan
    \<and> permit_authorization_transition_id permit = tid \<and> permit_owner_epoch permit = n
    \<and> permit_idempotency_key permit = plan_idempotency_key plan"
  using assms by (auto simp: validate_dispatch_permit_def split: if_splits)

lemma settle_held_next:
  assumes "permit_for q permit" "dar_effect_plan q = plan" "dar_owner_epoch q = n"
    and "effect_settlement plan (permit_authorization_transition_id permit) n out = Inr es"
    and "st \<noteq> Ready" "st = Withheld \<longrightarrow> (\<exists>c m e. out = EffectIndeterminateResult c m e)"
  shows "settles_next (Held q permit st) (EffectSettled es)"
  using assms effect_settlement_shape [OF assms(4)]
  by (auto simp: settles_next_def settles_held_def bound_to_def permit_for_def)

lemma authorized_result_cases:
  "authorized_result r = Inr (Inl out) \<Longrightarrow> is_failed out"
  "authorized_result r = Inr (Inr (v, p, ns)) \<Longrightarrow> \<exists>rc. r = DispatchAuthorizedResult v p ns rc"
  by (cases r; auto simp: authorized_result_def map_res_eq_Inr dest: commit_failure_failed)+

definition authorize_duty :: "DispatchAuthorizationRequest \<Rightarrow> CommitResult \<Rightarrow> duty" where
  "authorize_duty q r =
     (case r of DispatchAuthorizedResult _ p _ _ \<Rightarrow> Held q p Ready | _ \<Rightarrow> Free)"

lemma triple_dispatch_authorized:
  assumes ok: "authorizing_ok request plan proposal q"
  shows "triple (at_duty (authorize_duty q r) i ph)
     (dispatch_authorized ports request plan proposal r) (\<lambda>_. protocol request) (left_ok request)"
  unfolding dispatch_authorized_def
proof (rule triple_and_then)
  let ?P = "\<lambda>a s. authorized_result r = Inr a \<and> at_duty (authorize_duty q r) i ph s"
  show "triple (at_duty (authorize_duty q r) i ph) (lift_res (authorized_result r)) ?P
      (left_ok request)"
    by (rule triple_lift_exit) (auto dest: at_duty_owes)
  have failed: "triple (?P (Inl out))
      (and_then current (\<lambda>s. return_outcome (with_steps out (sg_steps s) (sg_state s))))
      (\<lambda>_. protocol request) (left_ok request)" for out
    by (rule triple_and_then_current, rule triple_return_exit)
       (auto simp: at_duty_def dest: authorized_result_cases(1) with_steps_failed)
  have authorized: "triple (?P (Inr (v, permit, ns)))
      (and_then (update_seg (\<lambda>s. s\<lparr>sg_state := v\<rparr>)) (\<lambda>_.
       and_then (lift_res (validate_dispatch_permit permit (seg_session_id request)
           (seg_owner_epoch request) plan (prop_transition_id proposal))) (\<lambda>_.
       and_then (perform (emit_all ports ns)) (\<lambda>_.
       and_then (execution_result ports permit) (\<lambda>outcome.
       and_then (lift_res (effect_settlement plan
           (permit_authorization_transition_id permit) (seg_owner_epoch request) outcome))
         (\<lambda>settlement.
       update_seg (\<lambda>s. s\<lparr>sg_input := EffectSettled settlement, sg_phase := Top\<rparr>)))))))
      (\<lambda>_. protocol request) (left_ok request)" for v permit ns
  proof (rule triple_and_then)
    show "triple (?P (Inr (v, permit, ns))) (update_seg (\<lambda>s. s\<lparr>sg_state := v\<rparr>))
        (\<lambda>_. at_duty (Held q permit Ready) i ph) (left_ok request)"
      by (rule triple_update)
         (auto simp: at_duty_def owes_def authorize_duty_def dest: authorized_result_cases(2))
    let ?val = "validate_dispatch_permit permit (seg_session_id request)
           (seg_owner_epoch request) plan (prop_transition_id proposal)"
    have val: "triple (at_duty (Held q permit Ready) i ph) (lift_res ?val)
        (\<lambda>u s. at_duty (Held q permit Ready) i ph s \<and> permit_for q permit) (left_ok request)"
      by (rule triple_lift_exit)
         (use ok in \<open>auto simp: permit_for_def authorizing_ok_def request_matches_def
            dest: validated_permit at_duty_owes\<close>)
    let ?rest = "and_then (perform (emit_all ports ns)) (\<lambda>_.
       and_then (execution_result ports permit) (\<lambda>outcome.
       and_then (lift_res (effect_settlement plan
           (permit_authorization_transition_id permit) (seg_owner_epoch request) outcome))
         (\<lambda>settlement.
       update_seg (\<lambda>s. s\<lparr>sg_input := EffectSettled settlement, sg_phase := Top\<rparr>))))"
    have rest: "triple (at_duty (Held q permit Ready) i ph) ?rest (\<lambda>_. protocol request)
        (left_ok request)" if pf: "permit_for q permit"
    proof (rule triple_and_then [OF triple_facts],
        rule triple_and_then [OF triple_execution_result [OF pf]])
      fix u :: unit and out
      let ?s = "effect_settlement plan (permit_authorization_transition_id permit)
                  (seg_owner_epoch request) out"
      let ?Q = "\<lambda>s :: 'a seg. \<exists>st. at_duty (Held q permit st) i ph s \<and> st \<noteq> Ready
        \<and> (st = Withheld \<longrightarrow> (\<exists>c m e. out = EffectIndeterminateResult c m e))"
      show "triple ?Q
          (and_then (lift_res ?s) (\<lambda>settlement.
             update_seg (\<lambda>s. s\<lparr>sg_input := EffectSettled settlement, sg_phase := Top\<rparr>)))
          (\<lambda>_. protocol request) (left_ok request)"
      proof (rule triple_and_then)
        show "triple ?Q (lift_res ?s) (\<lambda>es s. ?s = Inr es \<and> ?Q s) (left_ok request)"
          by (rule triple_lift_exit) (auto dest: at_duty_owes)
        show "triple (\<lambda>s. ?s = Inr es \<and> ?Q s)
            (update_seg (\<lambda>s. s\<lparr>sg_input := EffectSettled es, sg_phase := Top\<rparr>))
            (\<lambda>_. protocol request) (left_ok request)" for es
        proof (rule triple_update)
          fix s :: "'a seg"
          assume "?s = Inr es \<and> ?Q s"
          then obtain st where st: "?s = Inr es" "at_duty (Held q permit st) i ph s" "st \<noteq> Ready"
              "st = Withheld \<longrightarrow> (\<exists>c m e. out = EffectIndeterminateResult c m e)"
            by blast
          have "settles_next (Held q permit st) (EffectSettled es)"
            by (rule settle_held_next [OF pf _ _ st(1,3,4)])
               (use ok in \<open>simp_all add: authorizing_ok_def request_matches_def\<close>)
          with st(2) show "protocol request (s\<lparr>sg_input := EffectSettled es, sg_phase := Top\<rparr>)"
            by (auto simp: protocol_def at_duty_def owes_def)
        qed
      qed
    qed
    show "triple (at_duty (Held q permit Ready) i ph)
        (and_then (lift_res ?val) (\<lambda>_. ?rest)) (\<lambda>_. protocol request) (left_ok request)" for u
    proof (rule triple_and_then [OF val])
      show "triple (\<lambda>s. at_duty (Held q permit Ready) i ph s \<and> permit_for q permit)
          ?rest (\<lambda>_. protocol request) (left_ok request)" for x
        using rest by (cases "permit_for q permit") (auto simp: triple_def)
    qed
  qed
  show "triple (?P a)
      (case a of
         Inl out \<Rightarrow> and_then current (\<lambda>s. return_outcome (with_steps out (sg_steps s) (sg_state s)))
       | Inr (v, permit, ns) \<Rightarrow>
           and_then (update_seg (\<lambda>s. s\<lparr>sg_state := v\<rparr>)) (\<lambda>_.
           and_then (lift_res (validate_dispatch_permit permit (seg_session_id request)
               (seg_owner_epoch request) plan (prop_transition_id proposal))) (\<lambda>_.
           and_then (perform (emit_all ports ns)) (\<lambda>_.
           and_then (execution_result ports permit) (\<lambda>outcome.
           and_then (lift_res (effect_settlement plan
               (permit_authorization_transition_id permit) (seg_owner_epoch request) outcome))
             (\<lambda>settlement.
           update_seg (\<lambda>s. s\<lparr>sg_input := EffectSettled settlement, sg_phase := Top\<rparr>)))))))
      (\<lambda>_. protocol request) (left_ok request)" for a
  proof (cases a)
    case (Inl out)
    show ?thesis unfolding Inl sum.case by (rule failed)
  next
    case (Inr x)
    obtain v permit ns where x: "x = (v, permit, ns)" by (cases x)
    show ?thesis unfolding Inr x sum.case prod.case by (rule authorized)
  qed
qed

lemma triple_authorize_step:
  assumes ok: "authorizing_ok request plan p q"
  shows "triple (at_duty Free i ph) (authorize_step ports request plan p q) (\<lambda>_. protocol request)
     (left_ok request)"
  unfolding authorize_step_def
proof (rule triple_and_then)
  show "triple (at_duty Free i ph)
      (perform (host_call (port_authorize_dispatch ports q) (EvAuthorize q)))
      (\<lambda>r. at_duty (authorize_duty q r) i ph) (left_ok request)"
    by (rule triple_call)
       (use ok in \<open>auto simp: duty_step_def authorize_duty_def authorizing_ok_def\<close>)
  have stale: "triple (at_duty Free i ph)
      (and_then (observe_or_yield ports) (\<lambda>snapshot.
         let mcut = max c (snap_generation snapshot) in
         and_then (update_seg (\<lambda>s. s\<lparr>sg_cut := mcut\<rparr>)) (\<lambda>_.
         and_then (lift_res (DispatchAuthorizationRequest_init (q\<lparr>dar_mailbox_cut := mcut\<rparr>)))
           (\<lambda>r. update_seg (\<lambda>s. s\<lparr>sg_phase := Authorizing plan p r\<rparr>)))))
      (\<lambda>_. protocol request) (left_ok request)" for c
    unfolding Let_def
  proof (rule triple_and_then [OF triple_observe_free], rule triple_and_then)
    fix sn
    let ?q = "q\<lparr>dar_mailbox_cut := max c (snap_generation sn)\<rparr>"
    show "triple (at_duty Free i ph) (update_seg (\<lambda>s. s\<lparr>sg_cut := max c (snap_generation sn)\<rparr>))
        (\<lambda>_. at_duty Free i ph) (left_ok request)"
      by (rule triple_update) (simp add: at_duty_def owes_def)
    have init: "authorizing_ok request plan p r" if "DispatchAuthorizationRequest_init ?q = Inr r" for r
      using that DispatchAuthorizationRequest_init_Inr [OF that] ok
      by (auto simp: authorizing_ok_def request_matches_def)
    show "triple (at_duty Free i ph)
        (and_then (lift_res (DispatchAuthorizationRequest_init ?q))
           (\<lambda>r. update_seg (\<lambda>s. s\<lparr>sg_phase := Authorizing plan p r\<rparr>)))
        (\<lambda>_. protocol request) (left_ok request)" for u
    proof (rule triple_and_then)
      show "triple (at_duty Free i ph) (lift_res (DispatchAuthorizationRequest_init ?q))
          (\<lambda>r s. authorizing_ok request plan p r \<and> at_duty Free i ph s) (left_ok request)"
        by (rule triple_lift_exit) (auto dest: at_duty_owes init)
      show "triple (\<lambda>s. authorizing_ok request plan p r \<and> at_duty Free i ph s)
          (update_seg (\<lambda>s. s\<lparr>sg_phase := Authorizing plan p r\<rparr>)) (\<lambda>_. protocol request)
          (left_ok request)" for r
        by (rule triple_update) (auto simp: protocol_def at_duty_def owes_def)
    qed
  qed
  show "triple (at_duty (authorize_duty q r) i ph)
      (case r of
         StaleMailboxCutCommitResult e c \<Rightarrow>
           and_then (observe_or_yield ports) (\<lambda>snapshot.
           let mcut = max c (snap_generation snapshot) in
           and_then (update_seg (\<lambda>s. s\<lparr>sg_cut := mcut\<rparr>)) (\<lambda>_.
           and_then (lift_res (DispatchAuthorizationRequest_init (q\<lparr>dar_mailbox_cut := mcut\<rparr>)))
             (\<lambda>r. update_seg (\<lambda>s. s\<lparr>sg_phase := Authorizing plan p r\<rparr>))))
       | _ \<Rightarrow> dispatch_authorized ports request plan p r)
      (\<lambda>_. protocol request) (left_ok request)" for r
    using stale triple_dispatch_authorized [OF ok, of r i ph ports]
    by (cases r) (simp_all add: authorize_duty_def)
qed

section \<open>The invariant of the loop\<close>

lemma protocol_step:
  assumes "protocol request s"
  shows "ends_in (\<lambda>_. protocol request) (left_ok request)
     ((case sg_phase s of
         Top \<Rightarrow> top_step ports request
       | Generating r g \<Rightarrow> generate_step ports r g
       | Authorizing plan p r \<Rightarrow> authorize_step ports request plan p r) s)"
proof (cases "sg_phase s")
  case Top
  then show ?thesis
    using triple_top_step [of request ports] assms by (simp add: triple_def)
next
  case (Generating r g)
  then show ?thesis
    using triple_generate_step [of request r g ports] assms by (simp add: triple_def)
next
  case (Authorizing plan p q)
  then have "authorizing_ok request plan p q" "at_duty Free (sg_input s) (sg_phase s) s"
    using assms by (simp_all add: protocol_def at_duty_def)
  then show ?thesis
    using triple_authorize_step [of request plan p q "sg_input s" "sg_phase s" ports] Authorizing
    by (simp add: triple_def)
qed

text \<open>What a run may end with.\<close>

definition protocol_end :: "SegmentOutcome res \<times> 'w seg \<Rightarrow> bool" where
  "protocol_end r \<longleftrightarrow>
     (case r of (v, s) \<Rightarrow> \<exists>d. owes d s
        \<and> (case v of Inl _ \<Rightarrow> True | Inr out \<Rightarrow> is_failed out \<or> d = Free \<or> d = Stopped))"

lemma coordinator_error_failed: "coordinator_error e s = Inr out \<Longrightarrow> is_failed out"
  by (auto simp: coordinator_error_def res_simps)

interpretation protocol: step_invariant "seg_step ports request" "protocol request" protocol_end
  for ports :: "'w ports" and request
proof
  fix s s' :: "'w seg" and r
  assume p: "protocol request s"
  let ?run = "(case sg_phase s of
         Top \<Rightarrow> top_step ports request
       | Generating r g \<Rightarrow> generate_step ports r g
       | Authorizing plan p r \<Rightarrow> authorize_step ports request plan p r) s"
  obtain c s1 where run: "?run = (c, s1)" by fastforce
  note step = protocol_step [OF p, of ports, unfolded run]
  show "seg_step ports request s = Inl s' \<Longrightarrow> protocol request s'"
    using step unfolding seg_step_def run by (cases c) auto
  show "seg_step ports request s = Inr r \<Longrightarrow> protocol_end r"
    using step unfolding seg_step_def run
    using coordinator_error_failed [of _ s1]
    by (cases c; fastforce simp: protocol_end_def split: sum.splits if_splits)
qed

lemma protocol_start: "protocol request (seg_start request n w)"
  by (auto simp: protocol_def seg_start_def owes_def start_host_def settles_next_def
      intro: exI [of _ Free])

section \<open>Counting the rounds\<close>

text \<open>An action that keeps the round count and the phase, and returns outcomes with the count.\<close>

definition calm :: "int \<Rightarrow> phase \<Rightarrow> 'w seg \<Rightarrow> bool" where
  "calm n ph s \<longleftrightarrow> sg_steps s = n \<and> sg_phase s = ph"

definition counted :: "int \<Rightarrow> unit ctl \<Rightarrow> 'w seg \<Rightarrow> bool" where
  "counted n c s \<longleftrightarrow> sg_steps s = n \<and> (c = Again \<longrightarrow> sg_phase s = Top)
     \<and> (\<forall>v. c = Return v \<longrightarrow> outcome_steps v = n)"

lemma counted_simps [simp]:
  "counted n Again s \<longleftrightarrow> sg_steps s = n \<and> sg_phase s = Top"
  "counted n (Return v) s \<longleftrightarrow> sg_steps s = n \<and> outcome_steps v = n"
  "counted n (Raise e) s \<longleftrightarrow> sg_steps s = n"
  by (auto simp: counted_def)

abbreviation quiet :: "int \<Rightarrow> phase \<Rightarrow> ('w, 'a) seg_action \<Rightarrow> bool" where
  "quiet n ph m \<equiv> triple (calm n ph) m (\<lambda>_. calm n ph) (counted n)"

lemma quiet_lift: "quiet n ph (lift_res r)"
  by (rule triple_lift) (auto simp: calm_def)

lemma quiet_perform: "quiet n ph (perform f)"
  by (rule triple_perform) (auto simp: calm_def)

lemma quiet_go: "quiet n ph (go x)"
  by (rule triple_go)

lemma quiet_raising: "quiet n ph (raising e)"
  by (rule triple_raising) (simp add: calm_def)

lemma quiet_update: "(\<And>s. sg_steps (f s) = sg_steps s \<and> sg_phase (f s) = sg_phase s)
    \<Longrightarrow> quiet n ph (update_seg f)"
  by (rule triple_update) (simp add: calm_def)

lemma quiet_return: "(\<And>v. r = Inr v \<Longrightarrow> outcome_steps v = n) \<Longrightarrow> quiet n ph (return_outcome r)"
  by (rule triple_return) (auto simp: calm_def)

lemma quiet_current:
  assumes "\<And>s. calm n ph s \<Longrightarrow> triple (calm n ph) (f s) Q (counted n)"
  shows "triple (calm n ph) (and_then current f) Q (counted n)"
  by (rule triple_and_then_current) (rule triple_pre [OF assms], auto)

lemma quiet_if: "quiet n ph m \<Longrightarrow> quiet n ph k \<Longrightarrow> quiet n ph (if b then m else k)"
  by simp

lemma outcome_of_init: "SegmentOutcome_init x = Inr v \<Longrightarrow> outcome_steps v = outcome_steps x"
  by (auto dest: SegmentOutcome_init_Inr)

lemma quiet_observe: "quiet n ph (observe_or_yield ports)"
  unfolding observe_or_yield_def observe_def
  by (intro triple_and_then [OF quiet_perform] quiet_current triple_if quiet_go quiet_return)
     (auto simp: calm_def dest: safe_yield_not_failed)

lemma with_steps_count: "is_failed out \<Longrightarrow> with_steps out n v = Inr out' \<Longrightarrow> outcome_steps out' = n"
  by (cases out) (auto simp: with_steps_def dest: outcome_of_init simp del: SegmentOutcome_init.simps)

lemma quiet_with_steps:
  "is_failed out \<Longrightarrow>
     quiet n ph (and_then current (\<lambda>s. return_outcome (with_steps out (sg_steps s) (sg_state s))))"
  by (intro quiet_current quiet_return) (auto simp: calm_def with_steps_count)

lemma quiet_commit_call: "quiet n ph (commit_call ports request er p)"
  unfolding commit_call_def Let_def
  by (auto intro!: triple_and_then [OF quiet_lift] quiet_perform split: sum.split)

text \<open>A lifted result keeps what it is.\<close>

lemma quiet_lift_known:
  assumes "\<And>x. r = Inr x \<Longrightarrow> triple (calm n ph) (f x) Q (counted n)"
  shows "triple (calm n ph) (and_then (lift_res r) f) Q (counted n)"
  using assms unfolding triple_def ends_in_and_then
  by (cases r) (auto simp: lift_res_def calm_def)

lemma quiet_adopt_commit: "quiet n ph (adopt_commit ports i r)"
  unfolding adopt_commit_def
proof (rule quiet_lift_known)
  fix c assume c: "committed_result r = Inr c"
  show "quiet n ph (case c of
       Inl out \<Rightarrow> and_then current (\<lambda>s. return_outcome (with_steps out (sg_steps s) (sg_state s)))
     | Inr (v, ns) \<Rightarrow>
         and_then (update_seg (\<lambda>s. s\<lparr>sg_state := v\<rparr>)) (\<lambda>_.
         and_then (perform (emit_all ports ns)) (\<lambda>_.
         and_then current (\<lambda>s.
         if sg_propagate s \<and> (case i of EffectSettled _ \<Rightarrow> True | _ \<Rightarrow> False)
         then raising CancelledError
         else if is_settlement_input i
         then and_then (observe_or_yield ports) (\<lambda>_. go ())
         else go ()))))"
  proof (cases c)
    case (Inl out)
    with c committed_result_cases(1) show ?thesis
      unfolding Inl sum.case by (blast intro: quiet_with_steps)
  next
    case (Inr vn)
    obtain v ns where vn: "vn = (v, ns)" by fastforce
    show ?thesis
      unfolding Inr vn sum.case prod.case
      by (intro triple_and_then [OF quiet_update] triple_and_then [OF quiet_perform] quiet_current
          triple_if quiet_raising quiet_go triple_and_then [OF quiet_observe]) simp
  qed
qed

lemma quiet_commit_proposal: "quiet n Top (commit_proposal ports request er p)"
  unfolding commit_proposal_def
proof (rule triple_and_then)
  show "quiet n Top (if is_settlement_input (esr_step_input er) then go ()
      else and_then (observe_or_yield ports) (\<lambda>_. go ()))"
    by (intro triple_if triple_and_then [OF quiet_observe] quiet_go)
  have "quiet n Top (\<lambda>s. (Again, s\<lparr>sg_state := v\<rparr>))" for v
    by (simp add: triple_def calm_def)
  then have "quiet n Top (case r of
       CASConflictCommitResult v \<Rightarrow> (\<lambda>s. (Again, s\<lparr>sg_state := v\<rparr>))
     | _ \<Rightarrow> adopt_commit ports (esr_step_input er) r)" for r
    by (cases r) (simp_all add: quiet_adopt_commit)
  then show "quiet n Top (and_then (commit_call ports request er p) (\<lambda>r. case r of
       CASConflictCommitResult v \<Rightarrow> (\<lambda>s. (Again, s\<lparr>sg_state := v\<rparr>))
     | _ \<Rightarrow> adopt_commit ports (esr_step_input er) r))" for u
    by (rule triple_and_then [OF quiet_commit_call])
qed

text \<open>The bound: rounds never exceed the limit, and a generation starts below it.\<close>

definition rounds_ok :: "RunSegmentRequest \<Rightarrow> 'w seg \<Rightarrow> bool" where
  "rounds_ok request s \<longleftrightarrow>
     0 \<le> sg_steps s \<and> sg_steps s \<le> seg_max_rounds request
     \<and> (case sg_phase s of Generating _ _ \<Rightarrow> sg_steps s < seg_max_rounds request | _ \<Rightarrow> True)"

text \<open>\<open>rounds_from n\<close>: the count is \<open>n\<close>, and the phase is open to the next iteration.\<close>

definition rounds_from :: "RunSegmentRequest \<Rightarrow> int \<Rightarrow> 'w seg \<Rightarrow> bool" where
  "rounds_from request n s \<longleftrightarrow>
     sg_steps s = n
     \<and> (case sg_phase s of Generating _ _ \<Rightarrow> n < seg_max_rounds request | _ \<Rightarrow> True)"

lemma rounds_begin_generation:
  "triple (calm n Top) (begin_generation ports request r) (\<lambda>_. rounds_from request n) (counted n)"
  unfolding begin_generation_def
proof (rule quiet_current, rule triple_if)
  fix s :: "'a seg"
  assume s: "calm n Top s"
  show "triple (calm n Top)
      (return_outcome (SegmentOutcome_init (RoundLimitOutcome (sg_state s) (sg_steps s))))
      (\<lambda>_. rounds_from request n) (counted n)"
    using s by (intro triple_return) (auto simp: calm_def dest: outcome_of_init
        simp del: SegmentOutcome_init.simps)
  assume "\<not> seg_max_rounds request \<le> sg_steps s"
  with s have "n < seg_max_rounds request" by (simp add: calm_def)
  then show "triple (calm n Top)
      (and_then (observe_or_yield ports) (\<lambda>snapshot. update_seg (\<lambda>s. s\<lparr>
         sg_host := record_event (EvGenerate r)
           (port_generate ports r (host_world (sg_host s))) (sg_host s),
         sg_phase := Generating r (snap_generation snapshot)\<rparr>)))
      (\<lambda>_. rounds_from request n) (counted n)"
    by (intro triple_and_then [OF quiet_observe] triple_update) (simp add: calm_def rounds_from_def)
qed

lemma rounds_begin_dispatch:
  "triple (calm n Top) (begin_dispatch ports request p deferred plan) (\<lambda>_. rounds_from request n)
     (counted n)"
  unfolding begin_dispatch_def
  by (intro triple_and_then [OF quiet_observe] quiet_current triple_and_then [OF quiet_lift])
     (auto intro!: triple_update simp: calm_def rounds_from_def split: prod.split)

lemma rounds_act:
  "triple (calm n Top) (act ports request p deferred) (\<lambda>_. rounds_from request n) (counted n)"
  unfolding act_def
proof (rule quiet_current)
  fix s :: "'a seg"
  assume "calm n Top s"
  then have n: "sg_steps s = n" by (simp add: calm_def)
  have out: "triple (calm n Top) (return_outcome (SegmentOutcome_init v))
      (\<lambda>_. rounds_from request n) (counted n)" if "outcome_steps v = n" for v
    using that by (intro triple_return) (auto simp: calm_def dest: outcome_of_init)
  show "triple (calm n Top)
      (case prop_next_action p of
         TerminalAction msg reason \<Rightarrow> return_outcome
           (SegmentOutcome_init (CompletedOutcome (sg_state s) msg (sg_steps s) reason))
       | BlockedAction reason eff \<Rightarrow> return_outcome
           (SegmentOutcome_init (BlockedOutcome (sg_state s) reason eff (sg_steps s)))
       | SafeYieldAction reason \<Rightarrow> return_outcome
           (SegmentOutcome_init (SafeYieldOutcome (sg_state s) reason (sg_steps s)))
       | ModelGenerationAction r \<Rightarrow> begin_generation ports request r
       | PreparedEffectAction plan APPROVAL_WAIT \<Rightarrow>
           and_then (lift_res (EffectReference_from_plan plan)) (\<lambda>ref. return_outcome
             (SegmentOutcome_init (BlockedOutcome (sg_state s) ''approval_required'' (Some ref)
                (sg_steps s))))
       | PreparedEffectAction plan DISPATCH \<Rightarrow> begin_dispatch ports request p deferred plan)
      (\<lambda>_. rounds_from request n) (counted n)"
    by (auto intro: rounds_begin_generation rounds_begin_dispatch
        intro!: out triple_and_then [OF quiet_lift] simp: n simp del: SegmentOutcome_init.simps
        split: NextAction.split PreparedEffectActionKind.split)
qed

lemma rounds_top_step:
  "triple (calm n Top) (top_step ports request) (\<lambda>_. rounds_from request n) (counted n)"
  unfolding top_step_def Let_def
  by (intro quiet_current triple_and_then [OF quiet_if] triple_and_then [OF quiet_lift]
      triple_and_then [OF quiet_observe] quiet_commit_proposal quiet_go rounds_act)

lemma quiet_abandon_wait: "quiet n ph (abandon_wait ports)"
  by (auto simp: triple_def abandon_wait_def calm_def split: prod.split option.split)

lemma quiet_drain_generate: "quiet n ph (drain_generate ports b)"
  by (auto simp: triple_def drain_generate_def calm_def Let_def split: prod.split option.split)

text \<open>Waiting for the model: the only place the count moves, by one.\<close>

lemma rounds_generated:
  assumes "0 \<le> n" "n < seg_max_rounds request"
  shows "triple (calm n (Generating r g)) (generated r result) (\<lambda>_. rounds_ok request) (counted n)"
  unfolding generated_def
proof (rule quiet_current)
  fix s :: "'a seg"
  assume "calm n (Generating r g) s"
  then have n: "sg_steps s = n" by (simp add: calm_def)
  have mismatch: "triple (calm n (Generating r g))
      (and_then (lift_res fr) (\<lambda>f. return_outcome (SegmentOutcome_init
         (FailedOutcome (Some (sg_state s)) f (sg_steps s)))))
      (\<lambda>_. rounds_ok request) (counted n)" for fr
    by (intro triple_and_then [OF quiet_lift] triple_return)
       (auto simp: n calm_def dest: outcome_of_init simp del: SegmentOutcome_init.simps)
  have again: "triple (calm n (Generating r g))
      (update_seg (\<lambda>s. s\<lparr>sg_steps := sg_steps s + 1, sg_input := ModelGenerationCompleted x,
         sg_phase := Top\<rparr>)) (\<lambda>_. rounds_ok request) (counted n)" for x
    using assms by (intro triple_update) (simp add: calm_def rounds_ok_def)
  show "triple (calm n (Generating r g))
      (case result of
         None \<Rightarrow> raising (RuntimeError ''model adapter returned no result'')
       | Some x \<Rightarrow>
           (if gen_request_id x \<noteq> mreq_request_id r
            then
              and_then (lift_res (FailureReport_init
                \<lparr>fail_code = ''model_request_id_mismatch'',
                 fail_message =
                   ''model result request_id does not match the active model request'',
                 fail_details = dict_of
                   [(''expected_request_id'', PStr (mreq_request_id r)),
                    (''actual_request_id'', PStr (gen_request_id x))]\<rparr>)) (\<lambda>f.
              return_outcome (SegmentOutcome_init
                (FailedOutcome (Some (sg_state s)) f (sg_steps s))))
            else update_seg (\<lambda>s. s\<lparr>sg_steps := sg_steps s + 1,
                                   sg_input := ModelGenerationCompleted x, sg_phase := Top\<rparr>)))
      (\<lambda>_. rounds_ok request) (counted n)"
    using mismatch again
    by (cases result) (auto intro!: triple_raising simp: calm_def simp del: SegmentOutcome_init.simps)
qed

lemma rounds_generate_step:
  assumes "0 \<le> n" "n < seg_max_rounds request"
  shows "triple (calm n (Generating r g)) (generate_step ports r g) (\<lambda>_. rounds_ok request)
     (counted n)"
  unfolding triple_def
proof (intro allI impI)
  fix s0 :: "'a seg"
  assume p: "calm n (Generating r g) s0"
  obtain ev w where race: "port_race ports g (host_world (sg_host s0)) = (ev, w)" by fastforce
  define s where "s = s0\<lparr>sg_host := (sg_host s0)\<lparr>host_world := w\<rparr>\<rparr>"
  have s: "calm n (Generating r g) s" using p by (simp add: s_def calm_def)
  note to = triple_and_then [OF quiet_drain_generate] triple_and_then [OF quiet_abandon_wait]
  have stay: "triple (calm n (Generating r g)) (update_seg f) (\<lambda>_. rounds_ok request) (counted n)"
    if "\<And>s. sg_steps (f s) = sg_steps s \<and> (\<exists>g. sg_phase (f s) = Generating r g \<or> sg_phase (f s) = sg_phase s)"
    for f :: "'a seg \<Rightarrow> 'a seg"
  proof (rule triple_update)
    fix s :: "'a seg"
    assume "calm n (Generating r g) s"
    with that [of s] assms show "rounds_ok request (f s)"
      by (auto simp: calm_def rounds_ok_def)
  qed
  have control: "triple (calm n (Generating r g))
      (and_then (drain_generate ports True) (\<lambda>_.
         case snap_reason c of
           None \<Rightarrow> generated r None
         | Some reason \<Rightarrow>
             and_then current (\<lambda>s. return_outcome (SegmentOutcome_init
               (SafeYieldOutcome (sg_state s) reason (sg_steps s))))))
      (\<lambda>_. rounds_ok request) (counted n)" for c
    by (rule to(1), cases "snap_reason c")
       (auto intro!: rounds_generated assms quiet_current triple_return simp: calm_def
         dest: outcome_of_init simp del: SegmentOutcome_init.simps)
  have result: "triple (calm n (Generating r g))
      (and_then (abandon_wait ports) (\<lambda>_. and_then (lift_res x) (generated r)))
      (\<lambda>_. rounds_ok request) (counted n)" for x
    by (intro to(2) triple_and_then [OF quiet_lift] rounds_generated assms)
  have raise: "triple (calm n (Generating r g))
      (and_then (drain_generate ports False) (\<lambda>_. raising e)) (\<lambda>_ :: unit. rounds_ok request)
      (counted n)" for e
    by (intro to(1) triple_raising) (simp add: calm_def)
  have cancel: "triple (calm n (Generating r g))
      (and_then (abandon_wait ports) (\<lambda>_. and_then (drain_generate ports False) (\<lambda>_. raising e)))
      (\<lambda>_ :: unit. rounds_ok request) (counted n)" for e
    using raise [of e] by (rule to(2))
  show "ends_in (\<lambda>_. rounds_ok request) (counted n) (generate_step ports r g s0)"
  proof (cases ev)
    case (RaceFrame f)
    with race s stay [of "\<lambda>s. s\<lparr>sg_host := snd (emit_frame ports f (sg_host s))\<rparr>"] show ?thesis
      by (simp add: generate_step_def s_def [symmetric] triple_def)
  next
    case (RaceControl c)
    note run = race s RaceControl
    show ?thesis
    proof (cases c)
      case (Inl e)
      with run raise [of e] show ?thesis
        by (simp add: generate_step_def s_def [symmetric] triple_def)
    next
      case (Inr sn)
      with run control [of sn]
        stay [of "\<lambda>s. s\<lparr>sg_phase := Generating r (snap_generation sn)\<rparr>"] show ?thesis
        by (simp add: generate_step_def s_def [symmetric] triple_def
            del: SegmentOutcome_init.simps)
    qed
  qed (use race s result cancel in
         \<open>simp_all add: generate_step_def s_def [symmetric] triple_def\<close>)
qed

lemma quiet_attempt: "quiet n ph (attempt f)"
  by (rule triple_attempt) (simp add: calm_def)

lemma quiet_execution_result: "quiet n ph (execution_result ports permit)"
  unfolding execution_result_def observe_def
proof (intro triple_and_then [OF quiet_perform] triple_if)
  show "quiet n ph (case snap_reason sn of
            None \<Rightarrow> raising (ValueError ''raised control snapshot requires a reason'')
          | Some reason \<Rightarrow>
              lift_res (EffectExecutionResult_init
                (EffectIndeterminateResult ''control_after_dispatch'' reason None)))" for sn
    by (cases "snap_reason sn")
       (auto intro!: quiet_raising quiet_lift simp del: EffectExecutionResult_init.simps)
  have "quiet n ph (case r of
         Inr v \<Rightarrow> go v
       | Inl e \<Rightarrow>
           (if is_exception e
            then lift_res (EffectExecutionResult_init
                   (EffectIndeterminateResult ''effect_executor_error'' (exception_message e) None))
            else
              and_then (update_seg (\<lambda>s. s\<lparr>sg_propagate := True\<rparr>)) (\<lambda>_.
              lift_res (EffectExecutionResult_init
                (EffectIndeterminateResult ''effect_executor_cancelled''
                   ''effect executor cancelled after dispatch'' None)))))" for r
    by (cases r)
       (auto intro!: quiet_go quiet_lift triple_and_then [OF quiet_update]
         simp del: EffectExecutionResult_init.simps)
  then show "quiet n ph (and_then (lift_res (DispatchPermit_claim permit)) (\<lambda>claimed.
       and_then (attempt (host_call (port_execute ports claimed) (EvExecute claimed))) (\<lambda>r.
       case r of
         Inr v \<Rightarrow> go v
       | Inl e \<Rightarrow>
           (if is_exception e
            then lift_res (EffectExecutionResult_init
                   (EffectIndeterminateResult ''effect_executor_error'' (exception_message e) None))
            else
              and_then (update_seg (\<lambda>s. s\<lparr>sg_propagate := True\<rparr>)) (\<lambda>_.
              lift_res (EffectExecutionResult_init
                (EffectIndeterminateResult ''effect_executor_cancelled''
                   ''effect executor cancelled after dispatch'' None))))))) "
    by (intro triple_and_then [OF quiet_lift] triple_and_then [OF quiet_attempt])
qed

lemma rounds_dispatch_authorized:
  "triple (calm n ph) (dispatch_authorized ports request plan p r)
     (\<lambda>_. calm n Top) (counted n)"
  unfolding dispatch_authorized_def
proof (rule quiet_lift_known)
  fix a assume a: "authorized_result r = Inr a"
  have failed: "triple (calm n ph)
      (and_then current (\<lambda>s. return_outcome (with_steps out (sg_steps s) (sg_state s))))
      (\<lambda>_. calm n Top) (counted n)" if "is_failed out" for out
    using that
    by (intro quiet_current triple_return) (auto simp: calm_def with_steps_count)
  show "triple (calm n ph) (case a of
       Inl out \<Rightarrow> and_then current (\<lambda>s. return_outcome (with_steps out (sg_steps s) (sg_state s)))
     | Inr (v, permit, ns) \<Rightarrow>
         and_then (update_seg (\<lambda>s. s\<lparr>sg_state := v\<rparr>)) (\<lambda>_.
         and_then (lift_res (validate_dispatch_permit permit (seg_session_id request)
             (seg_owner_epoch request) plan (prop_transition_id p))) (\<lambda>_.
         and_then (perform (emit_all ports ns)) (\<lambda>_.
         and_then (execution_result ports permit) (\<lambda>outcome.
         and_then (lift_res (effect_settlement plan
             (permit_authorization_transition_id permit) (seg_owner_epoch request) outcome))
           (\<lambda>settlement.
         update_seg (\<lambda>s. s\<lparr>sg_input := EffectSettled settlement, sg_phase := Top\<rparr>)))))))
     (\<lambda>_. calm n Top) (counted n)"
  proof (cases a)
    case (Inl out)
    with a authorized_result_cases(1) failed show ?thesis unfolding Inl sum.case by blast
  next
    case (Inr x)
    obtain v permit ns where x: "x = (v, permit, ns)" by (cases x)
    show ?thesis
      unfolding Inr x sum.case prod.case
      by (intro triple_and_then [OF quiet_update] triple_and_then [OF quiet_lift]
          triple_and_then [OF quiet_perform] triple_and_then [OF quiet_execution_result]
          triple_update) (simp_all add: calm_def)
  qed
qed

lemma rounds_authorize_step:
  "triple (calm n (Authorizing plan p q)) (authorize_step ports request plan p q)
     (\<lambda>_. rounds_from request n) (counted n)"
  unfolding authorize_step_def
proof (rule triple_and_then [OF quiet_perform])
  have stale: "triple (calm n (Authorizing plan p q))
      (and_then (observe_or_yield ports) (\<lambda>snapshot.
         let mcut = max c (snap_generation snapshot) in
         and_then (update_seg (\<lambda>s. s\<lparr>sg_cut := mcut\<rparr>)) (\<lambda>_.
         and_then (lift_res (DispatchAuthorizationRequest_init (q\<lparr>dar_mailbox_cut := mcut\<rparr>)))
           (\<lambda>r. update_seg (\<lambda>s. s\<lparr>sg_phase := Authorizing plan p r\<rparr>)))))
      (\<lambda>_. rounds_from request n) (counted n)" for c
    unfolding Let_def
    by (intro triple_and_then [OF quiet_observe] triple_and_then [OF quiet_update]
        triple_and_then [OF quiet_lift] triple_update) (simp_all add: calm_def rounds_from_def)
  have rest: "triple (calm n (Authorizing plan p q)) (dispatch_authorized ports request plan p r)
      (\<lambda>_. rounds_from request n) (counted n)" for r
    by (rule triple_weaken [OF rounds_dispatch_authorized]) (auto simp: calm_def rounds_from_def)
  show "triple (calm n (Authorizing plan p q))
      (case r of
         StaleMailboxCutCommitResult e c \<Rightarrow>
           and_then (observe_or_yield ports) (\<lambda>snapshot.
           let mcut = max c (snap_generation snapshot) in
           and_then (update_seg (\<lambda>s. s\<lparr>sg_cut := mcut\<rparr>)) (\<lambda>_.
           and_then (lift_res (DispatchAuthorizationRequest_init (q\<lparr>dar_mailbox_cut := mcut\<rparr>)))
             (\<lambda>r. update_seg (\<lambda>s. s\<lparr>sg_phase := Authorizing plan p r\<rparr>))))
       | _ \<Rightarrow> dispatch_authorized ports request plan p r)
      (\<lambda>_. rounds_from request n) (counted n)" for r
    using stale rest by (cases r) simp_all
qed

lemma rounds_step:
  assumes "rounds_ok request s"
  shows "ends_in (\<lambda>_. rounds_ok request) (counted (sg_steps s))
     ((case sg_phase s of
         Top \<Rightarrow> top_step ports request
       | Generating r g \<Rightarrow> generate_step ports r g
       | Authorizing plan p r \<Rightarrow> authorize_step ports request plan p r) s)"
proof -
  have bounds: "0 \<le> sg_steps s" "sg_steps s \<le> seg_max_rounds request"
    using assms by (auto simp: rounds_ok_def)
  have up: "rounds_ok request t" if "rounds_from request (sg_steps s) t" for t :: "'a seg"
    using that bounds by (cases "sg_phase t") (simp_all add: rounds_from_def rounds_ok_def)
  have calm: "calm (sg_steps s) (sg_phase s) s" by (simp add: calm_def)
  show ?thesis
  proof (cases "sg_phase s")
    case Top
    have "ends_in (\<lambda>_. rounds_from request (sg_steps s)) (counted (sg_steps s)) (top_step ports request s)"
      using rounds_top_step [of "sg_steps s" ports request] calm Top by (simp add: triple_def)
    then show ?thesis unfolding Top phase.case by (rule ends_in_mono) (simp_all add: up)
  next
    case (Generating r g)
    then have "sg_steps s < seg_max_rounds request" using assms by (simp add: rounds_ok_def)
    then show ?thesis
      using rounds_generate_step [OF bounds(1), of request r g ports] calm Generating
      by (simp add: triple_def)
  next
    case (Authorizing plan p q)
    have "ends_in (\<lambda>_. rounds_from request (sg_steps s)) (counted (sg_steps s))
        (authorize_step ports request plan p q s)"
      using rounds_authorize_step [of "sg_steps s" plan p q ports request] calm Authorizing
      by (simp add: triple_def)
    then show ?thesis unfolding Authorizing phase.case by (rule ends_in_mono) (simp_all add: up)
  qed
qed

text \<open>A run reports a number of rounds within the limit.\<close>

definition rounds_end :: "RunSegmentRequest \<Rightarrow> SegmentOutcome res \<times> 'w seg \<Rightarrow> bool" where
  "rounds_end request r \<longleftrightarrow>
     (case fst r of Inl _ \<Rightarrow> True
      | Inr out \<Rightarrow> 0 \<le> outcome_steps out \<and> outcome_steps out \<le> seg_max_rounds request
                   \<and> outcome_steps out = sg_steps (snd r))"

lemma coordinator_error_steps: "coordinator_error e s = Inr out \<Longrightarrow> outcome_steps out = sg_steps s"
  by (auto simp: coordinator_error_def bind_res_eq_Inr dest: outcome_of_init
      simp del: SegmentOutcome_init.simps)

interpretation rounds: step_invariant "seg_step ports request" "rounds_ok request"
    "rounds_end request"
  for ports :: "'w ports" and request
proof
  fix s s' :: "'w seg" and r
  assume p: "rounds_ok request s"
  then have bounds: "0 \<le> sg_steps s" "sg_steps s \<le> seg_max_rounds request"
    by (auto simp: rounds_ok_def)
  let ?run = "(case sg_phase s of
         Top \<Rightarrow> top_step ports request
       | Generating r g \<Rightarrow> generate_step ports r g
       | Authorizing plan p r \<Rightarrow> authorize_step ports request plan p r) s"
  obtain c s1 where run: "?run = (c, s1)" by fastforce
  note step = rounds_step [OF p, of ports, unfolded run]
  show "seg_step ports request s = Inl s' \<Longrightarrow> rounds_ok request s'"
    using step bounds unfolding seg_step_def run by (cases c) (auto simp: rounds_ok_def)
  show "seg_step ports request s = Inr r \<Longrightarrow> rounds_end request r"
    using step bounds coordinator_error_steps [of _ s1] unfolding seg_step_def run
    by (cases c) (auto simp: rounds_end_def split: sum.splits if_splits)
qed

end
