(* ===== verification/Engine_Props.thy ===== *)
theory Engine_Props
  imports Engine
begin

text \<open>
  What the engine guarantees: the codecs of commands and effect plans, the well-formedness
  invariant of the runtime state, and the facts about each of the four proposals that the
  properties of the root theory and the coordinator rest on.
\<close>

section \<open>Codecs\<close>

text \<open>
  The interface every stored value shares: an encoder, a validating decoder, and the values the
  constructors accept. The provider promises that a constructed value survives a round trip
  and that whatever decodes was constructed; the lists the engine stores then round-trip too.
\<close>

locale value_codec =
  fixes enc :: "'a \<Rightarrow> pyval"
    and dec :: "pyval \<Rightarrow> 'a res"
    and ok :: "'a \<Rightarrow> bool"
  assumes dec_enc: "ok x \<Longrightarrow> dec (enc x) = Inr x"
    and dec_ok: "dec v = Inr x \<Longrightarrow> ok x"
begin

lemma list_roundtrip: "list_all ok xs \<Longrightarrow> traverse_res dec (map enc xs) = Inr xs"
  by (induction xs) (auto simp: dec_enc)

lemma list_ok: "traverse_res dec vs = Inr xs \<Longrightarrow> list_all ok xs"
  by (induction vs arbitrary: xs) (auto simp: res_simps dec_ok)

lemma normal_form: "traverse_res dec vs = Inr xs \<Longrightarrow> traverse_res dec (map enc xs) = Inr xs"
  by (rule list_roundtrip) (rule list_ok)

lemma enc_inject: "ok x \<Longrightarrow> ok y \<Longrightarrow> enc x = enc y \<Longrightarrow> x = y"
  by (metis dec_enc sum.inject(2))

end

text \<open>A codec whose encodings are frozen values, so that the engine state stays frozen.\<close>

locale frozen_codec = value_codec +
  assumes enc_frozen: "ok x \<Longrightarrow> frozen (enc x)"
begin

lemma list_frozen: "list_all ok xs \<Longrightarrow> frozen (PTuple (map enc xs))"
  by (induction xs) (auto simp: enc_frozen)

end

definition command_ok :: "RuntimeCommand \<Rightarrow> bool" where
  "command_ok c \<longleftrightarrow>
     cmd_command_id c \<noteq> [] \<and> cmd_command_kind c \<noteq> [] \<and> frozen_dict (cmd_payload c)"

lemma RuntimeCommand_init_ok [init_dests]: "RuntimeCommand_init c = Inr d \<Longrightarrow> command_ok d"
  by (auto simp: RuntimeCommand_init_def command_ok_def res_simps dest: freeze_mapping_frozen)

lemma RuntimeCommand_init_id: "command_ok c \<Longrightarrow> RuntimeCommand_init c = Inr c"
  by (simp add: RuntimeCommand_init_def command_ok_def)

interpretation command_codec: frozen_codec command_value command_of_value command_ok
proof
  fix x v
  show "command_ok x \<Longrightarrow> command_of_value (command_value x) = Inr x"
    using RuntimeCommand_init_id [of x]
    by (cases x) (simp add: command_of_value_def command_value_def dict_get_def dict_get_or_def)
  show "command_of_value v = Inr x \<Longrightarrow> command_ok x"
    by (auto simp: command_of_value_def res_simps init_dests split: option.splits)
  show "command_ok x \<Longrightarrow> frozen (command_value x)"
    by (simp add: command_ok_def command_value_def)
qed

interpretation plan_codec: frozen_codec effect_plan_value effect_plan_of_value plan_ok
proof
  fix x v
  show "plan_ok x \<Longrightarrow> effect_plan_of_value (effect_plan_value x) = Inr x"
    by (cases "plan_idempotency_key x"; cases "plan_approval_request_id x")
       (simp_all add: effect_plan_of_value_def effect_plan_value_def required_string_def
         optional_string_def required_bool_def dict_get_def dict_get_or_def plan_ok_def
         EffectPlan_init_id approval_pair_ok_def split: if_splits)
  show "effect_plan_of_value v = Inr x \<Longrightarrow> plan_ok x"
    by (auto simp: effect_plan_of_value_def res_simps init_dests split: option.splits)
  show "plan_ok x \<Longrightarrow> frozen (effect_plan_value x)"
    by (simp add: plan_ok_def effect_plan_value_def)
qed

section \<open>Reading what was written\<close>

lemma runtime_key_neq [simp]: "runtime_key \<noteq> ''context''" "''context'' \<noteq> runtime_key"
  by (simp_all add: runtime_key_def)

lemma dict_get_with_runtime [simp]:
  "dict_get (with_runtime_state v rt) runtime_key = PDict rt"
  "k \<noteq> runtime_key \<Longrightarrow> dict_find (with_runtime_state v rt) k = dict_find v k"
  by (simp_all add: with_runtime_state_def)

lemma runtime_state_with [simp]: "runtime_state (with_runtime_state v rt) = Inr rt"
  by (simp add: runtime_state_def)

text \<open>The context test of the conversation helpers.\<close>

definition context_ok :: "dict \<Rightarrow> bool" where
  "context_ok v \<longleftrightarrow>
     (case as_dict (dict_get_or v ''context'' (PDict [])) of
        None \<Rightarrow> False
      | Some c \<Rightarrow>
          (case as_seq (dict_get_or c ''messages'' (PTuple [])) of
             None \<Rightarrow> False
           | Some ms \<Rightarrow> list_all is_dict ms))"

lemma context_ok_with [simp]: "context_ok (with_runtime_state v rt) = context_ok v"
  by (simp add: context_ok_def dict_get_or_def)

lemma append_total: "context_ok v \<Longrightarrow> is_ok (append_conversation_messages v ms)"
  by (auto simp: context_ok_def append_conversation_messages_def list_all_iff list_ex_iff
           split: option.splits)

text \<open>Appending messages touches nothing but the context and keeps it well-formed.\<close>

lemma append_frame:
  assumes "append_conversation_messages v ms = Inr w" and "k \<noteq> ''context''"
  shows "dict_find w k = dict_find v k"
  using assms
  by (auto simp: append_conversation_messages_def split: option.splits if_splits)

lemma append_runtime:
  assumes "append_conversation_messages v ms = Inr w"
  shows "runtime_state w = runtime_state v" "dict_get w runtime_key = dict_get v runtime_key"
  using append_frame [OF assms, of runtime_key] by (simp_all add: runtime_state_def dict_get_def)

lemma append_context_ok:
  assumes "append_conversation_messages v ms = Inr w" and "list_all is_dict ms"
  shows "context_ok w"
  using assms
  by (auto simp: append_conversation_messages_def context_ok_def dict_get_or_def list_all_iff
      list_ex_iff split: option.splits if_splits)

lemma frozen_seq_append [simp]: "frozen_seq (xs @ ys) \<longleftrightarrow> frozen_seq xs \<and> frozen_seq ys"
  by (induction xs) auto

lemma append_frozen:
  assumes "append_conversation_messages v ms = Inr w" and "frozen_dict v"
    and "list_all frozen ms"
  shows "frozen_dict w"
proof -
  obtain c msgs where c: "dict_get_or v ''context'' (PDict []) = PDict c"
    and m: "as_seq (dict_get_or c ''messages'' (PTuple [])) = Some msgs"
    and w: "w = dict_set ''context'' (PDict (dict_set ''messages'' (PTuple (msgs @ ms)) c)) v"
    using assms(1) by (auto simp: append_conversation_messages_def split: option.splits if_splits)
  have fc: "frozen_dict c"
    using c assms(2) frozen_find [OF assms(2), of "''context''"]
    by (auto simp: dict_get_or_def split: option.splits)
  have "frozen (dict_get_or c ''messages'' (PTuple []))"
    using frozen_find [OF fc] by (auto simp: dict_get_or_def split: option.splits)
  with m have "frozen_seq msgs" by (auto simp: as_seq_Some)
  with fc w assms(2,3) show ?thesis by (simp add: frozen_seq_all)
qed

lemma with_runtime_frozen:
  "frozen_dict v \<Longrightarrow> frozen_dict rt \<Longrightarrow> frozen_dict (with_runtime_state v rt)"
  by (simp add: with_runtime_state_def)

lemma runtime_state_frozen: "frozen_dict v \<Longrightarrow> runtime_state v = Inr rt \<Longrightarrow> frozen_dict rt"
  using frozen_get [of v runtime_key]
  by (auto simp: runtime_state_def default_runtime_state_def Let_def split: if_splits option.splits)

section \<open>Proposals\<close>

lemma TransitionProposal_init_id:
  assumes "frozen_dict (prop_state_value p)" and "TransitionProposal_init p = Inr q"
  shows "q = p"
  using assms by (auto simp: TransitionProposal_init_def res_simps)

lemma TransitionProposal_init_total:
  assumes "frozen_dict (prop_state_value p)" and "prop_transition_id p \<noteq> []"
    and "distinct (map disp_command_id (prop_dispositions p))"
    and "distinct (map plan_effect_id (prop_effect_plans p))"
    and "\<And>plan k. prop_next_action p = PreparedEffectAction plan k \<Longrightarrow> prop_effect_plans p \<noteq> []
           \<Longrightarrow> plan_effect_id plan \<in> set (map plan_effect_id (prop_effect_plans p))"
  shows "TransitionProposal_init p = Inr p"
  using assms
  by (cases "prop_effect_plans p = []"; cases "prop_next_action p")
     (auto simp: TransitionProposal_init_def intro!: checks_pass)

lemma TransitionProposal_init_plain:
  assumes "frozen_dict (prop_state_value p)" and "prop_transition_id p \<noteq> []"
    and "distinct (map disp_command_id (prop_dispositions p))" and "prop_effect_plans p = []"
  shows "TransitionProposal_init p = Inr p"
  by (rule TransitionProposal_init_total) (use assms in auto)

lemma NextAction_init_Inr [simp]: "NextAction_init a = Inr b \<Longrightarrow> b = a"
  by (cases a) (auto simp: res_simps)

lemma prepared_action_eq:
  "prepared_action plan =
     Inr (PreparedEffectAction plan (if plan_requires_approval plan then APPROVAL_WAIT else DISPATCH))"
  by (simp add: prepared_action_def fails_when_def)

lemma transition_id_nonempty [simp]: "transition_id_of r \<noteq> []"
  by (simp add: transition_id_of_def)

section \<open>The plans of a completion\<close>

lemma PendingFact_init_total:
  assumes "pf_fact_id f \<noteq> []" and "pf_fact_kind f \<noteq> []" and "frozen_dict (pf_payload f)"
  shows "PendingFact_init f = Inr f"
  using assms by (simp add: PendingFact_init_def)

lemma pending_fact_total:
  assumes "i \<noteq> []" and "k \<noteq> []" and "list_all (\<lambda>(k, v). frozen v) kvs"
  shows "pending_fact i k kvs =
           Inr \<lparr>pf_fact_id = i, pf_fact_kind = k, pf_payload = dict_of kvs\<rparr>"
  using assms by (simp add: pending_fact_def PendingFact_init_total)

definition call_plan :: "string \<Rightarrow> nat \<Rightarrow> ModelToolCall \<Rightarrow> EffectPlan" where
  "call_plan tid i call =
     \<lparr>plan_effect_id = effect_id_of tid i,
      plan_attempt_id = effect_id_of tid i @ '':attempt:1'',
      plan_effect_kind = ''tool'',
      plan_payload = dict_of
        [(''tool_call_id'', PStr (call_tool_call_id call)),
         (''tool_name'', PStr (call_name call)),
         (''arguments'', PDict (call_arguments call))],
      plan_idempotency_key = call_idempotency_key call,
      plan_requires_approval = call_requires_approval call,
      plan_approval_request_id = call_approval_request_id call\<rparr>"

lemma effect_id_nonempty [simp]: "effect_id_of tid i \<noteq> []"
  by (simp add: effect_id_of_def)

lemma effect_id_inject [simp]: "effect_id_of tid i = effect_id_of tid j \<longleftrightarrow> i = j"
  by (simp add: effect_id_of_def)

lemma call_plan_ok: "call_ok call \<Longrightarrow> plan_ok (call_plan tid i call)"
  by (simp add: call_ok_def plan_ok_def call_plan_def)

lemma plan_of_call_eq: "call_ok call \<Longrightarrow> plan_of_call tid i call = Inr (call_plan tid i call)"
  using call_plan_ok [of call tid i]
  by (simp add: plan_of_call_def EffectPlan_init_id call_plan_def)

lemma call_plan_sel [simp]:
  "plan_effect_id (call_plan tid i call) = effect_id_of tid i"
  "plan_requires_approval (call_plan tid i call) = call_requires_approval call"
  by (simp_all add: call_plan_def)

fun indexed_plans :: "string \<Rightarrow> nat \<Rightarrow> ModelToolCall list \<Rightarrow> EffectPlan list" where
  "indexed_plans tid i [] = []"
| "indexed_plans tid i (c # cs) = call_plan tid i c # indexed_plans tid (Suc i) cs"

lemma length_indexed_plans [simp]: "length (indexed_plans tid i cs) = length cs"
  by (induction cs arbitrary: i) auto

lemma nth_indexed_plans:
  "j < length cs \<Longrightarrow> indexed_plans tid i cs ! j = call_plan tid (i + j) (cs ! j)"
  by (induction cs arbitrary: i j) (auto simp: nth_Cons split: nat.splits)

lemma indexed_plans_ids: "map plan_effect_id (indexed_plans tid i cs)
    = map (effect_id_of tid) [i ..< i + length cs]"
proof (induction cs arbitrary: i)
  case (Cons c cs)
  have "[i ..< i + length (c # cs)] = i # [Suc i ..< Suc i + length cs]"
    by (simp add: upt_rec)
  with Cons show ?case by simp
qed simp

lemma indexed_plans_distinct: "distinct (map plan_effect_id (indexed_plans tid i cs))"
  by (simp add: indexed_plans_ids distinct_map inj_on_def)

lemma indexed_plans_ok: "list_all call_ok cs \<Longrightarrow> list_all plan_ok (indexed_plans tid i cs)"
  by (induction cs arbitrary: i) (auto simp: call_plan_ok)

text \<open>The loop of \<open>_propose_model_completion\<close> never fails on constructed tool calls.\<close>

lemma plans_and_facts_eq:
  "list_all call_ok cs \<Longrightarrow>
     \<exists>facts. plans_and_facts tid i cs = Inr (indexed_plans tid i cs, facts)"
proof (induction cs arbitrary: i)
  case (Cons c cs)
  then obtain facts where "plans_and_facts tid (Suc i) cs = Inr (indexed_plans tid (Suc i) cs, facts)"
    by fastforce
  moreover from Cons.prems have "plan_of_call tid i c = Inr (call_plan tid i c)"
    by (simp add: plan_of_call_eq)
  moreover from Cons.prems have "frozen_dict (call_arguments c)"
    by (simp add: call_ok_def)
  ultimately show ?case
    by (simp add: tool_call_fact_def approval_request_fact_def pending_fact_total)
qed simp

end
