(* ===== verification/Engine_Laws.thy ===== *)
theory Engine_Laws
  imports Engine_Props
begin

text \<open>
  The engine's proposals as equations and the invariant they keep. \<open>engine_ok\<close> is the shape of
  a committed state value the engine can always continue from; every proposal keeps it, and on
  a state of that shape a proposal fails only where the code means to refuse the input.
\<close>

section \<open>The invariant\<close>

text \<open>A stored plan carries the identity of the tool call it came from.\<close>

definition tool_plan :: "EffectPlan \<Rightarrow> bool" where
  "tool_plan p \<longleftrightarrow>
     plan_ok p \<and> as_nonempty_str (dict_get (plan_payload p) ''tool_call_id'') \<noteq> None
     \<and> as_nonempty_str (dict_get (plan_payload p) ''tool_name'') \<noteq> None"

definition pending_is :: "dict \<Rightarrow> EffectPlan list \<Rightarrow> bool" where
  "pending_is rt ps \<longleftrightarrow>
     pending_effect_plans rt = Inr ps \<and> list_all tool_plan ps \<and> distinct (map plan_effect_id ps)"

definition commands_ok :: "dict \<Rightarrow> bool" where
  "commands_ok rt \<longleftrightarrow> (\<exists>cs. commands_of rt = Inr cs \<and> distinct (map cmd_command_id cs))"

definition markers_ok :: "dict \<Rightarrow> bool" where
  "markers_ok rt \<longleftrightarrow>
     list_all (\<lambda>k. is_ok (marker_mapping rt k))
       [''active_effect_authorization'', ''unknown_effect'', ''reconciled_effect'']"

definition runtime_ok :: "dict \<Rightarrow> bool" where
  "runtime_ok rt \<longleftrightarrow>
     is_ok (runtime_int rt ''round_index'') \<and> commands_ok rt \<and> (\<exists>ps. pending_is rt ps)
     \<and> markers_ok rt"

definition engine_ok :: "dict \<Rightarrow> bool" where
  "engine_ok v \<longleftrightarrow>
     frozen_dict v \<and> context_ok v \<and> (\<exists>rt. runtime_state v = Inr rt \<and> runtime_ok rt)"

lemma tool_planD: "tool_plan p \<Longrightarrow> plan_ok p"
  by (simp add: tool_plan_def)

lemma tool_plans_ok: "list_all tool_plan ps \<Longrightarrow> list_all plan_ok ps"
  by (simp add: list_all_iff tool_plan_def)

lemma marker_mapping_cong:
  "dict_find rt k = dict_find rt' k \<Longrightarrow> marker_mapping rt k = marker_mapping rt' k"
  by (simp add: marker_mapping_def dict_get_def)

lemma runtime_readers_cong:
  assumes "\<And>k. k \<in> {''round_index'', ''commands'', ''pending_effect_plans'',
      ''active_effect_authorization'', ''unknown_effect'', ''reconciled_effect''}
      \<Longrightarrow> dict_find rt k = dict_find rt' k"
  shows "runtime_ok rt = runtime_ok rt'"
  using assms
  by (simp add: runtime_ok_def runtime_int_def commands_ok_def commands_of_def pending_is_def
      pending_effect_plans_def markers_ok_def marker_mapping_def dict_get_def dict_get_or_def)

text \<open>Storing a list of well-formed plans makes it the pending list.\<close>

lemma pending_set [simp]:
  "list_all plan_ok ps \<Longrightarrow>
     pending_effect_plans (dict_set ''pending_effect_plans''
       (PTuple (map effect_plan_value ps)) rt) = Inr ps"
  by (simp add: pending_effect_plans_def plan_codec.list_roundtrip)

lemma pending_frame [simp]:
  "k \<noteq> ''pending_effect_plans'' \<Longrightarrow>
     pending_effect_plans (dict_set k v rt) = pending_effect_plans rt"
  "k \<noteq> ''pending_effect_plans'' \<Longrightarrow>
     pending_effect_plans (dict_pop k rt) = pending_effect_plans rt"
  by (simp_all add: pending_effect_plans_def)

lemma commands_frame [simp]:
  "k \<noteq> ''commands'' \<Longrightarrow> commands_of (dict_set k v rt) = commands_of rt"
  "k \<noteq> ''commands'' \<Longrightarrow> commands_of (dict_pop k rt) = commands_of rt"
  by (simp_all add: commands_of_def)

lemma runtime_int_frame [simp]:
  "k \<noteq> j \<Longrightarrow> runtime_int (dict_set k v rt) j = runtime_int rt j"
  "k \<noteq> j \<Longrightarrow> runtime_int (dict_pop k rt) j = runtime_int rt j"
  by (auto simp: runtime_int_def)

lemma runtime_int_set [simp]: "0 \<le> i \<Longrightarrow> runtime_int (dict_set j (PInt i) rt) j = Inr i"
  by (simp add: runtime_int_def)

lemma runtime_int_Inr: "runtime_int rt k = Inr i \<Longrightarrow> 0 \<le> i"
  by (auto simp: runtime_int_def split: option.splits if_splits)

lemma marker_frame [simp]:
  "k \<noteq> j \<Longrightarrow> marker_mapping (dict_set k v rt) j = marker_mapping rt j"
  "k \<noteq> j \<Longrightarrow> marker_mapping (dict_pop k rt) j = marker_mapping rt j"
  by (auto simp: marker_mapping_def)

lemma marker_set [simp]: "marker_mapping (dict_set j (PDict m) rt) j = Inr (Some m)"
  by (simp add: marker_mapping_def)

lemma marker_pop [simp]: "marker_mapping (dict_pop j rt) j = Inr None"
  by (simp add: marker_mapping_def)

lemma pending_is_set:
  "list_all tool_plan ps \<Longrightarrow> distinct (map plan_effect_id ps) \<Longrightarrow>
     pending_is (dict_set ''pending_effect_plans'' (PTuple (map effect_plan_value ps)) rt) ps"
  by (simp add: pending_is_def tool_plans_ok)

lemma pending_is_frame [simp]:
  "k \<noteq> ''pending_effect_plans'' \<Longrightarrow> pending_is (dict_set k v rt) ps = pending_is rt ps"
  "k \<noteq> ''pending_effect_plans'' \<Longrightarrow> pending_is (dict_pop k rt) ps = pending_is rt ps"
  by (simp_all add: pending_is_def)

lemma pending_is_unique: "pending_is rt ps \<Longrightarrow> pending_effect_plans rt = Inr qs \<Longrightarrow> qs = ps"
  by (simp add: pending_is_def)

lemma engine_okE:
  assumes "engine_ok v"
  obtains rt ps r cs where "frozen_dict v" "context_ok v" "runtime_state v = Inr rt"
    "frozen_dict rt" "pending_is rt ps" "runtime_int rt ''round_index'' = Inr r" "0 \<le> r"
    "commands_of rt = Inr cs" "distinct (map cmd_command_id cs)" "markers_ok rt"
  using assms runtime_state_frozen runtime_int_Inr
  unfolding engine_ok_def runtime_ok_def commands_ok_def is_ok_iff by metis

lemma engine_ok_with:
  "engine_ok (with_runtime_state v rt)
     \<longleftrightarrow> frozen_dict (with_runtime_state v rt) \<and> context_ok v \<and> runtime_ok rt"
  by (simp add: engine_ok_def)

section \<open>Activating a model request\<close>

definition request_for :: "string \<Rightarrow> int \<Rightarrow> RuntimeCommand list \<Rightarrow> dict \<Rightarrow> ModelRequest" where
  "request_for run_id r cs v =
     \<lparr>mreq_request_id = run_id @ '':model:'' @ str_of_int (r + 1), mreq_run_id = run_id,
      mreq_round_index = r + 1, mreq_commands = cs,
      mreq_context = (case as_dict (dict_get_or v ''context'' (PDict [])) of
                        None \<Rightarrow> [] | Some c \<Rightarrow> c)\<rparr>"

lemma model_request_eq:
  assumes "run_id \<noteq> []" "frozen_dict v" "context_ok v" "runtime_state v = Inr rt"
    and "runtime_int rt ''round_index'' = Inr r"
    and "commands_of rt = Inr cs" "distinct (map cmd_command_id cs)"
  shows "model_request run_id v = Inr (request_for run_id r cs v)"
proof -
  obtain c where c: "dict_get_or v ''context'' (PDict []) = PDict c"
    using assms(3) by (auto simp: context_ok_def split: option.splits)
  have "frozen_dict c"
    using c frozen_find [OF assms(2), of "''context''"]
    by (auto simp: dict_get_or_def split: option.splits)
  with c assms runtime_int_Inr [OF assms(5)] show ?thesis
    by (simp add: model_request_def ModelRequest_init_def request_for_def require_non_empty_def
        require_positive_int_def require_non_negative_int_def fails_when_def)
qed

lemma activate_model_request_eq:
  assumes "run_id \<noteq> []" "frozen_dict v" "context_ok v" "runtime_state v = Inr rt"
    and "runtime_int rt ''round_index'' = Inr r"
    and "commands_of rt = Inr cs" "distinct (map cmd_command_id cs)"
  shows "activate_model_request run_id v =
      Inr (with_runtime_state v (dict_set ''active_model_request_id''
             (PStr (run_id @ '':model:'' @ str_of_int (r + 1))) rt), request_for run_id r cs v)"
  using assms(4) by (simp add: activate_model_request_def model_request_eq [OF assms] request_for_def)

section \<open>The initial proposal\<close>

text \<open>The runtime state a run starts with.\<close>

definition initial_runtime :: "Initial \<Rightarrow> dict" where
  "initial_runtime i =
     dict_of [(''round_index'', PInt 0), (''mailbox_cut'', PInt (init_mailbox_cut i)),
              (''commands'', PTuple (map command_value (init_command_batch i))),
              (''pending_effect_plans'', PTuple [])]"

lemma initial_runtime_readers:
  assumes "list_all command_ok (init_command_batch i)"
  shows "commands_of (initial_runtime i) = Inr (init_command_batch i)"
    and "runtime_int (initial_runtime i) ''round_index'' = Inr 0"
    and "pending_is (initial_runtime i) []"
    and "markers_ok (initial_runtime i)"
    and "frozen_dict (initial_runtime i)"
  using assms command_codec.list_frozen [OF assms]
  by (simp_all add: initial_runtime_def commands_of_def runtime_int_def pending_is_def
      pending_effect_plans_def markers_ok_def marker_mapping_def dict_get_def dict_get_or_def
      command_codec.list_roundtrip)

lemma propose_initial_eq:
  assumes "osv_run_id (esr_state_version request) \<noteq> []"
    and v: "frozen_dict (osv_value (esr_state_version request))"
      "context_ok (osv_value (esr_state_version request))"
    and batch: "list_all command_ok (init_command_batch i)"
      "distinct (map cmd_command_id (init_command_batch i))"
  shows "propose_initial request i = Inr
      \<lparr>prop_transition_id = transition_id_of request,
       prop_state_value =
         with_runtime_state (with_runtime_state (osv_value (esr_state_version request))
             (initial_runtime i))
           (dict_set ''active_model_request_id''
              (PStr (osv_run_id (esr_state_version request) @ '':model:1'')) (initial_runtime i)),
       prop_next_action = ModelGenerationAction
         (request_for (osv_run_id (esr_state_version request)) 0 (init_command_batch i)
            (with_runtime_state (osv_value (esr_state_version request)) (initial_runtime i))),
       prop_pending_facts = [], prop_dispositions = [], prop_effect_plans = []\<rparr>"
proof -
  let ?w = "with_runtime_state (osv_value (esr_state_version request)) (initial_runtime i)"
  note rd = initial_runtime_readers [OF batch(1)]
  have frozen: "frozen_dict ?w"
    using v(1) rd(5) by (rule with_runtime_frozen)
  have one: "str_of_int 1 = ''1''"
    by code_simp
  have "activate_model_request (osv_run_id (esr_state_version request)) ?w = Inr
      (with_runtime_state ?w (dict_set ''active_model_request_id''
         (PStr (osv_run_id (esr_state_version request) @ '':model:1'')) (initial_runtime i)),
       request_for (osv_run_id (esr_state_version request)) 0 (init_command_batch i) ?w)"
    using activate_model_request_eq [OF assms(1) frozen _ _ rd(2) rd(1) batch(2)] v(2)
    by (simp add: one)
  moreover have "frozen_dict (with_runtime_state ?w (dict_set ''active_model_request_id''
         (PStr (osv_run_id (esr_state_version request) @ '':model:1'')) (initial_runtime i)))"
    using frozen rd(5) by (simp add: with_runtime_frozen)
  ultimately show ?thesis
    by (simp add: propose_initial_def initial_runtime_def [symmetric] TransitionProposal_init_plain Let_def)
qed

section \<open>The proposal of a model completion\<close>

text \<open>The runtime state after a completion, and the action that follows.\<close>

definition completed_runtime ::
    "dict \<Rightarrow> int \<Rightarrow> EffectPlan list \<Rightarrow> ModelGenerationResult \<Rightarrow> dict" where
  "completed_runtime rt r plans result =
     dict_set ''last_assistant_content'' (PStr (gen_assistant_content result))
       (dict_set ''pending_effect_plans'' (PTuple (map effect_plan_value plans))
         (dict_set ''round_index'' (PInt (r + 1))
           (dict_pop ''active_model_request_id'' rt)))"

definition action_of_plan :: "EffectPlan \<Rightarrow> NextAction" where
  "action_of_plan plan =
     PreparedEffectAction plan (if plan_requires_approval plan then APPROVAL_WAIT else DISPATCH)"

definition action_after :: "EffectPlan list \<Rightarrow> NextAction \<Rightarrow> NextAction" where
  "action_after plans otherwise = (case plans of [] \<Rightarrow> otherwise | p # _ \<Rightarrow> action_of_plan p)"

lemma action_after_simps [simp]:
  "action_after [] a = a"
  "action_after (p # ps) a = action_of_plan p"
  by (simp_all add: action_after_def)

lemma prepared_action_of_plan [simp]: "prepared_action plan = Inr (action_of_plan plan)"
  by (simp add: prepared_action_eq action_of_plan_def)

lemma call_plan_tool: "call_ok call \<Longrightarrow> tool_plan (call_plan tid i call)"
  using call_plan_ok [of call tid i]
  by (simp add: tool_plan_def call_plan_def dict_get_def call_ok_def)

lemma indexed_plans_tool: "list_all call_ok cs \<Longrightarrow> list_all tool_plan (indexed_plans tid i cs)"
  by (induction cs arbitrary: i) (auto simp: call_plan_tool)

lemma head_facts_total: "\<exists>fs. completion_head_facts tid result = Inr fs"
  by (cases "gen_finalized_thinking result")
     (simp_all add: completion_head_facts_def pending_fact_total)

lemma assistant_message_frozen:
  "list_all call_ok (gen_tool_calls result) \<Longrightarrow> frozen (assistant_message result)"
  by (auto simp: assistant_message_def frozen_seq_all list_all_iff call_ok_def)

lemma completed_runtime_frozen:
  "frozen_dict rt \<Longrightarrow> list_all plan_ok plans \<Longrightarrow> frozen_dict (completed_runtime rt r plans result)"
  using plan_codec.list_frozen [of plans] by (simp add: completed_runtime_def)

text \<open>
  On a well-formed state a completion of the active request is always accepted, and its
  proposal is this one: one plan per tool call in call order, the same list stored and
  prepared, and the first plan as the next action.
\<close>

lemma propose_model_completion_eq:
  assumes ok: "engine_ok (osv_value sv)"
    and rt: "runtime_state (osv_value sv) = Inr rt"
    and active: "dict_get rt ''active_model_request_id'' = PStr (gen_request_id result)"
    and gen: "gen_ok result"
    and request: "request = \<lparr>esr_state_version = sv, esr_step_input = inp\<rparr>"
    and plans: "plans = indexed_plans (transition_id_of request) 0 (gen_tool_calls result)"
  shows "\<exists>p r. propose_model_completion request result = Inr p
      \<and> runtime_int rt ''round_index'' = Inr r
      \<and> prop_transition_id p = transition_id_of request
      \<and> prop_effect_plans p = plans
      \<and> runtime_state (prop_state_value p) = Inr (completed_runtime rt r plans result)
      \<and> prop_next_action p = action_after plans
            (TerminalAction (Some (gen_assistant_content result)) ''no_tool_calls'')
      \<and> prop_dispositions p = []
      \<and> frozen_dict (prop_state_value p) \<and> context_ok (prop_state_value p)"
proof -
  let ?tid = "transition_id_of request"
  obtain ps r cs where st: "frozen_dict (osv_value sv)" "context_ok (osv_value sv)"
      "frozen_dict rt" "pending_is rt ps" "runtime_int rt ''round_index'' = Inr r" "0 \<le> r"
      "commands_of rt = Inr cs"
    using engine_okE [OF ok] rt by (metis sum.inject(2))
  have calls: "list_all call_ok (gen_tool_calls result)"
    using gen by (simp add: gen_ok_def)
  let ?rt = "completed_runtime rt r plans result"
  obtain heads where heads: "completion_head_facts ?tid result = Inr heads"
    using head_facts_total by blast
  obtain facts where facts: "plans_and_facts ?tid 0 (gen_tool_calls result) = Inr (plans, facts)"
    using plans_and_facts_eq [OF calls] unfolding plans by blast
  have plans_ok: "list_all plan_ok plans" "distinct (map plan_effect_id plans)"
    unfolding plans by (rule indexed_plans_ok [OF calls], rule indexed_plans_distinct)
  have vf: "frozen_dict (with_runtime_state (osv_value sv) ?rt)"
    by (rule with_runtime_frozen [OF st(1) completed_runtime_frozen [OF st(3) plans_ok(1)]])
  obtain w where w: "append_conversation_messages (with_runtime_state (osv_value sv) ?rt)
      [assistant_message result] = Inr w"
    using append_total [of "with_runtime_state (osv_value sv) ?rt"] st(2)
    by (auto simp: is_ok_iff)
  have wf: "frozen_dict w"
    using append_frozen [OF w vf] assistant_message_frozen [OF calls] by simp
  have wr: "runtime_state w = Inr ?rt"
    using append_runtime(1) [OF w] by simp
  have wc: "context_ok w"
    by (rule append_context_ok [OF w]) (simp add: assistant_message_def)
  have req: "gen_request_id result \<noteq> []"
    using gen by (simp add: gen_ok_def)
  define action where "action = action_after plans
            (TerminalAction (Some (gen_assistant_content result)) ''no_tool_calls'')"
  have action: "(case plans of
              plan # rest \<Rightarrow> prepared_action plan
            | [] \<Rightarrow> NextAction_init
                      (TerminalAction (Some (gen_assistant_content result)) ''no_tool_calls''))
      = Inr action"
    by (cases plans) (simp_all add: action_def require_non_empty_def fails_when_def)
  let ?p = "\<lparr>prop_transition_id = ?tid, prop_state_value = w, prop_next_action = action,
            prop_pending_facts = heads @ facts, prop_dispositions = [],
            prop_effect_plans = plans\<rparr>"
  have init: "TransitionProposal_init ?p = Inr ?p"
    by (rule TransitionProposal_init_total)
       (use wf plans_ok(2) in \<open>auto simp: action_def action_of_plan_def action_after_def
          split: list.splits\<close>)
  have "propose_model_completion request result = Inr ?p"
    using rt active req st(5) heads facts w action init
    by (simp add: propose_model_completion_def request require_active_model_request_def
        completed_runtime_def Let_def)
  then show ?thesis
    using st(5) wr wc wf by (auto simp: action_def)
qed

lemma completed_runtime_ok:
  assumes "runtime_ok rt" "runtime_int rt ''round_index'' = Inr r" "list_all tool_plan plans"
    and "distinct (map plan_effect_id plans)"
  shows "runtime_ok (completed_runtime rt r plans result)"
  using assms runtime_int_Inr [OF assms(2)]
  by (auto simp: runtime_ok_def completed_runtime_def commands_ok_def markers_ok_def
      intro!: pending_is_set exI [of _ plans])

lemma completed_runtime_pending:
  "list_all plan_ok plans \<Longrightarrow>
     pending_effect_plans (completed_runtime rt r plans result) = Inr plans"
  by (simp add: completed_runtime_def)

section \<open>After a settlement\<close>

text \<open>
  \<open>settles_to run_id v rt ps w a\<close>: from the state value \<open>v\<close> with runtime \<open>rt\<close> and the
  remaining plans \<open>ps\<close>, the engine moves to the value \<open>w\<close> with the action \<open>a\<close>: the first
  remaining plan, or a request for the next round when none is left. Only the active request
  changes.
\<close>

definition settles_to ::
    "string \<Rightarrow> dict \<Rightarrow> dict \<Rightarrow> EffectPlan list \<Rightarrow> dict \<Rightarrow> NextAction \<Rightarrow> bool" where
  "settles_to run_id v rt ps w a \<longleftrightarrow>
     (\<exists>rt' r cs. frozen_dict w \<and> context_ok w \<and> runtime_state w = Inr rt'
        \<and> (\<forall>k. k \<noteq> ''active_model_request_id'' \<longrightarrow> dict_find rt' k = dict_find rt k)
        \<and> runtime_int rt ''round_index'' = Inr r \<and> commands_of rt = Inr cs
        \<and> a = action_after ps (ModelGenerationAction (request_for run_id r cs v))
        \<and> (ps = [] \<longrightarrow> dict_get rt' ''active_model_request_id''
              = PStr (run_id @ '':model:'' @ str_of_int (r + 1))))"

lemma next_after_settlement_total:
  assumes "run_id \<noteq> []" "frozen_dict v" "context_ok v" "runtime_state v = Inr rt" "runtime_ok rt"
  shows "\<exists>w a. next_after_settlement run_id ps v = Inr (w, a) \<and> settles_to run_id v rt ps w a"
proof -
  obtain r where r: "runtime_int rt ''round_index'' = Inr r"
    using assms(5) by (auto simp: runtime_ok_def is_ok_iff)
  obtain cs where cs: "commands_of rt = Inr cs" "distinct (map cmd_command_id cs)"
    using assms(5) by (auto simp: runtime_ok_def commands_ok_def)
  show ?thesis
  proof (cases ps)
    case Nil
    have "frozen_dict (with_runtime_state v (dict_set ''active_model_request_id''
             (PStr (run_id @ '':model:'' @ str_of_int (r + 1))) rt))"
      using assms(2) runtime_state_frozen [OF assms(2,4)] by (simp add: with_runtime_frozen)
    then show ?thesis
      using activate_model_request_eq [OF assms(1-4) r cs] Nil r cs assms(3)
      by (auto simp: next_after_settlement_def settles_to_def)
  next
    case (Cons p qs)
    with assms r cs show ?thesis
      by (auto simp: next_after_settlement_def settles_to_def)
  qed
qed

lemma settles_to_engine_ok:
  assumes "settles_to run_id v rt ps w a" "runtime_ok rt"
  shows "engine_ok w"
proof -
  obtain rt' where w: "frozen_dict w" "context_ok w" "runtime_state w = Inr rt'"
    and eq: "\<And>k. k \<noteq> ''active_model_request_id'' \<Longrightarrow> dict_find rt' k = dict_find rt k"
    using assms(1) unfolding settles_to_def by blast
  have "runtime_ok rt' = runtime_ok rt"
    by (rule runtime_readers_cong) (auto intro!: eq)
  with w assms(2) show ?thesis by (simp add: engine_ok_def)
qed

lemma settles_to_pending:
  assumes "settles_to run_id v rt ps w a" "pending_effect_plans rt = Inr qs"
  shows "bind_res (runtime_state w) pending_effect_plans = Inr qs"
  using assms by (auto simp: settles_to_def pending_effect_plans_def dict_get_or_def)

lemma settles_to_frozen: "settles_to run_id v rt ps w a \<Longrightarrow> frozen_dict w"
  by (auto simp: settles_to_def)

lemma settles_to_marker:
  assumes "settles_to run_id v rt ps w a" "k \<noteq> ''active_model_request_id''"
  shows "bind_res (runtime_state w) (\<lambda>rt. marker_mapping rt k) = marker_mapping rt k"
  using assms by (auto simp: settles_to_def marker_mapping_def dict_get_def)

section \<open>Effect settlements\<close>

lemma require_next_effect_Inr:
  "require_next_effect plans e a c n = Inr u \<longleftrightarrow>
     (\<exists>p ps. plans = p # ps \<and> plan_effect_id p = e \<and> plan_attempt_id p = a
        \<and> dict_get (plan_payload p) ''tool_call_id'' = PStr c \<and> c \<noteq> []
        \<and> dict_get (plan_payload p) ''tool_name'' = PStr n \<and> n \<noteq> [])"
  by (cases plans)
     (auto simp: require_next_effect_def required_string_def res_simps split: option.splits if_splits)

text \<open>What an accepted settlement has passed.\<close>

lemma settlement_guard_Inr:
  "settlement_guard rt s = Inr plans \<longleftrightarrow>
     pending_effect_plans rt = Inr plans
     \<and> validate_effect_settlement_authorization rt s = Inr ()
     \<and> require_next_effect plans (es_effect_id s) (es_attempt_id s) (es_tool_call_id s)
          (es_tool_name s) = Inr ()
     \<and> (dict_get rt ''reconciled_effect'' \<noteq> PNone \<longrightarrow>
          validate_reconciled_settlement (dict_get rt ''reconciled_effect'') s = Inr ())
     \<and> (es_outcome s \<noteq> ESO_INDETERMINATE \<longrightarrow> dict_get rt ''unknown_effect'' \<noteq> PNone \<longrightarrow>
          dict_get rt ''reconciled_effect'' \<noteq> PNone)
     \<and> (es_outcome s = ESO_INDETERMINATE \<longrightarrow> dict_get rt ''reconciled_effect'' = PNone)"
  by (auto simp: settlement_guard_def res_simps Let_def split: if_splits)

lemma tool_message_frozen [simp]: "frozen v \<Longrightarrow> frozen (tool_message c n v b)"
  by (simp add: tool_message_def)

lemma tool_message_dict [simp]: "is_dict (tool_message c n v b)"
  by (simp add: tool_message_def)

lemma settled_runtime_ok:
  assumes "runtime_ok rt" "pending_is rt (p # ps)"
  shows "runtime_ok (settled_runtime rt ps)"
  using assms
  by (auto simp: runtime_ok_def settled_runtime_def commands_ok_def markers_ok_def pending_is_def
      tool_plans_ok intro!: exI [of _ ps])

lemma settled_runtime_frozen:
  "frozen_dict rt \<Longrightarrow> list_all plan_ok ps \<Longrightarrow> frozen_dict (settled_runtime rt ps)"
  using plan_codec.list_frozen [of ps] by (simp add: settled_runtime_def)

lemma settled_runtime_pending [simp]:
  "list_all plan_ok ps \<Longrightarrow> pending_effect_plans (settled_runtime rt ps) = Inr ps"
  by (simp add: settled_runtime_def)

lemma settled_runtime_markers [simp]:
  "k \<in> {''reconciled_effect'', ''unknown_effect'', ''active_effect_authorization''}
     \<Longrightarrow> marker_mapping (settled_runtime rt ps) k = Inr None"
  by (auto simp: settled_runtime_def marker_mapping_def)

lemma tool_result_payload_frozen:
  "frozen (es_result s) \<Longrightarrow> list_all (\<lambda>(k, v). frozen v) (tool_result_payload s)"
  by (auto simp: tool_result_payload_def split: option.splits)

lemma pending_of_engine_ok:
  assumes "engine_ok v" "runtime_state v = Inr rt" "pending_effect_plans rt = Inr ps"
  shows "runtime_ok rt" "frozen_dict rt" "pending_is rt ps" "list_all plan_ok ps"
proof -
  obtain qs where "pending_is rt qs"
    using engine_okE [OF assms(1)] assms(2) by (metis sum.inject(2))
  with assms(3) show ps: "pending_is rt ps" by (auto simp: pending_is_def)
  then show "list_all plan_ok ps" by (simp add: pending_is_def tool_plans_ok)
  show "runtime_ok rt" using assms(1,2) by (auto simp: engine_ok_def)
  show "frozen_dict rt" using assms(1,2) by (auto simp: engine_ok_def intro: runtime_state_frozen)
qed

text \<open>Appending one message to a well-formed value whose runtime state is replaced.\<close>

lemma append_one:
  assumes "frozen_dict v" "context_ok v" "frozen_dict rt" "frozen m" "is_dict m"
  obtains w where "append_conversation_messages (with_runtime_state v rt) [m] = Inr w"
    "frozen_dict w" "context_ok w" "runtime_state w = Inr rt"
proof -
  have f: "frozen_dict (with_runtime_state v rt)"
    using assms(1,3) by (rule with_runtime_frozen)
  obtain w where w: "append_conversation_messages (with_runtime_state v rt) [m] = Inr w"
    using append_total [of "with_runtime_state v rt" "[m]"] assms(2) by (auto simp: is_ok_iff)
  show thesis
  proof (rule that [OF w])
    show "frozen_dict w" using append_frozen [OF w f] assms(4) by simp
    show "context_ok w" using append_context_ok [OF w] assms(5) by simp
    show "runtime_state w = Inr rt" using append_runtime(1) [OF w] by simp
  qed
qed

text \<open>
  A terminal settlement that passes the guard is always committed to: the first plan leaves
  the pending list, the three markers are cleared, and the next plan or round follows.
\<close>

lemma propose_settlement_eq:
  assumes ok: "engine_ok (osv_value sv)" and run: "osv_run_id sv \<noteq> []"
    and rt: "runtime_state (osv_value sv) = Inr rt"
    and guard: "settlement_guard rt s = Inr plans"
    and s: "es_outcome s \<noteq> ESO_INDETERMINATE" "frozen (es_result s)"
    and request: "request = \<lparr>esr_state_version = sv, esr_step_input = inp\<rparr>"
  shows "\<exists>p v. propose_effect_settlement request s = Inr p
      \<and> prop_transition_id p = transition_id_of request
      \<and> settles_to (osv_run_id sv) v (settled_runtime rt (tl plans)) (tl plans)
           (prop_state_value p) (prop_next_action p)
      \<and> prop_effect_plans p = [] \<and> prop_dispositions p = []"
proof -
  have pend: "pending_effect_plans rt = Inr plans"
    using guard by (simp add: settlement_guard_Inr)
  note st = pending_of_engine_ok [OF ok rt pend]
  obtain p ps where plans: "plans = p # ps"
    using guard by (auto simp: settlement_guard_Inr require_next_effect_Inr)
  have v: "frozen_dict (osv_value sv)" "context_ok (osv_value sv)"
    using ok by (auto simp: engine_ok_def)
  have srt: "runtime_ok (settled_runtime rt ps)" "frozen_dict (settled_runtime rt ps)"
    using settled_runtime_ok [OF st(1)] settled_runtime_frozen [OF st(2)] st(3,4) plans by auto
  let ?m = "tool_message (es_tool_call_id s) (es_tool_name s) (es_result s)
              (es_outcome s \<noteq> ESO_COMPLETED)"
  have m: "frozen ?m" "is_dict ?m" using s(2) by simp_all
  obtain w where w: "append_conversation_messages
        (with_runtime_state (osv_value sv) (settled_runtime rt ps)) [?m] = Inr w"
      "frozen_dict w" "context_ok w" "runtime_state w = Inr (settled_runtime rt ps)"
    by (rule append_one [OF v srt(2) m])
  obtain w' a where nxt: "next_after_settlement (osv_run_id sv) ps w = Inr (w', a)"
      and to: "settles_to (osv_run_id sv) w (settled_runtime rt ps) ps w' a"
    using next_after_settlement_total [OF run w(2-4) srt(1)] by blast
  obtain f where f: "pending_fact (transition_id_of request @ '':tool-result'') ''tool_result''
      (tool_result_payload s) = Inr f"
    using pending_fact_total [OF _ _ tool_result_payload_frozen [OF s(2)]] by auto
  let ?p = "\<lparr>prop_transition_id = transition_id_of request, prop_state_value = w',
              prop_next_action = a, prop_pending_facts = [f], prop_dispositions = [],
              prop_effect_plans = []\<rparr>"
  have "propose_effect_settlement request s = Inr ?p"
    using rt guard s(1) plans w(1) nxt f settles_to_frozen [OF to]
    by (simp add: propose_effect_settlement_def request Let_def TransitionProposal_init_plain)
  with to plans show ?thesis by auto
qed

text \<open>An indeterminate settlement keeps the plan pending, marks it UNKNOWN and blocks.\<close>

definition unknown_runtime :: "dict \<Rightarrow> dict \<Rightarrow> EffectSettlement \<Rightarrow> dict" where
  "unknown_runtime rt active s =
     dict_set ''unknown_effect''
       (PDict (dict_set ''indeterminate_input_id'' (PStr (es_input_id s)) active)) rt"

lemma plan_reference:
  assumes "tool_plan p"
  obtains c where "dict_get (plan_payload p) ''tool_call_id'' = PStr c" "c \<noteq> []"
    "EffectReference_from_plan p = Inr \<lparr>ref_effect_id = plan_effect_id p,
       ref_attempt_id = plan_attempt_id p, ref_tool_call_id = c,
       ref_approval_request_id = plan_approval_request_id p\<rparr>"
proof -
  obtain c where c: "dict_get (plan_payload p) ''tool_call_id'' = PStr c" "c \<noteq> []"
    using assms by (auto simp: tool_plan_def)
  moreover have "EffectReference_from_plan p = Inr \<lparr>ref_effect_id = plan_effect_id p,
       ref_attempt_id = plan_attempt_id p, ref_tool_call_id = c,
       ref_approval_request_id = plan_approval_request_id p\<rparr>"
    using c assms
    by (cases "plan_approval_request_id p")
       (auto simp: EffectReference_from_plan_def EffectReference_init_def tool_plan_def plan_ok_def
         approval_pair_ok_def require_non_empty_def fails_when_def split: if_splits)
  ultimately show thesis using that by blast
qed

lemma propose_indeterminate_eq:
  assumes ok: "engine_ok (osv_value sv)"
    and rt: "runtime_state (osv_value sv) = Inr rt"
    and guard: "settlement_guard rt s = Inr plans"
    and s: "es_outcome s = ESO_INDETERMINATE"
    and active: "active_effect_authorization rt = Inr active"
    and request: "request = \<lparr>esr_state_version = sv, esr_step_input = inp\<rparr>"
  shows "\<exists>ref. EffectReference_from_plan (hd plans) = Inr ref
      \<and> propose_effect_settlement request s = Inr
          \<lparr>prop_transition_id = transition_id_of request,
           prop_state_value = with_runtime_state (osv_value sv) (unknown_runtime rt active s),
           prop_next_action = BlockedAction ''indeterminate_dispatch'' (Some ref),
           prop_pending_facts = [], prop_dispositions = [], prop_effect_plans = []\<rparr>
      \<and> frozen_dict (with_runtime_state (osv_value sv) (unknown_runtime rt active s))"
proof -
  have pend: "pending_effect_plans rt = Inr plans"
    using guard by (simp add: settlement_guard_Inr)
  note st = pending_of_engine_ok [OF ok rt pend]
  obtain p ps where plans: "plans = p # ps"
    using guard by (auto simp: settlement_guard_Inr require_next_effect_Inr)
  obtain c where ref: "EffectReference_from_plan p = Inr \<lparr>ref_effect_id = plan_effect_id p,
       ref_attempt_id = plan_attempt_id p, ref_tool_call_id = c,
       ref_approval_request_id = plan_approval_request_id p\<rparr>"
    using plan_reference st(3) plans by (metis list.pred_inject(2) pending_is_def)
  have "frozen_dict active"
    using active frozen_get [OF st(2), of "''active_effect_authorization''"]
    by (auto simp: active_effect_authorization_def marker_mapping_def Let_def
        split: if_splits option.splits)
  then have "frozen_dict (with_runtime_state (osv_value sv) (unknown_runtime rt active s))"
    using ok st(2) by (simp add: engine_ok_def unknown_runtime_def with_runtime_frozen)
  then show ?thesis
    using rt guard s active plans ref
    by (simp add: propose_effect_settlement_def propose_indeterminate_def request Let_def
        unknown_runtime_def [symmetric] TransitionProposal_init_plain require_non_empty_def
        fails_when_def)
qed

lemma unknown_runtime_ok: "runtime_ok rt \<Longrightarrow> runtime_ok (unknown_runtime rt active s)"
  by (auto simp: runtime_ok_def unknown_runtime_def commands_ok_def markers_ok_def)

end
