(* ===== verification/Engine_Theorems.thy ===== *)
theory Engine_Theorems
  imports Engine_Laws
begin

text \<open>
  The properties of \<open>AgentEngine.propose\<close>: what it accepts, the invariant it keeps, and the
  ordering, single-use and approval rules of its four inputs.
\<close>

section \<open>Approval resolutions\<close>

lemma approval_guard_Inr:
  "approval_guard request rt s = Inr plans \<longleftrightarrow>
     pending_effect_plans rt = Inr plans
     \<and> ap_transition_id s = cr_transition_id (osv_commit_ref (esr_state_version request))
     \<and> require_next_effect plans (ap_effect_id s) (ap_attempt_id s) (ap_tool_call_id s)
          (ap_tool_name s) = Inr ()
     \<and> plan_requires_approval (hd plans)"
  by (auto simp: approval_guard_def res_simps split: if_splits)

text \<open>An approval settlement as its constructor leaves it.\<close>

definition approval_ok :: "ApprovalSettlement \<Rightarrow> bool" where
  "approval_ok s \<longleftrightarrow>
     ap_command_id s \<noteq> []
     \<and> (if ap_approved s
        then ap_rejection_reason_code s = None \<and> ap_rejection_message s = None
        else \<exists>c m. ap_rejection_reason_code s = Some c \<and> c \<noteq> [] \<and> ap_rejection_message s = Some m)"

lemma ApprovalSettlement_init_ok [init_dests]:
  "ApprovalSettlement_init s = Inr t \<Longrightarrow> approval_ok t"
  by (auto simp: ApprovalSettlement_init_def approval_ok_def res_simps require_non_empty_def
      split: option.splits if_splits)

definition denied_runtime :: "dict \<Rightarrow> EffectPlan list \<Rightarrow> dict" where
  "denied_runtime rt remaining =
     dict_set ''pending_effect_plans'' (PTuple (map effect_plan_value remaining)) rt"

lemma denied_runtime_ok:
  assumes "runtime_ok rt" "pending_is rt (p # ps)"
  shows "runtime_ok (denied_runtime rt ps)"
  using assms
  by (auto simp: runtime_ok_def denied_runtime_def commands_ok_def markers_ok_def pending_is_def
      tool_plans_ok intro!: exI [of _ ps])

lemma rejection_content_frozen [simp]: "frozen (rejection_content c s)"
  by (simp add: rejection_content_def)

lemma propose_grant_eq:
  assumes ok: "engine_ok (osv_value (esr_state_version request))"
    and rt: "runtime_state (osv_value (esr_state_version request)) = Inr rt"
    and guard: "approval_guard request rt s = Inr plans"
    and s: "approval_ok s" "ap_approved s"
  shows "propose_approval_resolution request s = Inr
      \<lparr>prop_transition_id = transition_id_of request,
       prop_state_value = osv_value (esr_state_version request),
       prop_next_action = PreparedEffectAction (hd plans) DISPATCH, prop_pending_facts = [],
       prop_dispositions = [AppliedCommandDisposition (ap_command_id s)],
       prop_effect_plans = []\<rparr>"
  using assms
  by (simp add: propose_approval_resolution_def propose_approval_grant_def fails_when_def
      TransitionProposal_init_plain engine_ok_def approval_ok_def require_non_empty_def)

lemma propose_denial_eq:
  assumes ok: "engine_ok (osv_value sv)" and run: "osv_run_id sv \<noteq> []"
    and rt: "runtime_state (osv_value sv) = Inr rt"
    and guard: "approval_guard request rt s = Inr plans"
    and s: "approval_ok s" "\<not> ap_approved s"
    and request: "request = \<lparr>esr_state_version = sv, esr_step_input = inp\<rparr>"
  shows "\<exists>p v c. propose_approval_resolution request s = Inr p
      \<and> prop_transition_id p = transition_id_of request
      \<and> settles_to (osv_run_id sv) v (denied_runtime rt (tl plans)) (tl plans)
           (prop_state_value p) (prop_next_action p)
      \<and> prop_effect_plans p = [] \<and> ap_rejection_reason_code s = Some c
      \<and> prop_dispositions p = [RejectedCommandDisposition (ap_command_id s) c]"
proof -
  have pend: "pending_effect_plans rt = Inr plans"
    using guard by (simp add: approval_guard_Inr)
  note st = pending_of_engine_ok [OF ok rt pend]
  obtain p ps where plans: "plans = p # ps"
    using guard by (auto simp: approval_guard_Inr require_next_effect_Inr)
  obtain c where c: "ap_rejection_reason_code s = Some c" "c \<noteq> []"
    using s by (auto simp: approval_ok_def)
  have v: "frozen_dict (osv_value sv)" "context_ok (osv_value sv)"
    using ok by (auto simp: engine_ok_def)
  have drt: "runtime_ok (denied_runtime rt ps)" "frozen_dict (denied_runtime rt ps)"
    using denied_runtime_ok [OF st(1)] st(2,3,4) plans plan_codec.list_frozen [of ps]
    by (auto simp: denied_runtime_def)
  let ?m = "tool_message (ap_tool_call_id s) (ap_tool_name s) (rejection_content c s) True"
  have m: "frozen ?m" "is_dict ?m" by simp_all
  obtain w where w: "append_conversation_messages
        (with_runtime_state (osv_value sv) (denied_runtime rt ps)) [?m] = Inr w"
      "frozen_dict w" "context_ok w" "runtime_state w = Inr (denied_runtime rt ps)"
    by (rule append_one [OF v drt(2) m])
  obtain w' a where nxt: "next_after_settlement (osv_run_id sv) ps w = Inr (w', a)"
      and to: "settles_to (osv_run_id sv) w (denied_runtime rt ps) ps w' a"
    using next_after_settlement_total [OF run w(2-4) drt(1)] by blast
  have cmd: "CommandDisposition_init (RejectedCommandDisposition (ap_command_id s) c) =
      Inr (RejectedCommandDisposition (ap_command_id s) c)"
    using s c by (simp add: approval_ok_def require_non_empty_def fails_when_def)
  show ?thesis
    using rt guard s(2) plans w(1) nxt c to settles_to_frozen [OF to] cmd
    by (simp add: propose_approval_resolution_def propose_approval_denial_def request Let_def
        denied_runtime_def pending_fact_total TransitionProposal_init_plain
        del: CommandDisposition_init.simps)
       auto
qed

section \<open>What the engine accepts\<close>

text \<open>The input as the constructors of the step inputs leave it.\<close>

fun input_ok :: "EngineStepInput \<Rightarrow> bool" where
  "input_ok (Initial i) \<longleftrightarrow>
     list_all command_ok (init_command_batch i) \<and> distinct (map cmd_command_id (init_command_batch i))"
| "input_ok (ModelGenerationCompleted r) \<longleftrightarrow> gen_ok r"
| "input_ok (EffectSettled s) \<longleftrightarrow> settlement_ok s"
| "input_ok (ApprovalResolved s) \<longleftrightarrow> approval_ok s"

text \<open>The refusals the code means: nothing else in the engine may fail on a well-formed state.\<close>

definition accepts :: "EngineStepRequest \<Rightarrow> dict \<Rightarrow> bool" where
  "accepts request rt \<longleftrightarrow>
     (case esr_step_input request of
        Initial _ \<Rightarrow> True
      | ModelGenerationCompleted r \<Rightarrow>
          dict_get rt ''active_model_request_id'' = PStr (gen_request_id r)
      | EffectSettled s \<Rightarrow>
          is_ok (settlement_guard rt s)
          \<and> (es_outcome s = ESO_INDETERMINATE \<longrightarrow> is_ok (active_effect_authorization rt))
      | ApprovalResolved s \<Rightarrow> is_ok (approval_guard request rt s))"

lemma propose_cases [case_names Initial Completion Terminal Indeterminate Grant Denial]:
  assumes "\<And>i. esr_step_input request = Initial i \<Longrightarrow> P"
    and "\<And>r. esr_step_input request = ModelGenerationCompleted r \<Longrightarrow> P"
    and "\<And>s. esr_step_input request = EffectSettled s \<Longrightarrow> es_outcome s \<noteq> ESO_INDETERMINATE \<Longrightarrow> P"
    and "\<And>s. esr_step_input request = EffectSettled s \<Longrightarrow> es_outcome s = ESO_INDETERMINATE \<Longrightarrow> P"
    and "\<And>s. esr_step_input request = ApprovalResolved s \<Longrightarrow> ap_approved s \<Longrightarrow> P"
    and "\<And>s. esr_step_input request = ApprovalResolved s \<Longrightarrow> \<not> ap_approved s \<Longrightarrow> P"
  shows P
  using assms by (cases "esr_step_input request") blast+

text \<open>A successful proposal was accepted: read off the code, no invariant needed.\<close>

lemma propose_accepts:
  assumes "propose request = Inr p" "input_ok (esr_step_input request)"
    and "runtime_state (osv_value (esr_state_version request)) = Inr rt"
  shows "accepts request rt"
  using assms
  by (cases "esr_step_input request")
     (auto simp: propose_def accepts_def propose_model_completion_def Let_def res_simps is_ok_iff
       require_active_model_request_def propose_effect_settlement_def propose_indeterminate_def
       propose_approval_resolution_def split: option.splits if_splits)

lemma request_split:
  "request = \<lparr>esr_state_version = esr_state_version request,
              esr_step_input = esr_step_input request\<rparr>"
  by simp

lemma propose_runs:
  assumes ok: "engine_ok (osv_value (esr_state_version request))"
    and run: "osv_run_id (esr_state_version request) \<noteq> []"
    and inp: "input_ok (esr_step_input request)"
    and rt: "runtime_state (osv_value (esr_state_version request)) = Inr rt"
    and acc: "accepts request rt"
  shows "\<exists>p. propose request = Inr p \<and> engine_ok (prop_state_value p)"
proof (cases rule: propose_cases [of request])
  case (Initial i)
  have v: "frozen_dict (osv_value (esr_state_version request))"
      "context_ok (osv_value (esr_state_version request))"
    using ok by (auto simp: engine_ok_def)
  have b: "list_all command_ok (init_command_batch i)"
      "distinct (map cmd_command_id (init_command_batch i))"
    using inp Initial by simp_all
  note rd = initial_runtime_readers [OF b(1)]
  have "runtime_ok (dict_set ''active_model_request_id''
      (PStr (osv_run_id (esr_state_version request) @ '':model:1'')) (initial_runtime i))"
    using rd b(2) by (auto simp: runtime_ok_def commands_ok_def markers_ok_def)
  with v rd show ?thesis
    using propose_initial_eq [OF run v b] Initial
    by (simp add: propose_def engine_ok_with with_runtime_frozen)
next
  case (Completion r)
  have g: "gen_ok r" and act: "dict_get rt ''active_model_request_id'' = PStr (gen_request_id r)"
    using inp acc Completion by (auto simp: accepts_def)
  let ?plans = "indexed_plans (transition_id_of request) 0 (gen_tool_calls r)"
  obtain p n where p: "propose_model_completion request r = Inr p"
      "runtime_int rt ''round_index'' = Inr n"
      "runtime_state (prop_state_value p) = Inr (completed_runtime rt n ?plans r)"
      "frozen_dict (prop_state_value p)" "context_ok (prop_state_value p)"
    using propose_model_completion_eq [OF ok rt act g request_split refl] by blast
  have "runtime_ok (completed_runtime rt n ?plans r)"
    using ok rt g p(2) indexed_plans_tool indexed_plans_distinct
    by (intro completed_runtime_ok) (auto simp: engine_ok_def gen_ok_def)
  with p Completion show ?thesis by (simp add: propose_def engine_ok_def)
next
  case (Terminal s)
  obtain plans where guard: "settlement_guard rt s = Inr plans"
    using acc Terminal by (auto simp: accepts_def is_ok_iff)
  have fr: "frozen (es_result s)" using inp Terminal by (simp add: settlement_ok_def)
  have pend: "pending_effect_plans rt = Inr plans"
    using guard by (simp add: settlement_guard_Inr)
  note st = pending_of_engine_ok [OF ok rt pend]
  have "runtime_ok (settled_runtime rt (tl plans))"
    using guard settled_runtime_ok [OF st(1)] st(3)
    by (auto simp: settlement_guard_Inr require_next_effect_Inr)
  then show ?thesis
    using propose_settlement_eq [OF ok run rt guard Terminal(2) fr request_split] Terminal(1)
    by (auto simp: propose_def intro: settles_to_engine_ok)
next
  case (Indeterminate s)
  obtain plans active where guard: "settlement_guard rt s = Inr plans"
      and active: "active_effect_authorization rt = Inr active"
    using acc Indeterminate by (auto simp: accepts_def is_ok_iff)
  note p = propose_indeterminate_eq [OF ok rt guard Indeterminate(2) active request_split]
  have "runtime_ok (unknown_runtime rt active s)"
    using ok rt by (auto simp: engine_ok_def intro: unknown_runtime_ok)
  with p ok Indeterminate show ?thesis by (auto simp: propose_def engine_ok_def)
next
  case (Grant s)
  then show ?thesis
    using propose_grant_eq [OF ok rt _ _ Grant(2)] inp acc ok
    by (auto simp: propose_def accepts_def is_ok_iff)
next
  case (Denial s)
  obtain plans where guard: "approval_guard request rt s = Inr plans"
    using acc Denial by (auto simp: accepts_def is_ok_iff)
  have aok: "approval_ok s" using inp Denial by simp
  have pend: "pending_effect_plans rt = Inr plans"
    using guard by (simp add: approval_guard_Inr)
  note st = pending_of_engine_ok [OF ok rt pend]
  have "runtime_ok (denied_runtime rt (tl plans))"
    using guard denied_runtime_ok [OF st(1)] st(3)
    by (auto simp: approval_guard_Inr require_next_effect_Inr)
  then show ?thesis
    using propose_denial_eq [OF ok run rt guard aok Denial(2) request_split] Denial(1)
    by (auto simp: propose_def intro: settles_to_engine_ok)
qed

section \<open>Evaluation and a sample run\<close>

lemma pending_is_code: "(\<exists>ps. pending_is rt ps) \<longleftrightarrow>
   (case pending_effect_plans rt of Inl _ \<Rightarrow> False
    | Inr ps \<Rightarrow> list_all tool_plan ps \<and> distinct (map plan_effect_id ps))"
  by (auto simp: pending_is_def split: sum.splits)

lemma commands_ok_code [code]: "commands_ok rt \<longleftrightarrow>
   (case commands_of rt of Inl _ \<Rightarrow> False | Inr cs \<Rightarrow> distinct (map cmd_command_id cs))"
  by (auto simp: commands_ok_def split: sum.splits)

lemma runtime_ok_code [code]: "runtime_ok rt \<longleftrightarrow>
   is_ok (runtime_int rt ''round_index'') \<and> commands_ok rt
   \<and> (case pending_effect_plans rt of Inl _ \<Rightarrow> False
      | Inr ps \<Rightarrow> list_all tool_plan ps \<and> distinct (map plan_effect_id ps))
   \<and> markers_ok rt"
  unfolding runtime_ok_def pending_is_code by (rule refl)

lemma engine_ok_code [code]: "engine_ok v \<longleftrightarrow>
   frozen_dict v \<and> context_ok v
   \<and> (case runtime_state v of Inl _ \<Rightarrow> False | Inr rt \<Rightarrow> runtime_ok rt)"
  by (auto simp: engine_ok_def split: sum.splits)

lemma approval_ok_code [code]: "approval_ok s \<longleftrightarrow>
   ap_command_id s \<noteq> []
   \<and> (if ap_approved s
      then ap_rejection_reason_code s = None \<and> ap_rejection_message s = None
      else (case ap_rejection_reason_code s of None \<Rightarrow> False | Some c \<Rightarrow> c \<noteq> [])
           \<and> ap_rejection_message s \<noteq> None)"
  by (auto simp: approval_ok_def split: option.splits)

lemma settlement_reason_ok_code [code]: "settlement_reason_ok s \<longleftrightarrow>
   (if es_outcome s = ESO_COMPLETED
    then es_reason_code s = None \<and> es_reason_message s = None
    else (case (es_reason_code s, es_reason_message s) of
            (Some c, Some m) \<Rightarrow> c \<noteq> [] \<and> \<not> is_blank m
          | _ \<Rightarrow> False))"
  by (auto simp: settlement_reason_ok_def split: option.splits)

lemma approval_pair_ok_code [code]: "approval_pair_ok req a \<longleftrightarrow>
   (if req then (case a of None \<Rightarrow> False | Some s \<Rightarrow> s \<noteq> []) else a = None)"
  by (auto simp: approval_pair_ok_def split: option.splits)

text \<open>
  The sample run the witnesses evaluate: one command, one model round that asks for a read and
  for a write that needs approval.
\<close>

definition the_state :: "TransitionProposal res \<Rightarrow> dict" where
  "the_state m = (case m of Inl _ \<Rightarrow> [] | Inr p \<Rightarrow> prop_state_value p)"

definition the_id :: "TransitionProposal res \<Rightarrow> string" where
  "the_id m = (case m of Inl _ \<Rightarrow> [] | Inr p \<Rightarrow> prop_transition_id p)"

definition demo_version :: "int \<Rightarrow> string \<Rightarrow> dict \<Rightarrow> OperationStateVersion" where
  "demo_version n tid v =
     \<lparr>osv_run_id = ''r'', osv_revision = n, osv_projection_epoch = 0,
      osv_commit_ref = \<lparr>cr_transition_id = tid, cr_fact_seq_start = None, cr_fact_seq_end = None\<rparr>,
      osv_value = v\<rparr>"

definition demo_command :: RuntimeCommand where
  "demo_command = \<lparr>cmd_command_id = ''c1'', cmd_command_kind = ''user'',
                   cmd_payload = dict_of [(''text'', PStr ''hi'')]\<rparr>"

definition demo_initial_input :: Initial where
  "demo_initial_input = \<lparr>init_input_id = ''i1'', init_command_batch = [demo_command],
                         init_mailbox_cut = 1\<rparr>"

definition demo_initial :: EngineStepRequest where
  "demo_initial = \<lparr>esr_state_version = demo_version 0 ''t0'' [],
                   esr_step_input = Initial demo_initial_input\<rparr>"

definition demo_started :: OperationStateVersion where
  "demo_started = demo_version 1 (the_id (propose demo_initial)) (the_state (propose demo_initial))"

definition demo_calls :: "ModelToolCall list" where
  "demo_calls =
     [\<lparr>call_tool_call_id = ''k0'', call_name = ''read'', call_arguments = [],
       call_idempotency_key = None, call_requires_approval = False,
       call_approval_request_id = None\<rparr>,
      \<lparr>call_tool_call_id = ''k1'', call_name = ''write'', call_arguments = [],
       call_idempotency_key = Some ''idem'', call_requires_approval = True,
       call_approval_request_id = Some ''ar''\<rparr>]"

definition demo_result :: ModelGenerationResult where
  "demo_result =
     \<lparr>gen_result_id = ''g1'', gen_request_id = ''r:model:1'', gen_assistant_content = ''ok'',
      gen_finalized_thinking = None, gen_tool_calls = demo_calls,
      gen_usage = \<lparr>usage_input_tokens = 1, usage_output_tokens = 1, usage_provider_details = []\<rparr>,
      gen_provider_stop = \<lparr>stop_reason_code = ''stop'', stop_details = []\<rparr>\<rparr>"

definition demo_completion :: EngineStepRequest where
  "demo_completion = \<lparr>esr_state_version = demo_started,
                      esr_step_input = ModelGenerationCompleted demo_result\<rparr>"

definition demo_planned :: OperationStateVersion where
  "demo_planned =
     demo_version 2 (the_id (propose demo_completion)) (the_state (propose demo_completion))"

section \<open>Properties\<close>

lemma engine_ok_runtime: "engine_ok v \<Longrightarrow> \<exists>rt. runtime_state v = Inr rt"
  by (auto simp: engine_ok_def)

text \<open>C25: On a well-formed committed state, \<open>propose\<close> fails exactly on the inputs the engine
  means to refuse (a completion of a request that is not active, a settlement that its guard
  rejects); no reader, constructor or freezer of the engine fails on its own.\<close>

theorem propose_total:
  assumes "engine_ok (osv_value (esr_state_version request))"
    and "osv_run_id (esr_state_version request) \<noteq> []"
    and "input_ok (esr_step_input request)"
    and "runtime_state (osv_value (esr_state_version request)) = Inr rt"
  shows "is_ok (propose request) \<longleftrightarrow> accepts request rt"
  using propose_runs [OF assms] propose_accepts [OF _ assms(3,4)] by (auto simp: is_ok_iff)

lemma propose_total_witness:
  "\<exists>rt. is_ok (propose demo_completion) \<longleftrightarrow> accepts demo_completion rt"
proof -
  have pre: "engine_ok (osv_value (esr_state_version demo_completion))"
      "osv_run_id (esr_state_version demo_completion) \<noteq> []"
      "input_ok (esr_step_input demo_completion)"
    by code_simp+
  then show ?thesis using propose_total [OF pre] engine_ok_runtime by blast
qed

text \<open>C26: Every proposal the engine makes keeps the invariant: the state it would commit is
  frozen, its conversation and runtime state are readable, its pending plans are distinct and
  carry their tool identities.\<close>

theorem propose_preserves:
  assumes "engine_ok (osv_value (esr_state_version request))"
    and "osv_run_id (esr_state_version request) \<noteq> []"
    and "input_ok (esr_step_input request)"
    and "propose request = Inr p"
  shows "engine_ok (prop_state_value p)"
  using assms engine_ok_runtime [OF assms(1)] propose_accepts [OF assms(4,3)]
    propose_runs [OF assms(1-3)]
  by force

lemma propose_preserves_witness:
  "\<exists>p. propose demo_completion = Inr p \<and> engine_ok (prop_state_value p)"
proof -
  have pre: "engine_ok (osv_value (esr_state_version demo_completion))"
      "osv_run_id (esr_state_version demo_completion) \<noteq> []"
      "input_ok (esr_step_input demo_completion)" "is_ok (propose demo_completion)"
    by code_simp+
  then show ?thesis using propose_preserves [OF pre(1-3)] by (auto simp: is_ok_iff)
qed

text \<open>A run starts with one model request: the initial proposal stores the command batch
  and the mailbox cut, has no pending plan, and activates the request it asks for, of round 1.\<close>

theorem initial_activates_request:
  assumes "engine_ok (osv_value (esr_state_version request))"
    and "osv_run_id (esr_state_version request) \<noteq> []"
    and "input_ok (Initial i)" and "esr_step_input request = Initial i"
  shows "\<exists>p req rt. propose request = Inr p \<and> prop_next_action p = ModelGenerationAction req
      \<and> mreq_round_index req = 1 \<and> mreq_commands req = init_command_batch i
      \<and> runtime_state (prop_state_value p) = Inr rt
      \<and> dict_get rt ''active_model_request_id'' = PStr (mreq_request_id req)
      \<and> dict_get rt ''mailbox_cut'' = PInt (init_mailbox_cut i)
      \<and> pending_effect_plans rt = Inr []"
proof -
  have v: "frozen_dict (osv_value (esr_state_version request))"
      "context_ok (osv_value (esr_state_version request))"
    using assms(1) by (auto simp: engine_ok_def)
  have "str_of_int 1 = ''1''" by code_simp
  with propose_initial_eq [OF assms(2) v, of i] assms(3,4)
    initial_runtime_readers [of i]
  show ?thesis
    by (simp add: propose_def request_for_def pending_is_def)
       (simp add: initial_runtime_def dict_get_def)
qed



text \<open>C36: A model request is consumed once: whatever completion the engine accepts, no second
  completion, with this or another result, is accepted on the state it proposes.\<close>

theorem completion_consumed_once:
  assumes "engine_ok (osv_value (esr_state_version request))"
    and "gen_ok r" and "esr_step_input request = ModelGenerationCompleted r"
    and "propose request = Inr p"
    and "osv_value (esr_state_version request') = prop_state_value p"
    and "esr_step_input request' = ModelGenerationCompleted r'"
  shows "propose request' = Inl (ValueError ''model completion requires an active model request'')"
proof -
  obtain rt where rt: "runtime_state (osv_value (esr_state_version request)) = Inr rt"
    using assms(1) engine_ok_runtime by blast
  have "dict_get rt ''active_model_request_id'' = PStr (gen_request_id r)"
    using propose_accepts [OF assms(4) _ rt] assms(2,3) by (simp add: accepts_def)
  then obtain n plans where "runtime_state (prop_state_value p)
      = Inr (completed_runtime rt n plans r)"
    using propose_model_completion_eq [OF assms(1) rt _ assms(2) request_split refl] assms(3,4)
    by (auto simp: propose_def)
  with assms(5,6) show ?thesis
    by (simp add: propose_def propose_model_completion_def require_active_model_request_def
        completed_runtime_def Let_def)
qed

lemma completion_consumed_once_witness:
  "propose \<lparr>esr_state_version = demo_planned, esr_step_input = ModelGenerationCompleted demo_result\<rparr>
     = Inl (ValueError ''model completion requires an active model request'')"
proof -
  have pre: "engine_ok (osv_value (esr_state_version demo_completion))" "gen_ok demo_result"
      "esr_step_input demo_completion = ModelGenerationCompleted demo_result"
      "is_ok (propose demo_completion)"
    by code_simp+
  then obtain p where "propose demo_completion = Inr p" by (auto simp: is_ok_iff)
  then show ?thesis
    using completion_consumed_once [OF pre(1-3)]
    by (simp add: demo_planned_def demo_version_def the_state_def)
qed

text \<open>
  A second sample, in the middle of a run: two pending plans, the second one approval-gated,
  and the first one authorized for dispatch.
\<close>

definition demo_plan :: "bool \<Rightarrow> string \<Rightarrow> EffectPlan" where
  "demo_plan gated k =
     \<lparr>plan_effect_id = k, plan_attempt_id = k, plan_effect_kind = ''tool'',
      plan_payload = dict_of [(''tool_call_id'', PStr k), (''tool_name'', PStr ''f'')],
      plan_idempotency_key = None, plan_requires_approval = gated,
      plan_approval_request_id = (if gated then Some ''q'' else None)\<rparr>"

definition demo_value :: "EffectPlan list \<Rightarrow> (string \<times> pyval) list \<Rightarrow> dict" where
  "demo_value plans markers = with_runtime_state []
     (dict_of ([(''round_index'', PInt 1), (''commands'', PTuple []),
        (''pending_effect_plans'', PTuple (map effect_plan_value plans))] @ markers))"

definition demo_marker :: pyval where
  "demo_marker = PDict (dict_of
     [(''effect_id'', PStr ''a''), (''attempt_id'', PStr ''a''), (''tool_call_id'', PStr ''a''),
      (''tool_name'', PStr ''f''), (''authorization_transition_id'', PStr ''d''),
      (''dispatch_owner_epoch'', PInt 1)])"

definition demo_settlement ::
    "EffectSettlementOutcome \<Rightarrow> string option \<Rightarrow> EffectSettlement" where
  "demo_settlement outcome reason =
     \<lparr>es_input_id = ''s'', es_tool_call_id = ''a'', es_tool_name = ''f'', es_effect_id = ''a'',
      es_attempt_id = ''a'', es_authorization_transition_id = ''d'', es_owner_epoch = 1,
      es_outcome = outcome, es_result = PStr ''x'', es_reason_code = reason,
      es_reason_message = reason\<rparr>"

definition demo_settling :: "EffectSettlementOutcome \<Rightarrow> string option \<Rightarrow> EngineStepRequest" where
  "demo_settling outcome reason =
     \<lparr>esr_state_version = demo_version 3 ''d'' (demo_value [demo_plan False ''a'', demo_plan True ''b'']
         [(''active_effect_authorization'', demo_marker)]),
      esr_step_input = EffectSettled (demo_settlement outcome reason)\<rparr>"

definition demo_approval :: "bool \<Rightarrow> string option \<Rightarrow> ApprovalSettlement" where
  "demo_approval approved reason =
     \<lparr>ap_input_id = ''ap'', ap_command_id = ''c'', ap_tool_call_id = ''b'', ap_tool_name = ''f'',
      ap_effect_id = ''b'', ap_attempt_id = ''b'', ap_transition_id = ''s'',
      ap_owner_epoch = 1, ap_approved = approved, ap_rejection_reason_code = reason,
      ap_rejection_message = reason\<rparr>"

definition demo_approving :: "bool \<Rightarrow> string option \<Rightarrow> EngineStepRequest" where
  "demo_approving approved reason =
     \<lparr>esr_state_version = demo_version 4 ''s'' (demo_value [demo_plan True ''b''] []),
      esr_step_input = ApprovalResolved (demo_approval approved reason)\<rparr>"

text \<open>C28: Effects settle first in, first out: a terminal settlement is accepted only for the
  first pending plan; the proposal removes exactly that plan, keeps the order of the others,
  and goes on with the next of them, or with a request for the next round when none is left.\<close>

theorem settlement_fifo:
  assumes "engine_ok (osv_value (esr_state_version request))"
    and "osv_run_id (esr_state_version request) \<noteq> []"
    and "runtime_state (osv_value (esr_state_version request)) = Inr rt"
    and "settlement_ok s" and "es_outcome s \<noteq> ESO_INDETERMINATE"
    and "esr_step_input request = EffectSettled s" and "propose request = Inr p"
  shows "\<exists>plan rest rt' v n cs. pending_effect_plans rt = Inr (plan # rest)
      \<and> plan_effect_id plan = es_effect_id s \<and> plan_attempt_id plan = es_attempt_id s
      \<and> runtime_state (prop_state_value p) = Inr rt' \<and> pending_effect_plans rt' = Inr rest
      \<and> runtime_int rt ''round_index'' = Inr n \<and> commands_of rt = Inr cs
      \<and> prop_next_action p = action_after rest (ModelGenerationAction
            (request_for (osv_run_id (esr_state_version request)) n cs v))"
proof -
  have "accepts request rt"
    using propose_accepts [OF assms(7) _ assms(3)] assms(4,6) by simp
  then obtain plans where guard: "settlement_guard rt s = Inr plans"
    using assms(6) by (auto simp: accepts_def is_ok_iff)
  then obtain plan rest where plans: "plans = plan # rest" "pending_effect_plans rt = Inr plans"
      "plan_effect_id plan = es_effect_id s" "plan_attempt_id plan = es_attempt_id s"
    by (auto simp: settlement_guard_Inr require_next_effect_Inr)
  have "frozen (es_result s)" using assms(4) by (simp add: settlement_ok_def)
  from propose_settlement_eq [OF assms(1-3) guard assms(5) this request_split] assms(6,7)
  obtain v where to: "settles_to (osv_run_id (esr_state_version request)) v
      (settled_runtime rt rest) rest (prop_state_value p) (prop_next_action p)"
    by (auto simp: propose_def plans(1))
  have "list_all plan_ok rest"
    using pending_of_engine_ok(4) [OF assms(1,3) plans(2)] plans(1) by simp
  then have "bind_res (runtime_state (prop_state_value p)) pending_effect_plans = Inr rest"
    by (intro settles_to_pending [OF to]) simp
  with to plans show ?thesis
    by (auto simp: settles_to_def settled_runtime_def bind_res_eq_Inr)
qed

lemma settlement_fifo_witness:
  "\<exists>p rt'. propose (demo_settling ESO_COMPLETED None) = Inr p
     \<and> runtime_state (prop_state_value p) = Inr rt' \<and> pending_effect_plans rt' = Inr [demo_plan True ''b'']"
proof -
  let ?r = "demo_settling ESO_COMPLETED None"
  have pre: "engine_ok (osv_value (esr_state_version ?r))"
      "osv_run_id (esr_state_version ?r) \<noteq> []"
      "settlement_ok (demo_settlement ESO_COMPLETED None)"
      "es_outcome (demo_settlement ESO_COMPLETED None) \<noteq> ESO_INDETERMINATE"
      "esr_step_input ?r = EffectSettled (demo_settlement ESO_COMPLETED None)"
      "is_ok (propose ?r)"
      "bind_res (runtime_state (osv_value (esr_state_version ?r))) pending_effect_plans
         = Inr [demo_plan False ''a'', demo_plan True ''b'']"
    by code_simp+
  then obtain p rt where "propose ?r = Inr p"
      "runtime_state (osv_value (esr_state_version ?r)) = Inr rt"
      "pending_effect_plans rt = Inr [demo_plan False ''a'', demo_plan True ''b'']"
    by (auto simp: is_ok_iff bind_res_eq_Inr)
  then show ?thesis
    using settlement_fifo [OF pre(1,2) _ pre(3-5)] by force
qed

text \<open>A dispatch authorization is used up by its terminal settlement: whatever settlement
  arrives next, the same one replayed or another, is refused on the state proposed, until a
  new authorization is committed.\<close>

theorem settlement_uses_authorization:
  assumes "engine_ok (osv_value (esr_state_version request))"
    and "osv_run_id (esr_state_version request) \<noteq> []"
    and "settlement_ok s" and "es_outcome s \<noteq> ESO_INDETERMINATE"
    and "esr_step_input request = EffectSettled s" and "propose request = Inr p"
    and "osv_value (esr_state_version request') = prop_state_value p"
    and "esr_step_input request' = EffectSettled s'"
  shows "propose request' = Inl (ValueError ''effect settlement requires retained authorization'')"
proof -
  obtain rt where rt: "runtime_state (osv_value (esr_state_version request)) = Inr rt"
    using assms(1) engine_ok_runtime by blast
  have "accepts request rt"
    using propose_accepts [OF assms(6) _ rt] assms(3,5) by simp
  then obtain plans where guard: "settlement_guard rt s = Inr plans"
    using assms(5) by (auto simp: accepts_def is_ok_iff)
  have "frozen (es_result s)" using assms(3) by (simp add: settlement_ok_def)
  from propose_settlement_eq [OF assms(1,2) rt guard assms(4) this request_split] assms(5,6)
  obtain v where to: "settles_to (osv_run_id (esr_state_version request)) v
      (settled_runtime rt (tl plans)) (tl plans) (prop_state_value p) (prop_next_action p)"
    by (auto simp: propose_def)
  have "pending_effect_plans rt = Inr plans"
    using guard by (simp add: settlement_guard_Inr)
  then have "list_all plan_ok (tl plans)"
    using pending_of_engine_ok(4) [OF assms(1) rt] by (cases plans) auto
  then have pend: "bind_res (runtime_state (prop_state_value p)) pending_effect_plans
      = Inr (tl plans)"
    by (intro settles_to_pending [OF to]) simp
  have marks: "bind_res (runtime_state (prop_state_value p)) (\<lambda>rt. marker_mapping rt k) = Inr None"
    if "k \<in> {''reconciled_effect'', ''unknown_effect'', ''active_effect_authorization''}" for k
    using settles_to_marker [OF to, of k] that by auto
  obtain rt' where rt': "runtime_state (prop_state_value p) = Inr rt'"
      "pending_effect_plans rt' = Inr (tl plans)"
    using pend by (auto simp: bind_res_eq_Inr)
  then show ?thesis
    using assms(7,8) marks [of "''reconciled_effect''"] marks [of "''unknown_effect''"]
      marks [of "''active_effect_authorization''"]
    by (simp add: propose_def propose_effect_settlement_def settlement_guard_def
        validate_effect_settlement_authorization_def Let_def)
qed

text \<open>An indeterminate settlement loses nothing: the plan stays first in the pending list,
  the retained authorization and the input id are recorded under \<open>unknown_effect\<close>, and the
  segment blocks with a reference to the effect.\<close>

theorem indeterminate_keeps_plan:
  assumes "engine_ok (osv_value (esr_state_version request))"
    and "runtime_state (osv_value (esr_state_version request)) = Inr rt"
    and "settlement_ok s" and "es_outcome s = ESO_INDETERMINATE"
    and "esr_step_input request = EffectSettled s" and "propose request = Inr p"
  shows "\<exists>active ref rt'. marker_mapping rt ''active_effect_authorization'' = Inr (Some active)
      \<and> runtime_state (prop_state_value p) = Inr rt'
      \<and> pending_effect_plans rt' = pending_effect_plans rt
      \<and> dict_get rt' ''active_effect_authorization'' = PDict active
      \<and> dict_get rt' ''unknown_effect''
          = PDict (dict_set ''indeterminate_input_id'' (PStr (es_input_id s)) active)
      \<and> prop_next_action p = BlockedAction ''indeterminate_dispatch'' (Some ref)
      \<and> ref_effect_id ref = es_effect_id s \<and> ref_attempt_id ref = es_attempt_id s"
proof -
  have "accepts request rt"
    using propose_accepts [OF assms(6) _ assms(2)] assms(3,5) by simp
  then obtain plans active where guard: "settlement_guard rt s = Inr plans"
      and active: "active_effect_authorization rt = Inr active"
    using assms(4,5) by (auto simp: accepts_def is_ok_iff)
  then have "dict_get rt ''active_effect_authorization'' = PDict active"
    by (auto simp: active_effect_authorization_def marker_mapping_def Let_def
        split: if_splits option.splits)
  moreover obtain plan rest where "plans = plan # rest" "plan_effect_id plan = es_effect_id s"
      "plan_attempt_id plan = es_attempt_id s"
    using guard by (auto simp: settlement_guard_Inr require_next_effect_Inr)
  ultimately show ?thesis
    using propose_indeterminate_eq [OF assms(1,2) guard assms(4) active request_split] assms(5,6)
    by (auto simp: propose_def unknown_runtime_def marker_mapping_def EffectReference_from_plan_def
        EffectReference_init_def res_simps split: option.splits)
qed




text \<open>C33: No approval, no dispatch: the engine proposes to dispatch a plan that requires
  approval only as the answer to an approved \<open>ApprovalResolved\<close> input whose transition id is
  the committed one and whose four identities are those of the plan, the first pending one;
  the approving command is then the one disposition, applied.\<close>

theorem dispatch_needs_approval:
  assumes "engine_ok (osv_value (esr_state_version request))"
    and "osv_run_id (esr_state_version request) \<noteq> []"
    and "input_ok (esr_step_input request)"
    and "runtime_state (osv_value (esr_state_version request)) = Inr rt"
    and "propose request = Inr p"
    and "prop_next_action p = PreparedEffectAction plan DISPATCH"
    and "plan_requires_approval plan"
  shows "\<exists>s rest. esr_step_input request = ApprovalResolved s \<and> ap_approved s
      \<and> pending_effect_plans rt = Inr (plan # rest)
      \<and> ap_transition_id s = cr_transition_id (osv_commit_ref (esr_state_version request))
      \<and> effect_plan_identity plan
          = Inr (ap_effect_id s, ap_attempt_id s, ap_tool_call_id s, ap_tool_name s)
      \<and> prop_dispositions p = [AppliedCommandDisposition (ap_command_id s)]"
proof -
  note acc = propose_accepts [OF assms(5,3,4)]
  have no_gate: "action_after ps a \<noteq> PreparedEffectAction plan DISPATCH"
    if "\<And>q k. a \<noteq> PreparedEffectAction q k" for ps a
    using that assms(7) by (cases ps) (auto simp: action_of_plan_def split: if_splits)
  have terminal: "TerminalAction m c \<noteq> PreparedEffectAction q k" for m c q k
    by simp
  have settles: "\<not> settles_to run v rt' ps w (PreparedEffectAction plan DISPATCH)" for run v rt' ps w
  proof
    assume "settles_to run v rt' ps w (PreparedEffectAction plan DISPATCH)"
    then obtain req where "PreparedEffectAction plan DISPATCH
        = action_after ps (ModelGenerationAction req)"
      by (auto simp: settles_to_def)
    then show False using no_gate [of "ModelGenerationAction req" ps] by simp
  qed
  show ?thesis
  proof (cases rule: propose_cases [of request])
    case (Initial i)
    have v: "frozen_dict (osv_value (esr_state_version request))"
      "context_ok (osv_value (esr_state_version request))"
      using assms(1) by (auto simp: engine_ok_def)
    show ?thesis
      using propose_initial_eq [OF assms(2) v] assms(3,5,6) Initial by (auto simp: propose_def)
  next
    case (Completion r)
    then obtain q where "propose_model_completion request r = Inr q"
        "prop_next_action q = action_after
           (indexed_plans (transition_id_of request) 0 (gen_tool_calls r))
           (TerminalAction (Some (gen_assistant_content r)) ''no_tool_calls'')"
      using propose_model_completion_eq [OF assms(1,4) _ _ request_split refl, of r] acc assms(3)
      by (auto simp: accepts_def)
    moreover from this(1) have "q = p" using Completion assms(5) by (simp add: propose_def)
    ultimately show ?thesis using assms(6) no_gate using terminal by metis
  next
    case (Terminal s)
    then obtain plans where guard: "settlement_guard rt s = Inr plans"
      using acc by (auto simp: accepts_def is_ok_iff)
    have "frozen (es_result s)" using assms(3) Terminal by (simp add: settlement_ok_def)
    from propose_settlement_eq [OF assms(1,2,4) guard Terminal(2) this request_split]
    show ?thesis using assms(5,6) Terminal(1) settles by (auto simp: propose_def)
  next
    case (Indeterminate s)
    then show ?thesis
      using acc propose_indeterminate_eq [OF assms(1,4) _ Indeterminate(2) _ request_split] assms(5,6)
      by (fastforce simp: propose_def accepts_def is_ok_iff)
  next
    case (Grant s)
    then obtain plans where guard: "approval_guard request rt s = Inr plans"
      using acc by (auto simp: accepts_def is_ok_iff)
    with propose_grant_eq [OF assms(1,4) guard _ Grant(2)] Grant assms(3,5,6)
    show ?thesis
      by (auto simp: propose_def approval_guard_Inr require_next_effect_Inr effect_plan_identity_def)
  next
    case (Denial s)
    then obtain plans where guard: "approval_guard request rt s = Inr plans"
      using acc by (auto simp: accepts_def is_ok_iff)
    from propose_denial_eq [OF assms(1,2,4) guard _ Denial(2) request_split]
    show ?thesis using assms(3,5,6) Denial(1) settles by (auto simp: propose_def)
  qed
qed

lemma dispatch_needs_approval_witness:
  "\<exists>p. propose (demo_approving True None) = Inr p
     \<and> prop_dispositions p = [AppliedCommandDisposition ''c'']"
proof -
  let ?r = "demo_approving True None"
  have pre: "engine_ok (osv_value (esr_state_version ?r))" "osv_run_id (esr_state_version ?r) \<noteq> []"
      "input_ok (esr_step_input ?r)" "plan_requires_approval (demo_plan True ''b'')"
      "map_res prop_next_action (propose ?r)
         = Inr (PreparedEffectAction (demo_plan True ''b'') DISPATCH)"
    by code_simp+
  obtain rt where rt: "runtime_state (osv_value (esr_state_version ?r)) = Inr rt"
    using pre(1) engine_ok_runtime by blast
  obtain p where p: "propose ?r = Inr p"
      "prop_next_action p = PreparedEffectAction (demo_plan True ''b'') DISPATCH"
    using pre(5) by (auto simp: map_res_eq_Inr)
  show ?thesis
    using dispatch_needs_approval [OF pre(1-3) rt p pre(4)] p
    by (auto simp: demo_approving_def demo_approval_def)
qed

text \<open>A denial closes the gated effect without ever authorizing it: the plan leaves the
  pending list, the command is recorded as rejected with the denial's reason, and the run goes
  on with the next plan or the next round.\<close>

theorem denial_drops_plan:
  assumes "engine_ok (osv_value (esr_state_version request))"
    and "osv_run_id (esr_state_version request) \<noteq> []"
    and "runtime_state (osv_value (esr_state_version request)) = Inr rt"
    and "approval_ok s" and "\<not> ap_approved s"
    and "esr_step_input request = ApprovalResolved s" and "propose request = Inr p"
  shows "\<exists>plan rest rt' req c. pending_effect_plans rt = Inr (plan # rest)
      \<and> plan_requires_approval plan \<and> plan_effect_id plan = ap_effect_id s
      \<and> runtime_state (prop_state_value p) = Inr rt' \<and> pending_effect_plans rt' = Inr rest
      \<and> ap_rejection_reason_code s = Some c
      \<and> prop_dispositions p = [RejectedCommandDisposition (ap_command_id s) c]
      \<and> prop_next_action p = action_after rest (ModelGenerationAction req)"
proof -
  have "accepts request rt"
    using propose_accepts [OF assms(7) _ assms(3)] assms(4,6) by simp
  then obtain plans where guard: "approval_guard request rt s = Inr plans"
    using assms(6) by (auto simp: accepts_def is_ok_iff)
  then obtain plan rest where plans: "plans = plan # rest" "pending_effect_plans rt = Inr plans"
      "plan_effect_id plan = ap_effect_id s" "plan_requires_approval plan"
    by (auto simp: approval_guard_Inr require_next_effect_Inr)
  from propose_denial_eq [OF assms(1-3) guard assms(4,5) request_split] assms(6,7)
  obtain v c where to: "settles_to (osv_run_id (esr_state_version request)) v
      (denied_runtime rt rest) rest (prop_state_value p) (prop_next_action p)"
      and c: "ap_rejection_reason_code s = Some c"
        "prop_dispositions p = [RejectedCommandDisposition (ap_command_id s) c]"
    by (auto simp: propose_def plans(1))
  have "list_all plan_ok rest"
    using pending_of_engine_ok(4) [OF assms(1,3) plans(2)] plans(1) by simp
  then have "bind_res (runtime_state (prop_state_value p)) pending_effect_plans = Inr rest"
    by (intro settles_to_pending [OF to]) (simp add: denied_runtime_def)
  with to plans c show ?thesis
    by (auto simp: settles_to_def bind_res_eq_Inr)
qed

end
