(* ===== verification/Segment_Theorems.thy ===== *)
theory Segment_Theorems
  imports Segment_Laws Engine_Theorems
begin

text \<open>
  The properties of the segment loop: the bound on its rounds, the order of its port calls
  (authorize, claim and execute once, settle before anything else), what a raised control
  stops, and the agreement between what it dispatches and what the engine accepts back.
\<close>

section \<open>Reading a trace\<close>

lemma duty_after_append: "duty_after (xs @ ys) = foldl duty_next (duty_after xs) ys"
  by (simp add: duty_after_def)

lemma duty_next_simps [simp]:
  "duty_next None e = None"
  "duty_next (Some d) e = duty_step d e"
  by (simp_all add: duty_next_def)

lemma duty_next_None [simp]: "foldl duty_next None ys = None"
  by (induction ys) simp_all

lemma duty_after_split:
  assumes "duty_after (xs @ ev # ys) = Some d"
  obtains d1 d2 where "duty_after xs = Some d1" "duty_step d1 ev = Some d2"
    "foldl duty_next (Some d2) ys = Some d"
proof -
  from assms have *: "foldl duty_next (duty_next (duty_after xs) ev) ys = Some d"
    by (simp add: duty_after_append)
  then obtain d2 where d2: "duty_next (duty_after xs) ev = Some d2"
    by (cases "duty_next (duty_after xs) ev") auto
  then obtain d1 where "duty_after xs = Some d1" "duty_step d1 ev = Some d2"
    by (cases "duty_after xs") auto
  with * d2 that show thesis by simp
qed

text \<open>New work of a segment.\<close>

fun is_work :: "event \<Rightarrow> bool" where
  "is_work (EvAuthorize _ _) = True"
| "is_work (EvExecute _ _) = True"
| "is_work (EvGenerate _) = True"
| "is_work _ = False"

text \<open>The input whose proposal an event has committed.\<close>

fun commit_input :: "event \<Rightarrow> EngineStepInput option" where
  "commit_input (EvTransition c res) =
     (if commits res then Some (esr_step_input (ctr_engine_request c)) else None)"
| "commit_input (EvSettle c res) =
     (if commits res then Some (esr_step_input (csr_engine_request c)) else None)"
| "commit_input _ = None"

lemma paid_not_held [simp]: "paid d \<noteq> Held r p st"
  using paid_cases [of d] by auto

lemma held_ready_from:
  "duty_after xs = Some (Held r p Ready) \<Longrightarrow>
     \<exists>us v ns rc vs. xs = us @ EvAuthorize r (Inr (DispatchAuthorizedResult v p ns rc)) # vs
       \<and> (\<forall>e \<in> set vs. \<not> is_work e)"
proof (induction xs rule: rev_induct)
  case (snoc ev xs)
  then obtain d where d: "duty_after xs = Some d" "duty_step d ev = Some (Held r p Ready)"
    by (auto split: option.splits)
  show ?case
  proof (cases "\<exists>q res. ev = EvAuthorize q res")
    case True
    with d obtain v ns rc where "ev = EvAuthorize r (Inr (DispatchAuthorizedResult v p ns rc))"
      by (auto simp: duty_step_def split: if_splits sum.splits CommitResult.splits)
    then show ?thesis by fastforce
  next
    case False
    with d have "d = Held r p Ready" "\<not> is_work ev"
      by (auto simp: duty_step_def commit_duty_def settles_held_def
          split: event.splits if_splits duty.splits exec_status.splits Settlement.splits)
    with snoc.IH d(1) obtain us v ns rc vs where
        "xs = us @ EvAuthorize r (Inr (DispatchAuthorizedResult v p ns rc)) # vs"
        "\<forall>e \<in> set vs. \<not> is_work e"
      by blast
    with \<open>\<not> is_work ev\<close> have "xs @ [ev] =
        us @ EvAuthorize r (Inr (DispatchAuthorizedResult v p ns rc)) # (vs @ [ev])"
      "\<forall>e \<in> set (vs @ [ev]). \<not> is_work e"
      by auto
    then show ?thesis by blast
  qed
qed simp

text \<open>Where an execution in a trace comes from.\<close>

lemma execute_authorized:
  assumes "duty_after (xs @ EvExecute q res # ys) = Some d"
  shows "\<exists>us r sv p ns rc vs. xs = us @ EvAuthorize r (Inr (DispatchAuthorizedResult sv p ns rc)) # vs
      \<and> (\<forall>e \<in> set vs. \<not> is_work e) \<and> is_ok (DispatchAuthorizationRequest_init r)
      \<and> permit_for r p \<and> \<not> permit_claimed p \<and> q = p\<lparr>permit_claimed := True\<rparr>"
proof -
  obtain d1 d2 where d: "duty_after xs = Some d1" "duty_step d1 (EvExecute q res) = Some d2"
    using assms by (rule duty_after_split)
  then obtain r p where held: "d1 = Held r p Ready" "permit_for r p" "\<not> permit_claimed p"
      "q = p\<lparr>permit_claimed := True\<rparr>"
    by (auto simp: duty_step_def split: duty.splits exec_status.splits if_splits)
  obtain us sv ns rc vs where
      xs: "xs = us @ EvAuthorize r (Inr (DispatchAuthorizedResult sv p ns rc)) # vs"
      "\<forall>e \<in> set vs. \<not> is_work e"
    using held_ready_from d(1) held(1) by blast
  obtain d3 where "duty_after (us @ EvAuthorize r (Inr (DispatchAuthorizedResult sv p ns rc)) # vs)
      = Some d3"
    using d(1) xs(1) by simp
  then obtain d4 d5 where "duty_step d4 (EvAuthorize r (Inr (DispatchAuthorizedResult sv p ns rc)))
      = Some d5"
    by (rule duty_after_split)
  then have "is_ok (DispatchAuthorizationRequest_init r)"
    by (auto simp: duty_step_def split: if_splits)
  with xs held show ?thesis by blast
qed

text \<open>While a settlement is owed, only its own commit lets the segment go on.\<close>

lemma held_until_commit:
  assumes "foldl duty_next (Some (Held r p st)) ys = Some d" "st \<noteq> Ready"
  shows "d = Held r p st \<and> (\<forall>e \<in> set ys. \<not> is_work e)
      \<or> (\<exists>us e vs i. ys = us @ e # vs \<and> commit_input e = Some i \<and> settles_held i p st
           \<and> (\<forall>e \<in> set us. \<not> is_work e))"
  using assms(1)
proof (induction ys)
  case (Cons e ys)
  obtain d1 where d1: "duty_step (Held r p st) e = Some d1" "foldl duty_next (Some d1) ys = Some d"
    using Cons.prems by (cases "duty_step (Held r p st) e") auto
  consider (commit) i where "commit_input e = Some i" "settles_held i p st"
    | (stay) "d1 = Held r p st" "\<not> is_work e"
    using d1(1) assms(2)
    by (cases e) (auto simp: duty_step_def commit_duty_def split: if_splits exec_status.splits)
  then show ?case
  proof cases
    case commit
    then show ?thesis by (metis append_Nil empty_iff list.set(1))
  next
    case stay
    with Cons.IH d1(2) consider "d = Held r p st" "\<forall>e \<in> set ys. \<not> is_work e"
      | us e' vs i where "ys = us @ e' # vs" "commit_input e' = Some i" "settles_held i p st"
          "\<forall>e \<in> set us. \<not> is_work e"
      by blast
    then show ?thesis
    proof cases
      case 1
      with stay show ?thesis by simp
    next
      case 2
      with stay have "e # ys = (e # us) @ e' # vs" "\<forall>e \<in> set (e # us). \<not> is_work e" by auto
      with 2(2,3) show ?thesis by blast
    qed
  qed
qed simp

lemma stopped_stays:
  "foldl duty_next (Some Stopped) ys = Some d \<Longrightarrow> (\<forall>e \<in> set ys. \<not> is_work e)"
proof (induction ys)
  case (Cons e ys)
  obtain d1 where d1: "duty_step Stopped e = Some d1" "foldl duty_next (Some d1) ys = Some d"
    using Cons.prems by (cases "duty_step Stopped e") auto
  then have "d1 = Stopped" "\<not> is_work e"
    by (cases e; auto simp: duty_step_def commit_duty_def split: if_splits)+
  with d1 Cons.IH show ?case by simp
qed simp

lemma withheld_stays:
  "foldl duty_next (Some (Held r p Withheld)) ys = Some d \<Longrightarrow> (\<forall>e \<in> set ys. \<not> is_work e)"
proof (induction ys)
  case (Cons e ys)
  obtain d1 where d1: "duty_step (Held r p Withheld) e = Some d1" "foldl duty_next (Some d1) ys = Some d"
    using Cons.prems by (cases "duty_step (Held r p Withheld) e") auto
  then have "d1 = Held r p Withheld \<or> d1 = Stopped" "\<not> is_work e"
    by (cases e; auto simp: duty_step_def commit_duty_def split: if_splits)+
  with d1 Cons.IH stopped_stays [of ys d] show ?case by auto
qed simp

text \<open>The trace of a run obeys the protocol.\<close>

lemma run_segment_protocol:
  assumes "run_segment ports request w = Some (v, h)"
  shows "\<exists>d. duty_after (host_trace h) = Some d
     \<and> (case v of Inl _ \<Rightarrow> True | Inr out \<Rightarrow> is_failed out \<or> d = Free \<or> d = Stopped)"
proof (cases "mailbox_cut_of request")
  case (Inl e)
  with assms show ?thesis by (auto simp: run_segment_def start_host_def)
next
  case (Inr n)
  with assms obtain s where
      "step_loop (seg_step ports request) (seg_start request n w) = Some (v, s)" "h = sg_host s"
    by (auto simp: run_segment_def seg_loop_def)
  with protocol.loop_post [OF protocol_start] show ?thesis
    by (auto simp: protocol_end_def owes_def)
qed

section \<open>A sample segment\<close>

text \<open>
  The ports of the sample count the observations of the control probe and raise it from the
  observation \<open>n\<close> on; the commit port accepts what it is given. The segment resumes with the
  approval of its one pending plan.
\<close>

definition demo_observe :: "nat \<Rightarrow> nat \<Rightarrow> ControlSnapshot res \<times> nat" where
  "demo_observe n k =
     (Inr \<lparr>snap_generation = int k, snap_raised = (n \<le> k),
           snap_reason = (if n \<le> k then Some ''stop'' else None)\<rparr>, Suc k)"

definition demo_next_version :: "EngineStepRequest \<Rightarrow> TransitionProposal \<Rightarrow> OperationStateVersion" where
  "demo_next_version er p =
     demo_version (osv_revision (esr_state_version er) + 1) (prop_transition_id p)
       (prop_state_value p)"

definition demo_ports :: "nat \<Rightarrow> nat ports" where
  "demo_ports n =
     \<lparr>port_observe = demo_observe n,
      port_commit_transition = (\<lambda>r k.
        (Inr (CommittedCommitResult
           (demo_next_version (ctr_engine_request r) (ctr_proposal r)) [] None), k)),
      port_commit_settlement = (\<lambda>r k.
        (Inr (CommittedCommitResult
           (demo_next_version (csr_engine_request r) (csr_proposal r)) [] None), k)),
      port_authorize_dispatch = (\<lambda>r k.
        (map_res (\<lambda>p. DispatchAuthorizedResult
             (demo_next_version (dar_engine_request r) (dar_proposal r)) p [] None)
           (DispatchPermit_issue ''tok'' (dar_session_id r) (plan_effect_id (dar_effect_plan r))
              (plan_attempt_id (dar_effect_plan r)) (prop_transition_id (dar_proposal r))
              (dar_owner_epoch r) (plan_idempotency_key (dar_effect_plan r))), k)),
      port_commit_reconciliation = (\<lambda>r k.
        (Inr (CASConflictCommitResult (crr_state_version r)), k)),
      port_execute = (\<lambda>p k. (Inr (EffectCompletedResult (PStr ''x'')), k)),
      port_generate = (\<lambda>r k. k),
      port_race = (\<lambda>g k. (RaceCancelled, k)),
      port_drain_generate = (\<lambda>k. (([], None), k)),
      port_drain_wait = (\<lambda>k. (None, k)),
      port_emit_frame = (\<lambda>f k. (Inr (), k)),
      port_emit_fact = (\<lambda>f k. (Inr (), k))\<rparr>"

definition demo_segment :: RunSegmentRequest where
  "demo_segment =
     \<lparr>seg_session_id = ''se'', seg_owner_id = ''o'', seg_owner_epoch = 1,
      seg_state_version = demo_version 4 ''s''
        (demo_value [demo_plan True ''b''] [(''mailbox_cut'', PInt 1)]),
      seg_step_input = ApprovalResolved (demo_approval True None), seg_max_rounds = 2\<rparr>"

definition demo_result_of :: "nat \<Rightarrow> (SegmentOutcome res \<times> nat seg) option" where
  "demo_result_of n = step_fuel (seg_step (demo_ports n) demo_segment) 9 (seg_start demo_segment 1 0)"

fun is_execute :: "event \<Rightarrow> bool" where
  "is_execute (EvExecute _ _) = True"
| "is_execute _ = False"

fun is_raised :: "event \<Rightarrow> bool" where
  "is_raised (EvObserve (Inr s)) = snap_raised s"
| "is_raised _ = False"

lemma demo_run:
  assumes "demo_result_of n = Some (v, s)"
  shows "run_segment (demo_ports n) demo_segment 0 = Some (v, sg_host s)"
proof -
  have "mailbox_cut_of demo_segment = Inr 1" by code_simp
  then show ?thesis
    using step_fuel_loop assms by (fastforce simp: run_segment_def seg_loop_def demo_result_of_def)
qed

text \<open>The sample run: the approved effect is executed, settled, and control then stops it.\<close>

lemma demo_segment_runs:
  obtains out h xs q res ys us sn vs where
    "run_segment (demo_ports 3) demo_segment 0 = Some (Inr out, h)" "\<not> is_failed out"
    "host_trace h = xs @ EvExecute q res # ys" "host_trace h = us @ EvObserve (Inr sn) # vs"
    "snap_raised sn"
proof -
  have ran: "case demo_result_of 3 of
      Some (Inr out, s) \<Rightarrow> \<not> is_failed out \<and> list_ex is_execute (host_trace (sg_host s))
        \<and> list_ex is_raised (host_trace (sg_host s))
    | _ \<Rightarrow> False"
    by code_simp
  obtain v s where vs: "demo_result_of 3 = Some (v, s)"
    using ran by (cases "demo_result_of 3") auto
  obtain out where v: "v = Inr out"
    using ran vs by (cases v) auto
  from ran vs v obtain e e' where run: "demo_result_of 3 = Some (Inr out, s)" "\<not> is_failed out"
      and e: "e \<in> set (host_trace (sg_host s))" "is_execute e"
      and e': "e' \<in> set (host_trace (sg_host s))" "is_raised e'"
    by (auto simp: list_ex_iff)
  obtain q res where "e = EvExecute q res" using e(2) by (cases e) auto
  moreover obtain sn where "e' = EvObserve (Inr sn)" "snap_raised sn"
    using e'(2) by (cases e' rule: is_raised.cases) auto
  ultimately show thesis
    using that demo_run [OF run(1)] run(2) split_list [OF e(1)] split_list [OF e'(1)] by blast
qed

section \<open>Properties\<close>

text \<open>A segment never runs more model rounds than its request allows, and reports the
  rounds it ran: whatever the ports do, an outcome's \<open>steps_taken\<close> lies between 0 and
  \<open>max_rounds\<close>.\<close>

theorem rounds_bounded:
  assumes "run_segment ports request w = Some (Inr out, h)" and "0 < seg_max_rounds request"
  shows "0 \<le> outcome_steps out \<and> outcome_steps out \<le> seg_max_rounds request"
proof (cases "mailbox_cut_of request")
  case (Inl e)
  with assms(1) show ?thesis by (simp add: run_segment_def)
next
  case (Inr n)
  with assms(1) obtain s where
      "step_loop (seg_step ports request) (seg_start request n w) = Some (Inr out, s)"
    by (auto simp: run_segment_def seg_loop_def)
  moreover have "rounds_ok request (seg_start request n w)"
    using assms(2) by (simp add: rounds_ok_def seg_start_def)
  ultimately show ?thesis
    using rounds.loop_post by (fastforce simp: rounds_end_def)
qed

text \<open>C3: An effect is executed only under its own fresh permit: every call of the executor
  comes after an authorization, with no other work in between, by a valid request whose plan,
  session, owner epoch and transition the permit carries; the permit was unclaimed and is
  claimed for the call, so it is used once.\<close>

theorem execute_needs_permit:
  assumes "run_segment ports request w = Some (v, h)"
    and "host_trace h = xs @ EvExecute q res # ys"
  shows "\<exists>us r sv p ns rc vs. xs = us @ EvAuthorize r (Inr (DispatchAuthorizedResult sv p ns rc)) # vs
      \<and> (\<forall>e \<in> set vs. \<not> is_work e) \<and> is_ok (DispatchAuthorizationRequest_init r)
      \<and> permit_for r p \<and> \<not> permit_claimed p \<and> q = p\<lparr>permit_claimed := True\<rparr>"
proof -
  obtain d where "duty_after (xs @ EvExecute q res # ys) = Some d"
    using run_segment_protocol [OF assms(1)] assms(2) by auto
  then show ?thesis by (rule execute_authorized)
qed

lemma execute_needs_permit_witness:
  "\<exists>h r p. (\<exists>out. run_segment (demo_ports 3) demo_segment 0 = Some (out, h)) \<and> permit_for r p
     \<and> is_ok (DispatchAuthorizationRequest_init r)"
  using demo_segment_runs execute_needs_permit by metis

text \<open>C4: What was executed is settled before anything else: after an effect ran, the segment
  neither calls the model nor authorizes nor executes before it has committed the settlement
  of that very effect under that authorization, and it ends with an outcome other than a
  failure only after that commit.\<close>

theorem execute_then_settle:
  assumes "run_segment ports request w = Some (Inr out, h)"
    and "host_trace h = xs @ EvExecute q res # ys"
    and "\<not> is_failed out \<or> (\<exists>e \<in> set ys. is_work e)"
  shows "\<exists>us e vs s. ys = us @ e # vs \<and> (\<forall>e \<in> set us. \<not> is_work e)
      \<and> commit_input e = Some (EffectSettled s) \<and> bound_to s q"
proof -
  obtain d where d: "duty_after (xs @ EvExecute q res # ys) = Some d"
      "is_failed out \<or> d = Free \<or> d = Stopped"
    using run_segment_protocol [OF assms(1)] assms(2) by auto
  obtain d1 d2 where d12: "duty_step d1 (EvExecute q res) = Some d2"
      "foldl duty_next (Some d2) ys = Some d"
    using duty_after_split [OF d(1)] by metis
  then obtain r p where held: "d2 = Held r p Ran" "q = p\<lparr>permit_claimed := True\<rparr>"
    by (auto simp: duty_step_def split: duty.splits exec_status.splits if_splits)
  have "\<exists>us e vs i. ys = us @ e # vs \<and> commit_input e = Some i \<and> settles_held i p Ran
           \<and> (\<forall>e \<in> set us. \<not> is_work e)"
    using held_until_commit [of r p Ran ys d] d12(2) held(1) d(2) assms(3) by auto
  then obtain us e vs i where us: "ys = us @ e # vs" "commit_input e = Some i"
      "settles_held i p Ran" "\<forall>e \<in> set us. \<not> is_work e"
    by blast
  then obtain s where "i = EffectSettled s" "bound_to s q"
    using held(2) by (auto simp: settles_held_def bound_to_def split: EngineStepInput.splits)
  with us show ?thesis by blast
qed

lemma execute_then_settle_witness:
  "\<exists>h. (\<exists>out. run_segment (demo_ports 3) demo_segment 0 = Some (out, h))
     \<and> (\<exists>e s. e \<in> set (host_trace h) \<and> commit_input e = Some (EffectSettled s))"
proof -
  obtain out h xs q res ys where run: "run_segment (demo_ports 3) demo_segment 0 = Some (Inr out, h)"
      "host_trace h = xs @ EvExecute q res # ys" "\<not> is_failed out"
    using demo_segment_runs by metis
  obtain us e vs s where "ys = us @ e # vs" "commit_input e = Some (EffectSettled s)"
    using execute_then_settle [OF run(1,2)] run(3) by blast
  then have "e \<in> set (host_trace h)" using run(2) by simp
  with run(1) \<open>commit_input e = Some (EffectSettled s)\<close> show ?thesis by blast
qed

text \<open>C10: Raised control stops new work: once the coordinator has observed a raised snapshot, it
  neither calls the model nor authorizes nor executes for the rest of the segment; at most it
  commits the settlement it already owes.\<close>

theorem control_stops_work:
  assumes "run_segment ports request w = Some (v, h)"
    and "host_trace h = xs @ EvObserve (Inr snap) # ys" and "snap_raised snap"
  shows "\<forall>e \<in> set ys. \<not> is_work e"
proof -
  obtain d where d: "duty_after (xs @ EvObserve (Inr snap) # ys) = Some d"
    using run_segment_protocol [OF assms(1)] assms(2) by auto
  obtain d1 d2 where d12: "duty_step d1 (EvObserve (Inr snap)) = Some d2"
      "foldl duty_next (Some d2) ys = Some d"
    using duty_after_split [OF d] by metis
  then consider "d2 = Stopped" | r p where "d2 = Held r p Withheld"
    using assms(3)
    by (auto simp: duty_step_def control_raised_def split: duty.splits exec_status.splits)
  then show ?thesis
  proof cases
    case 1
    with stopped_stays d12(2) show ?thesis by blast
  next
    case (2 r p)
    from withheld_stays [of r p ys d] d12(2) 2 show ?thesis by blast
  qed
qed

lemma control_stops_work_witness:
  "\<exists>h xs sn ys. (\<exists>out. run_segment (demo_ports 3) demo_segment 0 = Some (out, h))
     \<and> host_trace h = xs @ EvObserve (Inr sn) # ys \<and> (\<forall>e \<in> set ys. \<not> is_work e)"
proof -
  obtain out h us sn vs where run: "run_segment (demo_ports 3) demo_segment 0 = Some (Inr out, h)"
      "host_trace h = us @ EvObserve (Inr sn) # vs" "snap_raised sn"
    using demo_segment_runs by metis
  with control_stops_work [OF run] show ?thesis by blast
qed

section \<open>Dispatch and settlement agree\<close>

text \<open>The first pending plan, read back by the two readers of the code.\<close>

lemma effect_plan_of_value_fields:
  assumes "effect_plan_of_value raw = Inr plan" "frozen raw"
  obtains d payload where "raw = PDict d" "dict_get d ''payload'' = PDict payload"
    "plan_payload plan = payload" "dict_get d ''effect_id'' = PStr (plan_effect_id plan)"
    "dict_get d ''attempt_id'' = PStr (plan_attempt_id plan)"
proof -
  obtain d payload where d: "raw = PDict d" "dict_get d ''payload'' = PDict payload"
    using assms(1) by (auto simp: effect_plan_of_value_def split: option.splits)
  have "frozen_dict payload"
    using frozen_get [of d "''payload''"] assms(2) d by simp
  with assms(1) d show thesis
    by (intro that)
       (auto simp: effect_plan_of_value_def required_string_def EffectPlan_init_def res_simps
         split: option.splits)
qed

lemma pending_identity:
  assumes "frozen_dict rt" "pending_effect_plans rt = Inr (plan # rest)" "tool_plan plan"
    and "dict_get (osv_value sv) runtime_key = PDict rt"
  shows "\<exists>c n. plan_tool_identity plan = Inr (c, n)
     \<and> pending_effect_identity sv = Inr (plan_effect_id plan, plan_attempt_id plan, c, n)"
proof -
  obtain xs where xs: "as_seq (dict_get_or rt ''pending_effect_plans'' (PTuple [])) = Some xs"
      "traverse_res effect_plan_of_value xs = Inr (plan # rest)"
    using assms(2) by (auto simp: pending_effect_plans_def split: option.splits)
  then obtain raw raws where raws: "as_seq (dict_get_or rt ''pending_effect_plans'' (PTuple []))
      = Some (raw # raws)" "effect_plan_of_value raw = Inr plan"
    by (cases xs) (auto simp: bind_res_eq_Inr)
  then have get: "as_seq (dict_get rt ''pending_effect_plans'') = Some (raw # raws)"
    by (auto simp: dict_get_or_def dict_get_def split: option.splits)
  have "frozen (dict_get rt ''pending_effect_plans'')" using assms(1) by (rule frozen_get)
  with get have "frozen raw" by (auto simp: as_seq_Some)
  then obtain d payload where d: "raw = PDict d" "dict_get d ''payload'' = PDict payload"
      "plan_payload plan = payload" "dict_get d ''effect_id'' = PStr (plan_effect_id plan)"
      "dict_get d ''attempt_id'' = PStr (plan_attempt_id plan)"
    using effect_plan_of_value_fields [OF raws(2)] by blast
  obtain c n where "dict_get payload ''tool_call_id'' = PStr c" "c \<noteq> []"
      "dict_get payload ''tool_name'' = PStr n" "n \<noteq> []"
    using assms(3) d(3) by (auto simp: tool_plan_def)
  moreover have "plan_effect_id plan \<noteq> []" "plan_attempt_id plan \<noteq> []"
    using assms(3) by (auto simp: tool_plan_def plan_ok_def)
  ultimately show ?thesis
    using d get assms(4)
    by (simp add: plan_tool_identity_def pending_effect_identity_def identity_value_def)
qed

lemma with_active_value:
  assumes "with_active_effect_authorization p0 n = Inr p"
    and "prop_next_action p0 = PreparedEffectAction plan k"
    and "frozen_dict (prop_state_value p0)"
    and "dict_get (prop_state_value p0) runtime_key = PDict rt"
    and "plan_tool_identity plan = Inr (c, m)"
  shows "prop_state_value p = with_runtime_state (prop_state_value p0)
       (dict_set ''active_effect_authorization''
          (PDict (authorization_marker plan c m (prop_transition_id p) n)) rt)"
proof -
  have "frozen_dict rt" using frozen_get [OF assms(3), of runtime_key] assms(4) by simp
  then have "frozen_dict (with_runtime_state (prop_state_value p0)
       (dict_set ''active_effect_authorization''
          (PDict (authorization_marker plan c m (prop_transition_id p0) n)) rt))"
    using assms(3) by (simp add: with_runtime_frozen authorization_marker_def)
  moreover have "dict_get_or (prop_state_value p0) runtime_key (PDict []) = PDict rt"
    using assms(4) by (auto simp: dict_get_or_def dict_get_def split: option.splits)
  ultimately show ?thesis
    using assms(1,2,5)
    by (auto simp: with_active_effect_authorization_def TransitionProposal_init_def res_simps)
qed

lemma effect_settlement_tool:
  assumes "effect_settlement plan tid n out = Inr s" "plan_tool_identity plan = Inr (c, m)"
  shows "es_tool_call_id s = c" "es_tool_name s = m" "settlement_ok s"
proof -
  show "es_tool_call_id s = c" "es_tool_name s = m"
    using assms
    by (cases out; auto simp: effect_settlement_def EffectSettlement_completed_def
        EffectSettlement_init_def res_simps Let_def)+
  show "settlement_ok s"
    using assms
    by (cases out) (auto simp: effect_settlement_def EffectSettlement_completed_def Let_def
        dest: EffectSettlement_init_ok)
qed

lemma py_eq_str_dicts: "py_eq (PDict (dict_of
   [(''effect_id'', PStr a), (''attempt_id'', PStr b), (''tool_call_id'', PStr c),
    (''tool_name'', PStr d), (''authorization_transition_id'', PStr e)]))
  (PDict (dict_of
   [(''effect_id'', PStr a), (''attempt_id'', PStr b), (''tool_call_id'', PStr c),
    (''tool_name'', PStr d), (''authorization_transition_id'', PStr e)]))"
  by (simp add: dict_of_def)

text \<open>C27: What the coordinator dispatches, the engine takes back: on the state its dispatch
  authorization commits for the first pending plan, the settlement it builds from whatever the
  executor answered passes the settlement binding of the contracts, and the engine proposes
  its transition; no answer of the executor can leave the segment stuck there.\<close>

theorem dispatched_settlement_accepted:
  assumes ok: "engine_ok (prop_state_value p0)"
    and rt: "dict_get (prop_state_value p0) runtime_key = PDict rt"
    and plans: "pending_effect_plans rt = Inr (plan # rest)"
    and clean: "dict_get rt ''unknown_effect'' = PNone" "dict_get rt ''reconciled_effect'' = PNone"
    and action: "prop_next_action p0 = PreparedEffectAction plan DISPATCH"
    and auth: "with_active_effect_authorization p0 n = Inr p"
    and settle: "effect_settlement plan (prop_transition_id p) n out = Inr s"
    and sv: "osv_value sv = prop_state_value p" "osv_run_id sv \<noteq> []"
  shows "validate_settlement_binding sv (SettleEffect s) n = Inr ()
     \<and> is_ok (propose \<lparr>esr_state_version = sv, esr_step_input = EffectSettled s\<rparr>)"
proof -
  have rts: "runtime_state (prop_state_value p0) = Inr rt"
    using rt by (simp add: runtime_state_def)
  note st = pending_of_engine_ok [OF ok rts plans]
  have tool: "tool_plan plan" using st(3) by (simp add: pending_is_def)
  obtain c m where id: "plan_tool_identity plan = Inr (c, m)"
    using tool by (auto simp: tool_plan_def plan_tool_identity_def)
  let ?rt = "dict_set ''active_effect_authorization''
          (PDict (authorization_marker plan c m (prop_transition_id p) n)) rt"
  have val: "osv_value sv = with_runtime_state (prop_state_value p0) ?rt"
    using with_active_value [OF auth action _ rt id] ok sv(1) by (simp add: engine_ok_def)
  have frt: "frozen_dict ?rt" using st(2) by (simp add: authorization_marker_def)
  have vkey: "dict_get (osv_value sv) runtime_key = PDict ?rt" by (simp add: val)
  have pid: "pending_effect_identity sv = Inr (plan_effect_id plan, plan_attempt_id plan, c, m)"
    using pending_identity [OF frt _ tool vkey, of rest] plans id by simp
  note shape = effect_settlement_shape(1-4) [OF settle] effect_settlement_tool [OF settle id]
  have tid: "prop_transition_id p \<noteq> []"
    using shape by (auto simp: settlement_ok_def)
  have rec: "runtime_marker sv ''reconciled_effect'' = Inr None"
    using vkey clean by (simp add: runtime_marker_def)
  have act: "runtime_marker sv ''active_effect_authorization''
      = Inr (Some (authorization_marker plan c m (prop_transition_id p) n))"
    using vkey by (simp add: runtime_marker_def)
  have "validate_settlement_binding sv (SettleEffect s) n = Inr ()"
    using shape pid rec act tid
    by (simp add: validate_settlement_binding_def retained_authorization_transition_id_def
        validate_reconciled_settlement_binding_def identity_value_def authorization_marker_def
        dict_get_def res_simps)
  moreover have eok: "engine_ok (osv_value sv)"
    using ok st(1) frt unfolding val
    by (simp add: engine_ok_with with_runtime_frozen engine_ok_def)
       (simp add: runtime_ok_def markers_ok_def commands_ok_def)
  moreover have rts': "runtime_state (osv_value sv) = Inr ?rt" by (simp add: val)
  moreover have "accepts \<lparr>esr_state_version = sv, esr_step_input = EffectSettled s\<rparr> ?rt"
  proof -
    have "validate_effect_settlement_authorization ?rt s = Inr ()"
      using shape clean py_eq_str_dicts [of "plan_effect_id plan" "plan_attempt_id plan" c m
          "prop_transition_id p"]
      by (simp add: validate_effect_settlement_authorization_def marker_mapping_def
          authorization_marker_def dict_get_def [of "dict_of _"] Let_def)
    moreover have "require_next_effect (plan # rest) (es_effect_id s) (es_attempt_id s)
        (es_tool_call_id s) (es_tool_name s) = Inr ()"
      using shape id by (auto simp: require_next_effect_Inr plan_tool_identity_def
          split: option.splits if_splits)
    ultimately have "settlement_guard ?rt s = Inr (plan # rest)"
      using plans clean by (simp add: settlement_guard_Inr)
    then show ?thesis
      by (simp add: accepts_def active_effect_authorization_def)
  qed
  ultimately show ?thesis
    using propose_runs [of "\<lparr>esr_state_version = sv, esr_step_input = EffectSettled s\<rparr>" ?rt]
      sv(2) shape(7)
    by (auto simp: is_ok_iff)
qed

definition demo_prepared :: TransitionProposal where
  "demo_prepared =
     \<lparr>prop_transition_id = ''d'', prop_state_value = demo_value [demo_plan False ''a''] [],
      prop_next_action = PreparedEffectAction (demo_plan False ''a'') DISPATCH,
      prop_pending_facts = [], prop_dispositions = [], prop_effect_plans = []\<rparr>"

lemma dispatched_settlement_accepted_witness:
  "\<exists>p s. with_active_effect_authorization demo_prepared 1 = Inr p
     \<and> effect_settlement (demo_plan False ''a'') (prop_transition_id p) 1
         (EffectCompletedResult PNone) = Inr s
     \<and> is_ok (propose \<lparr>esr_state_version = demo_version 1 ''d'' (prop_state_value p),
                        esr_step_input = EffectSettled s\<rparr>)"
proof -
  have pre: "engine_ok (prop_state_value demo_prepared)"
      "prop_next_action demo_prepared = PreparedEffectAction (demo_plan False ''a'') DISPATCH"
      "map_option (\<lambda>rt. (pending_effect_plans rt, dict_get rt ''unknown_effect'',
           dict_get rt ''reconciled_effect''))
         (as_dict (dict_get (prop_state_value demo_prepared) runtime_key))
       = Some (Inr [demo_plan False ''a''], PNone, PNone)"
      "map_res prop_transition_id (with_active_effect_authorization demo_prepared 1) = Inr ''d''"
      "is_ok (effect_settlement (demo_plan False ''a'') ''d'' 1 (EffectCompletedResult PNone))"
    by code_simp+
  obtain rt where rt: "dict_get (prop_state_value demo_prepared) runtime_key = PDict rt"
      "pending_effect_plans rt = Inr [demo_plan False ''a'']"
      "dict_get rt ''unknown_effect'' = PNone" "dict_get rt ''reconciled_effect'' = PNone"
    using pre(3) by auto
  obtain p where p: "with_active_effect_authorization demo_prepared 1 = Inr p"
      "prop_transition_id p = ''d''"
    using pre(4) by (auto simp: map_res_eq_Inr)
  obtain s where s: "effect_settlement (demo_plan False ''a'') (prop_transition_id p) 1
      (EffectCompletedResult PNone) = Inr s"
    using pre(5) p(2) by (auto simp: is_ok_iff)
  have "osv_value (demo_version 1 ''d'' (prop_state_value p)) = prop_state_value p"
      "osv_run_id (demo_version 1 ''d'' (prop_state_value p)) \<noteq> []"
    by (simp_all add: demo_version_def)
  with dispatched_settlement_accepted [OF pre(1) rt(1-4) pre(2) p(1) s] p(1) s
  show ?thesis by blast
qed

section \<open>Approval of what is authorized\<close>

lemma authorization_approved:
  assumes "is_ok (DispatchAuthorizationRequest_init r)"
    and "plan_requires_approval (dar_effect_plan r)"
  shows "\<exists>a. dar_approval_settlement r = Some a \<and> ap_approved a
     \<and> ap_owner_epoch a = dar_owner_epoch r
     \<and> ap_transition_id a
         = cr_transition_id (osv_commit_ref (esr_state_version (dar_engine_request r)))
     \<and> effect_plan_identity (dar_effect_plan r)
         = Inr (ap_effect_id a, ap_attempt_id a, ap_tool_call_id a, ap_tool_name a)
     \<and> pending_effect_identity (esr_state_version (dar_engine_request r))
         = Inr (ap_effect_id a, ap_attempt_id a, ap_tool_call_id a, ap_tool_name a)"
proof -
  obtain a where a: "dar_approval_settlement r = Some a" "dispatch_approval_check r a = None"
    using assms
    by (cases "dar_approval_settlement r")
       (auto simp: DispatchAuthorizationRequest_init_def is_ok_iff res_simps)
  obtain u where u: "validate_settlement_binding (esr_state_version (dar_engine_request r))
      (SettleApproval a) (dar_owner_epoch r) = Inr u" "ap_approved a"
      "ap_effect_id a = plan_effect_id (dar_effect_plan r)"
      "ap_attempt_id a = plan_attempt_id (dar_effect_plan r)"
    using a(2) by (auto simp: dispatch_approval_check_def is_ok_iff res_simps split: if_splits)
  have ident: "effect_plan_identity (dar_effect_plan r)
      = Inr (ap_effect_id a, ap_attempt_id a, ap_tool_call_id a, ap_tool_name a)"
    using a(2) u
    by (auto simp: dispatch_approval_check_def is_ok_iff res_simps effect_plan_identity_def
        split: if_splits option.splits)
  have "pending_effect_identity (esr_state_version (dar_engine_request r))
      = Inr (ap_effect_id a, ap_attempt_id a, ap_tool_call_id a, ap_tool_name a)"
      "ap_owner_epoch a = dar_owner_epoch r"
      "ap_transition_id a
         = cr_transition_id (osv_commit_ref (esr_state_version (dar_engine_request r)))"
    using u(1)
    by (auto simp: validate_settlement_binding_def res_simps split: if_splits)
  with a(1) u ident show ?thesis by blast
qed

text \<open>C5: No approval, no execution: whenever a segment executes an effect, the authorization it
  runs under is for a plan that needs no approval, or carries an approved settlement of the
  same owner epoch and committed transition whose effect, attempt, tool call and tool are those
  of the plan and of the first pending effect of the committed state.\<close>

theorem executed_effect_approved:
  assumes "run_segment ports request w = Some (v, h)"
    and "host_trace h = xs @ EvExecute q res # ys"
  shows "\<exists>r sv p ns rc. EvAuthorize r (Inr (DispatchAuthorizedResult sv p ns rc)) \<in> set xs
     \<and> permit_for r p \<and> q = p\<lparr>permit_claimed := True\<rparr>
     \<and> (plan_requires_approval (dar_effect_plan r) \<longrightarrow>
          (\<exists>a. dar_approval_settlement r = Some a \<and> ap_approved a
             \<and> ap_owner_epoch a = dar_owner_epoch r
             \<and> ap_transition_id a
                 = cr_transition_id (osv_commit_ref (esr_state_version (dar_engine_request r)))
             \<and> effect_plan_identity (dar_effect_plan r)
                 = Inr (ap_effect_id a, ap_attempt_id a, ap_tool_call_id a, ap_tool_name a)
             \<and> pending_effect_identity (esr_state_version (dar_engine_request r))
                 = Inr (ap_effect_id a, ap_attempt_id a, ap_tool_call_id a, ap_tool_name a)))"
proof -
  obtain d where "duty_after (xs @ EvExecute q res # ys) = Some d"
    using run_segment_protocol [OF assms(1)] assms(2) by auto
  from execute_authorized [OF this] obtain us r sv p ns rc vs where
      "xs = us @ EvAuthorize r (Inr (DispatchAuthorizedResult sv p ns rc)) # vs"
      "is_ok (DispatchAuthorizationRequest_init r)" "permit_for r p"
      "q = p\<lparr>permit_claimed := True\<rparr>"
    by blast
  moreover from this(1) have "EvAuthorize r (Inr (DispatchAuthorizedResult sv p ns rc)) \<in> set xs"
    by simp
  ultimately show ?thesis using authorization_approved by blast
qed

lemma executed_effect_approved_witness:
  "\<exists>h r p q. (\<exists>out. run_segment (demo_ports 3) demo_segment 0 = Some (out, h))
     \<and> permit_for r p \<and> q = p\<lparr>permit_claimed := True\<rparr>
     \<and> (plan_requires_approval (dar_effect_plan r) \<longrightarrow> dar_approval_settlement r \<noteq> None)"
proof -
  obtain out h xs q res ys where run: "run_segment (demo_ports 3) demo_segment 0 = Some (out, h)"
      "host_trace h = xs @ EvExecute q res # ys"
    using demo_segment_runs by metis
  from executed_effect_approved [OF run] obtain r p where "permit_for r p"
      "q = p\<lparr>permit_claimed := True\<rparr>"
      "plan_requires_approval (dar_effect_plan r) \<longrightarrow> dar_approval_settlement r \<noteq> None"
    by fastforce
  with run(1) show ?thesis by blast
qed

section \<open>Sinks and reconciled effects\<close>

lemma message_nonblank:
  "\<not> is_blank (exn_class e) \<Longrightarrow> \<not> is_blank (exception_message e)"
  by (induction e rule: exception_message.induct)
     (auto simp: is_blank_def is_space_def char_code_def)

lemma delivery_failure_total:
  "\<not> is_blank (exn_class e) \<Longrightarrow> sink \<noteq> [] \<Longrightarrow>
     delivery_failure sink e = Inr \<lparr>df_sink = sink, df_message = exception_message e\<rparr>"
  using message_nonblank [of e]
  by (auto simp: delivery_failure_def DeliveryFailure_init_def is_blank_def require_non_empty_def
      fails_when_def)

text \<open>A failing fact sink is contained: delivering a batch of notices never raises anything
  but a cancellation; the first failure is recorded once, the rest of the batch is skipped and
  the sink stays off, so later batches are not delivered at all. Exceptions are assumed to
  have a class name.\<close>

theorem fact_sink_contained:
  assumes "\<And>n w e w'. port_emit_fact ports n w = (Inl e, w') \<Longrightarrow> \<not> is_blank (exn_class e)"
    and "emit_all ports ns h = (r, h')" and "\<And>e. r = Inl e \<Longrightarrow> is_exception e"
  shows "r = Inr ()
     \<and> (if host_facts_enabled h' \<or> \<not> host_facts_enabled h
        then host_failures h' = host_failures h \<and> host_facts_enabled h' = host_facts_enabled h
        else \<exists>d. host_failures h' = host_failures h @ [d] \<and> df_sink d = ''committed_fact'')
     \<and> (\<not> host_facts_enabled h' \<longrightarrow> emit_all ports ms h' = (Inr (), h'))"
proof -
  have each: "emit_each ports ns h = (r, h') \<Longrightarrow> host_facts_enabled h \<Longrightarrow> r = Inr ()
      \<and> (if host_facts_enabled h' then host_failures h' = host_failures h
         else \<exists>d. host_failures h' = host_failures h @ [d] \<and> df_sink d = ''committed_fact'')" for ns h
  proof (induction ns arbitrary: h)
    case (Cons n ns)
    obtain x w where x: "port_emit_fact ports n (host_world h) = (x, w)" by fastforce
    show ?case
    proof (cases x)
      case (Inl e)
      then have "\<not> is_blank (exn_class e)" using assms(1) x by blast
      with Inl x Cons.prems assms(3) show ?thesis
        by (auto simp: host_call_def record_event_def delivery_failure_total Let_def
            split: if_splits)
    next
      case (Inr u)
      define h1 where "h1 = record_event (EvFact n) w h"
      have "emit_each ports ns h1 = (r, h')" "host_facts_enabled h1"
          "host_failures h1 = host_failures h"
        using Inr x Cons.prems by (auto simp: host_call_def h1_def record_event_def)
      with Cons.IH [of h1] show ?thesis by (auto split: if_splits)
    qed
  qed simp
  show ?thesis
    using assms(2) each by (auto simp: emit_all_def split: if_splits)
qed

text \<open>The settlement input rebuilt after a reconciliation is the record's: same effect and
  attempt, the observed outcome, never indeterminate, on the very transition the record
  committed; it is well-formed, and the segment commits it as a plain transition, because the
  reconciliation has already moved the effect.\<close>

theorem reconciled_input_matches:
  assumes "reconciled_effect_input sv r n = Inr s"
  shows "es_effect_id s = rec_effect_id r \<and> es_attempt_id s = rec_attempt_id r
     \<and> es_owner_epoch s = n
     \<and> settlement_outcome_value (es_outcome s)
         = reconciliation_outcome_value (rec_observed_outcome r)
     \<and> es_outcome s \<noteq> ESO_INDETERMINATE \<and> settlement_ok s
     \<and> cr_transition_id (osv_commit_ref sv) = rec_transition_id r
     \<and> is_post_reconciliation_settlement sv (SettleEffect s)"
proof -
  obtain rt m where m: "dict_get (osv_value sv) runtime_key = PDict rt"
      "dict_get rt ''reconciled_effect'' = PDict m" "reconciled_marker_matches m sv r"
    using assms by (auto simp: reconciled_effect_input_def split: option.splits if_splits)
  obtain inp where inp: "required_reconciled_marker_str m ''reconciled_input_id'' = Inr inp"
      "es_input_id s = inp"
    using assms m
    by (auto simp: reconciled_effect_input_def EffectSettlement_init_def res_simps split: if_splits)
  have shape: "es_effect_id s = rec_effect_id r" "es_attempt_id s = rec_attempt_id r"
      "es_owner_epoch s = n" "settlement_ok s"
      "settlement_outcome_of (dict_get m ''outcome'') = Inr (es_outcome s)"
    using assms m
    by (auto simp: reconciled_effect_input_def res_simps split: if_splits
        dest: EffectSettlement_init_ok)
       (auto simp: EffectSettlement_init_def res_simps)
  have "dict_get m ''outcome'' = PStr (reconciliation_outcome_value (rec_observed_outcome r))"
    using m(3) by (simp add: reconciled_marker_matches_def)
  then have "settlement_outcome_value (es_outcome s)
         = reconciliation_outcome_value (rec_observed_outcome r)" "es_outcome s \<noteq> ESO_INDETERMINATE"
    using shape(5)
    by (cases "rec_observed_outcome r"; auto simp: settlement_outcome_of_def)+
  moreover have "dict_get m ''reconciled_input_id'' = PStr inp"
    using inp by (auto simp: required_reconciled_marker_str_def split: option.splits)
  ultimately show ?thesis
    using shape m inp(2)
    by (simp add: is_post_reconciliation_settlement_def reconciled_marker_matches_def)
qed

definition demo_record :: ReconciliationRecord where
  "demo_record = \<lparr>rec_effect_id = ''a'', rec_attempt_id = ''a'', rec_observed_outcome = RO_COMPLETED,
     rec_evidence_ref = ''ev'', rec_actor_id = ''me'', rec_owner_epoch = 2, rec_transition_id = ''rt''\<rparr>"

end
