(* ===== verification/Segment_Descent.thy ===== *)
theory Segment_Descent
  imports Segment_Theorems
begin

text \<open>
  Why a segment returns. The host is asked for two things only: it does not disturb the segment
  for ever (conflicting commits, replays, stale mailbox cuts, stray frames and calm wake-ups
  spend a budget of the world), and what it reports as committed is the proposed value.
\<close>

section \<open>What is asked of the host\<close>

definition spends :: "('w \<Rightarrow> nat) \<Rightarrow> ('w \<Rightarrow> 'a \<times> 'w) \<Rightarrow> ('a \<Rightarrow> bool) \<Rightarrow> bool" where
  "spends budget f disturbs \<longleftrightarrow>
     (\<forall>w. budget (snd (f w)) \<le> budget w
        \<and> (disturbs (fst (f w)) \<longrightarrow> budget (snd (f w)) < budget w))"

lemma spends_call:
  assumes "spends budget f disturbs" "f w = (x, w')"
  shows "budget w' \<le> budget w" "disturbs x \<Longrightarrow> budget w' < budget w"
  using assms(1) [unfolded spends_def, rule_format, of w] assms(2) by simp_all

text \<open>The answers of the commit port that leave the segment where it was.\<close>

fun commit_disturbs :: "CommitResult res \<Rightarrow> bool" where
  "commit_disturbs (Inr (CASConflictCommitResult _)) = True"
| "commit_disturbs (Inr (ExactReplayCommitResult _ _)) = True"
| "commit_disturbs (Inr (StaleMailboxCutCommitResult _ _)) = True"
| "commit_disturbs _ = False"

fun race_disturbs :: "race_event \<Rightarrow> bool" where
  "race_disturbs (RaceFrame _) = True"
| "race_disturbs (RaceControl (Inr c)) = (\<not> snap_raised c)"
| "race_disturbs _ = False"

text \<open>No port gains budget; a disturbance spends some.\<close>

definition patient :: "'w ports \<Rightarrow> ('w \<Rightarrow> nat) \<Rightarrow> bool" where
  "patient ports budget \<longleftrightarrow>
     spends budget (port_observe ports) (\<lambda>_. False)
     \<and> (\<forall>r. spends budget (port_commit_transition ports r) commit_disturbs)
     \<and> (\<forall>r. spends budget (port_commit_settlement ports r) commit_disturbs)
     \<and> (\<forall>r. spends budget (port_authorize_dispatch ports r) commit_disturbs)
     \<and> (\<forall>r. spends budget (port_commit_reconciliation ports r) commit_disturbs)
     \<and> (\<forall>p. spends budget (port_execute ports p) (\<lambda>_. False))
     \<and> (\<forall>r w. budget (port_generate ports r w) \<le> budget w)
     \<and> (\<forall>g. spends budget (port_race ports g) race_disturbs)
     \<and> spends budget (port_drain_generate ports) (\<lambda>_. False)
     \<and> spends budget (port_drain_wait ports) (\<lambda>_. False)
     \<and> (\<forall>f. spends budget (port_emit_frame ports f) (\<lambda>_. False))
     \<and> (\<forall>n. spends budget (port_emit_fact ports n) (\<lambda>_. False))"

lemma patient_ports:
  assumes "patient ports budget"
  shows "spends budget (port_observe ports) (\<lambda>_. False)"
    and "spends budget (port_commit_transition ports c) commit_disturbs"
    and "spends budget (port_commit_settlement ports s) commit_disturbs"
    and "spends budget (port_authorize_dispatch ports a) commit_disturbs"
    and "spends budget (port_commit_reconciliation ports r) commit_disturbs"
    and "spends budget (port_execute ports p) (\<lambda>_. False)"
    and "budget (port_generate ports m w) \<le> budget w"
    and "spends budget (port_race ports g) race_disturbs"
    and "spends budget (port_drain_generate ports) (\<lambda>_. False)"
    and "spends budget (port_drain_wait ports) (\<lambda>_. False)"
    and "spends budget (port_emit_frame ports f) (\<lambda>_. False)"
    and "spends budget (port_emit_fact ports n) (\<lambda>_. False)"
  using assms unfolding patient_def by blast+

text \<open>A commit result keeps a value: the state it reports as newly committed has it.\<close>

fun result_keeps :: "dict \<Rightarrow> CommitResult res \<Rightarrow> bool" where
  "result_keeps v (Inr (CommittedCommitResult s _ _)) = (osv_value s = v)"
| "result_keeps v (Inr (DispatchAuthorizedResult s _ _ _)) = (osv_value s = v)"
| "result_keeps v _ = True"

definition store_keeps :: "'w ports \<Rightarrow> bool" where
  "store_keeps ports \<longleftrightarrow>
     (\<forall>r w. result_keeps (prop_state_value (ctr_proposal r)) (fst (port_commit_transition ports r w)))
     \<and> (\<forall>r w. result_keeps (prop_state_value (csr_proposal r)) (fst (port_commit_settlement ports r w)))
     \<and> (\<forall>r w. result_keeps (prop_state_value (dar_proposal r)) (fst (port_authorize_dispatch ports r w)))"

section \<open>The pace of an iteration\<close>

text \<open>\<open>pace b v i ph\<close>: at most the budget \<open>b\<close> is left, the state is \<open>v\<close>, the input \<open>i\<close> and the phase
  \<open>ph\<close>. An iteration that starts over has spent some of it.\<close>

definition pace ::
    "('w \<Rightarrow> nat) \<Rightarrow> nat \<Rightarrow> OperationStateVersion \<Rightarrow> EngineStepInput \<Rightarrow> phase \<Rightarrow> 'w seg \<Rightarrow> bool" where
  "pace budget b v i ph s \<longleftrightarrow>
     budget (host_world (sg_host s)) \<le> b \<and> sg_state s = v \<and> sg_input s = i \<and> sg_phase s = ph"

definition lost :: "('w \<Rightarrow> nat) \<Rightarrow> nat \<Rightarrow> unit ctl \<Rightarrow> 'w seg \<Rightarrow> bool" where
  "lost budget b c s \<longleftrightarrow> (c = Again \<longrightarrow> budget (host_world (sg_host s)) < b)"

lemma lost_simps [simp]:
  "lost budget b Again s \<longleftrightarrow> budget (host_world (sg_host s)) < b"
  "lost budget b (Return v) s" "lost budget b (Raise e) s"
  by (simp_all add: lost_def)

abbreviation paced :: "('w \<Rightarrow> nat) \<Rightarrow> nat \<Rightarrow> OperationStateVersion \<Rightarrow> EngineStepInput \<Rightarrow> phase
    \<Rightarrow> ('w, 'a) seg_action \<Rightarrow> bool" where
  "paced budget b v i ph m \<equiv> triple (pace budget b v i ph) m (\<lambda>_. pace budget b v i ph) (lost budget b)"

lemma lost_triples:
  "triple P (return_outcome r) Q (lost budget b)" "triple P (raising e) Q (lost budget b)"
  by (auto intro!: triple_return triple_raising)

lemma paced_simple:
  "paced budget b v i ph (go x)" "paced budget b v i ph (lift_res r)"
  by (auto intro!: triple_go triple_lift)

lemma lost_lift:
  assumes "\<And>x. r = Inr x \<Longrightarrow> triple P (f x) Q (lost budget b)"
  shows "triple P (and_then (lift_res r) f) Q (lost budget b)"
  using assms unfolding triple_def ends_in_and_then by (cases r) (auto simp: lift_res_def)

lemma lost_current:
  assumes "\<And>s. P s \<Longrightarrow> triple P (f s) Q (lost budget b)"
  shows "triple P (and_then current f) Q (lost budget b)"
  by (rule triple_and_then_current) (rule triple_pre [OF assms], auto)

lemma paced_attempt:
  assumes "\<And>h x h'. f h = (x, h') \<Longrightarrow> budget (host_world h') \<le> budget (host_world h)"
  shows "paced budget b v i ph (attempt f)"
  by (rule triple_attempt) (auto simp: pace_def dest: assms intro: order_trans)

lemma paced_perform:
  assumes "\<And>h x h'. f h = (x, h') \<Longrightarrow> budget (host_world h') \<le> budget (host_world h)"
  shows "paced budget b v i ph (perform f)"
  by (rule triple_perform) (auto simp: pace_def dest: assms intro: order_trans)

lemma host_call_spends:
  assumes "spends budget f p" "host_call f ev h = (x, h')"
  shows "budget (host_world h') \<le> budget (host_world h)"
    and "p x \<Longrightarrow> budget (host_world h') < budget (host_world h)"
  using assms spends_call [OF assms(1), of "host_world h"]
  by (auto simp: host_call_def record_event_def split: prod.splits)

text \<open>A call that may disturb.\<close>

lemma triple_disturb:
  assumes "spends budget f p"
  shows "triple (pace budget b v i ph) (perform (host_call f ev))
     (\<lambda>x s. pace budget b v i ph s \<and> (p (Inr x) \<longrightarrow> budget (host_world (sg_host s)) < b)
        \<and> (\<exists>w. fst (f w) = Inr x)) (lost budget b)"
proof (rule triple_perform)
  fix s :: "'a seg" and h x
  assume s: "pace budget b v i ph s" and call: "host_call f ev (sg_host s) = (Inr x, h)"
  have "\<exists>w. fst (f w) = Inr x"
    using call by (auto simp: host_call_def split: prod.splits intro!: exI [of _ "host_world (sg_host s)"])
  with host_call_spends [OF assms call] s
  show "pace budget b v i ph (s\<lparr>sg_host := h\<rparr>)
      \<and> (p (Inr x) \<longrightarrow> budget (host_world (sg_host (s\<lparr>sg_host := h\<rparr>))) < b)
      \<and> (\<exists>w. fst (f w) = Inr x)"
    by (auto simp: pace_def)
qed simp

section \<open>The sinks and the control probe\<close>

lemma emit_each_budget:
  assumes "\<And>n. spends budget (port_emit_fact ports n) (\<lambda>_. False)"
  shows "emit_each ports ns h = (x, h') \<Longrightarrow> budget (host_world h') \<le> budget (host_world h)"
proof (induction ns arbitrary: h)
  case (Cons n ns)
  obtain r h1 where call: "host_call (port_emit_fact ports n) (\<lambda>_. EvFact n) h = (r, h1)" by fastforce
  note le = host_call_spends(1) [OF assms call]
  show ?case
    using Cons call le
    by (auto simp: Let_def split: sum.splits if_splits intro: order_trans)
qed simp

lemma paced_emit_all:
  assumes "patient ports budget"
  shows "paced budget b v i ph (perform (emit_all ports ns))"
proof (rule paced_perform)
  fix h :: "'a host" and x h'
  note spend = patient_ports(12) [OF assms]
  show "emit_all ports ns h = (x, h') \<Longrightarrow> budget (host_world h') \<le> budget (host_world h)"
    by (auto simp: emit_all_def dest: emit_each_budget [OF spend] split: if_splits)
qed

lemma emit_frame_budget:
  assumes "patient ports budget"
  shows "budget (host_world (snd (emit_frame ports f h))) \<le> budget (host_world h)"
proof -
  obtain r h1 where call: "host_call (port_emit_frame ports f) (\<lambda>_. EvFrame f) h = (r, h1)" by fastforce
  from host_call_spends(1) [OF patient_ports(11) [OF assms] call] show ?thesis
    by (auto simp: emit_frame_def call Let_def split: sum.splits)
qed

lemma emit_frames_budget:
  assumes "patient ports budget"
  shows "budget (host_world (emit_frames ports fs h)) \<le> budget (host_world h)"
  unfolding emit_frames_def
  by (induction fs arbitrary: h) (auto intro: order_trans [OF _ emit_frame_budget [OF assms]])

lemma paced_observe:
  assumes "patient ports budget"
  shows "paced budget b v i ph (observe ports)"
  unfolding observe_def
  by (rule paced_perform) (rule host_call_spends(1) [OF patient_ports(1) [OF assms]])

lemma paced_observe_or_yield:
  assumes "patient ports budget"
  shows "paced budget b v i ph (observe_or_yield ports)"
  unfolding observe_or_yield_def
  by (intro triple_and_then [OF paced_observe [OF assms]] lost_current triple_if lost_triples
      paced_simple)

section \<open>Pending plans\<close>

definition seq_length :: "pyval \<Rightarrow> nat" where
  "seq_length x = (case as_seq x of None \<Rightarrow> 0 | Some xs \<Rightarrow> length xs)"

definition pending_count :: "dict \<Rightarrow> nat" where
  "pending_count v =
     (case as_dict (dict_get v runtime_key) of
        None \<Rightarrow> 0
      | Some rt \<Rightarrow> seq_length (dict_get_or rt ''pending_effect_plans'' (PTuple [])))"

lemma freeze_seq_length: "freeze_seq xs = Inr ys \<Longrightarrow> length ys = length xs"
  by (induction xs arbitrary: ys) (auto simp: res_simps)

lemma freeze_as_seq:
  "freeze_value x = Inr y \<Longrightarrow> seq_length y = seq_length x"
  by (cases x) (auto simp: seq_length_def res_simps freeze_seq_length split: if_splits pyfloat.splits)

lemma freeze_as_dict:
  "freeze_value x = Inr y \<Longrightarrow>
     (case as_dict x of None \<Rightarrow> as_dict y = None
      | Some d \<Rightarrow> \<exists>e. as_dict y = Some e \<and> freeze_items d = Inr e)"
  by (cases x) (auto simp: res_simps split: if_splits pyfloat.splits)

lemma freeze_pending: "freeze_items d = Inr e \<Longrightarrow> pending_count e = pending_count d"
proof -
  assume fr: "freeze_items d = Inr e"
  have seq: "seq_length (dict_get_or rt' k (PTuple [])) = seq_length (dict_get_or rt k (PTuple []))"
    if "freeze_items rt = Inr rt'" for rt rt' k
    using freeze_items_find [OF that, of k]
    by (auto simp: dict_get_or_def split: option.splits dest!: freeze_as_seq)
  show ?thesis
    using freeze_items_find [OF fr, of runtime_key]
    by (auto simp: pending_count_def dict_get_def seq split: option.splits dest!: freeze_as_dict)
qed

lemma TransitionProposal_init_pending:
  "TransitionProposal_init p = Inr q \<Longrightarrow>
     pending_count (prop_state_value q) = pending_count (prop_state_value p)
     \<and> prop_next_action q = prop_next_action p"
  by (auto simp: TransitionProposal_init_def freeze_mapping_def res_simps freeze_pending
      split: if_splits)

lemma append_messages_pending:
  "append_conversation_messages v ms = Inr w \<Longrightarrow> pending_count w = pending_count v"
  by (auto simp: append_conversation_messages_def pending_count_def runtime_key_def
      split: option.splits if_splits)

lemma settlement_guard_plans:
  assumes "settlement_guard rt s = Inr plans"
  shows "pending_effect_plans rt = Inr plans \<and> plans \<noteq> []"
proof -
  obtain ps where ps: "pending_effect_plans rt = Inr ps"
      "require_next_effect ps (es_effect_id s) (es_attempt_id s) (es_tool_call_id s)
         (es_tool_name s) = Inr ()"
    and plans: "(if es_outcome s \<noteq> ESO_INDETERMINATE \<and> dict_get rt ''unknown_effect'' \<noteq> PNone
           \<and> dict_get rt ''reconciled_effect'' = PNone
         then Inl (ValueError ''terminal UNKNOWN settlement requires committed reconciliation'')
         else if es_outcome s = ESO_INDETERMINATE \<and> dict_get rt ''reconciled_effect'' \<noteq> PNone
         then Inl (ValueError ''reconciled effect cannot become indeterminate'')
         else Inr ps) = Inr plans"
    using assms unfolding settlement_guard_def bind_res_eq_Inr Let_def by auto
  from plans have "ps = plans" by (simp split: if_splits)
  moreover from ps(2) have "ps \<noteq> []" by (auto simp: require_next_effect_def)
  ultimately show ?thesis using ps(1) by simp
qed

text \<open>A settlement that leads to another prepared effect has dropped a plan.\<close>

lemma settlement_shrinks:
  assumes "propose_effect_settlement er s = Inr p" "prop_next_action p = PreparedEffectAction plan k"
  shows "pending_count (prop_state_value p) < pending_count (osv_value (esr_state_version er))"
proof -
  let ?v = "osv_value (esr_state_version er)"
  obtain rt plans where rt: "runtime_state ?v = Inr rt" and guard: "settlement_guard rt s = Inr plans"
    and final: "es_outcome s \<noteq> ESO_INDETERMINATE"
    using assms
    by (auto simp: propose_effect_settlement_def propose_indeterminate_def res_simps Let_def
        dest!: TransitionProposal_init_pending split: if_splits)
  then obtain w w' act where w: "append_conversation_messages
        (with_runtime_state ?v (settled_runtime rt (tl plans)))
        [tool_message (es_tool_call_id s) (es_tool_name s) (es_result s)
           (es_outcome s \<noteq> ESO_COMPLETED)] = Inr w"
      and next_act: "next_after_settlement (osv_run_id (esr_state_version er)) (tl plans) w
        = Inr (w', act)"
      and p: "pending_count (prop_state_value p) = pending_count w'" "prop_next_action p = act"
    using assms(1)
    by (auto simp: propose_effect_settlement_def res_simps Let_def
        dest!: TransitionProposal_init_pending)
  have plans: "pending_effect_plans rt = Inr plans" "plans \<noteq> []"
    using settlement_guard_plans [OF guard] by simp_all
  have "w' = w" "tl plans \<noteq> []"
    using next_act p(2) assms(2)
    by (auto simp: next_after_settlement_def res_simps split: list.splits)
  moreover have "pending_count w = length plans - 1"
    using append_messages_pending [OF w]
    by (simp add: pending_count_def seq_length_def with_runtime_state_def settled_runtime_def)
  moreover have "pending_count ?v = length plans"
  proof -
    obtain xs where xs: "as_seq (dict_get_or rt ''pending_effect_plans'' (PTuple [])) = Some xs"
        "length xs = length plans"
      using plans(1) by (auto simp: pending_effect_plans_def traverse_res_length split: option.splits)
    show ?thesis
    proof (cases "dict_get ?v runtime_key = PNone")
      case True
      then have "rt = default_runtime_state" using rt by (simp add: runtime_state_def)
      then have "length plans = 0" using xs by (simp add: default_runtime_state_def dict_get_or_def)
      with plans(2) show ?thesis by simp
    next
      case False
      then have "as_dict (dict_get ?v runtime_key) = Some rt"
        using rt by (simp add: runtime_state_def Let_def split: option.splits)
      then show ?thesis using xs by (simp add: pending_count_def seq_length_def)
    qed
  qed
  ultimately show ?thesis using p(1) plans(2) by (cases plans) auto
qed

text \<open>What is dispatched keeps the plans that are pending.\<close>

lemma set_runtime_pending:
  assumes "as_dict (dict_get_or v runtime_key (PDict [])) = Some rt"
    "k \<noteq> ''pending_effect_plans''"
  shows "pending_count (with_runtime_state v (dict_set k d rt)) = pending_count v"
  using assms
  by (cases "dict_find v runtime_key")
     (auto simp: pending_count_def with_runtime_state_def seq_length_def dict_get_def
       dict_get_or_def)

lemma with_active_pending:
  assumes "with_active_effect_authorization p n = Inr q"
  shows "pending_count (prop_state_value q) = pending_count (prop_state_value p)"
proof -
  obtain plan k where plan: "prop_next_action p = PreparedEffectAction plan k"
    using assms by (cases "prop_next_action p") (simp_all add: with_active_effect_authorization_def)
  obtain c m where tool: "plan_tool_identity plan = Inr (c, m)"
    using assms plan by (cases "plan_tool_identity plan")
      (auto simp: with_active_effect_authorization_def)
  obtain rt where rt: "as_dict (dict_get_or (prop_state_value p) runtime_key (PDict [])) = Some rt"
    using assms plan tool
    by (cases "as_dict (dict_get_or (prop_state_value p) runtime_key (PDict []))")
       (simp_all add: with_active_effect_authorization_def)
  show ?thesis
    using assms set_runtime_pending [OF rt]
    by (simp add: with_active_effect_authorization_def plan tool rt)
       (auto dest!: TransitionProposal_init_pending)
qed

lemma dispatch_request_pending:
  assumes "dispatch_request request n er p deferred plan = Inr (q, r)"
  shows "pending_count (prop_state_value (dar_proposal r))
     = pending_count (if deferred then prop_state_value p else osv_value (esr_state_version er))"
proof -
  obtain p0 where p0: "authorization_proposal p (esr_state_version er) deferred = Inr p0"
      and q: "with_active_effect_authorization p0 (seg_owner_epoch request) = Inr q"
      and r: "dar_proposal r = q"
    using assms
    by (auto simp: dispatch_request_def bind_res_eq_Inr map_res_eq_Inr
        dest!: DispatchAuthorizationRequest_init_Inr)
  obtain pl k where "prop_next_action p = PreparedEffectAction pl k"
    using p0 by (cases "prop_next_action p") (simp_all add: authorization_proposal_def)
  with p0 have "pending_count (prop_state_value p0)
      = pending_count (if deferred then prop_state_value p else osv_value (esr_state_version er))"
    by (simp add: authorization_proposal_def) (auto dest!: TransitionProposal_init_pending)
  with with_active_pending [OF q] r show ?thesis by simp
qed

section \<open>Committing keeps the proposed value\<close>

lemma store_keeps_results:
  assumes "store_keeps ports"
  shows "fst (port_commit_transition ports c w) = Inr r \<Longrightarrow>
      result_keeps (prop_state_value (ctr_proposal c)) (Inr r)"
    and "fst (port_commit_settlement ports s w) = Inr r \<Longrightarrow>
      result_keeps (prop_state_value (csr_proposal s)) (Inr r)"
    and "fst (port_authorize_dispatch ports a w) = Inr r \<Longrightarrow>
      result_keeps (prop_state_value (dar_proposal a)) (Inr r)"
  using assms unfolding store_keeps_def by metis+

lemma commit_requests_proposal:
  "transition_request request er p = Inr c \<Longrightarrow> ctr_proposal c = p"
  "settlement_request request er p settlement = Inr s \<Longrightarrow> csr_proposal s = p"
  by (auto simp: transition_request_def settlement_request_def CommitTransitionRequest_init_def
      bind_res_eq_Inr checks_eq_Inr dest!: CommitSettlementRequest_init_Inr)

text \<open>What a commit call leaves: its result keeps the proposed value, and if it disturbs, some
  budget is spent.\<close>

definition called ::
    "('w \<Rightarrow> nat) \<Rightarrow> nat \<Rightarrow> OperationStateVersion \<Rightarrow> EngineStepInput \<Rightarrow> phase \<Rightarrow> dict
     \<Rightarrow> CommitResult \<Rightarrow> 'w seg \<Rightarrow> bool" where
  "called budget b v i ph d r s \<longleftrightarrow>
     pace budget b v i ph s \<and> result_keeps d (Inr r)
     \<and> (commit_disturbs (Inr r) \<longrightarrow> budget (host_world (sg_host s)) < b)"

lemma triple_called:
  assumes "spends budget f commit_disturbs" "\<And>w r. fst (f w) = Inr r \<Longrightarrow> result_keeps d (Inr r)"
  shows "triple (pace budget b v i ph) (perform (host_call f ev)) (called budget b v i ph d)
     (lost budget b)"
  by (rule triple_weaken [OF triple_disturb [OF assms(1)]]) (auto simp: called_def assms(2))

lemma triple_commit_called:
  assumes host: "patient ports budget" "store_keeps ports"
  shows "triple (pace budget b v i ph) (commit_call ports request er p)
     (called budget b v i ph (prop_state_value p)) (lost budget b)"
proof -
  have transition: "triple (pace budget b v i ph)
      (and_then (lift_res (transition_request request er p)) (\<lambda>r.
         perform (host_call (port_commit_transition ports r) (EvTransition r))))
      (called budget b v i ph (prop_state_value p)) (lost budget b)"
    by (rule lost_lift, rule triple_called [OF patient_ports(2) [OF host(1)]])
       (use store_keeps_results(1) [OF host(2)] commit_requests_proposal(1) in metis)
  have settle: "triple (pace budget b v i ph)
      (and_then (lift_res (settlement_request request er p settlement)) (\<lambda>r.
         perform (host_call (port_commit_settlement ports r) (EvSettle r))))
      (called budget b v i ph (prop_state_value p)) (lost budget b)" for settlement
    by (rule lost_lift, rule triple_called [OF patient_ports(3) [OF host(1)]])
       (use store_keeps_results(2) [OF host(2)] commit_requests_proposal(2) in metis)
  show ?thesis
    using transition settle by (auto simp: commit_call_def Let_def split: sum.split)
qed

text \<open>After a commit: the state has the proposed value, or some budget is spent.\<close>

definition moved_on ::
    "('w \<Rightarrow> nat) \<Rightarrow> nat \<Rightarrow> EngineStepInput \<Rightarrow> phase \<Rightarrow> dict \<Rightarrow> 'w seg \<Rightarrow> bool" where
  "moved_on budget b i ph d s \<longleftrightarrow>
     pace budget b (sg_state s) i ph s
     \<and> (osv_value (sg_state s) = d \<or> budget (host_world (sg_host s)) < b)"

lemma moved_on_lift:
  assumes "\<And>b v i ph. paced budget b v i ph m"
  shows "triple (moved_on budget b i ph d) m (\<lambda>_. moved_on budget b i ph d) (lost budget b)"
  unfolding triple_def
proof (intro allI impI)
  fix s assume s: "moved_on budget b i ph d s"
  let ?b = "budget (host_world (sg_host s))"
  have "pace budget ?b (sg_state s) i ph s" "?b \<le> b" using s by (simp_all add: moved_on_def pace_def)
  with assms [of ?b "sg_state s" i ph]
  have "ends_in (\<lambda>_. pace budget ?b (sg_state s) i ph) (lost budget ?b) (m s)"
    by (simp add: triple_def)
  then show "ends_in (\<lambda>_. moved_on budget b i ph d) (lost budget b) (m s)"
    by (rule ends_in_mono) (use s in \<open>auto simp: moved_on_def pace_def lost_def\<close>)
qed

lemma committed_result_keeps:
  assumes "committed_result r = Inr (Inr (v, ns))" "result_keeps d (Inr r)"
  shows "osv_value v = d \<or> commit_disturbs (Inr r)"
  using assms by (cases r) (auto simp: committed_result_def map_res_eq_Inr)

lemma triple_adopted:
  assumes host: "patient ports budget"
  shows "triple (called budget b v i Top d r) (adopt_commit ports i r)
     (\<lambda>_. moved_on budget b i Top d) (lost budget b)"
  unfolding adopt_commit_def
proof (rule lost_lift)
  fix c assume c: "committed_result r = Inr c"
  have rest: "triple (moved_on budget b i Top d)
      (and_then (perform (emit_all ports ns)) (\<lambda>_.
         and_then current (\<lambda>s.
         if sg_propagate s \<and> (case i of EffectSettled _ \<Rightarrow> True | _ \<Rightarrow> False)
         then raising CancelledError
         else if is_settlement_input i
         then and_then (observe_or_yield ports) (\<lambda>_. go ())
         else go ())))
      (\<lambda>_. moved_on budget b i Top d) (lost budget b)" for ns
    by (intro triple_and_then [OF moved_on_lift] lost_current triple_if lost_triples
        paced_emit_all [OF host] paced_observe_or_yield [OF host] moved_on_lift paced_simple)
  show "triple (called budget b v i Top d r) (case c of
       Inl out \<Rightarrow> and_then current (\<lambda>s. return_outcome (with_steps out (sg_steps s) (sg_state s)))
     | Inr (v, ns) \<Rightarrow>
         and_then (update_seg (\<lambda>s. s\<lparr>sg_state := v\<rparr>)) (\<lambda>_.
         and_then (perform (emit_all ports ns)) (\<lambda>_.
         and_then current (\<lambda>s.
         if sg_propagate s \<and> (case i of EffectSettled _ \<Rightarrow> True | _ \<Rightarrow> False)
         then raising CancelledError
         else if is_settlement_input i
         then and_then (observe_or_yield ports) (\<lambda>_. go ())
         else go ()))))
     (\<lambda>_. moved_on budget b i Top d) (lost budget b)"
  proof (cases c)
    case (Inl out)
    show ?thesis unfolding Inl sum.case by (intro lost_current lost_triples)
  next
    case (Inr vn)
    obtain u ns where vn: "vn = (u, ns)" by fastforce
    have upd: "triple (called budget b v i Top d r) (update_seg (\<lambda>s. s\<lparr>sg_state := u\<rparr>))
        (\<lambda>_. moved_on budget b i Top d) (lost budget b)"
      by (rule triple_update)
         (use committed_result_keeps c Inr vn in \<open>auto simp: called_def moved_on_def pace_def\<close>)
    show ?thesis
      unfolding Inr vn sum.case prod.case by (rule triple_and_then [OF upd]) (rule rest)
  qed
qed

lemma triple_committed:
  assumes host: "patient ports budget" "store_keeps ports" and i: "esr_step_input er = i"
  shows "triple (pace budget b v i Top) (commit_proposal ports request er p)
     (\<lambda>_. moved_on budget b i Top (prop_state_value p)) (lost budget b)"
  unfolding commit_proposal_def
proof (rule triple_and_then)
  show "paced budget b v i Top (if is_settlement_input (esr_step_input er) then go ()
      else and_then (observe_or_yield ports) (\<lambda>_. go ()))"
    by (intro triple_if triple_and_then [OF paced_observe_or_yield [OF host(1)]] paced_simple)
  have conflict: "triple (called budget b v i Top d (CASConflictCommitResult u))
      (\<lambda>s. (Again :: unit ctl, s\<lparr>sg_state := u\<rparr>)) (\<lambda>_. moved_on budget b i Top d) (lost budget b)" for u d
    by (simp add: triple_def called_def)
  show "triple (pace budget b v i Top) (and_then (commit_call ports request er p) (\<lambda>r. case r of
       CASConflictCommitResult v \<Rightarrow> (\<lambda>s. (Again, s\<lparr>sg_state := v\<rparr>))
     | _ \<Rightarrow> adopt_commit ports (esr_step_input er) r))
     (\<lambda>_. moved_on budget b i Top (prop_state_value p)) (lost budget b)" for u
    unfolding i
  proof (rule triple_and_then [OF triple_commit_called [OF host]])
    fix r
    show "triple (called budget b v i Top (prop_state_value p) r)
        (case r of CASConflictCommitResult v \<Rightarrow> (\<lambda>s. (Again, s\<lparr>sg_state := v\<rparr>))
         | _ \<Rightarrow> adopt_commit ports i r)
        (\<lambda>_. moved_on budget b i Top (prop_state_value p)) (lost budget b)"
      using triple_adopted [OF host(1)] conflict by (cases r) simp_all
  qed
qed

section \<open>An iteration at the head of the loop\<close>

text \<open>After a proposal is acted on: some budget is spent, the model is generating, or the plan is
  to be authorized on a state that keeps what the proposal leaves pending.\<close>

definition advanced :: "('w \<Rightarrow> nat) \<Rightarrow> nat \<Rightarrow> TransitionProposal \<Rightarrow> 'w seg \<Rightarrow> bool" where
  "advanced budget b p s \<longleftrightarrow>
     budget (host_world (sg_host s)) \<le> b
     \<and> (budget (host_world (sg_host s)) < b
        \<or> (case sg_phase s of
             Top \<Rightarrow> False
           | Generating _ _ \<Rightarrow> True
           | Authorizing _ _ r \<Rightarrow>
               (\<exists>plan k. prop_next_action p = PreparedEffectAction plan k)
               \<and> pending_count (prop_state_value (dar_proposal r))
                   = pending_count (prop_state_value p)))"

lemma triple_generation_advanced:
  assumes "patient ports budget"
  shows "triple (moved_on budget b i Top d) (begin_generation ports request m)
     (\<lambda>_. advanced budget b p) (lost budget b)"
  unfolding begin_generation_def
  by (intro lost_current triple_if lost_triples triple_update
      triple_and_then [OF moved_on_lift [OF paced_observe_or_yield [OF assms]]])
     (auto simp: moved_on_def pace_def advanced_def record_event_def
       intro: order_trans [OF patient_ports(7) [OF assms]])

lemma triple_dispatch_advanced:
  assumes host: "patient ports budget"
    and action: "prop_next_action p = PreparedEffectAction plan k"
    and d: "deferred \<or> d = prop_state_value p"
  shows "triple (moved_on budget b i Top d) (begin_dispatch ports request p deferred plan)
     (\<lambda>_. advanced budget b p) (lost budget b)"
  unfolding begin_dispatch_def
proof (rule triple_and_then [OF moved_on_lift [OF paced_observe_or_yield [OF host]]],
    rule triple_and_then_current, rule lost_lift)
  fix s0 :: "'a seg" and x
  let ?r = "dispatch_request request (sg_cut s0) (engine_request_of s0) p deferred plan"
  assume s0: "moved_on budget b i Top d s0" and x: "?r = Inr x"
  obtain q r where qr: "x = (q, r)" by fastforce
  have "pending_count (prop_state_value (dar_proposal r)) = pending_count (prop_state_value p)
      \<or> budget (host_world (sg_host s0)) < b"
    using dispatch_request_pending [OF x [unfolded qr]] s0 d
    by (auto simp: engine_request_of_def moved_on_def split: if_splits)
  with s0 show "triple (\<lambda>s. s = s0)
      (case x of (q, r) \<Rightarrow> update_seg (\<lambda>s. s\<lparr>sg_phase := Authorizing plan q r\<rparr>))
      (\<lambda>_. advanced budget b p) (lost budget b)"
    unfolding qr prod.case
    by (intro triple_update) (auto simp: advanced_def action moved_on_def pace_def)
qed

lemma triple_act_advanced:
  assumes host: "patient ports budget" and d: "deferred \<or> d = prop_state_value p"
  shows "triple (moved_on budget b i Top d) (act ports request p deferred)
     (\<lambda>_. advanced budget b p) (lost budget b)"
  unfolding act_def
proof (rule lost_current)
  fix s :: "'a seg"
  have lift: "triple (moved_on budget b i Top d) (and_then (lift_res r)
      (\<lambda>ref. return_outcome (f ref))) (\<lambda>_. advanced budget b p) (lost budget b)" for r :: "EffectReference res" and f
    by (intro lost_lift lost_triples)
  show "triple (moved_on budget b i Top d)
      (case prop_next_action p of
         TerminalAction msg reason \<Rightarrow> return_outcome
           (SegmentOutcome_init (CompletedOutcome (sg_state s) msg (sg_steps s) reason))
       | BlockedAction reason eff \<Rightarrow> return_outcome
           (SegmentOutcome_init (BlockedOutcome (sg_state s) reason eff (sg_steps s)))
       | SafeYieldAction reason \<Rightarrow> return_outcome
           (SegmentOutcome_init (SafeYieldOutcome (sg_state s) reason (sg_steps s)))
       | ModelGenerationAction r \<Rightarrow> begin_generation ports request r
       | PreparedEffectAction plan APPROVAL_WAIT \<Rightarrow>
           and_then (lift_res (EffectReference_from_plan plan)) (\<lambda>ref. return_outcome
             (SegmentOutcome_init (BlockedOutcome (sg_state s) ''approval_required'' (Some ref)
                (sg_steps s))))
       | PreparedEffectAction plan DISPATCH \<Rightarrow> begin_dispatch ports request p deferred plan)
      (\<lambda>_. advanced budget b p) (lost budget b)"
    using triple_generation_advanced [OF host] triple_dispatch_advanced [OF host _ d] lift
    by (auto simp: lost_triples simp del: SegmentOutcome_init.simps
        split: NextAction.split PreparedEffectActionKind.split)
qed

text \<open>What an iteration makes of the input it starts with.\<close>

definition topped ::
    "('w \<Rightarrow> nat) \<Rightarrow> nat \<Rightarrow> EngineStepRequest \<Rightarrow> 'w seg \<Rightarrow> bool" where
  "topped budget b er s \<longleftrightarrow> (\<exists>p. propose er = Inr p \<and> advanced budget b p s)"

lemma triple_top_advanced:
  assumes host: "patient ports budget" "store_keeps ports"
  shows "triple (pace budget b v i Top) (top_step ports request)
     (\<lambda>_. topped budget b \<lparr>esr_state_version = v, esr_step_input = i\<rparr>) (lost budget b)"
  unfolding top_step_def Let_def
proof (intro lost_current triple_and_then [OF triple_if])
  let ?er = "\<lparr>esr_state_version = v, esr_step_input = i\<rparr>"
  show "paced budget b v i Top (go ())" by (rule paced_simple)
  show "paced budget b v i Top (and_then (observe_or_yield ports) (\<lambda>_. go ()))"
    by (intro triple_and_then [OF paced_observe_or_yield [OF host(1)]] paced_simple)
  fix s0 s1 :: "'a seg"
  assume "pace budget b v i Top s1"
  then have er: "engine_request_of s1 = ?er" and i: "sg_input s1 = i"
    by (simp_all add: engine_request_of_def pace_def)
  show "triple (pace budget b v i Top)
      (and_then (lift_res (bound_input request s1)) (\<lambda>_.
         and_then (lift_res (propose (engine_request_of s1))) (\<lambda>proposal.
         and_then (if defers_commit (sg_input s1) proposal then go ()
                   else commit_proposal ports request (engine_request_of s1) proposal)
           (\<lambda>_. act ports request proposal (defers_commit (sg_input s1) proposal)))))
      (\<lambda>_. topped budget b ?er) (lost budget b)"
    unfolding er i
  proof (intro lost_lift)
    fix p assume p: "propose ?er = Inr p"
    let ?d = "if defers_commit i p then osv_value v else prop_state_value p"
    have commit: "triple (pace budget b v i Top)
        (if defers_commit i p then go () else commit_proposal ports request ?er p)
        (\<lambda>_. moved_on budget b i Top ?d) (lost budget b)"
    proof (rule triple_if)
      show "defers_commit i p \<Longrightarrow> triple (pace budget b v i Top) (go ())
          (\<lambda>_. moved_on budget b i Top ?d) (lost budget b)"
        by (rule triple_go) (auto simp: moved_on_def pace_def)
      show "\<not> defers_commit i p \<Longrightarrow> triple (pace budget b v i Top)
          (commit_proposal ports request ?er p)
          (\<lambda>_. moved_on budget b i Top ?d) (lost budget b)"
        using triple_committed [OF host, of ?er i b v request p] by simp
    qed
    have "triple (moved_on budget b i Top ?d) (act ports request p (defers_commit i p))
        (\<lambda>_. advanced budget b p) (lost budget b)"
      by (rule triple_act_advanced [OF host(1)]) simp
    then have "triple (moved_on budget b i Top ?d) (act ports request p (defers_commit i p))
        (\<lambda>_. topped budget b ?er) (lost budget b)"
      by (rule triple_weaken) (use p in \<open>auto simp: topped_def\<close>)
    with commit show "triple (pace budget b v i Top)
        (and_then (if defers_commit i p then go () else commit_proposal ports request ?er p)
           (\<lambda>_. act ports request p (defers_commit i p)))
        (\<lambda>_. topped budget b ?er) (lost budget b)"
      by (rule triple_and_then)
  qed
qed

section \<open>An iteration that waits or authorizes\<close>

lemma paced_abandon_wait:
  assumes "patient ports budget"
  shows "paced budget b v i ph (abandon_wait ports)"
  using spends_call(1) [OF patient_ports(10) [OF assms]]
  by (fastforce simp: triple_def abandon_wait_def pace_def split: prod.split option.split)

lemma paced_drain_generate:
  assumes "patient ports budget"
  shows "paced budget b v i ph (drain_generate ports still)"
  using spends_call(1) [OF patient_ports(9) [OF assms]]
    order_trans [OF emit_frames_budget [OF assms]]
  by (fastforce simp: triple_def drain_generate_def pace_def Let_def
      split: prod.split option.split)

text \<open>The completion of a generation starts the next round; what keeps a segment waiting spends
  some budget.\<close>

definition waited :: "('w \<Rightarrow> nat) \<Rightarrow> nat \<Rightarrow> int \<Rightarrow> 'w seg \<Rightarrow> bool" where
  "waited budget b n s \<longleftrightarrow>
     budget (host_world (sg_host s)) \<le> b
     \<and> (budget (host_world (sg_host s)) < b \<or> sg_phase s = Top \<and> sg_steps s = n + 1)"

definition waiting :: "('w \<Rightarrow> nat) \<Rightarrow> nat \<Rightarrow> int \<Rightarrow> 'w seg \<Rightarrow> bool" where
  "waiting budget b n s \<longleftrightarrow> budget (host_world (sg_host s)) \<le> b \<and> sg_steps s = n"

lemma waiting_after:
  assumes "\<And>v i ph. paced budget b v i ph m" "\<And>ph. triple (calm n ph) m (\<lambda>_. calm n ph) (counted n)"
  shows "triple (waiting budget b n) m (\<lambda>_. waiting budget b n) (lost budget b)"
  unfolding triple_def
proof (intro allI impI)
  fix s :: "'a seg"
  assume s: "waiting budget b n s"
  have "ends_in (\<lambda>_. pace budget b (sg_state s) (sg_input s) (sg_phase s)) (lost budget b) (m s)"
    using assms(1) s by (simp add: triple_def pace_def waiting_def)
  moreover have "ends_in (\<lambda>_. calm n (sg_phase s)) (counted n) (m s)"
    using assms(2) s by (simp add: triple_def calm_def waiting_def)
  ultimately show "ends_in (\<lambda>_. waiting budget b n) (lost budget b) (m s)"
    by (auto simp: ends_in_def waiting_def pace_def calm_def split: prod.splits ctl.splits)
qed

lemma triple_generated_round:
  "triple (waiting budget b n) (generated r result) (\<lambda>_. waited budget b n) (lost budget b)"
  unfolding generated_def
  by (rule lost_current, cases result)
     (auto intro!: lost_lift lost_triples triple_update simp: waited_def waiting_def
       simp del: SegmentOutcome_init.simps)

lemma triple_generate_round:
  assumes host: "patient ports budget"
  shows "triple (waiting budget b n) (generate_step ports r g) (\<lambda>_. waited budget b n)
     (lost budget b)"
  unfolding triple_def
proof (intro allI impI)
  fix s0 :: "'a seg"
  assume p: "waiting budget b n s0"
  obtain ev w where race: "port_race ports g (host_world (sg_host s0)) = (ev, w)" by fastforce
  define s where "s = s0\<lparr>sg_host := (sg_host s0)\<lparr>host_world := w\<rparr>\<rparr>"
  have s: "waiting budget b n s" "race_disturbs ev \<Longrightarrow> budget (host_world (sg_host s)) < b"
    using p spends_call [OF patient_ports(8) [OF host] race] by (auto simp: s_def waiting_def)
  note abandon = waiting_after [OF paced_abandon_wait [OF host] quiet_abandon_wait]
  note drain = waiting_after [OF paced_drain_generate [OF host] quiet_drain_generate]
  note to = triple_and_then [OF abandon] triple_and_then [OF drain]
  let ?ok = "ends_in (\<lambda>_. waited budget b n) (lost budget b)"
  have control: "triple (waiting budget b n)
      (and_then (drain_generate ports True) (\<lambda>_.
         case c of
           None \<Rightarrow> generated r None
         | Some reason \<Rightarrow>
             and_then current (\<lambda>s. return_outcome (SegmentOutcome_init
               (SafeYieldOutcome (sg_state s) reason (sg_steps s))))))
      (\<lambda>_. waited budget b n) (lost budget b)" for c
    by (rule to(2), cases c) (auto intro!: triple_generated_round lost_current lost_triples
        simp del: SegmentOutcome_init.simps)
  have result: "triple (waiting budget b n)
      (and_then (abandon_wait ports) (\<lambda>_. and_then (lift_res x) (generated r)))
      (\<lambda>_. waited budget b n) (lost budget b)" for x
    by (intro to(1) lost_lift triple_generated_round)
  have raise: "triple (waiting budget b n)
      (and_then (drain_generate ports still) (\<lambda>_. (raising e :: ('a, unit) seg_action)))
      (\<lambda>_. waited budget b n) (lost budget b)" for still e
    by (intro to(2) lost_triples)
  have cancel: "triple (waiting budget b n)
      (and_then (abandon_wait ports) (\<lambda>_.
         and_then (drain_generate ports still) (\<lambda>_. (raising e :: ('a, unit) seg_action))))
      (\<lambda>_. waited budget b n) (lost budget b)" for still e
    by (intro to(1) raise)
  have frame: "?ok (update_seg (\<lambda>s. s\<lparr>sg_host := snd (emit_frame ports f (sg_host s))\<rparr>) s)"
    if "ev = RaceFrame f" for f
    using s that emit_frame_budget [OF host, of f "sg_host s"]
    by (simp add: update_seg_def waited_def)
  show "?ok (generate_step ports r g s0)"
    unfolding generate_step_def race prod.case s_def [symmetric]
  proof (cases ev)
    case (RaceControl c)
    show "?ok ((case ev of
        RaceFrame frame \<Rightarrow> update_seg (\<lambda>s. s\<lparr>sg_host := snd (emit_frame ports frame (sg_host s))\<rparr>)
      | RaceControl (Inl e) \<Rightarrow> and_then (drain_generate ports False) (\<lambda>_. raising e)
      | RaceControl (Inr control) \<Rightarrow>
          (if snap_raised control
           then and_then (drain_generate ports True) (\<lambda>_. case snap_reason control of
                  None \<Rightarrow> generated r None
                | Some reason \<Rightarrow> and_then current (\<lambda>s. return_outcome (SegmentOutcome_init
                      (SafeYieldOutcome (sg_state s) reason (sg_steps s)))))
           else update_seg (\<lambda>s. s\<lparr>sg_phase := Generating r (snap_generation control)\<rparr>))
      | RaceGenerated x \<Rightarrow> and_then (abandon_wait ports) (\<lambda>_. and_then (lift_res x) (generated r))
      | RaceCancelled \<Rightarrow> and_then (abandon_wait ports) (\<lambda>_.
          and_then (drain_generate ports False) (\<lambda>_. raising CancelledError))) s)"
    proof (cases c)
      case (Inr k)
      show ?thesis
      proof (cases "snap_raised k")
        case True
        with control [of "snap_reason k"] s(1) RaceControl Inr show ?thesis
          by (simp add: triple_def del: SegmentOutcome_init.simps)
      next
        case False
        with s RaceControl Inr show ?thesis by (simp add: update_seg_def waited_def)
      qed
    qed (use raise s(1) RaceControl in \<open>simp add: triple_def\<close>)
  qed (use result cancel s(1) frame in \<open>simp_all add: triple_def\<close>)
qed

text \<open>Authorizing: the executed effect is the next input, on a state that keeps what is pending.\<close>

definition settled_up :: "('w \<Rightarrow> nat) \<Rightarrow> nat \<Rightarrow> dict \<Rightarrow> 'w seg \<Rightarrow> bool" where
  "settled_up budget b d s \<longleftrightarrow>
     budget (host_world (sg_host s)) \<le> b
     \<and> (budget (host_world (sg_host s)) < b
        \<or> sg_phase s = Top \<and> (\<exists>e. sg_input s = EffectSettled e) \<and> osv_value (sg_state s) = d)"

lemma paced_execution_result:
  assumes host: "patient ports budget"
  shows "triple (moved_on budget b i ph d) (execution_result ports permit)
     (\<lambda>_. moved_on budget b i ph d) (lost budget b)"
proof -
  let ?P = "moved_on budget b i ph d"
  have executed: "triple ?P (attempt (host_call (port_execute ports q) (EvExecute q)))
      (\<lambda>_. ?P) (lost budget b)" for q
    by (rule moved_on_lift, rule paced_attempt)
       (rule host_call_spends(1) [OF patient_ports(6) [OF host]])
  have lift: "triple ?P (lift_res r) (\<lambda>_. ?P) (lost budget b)" for r :: "EffectExecutionResult res"
    by (rule moved_on_lift) (rule paced_simple)
  have flag: "triple ?P (update_seg (\<lambda>s. s\<lparr>sg_propagate := True\<rparr>)) (\<lambda>_. ?P) (lost budget b)"
    by (rule triple_update) (simp add: moved_on_def pace_def)
  have settled: "triple ?P (case r of
         Inr v \<Rightarrow> go v
       | Inl e \<Rightarrow>
           (if is_exception e
            then lift_res (EffectExecutionResult_init
                   (EffectIndeterminateResult ''effect_executor_error'' (exception_message e) None))
            else
              and_then (update_seg (\<lambda>s. s\<lparr>sg_propagate := True\<rparr>)) (\<lambda>_.
              lift_res (EffectExecutionResult_init
                (EffectIndeterminateResult ''effect_executor_cancelled''
                   ''effect executor cancelled after dispatch'' None))))) (\<lambda>_. ?P) (lost budget b)"
    for r :: "EffectExecutionResult res"
    by (cases r) (auto intro!: lift triple_and_then [OF flag] triple_go
        simp del: EffectExecutionResult_init.simps)
  have raised: "triple ?P (case r of
            None \<Rightarrow> raising (ValueError ''raised control snapshot requires a reason'')
          | Some reason \<Rightarrow> lift_res (EffectExecutionResult_init
                (EffectIndeterminateResult ''control_after_dispatch'' reason None)))
      (\<lambda>_. ?P) (lost budget b)" for r
    by (cases r) (auto intro!: lift lost_triples simp del: EffectExecutionResult_init.simps)
  show ?thesis
    unfolding execution_result_def
    by (intro triple_and_then [OF moved_on_lift [OF paced_observe [OF host]]] triple_if raised
        lost_lift triple_and_then [OF executed] settled)
qed

lemma authorized_result_keeps:
  assumes "authorized_result r = Inr (Inr (v, permit, ns))" "result_keeps d (Inr r)"
  shows "osv_value v = d"
  using assms by (cases r) (auto simp: authorized_result_def map_res_eq_Inr)

lemma triple_dispatched:
  assumes host: "patient ports budget"
  shows "triple (called budget b v i ph d r) (dispatch_authorized ports request plan p r)
     (\<lambda>_. settled_up budget b d) (lost budget b)"
  unfolding dispatch_authorized_def
proof (rule lost_lift)
  fix a assume a: "authorized_result r = Inr a"
  show "triple (called budget b v i ph d r) (case a of
       Inl out \<Rightarrow> and_then current (\<lambda>s. return_outcome (with_steps out (sg_steps s) (sg_state s)))
     | Inr (v, permit, ns) \<Rightarrow>
         and_then (update_seg (\<lambda>s. s\<lparr>sg_state := v\<rparr>)) (\<lambda>_.
         and_then (lift_res (validate_dispatch_permit permit (seg_session_id request)
             (seg_owner_epoch request) plan (prop_transition_id p))) (\<lambda>_.
         and_then (perform (emit_all ports ns)) (\<lambda>_.
         and_then (execution_result ports permit) (\<lambda>outcome.
         and_then (lift_res (effect_settlement plan
             (permit_authorization_transition_id permit) (seg_owner_epoch request) outcome))
           (\<lambda>settlement.
         update_seg (\<lambda>s. s\<lparr>sg_input := EffectSettled settlement, sg_phase := Top\<rparr>)))))))
     (\<lambda>_. settled_up budget b d) (lost budget b)"
  proof (cases a)
    case (Inl out)
    show ?thesis unfolding Inl sum.case by (intro lost_current lost_triples)
  next
    case (Inr x)
    obtain u permit ns where x: "x = (u, permit, ns)" by (cases x)
    have upd: "triple (called budget b v i ph d r) (update_seg (\<lambda>s. s\<lparr>sg_state := u\<rparr>))
        (\<lambda>_. moved_on budget b i ph d) (lost budget b)"
      by (rule triple_update)
         (use authorized_result_keeps a Inr x in \<open>auto simp: called_def moved_on_def pace_def\<close>)
    have finish: "triple (moved_on budget b i ph d)
        (update_seg (\<lambda>s. s\<lparr>sg_input := EffectSettled e, sg_phase := Top\<rparr>))
        (\<lambda>_. settled_up budget b d) (lost budget b)" for e
      by (rule triple_update) (auto simp: moved_on_def pace_def settled_up_def)
    show ?thesis
      unfolding Inr x sum.case prod.case
      by (intro triple_and_then [OF upd] lost_lift
          triple_and_then [OF moved_on_lift [OF paced_emit_all [OF host]]]
          triple_and_then [OF paced_execution_result [OF host]] finish)
  qed
qed

lemma triple_authorized:
  assumes host: "patient ports budget" "store_keeps ports"
  shows "triple (pace budget b v i ph) (authorize_step ports request plan p q)
     (\<lambda>_ s. settled_up budget b (prop_state_value (dar_proposal q)) s
        \<or> budget (host_world (sg_host s)) < b) (lost budget b)"
proof -
  let ?d = "prop_state_value (dar_proposal q)"
  let ?Q = "\<lambda>_ s. settled_up budget b ?d s \<or> budget (host_world (sg_host s)) < b"
  have call: "triple (pace budget b v i ph)
      (perform (host_call (port_authorize_dispatch ports q) (EvAuthorize q)))
      (called budget b v i ph ?d) (lost budget b)"
    by (rule triple_called [OF patient_ports(4) [OF host(1)]])
       (rule store_keeps_results(3) [OF host(2)])
  have observed: "triple (\<lambda>s. budget (host_world (sg_host s)) < b) (observe_or_yield ports)
      (\<lambda>_ s. budget (host_world (sg_host s)) < b) (lost budget b)"
    unfolding triple_def
  proof (intro allI impI)
    fix s :: "'a seg"
    assume s: "budget (host_world (sg_host s)) < b"
    have "ends_in (\<lambda>_. pace budget (budget (host_world (sg_host s))) (sg_state s) (sg_input s) (sg_phase s))
       (lost budget (budget (host_world (sg_host s)))) (observe_or_yield ports s)"
      using paced_observe_or_yield [OF host(1)] by (simp add: triple_def pace_def)
    then show "ends_in (\<lambda>_ s. budget (host_world (sg_host s)) < b) (lost budget b)
       (observe_or_yield ports s)"
      by (rule ends_in_mono) (use s in \<open>auto simp: pace_def lost_def\<close>)
  qed
  have stale: "triple (called budget b v i ph ?d (StaleMailboxCutCommitResult e c))
      (and_then (observe_or_yield ports) (\<lambda>snapshot.
         let mcut = max c (snap_generation snapshot) in
         and_then (update_seg (\<lambda>s. s\<lparr>sg_cut := mcut\<rparr>)) (\<lambda>_.
         and_then (lift_res (DispatchAuthorizationRequest_init (q\<lparr>dar_mailbox_cut := mcut\<rparr>)))
           (\<lambda>r. update_seg (\<lambda>s. s\<lparr>sg_phase := Authorizing plan p r\<rparr>)))))
      ?Q (lost budget b)" for e c
  proof -
    have cut: "triple (\<lambda>s. budget (host_world (sg_host s)) < b)
        (update_seg (\<lambda>s. s\<lparr>sg_cut := mcut\<rparr>)) (\<lambda>_ s. budget (host_world (sg_host s)) < b)
        (lost budget b)" for mcut
      by (rule triple_update) simp
    have "triple (\<lambda>s. budget (host_world (sg_host s)) < b)
        (and_then (observe_or_yield ports) (\<lambda>snapshot.
           let mcut = max c (snap_generation snapshot) in
           and_then (update_seg (\<lambda>s. s\<lparr>sg_cut := mcut\<rparr>)) (\<lambda>_.
           and_then (lift_res (DispatchAuthorizationRequest_init (q\<lparr>dar_mailbox_cut := mcut\<rparr>)))
             (\<lambda>r. update_seg (\<lambda>s. s\<lparr>sg_phase := Authorizing plan p r\<rparr>)))))
        ?Q (lost budget b)"
      unfolding Let_def
      by (intro triple_and_then [OF observed] triple_and_then [OF cut] lost_lift triple_update) simp
    then show ?thesis by (rule triple_pre) (simp add: called_def)
  qed
  have other: "triple (called budget b v i ph ?d r) (dispatch_authorized ports request plan p r)
      ?Q (lost budget b)" for r
    by (rule triple_weaken [OF triple_dispatched [OF host(1)]]) auto
  show ?thesis
    unfolding authorize_step_def
  proof (rule triple_and_then [OF call])
    fix r
    show "triple (called budget b v i ph ?d r) (case r of
       StaleMailboxCutCommitResult expected current_cut \<Rightarrow>
         and_then (observe_or_yield ports) (\<lambda>snapshot.
         let mcut = max current_cut (snap_generation snapshot) in
         and_then (update_seg (\<lambda>s. s\<lparr>sg_cut := mcut\<rparr>)) (\<lambda>_.
         and_then (lift_res (DispatchAuthorizationRequest_init (q\<lparr>dar_mailbox_cut := mcut\<rparr>)))
           (\<lambda>r. update_seg (\<lambda>s. s\<lparr>sg_phase := Authorizing plan p r\<rparr>))))
     | _ \<Rightarrow> dispatch_authorized ports request plan p r) ?Q (lost budget b)"
      using stale other by (cases r) simp_all
  qed
qed

section \<open>The segment returns\<close>

text \<open>What descends: the budget; the rounds that are left; whether the input is new, a settlement,
  or the model is waited for; the pending plans; whether the effect is still to be authorized.\<close>

definition stage :: "'w seg \<Rightarrow> nat \<times> nat \<times> nat" where
  "stage s =
     (case sg_phase s of
        Generating _ _ \<Rightarrow> (0, 0, 0)
      | Authorizing _ _ r \<Rightarrow> (1, pending_count (prop_state_value (dar_proposal r)), 1)
      | Top \<Rightarrow>
          (case sg_input s of
             EffectSettled _ \<Rightarrow> (1, pending_count (osv_value (sg_state s)), 0)
           | _ \<Rightarrow> (2, 0, 0)))"

definition rank :: "('w \<Rightarrow> nat) \<Rightarrow> RunSegmentRequest \<Rightarrow> 'w seg \<Rightarrow> nat \<times> nat \<times> nat \<times> nat \<times> nat" where
  "rank budget request s =
     (budget (host_world (sg_host s)), nat (seg_max_rounds request - sg_steps s), stage s)"

definition descends :: "('w \<Rightarrow> nat) \<Rightarrow> RunSegmentRequest \<Rightarrow> ('w seg \<times> 'w seg) set" where
  "descends budget request =
     inv_image (less_than <*lex*> less_than <*lex*> less_than <*lex*> less_than <*lex*> less_than)
       (rank budget request)"

lemma wf_descends: "wf (descends budget request)"
  unfolding descends_def by (intro wf_inv_image wf_lex_prod wf_less_than)

lemma descends_budget:
  "budget (host_world (sg_host t)) < budget (host_world (sg_host s)) \<Longrightarrow>
     (t, s) \<in> descends budget request"
  by (simp add: descends_def rank_def)

lemma descends_stage:
  assumes "budget (host_world (sg_host t)) \<le> budget (host_world (sg_host s))"
    "sg_steps t = sg_steps s" "(stage t, stage s) \<in> less_than <*lex*> less_than <*lex*> less_than"
  shows "(t, s) \<in> descends budget request"
  using assms by (auto simp: descends_def rank_def)

lemma descends_round:
  assumes "budget (host_world (sg_host t)) \<le> budget (host_world (sg_host s))"
    "sg_steps t = sg_steps s + 1" "sg_steps s < seg_max_rounds request"
  shows "(t, s) \<in> descends budget request"
  using assms by (auto simp: descends_def rank_def)

end
