(* ===== verification/Segment_Returns.thy ===== *)
theory Segment_Returns
  imports Segment_Descent
begin

text \<open>
  The descent of the segment loop and of the reconciliation loop, and what follows: on a host
  that does not disturb for ever and keeps what it commits, both return.
\<close>

definition host_ok :: "('w \<Rightarrow> nat) \<Rightarrow> 'w ports \<Rightarrow> RunSegmentRequest \<Rightarrow> 'w seg \<Rightarrow> bool" where
  "host_ok budget ports request s \<longleftrightarrow>
     patient ports budget \<and> store_keeps ports \<and> rounds_ok request s"

lemma seg_step_continues:
  assumes "seg_step ports request s = Inl t"
  obtains c where "(case sg_phase s of
         Top \<Rightarrow> top_step ports request
       | Generating r g \<Rightarrow> generate_step ports r g
       | Authorizing plan p r \<Rightarrow> authorize_step ports request plan p r) s = (c, t)"
    "c = Go () \<or> c = Again"
proof -
  obtain c u where run: "(case sg_phase s of
         Top \<Rightarrow> top_step ports request
       | Generating r g \<Rightarrow> generate_step ports r g
       | Authorizing plan p r \<Rightarrow> authorize_step ports request plan p r) s = (c, u)"
    by fastforce
  with assms show thesis
    by (intro that [of c]) (cases c; simp add: seg_step_def run)+
qed

lemma continued:
  assumes "triple P m Q (lost budget b)" "P s" "m s = (c, t)" "c = Go () \<or> c = Again"
  shows "Q () t \<or> budget (host_world (sg_host t)) < b"
  using assms by (auto simp: triple_def dest!: spec [of _ s])

lemma continued_steps:
  assumes "triple P m (\<lambda>_. Q) (counted n)" "P s" "m s = (c, t)" "c = Go () \<or> c = Again"
  shows "Q t \<or> sg_steps t = n \<and> sg_phase t = Top"
  using assms by (auto simp: triple_def dest!: spec [of _ s])

text \<open>Each phase descends: from the head of the loop by the stage, a generation by the rounds that
  are left, an authorization by the stage; a disturbance by the budget.\<close>

lemma top_descends:
  assumes host: "patient ports budget" "store_keeps ports" and phase: "sg_phase s = Top"
    and top: "top_step ports request s = (c, t)" and c: "c = Go () \<or> c = Again"
    and spent: "\<not> budget (host_world (sg_host t)) < budget (host_world (sg_host s))"
  shows "(t, s) \<in> descends budget request"
proof -
  let ?b = "budget (host_world (sg_host s))"
  let ?er = "\<lparr>esr_state_version = sg_state s, esr_step_input = sg_input s\<rparr>"
  have pace: "pace budget ?b (sg_state s) (sg_input s) Top s"
    using phase by (simp add: pace_def)
  obtain p where p: "propose ?er = Inr p" "advanced budget ?b p t"
    using continued [OF triple_top_advanced [OF host] pace top c] spent
    by (auto simp: topped_def)
  have steps: "sg_steps t = sg_steps s"
    using continued_steps [OF rounds_top_step _ top c] phase
    by (auto simp: calm_def rounds_from_def)
  have "(stage t, stage s) \<in> less_than <*lex*> less_than <*lex*> less_than"
  proof (cases "sg_phase t")
    case Top
    with p(2) spent show ?thesis by (simp add: advanced_def)
  next
    case (Generating r g)
    then show ?thesis using phase by (auto simp: stage_def split: EngineStepInput.split)
  next
    case (Authorizing plan q r)
    then obtain pl k where kept: "prop_next_action p = PreparedEffectAction pl k"
        "pending_count (prop_state_value (dar_proposal r)) = pending_count (prop_state_value p)"
      using p(2) spent by (auto simp: advanced_def)
    show ?thesis
    proof (cases "sg_input s")
      case (EffectSettled e)
      then have "pending_count (prop_state_value p) < pending_count (osv_value (sg_state s))"
        using p(1) settlement_shrinks [of ?er e p pl k] kept(1) by (simp add: propose_def)
      with EffectSettled Authorizing kept(2) phase show ?thesis by (simp add: stage_def)
    qed (use Authorizing phase in \<open>simp_all add: stage_def\<close>)
  qed
  moreover have "budget (host_world (sg_host t)) \<le> ?b" using p(2) by (simp add: advanced_def)
  ultimately show ?thesis using steps by (intro descends_stage) auto
qed

lemma generating_descends:
  assumes host: "patient ports budget" and below: "sg_steps s < seg_max_rounds request"
    and gen: "generate_step ports r g s = (c, t)" and c: "c = Go () \<or> c = Again"
    and spent: "\<not> budget (host_world (sg_host t)) < budget (host_world (sg_host s))"
  shows "(t, s) \<in> descends budget request"
proof -
  have "waiting budget (budget (host_world (sg_host s))) (sg_steps s) s"
    by (simp add: waiting_def)
  from continued [OF triple_generate_round [OF host] this gen c] spent
  show ?thesis by (intro descends_round below) (auto simp: waited_def)
qed

lemma authorizing_descends:
  assumes host: "patient ports budget" "store_keeps ports"
    and phase: "sg_phase s = Authorizing plan q r"
    and auth: "authorize_step ports request plan q r s = (c, t)" and c: "c = Go () \<or> c = Again"
    and spent: "\<not> budget (host_world (sg_host t)) < budget (host_world (sg_host s))"
  shows "(t, s) \<in> descends budget request"
proof -
  let ?b = "budget (host_world (sg_host s))"
  have pace: "pace budget ?b (sg_state s) (sg_input s) (Authorizing plan q r) s"
    using phase by (simp add: pace_def)
  have "settled_up budget ?b (prop_state_value (dar_proposal r)) t"
    using continued [OF triple_authorized [OF host] pace auth c] spent by auto
  moreover have "sg_steps t = sg_steps s"
    using continued_steps [OF rounds_authorize_step _ auth c] phase
    by (auto simp: calm_def rounds_from_def)
  ultimately show ?thesis
    using spent phase by (intro descends_stage) (auto simp: settled_up_def stage_def)
qed

lemma step_descends:
  assumes ok: "host_ok budget ports request s" and step: "seg_step ports request s = Inl t"
  shows "(t, s) \<in> descends budget request"
proof (cases "budget (host_world (sg_host t)) < budget (host_world (sg_host s))")
  case True
  then show ?thesis by (rule descends_budget)
next
  case spent: False
  have host: "patient ports budget" "store_keeps ports" and rounds: "rounds_ok request s"
    using ok by (simp_all add: host_ok_def)
  obtain c where run: "(case sg_phase s of
         Top \<Rightarrow> top_step ports request
       | Generating r g \<Rightarrow> generate_step ports r g
       | Authorizing plan p r \<Rightarrow> authorize_step ports request plan p r) s = (c, t)"
      and c: "c = Go () \<or> c = Again"
    by (rule seg_step_continues [OF step])
  show ?thesis
  proof (cases "sg_phase s")
    case Top
    then show ?thesis using top_descends [OF host Top _ c spent] run by simp
  next
    case (Generating r g)
    then show ?thesis
      using generating_descends [OF host(1) _ _ c spent] run rounds by (simp add: rounds_ok_def)
  next
    case (Authorizing plan q r)
    then show ?thesis using authorizing_descends [OF host Authorizing _ c spent] run by simp
  qed
qed

interpretation returns: step_descent "seg_step ports request" "host_ok budget ports request"
    "rounds_end request" "descends budget request"
  for ports :: "'w ports" and request budget
proof
  fix s t :: "'w seg" and r
  assume ok: "host_ok budget ports request s"
  then have rounds: "rounds_ok request s" by (simp add: host_ok_def)
  show "seg_step ports request s = Inl t \<Longrightarrow> host_ok budget ports request t"
    using rounds.inv_step [OF rounds] ok by (simp add: host_ok_def)
  show "seg_step ports request s = Inr r \<Longrightarrow> rounds_end request r"
    by (rule rounds.inv_post [OF rounds])
  show "seg_step ports request s = Inl t \<Longrightarrow> (t, s) \<in> descends budget request"
    by (rule step_descends [OF ok])
qed (rule wf_descends)

lemma run_segment_ends:
  assumes "patient ports budget" "store_keeps ports" "0 < seg_max_rounds request"
  shows "\<exists>v h. run_segment ports request w = Some (v, h)"
proof (cases "mailbox_cut_of request")
  case (Inl e)
  then show ?thesis by (simp add: run_segment_def)
next
  case (Inr n)
  have "host_ok budget ports request (seg_start request n w)"
    using assms by (simp add: host_ok_def rounds_ok_def seg_start_def)
  from returns.loop_ends [OF this] Inr show ?thesis
    by (auto simp: run_segment_def seg_loop_def)
qed

section \<open>Reconciliation returns\<close>

definition conflicts_end :: "('w \<Rightarrow> nat) \<Rightarrow> 'w ports \<Rightarrow> OperationStateVersion \<times> 'w host \<Rightarrow> bool" where
  "conflicts_end budget ports s \<longleftrightarrow> patient ports budget"

text \<open>The commit loop ends with an outcome or a committed state.\<close>

lemma reconcile_step_descends:
  assumes host: "patient ports budget" and step: "reconcile_step ports args s = Inl t"
  shows "budget (host_world (snd t)) < budget (host_world (snd s))"
proof -
  obtain v h where s: "s = (v, h)" by fastforce
  obtain r x h1 where r: "host_call (port_commit_reconciliation ports r) (EvReconcile r) h = (x, h1)"
      and t: "\<exists>u. x = Inr (CASConflictCommitResult u) \<and> t = (u, h1)"
    using step unfolding s reconcile_step_def
    by (auto split: sum.splits prod.splits CommitResult.splits)
  from host_call_spends(2) [OF patient_ports(5) [OF host] r] t s show ?thesis by auto
qed

interpretation reconciles: step_descent "reconcile_step ports args" "conflicts_end budget ports"
    "\<lambda>_. True" "measure (\<lambda>s. budget (host_world (snd s)))"
  for ports :: "'w ports" and args budget
  by unfold_locales (auto simp: conflicts_end_def dest: reconcile_step_descends)

lemma reconcile_and_run_ends:
  assumes "patient ports budget" "store_keeps ports" "0 < ra_max_rounds args"
  shows "\<exists>v h1. reconcile_and_run ports args sv h = Some (v, h1)"
proof -
  have "conflicts_end budget ports (sv, h)" using assms(1) by (simp add: conflicts_end_def)
  from reconciles.loop_ends [OF this] obtain x h1 where
    ended: "step_loop (reconcile_step ports args) (sv, h) = Some (x, h1)" by force
  show ?thesis
  proof (cases x)
    case (Inl r)
    with ended show ?thesis by (simp add: reconcile_and_run_def)
  next
    case (Inr v)
    have "\<exists>u h2. reconciled_run ports args v h1 = Some (u, h2)"
    proof (cases "bind_res (reconciled_effect_input v (ra_record args) (ra_owner_epoch args))
        (\<lambda>s. RunSegmentRequest_init
           \<lparr>seg_session_id = ra_session_id args, seg_owner_id = ra_owner_id args,
            seg_owner_epoch = ra_owner_epoch args, seg_state_version = v,
            seg_step_input = EffectSettled s, seg_max_rounds = ra_max_rounds args\<rparr>)")
      case (Inl e)
      then show ?thesis by (simp add: reconciled_run_def)
    next
      case (Inr request)
      then have "0 < seg_max_rounds request"
        using assms(3) by (auto simp: bind_res_eq_Inr RunSegmentRequest_init_def checks_eq_Inr)
      from run_segment_ends [OF assms(1,2) this] Inr show ?thesis by (simp add: reconciled_run_def)
    qed
    with ended Inr show ?thesis by (simp add: reconcile_and_run_def)
  qed
qed

section \<open>Properties\<close>

text \<open>A host that disturbs the segment as often as its world says, and then works.\<close>

definition busy_ports :: "nat ports" where
  "busy_ports = (demo_ports 0)\<lparr>
     port_observe := (\<lambda>k. (Inr \<lparr>snap_generation = 0, snap_raised = False, snap_reason = None\<rparr>, k)),
     port_commit_transition := (\<lambda>r k.
       if 0 < k then (Inr (CASConflictCommitResult (esr_state_version (ctr_engine_request r))), k - 1)
       else port_commit_transition (demo_ports 0) r k),
     port_commit_reconciliation := (\<lambda>r k.
       if 0 < k then (Inr (CASConflictCommitResult (crr_state_version r)), k - 1)
       else (Inr (CommittedCommitResult (crr_state_version r) [] None), k))\<rparr>"

lemma busy_patient: "patient busy_ports id" "store_keeps busy_ports"
  by (auto simp: patient_def store_keeps_def spends_def busy_ports_def demo_ports_def
      demo_next_version_def demo_version_def map_res_def split: sum.split)

text \<open>C13: A segment returns: on a host whose disturbances (conflicting commits, replays, stale
  mailbox cuts, stray frames, wake-ups without a raised control) spend a finite budget and whose
  store reports as committed what was proposed, \<open>run\<close> ends with an outcome or an exception,
  whatever the model answers, however many tool calls it asks for and however they end.\<close>

theorem segment_returns:
  assumes "patient ports budget" and "store_keeps ports" and "0 < seg_max_rounds request"
  shows "\<exists>v h. run_segment ports request w = Some (v, h)"
  using assms by (rule run_segment_ends)

lemma segment_returns_witness: "\<exists>v h. run_segment busy_ports demo_segment 7 = Some (v, h)"
  by (rule segment_returns [OF busy_patient]) (simp add: demo_segment_def)

text \<open>Reconciling and running returns too: on the same hosts the commit loop of the
  reconciliation ends, however often it meets a conflict and adopts the state it is given, and
  so does the segment run after it.\<close>

theorem reconciliation_returns:
  assumes "patient ports budget" and "store_keeps ports" and "0 < ra_max_rounds args"
  shows "\<exists>v h1. reconcile_and_run ports args sv h = Some (v, h1)"
  using assms by (rule reconcile_and_run_ends)

end
