(* ===== verification/Store_Records.thy ===== *)
theory Store_Records
  imports Contracts_Results
begin

text \<open>
  \<open>coding_agent/stores/rtstore/harness.py\<close>, first part, with \<open>validate.py\<close> and the run record
  of \<open>records.py\<close>: timestamps, decimal cursors, the records of the event log, the command
  mailbox and the effect ledger, projection cursors and handoffs, and the rules that decide
  which stored slot may replace which.

  As in the contracts, a dataclass is a record and \<open><Class>_init\<close> its \<open>__post_init__\<close>; the
  \<open>isinstance\<close> tests of typed fields hold by typing. A plain dict and a read-only view of one
  are not distinguished.
\<close>

section \<open>Timestamps\<close>

text \<open>
  A \<open>datetime\<close>: its calendar fields and, when it is aware, its offset from UTC in
  microseconds. \<open>isoformat\<close> writes the fraction only when it is not zero.
\<close>

record datetime =
  dt_year :: nat
  dt_month :: nat
  dt_day :: nat
  dt_hour :: nat
  dt_minute :: nat
  dt_second :: nat
  dt_microsecond :: nat
  dt_offset :: "int option"

definition pad :: "nat \<Rightarrow> nat \<Rightarrow> string" where
  "pad width n = replicate (width - length (str_of_nat n)) (CHR ''0'') @ str_of_nat n"

definition iso_fraction :: "nat \<Rightarrow> string" where
  "iso_fraction us = (if us = 0 then [] else ''.'' @ pad 6 us)"

definition iso_offset :: "int option \<Rightarrow> string" where
  "iso_offset off =
     (case off of
        None \<Rightarrow> []
      | Some us \<Rightarrow>
          (let a = nat \<bar>us\<bar>; s = a div 1000000 in
           (if us < 0 then ''-'' else ''+'') @ pad 2 (s div 3600) @ '':'' @ pad 2 (s div 60 mod 60)
           @ (if s mod 60 = 0 \<and> a mod 1000000 = 0 then []
              else '':'' @ pad 2 (s mod 60) @ iso_fraction (a mod 1000000))))"

definition isoformat :: "datetime \<Rightarrow> string" where
  "isoformat t =
     pad 4 (dt_year t) @ ''-'' @ pad 2 (dt_month t) @ ''-'' @ pad 2 (dt_day t) @ ''T''
     @ pad 2 (dt_hour t) @ '':'' @ pad 2 (dt_minute t) @ '':'' @ pad 2 (dt_second t)
     @ iso_fraction (dt_microsecond t) @ iso_offset (dt_offset t)"

text \<open>The instant of a datetime in microseconds, for comparisons of two aware ones.\<close>

definition leap_year :: "nat \<Rightarrow> bool" where
  "leap_year y \<longleftrightarrow> y mod 4 = 0 \<and> (y mod 100 \<noteq> 0 \<or> y mod 400 = 0)"

definition days_before_month :: "nat \<Rightarrow> nat \<Rightarrow> nat" where
  "days_before_month y m =
     sum_list (take (m - 1)
       [31, if leap_year y then 29 else 28, 31, 30, 31, 30, 31, 31, 30, 31, 30, 31])"

definition ordinal_day :: "datetime \<Rightarrow> nat" where
  "ordinal_day t =
     (let y = dt_year t - 1 in
      y * 365 + y div 4 - y div 100 + y div 400 + days_before_month (dt_year t) (dt_month t)
      + dt_day t)"

definition local_microseconds :: "datetime \<Rightarrow> int" where
  "local_microseconds t =
     (((int (ordinal_day t) * 24 + int (dt_hour t)) * 60 + int (dt_minute t)) * 60
       + int (dt_second t)) * 1000000 + int (dt_microsecond t)"

text \<open>\<open>a <= b\<close>: a naive and an aware datetime have no order.\<close>

definition datetime_le :: "datetime \<Rightarrow> datetime \<Rightarrow> bool res" where
  "datetime_le a b =
     (case (dt_offset a, dt_offset b) of
        (None, None) \<Rightarrow> Inr (local_microseconds a \<le> local_microseconds b)
      | (Some i, Some j) \<Rightarrow> Inr (local_microseconds a - i \<le> local_microseconds b - j)
      | _ \<Rightarrow> Inl (TypeError
          (''can'' @ [quote_char] @ ''t compare offset-naive and offset-aware datetimes'')))"

section \<open>Decimal cursors\<close>

definition max_u64 :: nat where
  "max_u64 = 2 ^ 64 - 1"

definition format_u64 :: "int \<Rightarrow> string res" where
  "format_u64 value =
     (if value < 0 then Inl (ValueError ''u64 must be non-negative'') else Inr (str_of_int value))"

definition parse_u64 :: "string \<Rightarrow> string \<Rightarrow> nat res" where
  "parse_u64 field_name value =
     (if \<not> py_isdigit value \<or> 1 < length value \<and> hd value = CHR ''0''
      then Inl (ValueError (field_name @ '' must be a decimal u64 string''))
      else py_int value)"

definition check_u64 :: "string \<Rightarrow> string \<Rightarrow> check" where
  "check_u64 field_name value = check_of (parse_u64 field_name value)"

lemma check_u64_None [simp]: "check_u64 f v = None \<longleftrightarrow> is_ok (parse_u64 f v)"
  by (simp add: check_u64_def)

text \<open>The u64 a validated field holds.\<close>

definition u64_of :: "string \<Rightarrow> nat" where
  "u64_of value = digits_value 0 value"

definition is_u64 :: "string \<Rightarrow> bool" where
  "is_u64 value \<longleftrightarrow>
     value \<noteq> [] \<and> list_all is_ascii_digit value \<and> (1 < length value \<longrightarrow> hd value \<noteq> CHR ''0'')"

lemma parse_u64_Inr: "parse_u64 f v = Inr n \<longleftrightarrow> is_u64 v \<and> n = u64_of v"
  by (auto simp: parse_u64_def is_u64_def u64_of_def py_int_def py_isdigit_def is_digit_char_def
      list_all_iff)

lemma parse_u64_ok [simp]: "is_ok (parse_u64 f v) \<longleftrightarrow> is_u64 v"
  by (auto simp: is_ok_iff parse_u64_Inr)

lemma is_u64_str_of_nat [simp]: "is_u64 (str_of_nat n)"
  using str_of_nat_no_leading_zero [of n] str_of_nat_length_one [of n]
  by (auto simp: is_u64_def str_of_nat_digits)

lemma u64_of_str_of_nat [simp]: "u64_of (str_of_nat n) = n"
  by (simp add: u64_of_def digits_value_str_of_nat)

definition positive_integer :: "string \<Rightarrow> int \<Rightarrow> check" where
  "positive_integer field_name value =
     fails_when (value \<le> 0) (ValueError (field_name @ '' must be a positive integer''))"

lemma positive_integer_None [simp]: "positive_integer f i = None \<longleftrightarrow> 0 < i"
  by (simp add: positive_integer_def not_le)

section \<open>Run records\<close>

record AgentRunRecord =
  run_run_id :: string
  run_session_id :: string
  run_tape_id :: "string option"
  run_parent_run_id :: "string option"
  run_agent_id :: "string option"
  run_status :: string
  run_started_at :: datetime
  run_ended_at :: "datetime option"
  run_metadata :: dict
  run_result :: dict
  run_error :: "string option"
  run_superseded_by_checkpoint_id :: "string option"
  run_superseded_at :: "datetime option"

definition AgentRunRecord_init :: "AgentRunRecord \<Rightarrow> AgentRunRecord res" where
  "AgentRunRecord_init r =
     checks
       [require_non_empty ''run_id'' (run_run_id r),
        require_non_empty ''session_id'' (run_session_id r),
        require_non_empty ''status'' (run_status r),
        when_some (run_tape_id r) (require_non_empty ''tape_id''),
        when_some (run_parent_run_id r) (require_non_empty ''parent_run_id''),
        when_some (run_agent_id r) (require_non_empty ''agent_id''),
        when_some (run_error r) (require_non_empty ''error''),
        when_some (run_superseded_by_checkpoint_id r)
          (require_non_empty ''superseded_by_checkpoint_id'')]
       r"

definition normalize_optional_error :: "string option \<Rightarrow> string option" where
  "normalize_optional_error err =
     (case err of None \<Rightarrow> None | Some s \<Rightarrow> if is_blank s then None else Some s)"

section \<open>Events, mailbox and ledger slots\<close>

record EventRecord =
  fact_event_id :: string
  fact_session_id :: string
  fact_event_kind :: string
  fact_payload :: dict
  fact_created_at :: datetime
  fact_session_seq :: "string option"
  fact_projection_epoch :: "string option"

definition EventRecord_init :: "EventRecord \<Rightarrow> EventRecord res" where
  "EventRecord_init r =
     checks
       [require_non_empty ''event_id'' (fact_event_id r),
        require_non_empty ''session_id'' (fact_session_id r),
        require_non_empty ''event_kind'' (fact_event_kind r),
        when_some (fact_session_seq r) (check_u64 ''session_seq''),
        when_some (fact_projection_epoch r) (check_u64 ''projection_epoch'')]
       r"

record MailboxDispositionSlot =
  slot_slot_id :: string
  slot_lane :: string
  slot_disposition :: string
  slot_payload :: dict

definition MailboxDispositionSlot_init ::
    "MailboxDispositionSlot \<Rightarrow> MailboxDispositionSlot res" where
  "MailboxDispositionSlot_init s =
     checks
       [require_non_empty ''slot_id'' (slot_slot_id s),
        require_non_empty ''lane'' (slot_lane s),
        require_non_empty ''disposition'' (slot_disposition s)]
       s"

record CommandMailboxEntry =
  ent_command :: RuntimeCommand
  ent_admitted_session_seq :: string
  ent_admitted_dispatch_generation :: string
  ent_disposition :: string

definition CommandMailboxEntry_init :: "CommandMailboxEntry \<Rightarrow> CommandMailboxEntry res" where
  "CommandMailboxEntry_init e =
     checks
       [check_u64 ''admitted_session_seq'' (ent_admitted_session_seq e),
        check_u64 ''admitted_dispatch_generation'' (ent_admitted_dispatch_generation e),
        require_non_empty ''disposition'' (ent_disposition e)]
       e"

record RuntimeCommandAdmission =
  adm_entry :: CommandMailboxEntry
  adm_mailbox_cut :: string
  adm_idempotent :: bool

definition RuntimeCommandAdmission_init ::
    "RuntimeCommandAdmission \<Rightarrow> RuntimeCommandAdmission res" where
  "RuntimeCommandAdmission_init a =
     bind_res (parse_u64 ''mailbox_cut'' (adm_mailbox_cut a)) (\<lambda>mcut.
     bind_res (parse_u64 ''admitted_dispatch_generation''
         (ent_admitted_dispatch_generation (adm_entry a))) (\<lambda>generation.
     checks
       [fails_when (mcut < generation)
          (ValueError ''entry dispatch generation cannot exceed mailbox_cut'')] a))"

record CommandMailboxSnapshot =
  snapm_entries :: "CommandMailboxEntry list"
  snapm_mailbox_cut :: string

definition CommandMailboxSnapshot_init ::
    "CommandMailboxSnapshot \<Rightarrow> CommandMailboxSnapshot res" where
  "CommandMailboxSnapshot_init m =
     bind_res
       (checks
          [fails_when (\<not> distinct (map (cmd_command_id \<circ> ent_command) (snapm_entries m)))
             (ValueError ''entries must contain unique command identities'')] m) (\<lambda>m.
     bind_res
       (traverse_res (parse_u64 ''admitted_session_seq'' \<circ> ent_admitted_session_seq)
          (snapm_entries m)) (\<lambda>sequences.
     bind_res
       (checks
          [fails_when (\<not> sorted sequences)
             (ValueError ''entries must be ordered by admitted_session_seq'')] m) (\<lambda>m.
     bind_res (parse_u64 ''mailbox_cut'' (snapm_mailbox_cut m)) (\<lambda>mcut.
     bind_res
       (traverse_res
          (parse_u64 ''admitted_dispatch_generation'' \<circ> ent_admitted_dispatch_generation)
          (snapm_entries m)) (\<lambda>generations.
     checks
       [fails_when (list_ex (\<lambda>g. mcut < g) generations)
          (ValueError ''entry dispatch generation cannot exceed mailbox_cut'')] m)))))"

record EffectLedgerSlot =
  ledger_effect_id :: string
  ledger_status :: string
  ledger_payload :: dict

definition EffectLedgerSlot_init :: "EffectLedgerSlot \<Rightarrow> EffectLedgerSlot res" where
  "EffectLedgerSlot_init s =
     checks
       [require_non_empty ''effect_id'' (ledger_effect_id s),
        require_non_empty ''status'' (ledger_status s)] s"

record OperationReceiptSlot =
  op_receipt_id :: string
  op_generation :: string
  op_payload :: dict
  op_compensation_effect_id :: "string option"

definition OperationReceiptSlot_init :: "OperationReceiptSlot \<Rightarrow> OperationReceiptSlot res" where
  "OperationReceiptSlot_init s =
     checks
       [require_non_empty ''receipt_id'' (op_receipt_id s),
        check_u64 ''generation'' (op_generation s),
        when_some (op_compensation_effect_id s) (require_non_empty ''compensation_effect_id'')] s"

section \<open>Cursors and handoffs\<close>

record RawCursor =
  raw_session_id :: string
  raw_session_seq :: string

definition RawCursor_init :: "RawCursor \<Rightarrow> RawCursor res" where
  "RawCursor_init c =
     checks
       [require_non_empty ''session_id'' (raw_session_id c),
        check_u64 ''session_seq'' (raw_session_seq c)] c"

record ProjectionCursor =
  pcur_kind :: string
  pcur_session_id :: string
  pcur_projection :: string
  pcur_epoch :: string
  pcur_session_seq :: string

definition ProjectionCursor_init :: "ProjectionCursor \<Rightarrow> ProjectionCursor res" where
  "ProjectionCursor_init c =
     checks
       [fails_when (pcur_kind c \<notin> {''delta'', ''settled''})
          (ValueError (''kind must be '' @ [quote_char] @ ''delta'' @ [quote_char] @ '' or ''
             @ [quote_char] @ ''settled'' @ [quote_char])),
        require_non_empty ''session_id'' (pcur_session_id c),
        require_non_empty ''projection'' (pcur_projection c),
        check_u64 ''epoch'' (pcur_epoch c),
        check_u64 ''session_seq'' (pcur_session_seq c)] c"

record TrustedHandoff =
  hand_session_id :: string
  hand_session_seq :: string
  hand_projection :: string
  hand_epoch :: string
  hand_payload :: dict

definition TrustedHandoff_init :: "TrustedHandoff \<Rightarrow> TrustedHandoff res" where
  "TrustedHandoff_init h =
     checks
       [require_non_empty ''session_id'' (hand_session_id h),
        check_u64 ''session_seq'' (hand_session_seq h),
        require_non_empty ''projection'' (hand_projection h),
        check_u64 ''epoch'' (hand_epoch h)] h"

record SessionFactSourceState =
  src_session_id :: string
  src_session_seq :: string
  src_retention_floor :: string
  src_projection :: string
  src_projection_epoch :: string
  src_trusted_handoff :: "TrustedHandoff option"
  src_dispatch_generation :: string

definition SessionFactSourceState_init ::
    "SessionFactSourceState \<Rightarrow> SessionFactSourceState res" where
  "SessionFactSourceState_init s =
     checks
       [require_non_empty ''session_id'' (src_session_id s),
        check_u64 ''session_seq'' (src_session_seq s),
        check_u64 ''retention_floor'' (src_retention_floor s),
        require_non_empty ''projection'' (src_projection s),
        check_u64 ''projection_epoch'' (src_projection_epoch s),
        check_u64 ''dispatch_generation'' (src_dispatch_generation s),
        when_some (src_trusted_handoff s) (\<lambda>h.
          fails_when (hand_session_id h \<noteq> src_session_id s)
            (ValueError ''trusted_handoff.session_id must match session_id''))] s"

text \<open>
  Three guards of a reader: below the retention floor (only the next event is needed, hence the
  \<open>+ 1\<close>), bound to another projection, or handed a cut the log has not reached.
\<close>

definition assert_raw_cursor_not_expired :: "RawCursor \<Rightarrow> string \<Rightarrow> unit res" where
  "assert_raw_cursor_not_expired c retention_floor =
     bind_res (parse_u64 ''retention_floor'' retention_floor) (\<lambda>floor.
     bind_res (parse_u64 ''session_seq'' (raw_session_seq c)) (\<lambda>cursor_seq.
     if cursor_seq + 1 < floor
     then bind_res (checks [require_non_empty ''session_id'' (raw_session_id c)] ()) (\<lambda>_.
            Inl (KeyExpiredError (raw_session_id c) retention_floor (raw_session_seq c)))
     else Inr ()))"

definition assert_projection_binding ::
    "ProjectionCursor \<Rightarrow> SessionFactSourceState \<Rightarrow> unit res" where
  "assert_projection_binding c s =
     checks
       [fails_when (pcur_session_id c \<noteq> src_session_id s)
          (CursorEpochMismatchError (''projection cursor session mismatch: '' @ pcur_session_id c)),
        fails_when (pcur_projection c \<noteq> src_projection s)
          (CursorEpochMismatchError (''projection cursor bound to projection '' @ pcur_projection c
             @ '', current is '' @ src_projection s)),
        fails_when (pcur_epoch c \<noteq> src_projection_epoch s)
          (CursorEpochMismatchError (''projection cursor bound to epoch '' @ pcur_epoch c
             @ '', current is '' @ src_projection_epoch s))] ()"

definition assert_trusted_handoff :: "TrustedHandoff \<Rightarrow> SessionFactSourceState \<Rightarrow> unit res" where
  "assert_trusted_handoff h s =
     bind_res
       (checks
          [fails_when (hand_session_id h \<noteq> src_session_id s)
             (CursorEpochMismatchError (''trusted handoff session mismatch: '' @ hand_session_id h)),
           fails_when (hand_projection h \<noteq> src_projection s)
             (CursorEpochMismatchError (''trusted handoff bound to projection '' @ hand_projection h
                @ '', current is '' @ src_projection s)),
           fails_when (hand_epoch h \<noteq> src_projection_epoch s)
             (CursorEpochMismatchError (''trusted handoff bound to epoch '' @ hand_epoch h
                @ '', current is '' @ src_projection_epoch s))] ()) (\<lambda>_.
     bind_res (parse_u64 ''session_seq'' (hand_session_seq h)) (\<lambda>handoff_seq.
     bind_res (parse_u64 ''session_seq'' (src_session_seq s)) (\<lambda>current_seq.
     if current_seq < handoff_seq
     then Inl (CursorEpochMismatchError ''trusted handoff is ahead of the physical log'')
     else Inr ())))"

definition stored_trusted_handoff ::
    "string \<Rightarrow> int option \<Rightarrow> int option \<Rightarrow> string option \<Rightarrow> dict option
     \<Rightarrow> TrustedHandoff option res" where
  "stored_trusted_handoff session_id session_seq epoch projection payload =
     (case (session_seq, epoch, projection, payload) of
        (None, None, None, None) \<Rightarrow> Inr None
      | (Some n, Some e, Some p, Some d) \<Rightarrow>
          bind_res (format_u64 n) (\<lambda>seq.
          bind_res (format_u64 e) (\<lambda>ep.
          map_res Some (TrustedHandoff_init
            \<lparr>hand_session_id = session_id, hand_session_seq = seq, hand_projection = p,
             hand_epoch = ep, hand_payload = d\<rparr>)))
      | _ \<Rightarrow> Inl (TypeError ''trusted handoff columns must be stored together''))"

record RetentionFloorReplay =
  replay_events :: "EventRecord list"
  replay_raw_cursor :: RawCursor
  replay_complete :: bool

text \<open>\<open>RetentionFloorReplay.from_page\<close>: where a page of replayed events leaves the cursor.\<close>

definition RetentionFloorReplay_from_page ::
    "string \<Rightarrow> EventRecord list \<Rightarrow> int \<Rightarrow> int \<Rightarrow> string \<Rightarrow> RetentionFloorReplay res" where
  "RetentionFloorReplay_from_page session_id events limit retention_floor head_session_seq =
     (if events \<noteq> []
      then case fact_session_seq (last events) of
             None \<Rightarrow> Inl (ValueError ''replayed event must include session_seq'')
           | Some last_seq \<Rightarrow>
               map_res (\<lambda>c. \<lparr>replay_events = events, replay_raw_cursor = c,
                   replay_complete = int (length events) < limit \<or> last_seq = head_session_seq\<rparr>)
                 (RawCursor_init \<lparr>raw_session_id = session_id, raw_session_seq = last_seq\<rparr>)
      else bind_res (format_u64 (max retention_floor 1 - 1)) (\<lambda>seq.
           map_res (\<lambda>c. \<lparr>replay_events = events, replay_raw_cursor = c, replay_complete = True\<rparr>)
             (RawCursor_init \<lparr>raw_session_id = session_id, raw_session_seq = seq\<rparr>)))"

section \<open>Which slot may replace which\<close>

definition effect_status_ranks :: "(string \<times> nat) list" where
  "effect_status_ranks =
     [(''prepared'', 1), (''dispatched'', 2), (''unknown'', 3), (''failed'', 3), (''completed'', 4)]"

definition status_rank :: "string \<Rightarrow> nat" where
  "status_rank status = (case map_of effect_status_ranks status of None \<Rightarrow> 0 | Some n \<Rightarrow> n)"

definition effect_status_rank :: "string \<Rightarrow> nat res" where
  "effect_status_rank status =
     checks [require_non_empty ''status'' status] (status_rank status)"

definition effect_status_may_replace :: "string \<Rightarrow> string \<Rightarrow> bool res" where
  "effect_status_may_replace current_status incoming =
     (if current_status = ''settled'' \<or> incoming = ''settled'' then Inr False
      else bind_res (effect_status_rank incoming) (\<lambda>i.
           bind_res (effect_status_rank current_status) (\<lambda>c. Inr (c \<le> i))))"

definition legacy_settled_slot_may_replace :: "string option \<Rightarrow> bool" where
  "legacy_settled_slot_may_replace current_status \<longleftrightarrow>
     current_status = None \<or> current_status = Some ''prepared''"

definition receipt_generation_may_replace :: "string \<Rightarrow> string \<Rightarrow> bool res" where
  "receipt_generation_may_replace current_generation incoming =
     bind_res (parse_u64 ''generation'' incoming) (\<lambda>i.
     bind_res (parse_u64 ''generation'' current_generation) (\<lambda>c. Inr (c < i)))"

lemmas record_init_defs [init_defs] =
  AgentRunRecord_init_def EventRecord_init_def MailboxDispositionSlot_init_def
  CommandMailboxEntry_init_def EffectLedgerSlot_init_def OperationReceiptSlot_init_def
  RawCursor_init_def ProjectionCursor_init_def TrustedHandoff_init_def
  SessionFactSourceState_init_def

end
