(* ===== verification/Store_Recovery.thy ===== *)
theory Store_Recovery
  imports Store_Records
begin

text \<open>
  \<open>coding_agent/stores/rtstore/harness.py\<close>, second part: the evidence a reconciliation rests
  on and the state it commits, executor attempts, the leases and bindings of recovered child
  runs, the guards of recovery transitions, and runtime commands in the mailbox.
\<close>

section \<open>Reconciliation evidence\<close>

record EffectReconciliationEvidence =
  evi_evidence_ref :: string
  evi_session_id :: string
  evi_effect_id :: string
  evi_attempt_id :: string
  evi_authorization_transition_id :: string
  evi_reconciliation_owner_epoch :: int
  evi_outcome :: ReconciliationOutcome
  evi_result :: pyval
  evi_reason_code :: "string option"
  evi_reason_message :: "string option"

definition evidence_reason_check :: "EffectReconciliationEvidence \<Rightarrow> check" where
  "evidence_reason_check v =
     (case evi_outcome v of
        RO_COMPLETED \<Rightarrow>
          fails_when (evi_reason_code v \<noteq> None \<or> evi_reason_message v \<noteq> None)
            (ValueError ''completed evidence cannot carry a failure reason'')
      | RO_FAILED \<Rightarrow>
          (case (evi_reason_code v, evi_reason_message v) of
             (Some c, Some m) \<Rightarrow>
               (case require_non_empty ''reason_code'' c of
                  Some e \<Rightarrow> Some e
                | None \<Rightarrow>
                    fails_when (is_blank m) (ValueError ''reason_message must not be blank''))
           | _ \<Rightarrow> Some (ValueError ''failed evidence requires a stable reason'')))"

definition EffectReconciliationEvidence_init ::
    "EffectReconciliationEvidence \<Rightarrow> EffectReconciliationEvidence res" where
  "EffectReconciliationEvidence_init v =
     bind_res
       (checks
          [require_non_empty ''evidence_ref'' (evi_evidence_ref v),
           require_non_empty ''session_id'' (evi_session_id v),
           require_non_empty ''effect_id'' (evi_effect_id v),
           require_non_empty ''attempt_id'' (evi_attempt_id v),
           require_non_empty ''authorization_transition_id'' (evi_authorization_transition_id v),
           positive_integer ''reconciliation_owner_epoch'' (evi_reconciliation_owner_epoch v),
           evidence_reason_check v] v) (\<lambda>v.
     map_res (\<lambda>r. v\<lparr>evi_result := r\<rparr>) (plain_json (evi_result v)))"

definition evidence_payload :: "EffectReconciliationEvidence \<Rightarrow> dict" where
  "evidence_payload v = dict_of
     [(''evidence_ref'', PStr (evi_evidence_ref v)),
      (''session_id'', PStr (evi_session_id v)),
      (''effect_id'', PStr (evi_effect_id v)),
      (''attempt_id'', PStr (evi_attempt_id v)),
      (''authorization_transition_id'', PStr (evi_authorization_transition_id v)),
      (''reconciliation_owner_epoch'', PInt (evi_reconciliation_owner_epoch v)),
      (''outcome'', PStr (reconciliation_outcome_value (evi_outcome v))),
      (''result'', evi_result v),
      (''reason_code'', opt_str (evi_reason_code v)),
      (''reason_message'', opt_str (evi_reason_message v))]"

definition reconciled_effect_input_id :: "ReconciliationRecord \<Rightarrow> string" where
  "reconciled_effect_input_id r = rec_transition_id r @ '':settled''"

text \<open>
  The state a reconciliation commits: the runtime state of the current one, with the unknown
  effect, checked against the retained authorization and the evidence, settled under
  \<open>reconciled_effect\<close>.
\<close>

definition authorization_fields :: "string list" where
  "authorization_fields =
     [''effect_id'', ''attempt_id'', ''tool_call_id'', ''tool_name'',
      ''authorization_transition_id'', ''dispatch_owner_epoch'']"

definition reconciled_marker ::
    "dict \<Rightarrow> EffectReconciliationEvidence \<Rightarrow> ReconciliationRecord \<Rightarrow> dict" where
  "reconciled_marker unknown v r =
     dict_union unknown (dict_of
       [(''reconciliation_transition_id'', PStr (rec_transition_id r)),
        (''evidence_ref'', PStr (evi_evidence_ref v)),
        (''reconciliation_owner_epoch'', PInt (evi_reconciliation_owner_epoch v)),
        (''reconciled_input_id'', PStr (reconciled_effect_input_id r)),
        (''outcome'', PStr (reconciliation_outcome_value (evi_outcome v))),
        (''result'', evi_result v),
        (''reason_code'', opt_str (evi_reason_code v)),
        (''reason_message'', opt_str (evi_reason_message v))])"

text \<open>The unknown effect the runtime state records, when authorization and evidence agree with it.\<close>

definition reconcilable_unknown ::
    "dict \<Rightarrow> EffectReconciliationEvidence \<Rightarrow> dict res" where
  "reconcilable_unknown rt v =
     (case as_dict (dict_get rt ''unknown_effect'') of
        None \<Rightarrow> Inl (ValueError ''reconciliation requires a committed unknown effect'')
      | Some unknown \<Rightarrow>
          (case as_dict (dict_get rt ''active_effect_authorization'') of
             None \<Rightarrow> Inl (ValueError ''reconciliation requires retained authorization'')
           | Some active \<Rightarrow>
               (if (case as_seq (dict_get rt ''pending_effect_plans'') of
                      None \<Rightarrow> True | Some plans \<Rightarrow> plans = [])
                then Inl (ValueError ''reconciliation requires a retained effect plan'')
                else if list_ex (\<lambda>f. \<not> py_eq (dict_get unknown f) (dict_get active f))
                          authorization_fields
                then Inl (ValueError ''unknown effect does not match retained authorization'')
                else if as_nonempty_str (dict_get unknown ''indeterminate_input_id'') = None
                then Inl (ValueError ''unknown effect is missing its consume-once input'')
                else if dict_get unknown ''effect_id'' \<noteq> PStr (evi_effect_id v)
                     \<or> dict_get unknown ''attempt_id'' \<noteq> PStr (evi_attempt_id v)
                     \<or> dict_get unknown ''authorization_transition_id''
                         \<noteq> PStr (evi_authorization_transition_id v)
                then Inl (ValueError ''unknown effect does not match reconciliation evidence'')
                else Inr unknown)))"

definition state_value_with_reconciled_effect ::
    "dict \<Rightarrow> EffectReconciliationEvidence \<Rightarrow> ReconciliationRecord \<Rightarrow> dict res" where
  "state_value_with_reconciled_effect current_value v r =
     (if evi_effect_id v \<noteq> rec_effect_id r \<or> evi_attempt_id v \<noteq> rec_attempt_id r
         \<or> evi_reconciliation_owner_epoch v \<noteq> rec_owner_epoch r
         \<or> evi_outcome v \<noteq> rec_observed_outcome r
         \<or> evi_evidence_ref v \<noteq> rec_evidence_ref r
      then Inl (ValueError ''evidence and reconciliation record do not match'')
      else
        bind_res (plain_json (PDict current_value)) (\<lambda>plain.
        let state_value = (case as_dict plain of None \<Rightarrow> [] | Some d \<Rightarrow> d) in
        case as_dict (dict_get state_value runtime_key) of
          None \<Rightarrow> Inl (ValueError ''reconciliation requires committed runtime state'')
        | Some rt \<Rightarrow>
            bind_res (reconcilable_unknown rt v) (\<lambda>unknown.
            Inr (dict_set runtime_key
              (PDict (dict_set ''reconciled_effect'' (PDict (reconciled_marker unknown v r)) rt))
              state_value))))"

section \<open>Executor attempts\<close>

datatype ExecutorAttemptStatus = AUTHORIZED_UNCLAIMED | RESERVED | STARTED | QUIESCENT

fun attempt_status_value :: "ExecutorAttemptStatus \<Rightarrow> string" where
  "attempt_status_value AUTHORIZED_UNCLAIMED = ''authorized_unclaimed''"
| "attempt_status_value RESERVED = ''reserved''"
| "attempt_status_value STARTED = ''started''"
| "attempt_status_value QUIESCENT = ''quiescent''"

record ExecutorAttemptRecord =
  att_session_id :: string
  att_effect_id :: string
  att_attempt_id :: string
  att_authorization_transition_id :: string
  att_dispatch_owner_epoch :: int
  att_status :: ExecutorAttemptStatus
  att_executor_id :: "string option"
  att_claim_generation :: int
  att_reservation_lease_expires_at :: "datetime option"
  att_quiescence_evidence_ref :: "string option"
  att_authorization_mailbox_cut :: string
  att_authorization_mailbox_session_seq :: string

text \<open>An unclaimed attempt carries no claim; a claimed one carries all of it, and evidence exactly
  when it is quiescent.\<close>

definition attempt_claim_checks :: "ExecutorAttemptRecord \<Rightarrow> check list" where
  "attempt_claim_checks a =
     (if att_status a = AUTHORIZED_UNCLAIMED
      then [fails_when
              (att_executor_id a \<noteq> None \<or> att_claim_generation a \<noteq> 0
               \<or> att_reservation_lease_expires_at a \<noteq> None
               \<or> att_quiescence_evidence_ref a \<noteq> None)
              (ValueError ''authorized_unclaimed attempt cannot carry a claim'')]
      else
        [(case att_executor_id a of
            None \<Rightarrow> Some (ValueError ''claimed executor attempt requires executor_id'')
          | Some x \<Rightarrow> require_non_empty ''executor_id'' x),
         fails_when (att_claim_generation a \<le> 0)
           (ValueError ''claimed executor attempt requires claim_generation''),
         fails_when (att_reservation_lease_expires_at a = None)
           (ValueError ''claimed executor attempt requires reservation lease''),
         (case att_quiescence_evidence_ref a of
            None \<Rightarrow> fails_when (att_status a = QUIESCENT)
                      (ValueError ''quiescent executor attempt requires evidence'')
          | Some ref \<Rightarrow>
              (if att_status a = QUIESCENT then require_non_empty ''quiescence_evidence_ref'' ref
               else Some (ValueError ''only quiescent executor attempts carry evidence'')))])"

definition ExecutorAttemptRecord_init ::
    "ExecutorAttemptRecord \<Rightarrow> ExecutorAttemptRecord res" where
  "ExecutorAttemptRecord_init a =
     checks
       ([require_non_empty ''session_id'' (att_session_id a),
         require_non_empty ''effect_id'' (att_effect_id a),
         require_non_empty ''attempt_id'' (att_attempt_id a),
         require_non_empty ''authorization_transition_id'' (att_authorization_transition_id a),
         positive_integer ''dispatch_owner_epoch'' (att_dispatch_owner_epoch a),
         fails_when (att_claim_generation a < 0)
           (ValueError ''claim_generation must be a non-negative integer''),
         check_u64 ''authorization_mailbox_cut'' (att_authorization_mailbox_cut a),
         check_u64 ''authorization_mailbox_session_seq''
           (att_authorization_mailbox_session_seq a)]
        @ attempt_claim_checks a) a"

definition attempt_payload :: "ExecutorAttemptRecord \<Rightarrow> dict" where
  "attempt_payload a = dict_of
     [(''session_id'', PStr (att_session_id a)),
      (''effect_id'', PStr (att_effect_id a)),
      (''attempt_id'', PStr (att_attempt_id a)),
      (''authorization_transition_id'', PStr (att_authorization_transition_id a)),
      (''dispatch_owner_epoch'', PInt (att_dispatch_owner_epoch a)),
      (''status'', PStr (attempt_status_value (att_status a))),
      (''authorization_mailbox_cut'', PStr (att_authorization_mailbox_cut a)),
      (''authorization_mailbox_session_seq'', PStr (att_authorization_mailbox_session_seq a)),
      (''executor_id'', opt_str (att_executor_id a)),
      (''claim_generation'', PInt (att_claim_generation a)),
      (''reservation_lease_expires_at'',
         opt_str (map_option isoformat (att_reservation_lease_expires_at a))),
      (''quiescence_evidence_ref'', opt_str (att_quiescence_evidence_ref a))]"

section \<open>Recovered children\<close>

record RecoveredChildExecutionLease =
  lease_session_id :: string
  lease_child_run_id :: string
  lease_lease_id :: string
  lease_resume_generation :: int
  lease_resume_cut :: string
  lease_owner_epoch :: int
  lease_prior_session_seq :: string
  lease_resume_session_seq :: string
  lease_mailbox_snapshot :: "CommandMailboxEntry list"

definition RecoveredChildExecutionLease_init ::
    "RecoveredChildExecutionLease \<Rightarrow> RecoveredChildExecutionLease res" where
  "RecoveredChildExecutionLease_init l =
     bind_res
       (checks
          [require_non_empty ''session_id'' (lease_session_id l),
           require_non_empty ''child_run_id'' (lease_child_run_id l),
           require_non_empty ''lease_id'' (lease_lease_id l),
           positive_integer ''resume_generation'' (lease_resume_generation l),
           check_u64 ''resume_cut'' (lease_resume_cut l)] l) (\<lambda>l.
     bind_res (parse_u64 ''prior_session_seq'' (lease_prior_session_seq l)) (\<lambda>prior.
     bind_res (parse_u64 ''resume_session_seq'' (lease_resume_session_seq l)) (\<lambda>resume.
     bind_res
       (checks
          [fails_when (resume < prior)
             (ValueError ''prior_session_seq cannot exceed resume_session_seq'')] l) (\<lambda>l.
     bind_res
       (traverse_res (\<lambda>e. parse_u64 ''admitted_session_seq'' (ent_admitted_session_seq e))
          (lease_mailbox_snapshot l)) (\<lambda>admitted.
     checks
       [fails_when (\<not> sorted admitted)
          (ValueError ''mailbox_snapshot must be ordered by admitted_session_seq''),
        fails_when (list_ex (\<lambda>n. n \<le> prior \<or> resume < n) admitted)
          (ValueError ''mailbox_snapshot entry is outside lease session range''),
        positive_integer ''owner_epoch'' (lease_owner_epoch l)] l)))))"

record ChildExecutionBinding =
  child_session_id :: string
  child_parent_run_id :: string
  child_parent_effect_id :: string
  child_parent_attempt_id :: string
  child_child_run_id :: string
  child_authorization_transition_id :: string
  child_live_parent_settlement_transition_id :: string
  child_active_lease :: "RecoveredChildExecutionLease option"

definition ChildExecutionBinding_init ::
    "ChildExecutionBinding \<Rightarrow> ChildExecutionBinding res" where
  "ChildExecutionBinding_init b =
     checks
       [require_non_empty ''session_id'' (child_session_id b),
        require_non_empty ''parent_run_id'' (child_parent_run_id b),
        require_non_empty ''parent_effect_id'' (child_parent_effect_id b),
        require_non_empty ''parent_attempt_id'' (child_parent_attempt_id b),
        require_non_empty ''child_run_id'' (child_child_run_id b),
        require_non_empty ''authorization_transition_id'' (child_authorization_transition_id b),
        require_non_empty ''live_parent_settlement_transition_id''
          (child_live_parent_settlement_transition_id b),
        when_some (child_active_lease b) (\<lambda>l.
          fails_when
            (lease_session_id l \<noteq> child_session_id b
             \<or> lease_child_run_id l \<noteq> child_child_run_id b)
            (ValueError ''active lease must match its child binding''))] b"

datatype RecoveryGuardKind = CHILD_TERMINAL | PARENT_SETTLEMENT

fun guard_kind_value :: "RecoveryGuardKind \<Rightarrow> string" where
  "guard_kind_value CHILD_TERMINAL = ''child_terminal''"
| "guard_kind_value PARENT_SETTLEMENT = ''parent_settlement''"

record RecoveryTransitionGuard =
  guard_lease_id :: string
  guard_child_run_id :: string
  guard_resume_generation :: int
  guard_expected_recovery_cut :: string
  guard_kind :: RecoveryGuardKind

definition RecoveryTransitionGuard_init ::
    "RecoveryTransitionGuard \<Rightarrow> RecoveryTransitionGuard res" where
  "RecoveryTransitionGuard_init g =
     checks
       [require_non_empty ''lease_id'' (guard_lease_id g),
        require_non_empty ''child_run_id'' (guard_child_run_id g),
        positive_integer ''resume_generation'' (guard_resume_generation g),
        check_u64 ''expected_recovery_cut'' (guard_expected_recovery_cut g)] g"

record UnstartedDispatchCloseoutGuard =
  close_effect_id :: string
  close_attempt_id :: string
  close_authorization_transition_id :: string
  close_executor_id :: string
  close_evidence_ref :: string
  close_closed_at :: datetime

definition UnstartedDispatchCloseoutGuard_init ::
    "UnstartedDispatchCloseoutGuard \<Rightarrow> UnstartedDispatchCloseoutGuard res" where
  "UnstartedDispatchCloseoutGuard_init g =
     checks
       [require_non_empty ''effect_id'' (close_effect_id g),
        require_non_empty ''attempt_id'' (close_attempt_id g),
        require_non_empty ''authorization_transition_id'' (close_authorization_transition_id g),
        require_non_empty ''executor_id'' (close_executor_id g),
        require_non_empty ''evidence_ref'' (close_evidence_ref g)] g"

record RecoveredChildControlState =
  ctrl_dispatch_generation :: string
  ctrl_session_seq :: string
  ctrl_mailbox_snapshot :: "CommandMailboxEntry list"

definition RecoveredChildControlState_init ::
    "RecoveredChildControlState \<Rightarrow> RecoveredChildControlState res" where
  "RecoveredChildControlState_init c =
     bind_res
       (checks
          [check_u64 ''dispatch_generation'' (ctrl_dispatch_generation c)] c) (\<lambda>c.
     bind_res (parse_u64 ''session_seq'' (ctrl_session_seq c)) (\<lambda>n.
     bind_res
       (traverse_res (\<lambda>e. parse_u64 ''admitted_session_seq'' (ent_admitted_session_seq e))
          (ctrl_mailbox_snapshot c)) (\<lambda>admitted.
     checks
       [fails_when (list_ex (\<lambda>m. n < m) admitted)
          (ValueError ''control snapshot entry exceeds session_seq'')] c)))"

section \<open>Runtime commands in the mailbox\<close>

definition runtime_command_mailbox_payload :: "RuntimeCommand \<Rightarrow> dict res" where
  "runtime_command_mailbox_payload command =
     map_res (\<lambda>p. dict_of
         [(''runtime_command_kind'', PStr (cmd_command_kind command)),
          (''runtime_command_payload'', p)])
       (plain_json (PDict (cmd_payload command)))"

definition runtime_command_from_mailbox_payload :: "string \<Rightarrow> dict \<Rightarrow> RuntimeCommand res" where
  "runtime_command_from_mailbox_payload command_id payload =
     bind_res (checks [require_non_empty ''command_id'' command_id] ()) (\<lambda>_.
     case as_nonempty_str (dict_get payload ''runtime_command_kind'') of
       None \<Rightarrow> Inl (ValueError ''runtime command mailbox payload is missing command_kind'')
     | Some kind \<Rightarrow>
         (case as_dict (dict_get payload ''runtime_command_payload'') of
            None \<Rightarrow>
              Inl (TypeError ''runtime command mailbox payload must contain an object payload'')
          | Some d \<Rightarrow>
              RuntimeCommand_init
                \<lparr>cmd_command_id = command_id, cmd_command_kind = kind, cmd_payload = d\<rparr>))"

definition runtime_command_invalidates_dispatch :: "RuntimeCommand \<Rightarrow> bool res" where
  "runtime_command_invalidates_dispatch command =
     (if cmd_command_kind command \<in> {''cancel'', ''interrupt''} then Inr True
      else if cmd_command_kind command \<noteq> ''approval_decision'' then Inr False
      else case as_bool (dict_get (cmd_payload command) ''approved'') of
             None \<Rightarrow> Inl (TypeError ''approval_decision payload must contain boolean approved'')
           | Some b \<Rightarrow> Inr (\<not> b))"

definition validate_new_runtime_command_target :: "RuntimeCommand \<Rightarrow> unit res" where
  "validate_new_runtime_command_target command =
     (if cmd_command_kind command \<notin> {''cancel'', ''interrupt'', ''approval_decision''} then Inr ()
      else
        let run = dict_get (cmd_payload command) ''target_run_id'';
            scope = dict_get (cmd_payload command) ''target_scope'';
            has_run = as_nonempty_str run \<noteq> None;
            has_global = (scope = PStr ''global'')
        in if run \<noteq> PNone \<and> \<not> has_run
           then Inl (ValueError ''target_run_id must be a non-empty string'')
           else if scope \<noteq> PNone \<and> \<not> has_global
           then Inl (ValueError
                  (''target_scope must be '' @ [quote_char] @ ''global'' @ [quote_char]))
           else if has_run = has_global
           then Inl (ValueError ''new-runtime command requires exactly one run or global target'')
           else if cmd_command_kind command = ''approval_decision''
           then case as_bool (dict_get (cmd_payload command) ''approved'') of
                  None \<Rightarrow>
                    Inl (TypeError ''approval_decision payload must contain boolean approved'')
                | Some b \<Rightarrow>
                    (if b \<and> has_global
                     then Inl (ValueError ''approved decisions require target_run_id'') else Inr ())
           else Inr ())"

definition runtime_command_targets :: "RuntimeCommand \<Rightarrow> string list \<Rightarrow> bool res" where
  "runtime_command_targets command run_ids =
     bind_res (validate_new_runtime_command_target command) (\<lambda>_.
     if dict_get (cmd_payload command) ''target_scope'' = PStr ''global'' then Inr True
     else
       let run = dict_get (cmd_payload command) ''target_run_id'' in
       if \<not> hashable run then Inl (TypeError ''unhashable type'')
       else Inr (case as_str run of None \<Rightarrow> False | Some r \<Rightarrow> r \<in> set run_ids))"

text \<open>
  An approval that arrives while a recovered child waits: it must be for the plan the durable
  state waits on, and its command must be in the mailbox exactly once, admitted after the lease
  was taken or already part of its snapshot.
\<close>

definition waiting_plan_matches :: "dict \<Rightarrow> dict \<Rightarrow> ApprovalSettlement \<Rightarrow> bool" where
  "waiting_plan_matches plan payload a \<longleftrightarrow>
     dict_get plan ''effect_id'' = PStr (ap_effect_id a)
     \<and> dict_get plan ''attempt_id'' = PStr (ap_attempt_id a)
     \<and> dict_get plan ''approval_request_id'' = PStr (ap_input_id a)
     \<and> dict_get payload ''tool_call_id'' = PStr (ap_tool_call_id a)
     \<and> dict_get payload ''tool_name'' = PStr (ap_tool_name a)"

definition refresh_command_ok ::
    "RecoveredChildExecutionLease \<Rightarrow> ApprovalSettlement \<Rightarrow> CommandMailboxEntry \<Rightarrow> bool res" where
  "refresh_command_ok lease a e =
     bind_res (parse_u64 ''admitted_session_seq'' (ent_admitted_session_seq e)) (\<lambda>admitted.
     bind_res (parse_u64 ''resume_session_seq'' (lease_resume_session_seq lease)) (\<lambda>resume.
     Inr (ent_disposition e = ''pending''
       \<and> cmd_command_kind (ent_command e) = ''approval_decision''
       \<and> dict_get (cmd_payload (ent_command e)) ''approved'' = PBool True
       \<and> dict_get (cmd_payload (ent_command e)) ''request_id'' = PStr (ap_input_id a)
       \<and> dict_get (cmd_payload (ent_command e)) ''target_run_id'' = PStr (lease_child_run_id lease)
       \<and> (resume < admitted \<or> e \<in> set (lease_mailbox_snapshot lease)))))"

definition waiting_plan :: "OperationStateVersion \<Rightarrow> (dict \<times> dict) res" where
  "waiting_plan sv =
     (case as_dict (dict_get (osv_value sv) runtime_key) of
        None \<Rightarrow>
          Inl (RecoveryLeaseConflictError ''approval refresh requires durable child runtime state'')
      | Some rt \<Rightarrow>
          (case as_seq (dict_get rt ''pending_effect_plans'') of
             Some (plan # _) \<Rightarrow>
               (case as_dict plan of
                  None \<Rightarrow> Inl (RecoveryLeaseConflictError
                            ''approval refresh waiting effect plan is malformed'')
                | Some d \<Rightarrow>
                    (case as_dict (dict_get d ''payload'') of
                       None \<Rightarrow> Inl (RecoveryLeaseConflictError
                                 ''approval refresh waiting effect payload is malformed'')
                     | Some p \<Rightarrow> Inr (d, p)))
           | _ \<Rightarrow> Inl (RecoveryLeaseConflictError
                     ''approval refresh requires a durable waiting effect plan'')))"

definition validate_recovery_approval_refresh ::
    "RecoveredChildExecutionLease \<Rightarrow> OperationStateVersion \<Rightarrow> ApprovalSettlement
     \<Rightarrow> CommandMailboxEntry list \<Rightarrow> unit res" where
  "validate_recovery_approval_refresh lease sv a snapshot =
     (if osv_run_id sv \<noteq> lease_child_run_id lease
      then Inl (RecoveryLeaseConflictError
             ''approval refresh state does not belong to the recovered child'')
      else if ap_owner_epoch a \<noteq> lease_owner_epoch lease \<or> \<not> ap_approved a
      then Inl (RecoveryLeaseConflictError
             ''approval refresh does not belong to the active owner'')
      else
        bind_res (waiting_plan sv) (\<lambda>(plan, payload).
        if \<not> waiting_plan_matches plan payload a
        then Inl (RecoveryLeaseConflictError
               ''approval refresh does not match the durable waiting effect plan'')
        else case filter (\<lambda>e. cmd_command_id (ent_command e) = ap_command_id a) snapshot of
               [e] \<Rightarrow>
                 bind_res (refresh_command_ok lease a e) (\<lambda>ok.
                 if ok then Inr ()
                 else Inl (RecoveryLeaseConflictError
                        ''approval refresh command does not authorize this recovered child''))
             | _ \<Rightarrow> Inl (RecoveryLeaseConflictError
                       ''approval refresh command is absent or duplicated'')))"

section \<open>The receipt of a parent settlement\<close>

definition terminal_parent_effect_statuses :: "string list" where
  "terminal_parent_effect_statuses =
     map effect_status_value [COMPLETED, FAILED, UNKNOWN, REJECTED]"

text \<open>The receipts that exist, by transition id; a later row of the same id replaces the earlier.\<close>

definition present_receipts :: "string \<Rightarrow> 'r option \<Rightarrow> (string \<times> 'r option) list
    \<Rightarrow> (string \<times> 'r) list" where
  "present_receipts current_id current_row adopted =
     fold (\<lambda>(t, row) present. case row of None \<Rightarrow> present | Some r \<Rightarrow> AList.update t r present)
       adopted (case current_row of None \<Rightarrow> [] | Some r \<Rightarrow> [(current_id, r)])"

definition adopt_parent_settlement_receipt ::
    "string \<Rightarrow> 'r option \<Rightarrow> (string \<times> 'r option) list \<Rightarrow> string option
     \<Rightarrow> (string \<times> 'r) option res" where
  "adopt_parent_settlement_receipt current_id current_row adopted parent_effect_status =
     (let present = present_receipts current_id current_row adopted in
      if 2 \<le> length present
      then Inl (EffectMutationConflictError
             ''live and recovery parent settlement receipts both exist'')
      else case current_row of
             Some r \<Rightarrow> Inr (Some (current_id, r))
           | None \<Rightarrow>
               (case present of
                  [p] \<Rightarrow> Inr (Some p)
                | _ \<Rightarrow>
                    (if (case parent_effect_status of None \<Rightarrow> False
                         | Some s \<Rightarrow> s \<in> set terminal_parent_effect_statuses)
                     then Inl (EffectMutationConflictError
                            ''terminal parent effect has no live or recovery settlement receipt'')
                     else Inr None)))"

section \<open>Payload readers\<close>

definition required_payload_str :: "string \<Rightarrow> dict \<Rightarrow> string \<Rightarrow> string res" where
  "required_payload_str context payload key =
     (case as_nonempty_str (dict_get payload key) of
        None \<Rightarrow> Inl (TypeError (context @ '' must include non-empty string '' @ key))
      | Some s \<Rightarrow> Inr s)"

definition required_payload_int :: "string \<Rightarrow> dict \<Rightarrow> string \<Rightarrow> int res" where
  "required_payload_int context payload key =
     (case as_plain_int (dict_get payload key) of
        None \<Rightarrow> Inl (TypeError (context @ '' must include integer '' @ key))
      | Some i \<Rightarrow> Inr i)"

definition required_mapping :: "string \<Rightarrow> dict \<Rightarrow> string \<Rightarrow> dict res" where
  "required_mapping context payload key =
     (case as_dict (dict_get payload key) of
        None \<Rightarrow> Inl (TypeError (context @ '' must include object '' @ key))
      | Some d \<Rightarrow>
          (if list_ex (\<lambda>(k, _). \<not> is_str k) d
           then Inl (TypeError (context @ ''.'' @ key @ '' keys must be strings'')) else Inr d))"

lemma required_payload_simps [simp]:
  "dict_get p k = PStr s \<Longrightarrow> s \<noteq> [] \<Longrightarrow> required_payload_str ctx p k = Inr s"
  "dict_get p k = PInt i \<Longrightarrow> required_payload_int ctx p k = Inr i"
  by (simp_all add: required_payload_str_def required_payload_int_def)

section \<open>Leases and bindings as payloads\<close>

definition recovery_mailbox_entry_payload :: "CommandMailboxEntry \<Rightarrow> pyval res" where
  "recovery_mailbox_entry_payload e =
     map_res (\<lambda>p. PDict (dict_of
         [(''command_id'', PStr (cmd_command_id (ent_command e))),
          (''command_kind'', dict_get p ''runtime_command_kind''),
          (''command_payload'', dict_get p ''runtime_command_payload''),
          (''admitted_session_seq'', PStr (ent_admitted_session_seq e)),
          (''admitted_dispatch_generation'', PStr (ent_admitted_dispatch_generation e)),
          (''disposition'', PStr (ent_disposition e))]))
       (runtime_command_mailbox_payload (ent_command e))"

definition recovered_child_lease_payload :: "RecoveredChildExecutionLease option \<Rightarrow> pyval res" where
  "recovered_child_lease_payload lease =
     (case lease of
        None \<Rightarrow> Inr PNone
      | Some l \<Rightarrow>
          map_res (\<lambda>es. PDict (dict_of
              [(''session_id'', PStr (lease_session_id l)),
               (''child_run_id'', PStr (lease_child_run_id l)),
               (''lease_id'', PStr (lease_lease_id l)),
               (''resume_generation'', PInt (lease_resume_generation l)),
               (''resume_cut'', PStr (lease_resume_cut l)),
               (''owner_epoch'', PInt (lease_owner_epoch l)),
               (''prior_session_seq'', PStr (lease_prior_session_seq l)),
               (''resume_session_seq'', PStr (lease_resume_session_seq l)),
               (''mailbox_snapshot'', PList es)]))
            (traverse_res recovery_mailbox_entry_payload (lease_mailbox_snapshot l)))"

definition child_execution_binding_payload :: "ChildExecutionBinding \<Rightarrow> pyval res" where
  "child_execution_binding_payload b =
     map_res (\<lambda>l. PDict (dict_of
         [(''session_id'', PStr (child_session_id b)),
          (''parent_run_id'', PStr (child_parent_run_id b)),
          (''parent_effect_id'', PStr (child_parent_effect_id b)),
          (''parent_attempt_id'', PStr (child_parent_attempt_id b)),
          (''child_run_id'', PStr (child_child_run_id b)),
          (''authorization_transition_id'', PStr (child_authorization_transition_id b)),
          (''live_parent_settlement_transition_id'',
             PStr (child_live_parent_settlement_transition_id b)),
          (''active_lease'', l)]))
       (recovered_child_lease_payload (child_active_lease b))"

definition recovery_mailbox_entry_of :: "pyval \<Rightarrow> CommandMailboxEntry res" where
  "recovery_mailbox_entry_of raw =
     (case as_dict raw of
        None \<Rightarrow> Inl (TypeError ''child recovery lease mailbox entry must be an object'')
      | Some d \<Rightarrow>
          let str = required_payload_str ''child recovery mailbox entry'' d in
          bind_res (str ''command_id'') (\<lambda>cid.
          bind_res (str ''command_kind'') (\<lambda>kind.
          case as_dict (dict_get d ''command_payload'') of
            None \<Rightarrow>
              Inl (TypeError ''child recovery mailbox command_payload must be an object'')
          | Some payload \<Rightarrow>
              bind_res (RuntimeCommand_init
                \<lparr>cmd_command_id = cid, cmd_command_kind = kind, cmd_payload = payload\<rparr>) (\<lambda>c.
              bind_res (str ''admitted_session_seq'') (\<lambda>seq.
              bind_res (str ''admitted_dispatch_generation'') (\<lambda>generation.
              bind_res (str ''disposition'') (\<lambda>disp.
              CommandMailboxEntry_init
                \<lparr>ent_command = c, ent_admitted_session_seq = seq,
                 ent_admitted_dispatch_generation = generation, ent_disposition = disp\<rparr>)))))))"

definition recovery_mailbox_snapshot_from_payload :: "dict \<Rightarrow> CommandMailboxEntry list res" where
  "recovery_mailbox_snapshot_from_payload payload =
     (case as_list (dict_get_or payload ''mailbox_snapshot'' (PList [])) of
        None \<Rightarrow> Inl (TypeError ''child recovery lease mailbox_snapshot must be an array'')
      | Some raws \<Rightarrow> traverse_res recovery_mailbox_entry_of raws)"

definition recovered_child_lease_from_payload :: "dict \<Rightarrow> RecoveredChildExecutionLease res" where
  "recovered_child_lease_from_payload payload =
     (let str = required_payload_str ''child recovery lease'' payload;
          int = required_payload_int ''child recovery lease'' payload;
          seq_or = (\<lambda>k. case as_str (dict_get payload k) of None \<Rightarrow> ''0'' | Some s \<Rightarrow> s)
      in bind_res (str ''session_id'') (\<lambda>sid.
         bind_res (str ''child_run_id'') (\<lambda>child.
         bind_res (str ''lease_id'') (\<lambda>lid.
         bind_res (int ''resume_generation'') (\<lambda>generation.
         bind_res (str ''resume_cut'') (\<lambda>rcut.
         bind_res (int ''owner_epoch'') (\<lambda>epoch.
         bind_res (recovery_mailbox_snapshot_from_payload payload) (\<lambda>snapshot.
         RecoveredChildExecutionLease_init
           \<lparr>lease_session_id = sid, lease_child_run_id = child, lease_lease_id = lid,
            lease_resume_generation = generation, lease_resume_cut = rcut,
            lease_owner_epoch = epoch,
            lease_prior_session_seq = seq_or ''prior_session_seq'',
            lease_resume_session_seq = seq_or ''resume_session_seq'',
            lease_mailbox_snapshot = snapshot\<rparr>))))))))"

definition child_execution_binding_from_payload :: "dict \<Rightarrow> ChildExecutionBinding res" where
  "child_execution_binding_from_payload payload =
     (let raw = dict_get payload ''active_lease'';
          str = required_payload_str ''child binding'' payload
      in bind_res
           (if raw = PNone then Inr None
            else case as_dict raw of
                   None \<Rightarrow> Inl (TypeError ''child binding active_lease must be an object or null'')
                 | Some d \<Rightarrow> map_res Some (recovered_child_lease_from_payload d)) (\<lambda>lease.
         bind_res (str ''session_id'') (\<lambda>sid.
         bind_res (str ''parent_run_id'') (\<lambda>parent.
         bind_res (str ''parent_effect_id'') (\<lambda>eff.
         bind_res (str ''parent_attempt_id'') (\<lambda>att.
         bind_res (str ''child_run_id'') (\<lambda>child.
         bind_res (str ''authorization_transition_id'') (\<lambda>auth.
         bind_res (str ''live_parent_settlement_transition_id'') (\<lambda>live.
         ChildExecutionBinding_init
           \<lparr>child_session_id = sid, child_parent_run_id = parent, child_parent_effect_id = eff,
            child_parent_attempt_id = att, child_child_run_id = child,
            child_authorization_transition_id = auth,
            child_live_parent_settlement_transition_id = live,
            child_active_lease = lease\<rparr>)))))))))"

definition closeout_guard_payload :: "UnstartedDispatchCloseoutGuard option \<Rightarrow> pyval" where
  "closeout_guard_payload guard =
     (case guard of
        None \<Rightarrow> PNone
      | Some g \<Rightarrow> PDict (dict_of
          [(''effect_id'', PStr (close_effect_id g)),
           (''attempt_id'', PStr (close_attempt_id g)),
           (''authorization_transition_id'', PStr (close_authorization_transition_id g)),
           (''executor_id'', PStr (close_executor_id g)),
           (''evidence_ref'', PStr (close_evidence_ref g)),
           (''closed_at'', PStr (isoformat (close_closed_at g)))]))"

definition recovery_transition_guard_payload :: "RecoveryTransitionGuard option \<Rightarrow> pyval" where
  "recovery_transition_guard_payload guard =
     (case guard of
        None \<Rightarrow> PNone
      | Some g \<Rightarrow> PDict (dict_of
          [(''lease_id'', PStr (guard_lease_id g)),
           (''child_run_id'', PStr (guard_child_run_id g)),
           (''resume_generation'', PInt (guard_resume_generation g)),
           (''expected_recovery_cut'', PStr (guard_expected_recovery_cut g)),
           (''kind'', PStr (guard_kind_value (guard_kind g)))]))"

end
