(* ===== verification/Store_Unit.thy ===== *)
theory Store_Unit
  imports Store_Recovery
begin

text \<open>
  \<open>coding_agent/stores/rtstore/harness.py\<close>, third part: the authoritative unit of work, the one
  value a durable store commits atomically, with its validation; its snapshot; the slots its
  parts become; the shape a recovery guard imposes on it.
\<close>

section \<open>The unit of work\<close>

record AuthoritativeUnitOfWork =
  unit_event :: "EventRecord option"
  unit_session_state :: dict
  unit_mailbox :: "MailboxDispositionSlot option"
  unit_effect :: "EffectLedgerSlot option"
  unit_receipt :: "OperationReceiptSlot option"
  unit_run_state :: "AgentRunRecord option"
  unit_require_settled_parent_run_id :: "string option"
  unit_require_unsettled_root_run_id :: "string option"
  unit_transition_id :: "string option"
  unit_adopt_transition_ids :: "string list"
  unit_state_cas :: "OperationStateCAS option"
  unit_state_value :: "dict option"
  unit_facts :: "EventRecord list"
  unit_dispositions :: "CommandDisposition list"
  unit_effect_mutation :: "EffectMutation option"
  unit_effect_mutations :: "EffectMutation list"
  unit_effect_plans :: "EffectPlan list"
  unit_expected_mailbox_cut :: "string option"
  unit_expected_authorization :: "string option"
  unit_reconciliation_evidence_ref :: "string option"
  unit_child_bindings :: "ChildExecutionBinding list"
  unit_recovery_guard :: "RecoveryTransitionGuard option"
  unit_terminal_action :: bool
  unit_unstarted_dispatch_closeout :: "UnstartedDispatchCloseoutGuard option"

text \<open>
  The defaults of the dataclass; a caller fills in what it passes. The field
  \<open>expected_reconciliation_authorization_transition_id\<close> is \<open>unit_expected_authorization\<close>.
\<close>

definition empty_unit :: AuthoritativeUnitOfWork where
  "empty_unit =
     \<lparr>unit_event = None, unit_session_state = [], unit_mailbox = None, unit_effect = None,
      unit_receipt = None, unit_run_state = None, unit_require_settled_parent_run_id = None,
      unit_require_unsettled_root_run_id = None, unit_transition_id = None,
      unit_adopt_transition_ids = [], unit_state_cas = None, unit_state_value = None,
      unit_facts = [], unit_dispositions = [], unit_effect_mutation = None,
      unit_effect_mutations = [], unit_effect_plans = [], unit_expected_mailbox_cut = None,
      unit_expected_authorization = None, unit_reconciliation_evidence_ref = None,
      unit_child_bindings = [], unit_recovery_guard = None, unit_terminal_action = False,
      unit_unstarted_dispatch_closeout = None\<rparr>"

definition normalized_effect_mutations :: "AuthoritativeUnitOfWork \<Rightarrow> EffectMutation list" where
  "normalized_effect_mutations u =
     (case unit_effect_mutation u of Some m \<Rightarrow> [m] | None \<Rightarrow> unit_effect_mutations u)"

definition is_transition :: "AuthoritativeUnitOfWork \<Rightarrow> bool" where
  "is_transition u \<longleftrightarrow> unit_transition_id u \<noteq> None"

section \<open>Its validation\<close>

text \<open>The tests of \<open>__post_init__\<close>, in its order and grouped by what they are about.\<close>

definition unit_identity_checks :: "AuthoritativeUnitOfWork \<Rightarrow> check list" where
  "unit_identity_checks u =
     [when_some (unit_require_settled_parent_run_id u)
        (require_non_empty ''require_settled_parent_run_id''),
      when_some (unit_require_unsettled_root_run_id u)
        (require_non_empty ''require_unsettled_root_run_id''),
      when_some (unit_require_unsettled_root_run_id u) (\<lambda>root.
        when_some (unit_run_state u) (\<lambda>r.
          fails_when (run_run_id r \<noteq> root)
            (ValueError ''root settlement run_state does not match required run''))),
      fails_when ([] \<in> set (unit_adopt_transition_ids u))
        (ValueError ''adopt_transition_ids must be non-empty strings''),
      fails_when (\<not> distinct (unit_adopt_transition_ids u))
        (ValueError ''adopt_transition_ids must be unique''),
      when_some (unit_transition_id u) (\<lambda>t.
        fails_when (t \<in> set (unit_adopt_transition_ids u))
          (ValueError ''adopt_transition_ids cannot contain the current transition''))]"

definition prepared_mutations :: "AuthoritativeUnitOfWork \<Rightarrow> EffectMutation list" where
  "prepared_mutations u =
     filter (\<lambda>m. mut_expected_status m = None) (normalized_effect_mutations u)"

definition unit_mutation_checks :: "AuthoritativeUnitOfWork \<Rightarrow> check list" where
  "unit_mutation_checks u =
     [fails_when (\<not> distinct (map disp_command_id (unit_dispositions u)))
        (ValueError ''a transition may disposition each command at most once''),
      fails_when (unit_effect_mutation u \<noteq> None \<and> unit_effect_mutations u \<noteq> [])
        (ValueError ''singular and plural effect mutation inputs are mutually exclusive''),
      fails_when (\<not> distinct (map mut_effect_id (normalized_effect_mutations u)))
        (ValueError ''effect_mutations contain duplicate effect_id values''),
      fails_when (\<not> distinct (map plan_effect_id (unit_effect_plans u)))
        (ValueError ''effect_plans contain duplicate effect_id values''),
      fails_when
        (unit_effect_plans u \<noteq> []
         \<and> map plan_effect_id (unit_effect_plans u) \<noteq> map mut_effect_id (prepared_mutations u))
        (ValueError ''effect_plans must match ordered prepared effect mutations'')]"

definition unit_binding_checks :: "AuthoritativeUnitOfWork \<Rightarrow> check list" where
  "unit_binding_checks u =
     [fails_when (\<not> distinct (map child_parent_effect_id (unit_child_bindings u)))
        (ValueError ''child_bindings contain duplicate parent effect IDs''),
      fails_when (\<not> distinct (map child_child_run_id (unit_child_bindings u)))
        (ValueError ''child_bindings contain duplicate child run IDs''),
      fails_when
        (list_ex (\<lambda>b. (child_parent_effect_id b, child_parent_attempt_id b)
             \<notin> set (map (\<lambda>m. (mut_effect_id m, mut_attempt_id m)) (prepared_mutations u)))
          (unit_child_bindings u))
        (ValueError ''child binding must match a prepared effect mutation''),
      fails_when (unit_recovery_guard u \<noteq> None \<and> unit_expected_mailbox_cut u \<noteq> None)
        (ValueError ''recovery_guard and dispatch mailbox cut are mutually exclusive'')]"

definition closeout_mutation :: "UnstartedDispatchCloseoutGuard \<Rightarrow> EffectMutation \<Rightarrow> bool" where
  "closeout_mutation g m \<longleftrightarrow>
     mut_effect_id m = close_effect_id g \<and> mut_attempt_id m = close_attempt_id g
     \<and> mut_expected_status m = Some DISPATCHED \<and> mut_status m = UNKNOWN
     \<and> dict_get (mut_payload m) ''authorization_transition_id''
         = PStr (close_authorization_transition_id g)"

definition unit_closeout_checks :: "AuthoritativeUnitOfWork \<Rightarrow> check list" where
  "unit_closeout_checks u =
     [when_some (unit_unstarted_dispatch_closeout u) (\<lambda>g.
        fails_when
          (length (normalized_effect_mutations u) \<noteq> 1
           \<or> length (filter (closeout_mutation g) (normalized_effect_mutations u)) \<noteq> 1)
          (ValueError
            ''unstarted dispatch closeout requires its single DISPATCHED -> UNKNOWN mutation''))]"

definition dispatch_mutations :: "AuthoritativeUnitOfWork \<Rightarrow> EffectMutation list" where
  "dispatch_mutations u =
     filter (\<lambda>m. mut_expected_status m = Some PREPARED \<and> mut_status m = DISPATCHED)
       (normalized_effect_mutations u)"

definition is_dispatch_authorization :: "AuthoritativeUnitOfWork \<Rightarrow> bool" where
  "is_dispatch_authorization u \<longleftrightarrow> length (dispatch_mutations u) = 1"

definition mailbox_cut_check :: "string \<Rightarrow> check" where
  "mailbox_cut_check mcut =
     (case parse_u64 ''expected_mailbox_cut'' mcut of
        Inl e \<Rightarrow> Some (RaisedFrom (InvalidDispatchAuthorizationError (exn_str e)) e)
      | Inr n \<Rightarrow>
          fails_when (max_u64 < n)
            (InvalidDispatchAuthorizationError
              ''expected_mailbox_cut must be a decimal u64 string''))"

text \<open>Its test on integers, which are evaluated in binary.\<close>

lemma mailbox_cut_check_int [code]:
  "mailbox_cut_check mcut =
     (case parse_u64 ''expected_mailbox_cut'' mcut of
        Inl e \<Rightarrow> Some (RaisedFrom (InvalidDispatchAuthorizationError (exn_str e)) e)
      | Inr n \<Rightarrow>
          fails_when (18446744073709551615 < int n)
            (InvalidDispatchAuthorizationError
              ''expected_mailbox_cut must be a decimal u64 string''))"
proof -
  have "(max_u64 < n) = (18446744073709551615 < int n)" for n
    by (simp add: max_u64_def)
  then show ?thesis by (simp only: mailbox_cut_check_def)
qed

definition unit_dispatch_checks :: "AuthoritativeUnitOfWork \<Rightarrow> check list" where
  "unit_dispatch_checks u =
     [fails_when (dispatch_mutations u \<noteq> [] \<and> length (normalized_effect_mutations u) \<noteq> 1)
        (InvalidDispatchAuthorizationError
          ''dispatch authorization requires exactly one effect mutation''),
      fails_when (is_dispatch_authorization u \<and> unit_expected_mailbox_cut u = None)
        (InvalidDispatchAuthorizationError
          ''expected_mailbox_cut is required for PREPARED -> DISPATCHED''),
      fails_when (\<not> is_dispatch_authorization u \<and> unit_expected_mailbox_cut u \<noteq> None)
        (InvalidDispatchAuthorizationError
          ''expected_mailbox_cut is forbidden outside PREPARED -> DISPATCHED''),
      when_some (unit_expected_mailbox_cut u) mailbox_cut_check]"

definition reconciliation_mutations :: "AuthoritativeUnitOfWork \<Rightarrow> EffectMutation list" where
  "reconciliation_mutations u =
     filter (\<lambda>m. mut_expected_status m = Some UNKNOWN \<and> mut_status m \<in> {COMPLETED, FAILED}
                 \<and> mut_reconciliation m \<noteq> None)
       (normalized_effect_mutations u)"

definition unit_reconciliation_checks :: "AuthoritativeUnitOfWork \<Rightarrow> check list" where
  "unit_reconciliation_checks u =
     (let ms = reconciliation_mutations u;
          auth = unit_expected_authorization u;
          ref = unit_reconciliation_evidence_ref u
      in [fails_when (1 < length ms)
            (InvalidReconciliationPreconditionError
              ''a transition may reconcile at most one effect''),
          fails_when (ms \<noteq> [] \<and> (auth = None \<or> ref = None))
            (InvalidReconciliationPreconditionError
              ''reconciliation requires retained authorization and durable evidence''),
          fails_when (ms = [] \<and> (auth \<noteq> None \<or> ref \<noteq> None))
            (InvalidReconciliationPreconditionError
              ''reconciliation preconditions are forbidden outside UNKNOWN settlement''),
          when_some auth
            (require_non_empty ''expected_reconciliation_authorization_transition_id''),
          when_some ref (require_non_empty ''reconciliation_evidence_ref''),
          when_some ref (\<lambda>s.
            fails_when
              (case ms of [] \<Rightarrow> False
               | m # _ \<Rightarrow> (case mut_reconciliation m of
                            None \<Rightarrow> False | Some r \<Rightarrow> rec_evidence_ref r \<noteq> s))
              (InvalidReconciliationPreconditionError
                ''reconciliation evidence_ref must match the mutation record''))])"

definition legacy_checks :: "AuthoritativeUnitOfWork \<Rightarrow> check list" where
  "legacy_checks u =
     [fails_when (unit_event u = None) (ValueError ''legacy unit of work requires an event''),
      fails_when
        (unit_state_cas u \<noteq> None \<or> unit_state_value u \<noteq> None \<or> unit_facts u \<noteq> []
         \<or> unit_dispositions u \<noteq> [] \<or> normalized_effect_mutations u \<noteq> []
         \<or> unit_effect_plans u \<noteq> [] \<or> unit_child_bindings u \<noteq> []
         \<or> unit_recovery_guard u \<noteq> None \<or> unit_terminal_action u
         \<or> unit_unstarted_dispatch_closeout u \<noteq> None)
        (ValueError ''transition fields require transition_id, state_cas, and state_value'')]"

definition transition_checks :: "string \<Rightarrow> AuthoritativeUnitOfWork \<Rightarrow> check list" where
  "transition_checks t u =
     [require_non_empty ''transition_id'' t,
      fails_when (unit_state_cas u = None)
        (TypeError ''transition state_cas must be an OperationStateCAS''),
      fails_when (unit_state_value u = None)
        (TypeError ''transition state_value must be a mapping''),
      when_some (unit_state_value u) (\<lambda>d.
        fails_when (list_ex (\<lambda>(k, _). \<not> is_str k) d)
          (TypeError ''transition state_value keys must be strings'')),
      fails_when (unit_event u \<noteq> None)
        (ValueError ''transition facts must use facts, not legacy event''),
      fails_when
        (unit_mailbox u \<noteq> None \<or> unit_effect u \<noteq> None \<or> unit_receipt u \<noteq> None
         \<or> unit_run_state u \<noteq> None \<or> unit_require_settled_parent_run_id u \<noteq> None
         \<or> unit_require_unsettled_root_run_id u \<noteq> None)
        (ValueError ''typed transitions cannot mix legacy unit-of-work mutations''),
      fails_when
        (list_ex (\<lambda>m. case mut_reconciliation m of
             None \<Rightarrow> False | Some r \<Rightarrow> rec_transition_id r \<noteq> t) (normalized_effect_mutations u))
        (ValueError ''reconciliation transition_id must match the unit of work'')]"

definition unit_shape_checks :: "AuthoritativeUnitOfWork \<Rightarrow> check list" where
  "unit_shape_checks u =
     (case unit_transition_id u of None \<Rightarrow> legacy_checks u | Some t \<Rightarrow> transition_checks t u)"

definition unallocated_checks :: "EventRecord \<Rightarrow> check list" where
  "unallocated_checks e =
     [fails_when (fact_session_seq e \<noteq> None)
        (ValueError ''event.session_seq is allocated by the store''),
      fails_when (fact_projection_epoch e \<noteq> None)
        (ValueError ''event.projection_epoch is allocated by the store'')]"

definition AuthoritativeUnitOfWork_init ::
    "AuthoritativeUnitOfWork \<Rightarrow> AuthoritativeUnitOfWork res" where
  "AuthoritativeUnitOfWork_init u =
     checks
       (unit_identity_checks u @ unit_mutation_checks u @ unit_binding_checks u
        @ unit_closeout_checks u @ unit_dispatch_checks u @ unit_reconciliation_checks u
        @ unit_shape_checks u
        @ concat (map unallocated_checks
            ((case unit_event u of None \<Rightarrow> [] | Some e \<Rightarrow> [e]) @ unit_facts u)))
       u"

lemmas unit_check_defs =
  unit_identity_checks_def unit_mutation_checks_def unit_binding_checks_def
  unit_closeout_checks_def unit_dispatch_checks_def unit_reconciliation_checks_def
  unit_shape_checks_def legacy_checks_def transition_checks_def unallocated_checks_def

section \<open>Snapshots\<close>

text \<open>\<open>_plain_json\<close> of a mapping, which is a mapping again.\<close>

definition plain_dict :: "dict \<Rightarrow> dict res" where
  "plain_dict d =
     map_res (\<lambda>p. case as_dict p of Some e \<Rightarrow> e | None \<Rightarrow> []) (plain_json (PDict d))"

lemma plain_dict_eq:
  "plain_dict d =
     (if list_ex (\<lambda>(k, _). \<not> is_str k) d
      then Inl (TypeError ''transition mutation mapping keys must be strings'')
      else plain_items d)"
  by (cases "plain_items d") (simp_all add: plain_dict_def)

definition optional_res :: "('a \<Rightarrow> 'b res) \<Rightarrow> 'a option \<Rightarrow> 'b option res" where
  "optional_res f x = (case x of None \<Rightarrow> Inr None | Some v \<Rightarrow> map_res Some (f v))"

definition snapshot_fact :: "EventRecord \<Rightarrow> EventRecord res" where
  "snapshot_fact f =
     bind_res (plain_dict (fact_payload f)) (\<lambda>p. EventRecord_init (f\<lparr>fact_payload := p\<rparr>))"

definition snapshot_mutation :: "EffectMutation \<Rightarrow> EffectMutation res" where
  "snapshot_mutation m =
     bind_res (plain_dict (mut_payload m)) (\<lambda>p. EffectMutation_init (m\<lparr>mut_payload := p\<rparr>))"

definition snapshot_plan :: "EffectPlan \<Rightarrow> EffectPlan res" where
  "snapshot_plan q =
     bind_res (plain_dict (plan_payload q)) (\<lambda>p. EffectPlan_init (q\<lparr>plan_payload := p\<rparr>))"

definition snapshot_binding :: "ChildExecutionBinding \<Rightarrow> ChildExecutionBinding res" where
  "snapshot_binding b =
     bind_res (optional_res RecoveredChildExecutionLease_init (child_active_lease b)) (\<lambda>l.
     ChildExecutionBinding_init (b\<lparr>child_active_lease := l\<rparr>))"

definition snapshot_transition_unit ::
    "AuthoritativeUnitOfWork \<Rightarrow> AuthoritativeUnitOfWork res" where
  "snapshot_transition_unit u =
     (if \<not> is_transition u then Inr u
      else case unit_state_value u of
        None \<Rightarrow> Inl (ValueError ''typed transition is incomplete'')
      | Some state_value \<Rightarrow>
          bind_res (traverse_res snapshot_fact (unit_facts u)) (\<lambda>facts.
          bind_res (traverse_res snapshot_mutation (normalized_effect_mutations u)) (\<lambda>mutations.
          bind_res (traverse_res snapshot_plan (unit_effect_plans u)) (\<lambda>plans.
          bind_res (plain_dict (unit_session_state u)) (\<lambda>session_state.
          bind_res (plain_dict state_value) (\<lambda>new_value.
          bind_res (traverse_res snapshot_binding (unit_child_bindings u)) (\<lambda>bindings.
          bind_res (optional_res RecoveryTransitionGuard_init (unit_recovery_guard u)) (\<lambda>guard.
          bind_res (optional_res UnstartedDispatchCloseoutGuard_init
            (unit_unstarted_dispatch_closeout u)) (\<lambda>closeout.
          AuthoritativeUnitOfWork_init
            (empty_unit
               \<lparr>unit_session_state := session_state, unit_transition_id := unit_transition_id u,
                unit_state_cas := unit_state_cas u,
                unit_adopt_transition_ids := unit_adopt_transition_ids u,
                unit_state_value := Some new_value, unit_facts := facts,
                unit_dispositions := unit_dispositions u,
                unit_effect_mutations := mutations, unit_effect_plans := plans,
                unit_expected_mailbox_cut := unit_expected_mailbox_cut u,
                unit_expected_authorization := unit_expected_authorization u,
                unit_reconciliation_evidence_ref := unit_reconciliation_evidence_ref u,
                unit_child_bindings := bindings, unit_recovery_guard := guard,
                unit_terminal_action := unit_terminal_action u,
                unit_unstarted_dispatch_closeout := closeout\<rparr>))))))))))"

section \<open>Slots\<close>

fun disposition_slot_payload :: "CommandDisposition \<Rightarrow> dict" where
  "disposition_slot_payload (AppliedCommandDisposition _) = []"
| "disposition_slot_payload (RejectedCommandDisposition _ r) =
     dict_of [(''reason_code'', PStr r)]"
| "disposition_slot_payload (SupersededCommandDisposition _ s) =
     dict_of [(''superseded_by_command_id'', PStr s)]"

definition mailbox_slot_from_disposition :: "CommandDisposition \<Rightarrow> MailboxDispositionSlot res" where
  "mailbox_slot_from_disposition d =
     MailboxDispositionSlot_init
       \<lparr>slot_slot_id = disp_command_id d, slot_lane = ''runtime'',
        slot_disposition = disposition_kind_value (disp_kind d),
        slot_payload = disposition_slot_payload d\<rparr>"

definition reconciliation_value :: "ReconciliationRecord \<Rightarrow> pyval" where
  "reconciliation_value r = PDict (dict_of
     [(''effect_id'', PStr (rec_effect_id r)),
      (''attempt_id'', PStr (rec_attempt_id r)),
      (''observed_outcome'', PStr (reconciliation_outcome_value (rec_observed_outcome r))),
      (''evidence_ref'', PStr (rec_evidence_ref r)),
      (''actor_id'', PStr (rec_actor_id r)),
      (''owner_epoch'', PInt (rec_owner_epoch r)),
      (''transition_id'', PStr (rec_transition_id r))])"

definition effect_slot_from_mutation :: "EffectMutation \<Rightarrow> EffectLedgerSlot res" where
  "effect_slot_from_mutation m =
     bind_res (plain_dict (mut_payload m)) (\<lambda>p.
     let payload = dict_set ''attempt_id'' (PStr (mut_attempt_id m)) p in
     EffectLedgerSlot_init
       \<lparr>ledger_effect_id = mut_effect_id m, ledger_status = effect_status_value (mut_status m),
        ledger_payload =
          (case mut_reconciliation m of
             None \<Rightarrow> payload
           | Some r \<Rightarrow> dict_set ''reconciliation'' (reconciliation_value r) payload)\<rparr>)"

section \<open>What a recovery guard asks of its unit\<close>

definition terminal_parent_mutation :: "ChildExecutionBinding \<Rightarrow> EffectMutation \<Rightarrow> bool" where
  "terminal_parent_mutation b m \<longleftrightarrow>
     mut_effect_id m = child_parent_effect_id b \<and> mut_attempt_id m = child_parent_attempt_id b
     \<and> mut_expected_status m = Some DISPATCHED
     \<and> mut_status m \<in> {COMPLETED, FAILED, UNKNOWN}"

definition assert_recovery_guard_shape ::
    "AuthoritativeUnitOfWork \<Rightarrow> ChildExecutionBinding \<Rightarrow> unit res" where
  "assert_recovery_guard_shape u b =
     (case (unit_recovery_guard u, unit_state_cas u) of
        (Some g, Some c) \<Rightarrow>
          (case guard_kind g of
             CHILD_TERMINAL \<Rightarrow>
               checks
                 [fails_when
                    (cas_run_id c \<noteq> child_child_run_id b \<or> \<not> unit_terminal_action u
                     \<or> list_ex (\<lambda>m. mut_effect_id m = child_parent_effect_id b)
                         (normalized_effect_mutations u))
                    (StaleRecoveryGuardError ''child terminal guard shape is invalid'')] ()
           | PARENT_SETTLEMENT \<Rightarrow>
               checks
                 [fails_when
                    (cas_run_id c \<noteq> child_parent_run_id b \<or> unit_terminal_action u
                     \<or> length (normalized_effect_mutations u) \<noteq> 1
                     \<or> length (filter (terminal_parent_mutation b)
                         (normalized_effect_mutations u)) \<noteq> 1)
                    (StaleRecoveryGuardError ''parent settlement guard shape is invalid'')] ())
      | _ \<Rightarrow> Inl (StaleRecoveryGuardError ''recovery guard transition is incomplete''))"

end
