(* ===== verification/Canonical_Json.thy ===== *)
theory Canonical_Json
  imports Py_Values "HOL-Library.List_Lexorder" "HOL-Library.Char_ord"
begin

text \<open>
  \<open>json.dumps(_plain_json(v), sort_keys=True, separators=(",", ":"), ensure_ascii=False,
  allow_nan=False)\<close>, the canonical text the durable store compares command payloads by and
  hashes transitions from, and why comparing texts is comparing contents.

  The decimal text of a finite float, \<open>float.__repr__\<close>, is the parameter \<open>float_repr\<close>.
\<close>

section \<open>Canonical text\<close>

definition hex_digit :: "nat \<Rightarrow> char" where
  "hex_digit n = (if n < 10 then char_of (48 + n) else char_of (87 + n))"

definition json_escape :: "char \<Rightarrow> string" where
  "json_escape c =
     (let n = char_code c in
      if n = 34 then [CHR 0x5C, CHR 0x22]
      else if n = 92 then [CHR 0x5C, CHR 0x5C]
      else if n = 8 then [CHR 0x5C, CHR ''b'']
      else if n = 9 then [CHR 0x5C, CHR ''t'']
      else if n = 10 then [CHR 0x5C, CHR ''n'']
      else if n = 12 then [CHR 0x5C, CHR ''f'']
      else if n = 13 then [CHR 0x5C, CHR ''r'']
      else if n < 32
      then [CHR 0x5C, CHR ''u'', CHR ''0'', CHR ''0'', hex_digit (n div 16), hex_digit (n mod 16)]
      else [c])"

definition json_string :: "string \<Rightarrow> string" where
  "json_string s = CHR 0x22 # concat (map json_escape s) @ [CHR 0x22]"

definition json_key :: "pyval \<Rightarrow> string" where
  "json_key k = (case as_str k of None \<Rightarrow> [] | Some s \<Rightarrow> json_string s)"

text \<open>
  The text of a value that \<open>_plain_json\<close> returned: it has no tuple, no non-finite float and no
  other object, and its keys are strings.
\<close>

fun json_dumps :: "(rat \<Rightarrow> string) \<Rightarrow> pyval \<Rightarrow> string"
  and json_tail :: "(rat \<Rightarrow> string) \<Rightarrow> pyval list \<Rightarrow> string"
  and json_members :: "(rat \<Rightarrow> string) \<Rightarrow> dict \<Rightarrow> string" where
  "json_dumps fr PNone = ''null''"
| "json_dumps fr (PBool b) = (if b then ''true'' else ''false'')"
| "json_dumps fr (PInt i) = str_of_int i"
| "json_dumps fr (PFloat f) = (case f of FFinite q \<Rightarrow> fr q | _ \<Rightarrow> [])"
| "json_dumps fr (PStr s) = json_string s"
| "json_dumps fr (PTuple xs) =
     (case xs of [] \<Rightarrow> ''[]'' | x # ys \<Rightarrow> CHR ''['' # json_dumps fr x @ json_tail fr ys)"
| "json_dumps fr (PList xs) =
     (case xs of [] \<Rightarrow> ''[]'' | x # ys \<Rightarrow> CHR ''['' # json_dumps fr x @ json_tail fr ys)"
| "json_dumps fr (PDict d) =
     (case d of [] \<Rightarrow> ''{}''
      | (k, x) # e \<Rightarrow> CHR ''{'' # json_key k @ CHR '':'' # json_dumps fr x @ json_members fr e)"
| "json_dumps fr (PObj n) = []"
| "json_tail fr [] = '']''"
| "json_tail fr (x # xs) = CHR '','' # json_dumps fr x @ json_tail fr xs"
| "json_members fr [] = ''}''"
| "json_members fr ((k, x) # d) =
     CHR '','' # json_key k @ CHR '':'' # json_dumps fr x @ json_members fr d"

definition key_text :: "pyval \<times> pyval \<Rightarrow> string" where
  "key_text p = (case as_str (fst p) of None \<Rightarrow> [] | Some s \<Rightarrow> s)"

text \<open>\<open>sort_keys=True\<close>, at every depth.\<close>

fun sort_keys :: "pyval \<Rightarrow> pyval"
  and sort_keys_seq :: "pyval list \<Rightarrow> pyval list"
  and sort_keys_items :: "dict \<Rightarrow> dict" where
  "sort_keys (PDict d) = PDict (sort_key key_text (sort_keys_items d))"
| "sort_keys (PList xs) = PList (sort_keys_seq xs)"
| "sort_keys (PTuple xs) = PTuple (sort_keys_seq xs)"
| "sort_keys v = v"
| "sort_keys_seq [] = []"
| "sort_keys_seq (x # xs) = sort_keys x # sort_keys_seq xs"
| "sort_keys_items [] = []"
| "sort_keys_items ((k, x) # d) = (k, sort_keys x) # sort_keys_items d"

definition canonical_json :: "(rat \<Rightarrow> string) \<Rightarrow> pyval \<Rightarrow> string res" where
  "canonical_json fr v = map_res (\<lambda>p. json_dumps fr (sort_keys p)) (plain_json v)"

text \<open>The UTF-8 bytes of a text whose code points are below 256.\<close>

definition utf8_char :: "char \<Rightarrow> nat list" where
  "utf8_char c =
     (let n = char_code c in if n < 128 then [n] else [192 + n div 64, 128 + n mod 64])"

definition utf8 :: "string \<Rightarrow> nat list" where
  "utf8 s = concat (map utf8_char s)"

section \<open>The text determines the value\<close>

lemma char_code_inject [simp]: "char_code c = char_code d \<longleftrightarrow> c = d"
  by (simp add: char_code_def)

lemma json_escape_hd: "json_escape c \<noteq> [] \<and> hd (json_escape c) \<noteq> CHR 0x22"
  by (auto simp: json_escape_def Let_def char_code_def)

text \<open>The first character an escaped text stands for, and the rest.\<close>

definition hex_value :: "char \<Rightarrow> nat" where
  "hex_value c = (if char_code c < 58 then char_code c - 48 else char_code c - 87)"

definition short_escape :: "char \<Rightarrow> nat" where
  "short_escape k =
     (if k = CHR ''b'' then 8 else if k = CHR ''t'' then 9 else if k = CHR ''n'' then 10
      else if k = CHR ''f'' then 12 else if k = CHR ''r'' then 13 else char_code k)"

definition unescape :: "string \<Rightarrow> char \<times> string" where
  "unescape s =
     (if hd s \<noteq> CHR 0x5C then (hd s, tl s)
      else if s ! 1 = CHR ''u''
      then (char_of (16 * hex_value (s ! 4) + hex_value (s ! 5)), drop 6 s)
      else (char_of (short_escape (s ! 1)), drop 2 s))"

lemma hex_value_digit: "n < 16 \<Longrightarrow> hex_value (hex_digit n) = n"
  by (simp add: hex_value_def hex_digit_def char_code_def)

lemma char_of_code [simp]: "char_of (char_code c) = c"
  by (simp add: char_code_def)

lemma char_code_eq_char_of: "char_code c = n \<Longrightarrow> c = char_of n"
  by auto

lemma unescape_escape: "unescape (json_escape c @ x) = (c, x)"
proof -
  consider "char_code c \<in> {34, 92, 8, 9, 10, 12, 13}"
    | "char_code c \<notin> {34, 92, 8, 9, 10, 12, 13}" "char_code c < 32"
    | "char_code c \<notin> {34, 92, 8, 9, 10, 12, 13}" "\<not> char_code c < 32"
    by blast
  then show ?thesis
  proof cases
    case 1
    then have "c \<in> char_of ` {34, 92, 8, 9, 10, 12, 13::nat}"
      by (metis char_of_code image_eqI)
    then show ?thesis
      by (elim imageE insertE; simp add: json_escape_def unescape_def short_escape_def char_code_def)
  next
    case 2
    then show ?thesis
      by (simp add: json_escape_def unescape_def Let_def hex_value_digit)
  next
    case 3
    then have "c \<noteq> CHR 0x5C" by (auto simp: char_code_def)
    with 3 show ?thesis by (simp add: json_escape_def unescape_def Let_def)
  qed
qed

lemma json_escape_prefix:
  "json_escape c @ x = json_escape d @ y \<Longrightarrow> c = d \<and> x = y"
  by (metis unescape_escape prod.inject)

lemma json_body_prefix:
  "concat (map json_escape s) @ CHR 0x22 # x = concat (map json_escape t) @ CHR 0x22 # y
   \<Longrightarrow> s = t \<and> x = y"
proof (induction s arbitrary: t)
  case Nil
  then show ?case
    using json_escape_hd [of "hd t"] by (cases t; cases "json_escape (hd t)") auto
next
  case (Cons c s)
  note IH = Cons.IH and eq = Cons.prems
  show ?case
  proof (cases t)
    case Nil
    with eq json_escape_hd [of c] show ?thesis by (cases "json_escape c") auto
  next
    case (Cons d t')
    with eq have "json_escape c @ (concat (map json_escape s) @ CHR 0x22 # x)
        = json_escape d @ (concat (map json_escape t') @ CHR 0x22 # y)"
      by (simp only: list.map concat.simps append_assoc)
    note step = json_escape_prefix [OF this]
    from IH [OF conjunct2 [OF step]] conjunct1 [OF step] Cons show ?thesis by blast
  qed
qed

lemma json_string_prefix:
  "json_string s @ x = json_string t @ y \<Longrightarrow> s = t \<and> x = y"
  by (rule json_body_prefix) (simp add: json_string_def)

text \<open>What the float text is relied on for: it is made of number characters, starts like a
  number, is not the text of an integer, and tells different floats apart.\<close>

definition number_chars :: "char set" where
  "number_chars = {c. is_ascii_digit c \<or> char_code c \<in> {43, 45, 46, 101}}"

definition float_text :: "(rat \<Rightarrow> string) \<Rightarrow> bool" where
  "float_text fr \<longleftrightarrow>
     inj fr \<and> (\<forall>q. set (fr q) \<subseteq> number_chars \<and> (CHR ''.'' \<in> set (fr q) \<or> CHR ''e'' \<in> set (fr q)))"

fun plain :: "pyval \<Rightarrow> bool"
  and plain_list :: "pyval list \<Rightarrow> bool"
  and plain_members :: "dict \<Rightarrow> bool" where
  "plain (PDict d) = plain_members d"
| "plain (PList xs) = plain_list xs"
| "plain (PTuple xs) = False"
| "plain (PFloat f) = (case f of FFinite _ \<Rightarrow> True | _ \<Rightarrow> False)"
| "plain (PObj n) = False"
| "plain PNone = True"
| "plain (PBool b) = True"
| "plain (PInt i) = True"
| "plain (PStr s) = True"
| "plain_list [] = True"
| "plain_list (x # xs) = (plain x \<and> plain_list xs)"
| "plain_members [] = True"
| "plain_members ((k, x) # d) = (is_str k \<and> plain x \<and> plain_members d)"

lemma plain_json_plain:
  "plain_json v = Inr p \<Longrightarrow> plain p"
  "plain_seq xs = Inr ps \<Longrightarrow> plain_list ps"
  "plain_items d = Inr e \<Longrightarrow> \<not> list_ex (\<lambda>(k, _). \<not> is_str k) d \<Longrightarrow> plain_members e"
  by (induction v and xs and d arbitrary: p and ps and e
        rule: plain_json_plain_seq_plain_items.induct)
     (auto simp: res_simps split: pyfloat.splits if_splits)

definition lead_class :: "char \<Rightarrow> nat" where
  "lead_class c =
     (let n = char_code c in
      if n = 110 then 0 else if n = 116 then 1 else if n = 102 then 2 else if n = 34 then 3
      else if n = 91 then 4 else if n = 123 then 5 else if c \<in> number_chars then 6 else 7)"

fun value_class :: "pyval \<Rightarrow> nat" where
  "value_class PNone = 0"
| "value_class (PBool b) = (if b then 1 else 2)"
| "value_class (PStr _) = 3"
| "value_class (PList _) = 4"
| "value_class (PDict _) = 5"
| "value_class (PInt _) = 6"
| "value_class (PFloat _) = 6"
| "value_class _ = 8"

lemma str_of_int_nonempty [simp]: "str_of_int i \<noteq> []"
  by (simp add: str_of_int_def)

lemma str_of_int_inject [simp]: "str_of_int i = str_of_int j \<longleftrightarrow> i = j"
proof
  have minus: "CHR ''-'' \<notin> set (str_of_nat n)" for n
    using str_of_nat_digits [of n] by (auto simp: list_all_iff is_ascii_digit_def char_code_def)
  assume "str_of_int i = str_of_int j"
  then show "i = j"
    using minus [of "nat i"] minus [of "nat j"]
    by (auto simp: str_of_int_def split: if_splits) (metis list.set_intros(1))+
qed simp

definition delims :: "char set" where
  "delims = {c. char_code c \<in> {44, 93, 125}}"

definition delimited :: "string \<Rightarrow> bool" where
  "delimited r \<longleftrightarrow> r = [] \<or> hd r \<in> delims"

lemma delimited_split:
  assumes "set a \<inter> delims = {}" "set b \<inter> delims = {}" "delimited r" "delimited s"
    and "a @ r = b @ s"
  shows "a = b \<and> r = s"
proof -
  have "takeWhile (\<lambda>c. c \<notin> delims) (a @ r) = a" if "set a \<inter> delims = {}" "delimited r" for a r
    using that by (induction a) (cases r; auto simp: delimited_def)+
  with assms show ?thesis by (metis append_eq_append_conv)
qed

lemma number_not_delim: "number_chars \<inter> delims = {}"
  by (auto simp: number_chars_def delims_def is_ascii_digit_def)

lemma lead_class_number: "c \<in> number_chars \<Longrightarrow> lead_class c = 6"
  by (auto simp: lead_class_def Let_def number_chars_def is_ascii_digit_def)

lemma str_of_int_number: "set (str_of_int i) \<subseteq> number_chars"
proof -
  have "set (str_of_nat n) \<subseteq> number_chars" for n
    using str_of_nat_digits [of n] by (auto simp: number_chars_def list_all_iff)
  moreover have "CHR ''-'' \<in> number_chars"
    by (simp add: number_chars_def char_code_def)
  ultimately show ?thesis by (simp add: str_of_int_def)
qed

lemma float_nonempty: "float_text fr \<Longrightarrow> fr q \<noteq> []"
  by (metis empty_iff empty_set float_text_def)

lemma json_dumps_lead:
  assumes "float_text fr" "plain v"
  shows "json_dumps fr v \<noteq> [] \<and> lead_class (hd (json_dumps fr v)) = value_class v"
proof (cases v)
  case (PInt i)
  have "hd (str_of_int i) \<in> number_chars"
    using str_of_int_number [of i] hd_in_set [OF str_of_int_nonempty [of i]] by blast
  with PInt show ?thesis by (simp add: lead_class_number)
next
  case (PFloat f)
  with assms obtain q where q: "f = FFinite q" by (cases f) auto
  have "hd (fr q) \<in> number_chars"
    using assms(1) float_nonempty [OF assms(1), of q] hd_in_set [of "fr q"]
    unfolding float_text_def by blast
  with PFloat q float_nonempty [OF assms(1)] show ?thesis
    by (simp add: lead_class_number)
next
  case (PList xs)
  then show ?thesis by (cases xs) (simp_all add: lead_class_def char_code_def)
next
  case (PDict d)
  then show ?thesis by (cases d) (auto simp: lead_class_def char_code_def)
qed (use assms in \<open>auto simp: json_string_def lead_class_def char_code_def\<close>)

lemma json_dumps_class:
  assumes "float_text fr" "plain v" "plain w" "json_dumps fr v @ r = json_dumps fr w @ s"
  shows "value_class v = value_class w"
  using json_dumps_lead [OF assms(1,2)] json_dumps_lead [OF assms(1,3)] assms(4)
  by (metis hd_append2)

lemma json_tail_delimited [simp]: "delimited (json_tail fr xs @ r)"
  by (cases xs) (simp_all add: delimited_def delims_def char_code_def)

lemma json_members_delimited [simp]: "delimited (json_members fr d @ r)"
  by (cases d) (auto simp: delimited_def delims_def char_code_def)

lemma value_class_plain: "plain v \<Longrightarrow> value_class v \<le> 6"
  by (cases v) auto

lemma json_dumps_not_closing:
  assumes "float_text fr" "plain v"
  shows "json_dumps fr v @ r \<noteq> CHR '']'' # s"
proof
  assume eq: "json_dumps fr v @ r = CHR '']'' # s"
  have "lead_class (CHR '']'') = 7"
    by (simp add: lead_class_def number_chars_def is_ascii_digit_def char_code_def)
  moreover have "hd (json_dumps fr v) = CHR '']''"
    using json_dumps_lead [OF assms] eq by (metis hd_append2 list.sel(1))
  ultimately show False
    using json_dumps_lead [OF assms] value_class_plain [OF assms(2)] by simp
qed

lemma json_number_prefix:
  assumes "float_text fr" "value_class v = 6" "plain v" "plain w"
    and "delimited r" "delimited s" "json_dumps fr v @ r = json_dumps fr w @ s"
  shows "v = w \<and> r = s"
proof -
  have kind: "value_class w = 6"
    using json_dumps_class [OF assms(1,3,4,7)] assms(2) by simp
  have number: "set (json_dumps fr u) \<inter> delims = {}" if "value_class u = 6" "plain u" for u
  proof (cases u)
    case (PInt i)
    then show ?thesis using str_of_int_number [of i] number_not_delim by auto
  next
    case (PFloat f)
    with that obtain q where q: "f = FFinite q" by (cases f) auto
    have "set (fr q) \<subseteq> number_chars" using assms(1) by (simp add: float_text_def)
    with PFloat q number_not_delim show ?thesis by auto
  qed (use that in \<open>auto split: if_splits\<close>)
  have not_int: "fr q \<noteq> str_of_int i" for q i
  proof
    assume eq: "fr q = str_of_int i"
    have "list_all (\<lambda>c. char_code c \<notin> {46, 101}) (str_of_nat n)" for n
      using str_of_nat_digits [of n] by (auto simp: list_all_iff is_ascii_digit_def)
    then have "list_all (\<lambda>c. char_code c \<notin> {46, 101}) (str_of_int i)"
      by (simp add: str_of_int_def char_code_def)
    moreover have "CHR ''.'' \<in> set (str_of_int i) \<or> CHR ''e'' \<in> set (str_of_int i)"
      using assms(1) eq unfolding float_text_def by metis
    ultimately show False by (auto simp: list_all_iff char_code_def)
  qed
  have "json_dumps fr v = json_dumps fr w \<and> r = s"
    by (rule delimited_split) (use assms number kind in auto)
  moreover have "v = w" if "json_dumps fr v = json_dumps fr w"
    using that assms(1-4) kind not_int not_int [symmetric]
    by (cases v; cases w) (auto simp: float_text_def inj_eq split: pyfloat.splits if_splits)
  ultimately show ?thesis by blast
qed

lemma json_empty_list:
  assumes "float_text fr" "json_dumps fr (PList xs) @ r = json_dumps fr (PList ys) @ s"
    and "xs = [] \<or> ys = []" "plain_list xs" "plain_list ys"
  shows "xs = ys \<and> r = s"
proof (cases xs; cases ys)
  fix x xs' assume xs: "xs = x # xs'"
  with assms(3) have "ys = []" by simp
  with xs assms(2,4) json_dumps_not_closing [OF assms(1), of x "json_tail fr xs' @ r" s]
  show ?thesis by simp
next
  fix y ys' assume ys: "ys = y # ys'"
  with assms(3) have "xs = []" by simp
  with ys assms(2,5) json_dumps_not_closing [OF assms(1), of y "json_tail fr ys' @ s" r]
  show ?thesis by (simp add: eq_commute)
qed (use assms in auto)

lemma json_empty_dict:
  assumes "json_dumps fr (PDict d) @ r = json_dumps fr (PDict e) @ s" "d = [] \<or> e = []"
    and "plain_members d" "plain_members e"
  shows "d = e \<and> r = s"
proof (cases d; cases e)
  fix p d' assume d: "d = p # d'"
  with assms(2) have "e = []" by simp
  with d assms(1,3) show ?thesis
    by (cases p) (auto simp: json_key_def json_string_def elim!: is_str.elims)
next
  fix p e' assume e: "e = p # e'"
  with assms(2) have "d = []" by simp
  with e assms(1,4) show ?thesis
    by (cases p) (auto simp: json_key_def json_string_def elim!: is_str.elims)
qed (use assms in auto)

lemma json_dumps_prefix:
  assumes "float_text fr"
  shows "plain v \<Longrightarrow> plain w \<Longrightarrow> delimited r \<Longrightarrow> delimited s \<Longrightarrow>
      json_dumps fr v @ r = json_dumps fr w @ s \<Longrightarrow> v = w \<and> r = s"
    and "plain_list xs \<Longrightarrow> plain_list ys \<Longrightarrow>
      json_tail fr xs @ r = json_tail fr ys @ s \<Longrightarrow> xs = ys \<and> r = s"
    and "plain_members d \<Longrightarrow> plain_members e \<Longrightarrow>
      json_members fr d @ r = json_members fr e @ s \<Longrightarrow> d = e \<and> r = s"
proof (induction v and xs and d arbitrary: w r s and ys r s and e r s
    rule: plain_plain_list_plain_members.induct)
  case (1 d)
  note IH = 1(1) and plain = 1(2) and eq = 1(6)
  have "value_class w = 5" using json_dumps_class [OF assms 1(2,3,6)] by simp
  with 1(3) obtain e where w: "w = PDict e" "plain_members e"
    by (cases w) (auto split: if_splits)
  show ?case
  proof (cases "d = [] \<or> e = []")
    case True
    show ?thesis
      using json_empty_dict [OF eq [unfolded w(1)] True] plain w by simp
  next
    case False
    then obtain p d' q e' where de: "d = p # d'" "e = q # e'" by (auto simp: neq_Nil_conv)
    have "json_members fr d @ r = json_members fr e @ s"
      using eq unfolding w(1) de by (cases p; cases q) simp
    from IH [OF _ w(2) this] plain w(1) show ?thesis by simp
  qed
next
  case (2 xs)
  note IH = 2(1) and plain = 2(2) and eq = 2(6)
  have "value_class w = 4" using json_dumps_class [OF assms 2(2,3,6)] by simp
  with 2(3) obtain ys where w: "w = PList ys" "plain_list ys"
    by (cases w) (auto split: if_splits)
  show ?case
  proof (cases "xs = [] \<or> ys = []")
    case True
    show ?thesis
      using json_empty_list [OF assms eq [unfolded w(1)] True] plain w by simp
  next
    case False
    then obtain x xs' y ys' where xs: "xs = x # xs'" "ys = y # ys'" by (auto simp: neq_Nil_conv)
    have "json_tail fr xs @ r = json_tail fr ys @ s"
      using eq unfolding w(1) xs by simp
    from IH [OF _ w(2) this] plain w(1) show ?thesis by simp
  qed
next
  case (4 f)
  show ?case
    by (rule json_number_prefix [OF assms]) (use 4 in simp_all)
next
  case 6
  have "value_class w = 0" using json_dumps_class [OF assms _ 6(2,5)] by simp
  with 6(5) show ?case by (cases w) (simp_all split: if_splits)
next
  case (7 b)
  have "value_class w = (if b then 1 else 2)" using json_dumps_class [OF assms _ 7(2,5)] by simp
  with 7(2,5) show ?case by (cases w; cases b) (simp_all split: if_splits)
next
  case (8 i)
  show ?case
    by (rule json_number_prefix [OF assms]) (use 8 in simp_all)
next
  case (9 x)
  have "value_class w = 3" using json_dumps_class [OF assms _ 9(2,5)] by simp
  then obtain t where w: "w = PStr t" using 9(2) by (cases w) (simp_all split: if_splits)
  show ?case using json_string_prefix [of x r t s] 9(5) w by simp
next
  case 10
  then show ?case by (cases ys) simp_all
next
  case (11 x xs)
  note IH = 11(1,2) and plain = 11(3,4) and eq = 11(5)
  obtain y zs where ys: "ys = y # zs" using eq by (cases ys) simp_all
  have "json_dumps fr x @ json_tail fr xs @ r = json_dumps fr y @ json_tail fr zs @ s"
    using eq ys by simp
  from IH(1) [OF _ _ _ _ this] plain ys have "x = y \<and> json_tail fr xs @ r = json_tail fr zs @ s"
    by simp
  with IH(2) [of zs r s] plain ys show ?case by simp
next
  case 12
  then show ?case by (cases e) auto
next
  case (13 k x d)
  note IH = 13(1,2) and plain = 13(3,4) and eq = 13(5)
  obtain l y f where e: "e = (l, y) # f" using eq by (cases e) auto
  obtain a b where keys: "k = PStr a" "l = PStr b"
    using plain e by (auto elim!: is_str.elims)
  have "json_string a @ CHR '':'' # json_dumps fr x @ json_members fr d @ r
      = json_string b @ CHR '':'' # json_dumps fr y @ json_members fr f @ s"
    using eq e keys by (simp add: json_key_def)
  from json_string_prefix [OF this]
  have ab: "a = b"
    and rest: "json_dumps fr x @ json_members fr d @ r = json_dumps fr y @ json_members fr f @ s"
    by simp_all
  from IH(1) [OF _ _ _ _ rest] plain e have "x = y \<and> json_members fr d @ r = json_members fr f @ s"
    by simp
  with IH(2) [of f r s] plain e ab keys show ?case by simp
qed simp_all

theorem json_dumps_inject:
  assumes "float_text fr" "plain v" "plain w"
  shows "json_dumps fr v = json_dumps fr w \<longleftrightarrow> v = w"
  using json_dumps_prefix(1) [OF assms, of "[]" "[]"] by (auto simp: delimited_def)

section \<open>Same content, whatever the order of the keys\<close>

text \<open>Strict equality of plain values: unlike \<open>==\<close>, it tells \<open>True\<close>, \<open>1\<close> and \<open>1.0\<close> apart.\<close>

fun same_json :: "pyval \<Rightarrow> pyval \<Rightarrow> bool"
  and same_json_seq :: "pyval list \<Rightarrow> pyval list \<Rightarrow> bool"
  and same_json_items :: "dict \<Rightarrow> dict \<Rightarrow> bool" where
  "same_json (PDict d) v =
     (case v of PDict e \<Rightarrow> length d = length e \<and> same_json_items d e | _ \<Rightarrow> False)"
| "same_json (PList xs) v = (case v of PList ys \<Rightarrow> same_json_seq xs ys | _ \<Rightarrow> False)"
| "same_json (PTuple xs) v = (case v of PTuple ys \<Rightarrow> same_json_seq xs ys | _ \<Rightarrow> False)"
| "same_json (PFloat f) v = (v = PFloat f)"
| "same_json PNone v = (v = PNone)"
| "same_json (PBool b) v = (v = PBool b)"
| "same_json (PInt i) v = (v = PInt i)"
| "same_json (PStr s) v = (v = PStr s)"
| "same_json (PObj n) v = (v = PObj n)"
| "same_json_seq [] ys = (ys = [])"
| "same_json_seq (x # xs) ys =
     (case ys of [] \<Rightarrow> False | y # zs \<Rightarrow> same_json x y \<and> same_json_seq xs zs)"
| "same_json_items [] e = True"
| "same_json_items ((k, x) # d) e =
     ((case map_of e k of None \<Rightarrow> False | Some y \<Rightarrow> same_json x y) \<and> same_json_items d e)"

text \<open>The keys of a mapping are distinct, at every depth, as those of a dict are.\<close>

fun distinct_keys :: "pyval \<Rightarrow> bool"
  and distinct_keys_seq :: "pyval list \<Rightarrow> bool"
  and distinct_keys_items :: "dict \<Rightarrow> bool" where
  "distinct_keys (PDict d) = (distinct (map fst d) \<and> distinct_keys_items d)"
| "distinct_keys (PList xs) = distinct_keys_seq xs"
| "distinct_keys (PTuple xs) = distinct_keys_seq xs"
| "distinct_keys _ = True"
| "distinct_keys_seq [] = True"
| "distinct_keys_seq (x # xs) = (distinct_keys x \<and> distinct_keys_seq xs)"
| "distinct_keys_items [] = True"
| "distinct_keys_items ((k, x) # d) = (distinct_keys x \<and> distinct_keys_items d)"

lemma plain_json_distinct_keys:
  "plain_json v = Inr p \<Longrightarrow> distinct_keys v \<Longrightarrow> distinct_keys p"
  "plain_seq xs = Inr ps \<Longrightarrow> distinct_keys_seq xs \<Longrightarrow> distinct_keys_seq ps"
  "plain_items d = Inr e \<Longrightarrow> distinct_keys_items d \<Longrightarrow> distinct_keys_items e"
  by (induction v and xs and d arbitrary: p and ps and e
        rule: plain_json_plain_seq_plain_items.induct)
     (auto simp: res_simps plain_items_keys split: pyfloat.splits if_splits)

lemma sort_keys_items_map: "sort_keys_items d = map (\<lambda>(k, x). (k, sort_keys x)) d"
  by (induction d) auto

lemma fst_sort_keys_items [simp]: "map fst (sort_keys_items d) = map fst d"
  by (induction d) auto

lemma plain_members_keys: "plain_members d \<Longrightarrow> (k, x) \<in> set d \<Longrightarrow> is_str k \<and> plain x"
  by (induction d) auto

lemma distinct_keys_items_in: "distinct_keys_items d \<Longrightarrow> (k, x) \<in> set d \<Longrightarrow> distinct_keys x"
  by (induction d) auto

lemma sorted_items_eq:
  assumes "distinct (map fst d)" "distinct (map fst e)"
    and "\<forall>p \<in> set d. is_str (fst p)" "\<forall>p \<in> set e. is_str (fst p)"
  shows "sort_key key_text d = sort_key key_text e \<longleftrightarrow> set d = set e"
proof
  assume "sort_key key_text d = sort_key key_text e"
  then show "set d = set e" by (metis set_sort)
next
  assume eq: "set d = set e"
  have same_key: "key_text p = key_text q \<longleftrightarrow> fst p = fst q" if "is_str (fst p)" "is_str (fst q)" for p q
    using that by (auto simp: key_text_def elim!: is_str.elims)
  have inj: "inj_on key_text (set c)" and dist: "distinct (map key_text c)"
    if "distinct (map fst c)" "\<forall>p \<in> set c. is_str (fst p)" for c
    using that same_key by (auto simp: distinct_map inj_on_def)
  show "sort_key key_text d = sort_key key_text e"
  proof (rule map_sorted_distinct_set_unique)
    show "inj_on key_text (set (sort_key key_text d) \<union> set (sort_key key_text e))"
      using inj [OF assms(1,3)] eq by simp
    show "distinct (map key_text (sort_key key_text d))"
      "distinct (map key_text (sort_key key_text e))"
      using dist [OF assms(1,3)] dist [OF assms(2,4)] by (simp_all add: distinct_map)
  qed (simp_all add: eq)
qed

lemma items_set_eq:
  assumes "distinct (map fst d)" "distinct (map fst e)"
  shows "set (sort_keys_items d) = set (sort_keys_items e) \<longleftrightarrow>
    length d = length e \<and>
    (\<forall>(k, x) \<in> set d. \<exists>y. map_of e k = Some y \<and> sort_keys x = sort_keys y)"
    (is "?l \<longleftrightarrow> ?n \<and> ?r")
proof -
  have size: "card (set (sort_keys_items c)) = length c" if "distinct (map fst c)" for c
  proof -
    have "distinct (sort_keys_items c)"
      using that distinct_map [of fst "sort_keys_items c"] by simp
    from distinct_card [OF this] show ?thesis by (simp add: sort_keys_items_map)
  qed
  have sub: "set (sort_keys_items d) \<subseteq> set (sort_keys_items e) \<longleftrightarrow> ?r"
  proof -
    have "(case p of (k, x) \<Rightarrow> (k, sort_keys x)) \<in> (\<lambda>(k, x). (k, sort_keys x)) ` set e \<longleftrightarrow>
        (case p of (k, x) \<Rightarrow> \<exists>y. (k, y) \<in> set e \<and> sort_keys x = sort_keys y)" for p
      by (cases p) force
    then show ?thesis
      unfolding map_of_eq_Some_iff [OF assms(2)] sort_keys_items_map set_map image_subset_iff
      by simp
  qed
  have "?n" if ?l
    using size [OF assms(1)] size [OF assms(2)] that by simp
  moreover have "?l" if "?n" "?r"
  proof (rule card_subset_eq)
    show "set (sort_keys_items d) \<subseteq> set (sort_keys_items e)" using sub that(2) by simp
    show "card (set (sort_keys_items d)) = card (set (sort_keys_items e))"
      using size [OF assms(1)] size [OF assms(2)] that(1) by simp
  qed simp
  ultimately show ?thesis using sub by blast
qed

lemma sort_keys_atom [simp]:
  "PNone = sort_keys v \<longleftrightarrow> v = PNone"
  "PBool b = sort_keys v \<longleftrightarrow> v = PBool b"
  "PInt i = sort_keys v \<longleftrightarrow> v = PInt i"
  "PFloat f = sort_keys v \<longleftrightarrow> v = PFloat f"
  "PStr s = sort_keys v \<longleftrightarrow> v = PStr s"
  by (cases v; auto)+

lemma sort_keys_same:
  "plain v \<Longrightarrow> distinct_keys v \<Longrightarrow> plain w \<Longrightarrow> distinct_keys w \<Longrightarrow>
     sort_keys v = sort_keys w \<longleftrightarrow> same_json v w"
  "plain_list xs \<Longrightarrow> distinct_keys_seq xs \<Longrightarrow> plain_list ys \<Longrightarrow> distinct_keys_seq ys \<Longrightarrow>
     sort_keys_seq xs = sort_keys_seq ys \<longleftrightarrow> same_json_seq xs ys"
  "plain_members d \<Longrightarrow> distinct_keys_items d \<Longrightarrow> plain_members e \<Longrightarrow> distinct_keys_items e \<Longrightarrow>
     distinct (map fst e) \<Longrightarrow>
     (\<forall>(k, x) \<in> set d. \<exists>y. map_of e k = Some y \<and> sort_keys x = sort_keys y)
       \<longleftrightarrow> same_json_items d e"
proof (induction v w and xs ys and d e
    rule: same_json_same_json_seq_same_json_items.induct)
  case (1 d w)
  show ?case
  proof (cases w)
    case (PDict e)
    have keys: "\<forall>p \<in> set (sort_keys_items c). is_str (fst p)" if "plain_members c" for c
      using that plain_members_keys by (auto simp: sort_keys_items_map)
    have "sort_keys (PDict d) = sort_keys (PDict e) \<longleftrightarrow>
        set (sort_keys_items d) = set (sort_keys_items e)"
      using 1(2-) PDict sorted_items_eq [of "sort_keys_items d" "sort_keys_items e"] keys by simp
    also have "\<dots> \<longleftrightarrow> length d = length e \<and>
        (\<forall>(k, x) \<in> set d. \<exists>y. map_of e k = Some y \<and> sort_keys x = sort_keys y)"
      by (rule items_set_eq) (use 1(3,5) PDict in simp_all)
    also have "\<dots> \<longleftrightarrow> length d = length e \<and> same_json_items d e"
      using 1(1) [OF PDict] 1(2-) PDict by auto
    finally show ?thesis by (simp add: PDict)
  qed auto
next
  case (2 xs w)
  then show ?case by (cases w) auto
next
  case (10 ys)
  then show ?case by (cases ys) auto
next
  case (11 x xs ys)
  then show ?case by (cases ys) auto
next
  case (13 k x d e)
  show ?case
  proof (cases "map_of e k")
    case (Some y)
    then have "(k, y) \<in> set e" by (rule map_of_SomeD)
    then have y: "plain y" "distinct_keys y"
      using 13 plain_members_keys distinct_keys_items_in by blast+
    with 13 Some show ?thesis by (simp del: map_of_eq_Some_iff)
  qed simp
qed auto

lemma plain_members_set: "plain_members d \<longleftrightarrow> (\<forall>(k, x) \<in> set d. is_str k \<and> plain x)"
  by (induction d) auto

lemma plain_sort_keys:
  "plain v \<Longrightarrow> plain (sort_keys v)"
  "plain_list xs \<Longrightarrow> plain_list (sort_keys_seq xs)"
  "plain_members d \<Longrightarrow> plain_members (sort_keys_items d)"
  by (induction v and xs and d rule: plain_plain_list_plain_members.induct)
     (auto simp: plain_members_set)

text \<open>Two values have the same canonical text exactly when they have the same plain content.\<close>

lemma canonical_json_eq:
  assumes "float_text fr" "distinct_keys v" "distinct_keys w"
    and "plain_json v = Inr p" "plain_json w = Inr q"
  shows "canonical_json fr v = canonical_json fr w \<longleftrightarrow> same_json p q"
proof -
  note pq = plain_json_plain(1) [OF assms(4)] plain_json_distinct_keys(1) [OF assms(4,2)]
    plain_json_plain(1) [OF assms(5)] plain_json_distinct_keys(1) [OF assms(5,3)]
  have "canonical_json fr v = canonical_json fr w \<longleftrightarrow> sort_keys p = sort_keys q"
    using assms(1,4,5) pq
    by (simp add: canonical_json_def json_dumps_inject plain_sort_keys)
  with sort_keys_same(1) [OF pq] show ?thesis by simp
qed

end
