(* ===== verification/Store_Commit.thy ===== *)
theory Store_Commit
  imports Store_Unit Canonical_Json
begin

text \<open>
  \<open>coding_agent/stores/rtstore/harness.py\<close>, last part: the comparison of stored command payloads,
  the fingerprint of a transition, the payload a committed transition is stored as and read back
  from, and the commit result handed to the commit port.

  Parameters: the decimal text of a float, the digest \<open>sha256(...).hexdigest()\<close> of a byte
  string, and \<open>datetime.fromisoformat\<close>.
\<close>

section \<open>Comparing command payloads\<close>

definition runtime_command_mailbox_payloads_equal ::
    "(rat \<Rightarrow> string) \<Rightarrow> dict \<Rightarrow> dict \<Rightarrow> bool res" where
  "runtime_command_mailbox_payloads_equal float_repr left_payload right_payload =
     bind_res (canonical_json float_repr (PDict left_payload)) (\<lambda>l.
     bind_res (canonical_json float_repr (PDict right_payload)) (\<lambda>r. Inr (l = r)))"

section \<open>The fingerprint of a transition\<close>

definition disposition_fingerprint_value :: "CommandDisposition \<Rightarrow> pyval res" where
  "disposition_fingerprint_value d =
     map_res (\<lambda>slot. PDict (dict_of
         [(''command_id'', PStr (disp_command_id d)),
          (''kind'', PStr (disposition_kind_value (disp_kind d))),
          (''payload'', PDict (slot_payload slot))]))
       (mailbox_slot_from_disposition d)"

definition effect_fingerprint_value :: "EffectMutation \<Rightarrow> pyval res" where
  "effect_fingerprint_value m =
     map_res (\<lambda>p. PDict (dict_of
         [(''effect_id'', PStr (mut_effect_id m)),
          (''attempt_id'', PStr (mut_attempt_id m)),
          (''expected_status'', opt_str (map_option effect_status_value (mut_expected_status m))),
          (''status'', PStr (effect_status_value (mut_status m))),
          (''payload'', PDict p),
          (''reconciliation'',
             (case mut_reconciliation m of None \<Rightarrow> PNone | Some r \<Rightarrow> reconciliation_value r))]))
       (plain_dict (mut_payload m))"

definition effect_plan_payload :: "EffectPlan \<Rightarrow> pyval res" where
  "effect_plan_payload q =
     map_res (\<lambda>p. PDict (dict_of
         [(''effect_id'', PStr (plan_effect_id q)),
          (''attempt_id'', PStr (plan_attempt_id q)),
          (''effect_kind'', PStr (plan_effect_kind q)),
          (''payload'', PDict p),
          (''idempotency_key'', opt_str (plan_idempotency_key q)),
          (''requires_approval'', PBool (plan_requires_approval q)),
          (''approval_request_id'', opt_str (plan_approval_request_id q))]))
       (plain_dict (plan_payload q))"

definition fact_fingerprint_value :: "EventRecord \<Rightarrow> pyval res" where
  "fact_fingerprint_value f =
     map_res (\<lambda>p. PDict (dict_of
         [(''event_id'', PStr (fact_event_id f)),
          (''session_id'', PStr (fact_session_id f)),
          (''event_kind'', PStr (fact_event_kind f)),
          (''payload'', PDict p),
          (''created_at'', PStr (isoformat (fact_created_at f)))]))
       (plain_dict (fact_payload f))"

definition transition_mutation_value :: "AuthoritativeUnitOfWork \<Rightarrow> pyval res" where
  "transition_mutation_value u =
     (case (unit_transition_id u, unit_state_cas u, unit_state_value u) of
        (Some _, Some c, Some state_value) \<Rightarrow>
          bind_res (plain_dict state_value) (\<lambda>plain_value.
          bind_res (traverse_res fact_fingerprint_value (unit_facts u)) (\<lambda>facts.
          bind_res (traverse_res disposition_fingerprint_value (unit_dispositions u)) (\<lambda>dispositions.
          bind_res (traverse_res effect_fingerprint_value (normalized_effect_mutations u)) (\<lambda>effects.
          bind_res (traverse_res effect_plan_payload (unit_effect_plans u)) (\<lambda>plans.
          bind_res (traverse_res child_execution_binding_payload (unit_child_bindings u)) (\<lambda>bindings.
          Inr (PDict (dict_of
            [(''state'', PDict (dict_of
                [(''run_id'', PStr (cas_run_id c)),
                 (''revision'', PInt (cas_revision c + 1)),
                 (''projection_epoch'', PInt (cas_projection_epoch c)),
                 (''value'', PDict plain_value)])),
             (''facts'', PList facts),
             (''dispositions'', PList dispositions),
             (''effect_mutations'', PList effects),
             (''effect_plans'', PList plans),
             (''child_bindings'', PList bindings),
             (''recovery_guard'', recovery_transition_guard_payload (unit_recovery_guard u)),
             (''terminal_action'', PBool (unit_terminal_action u)),
             (''unstarted_dispatch_closeout'',
                closeout_guard_payload (unit_unstarted_dispatch_closeout u)),
             (''expected_mailbox_cut'', opt_str (unit_expected_mailbox_cut u)),
             (''expected_reconciliation_authorization_transition_id'',
                opt_str (unit_expected_authorization u)),
             (''reconciliation_evidence_ref'',
                opt_str (unit_reconciliation_evidence_ref u))]))))))))
      | _ \<Rightarrow> Inl (ValueError ''mutation fingerprint requires a typed transition''))"

definition transition_mutation_fingerprint ::
    "(rat \<Rightarrow> string) \<Rightarrow> (nat list \<Rightarrow> string) \<Rightarrow> AuthoritativeUnitOfWork \<Rightarrow> string res" where
  "transition_mutation_fingerprint float_repr sha256_hex u =
     map_res (\<lambda>v. sha256_hex (utf8 (json_dumps float_repr (sort_keys v))))
       (transition_mutation_value u)"

section \<open>A committed transition as a stored payload\<close>

definition committed_fact_payload :: "EventRecord \<Rightarrow> pyval" where
  "committed_fact_payload f = PDict (dict_of
     [(''event_id'', PStr (fact_event_id f)),
      (''session_id'', PStr (fact_session_id f)),
      (''event_kind'', PStr (fact_event_kind f)),
      (''payload'', PDict (fact_payload f)),
      (''created_at'', PStr (isoformat (fact_created_at f))),
      (''session_seq'', opt_str (fact_session_seq f)),
      (''projection_epoch'', opt_str (fact_projection_epoch f))])"

definition commit_ref_payload :: "CommitRef \<Rightarrow> pyval" where
  "commit_ref_payload c = PDict (dict_of
     [(''transition_id'', PStr (cr_transition_id c)),
      (''fact_seq_start'', opt_str (cr_fact_seq_start c)),
      (''fact_seq_end'', opt_str (cr_fact_seq_end c))])"

definition transition_commit_payload ::
    "OperationStateVersion \<Rightarrow> EventRecord list \<Rightarrow> RawCursor \<Rightarrow> EffectPlan list \<Rightarrow> dict res" where
  "transition_commit_payload sv facts raw_cursor effect_plans =
     bind_res (plain_dict (osv_value sv)) (\<lambda>plain_value.
     bind_res (traverse_res effect_plan_payload effect_plans) (\<lambda>plans.
     Inr (dict_of
       [(''state_version'', PDict (dict_of
           [(''run_id'', PStr (osv_run_id sv)),
            (''revision'', PInt (osv_revision sv)),
            (''projection_epoch'', PInt (osv_projection_epoch sv)),
            (''commit_ref'', commit_ref_payload (osv_commit_ref sv)),
            (''value'', PDict plain_value)])),
        (''facts'', PList (map committed_fact_payload facts)),
        (''effect_plans'', PList plans),
        (''raw_cursor'', PDict (dict_of
           [(''session_id'', PStr (raw_session_id raw_cursor)),
            (''session_seq'', PStr (raw_session_seq raw_cursor))]))])))"

section \<open>Reading it back\<close>

definition stored_sequence :: "string \<Rightarrow> pyval \<Rightarrow> string option res" where
  "stored_sequence field_name v =
     (if v = PNone then Inr None
      else case as_str v of
        None \<Rightarrow> Inl (ValueError (field_name @ '' must be a positive decimal string''))
      | Some s \<Rightarrow> checks [require_optional_sequence (Some s) field_name] (Some s))"

definition stored_state_version :: "string \<Rightarrow> int \<Rightarrow> dict \<Rightarrow> OperationStateVersion res" where
  "stored_state_version transition_id projection_epoch payload =
     bind_res (required_mapping ''transition'' payload ''state_version'') (\<lambda>state_payload.
     bind_res (required_mapping ''transition state'' state_payload ''commit_ref'')
       (\<lambda>commit_payload.
     bind_res (required_payload_str ''transition commit_ref'' commit_payload ''transition_id'')
       (\<lambda>tid.
     bind_res (stored_sequence ''fact_seq_start'' (dict_get commit_payload ''fact_seq_start''))
       (\<lambda>seq_start.
     bind_res (stored_sequence ''fact_seq_end'' (dict_get commit_payload ''fact_seq_end''))
       (\<lambda>seq_end.
     bind_res (CommitRef_init
       \<lparr>cr_transition_id = tid, cr_fact_seq_start = seq_start, cr_fact_seq_end = seq_end\<rparr>)
       (\<lambda>commit_ref.
     if cr_transition_id commit_ref \<noteq> transition_id
     then Inl (ValueError ''stored transition result has the wrong transition_id'')
     else
       bind_res (required_mapping ''transition state'' state_payload ''value'') (\<lambda>value_payload.
       bind_res (required_payload_str ''transition state'' state_payload ''run_id'') (\<lambda>run_id.
       bind_res (required_payload_int ''transition state'' state_payload ''revision'') (\<lambda>revision.
       bind_res (required_payload_int ''transition state'' state_payload ''projection_epoch'')
         (\<lambda>epoch.
       bind_res (OperationStateVersion_init
         \<lparr>osv_run_id = run_id, osv_revision = revision, osv_projection_epoch = epoch,
          osv_commit_ref = commit_ref, osv_value = value_payload\<rparr>) (\<lambda>sv.
       if osv_projection_epoch sv \<noteq> projection_epoch
       then Inl (ValueError ''stored transition result has the wrong projection_epoch'')
       else Inr sv)))))))))))"

definition stored_fact ::
    "(string \<Rightarrow> datetime res) \<Rightarrow> string \<Rightarrow> pyval \<Rightarrow> EventRecord res" where
  "stored_fact fromisoformat session_id raw =
     (case as_dict raw of
        None \<Rightarrow> Inl (TypeError ''transition result facts must contain objects'')
      | Some d \<Rightarrow>
          let str = required_payload_str ''transition fact'' d in
          bind_res (required_mapping ''transition fact'' d ''payload'') (\<lambda>payload.
          bind_res (str ''event_id'') (\<lambda>eid.
          bind_res (str ''session_id'') (\<lambda>sid.
          bind_res (str ''event_kind'') (\<lambda>kind.
          bind_res (bind_res (str ''created_at'') fromisoformat) (\<lambda>created.
          bind_res (str ''session_seq'') (\<lambda>seq.
          bind_res (str ''projection_epoch'') (\<lambda>epoch.
          bind_res (EventRecord_init
            \<lparr>fact_event_id = eid, fact_session_id = sid, fact_event_kind = kind,
             fact_payload = payload, fact_created_at = created, fact_session_seq = Some seq,
             fact_projection_epoch = Some epoch\<rparr>) (\<lambda>f.
          if fact_session_id f \<noteq> session_id
          then Inl (ValueError ''stored transition fact belongs to another session'')
          else Inr f)))))))))"

definition stored_optional_str :: "string \<Rightarrow> pyval \<Rightarrow> string option res" where
  "stored_optional_str field_name v =
     (if v = PNone then Inr None
      else case as_str v of
        None \<Rightarrow> Inl (TypeError
          (''transition effect plan '' @ field_name @ '' must be a string or null''))
      | Some s \<Rightarrow> Inr (Some s))"

definition stored_plan :: "pyval \<Rightarrow> EffectPlan res" where
  "stored_plan raw =
     (case as_dict raw of
        None \<Rightarrow> Inl (TypeError ''transition result effect_plans must contain objects'')
      | Some d \<Rightarrow>
          let str = required_payload_str ''transition effect plan'' d in
          bind_res (required_mapping ''transition effect plan'' d ''payload'') (\<lambda>payload.
          bind_res (stored_optional_str ''idempotency_key'' (dict_get d ''idempotency_key''))
            (\<lambda>idem.
          case as_bool (dict_get_or d ''requires_approval'' (PBool False)) of
            None \<Rightarrow>
              Inl (TypeError ''transition effect plan requires_approval must be a boolean'')
          | Some approval \<Rightarrow>
              bind_res (stored_optional_str ''approval_request_id''
                (dict_get d ''approval_request_id'')) (\<lambda>request.
              bind_res (str ''effect_id'') (\<lambda>eid.
              bind_res (str ''attempt_id'') (\<lambda>aid.
              bind_res (str ''effect_kind'') (\<lambda>kind.
              EffectPlan_init
                \<lparr>plan_effect_id = eid, plan_attempt_id = aid, plan_effect_kind = kind,
                 plan_payload = payload, plan_idempotency_key = idem,
                 plan_requires_approval = approval,
                 plan_approval_request_id = request\<rparr>)))))))"

definition stored_notice :: "EventRecord \<Rightarrow> CommittedFactNotice res" where
  "stored_notice f =
     bind_res
       (optional_res (parse_u64 ''projection_epoch'') (fact_projection_epoch f)) (\<lambda>epoch.
     CommittedFactNotice_init
       \<lparr>notice_fact_id = fact_event_id f, notice_fact_kind = fact_event_kind f,
        notice_payload = fact_payload f, notice_session_seq = fact_session_seq f,
        notice_projection_epoch = map_option int epoch, notice_event_record_id = None\<rparr>)"

definition stored_list :: "string \<Rightarrow> pyval \<Rightarrow> pyval list res" where
  "stored_list message v =
     (case as_list v of None \<Rightarrow> Inl (TypeError message) | Some xs \<Rightarrow> Inr xs)"

definition transition_commit_from_payload ::
    "(string \<Rightarrow> datetime res) \<Rightarrow> string \<Rightarrow> string \<Rightarrow> int \<Rightarrow> string \<Rightarrow> dict \<Rightarrow>
     (OperationStateVersion \<times> EventRecord list \<times> TransitionReceipt \<times> RawCursor) res" where
  "transition_commit_from_payload fromisoformat session_id transition_id projection_epoch
       mutation_fingerprint payload =
     bind_res (stored_state_version transition_id projection_epoch payload) (\<lambda>sv.
     bind_res (stored_list ''transition result must include facts list'' (dict_get payload ''facts''))
       (\<lambda>raw_facts.
     bind_res (traverse_res (stored_fact fromisoformat session_id) raw_facts) (\<lambda>facts.
     bind_res (stored_list ''transition result effect_plans must be a list''
       (dict_get_or payload ''effect_plans'' (PList []))) (\<lambda>raw_plans.
     bind_res (traverse_res stored_plan raw_plans) (\<lambda>plans.
     bind_res (required_mapping ''transition'' payload ''raw_cursor'') (\<lambda>cursor_payload.
     bind_res (required_payload_str ''transition raw_cursor'' cursor_payload ''session_id'')
       (\<lambda>cursor_session.
     bind_res (required_payload_str ''transition raw_cursor'' cursor_payload ''session_seq'')
       (\<lambda>cursor_seq.
     bind_res (RawCursor_init
       \<lparr>raw_session_id = cursor_session, raw_session_seq = cursor_seq\<rparr>) (\<lambda>raw_cursor.
     if raw_session_id raw_cursor \<noteq> session_id
     then Inl (ValueError ''stored transition cursor belongs to another session'')
     else
       bind_res (traverse_res stored_notice facts) (\<lambda>notices.
       bind_res (TransitionReceipt_init
         \<lparr>rcpt_session_id = session_id, rcpt_projection_epoch = projection_epoch,
          rcpt_transition_id = transition_id, rcpt_mutation_fingerprint = mutation_fingerprint,
          rcpt_state_version = sv, rcpt_facts = notices, rcpt_effect_plans = plans\<rparr>)
         (\<lambda>receipt. Inr (sv, facts, receipt, raw_cursor))))))))))))"

section \<open>The result of a commit\<close>

record AuthoritativeCommit =
  auth_event :: "EventRecord option"
  auth_projection :: string
  auth_projection_epoch :: string
  auth_raw_cursor :: RawCursor
  auth_idempotent :: bool
  auth_state_version :: "OperationStateVersion option"
  auth_facts :: "EventRecord list"
  auth_transition_receipt :: "TransitionReceipt option"

definition legacy_commit_checks :: "AuthoritativeCommit \<Rightarrow> EventRecord \<Rightarrow> check list" where
  "legacy_commit_checks c e =
     [fails_when (fact_session_seq e = None)
        (ValueError ''committed event must include session_seq''),
      fails_when (fact_projection_epoch e = None)
        (ValueError ''committed event must include projection_epoch''),
      fails_when (raw_session_id (auth_raw_cursor c) \<noteq> fact_session_id e)
        (ValueError ''raw cursor session_id must match the event''),
      fails_when (Some (raw_session_seq (auth_raw_cursor c)) \<noteq> fact_session_seq e)
        (ValueError ''raw cursor must land on the committed session_seq''),
      fails_when (fact_projection_epoch e \<noteq> Some (auth_projection_epoch c))
        (ValueError ''committed event.projection_epoch must match commit.projection_epoch''),
      fails_when
        (auth_state_version c \<noteq> None \<or> auth_facts c \<noteq> [] \<or> auth_transition_receipt c \<noteq> None)
        (ValueError ''legacy commit cannot include transition result fields'')]"

definition committed_fact_checks :: "AuthoritativeCommit \<Rightarrow> EventRecord \<Rightarrow> check list" where
  "committed_fact_checks c f =
     [fails_when (fact_session_id f \<noteq> raw_session_id (auth_raw_cursor c))
        (ValueError ''committed fact belongs to another session''),
      fails_when (fact_session_seq f = None \<or> fact_projection_epoch f = None)
        (ValueError ''committed facts must include store sequence and epoch''),
      fails_when (fact_projection_epoch f \<noteq> Some (auth_projection_epoch c))
        (ValueError ''committed fact projection_epoch must match commit'')]"

definition commit_range_checks :: "AuthoritativeCommit \<Rightarrow> CommitRef \<Rightarrow> check list" where
  "commit_range_checks c r =
     (if auth_facts c \<noteq> []
      then
        [fails_when (cr_fact_seq_start r \<noteq> fact_session_seq (hd (auth_facts c)))
           (ValueError ''commit_ref start must match first committed fact''),
         fails_when (cr_fact_seq_end r \<noteq> fact_session_seq (last (auth_facts c)))
           (ValueError ''commit_ref end must match last committed fact''),
         fails_when
           (Some (raw_session_seq (auth_raw_cursor c)) \<noteq> fact_session_seq (last (auth_facts c)))
           (ValueError ''raw cursor must land on the last committed fact'')]
      else
        [fails_when (cr_fact_seq_start r \<noteq> None \<or> cr_fact_seq_end r \<noteq> None)
           (ValueError ''fact-free transition must have empty commit_ref bounds'')])"

text \<open>
  The equality test of the receipt's state version is structural here: the store builds both
  fields from the same value, so order and number types cannot differ.
\<close>

definition transition_commit_checks ::
    "AuthoritativeCommit \<Rightarrow> nat \<Rightarrow> OperationStateVersion \<Rightarrow> TransitionReceipt \<Rightarrow> check list" where
  "transition_commit_checks c epoch sv r =
     [fails_when (osv_projection_epoch sv \<noteq> int epoch)
        (ValueError ''state version projection_epoch must match commit''),
      fails_when (rcpt_state_version r \<noteq> sv)
        (ValueError ''transition receipt state version must match commit''),
      fails_when (rcpt_session_id r \<noteq> raw_session_id (auth_raw_cursor c))
        (ValueError ''transition receipt session_id must match raw cursor''),
      fails_when (rcpt_projection_epoch r \<noteq> int epoch)
        (ValueError ''transition receipt projection_epoch must match commit'')]
     @ concat (map (committed_fact_checks c) (auth_facts c))
     @ commit_range_checks c (osv_commit_ref sv)"

definition AuthoritativeCommit_init :: "AuthoritativeCommit \<Rightarrow> AuthoritativeCommit res" where
  "AuthoritativeCommit_init c =
     bind_res (checks [require_non_empty ''projection'' (auth_projection c)] c) (\<lambda>c.
     bind_res (parse_u64 ''projection_epoch'' (auth_projection_epoch c)) (\<lambda>epoch.
     case auth_event c of
       Some e \<Rightarrow> checks (legacy_commit_checks c e) c
     | None \<Rightarrow>
         (case (auth_state_version c, auth_transition_receipt c) of
            (Some sv, Some r) \<Rightarrow> checks (transition_commit_checks c epoch sv r) c
          | _ \<Rightarrow> Inl (ValueError ''transition commit requires state version and receipt''))))"

end
