(* ===== verification/Store_Codecs.thy ===== *)
theory Store_Codecs
  imports Store_Commit
begin

text \<open>
  What the store writes it can read back. The contract of a payload codec is a locale; its
  consequences (lists of payloads, payloads determining values) are proved once and hold of
  every codec of the store: plain JSON mappings, mailbox entries, leases, child bindings, effect
  plans and committed facts.
\<close>

section \<open>Codecs\<close>

locale codec =
  fixes encode :: "'a \<Rightarrow> 'p res"
    and decode :: "'p \<Rightarrow> 'a res"
    and valid :: "'a \<Rightarrow> bool"
  assumes roundtrip: "valid x \<Longrightarrow> \<exists>p. encode x = Inr p \<and> decode p = Inr x"
begin

lemma encode_total: "valid x \<Longrightarrow> is_ok (encode x)"
  using roundtrip by (auto simp: is_ok_iff)

lemma decode_encode: "valid x \<Longrightarrow> encode x = Inr p \<Longrightarrow> decode p = Inr x"
  using roundtrip by force

lemma encode_inject: "valid x \<Longrightarrow> valid y \<Longrightarrow> encode x = encode y \<longleftrightarrow> x = y"
  using roundtrip by (metis sum.inject(2))

lemma list_codec:
  "list_all valid xs \<Longrightarrow> \<exists>ps. traverse_res encode xs = Inr ps \<and> traverse_res decode ps = Inr xs"
proof (induction xs)
  case (Cons x xs)
  then obtain ps where "traverse_res encode xs = Inr ps" "traverse_res decode ps = Inr xs" by auto
  moreover obtain p where "encode x = Inr p" "decode p = Inr x"
    using Cons.prems roundtrip by auto
  ultimately show ?case by (intro exI [of _ "p # ps"]) simp
qed simp

lemma list_inject:
  "list_all valid xs \<Longrightarrow> list_all valid ys \<Longrightarrow>
     traverse_res encode xs = traverse_res encode ys \<longleftrightarrow> xs = ys"
  using list_codec by (metis sum.inject(2))

end

section \<open>Plain mappings\<close>

lemma plain_dict_roundtrip:
  "frozen_dict d \<Longrightarrow> \<exists>p. plain_dict d = Inr p \<and> freeze_mapping f p = Inr d"
proof -
  assume d: "frozen_dict d"
  then obtain p where p: "plain_items d = Inr p" "freeze_items p = Inr d"
    using freeze_plain_roundtrip(3) by blast
  have keys: "\<not> list_ex (\<lambda>(k, _). \<not> is_str k) d" using d by (rule frozen_dict_keys)
  then have "\<not> list_ex (\<lambda>(k, _). \<not> is_str k) p"
    using list_ex_keys_cong [OF plain_items_keys [OF p(1)]] by simp
  with keys p show ?thesis by (simp add: plain_dict_eq freeze_mapping_def)
qed

interpretation mapping: codec plain_dict "freeze_mapping f" frozen_dict for f
  by unfold_locales (rule plain_dict_roundtrip)

lemma plain_dict_string_keys:
  "plain_dict d = Inr p \<Longrightarrow> \<not> list_ex (\<lambda>(k, _). \<not> is_str k) p"
  using list_ex_keys_cong [OF plain_items_keys] by (auto simp: plain_dict_eq split: if_splits)

section \<open>Mailbox entries, leases and bindings\<close>

definition stored_command_ok :: "RuntimeCommand \<Rightarrow> bool" where
  "stored_command_ok c \<longleftrightarrow> RuntimeCommand_init c = Inr c"

definition entry_ok :: "CommandMailboxEntry \<Rightarrow> bool" where
  "entry_ok e \<longleftrightarrow> stored_command_ok (ent_command e) \<and> CommandMailboxEntry_init e = Inr e"

definition lease_ok :: "RecoveredChildExecutionLease \<Rightarrow> bool" where
  "lease_ok l \<longleftrightarrow> list_all entry_ok (lease_mailbox_snapshot l)
     \<and> RecoveredChildExecutionLease_init l = Inr l"

definition binding_ok :: "ChildExecutionBinding \<Rightarrow> bool" where
  "binding_ok b \<longleftrightarrow> (\<forall>l. child_active_lease b = Some l \<longrightarrow> lease_ok l)
     \<and> ChildExecutionBinding_init b = Inr b"

lemma stored_command_ok_iff:
  "stored_command_ok c \<longleftrightarrow> cmd_command_id c \<noteq> [] \<and> cmd_command_kind c \<noteq> [] \<and> frozen_dict (cmd_payload c)"
proof
  assume "stored_command_ok c"
  then show "cmd_command_id c \<noteq> [] \<and> cmd_command_kind c \<noteq> [] \<and> frozen_dict (cmd_payload c)"
    by (cases c) (auto simp: stored_command_ok_def RuntimeCommand_init_def res_simps
        dest: freeze_mapping_frozen)
next
  assume "cmd_command_id c \<noteq> [] \<and> cmd_command_kind c \<noteq> [] \<and> frozen_dict (cmd_payload c)"
  then show "stored_command_ok c" by (simp add: stored_command_ok_def RuntimeCommand_init_def)
qed

lemma is_u64_nonempty: "is_u64 s \<Longrightarrow> s \<noteq> []"
  by (simp add: is_u64_def)

lemma CommandMailboxEntry_init_iff:
  "CommandMailboxEntry_init e = Inr e' \<longleftrightarrow> e' = e \<and> is_u64 (ent_admitted_session_seq e)
     \<and> is_u64 (ent_admitted_dispatch_generation e) \<and> ent_disposition e \<noteq> []"
  by (auto simp: CommandMailboxEntry_init_def checks_eq_Inr)

lemma dict_get_of [simp]:
  "dict_get (dict_of kvs) k = (case map_of kvs k of None \<Rightarrow> PNone | Some v \<Rightarrow> v)"
  by (simp add: dict_get_def)

lemma dict_get_or_of [simp]:
  "dict_get_or (dict_of kvs) k w = (case map_of kvs k of None \<Rightarrow> w | Some v \<Rightarrow> v)"
  by (simp add: dict_get_or_def)

lemma required_payload_str_of [simp]:
  "map_of kvs k = Some (PStr s) \<Longrightarrow> s \<noteq> [] \<Longrightarrow> required_payload_str ctx (dict_of kvs) k = Inr s"
  by simp

lemma required_payload_int_of [simp]:
  "map_of kvs k = Some (PInt i) \<Longrightarrow> required_payload_int ctx (dict_of kvs) k = Inr i"
  by simp

lemma entry_roundtrip:
  assumes "entry_ok e"
  shows "\<exists>p. recovery_mailbox_entry_payload e = Inr p \<and> recovery_mailbox_entry_of p = Inr e"
proof -
  let ?c = "ent_command e"
  from assms have c: "cmd_command_id ?c \<noteq> []" "cmd_command_kind ?c \<noteq> []"
      "frozen_dict (cmd_payload ?c)"
    and e: "is_u64 (ent_admitted_session_seq e)" "is_u64 (ent_admitted_dispatch_generation e)"
      "ent_disposition e \<noteq> []"
    by (auto simp: entry_ok_def stored_command_ok_iff CommandMailboxEntry_init_iff)
  obtain p where p: "plain_dict (cmd_payload ?c) = Inr p" "freeze_mapping ''payload'' p = Inr (cmd_payload ?c)"
    using plain_dict_roundtrip [OF c(3)] by blast
  then have json: "plain_json (PDict (cmd_payload ?c)) = Inr (PDict p)"
    by (auto simp: plain_dict_eq split: if_splits)
  have "RuntimeCommand_init
      \<lparr>cmd_command_id = cmd_command_id ?c, cmd_command_kind = cmd_command_kind ?c, cmd_payload = p\<rparr>
      = Inr ?c"
    using c p by (simp add: RuntimeCommand_init_def)
  then show ?thesis
    using c e is_u64_nonempty json
    by (simp add: recovery_mailbox_entry_payload_def runtime_command_mailbox_payload_def
        recovery_mailbox_entry_of_def CommandMailboxEntry_init_iff Let_def)
qed

interpretation entries: codec recovery_mailbox_entry_payload recovery_mailbox_entry_of entry_ok
  by unfold_locales (rule entry_roundtrip)

lemma RecoveredChildExecutionLease_init_parts:
  "RecoveredChildExecutionLease_init l = Inr l' \<Longrightarrow> l' = l \<and> lease_session_id l \<noteq> []
     \<and> lease_child_run_id l \<noteq> [] \<and> lease_lease_id l \<noteq> [] \<and> is_u64 (lease_resume_cut l)
     \<and> is_u64 (lease_prior_session_seq l) \<and> is_u64 (lease_resume_session_seq l)"
  by (auto simp: RecoveredChildExecutionLease_init_def res_simps parse_u64_Inr)

definition lease_of_payload :: "pyval \<Rightarrow> RecoveredChildExecutionLease res" where
  "lease_of_payload v =
     recovered_child_lease_from_payload (case as_dict v of None \<Rightarrow> [] | Some d \<Rightarrow> d)"

lemma lease_roundtrip:
  assumes "lease_ok l"
  shows "\<exists>p. recovered_child_lease_payload (Some l) = Inr p \<and> lease_of_payload p = Inr l"
proof -
  note parts = RecoveredChildExecutionLease_init_parts [of l l]
  from assms obtain es where
    es: "traverse_res recovery_mailbox_entry_payload (lease_mailbox_snapshot l) = Inr es"
      "traverse_res recovery_mailbox_entry_of es = Inr (lease_mailbox_snapshot l)"
    using entries.list_codec by (auto simp: lease_ok_def)
  with assms parts is_u64_nonempty show ?thesis
    by (cases l) (simp add: lease_ok_def recovered_child_lease_payload_def lease_of_payload_def
        recovered_child_lease_from_payload_def recovery_mailbox_snapshot_from_payload_def Let_def)
qed

interpretation leases: codec "\<lambda>l. recovered_child_lease_payload (Some l)" lease_of_payload lease_ok
  by unfold_locales (rule lease_roundtrip)

lemma lease_payload_dict:
  "recovered_child_lease_payload (Some l) = Inr p \<Longrightarrow> \<exists>d. p = PDict d"
  by (auto simp: recovered_child_lease_payload_def res_simps)

lemma ChildExecutionBinding_init_parts:
  "ChildExecutionBinding_init b = Inr b' \<Longrightarrow> b' = b \<and> child_session_id b \<noteq> []
     \<and> child_parent_run_id b \<noteq> [] \<and> child_parent_effect_id b \<noteq> []
     \<and> child_parent_attempt_id b \<noteq> [] \<and> child_child_run_id b \<noteq> []
     \<and> child_authorization_transition_id b \<noteq> []
     \<and> child_live_parent_settlement_transition_id b \<noteq> []"
  by (auto simp: ChildExecutionBinding_init_def checks_eq_Inr)

definition binding_of_payload :: "pyval \<Rightarrow> ChildExecutionBinding res" where
  "binding_of_payload v =
     child_execution_binding_from_payload (case as_dict v of None \<Rightarrow> [] | Some d \<Rightarrow> d)"

lemma binding_roundtrip:
  assumes "binding_ok b"
  shows "\<exists>p. child_execution_binding_payload b = Inr p \<and> binding_of_payload p = Inr b"
proof -
  note parts = ChildExecutionBinding_init_parts [of b b]
  have b: "ChildExecutionBinding_init b = Inr b" using assms by (simp add: binding_ok_def)
  show ?thesis
  proof (cases "child_active_lease b")
    case None
    then show ?thesis
      using b parts
      by (cases b) (simp add: child_execution_binding_payload_def recovered_child_lease_payload_def
          binding_of_payload_def child_execution_binding_from_payload_def Let_def)
  next
    case (Some l)
    with assms have l: "lease_ok l" by (simp add: binding_ok_def)
    then obtain p where p: "recovered_child_lease_payload (Some l) = Inr p" "lease_of_payload p = Inr l"
      using lease_roundtrip by blast
    then obtain d where d: "p = PDict d" using lease_payload_dict by blast
    with p Some b parts show ?thesis
      by (cases b) (simp add: child_execution_binding_payload_def lease_of_payload_def
          binding_of_payload_def child_execution_binding_from_payload_def Let_def)
  qed
qed

interpretation bindings: codec child_execution_binding_payload binding_of_payload binding_ok
  by unfold_locales (rule binding_roundtrip)

section \<open>Effect plans and committed facts\<close>

lemma plan_payload_roundtrip:
  assumes "plan_ok q"
  shows "\<exists>p. effect_plan_payload q = Inr p \<and> stored_plan p = Inr q"
proof -
  from assms have q: "plan_effect_id q \<noteq> []" "plan_attempt_id q \<noteq> []" "plan_effect_kind q \<noteq> []"
    and f: "frozen_dict (plan_payload q)"
    by (auto simp: plan_ok_def)
  obtain p where p: "plain_dict (plan_payload q) = Inr p"
      "freeze_mapping ''payload'' p = Inr (plan_payload q)"
    using plain_dict_roundtrip [OF f] by blast
  have init: "EffectPlan_init (q\<lparr>plan_payload := p\<rparr>) = Inr q"
    using assms p(2)
    by (cases q; cases "plan_idempotency_key q")
       (auto simp: EffectPlan_init_def plan_ok_def res_simps)
  have str: "stored_optional_str k (opt_str x) = Inr x" for k x
    by (cases x) (simp_all add: stored_optional_str_def)
  show ?thesis
    using p q init plain_dict_string_keys [OF p(1)]
    by (cases q) (simp add: effect_plan_payload_def stored_plan_def required_mapping_def str Let_def)
qed

interpretation plans: codec effect_plan_payload stored_plan plan_ok
  by unfold_locales (rule plan_payload_roundtrip)

text \<open>A fact as the store commits it: valid, of the session, with its sequence and epoch, and
  with a timestamp that reads back.\<close>

definition fact_stored :: "(string \<Rightarrow> datetime res) \<Rightarrow> string \<Rightarrow> EventRecord \<Rightarrow> bool" where
  "fact_stored fromisoformat sid f \<longleftrightarrow>
     EventRecord_init f = Inr f \<and> fact_session_id f = sid
     \<and> \<not> list_ex (\<lambda>(k, _). \<not> is_str k) (fact_payload f)
     \<and> fact_session_seq f \<noteq> None \<and> fact_projection_epoch f \<noteq> None
     \<and> fromisoformat (isoformat (fact_created_at f)) = Inr (fact_created_at f)"

lemma isoformat_nonempty [simp]: "isoformat t \<noteq> []"
  by (simp add: isoformat_def)

lemma fact_roundtrip:
  assumes "fact_stored fi sid f"
  shows "\<exists>p. Inr (committed_fact_payload f) = (Inr p :: pyval res) \<and> stored_fact fi sid p = Inr f"
proof -
  from assms obtain n e where ne: "fact_session_seq f = Some n" "fact_projection_epoch f = Some e"
    by (auto simp: fact_stored_def)
  with assms have "fact_event_id f \<noteq> []" "fact_session_id f \<noteq> []" "fact_event_kind f \<noteq> []"
      "n \<noteq> []" "e \<noteq> []"
    using is_u64_nonempty by (auto simp: fact_stored_def EventRecord_init_def checks_eq_Inr)
  with assms ne show ?thesis
    by (cases f) (simp add: fact_stored_def committed_fact_payload_def stored_fact_def
        required_mapping_def Let_def)
qed

interpretation facts: codec "\<lambda>f. Inr (committed_fact_payload f)" "stored_fact fi sid"
    "fact_stored fi sid" for fi sid
  by unfold_locales (rule fact_roundtrip)

section \<open>Commit results\<close>

lemma CommitRef_init_parts:
  "CommitRef_init c = Inr c' \<Longrightarrow> c' = c \<and> cr_transition_id c \<noteq> []
     \<and> require_optional_sequence (cr_fact_seq_start c) ''fact_seq_start'' = None
     \<and> require_optional_sequence (cr_fact_seq_end c) ''fact_seq_end'' = None"
  by (auto simp: CommitRef_init_def checks_eq_Inr)

definition state_version_ok :: "OperationStateVersion \<Rightarrow> bool" where
  "state_version_ok sv \<longleftrightarrow> OperationStateVersion_init sv = Inr sv
     \<and> CommitRef_init (osv_commit_ref sv) = Inr (osv_commit_ref sv)"

lemma state_version_parts:
  "state_version_ok sv \<Longrightarrow> osv_run_id sv \<noteq> [] \<and> 0 \<le> osv_revision sv \<and> 0 \<le> osv_projection_epoch sv
     \<and> frozen_dict (osv_value sv)"
  by (cases sv) (auto simp: state_version_ok_def OperationStateVersion_init_def res_simps
      dest: freeze_mapping_frozen)

lemma stored_sequence_opt_str:
  "require_optional_sequence x f = None \<Longrightarrow> stored_sequence f (opt_str x) = Inr x"
  by (cases x) (simp_all add: stored_sequence_def)

lemma stored_state_version_roundtrip:
  assumes "state_version_ok sv"
    and "dict_get payload ''state_version'' = PDict (dict_of
           [(''run_id'', PStr (osv_run_id sv)), (''revision'', PInt (osv_revision sv)),
            (''projection_epoch'', PInt (osv_projection_epoch sv)),
            (''commit_ref'', commit_ref_payload (osv_commit_ref sv)), (''value'', PDict p)])"
    and "plain_dict (osv_value sv) = Inr p"
  shows "stored_state_version (cr_transition_id (osv_commit_ref sv)) (osv_projection_epoch sv)
    payload = Inr sv"
proof -
  let ?c = "osv_commit_ref sv"
  have c: "CommitRef_init ?c = Inr ?c" using assms(1) by (simp add: state_version_ok_def)
  note parts = CommitRef_init_parts [OF c] state_version_parts [OF assms(1)]
  have ref: "CommitRef_init \<lparr>cr_transition_id = cr_transition_id ?c,
      cr_fact_seq_start = cr_fact_seq_start ?c, cr_fact_seq_end = cr_fact_seq_end ?c\<rparr> = Inr ?c"
    using c by (cases ?c) simp
  have frozen: "freeze_mapping ''value'' p = Inr (osv_value sv)"
    using mapping.decode_encode [OF _ assms(3)] parts by blast
  have keys: "\<not> list_ex (\<lambda>(k, _). \<not> is_str k) p" by (rule plain_dict_string_keys [OF assms(3)])
  have str: "\<not> list_ex (\<lambda>(k, _). \<not> is_str k) (dict_of kvs)" for kvs
    by (induction kvs) (auto simp: dict_of_def)
  have init: "OperationStateVersion_init \<lparr>osv_run_id = osv_run_id sv, osv_revision = osv_revision sv,
      osv_projection_epoch = osv_projection_epoch sv, osv_commit_ref = ?c, osv_value = p\<rparr> = Inr sv"
    using parts frozen by (cases sv) (simp add: OperationStateVersion_init_def)
  show ?thesis
    using parts ref init keys
    by (simp add: stored_state_version_def required_mapping_def assms(2) commit_ref_payload_def str
        stored_sequence_opt_str)
qed

lemma string_keys_dict_of [simp]: "\<not> list_ex (\<lambda>(k, _). \<not> is_str k) (dict_of kvs)"
  by (induction kvs) (auto simp: dict_of_def)

lemma required_mapping_of:
  "map_of kvs k = Some (PDict d) \<Longrightarrow> \<not> list_ex (\<lambda>(k, _). \<not> is_str k) d \<Longrightarrow>
   required_mapping ctx (dict_of kvs) k = Inr d"
  by (simp add: required_mapping_def)

lemma commit_payload_reads_back:
  assumes "state_version_ok sv" "list_all (fact_stored fi sid) facts" "list_all plan_ok plans"
    and "RawCursor_init c = Inr c" "raw_session_id c = sid"
    and "traverse_res stored_notice facts = Inr notices"
    and "receipt = \<lparr>rcpt_session_id = sid, rcpt_projection_epoch = osv_projection_epoch sv,
      rcpt_transition_id = cr_transition_id (osv_commit_ref sv),
      rcpt_mutation_fingerprint = fingerprint, rcpt_state_version = sv, rcpt_facts = notices,
      rcpt_effect_plans = plans\<rparr>"
    and "TransitionReceipt_init receipt = Inr receipt"
  shows "\<exists>payload. transition_commit_payload sv facts c plans = Inr payload
    \<and> transition_commit_from_payload fi sid (cr_transition_id (osv_commit_ref sv))
        (osv_projection_epoch sv) fingerprint payload = Inr (sv, facts, receipt, c)"
proof -
  obtain p where p: "plain_dict (osv_value sv) = Inr p"
    using plain_dict_roundtrip state_version_parts [OF assms(1)] by blast
  obtain ps where ps: "traverse_res effect_plan_payload plans = Inr ps"
      "traverse_res stored_plan ps = Inr plans"
    using plans.list_codec [OF assms(3)] by blast
  have encode: "traverse_res (\<lambda>f. Inr (committed_fact_payload f)) facts
      = (Inr (map committed_fact_payload facts) :: pyval list res)" for facts
    by (induction facts) auto
  have fs: "traverse_res (stored_fact fi sid) (map committed_fact_payload facts) = Inr facts"
    using facts.list_codec [OF assms(2)] by (auto simp: encode)
  have cursor: "raw_session_id c \<noteq> []" "raw_session_seq c \<noteq> []"
    using assms(4) is_u64_nonempty by (auto simp: RawCursor_init_def checks_eq_Inr)
  have init: "RawCursor_init \<lparr>raw_session_id = sid, raw_session_seq = raw_session_seq c\<rparr> = Inr c"
    using assms(4,5) by (cases c) simp
  define payload where "payload = dict_of
       [(''state_version'', PDict (dict_of
           [(''run_id'', PStr (osv_run_id sv)),
            (''revision'', PInt (osv_revision sv)),
            (''projection_epoch'', PInt (osv_projection_epoch sv)),
            (''commit_ref'', commit_ref_payload (osv_commit_ref sv)),
            (''value'', PDict p)])),
        (''facts'', PList (map committed_fact_payload facts)),
        (''effect_plans'', PList ps),
        (''raw_cursor'', PDict (dict_of
           [(''session_id'', PStr (raw_session_id c)), (''session_seq'', PStr (raw_session_seq c))]))]"
  have written: "transition_commit_payload sv facts c plans = Inr payload"
    by (simp add: transition_commit_payload_def payload_def p ps)
  have version: "stored_state_version (cr_transition_id (osv_commit_ref sv))
      (osv_projection_epoch sv) payload = Inr sv"
    by (rule stored_state_version_roundtrip [OF assms(1) _ p]) (simp add: payload_def)
  have lists: "dict_get payload ''facts'' = PList (map committed_fact_payload facts)"
    "dict_get_or payload ''effect_plans'' (PList []) = PList ps"
    by (simp_all add: payload_def)
  have "required_mapping ''transition'' payload ''raw_cursor'' = Inr (dict_of
      [(''session_id'', PStr (raw_session_id c)), (''session_seq'', PStr (raw_session_seq c))])"
    unfolding payload_def by (rule required_mapping_of) simp_all
  then have "transition_commit_from_payload fi sid (cr_transition_id (osv_commit_ref sv))
        (osv_projection_epoch sv) fingerprint payload = Inr (sv, facts, receipt, c)"
    using assms(5-8) cursor init
    by (simp add: transition_commit_from_payload_def version lists stored_list_def fs ps)
  with written show ?thesis by blast
qed

end
