(* ===== verification/Store_Laws.thy ===== *)
theory Store_Laws
  imports Store_Commit
begin

text \<open>What the store's contracts guarantee: units of work, guards, receipts and cursors.\<close>

section \<open>Units of work\<close>

lemma AuthoritativeUnitOfWork_init_iff:
  "AuthoritativeUnitOfWork_init u = Inr v \<longleftrightarrow> v = u \<and>
     list_all (\<lambda>c. c = None) (unit_identity_checks u) \<and>
     list_all (\<lambda>c. c = None) (unit_mutation_checks u) \<and>
     list_all (\<lambda>c. c = None) (unit_binding_checks u) \<and>
     list_all (\<lambda>c. c = None) (unit_closeout_checks u) \<and>
     list_all (\<lambda>c. c = None) (unit_dispatch_checks u) \<and>
     list_all (\<lambda>c. c = None) (unit_reconciliation_checks u) \<and>
     list_all (\<lambda>c. c = None) (unit_shape_checks u) \<and>
     (\<forall>e. unit_event u = Some e \<or> e \<in> set (unit_facts u) \<longrightarrow>
        fact_session_seq e = None \<and> fact_projection_epoch e = None)"
proof -
  have unallocated: "list_all (\<lambda>c. c = None) (concat (map unallocated_checks es)) \<longleftrightarrow>
      (\<forall>e \<in> set es. fact_session_seq e = None \<and> fact_projection_epoch e = None)" for es
    by (induction es) (auto simp: unallocated_checks_def)
  show ?thesis
    by (cases "unit_event u")
       (auto simp: AuthoritativeUnitOfWork_init_def checks_eq_Inr unallocated unallocated_checks_def)
qed

lemma mailbox_cut_check_None:
  "mailbox_cut_check m = None \<longleftrightarrow> is_u64 m \<and> u64_of m \<le> max_u64"
proof (cases "is_u64 m")
  case True
  then have "parse_u64 ''expected_mailbox_cut'' m = Inr (u64_of m)" by (simp add: parse_u64_Inr)
  with True show ?thesis by (simp add: mailbox_cut_check_def not_less)
next
  case False
  then obtain e where "parse_u64 ''expected_mailbox_cut'' m = Inl e"
    by (metis parse_u64_ok not_is_ok_iff)
  with False show ?thesis by (simp add: mailbox_cut_check_def)
qed

lemmas unit_simps =
  AuthoritativeUnitOfWork_init_iff unit_check_defs normalized_effect_mutations_def
  prepared_mutations_def dispatch_mutations_def is_dispatch_authorization_def
  reconciliation_mutations_def closeout_mutation_def mailbox_cut_check_None empty_unit_def

lemma legacy_unit_empty:
  assumes "AuthoritativeUnitOfWork_init u = Inr v" "unit_transition_id u = None"
  shows "normalized_effect_mutations u = []" "unit_unstarted_dispatch_closeout u = None"
  using assms by (auto simp: AuthoritativeUnitOfWork_init_iff unit_shape_checks_def legacy_checks_def)

lemma filter_single:
  "length xs = 1 \<Longrightarrow> x \<in> set xs \<Longrightarrow> xs = [x]"
  by (cases xs) auto

lemma unit_dispatch:
  assumes "AuthoritativeUnitOfWork_init u = Inr v" "m \<in> set (normalized_effect_mutations u)"
    and "mut_expected_status m = Some PREPARED" "mut_status m = DISPATCHED"
  shows "normalized_effect_mutations u = [m]"
    "\<exists>c. unit_expected_mailbox_cut u = Some c \<and> is_u64 c \<and> u64_of c \<le> max_u64"
    "unit_recovery_guard u = None" "unit_unstarted_dispatch_closeout u = None"
    "unit_reconciliation_evidence_ref u = None" "unit_expected_authorization u = None"
    "is_transition u" "unit_state_cas u \<noteq> None" "unit_state_value u \<noteq> None"
proof -
  note checks = assms(1) [unfolded AuthoritativeUnitOfWork_init_iff]
  have in_disp: "m \<in> set (dispatch_mutations u)"
    using assms(2-4) by (simp add: dispatch_mutations_def)
  then have nonempty: "dispatch_mutations u \<noteq> []" by auto
  with checks have "length (normalized_effect_mutations u) = 1"
    by (auto simp: unit_dispatch_checks_def)
  then show single: "normalized_effect_mutations u = [m]"
    using assms(2) by (rule filter_single)
  have disp: "is_dispatch_authorization u"
    using single assms(3,4) by (simp add: is_dispatch_authorization_def dispatch_mutations_def)
  then obtain c where c: "unit_expected_mailbox_cut u = Some c" "mailbox_cut_check c = None"
    using checks by (auto simp: unit_dispatch_checks_def)
  then show "\<exists>c. unit_expected_mailbox_cut u = Some c \<and> is_u64 c \<and> u64_of c \<le> max_u64"
    by (auto simp: mailbox_cut_check_None)
  show "unit_recovery_guard u = None"
    using checks c by (auto simp: unit_binding_checks_def)
  show "unit_unstarted_dispatch_closeout u = None"
    using checks single assms(3)
    by (cases "unit_unstarted_dispatch_closeout u")
       (auto simp: unit_closeout_checks_def closeout_mutation_def)
  have "reconciliation_mutations u = []"
    using single assms(3) by (simp add: reconciliation_mutations_def)
  then show "unit_reconciliation_evidence_ref u = None" "unit_expected_authorization u = None"
    using checks by (auto simp: unit_reconciliation_checks_def Let_def)
  show tr: "is_transition u"
    using legacy_unit_empty [OF assms(1)] single by (auto simp: is_transition_def)
  then show "unit_state_cas u \<noteq> None" "unit_state_value u \<noteq> None"
    using checks by (auto simp: is_transition_def unit_shape_checks_def transition_checks_def)
qed

lemma EffectMutation_init_unknown:
  assumes "EffectMutation_init m = Inr m" "mut_expected_status m = Some UNKNOWN"
  shows "\<exists>r. mut_reconciliation m = Some r \<and> mut_status m \<in> {COMPLETED, FAILED}
    \<and> rec_effect_id r = mut_effect_id m \<and> rec_attempt_id r = mut_attempt_id m
    \<and> reconciliation_outcome_value (rec_observed_outcome r) = effect_status_value (mut_status m)"
  using assms
  by (cases "mut_reconciliation m"; cases "mut_status m")
     (auto simp: EffectMutation_init_def res_simps legal_effect_transitions_def split: if_splits)

lemma unit_reconciliation:
  assumes "AuthoritativeUnitOfWork_init u = Inr v" "m \<in> set (normalized_effect_mutations u)"
    and "mut_expected_status m = Some UNKNOWN" "EffectMutation_init m = Inr m"
  obtains r t where
    "reconciliation_mutations u = [m]"
    "mut_reconciliation m = Some r" "mut_status m \<in> {COMPLETED, FAILED}"
    "unit_transition_id u = Some t" "rec_transition_id r = t"
    "unit_reconciliation_evidence_ref u = Some (rec_evidence_ref r)"
    "\<exists>a. unit_expected_authorization u = Some a \<and> a \<noteq> []"
proof -
  note checks = assms(1) [unfolded AuthoritativeUnitOfWork_init_iff]
  obtain r where r: "mut_reconciliation m = Some r" "mut_status m \<in> {COMPLETED, FAILED}"
    using EffectMutation_init_unknown [OF assms(4,3)] by blast
  have in_rec: "m \<in> set (reconciliation_mutations u)"
    using assms(2,3) r by (simp add: reconciliation_mutations_def)
  moreover have "length (reconciliation_mutations u) \<le> 1"
    using checks by (auto simp: unit_reconciliation_checks_def Let_def)
  ultimately have single: "reconciliation_mutations u = [m]"
    by (cases "reconciliation_mutations u") auto
  obtain a s where as: "unit_expected_authorization u = Some a" "a \<noteq> []"
      "unit_reconciliation_evidence_ref u = Some s" "rec_evidence_ref r = s"
    using checks single r by (auto simp: unit_reconciliation_checks_def Let_def)
  obtain t where t: "unit_transition_id u = Some t"
    using legacy_unit_empty [OF assms(1)] assms(2) by (cases "unit_transition_id u") auto
  moreover have "rec_transition_id r = t"
    using checks t r assms(2)
    by (auto simp: unit_shape_checks_def transition_checks_def list_ex_iff split: option.splits)
  ultimately show ?thesis using that single r as by blast
qed

section \<open>Recovery guards\<close>

lemma recovery_guard_shape_ok:
  "assert_recovery_guard_shape u b = Inr () \<longleftrightarrow>
     (\<exists>g c. unit_recovery_guard u = Some g \<and> unit_state_cas u = Some c \<and>
       (case guard_kind g of
          CHILD_TERMINAL \<Rightarrow>
            cas_run_id c = child_child_run_id b \<and> unit_terminal_action u
            \<and> (\<forall>m \<in> set (normalized_effect_mutations u). mut_effect_id m \<noteq> child_parent_effect_id b)
        | PARENT_SETTLEMENT \<Rightarrow>
            cas_run_id c = child_parent_run_id b \<and> \<not> unit_terminal_action u
            \<and> (\<exists>m. normalized_effect_mutations u = [m] \<and> terminal_parent_mutation b m)))"
  by (cases "unit_recovery_guard u"; cases "unit_state_cas u"; 
      cases "normalized_effect_mutations u")
     (auto simp: assert_recovery_guard_shape_def res_simps list_ex_iff
       split: RecoveryGuardKind.splits if_splits)

section \<open>Parent settlement receipts\<close>

text \<open>The receipts the store holds among the live transition and those it may adopt.\<close>

definition stored_receipts :: "(string \<times> 'r option) list \<Rightarrow> (string \<times> 'r) list" where
  "stored_receipts rows = [(t, r). (t, Some r) \<leftarrow> rows]"

lemma stored_receipts_simps [simp]:
  "stored_receipts [] = []"
  "stored_receipts ((t, None) # rows) = stored_receipts rows"
  "stored_receipts ((t, Some r) # rows) = (t, r) # stored_receipts rows"
  by (simp_all add: stored_receipts_def)

lemma update_fresh: "k \<notin> fst ` set xs \<Longrightarrow> AList.update k v xs = xs @ [(k, v)]"
  by (induction xs) auto

lemma adopted_fold:
  "distinct (map fst acc @ map fst adopted) \<Longrightarrow>
   fold (\<lambda>(t, row) present. case row of None \<Rightarrow> present | Some r \<Rightarrow> AList.update t r present)
     adopted acc = acc @ stored_receipts adopted"
proof (induction adopted arbitrary: acc)
  case (Cons p adopted)
  obtain t row where p: "p = (t, row)" by (cases p)
  show ?case
  proof (cases row)
    case None
    with Cons p show ?thesis by simp
  next
    case (Some r)
    have "AList.update t r acc = acc @ [(t, r)]"
      using Cons.prems p by (intro update_fresh) auto
    with Cons.IH [of "acc @ [(t, r)]"] Cons.prems p Some show ?thesis by simp
  qed
qed simp

lemma present_receipts_stored:
  "distinct (current_id # map fst adopted) \<Longrightarrow>
   present_receipts current_id row adopted = stored_receipts ((current_id, row) # adopted)"
  using adopted_fold [of "case row of None \<Rightarrow> [] | Some r \<Rightarrow> [(current_id, r)]" adopted]
  by (cases row) (auto simp: present_receipts_def)

lemma adopt_receipt_cases:
  assumes "distinct (current_id # map fst adopted)"
  shows "adopt_parent_settlement_receipt current_id row adopted status =
    (case stored_receipts ((current_id, row) # adopted) of
       [] \<Rightarrow> (if (\<exists>s. status = Some s \<and> s \<in> set terminal_parent_effect_statuses)
              then Inl (EffectMutationConflictError
                ''terminal parent effect has no live or recovery settlement receipt'')
              else Inr None)
     | [p] \<Rightarrow> Inr (Some p)
     | _ \<Rightarrow> Inl (EffectMutationConflictError
              ''live and recovery parent settlement receipts both exist''))"
  unfolding adopt_parent_settlement_receipt_def present_receipts_stored [OF assms] Let_def
  by (cases row; cases "stored_receipts adopted"; cases status)
     (auto split: list.splits)

section \<open>Cursors\<close>

lemma parse_u64_is: "is_u64 v \<Longrightarrow> parse_u64 f v = Inr (u64_of v)"
  by (simp add: parse_u64_Inr)

lemma format_u64_parse: "format_u64 i = Inr s \<Longrightarrow> parse_u64 f s = Inr (nat i)"
  by (auto simp: format_u64_def parse_u64_Inr str_of_int_nat split: if_splits)

lemma RawCursor_init_id:
  "RawCursor_init c = Inr d \<longleftrightarrow> d = c \<and> raw_session_id c \<noteq> [] \<and> is_u64 (raw_session_seq c)"
  by (auto simp: RawCursor_init_def checks_eq_Inr)

text \<open>Where a page leaves the cursor, and that the cursor has not expired there.\<close>

lemma from_page_cursor:
  assumes "RetentionFloorReplay_from_page sid events limit fl head = Inr p"
  shows "raw_session_id (replay_raw_cursor p) = sid" "replay_events p = events"
    "is_u64 (raw_session_seq (replay_raw_cursor p))"
    "events = [] \<Longrightarrow> u64_of (raw_session_seq (replay_raw_cursor p)) = nat (max fl 1 - 1)"
    "events \<noteq> [] \<Longrightarrow> fact_session_seq (last events) = Some (raw_session_seq (replay_raw_cursor p))"
proof -
  have cursor: "raw_session_id (replay_raw_cursor p) = sid \<and> replay_events p = events
      \<and> is_u64 (raw_session_seq (replay_raw_cursor p))
      \<and> (events = [] \<longrightarrow> u64_of (raw_session_seq (replay_raw_cursor p)) = nat (max fl 1 - 1))
      \<and> (events \<noteq> [] \<longrightarrow>
           fact_session_seq (last events) = Some (raw_session_seq (replay_raw_cursor p)))"
  proof (cases "events = []")
    case True
    with assms show ?thesis
      by (auto simp: RetentionFloorReplay_from_page_def res_simps RawCursor_init_id
          format_u64_def str_of_int_nat split: if_splits)
  next
    case False
    with assms show ?thesis
      by (auto simp: RetentionFloorReplay_from_page_def res_simps RawCursor_init_id
          split: option.splits)
  qed
  then show "raw_session_id (replay_raw_cursor p) = sid" "replay_events p = events"
    "is_u64 (raw_session_seq (replay_raw_cursor p))"
    "events = [] \<Longrightarrow> u64_of (raw_session_seq (replay_raw_cursor p)) = nat (max fl 1 - 1)"
    "events \<noteq> [] \<Longrightarrow> fact_session_seq (last events) = Some (raw_session_seq (replay_raw_cursor p))"
    by simp_all
qed

lemma raw_cursor_live:
  assumes "is_u64 fl" "is_u64 (raw_session_seq c)" "raw_session_id c \<noteq> []"
  shows "assert_raw_cursor_not_expired c fl = Inr () \<longleftrightarrow>
    u64_of fl \<le> u64_of (raw_session_seq c) + 1"
  using assms by (auto simp: assert_raw_cursor_not_expired_def parse_u64_is)

end
