(* ===== verification/Store_Theorems.thy ===== *)
theory Store_Theorems
  imports Store_Codecs Store_Laws Coordinator
begin

text \<open>The properties of the durable store's contracts, each with a witness at a concrete input.\<close>

section \<open>Units of work\<close>

definition demo_mutation :: "EffectStatus option \<Rightarrow> EffectStatus \<Rightarrow> ReconciliationRecord option
    \<Rightarrow> EffectMutation" where
  "demo_mutation expected status r =
     \<lparr>mut_effect_id = ''e'', mut_attempt_id = ''a'', mut_status = status, mut_payload = [],
      mut_expected_status = expected, mut_reconciliation = r\<rparr>"

definition demo_unit :: "EffectMutation list \<Rightarrow> AuthoritativeUnitOfWork" where
  "demo_unit ms = empty_unit
     \<lparr>unit_transition_id := Some ''t'',
      unit_state_cas := Some \<lparr>cas_run_id = ''r'', cas_revision = 3, cas_projection_epoch = 0\<rparr>,
      unit_state_value := Some [], unit_effect_mutations := ms\<rparr>"

definition demo_dispatch_unit :: AuthoritativeUnitOfWork where
  "demo_dispatch_unit =
     demo_unit [demo_mutation (Some PREPARED) DISPATCHED None]
       \<lparr>unit_expected_mailbox_cut := Some ''7''\<rparr>"

definition demo_reconciliation :: ReconciliationRecord where
  "demo_reconciliation =
     \<lparr>rec_effect_id = ''e'', rec_attempt_id = ''a'', rec_observed_outcome = RO_FAILED,
      rec_evidence_ref = ''ref'', rec_actor_id = ''me'', rec_owner_epoch = 2,
      rec_transition_id = ''t''\<rparr>"

text \<open>C40: A unit of work that authorizes a dispatch does nothing else to the effect ledger: its
  only mutation is that PREPARED to DISPATCHED step, it names the mailbox cut it was decided on as
  a 64-bit decimal, and it carries no recovery guard, no closeout and no reconciliation.\<close>

theorem dispatch_unit_isolated:
  assumes "AuthoritativeUnitOfWork_init u = Inr v" "m \<in> set (normalized_effect_mutations u)"
    and "mut_expected_status m = Some PREPARED" "mut_status m = DISPATCHED"
  shows "normalized_effect_mutations v = [m]
    \<and> (\<exists>c. unit_expected_mailbox_cut v = Some c \<and> parse_u64 ''expected_mailbox_cut'' c = Inr (u64_of c)
          \<and> u64_of c \<le> max_u64)
    \<and> unit_recovery_guard v = None \<and> unit_unstarted_dispatch_closeout v = None
    \<and> unit_reconciliation_evidence_ref v = None \<and> unit_expected_authorization v = None
    \<and> is_transition v \<and> unit_state_cas v \<noteq> None \<and> unit_state_value v \<noteq> None"
proof -
  have v: "v = u" using assms(1) by (simp add: AuthoritativeUnitOfWork_init_iff)
  show ?thesis unfolding v using unit_dispatch [OF assms] by (auto simp: parse_u64_Inr)
qed

theorem dispatch_unit_isolated_witness:
  "normalized_effect_mutations demo_dispatch_unit = [demo_mutation (Some PREPARED) DISPATCHED None]"
proof -
  have cut: "is_u64 ''7'' \<and> u64_of ''7'' \<le> max_u64"
    by (simp add: is_u64_def u64_of_def max_u64_def is_ascii_digit_def char_code_def)
  have "AuthoritativeUnitOfWork_init demo_dispatch_unit = Inr demo_dispatch_unit"
    using cut by (simp add: unit_simps demo_dispatch_unit_def demo_unit_def demo_mutation_def)
  from dispatch_unit_isolated [OF this, of "demo_mutation (Some PREPARED) DISPATCHED None"]
  show ?thesis by (simp add: demo_dispatch_unit_def demo_unit_def demo_mutation_def
      normalized_effect_mutations_def empty_unit_def)
qed

text \<open>A unit of work that settles an UNKNOWN effect settles exactly one, to COMPLETED or
  FAILED as its reconciliation record observed, and that record names the very evidence and the
  very transition the unit commits, together with the authorization it retains.\<close>

theorem reconciliation_unit_evidence:
  assumes "AuthoritativeUnitOfWork_init u = Inr v" "m \<in> set (normalized_effect_mutations u)"
    and "mut_expected_status m = Some UNKNOWN" "EffectMutation_init m = Inr m"
  shows "\<exists>r t a. mut_reconciliation m = Some r \<and> mut_status m \<in> {COMPLETED, FAILED}
    \<and> reconciliation_outcome_value (rec_observed_outcome r) = effect_status_value (mut_status m)
    \<and> rec_effect_id r = mut_effect_id m \<and> rec_attempt_id r = mut_attempt_id m
    \<and> unit_transition_id v = Some t \<and> rec_transition_id r = t
    \<and> unit_reconciliation_evidence_ref v = Some (rec_evidence_ref r)
    \<and> unit_expected_authorization v = Some a \<and> a \<noteq> []
    \<and> (\<forall>m' \<in> set (normalized_effect_mutations v).
          mut_expected_status m' = Some UNKNOWN \<and> mut_reconciliation m' \<noteq> None
          \<and> mut_status m' \<in> {COMPLETED, FAILED} \<longrightarrow> m' = m)"
proof -
  have v: "v = u" using assms(1) by (simp add: AuthoritativeUnitOfWork_init_iff)
  obtain r t where rt: "reconciliation_mutations u = [m]" "mut_reconciliation m = Some r"
    "mut_status m \<in> {COMPLETED, FAILED}" "unit_transition_id u = Some t" "rec_transition_id r = t"
    "unit_reconciliation_evidence_ref u = Some (rec_evidence_ref r)"
    "\<exists>a. unit_expected_authorization u = Some a \<and> a \<noteq> []"
    using unit_reconciliation [OF assms] by blast
  have only: "m' = m" if "m' \<in> set (normalized_effect_mutations u)"
      "mut_expected_status m' = Some UNKNOWN" "mut_reconciliation m' \<noteq> None"
      "mut_status m' \<in> {COMPLETED, FAILED}" for m'
  proof -
    have "m' \<in> set (reconciliation_mutations u)"
      using that by (simp add: reconciliation_mutations_def)
    with rt(1) show ?thesis by simp
  qed
  show ?thesis
    unfolding v using rt only EffectMutation_init_unknown [OF assms(4,3)] by auto
qed

section \<open>Payloads\<close>

text \<open>C39: Two mailbox payloads are found equal exactly when they have the same JSON content:
  the order of the keys and the difference between tuples and lists do not count, everything
  else does, even \<open>True\<close> against \<open>1\<close>.\<close>

theorem payloads_equal_content:
  assumes "float_text float_repr" "distinct_keys (PDict l)" "distinct_keys (PDict r)"
    and "plain_json (PDict l) = Inr p" "plain_json (PDict r) = Inr q"
  shows "runtime_command_mailbox_payloads_equal float_repr l r = Inr (same_json p q)"
proof -
  have "runtime_command_mailbox_payloads_equal float_repr l r
      = Inr (canonical_json float_repr (PDict l) = canonical_json float_repr (PDict r))"
    using assms(4,5)
    by (simp add: runtime_command_mailbox_payloads_equal_def canonical_json_def)
  with canonical_json_eq [OF assms] show ?thesis by simp
qed

text \<open>A float text that meets the law: numerator and denominator around the exponent sign.\<close>

definition demo_float_repr :: "rat \<Rightarrow> string" where
  "demo_float_repr q =
     str_of_int (fst (quotient_of q)) @ ''e'' @ str_of_int (snd (quotient_of q))"

lemma demo_float_text: "float_text demo_float_repr"
proof -
  have e: "CHR ''e'' \<notin> set (str_of_int i)" for i
  proof
    assume "CHR ''e'' \<in> set (str_of_int i)"
    then have "CHR ''e'' \<in> set (str_of_nat (nat i)) \<or> CHR ''e'' \<in> set (str_of_nat (nat (- i)))"
      by (auto simp: str_of_int_def split: if_splits)
    then show False
      using str_of_nat_digits [of "nat i"] str_of_nat_digits [of "nat (- i)"]
      by (auto simp: list_all_iff is_ascii_digit_def char_code_def)
  qed
  have "inj demo_float_repr"
  proof (rule injI)
    fix p q assume "demo_float_repr p = demo_float_repr q"
    then have "str_of_int (fst (quotient_of p)) = str_of_int (fst (quotient_of q))
        \<and> str_of_int (snd (quotient_of p)) = str_of_int (snd (quotient_of q))"
      using append_Cons_eq_iff [OF e e] by (simp add: demo_float_repr_def)
    then have "quotient_of p = quotient_of q" by (simp add: prod_eq_iff)
    then show "p = q" by (metis quotient_of_inject)
  qed
  moreover have "CHR ''e'' \<in> number_chars" by (simp add: number_chars_def char_code_def)
  ultimately show ?thesis
    using str_of_int_number by (simp add: float_text_def demo_float_repr_def)
qed

theorem payloads_equal_content_witness:
  "runtime_command_mailbox_payloads_equal demo_float_repr
     (dict_of [(''a'', PInt 1), (''b'', PTuple [PNone])])
     (dict_of [(''b'', PList [PNone]), (''a'', PInt 1)]) = Inr True"
proof -
  let ?l = "dict_of [(''a'', PInt 1), (''b'', PTuple [PNone])]"
  let ?r = "dict_of [(''b'', PList [PNone]), (''a'', PInt 1)]"
  have "plain_json (PDict ?l) = Inr (PDict (dict_of [(''a'', PInt 1), (''b'', PList [PNone])]))"
    "plain_json (PDict ?r) = Inr (PDict ?r)" "distinct_keys (PDict ?l)" "distinct_keys (PDict ?r)"
    by code_simp+
  from payloads_equal_content [OF demo_float_text this(3,4,1,2)]
  show ?thesis by (simp add: dict_of_def)
qed

section \<open>From the reconciliation to the settlement input\<close>

lemma freeze_get:
  assumes "freeze_mapping f d = Inr e"
  shows "freeze_value (dict_get d k) = Inr (dict_get e k)"
proof -
  have "freeze_items d = Inr e" using assms by (simp add: freeze_mapping_def split: if_splits)
  from freeze_items_find [OF this, of k] show ?thesis
    by (auto simp: dict_get_def split: option.splits)
qed

lemma freeze_value_dict:
  "freeze_value (PDict d) = Inr w \<Longrightarrow> \<exists>e. w = PDict e \<and> (\<forall>f. freeze_mapping f d = Inr e)"
  by (auto simp: res_simps freeze_mapping_def split: if_splits)

lemma freeze_get_str: "freeze_mapping f d = Inr e \<Longrightarrow> dict_get d k = PStr s \<Longrightarrow> dict_get e k = PStr s"
  using freeze_get [of f d e k] by simp

lemma freeze_get_int: "freeze_mapping f d = Inr e \<Longrightarrow> dict_get d k = PInt i \<Longrightarrow> dict_get e k = PInt i"
  using freeze_get [of f d e k] by simp

lemma freeze_get_opt_str:
  "freeze_mapping f d = Inr e \<Longrightarrow> dict_get d k = opt_str x \<Longrightarrow> dict_get e k = opt_str x"
  using freeze_get [of f d e k] by (cases x) simp_all

lemma freeze_get_dict:
  "freeze_mapping f d = Inr e \<Longrightarrow> dict_get d k = PDict d' \<Longrightarrow>
   \<exists>e'. dict_get e k = PDict e' \<and> freeze_mapping g d' = Inr e'"
  using freeze_get [of f d e k] freeze_value_dict by fastforce

text \<open>An evidence that passed its own validation settles as its outcome says.\<close>

lemma evidence_valid:
  assumes "EffectReconciliationEvidence_init w = Inr v"
  shows "evi_authorization_transition_id v \<noteq> [] \<and> evi_evidence_ref v \<noteq> []
     \<and> plain (evi_result v)
     \<and> (case evi_outcome v of
          RO_COMPLETED \<Rightarrow> evi_reason_code v = None \<and> evi_reason_message v = None
        | RO_FAILED \<Rightarrow> (\<exists>c m. evi_reason_code v = Some c \<and> c \<noteq> [] \<and> evi_reason_message v = Some m
             \<and> \<not> is_blank m))"
  using assms
  by (auto simp: EffectReconciliationEvidence_init_def res_simps evidence_reason_check_def
      plain_json_plain split: ReconciliationOutcome.splits option.splits)

lemma plain_freeze:
  "plain v \<Longrightarrow> \<exists>w. freeze_value v = Inr w"
  "plain_list xs \<Longrightarrow> \<exists>ys. freeze_seq xs = Inr ys"
  "plain_members d \<Longrightarrow> \<not> list_ex (\<lambda>(k, _). \<not> is_str k) d \<and> (\<exists>e. freeze_items d = Inr e)"
  by (induction v and xs and d rule: plain_plain_list_plain_members.induct)
     (auto split: pyfloat.splits)

lemma reconciled_marker_get:
  "dict_get (reconciled_marker unknown v r) k =
     (case map_of
        [(''reason_message'', opt_str (evi_reason_message v)),
         (''reason_code'', opt_str (evi_reason_code v)),
         (''result'', evi_result v),
         (''outcome'', PStr (reconciliation_outcome_value (evi_outcome v))),
         (''reconciled_input_id'', PStr (reconciled_effect_input_id r)),
         (''reconciliation_owner_epoch'', PInt (evi_reconciliation_owner_epoch v)),
         (''evidence_ref'', PStr (evi_evidence_ref v)),
         (''reconciliation_transition_id'', PStr (rec_transition_id r))] k
      of None \<Rightarrow> dict_get unknown k | Some x \<Rightarrow> x)"
  by (simp add: reconciled_marker_def dict_get_union dict_of_def del: dict_union.simps)

lemma reconciled_state_parts:
  assumes "state_value_with_reconciled_effect cur v r = Inr new"
  obtains rt unknown where
    "dict_get new runtime_key = PDict rt"
    "dict_get rt ''reconciled_effect'' = PDict (reconciled_marker unknown v r)"
    "dict_get rt ''unknown_effect'' = PDict unknown"
    "dict_get unknown ''effect_id'' = PStr (evi_effect_id v)"
    "dict_get unknown ''attempt_id'' = PStr (evi_attempt_id v)"
    "dict_get unknown ''authorization_transition_id'' = PStr (evi_authorization_transition_id v)"
    "\<exists>i. dict_get unknown ''indeterminate_input_id'' = PStr i \<and> i \<noteq> []"
    "evi_effect_id v = rec_effect_id r" "evi_attempt_id v = rec_attempt_id r"
    "evi_reconciliation_owner_epoch v = rec_owner_epoch r"
    "evi_outcome v = rec_observed_outcome r" "evi_evidence_ref v = rec_evidence_ref r"
proof -
  from assms obtain d rt unknown where
    "dict_get d runtime_key = PDict rt" and unknown: "reconcilable_unknown rt v = Inr unknown"
    and new: "new = dict_set runtime_key
        (PDict (dict_set ''reconciled_effect'' (PDict (reconciled_marker unknown v r)) rt)) d"
    and ids: "evi_effect_id v = rec_effect_id r" "evi_attempt_id v = rec_attempt_id r"
      "evi_reconciliation_owner_epoch v = rec_owner_epoch r"
      "evi_outcome v = rec_observed_outcome r" "evi_evidence_ref v = rec_evidence_ref r"
    by (auto simp: state_value_with_reconciled_effect_def Let_def res_simps
        split: if_splits option.splits)
  moreover have "dict_get rt ''unknown_effect'' = PDict unknown"
    "dict_get unknown ''effect_id'' = PStr (evi_effect_id v)"
    "dict_get unknown ''attempt_id'' = PStr (evi_attempt_id v)"
    "dict_get unknown ''authorization_transition_id'' = PStr (evi_authorization_transition_id v)"
    "\<exists>i. dict_get unknown ''indeterminate_input_id'' = PStr i \<and> i \<noteq> []"
    using unknown by (auto simp: reconcilable_unknown_def split: if_splits option.splits)
  ultimately show ?thesis
    using that [of "dict_set ''reconciled_effect'' (PDict (reconciled_marker unknown v r)) rt" unknown]
    by simp
qed

text \<open>What the store writes when it reconciles an UNKNOWN effect is what the segment
  coordinator reads afterwards: from the committed state it rebuilds a settlement of that effect
  and attempt, with the outcome, result and reason of the durable evidence, under the retained
  authorization.\<close>

theorem reconciled_state_settles:
  assumes "EffectReconciliationEvidence_init w = Inr v"
    and "state_value_with_reconciled_effect cur v r = Inr new"
    and "OperationStateVersion_init sv0 = Inr sv" "osv_value sv0 = new"
    and "cr_transition_id (osv_commit_ref sv0) = rec_transition_id r"
    and "ReconciliationRecord_init r = Inr r" "0 < n"
    and "\<forall>rt unknown. dict_get new runtime_key = PDict rt
             \<and> dict_get rt ''unknown_effect'' = PDict unknown \<longrightarrow>
             (\<exists>c. dict_get unknown ''tool_call_id'' = PStr c \<and> c \<noteq> [])
             \<and> (\<exists>t. dict_get unknown ''tool_name'' = PStr t \<and> t \<noteq> [])
             \<and> dict_get unknown ''indeterminate_input_id'' \<noteq> PStr (reconciled_effect_input_id r)"
  shows "\<exists>s. reconciled_effect_input sv r n = Inr s
    \<and> es_input_id s = reconciled_effect_input_id r
    \<and> es_effect_id s = evi_effect_id v \<and> es_attempt_id s = evi_attempt_id v
    \<and> es_authorization_transition_id s = evi_authorization_transition_id v
    \<and> settlement_outcome_value (es_outcome s) = reconciliation_outcome_value (evi_outcome v)
    \<and> freeze_value (evi_result v) = Inr (es_result s)
    \<and> es_reason_code s = evi_reason_code v \<and> es_reason_message s = evi_reason_message v"
proof -
  obtain rt unknown where st: "dict_get new runtime_key = PDict rt"
    "dict_get rt ''reconciled_effect'' = PDict (reconciled_marker unknown v r)"
    "dict_get rt ''unknown_effect'' = PDict unknown"
    "dict_get unknown ''effect_id'' = PStr (evi_effect_id v)"
    "dict_get unknown ''attempt_id'' = PStr (evi_attempt_id v)"
    "dict_get unknown ''authorization_transition_id'' = PStr (evi_authorization_transition_id v)"
    "\<exists>i. dict_get unknown ''indeterminate_input_id'' = PStr i \<and> i \<noteq> []"
    "evi_effect_id v = rec_effect_id r" "evi_attempt_id v = rec_attempt_id r"
    "evi_reconciliation_owner_epoch v = rec_owner_epoch r"
    "evi_outcome v = rec_observed_outcome r" "evi_evidence_ref v = rec_evidence_ref r"
    using reconciled_state_parts [OF assms(2)] by blast
  obtain c t i where ct: "dict_get unknown ''tool_call_id'' = PStr c" "c \<noteq> []"
    "dict_get unknown ''tool_name'' = PStr t" "t \<noteq> []"
    "dict_get unknown ''indeterminate_input_id'' = PStr i" "i \<noteq> []"
    "i \<noteq> reconciled_effect_input_id r"
    using assms(8) st(1,3,7) by blast
  have frozen: "freeze_mapping ''value'' new = Inr (osv_value sv)"
    and ref: "osv_commit_ref sv = osv_commit_ref sv0"
    using assms(3,4) by (auto simp: OperationStateVersion_init_def res_simps)
  obtain rt' where rt': "dict_get (osv_value sv) runtime_key = PDict rt'"
      "freeze_mapping [] rt = Inr rt'"
    using freeze_get_dict [OF frozen st(1)] by blast
  obtain m where m: "dict_get rt' ''reconciled_effect'' = PDict m"
      "freeze_mapping [] (reconciled_marker unknown v r) = Inr m"
    using freeze_get_dict [OF rt'(2) st(2)] by blast
  note str = freeze_get_str [OF m(2)] and get = reconciled_marker_get [of unknown v r]
  have fields: "dict_get m ''effect_id'' = PStr (rec_effect_id r)"
    "dict_get m ''attempt_id'' = PStr (rec_attempt_id r)"
    "dict_get m ''evidence_ref'' = PStr (rec_evidence_ref r)"
    "dict_get m ''reconciliation_transition_id'' = PStr (rec_transition_id r)"
    "dict_get m ''outcome'' = PStr (reconciliation_outcome_value (rec_observed_outcome r))"
    "dict_get m ''reconciled_input_id'' = PStr (reconciled_effect_input_id r)"
    "dict_get m ''indeterminate_input_id'' = PStr i"
    "dict_get m ''tool_call_id'' = PStr c" "dict_get m ''tool_name'' = PStr t"
    "dict_get m ''authorization_transition_id'' = PStr (evi_authorization_transition_id v)"
    by (rule str; simp add: get st ct)+
  have epoch: "dict_get m ''reconciliation_owner_epoch'' = PInt (rec_owner_epoch r)"
    by (rule freeze_get_int [OF m(2)]) (simp add: get st)
  have reasons: "dict_get m ''reason_code'' = opt_str (evi_reason_code v)"
    "dict_get m ''reason_message'' = opt_str (evi_reason_message v)"
    by (rule freeze_get_opt_str [OF m(2)]; simp add: get)+
  have result: "freeze_value (evi_result v) = Inr (dict_get m ''result'')"
    using freeze_get [OF m(2), of "''result''"] by (simp add: get)
  then have frozen_result: "frozen (dict_get m ''result'')"
    by (rule freeze_result_frozen(1))
  note ev = evidence_valid [OF assms(1)]
  have matches: "reconciled_marker_matches m sv r"
    by (simp add: reconciled_marker_matches_def fields epoch ref assms(5))
  have r_ids: "rec_effect_id r \<noteq> []" "rec_attempt_id r \<noteq> []" "rec_transition_id r \<noteq> []"
    using assms(6) by (auto simp: ReconciliationRecord_init_def checks_eq_Inr)
  have reason_strs: "optional_reconciled_marker_str m ''reason_code'' = Inr (evi_reason_code v)"
    "optional_reconciled_marker_str m ''reason_message'' = Inr (evi_reason_message v)"
    using ev by (auto simp: optional_reconciled_marker_str_def reasons
        split: ReconciliationOutcome.splits)
  define s where "s = \<lparr>es_input_id = reconciled_effect_input_id r, es_tool_call_id = c,
      es_tool_name = t, es_effect_id = rec_effect_id r, es_attempt_id = rec_attempt_id r,
      es_authorization_transition_id = evi_authorization_transition_id v, es_owner_epoch = n,
      es_outcome = (case evi_outcome v of RO_COMPLETED \<Rightarrow> ESO_COMPLETED | RO_FAILED \<Rightarrow> ESO_FAILED),
      es_result = dict_get m ''result'', es_reason_code = evi_reason_code v,
      es_reason_message = evi_reason_message v\<rparr>"
  have "settlement_ok s"
    using ev r_ids ct assms(7) frozen_result
    by (auto simp: s_def settlement_ok_def settlement_reason_ok_def reconciled_effect_input_id_def
        split: ReconciliationOutcome.splits)
  then have "EffectSettlement_init s = Inr s" by (rule EffectSettlement_init_id)
  then have "reconciled_effect_input sv r n = Inr s"
    using rt'(1) m(1) matches ct(2,4,6,7) ev r_ids st(11)
    by (cases "rec_observed_outcome r")
       (simp_all add: reconciled_effect_input_def required_reconciled_marker_str_def fields
        reason_strs settlement_outcome_of_def reconciled_effect_input_id_def s_def)
  then show ?thesis
    using result st(8,9) by (cases "evi_outcome v") (auto simp: s_def)
qed


definition demo_evidence :: EffectReconciliationEvidence where
  "demo_evidence =
     \<lparr>evi_evidence_ref = ''ref'', evi_session_id = ''s'', evi_effect_id = ''e'',
      evi_attempt_id = ''a'', evi_authorization_transition_id = ''auth'',
      evi_reconciliation_owner_epoch = 2, evi_outcome = RO_FAILED, evi_result = PStr ''boom'',
      evi_reason_code = Some ''x'', evi_reason_message = Some ''it failed''\<rparr>"

definition demo_authorization :: dict where
  "demo_authorization = dict_of
     [(''effect_id'', PStr ''e''), (''attempt_id'', PStr ''a''), (''tool_call_id'', PStr ''c''),
      (''tool_name'', PStr ''bash''), (''authorization_transition_id'', PStr ''auth''),
      (''dispatch_owner_epoch'', PInt 1)]"

definition demo_unknown_state :: dict where
  "demo_unknown_state = dict_of [(runtime_key, PDict (dict_of
     [(''active_effect_authorization'', PDict demo_authorization),
      (''pending_effect_plans'', PList [PDict []]),
      (''unknown_effect'',
         PDict (dict_set ''indeterminate_input_id'' (PStr ''i'') demo_authorization))]))]"

section \<open>Receipts and cursors\<close>

text \<open>The receipt a parent settlement is replayed from is the only one the store holds among
  the live transition and the recovery transitions it may adopt: with two the history is refused
  as corrupt, with none a terminal parent effect is refused and any other is settled afresh.\<close>

theorem adopt_receipt_by_count:
  assumes "distinct (current_id # map fst adopted)"
  shows "adopt_parent_settlement_receipt current_id row adopted status =
    (case stored_receipts ((current_id, row) # adopted) of
       [] \<Rightarrow> (if (\<exists>s. status = Some s \<and> s \<in> set terminal_parent_effect_statuses)
              then Inl (EffectMutationConflictError
                ''terminal parent effect has no live or recovery settlement receipt'')
              else Inr None)
     | [p] \<Rightarrow> Inr (Some p)
     | _ \<Rightarrow> Inl (EffectMutationConflictError
              ''live and recovery parent settlement receipts both exist''))"
  by (rule adopt_receipt_cases [OF assms])

text \<open>A reader can always go on from the cursor a replayed page returns: after a page that
  ends at or past the retention floor, and after an empty page, the cursor has not expired.\<close>

theorem page_cursor_live:
  assumes "RetentionFloorReplay_from_page sid events limit retention_floor head = Inr p"
    and "0 \<le> retention_floor"
    and "events \<noteq> [] \<longrightarrow> nat retention_floor \<le> u64_of (the (fact_session_seq (last events))) + 1"
  shows "assert_raw_cursor_not_expired (replay_raw_cursor p) (str_of_int retention_floor) = Inr ()
    \<and> (events = [] \<longrightarrow> replay_complete p)"
proof -
  note page = from_page_cursor [OF assms(1)]
  have "raw_session_id (replay_raw_cursor p) \<noteq> []"
    using assms(1) by (cases "events = []")
      (auto simp: RetentionFloorReplay_from_page_def res_simps RawCursor_init_id
        split: option.splits)
  moreover have "is_u64 (str_of_int retention_floor)" "u64_of (str_of_int retention_floor) = nat retention_floor"
    using assms(2) by (simp_all add: str_of_int_nat)
  moreover have "events = [] \<longrightarrow> replay_complete p"
    using assms(1) by (auto simp: RetentionFloorReplay_from_page_def res_simps)
  moreover have "nat retention_floor \<le> u64_of (raw_session_seq (replay_raw_cursor p)) + 1"
    using page(4,5) assms(2,3) by (cases "events = []") auto
  ultimately show ?thesis using raw_cursor_live page(3) by auto
qed

section \<open>Round trips\<close>

text \<open>A child execution binding survives storage: whatever binding the store accepted, with
  its lease and the mailbox snapshot of commands inside, is read back from its payload exactly.\<close>

theorem child_binding_roundtrip:
  assumes "ChildExecutionBinding_init b = Inr b"
    and "\<forall>l. child_active_lease b = Some l \<longrightarrow> RecoveredChildExecutionLease_init l = Inr l
      \<and> (\<forall>e \<in> set (lease_mailbox_snapshot l). CommandMailboxEntry_init e = Inr e
            \<and> RuntimeCommand_init (ent_command e) = Inr (ent_command e))"
  shows "\<exists>d. child_execution_binding_payload b = Inr (PDict d)
    \<and> child_execution_binding_from_payload d = Inr b"
proof -
  have "binding_ok b"
    using assms by (auto simp: binding_ok_def lease_ok_def entry_ok_def stored_command_ok_def list_all_iff)
  then obtain p where p: "child_execution_binding_payload b = Inr p" "binding_of_payload p = Inr b"
    using bindings.roundtrip by blast
  moreover from p(1) obtain d where "p = PDict d"
    by (auto simp: child_execution_binding_payload_def res_simps)
  ultimately show ?thesis by (auto simp: binding_of_payload_def)
qed

text \<open>C38: A committed transition can be replayed from storage: reading back the payload the store
  wrote yields the very state version, facts, receipt and cursor of the original commit, provided
  \<open>datetime.fromisoformat\<close> inverts \<open>isoformat\<close> on the timestamps of the facts.\<close>

theorem commit_payload_roundtrip:
  assumes "OperationStateVersion_init sv = Inr sv"
    and "CommitRef_init (osv_commit_ref sv) = Inr (osv_commit_ref sv)"
    and "\<forall>f \<in> set facts. fact_stored fromisoformat sid f" "\<forall>q \<in> set plans. EffectPlan_init q = Inr q"
    and "RawCursor_init c = Inr c" "raw_session_id c = sid"
    and "traverse_res stored_notice facts = Inr notices"
    and "receipt = \<lparr>rcpt_session_id = sid, rcpt_projection_epoch = osv_projection_epoch sv,
      rcpt_transition_id = cr_transition_id (osv_commit_ref sv),
      rcpt_mutation_fingerprint = fingerprint, rcpt_state_version = sv, rcpt_facts = notices,
      rcpt_effect_plans = plans\<rparr>"
    and "TransitionReceipt_init receipt = Inr receipt"
  shows "\<exists>payload. transition_commit_payload sv facts c plans = Inr payload
    \<and> transition_commit_from_payload fromisoformat sid (cr_transition_id (osv_commit_ref sv))
        (osv_projection_epoch sv) fingerprint payload = Inr (sv, facts, receipt, c)"
  by (rule commit_payload_reads_back) (use assms in \<open>auto simp: state_version_ok_def list_all_iff
    dest: EffectPlan_init_ok\<close>)

definition demo_time :: datetime where
  "demo_time = \<lparr>dt_year = 2025, dt_month = 1, dt_day = 2, dt_hour = 3, dt_minute = 4,
     dt_second = 5, dt_microsecond = 0, dt_offset = Some 0\<rparr>"

definition demo_fromisoformat :: "string \<Rightarrow> datetime res" where
  "demo_fromisoformat s =
     (if s = isoformat demo_time then Inr demo_time else Inl (ValueError ''Invalid isoformat string''))"

definition demo_fact :: EventRecord where
  "demo_fact =
     \<lparr>fact_event_id = ''f'', fact_session_id = ''s'', fact_event_kind = ''note'',
      fact_payload = dict_of [(''x'', PInt 1)], fact_created_at = demo_time,
      fact_session_seq = Some ''4'', fact_projection_epoch = Some ''0''\<rparr>"

definition demo_stored_plan :: EffectPlan where
  "demo_stored_plan =
     \<lparr>plan_effect_id = ''e'', plan_attempt_id = ''a'', plan_effect_kind = ''tool'',
      plan_payload = dict_of [(''args'', PTuple [PStr ''ls''])], plan_idempotency_key = None,
      plan_requires_approval = False, plan_approval_request_id = None\<rparr>"

definition demo_stored_version :: OperationStateVersion where
  "demo_stored_version =
     \<lparr>osv_run_id = ''r'', osv_revision = 4, osv_projection_epoch = 0,
      osv_commit_ref = \<lparr>cr_transition_id = ''t'', cr_fact_seq_start = Some ''4'',
        cr_fact_seq_end = Some ''4''\<rparr>,
      osv_value = dict_of [(''n'', PTuple [PInt 1])]\<rparr>"

definition demo_stored_notice :: CommittedFactNotice where
  "demo_stored_notice =
     \<lparr>notice_fact_id = ''f'', notice_fact_kind = ''note'', notice_payload = dict_of [(''x'', PInt 1)],
      notice_session_seq = Some ''4'', notice_projection_epoch = Some 0,
      notice_event_record_id = None\<rparr>"

definition demo_receipt :: TransitionReceipt where
  "demo_receipt =
     \<lparr>rcpt_session_id = ''s'', rcpt_projection_epoch = 0, rcpt_transition_id = ''t'',
      rcpt_mutation_fingerprint = ''h'', rcpt_state_version = demo_stored_version,
      rcpt_facts = [demo_stored_notice], rcpt_effect_plans = [demo_stored_plan]\<rparr>"

definition demo_cursor :: RawCursor where
  "demo_cursor = \<lparr>raw_session_id = ''s'', raw_session_seq = ''4''\<rparr>"

theorem commit_payload_roundtrip_witness:
  "\<exists>payload. transition_commit_payload demo_stored_version [demo_fact] demo_cursor [demo_stored_plan] = Inr payload
     \<and> transition_commit_from_payload demo_fromisoformat ''s'' ''t'' 0 ''h'' payload
         = Inr (demo_stored_version, [demo_fact], demo_receipt, demo_cursor)"
proof -
  have "OperationStateVersion_init demo_stored_version = Inr demo_stored_version"
    "CommitRef_init (osv_commit_ref demo_stored_version) = Inr (osv_commit_ref demo_stored_version)"
    "EffectPlan_init demo_stored_plan = Inr demo_stored_plan" "RawCursor_init demo_cursor = Inr demo_cursor"
    "traverse_res stored_notice [demo_fact] = Inr [demo_stored_notice]"
    "TransitionReceipt_init demo_receipt = Inr demo_receipt"
    "EventRecord_init demo_fact = Inr demo_fact"
    by code_simp+
  moreover have "fact_stored demo_fromisoformat ''s'' demo_fact"
    using calculation(7)
    by (simp add: fact_stored_def demo_fact_def demo_fromisoformat_def dict_of_def)
  ultimately show ?thesis
    using commit_payload_roundtrip [of demo_stored_version "[demo_fact]" demo_fromisoformat "''s''"
        "[demo_stored_plan]" demo_cursor "[demo_stored_notice]" demo_receipt "''h''"]
    by (simp add: demo_cursor_def demo_receipt_def demo_stored_version_def)
qed

end
