(* ===== verification/Local_Store.thy ===== *)
theory Local_Store
  imports Store_Codecs
begin

text \<open>
  \<open>coding_agent/stores/local_durable\<close>: the SQLite store of one host. Its tables, the row
  codecs, the owner fence, reconciliation evidence and the executor-attempt operations.

  A table is a map from its primary key to the other columns, or the list of its rows where the
  code queries it by several keys. A column of JSON text holds the mapping \<open>json.loads\<close> returns
  from it: everything written there is plain JSON, and the order in which \<open>sort_keys\<close> leaves the
  keys is not modelled, since nothing reads it. A column of ISO text is a string; its reader
  \<open>datetime.fromisoformat\<close> is a parameter. \<open>BEGIN IMMEDIATE\<close> excludes other writers, and an
  exception rolls the transaction back: an operation is a function of the database that returns
  the exception, and then the database is the one before.
\<close>

section \<open>Tables\<close>

record OwnerAuthority =
  own_session_id :: string
  own_owner_id :: string
  own_epoch :: int

record SessionOwnerRow =
  so_owner_id :: string
  so_lease_expires_at :: string
  so_fencing_token :: int

record FactSourceRow =
  fr_session_seq :: int
  fr_retention_floor :: int
  fr_projection :: string
  fr_projection_epoch :: int
  fr_dispatch_generation :: int
  fr_trusted_handoff_seq :: "int option"
  fr_trusted_handoff_epoch :: "int option"
  fr_trusted_handoff_projection :: "string option"
  fr_trusted_handoff_payload :: "dict option"

record EventRow =
  er_session_id :: string
  er_session_seq :: int
  er_event_id :: string
  er_event_kind :: string
  er_payload :: dict
  er_created_at :: string
  er_projection_epoch :: int

record OperationStateRow =
  sr_revision :: int
  sr_projection_epoch :: int
  sr_transition_id :: string
  sr_fact_seq_start :: "int option"
  sr_fact_seq_end :: "int option"
  sr_value :: dict

record MailboxRow =
  mr_lane :: string
  mr_disposition :: string
  mr_payload :: dict
  mr_admitted_session_seq :: "int option"
  mr_admitted_dispatch_generation :: "int option"

record EffectRow =
  fx_status :: string
  fx_payload :: dict

record EvidenceRow =
  vr_session_id :: string
  vr_evidence_ref :: string
  vr_effect_id :: string
  vr_attempt_id :: string
  vr_authorization_transition_id :: string
  vr_reconciliation_owner_epoch :: int
  vr_payload :: dict

record AttemptRow =
  ar_dispatch_owner_epoch :: int
  ar_status :: string
  ar_payload :: dict

record BindingRow =
  br_session_id :: string
  br_parent_effect_id :: string
  br_child_run_id :: string
  br_payload :: dict

type_synonym attempt_row_key = "string \<times> string \<times> string \<times> string"

record local_db =
  db_owners :: "string \<Rightarrow> SessionOwnerRow option"
  db_fact_source :: "string \<Rightarrow> FactSourceRow option"
  db_receipts :: "string \<times> int \<times> string \<Rightarrow> (string \<times> dict) option"
  db_states :: "string \<times> string \<Rightarrow> OperationStateRow option"
  db_events :: "EventRow list"
  db_mailbox :: "string \<times> string \<Rightarrow> MailboxRow option"
  db_effects :: "string \<times> string \<Rightarrow> EffectRow option"
  db_evidence :: "EvidenceRow list"
  db_attempts :: "attempt_row_key \<Rightarrow> AttemptRow option"
  db_bindings :: "BindingRow list"
  db_sessions :: "string \<Rightarrow> dict option"
  db_activation :: "bool option"

section \<open>The owner fence\<close>

text \<open>\<open>_datetime_from_sqlite_text\<close>: a naive text is read as UTC; instants are compared.\<close>

definition datetime_from_sqlite_text :: "(string \<Rightarrow> datetime res) \<Rightarrow> string \<Rightarrow> datetime res" where
  "datetime_from_sqlite_text fromisoformat s =
     map_res (\<lambda>t. if dt_offset t = None then t\<lparr>dt_offset := Some 0\<rparr> else t) (fromisoformat s)"

definition assert_authority ::
    "(string \<Rightarrow> datetime res) \<Rightarrow> datetime \<Rightarrow> local_db \<Rightarrow> OwnerAuthority \<Rightarrow> unit res" where
  "assert_authority fromisoformat now db authority =
     (case db_owners db (own_session_id authority) of
        None \<Rightarrow> Inl (SessionOwnershipConflictError ''session owner lease is missing''
                  ''missing_owner'')
      | Some row \<Rightarrow>
          bind_res (datetime_from_sqlite_text fromisoformat (so_lease_expires_at row)) (\<lambda>lease.
          bind_res (datetime_le lease now) (\<lambda>expired.
          if expired
          then Inl (SessionOwnershipConflictError ''session owner lease has expired''
                 ''expired_lease'')
          else if so_owner_id row \<noteq> own_owner_id authority
                  \<or> so_fencing_token row \<noteq> own_epoch authority
          then Inl (SessionOwnershipConflictError ''stale owner or fencing token rejected''
                 ''stale_owner'')
          else Inr ())))"

section \<open>The fact source of a session\<close>

record FactSource =
  fs_state :: SessionFactSourceState
  fs_session_seq :: int
  fs_retention_floor :: int
  fs_projection_epoch :: int
  fs_dispatch_generation :: int
  fs_projection :: string

definition fact_source_from_row :: "string \<Rightarrow> FactSourceRow \<Rightarrow> FactSource res" where
  "fact_source_from_row session_id row =
     bind_res (format_u64 (fr_session_seq row)) (\<lambda>seq.
     bind_res (format_u64 (fr_retention_floor row)) (\<lambda>retention.
     bind_res (format_u64 (fr_projection_epoch row)) (\<lambda>epoch.
     bind_res (format_u64 (fr_dispatch_generation row)) (\<lambda>generation.
     bind_res (stored_trusted_handoff session_id (fr_trusted_handoff_seq row)
         (fr_trusted_handoff_epoch row) (fr_trusted_handoff_projection row)
         (fr_trusted_handoff_payload row)) (\<lambda>handoff.
     map_res (\<lambda>state. \<lparr>fs_state = state, fs_session_seq = fr_session_seq row,
         fs_retention_floor = fr_retention_floor row,
         fs_projection_epoch = fr_projection_epoch row,
         fs_dispatch_generation = fr_dispatch_generation row, fs_projection = fr_projection row\<rparr>)
       (SessionFactSourceState_init
          \<lparr>src_session_id = session_id, src_session_seq = seq, src_retention_floor = retention,
           src_projection = fr_projection row, src_projection_epoch = epoch,
           src_trusted_handoff = handoff, src_dispatch_generation = generation\<rparr>))))))"

definition new_fact_source :: FactSourceRow where
  "new_fact_source =
     \<lparr>fr_session_seq = 0, fr_retention_floor = 0, fr_projection = ''default'',
      fr_projection_epoch = 0, fr_dispatch_generation = 0, fr_trusted_handoff_seq = None,
      fr_trusted_handoff_epoch = None, fr_trusted_handoff_projection = None,
      fr_trusted_handoff_payload = None\<rparr>"

definition ensure_fact_source :: "local_db \<Rightarrow> string \<Rightarrow> (FactSource \<times> local_db) res" where
  "ensure_fact_source db session_id =
     (case db_fact_source db session_id of
        Some row \<Rightarrow> map_res (\<lambda>fs. (fs, db)) (fact_source_from_row session_id row)
      | None \<Rightarrow>
          map_res (\<lambda>fs. (fs, db\<lparr>db_fact_source :=
              (db_fact_source db)(session_id \<mapsto> new_fact_source)\<rparr>))
            (fact_source_from_row session_id new_fact_source))"

section \<open>Stored operation states\<close>

definition operation_state_from_row ::
    "string \<Rightarrow> OperationStateRow \<Rightarrow> OperationStateVersion res" where
  "operation_state_from_row run_id row =
     bind_res (CommitRef_init
       \<lparr>cr_transition_id = sr_transition_id row,
        cr_fact_seq_start = map_option str_of_int (sr_fact_seq_start row),
        cr_fact_seq_end = map_option str_of_int (sr_fact_seq_end row)\<rparr>) (\<lambda>ref.
     OperationStateVersion_init
       \<lparr>osv_run_id = run_id, osv_revision = sr_revision row,
        osv_projection_epoch = sr_projection_epoch row, osv_commit_ref = ref,
        osv_value = sr_value row\<rparr>)"

definition load_operation_state ::
    "local_db \<Rightarrow> string \<Rightarrow> string \<Rightarrow> OperationStateVersion option res" where
  "load_operation_state db session_id run_id =
     bind_res (checks [require_non_empty ''session_id'' session_id,
                       require_non_empty ''run_id'' run_id] ()) (\<lambda>_.
     optional_res (operation_state_from_row run_id) (db_states db (session_id, run_id)))"

definition load_transition_receipt ::
    "(string \<Rightarrow> datetime res) \<Rightarrow> local_db \<Rightarrow> string \<Rightarrow> int \<Rightarrow> string \<Rightarrow> TransitionReceipt option res" where
  "load_transition_receipt fromisoformat db session_id projection_epoch transition_id =
     bind_res (checks [require_non_empty ''session_id'' session_id,
                       require_non_empty ''transition_id'' transition_id,
                       fails_when (projection_epoch < 0)
                         (ValueError ''projection_epoch must be a non-negative integer'')] ())
       (\<lambda>_.
     optional_res
       (\<lambda>(fingerprint, payload).
          map_res (\<lambda>(_, _, receipt, _). receipt)
            (transition_commit_from_payload fromisoformat session_id transition_id
               projection_epoch fingerprint payload))
       (db_receipts db (session_id, projection_epoch, transition_id)))"

section \<open>Executor attempts\<close>

definition row_required_str :: "dict \<Rightarrow> string \<Rightarrow> string res" where
  "row_required_str payload field_name =
     (case as_nonempty_str (dict_get payload field_name) of
        None \<Rightarrow> Inl (ValueError (field_name @ '' must be a non-empty string''))
      | Some s \<Rightarrow> Inr s)"

definition row_optional_str :: "dict \<Rightarrow> string \<Rightarrow> string option res" where
  "row_optional_str payload field_name =
     (if dict_get payload field_name = PNone then Inr None
      else case as_nonempty_str (dict_get payload field_name) of
        None \<Rightarrow> Inl (ValueError (field_name @ '' must be a non-empty string or None''))
      | Some s \<Rightarrow> Inr (Some s))"

definition row_required_int :: "dict \<Rightarrow> string \<Rightarrow> int res" where
  "row_required_int payload field_name =
     (case as_plain_int (dict_get payload field_name) of
        None \<Rightarrow> Inl (ValueError (field_name @ '' must be an integer''))
      | Some i \<Rightarrow> Inr i)"

text \<open>\<open>ExecutorAttemptStatus(value)\<close>.\<close>

definition attempt_status_of :: "string \<Rightarrow> ExecutorAttemptStatus res" where
  "attempt_status_of s =
     (if s = ''authorized_unclaimed'' then Inr AUTHORIZED_UNCLAIMED
      else if s = ''reserved'' then Inr RESERVED
      else if s = ''started'' then Inr STARTED
      else if s = ''quiescent'' then Inr QUIESCENT
      else Inl (ValueError ([quote_char] @ s @ [quote_char]
             @ '' is not a valid ExecutorAttemptStatus'')))"

definition or_zero :: "string option \<Rightarrow> string" where
  "or_zero x = (case x of None \<Rightarrow> ''0'' | Some s \<Rightarrow> s)"

definition executor_attempt_from_payload ::
    "(string \<Rightarrow> datetime res) \<Rightarrow> dict \<Rightarrow> ExecutorAttemptRecord res" where
  "executor_attempt_from_payload fromisoformat payload =
     (let str = row_required_str payload; opt = row_optional_str payload;
          int = row_required_int payload
      in bind_res (str ''session_id'') (\<lambda>sid.
         bind_res (str ''effect_id'') (\<lambda>eid.
         bind_res (str ''attempt_id'') (\<lambda>aid.
         bind_res (str ''authorization_transition_id'') (\<lambda>auth.
         bind_res (int ''dispatch_owner_epoch'') (\<lambda>epoch.
         bind_res (str ''status'') (\<lambda>raw_status.
         bind_res (opt ''authorization_mailbox_cut'') (\<lambda>mcut.
         bind_res (opt ''authorization_mailbox_session_seq'') (\<lambda>mseq.
         bind_res (opt ''executor_id'') (\<lambda>executor.
         bind_res (int ''claim_generation'') (\<lambda>generation.
         bind_res
           (if dict_get payload ''reservation_lease_expires_at'' = PNone then Inr None
            else bind_res (str ''reservation_lease_expires_at'') (\<lambda>s. map_res Some (fromisoformat s)))
           (\<lambda>lease.
         bind_res (opt ''quiescence_evidence_ref'') (\<lambda>evidence.
         bind_res (attempt_status_of raw_status) (\<lambda>status.
         ExecutorAttemptRecord_init
           \<lparr>att_session_id = sid, att_effect_id = eid, att_attempt_id = aid,
            att_authorization_transition_id = auth, att_dispatch_owner_epoch = epoch,
            att_status = status, att_executor_id = executor, att_claim_generation = generation,
            att_reservation_lease_expires_at = lease, att_quiescence_evidence_ref = evidence,
            att_authorization_mailbox_cut = or_zero mcut,
            att_authorization_mailbox_session_seq = or_zero mseq\<rparr>))))))))))))))"


definition attempt_row :: "ExecutorAttemptRecord \<Rightarrow> AttemptRow" where
  "attempt_row a =
     \<lparr>ar_dispatch_owner_epoch = att_dispatch_owner_epoch a,
      ar_status = attempt_status_value (att_status a), ar_payload = attempt_payload a\<rparr>"

definition attempt_key :: "ExecutorAttemptRecord \<Rightarrow> attempt_row_key" where
  "attempt_key a =
     (att_session_id a, att_effect_id a, att_attempt_id a, att_authorization_transition_id a)"

text \<open>The \<open>UPDATE ... SET status, payload\<close> of an existing row.\<close>

definition put_attempt :: "attempt_row_key \<Rightarrow> ExecutorAttemptRecord \<Rightarrow> local_db \<Rightarrow> local_db" where
  "put_attempt key a db = db\<lparr>db_attempts := (db_attempts db)(key :=
     map_option (\<lambda>row. row\<lparr>ar_status := attempt_status_value (att_status a),
       ar_payload := attempt_payload a\<rparr>) (db_attempts db key))\<rparr>"

definition stored_attempt ::
    "(string \<Rightarrow> datetime res) \<Rightarrow> local_db \<Rightarrow> attempt_row_key \<Rightarrow> ExecutorAttemptRecord option res" where
  "stored_attempt fromisoformat db key =
     optional_res (\<lambda>row. executor_attempt_from_payload fromisoformat (ar_payload row))
       (db_attempts db key)"

definition load_executor_attempt ::
    "(string \<Rightarrow> datetime res) \<Rightarrow> local_db \<Rightarrow> string \<Rightarrow> string \<Rightarrow> string \<Rightarrow> string
     \<Rightarrow> ExecutorAttemptRecord option res" where
  "load_executor_attempt fromisoformat db session_id effect_id attempt_id
       authorization_transition_id =
     stored_attempt fromisoformat db
       (session_id, effect_id, attempt_id, authorization_transition_id)"

definition existing_attempt ::
    "(string \<Rightarrow> datetime res) \<Rightarrow> local_db \<Rightarrow> attempt_row_key \<Rightarrow> ExecutorAttemptRecord res" where
  "existing_attempt fromisoformat db key =
     bind_res (stored_attempt fromisoformat db key) (\<lambda>found.
     case found of
       None \<Rightarrow> Inl (ExecutorAttemptConflictError ''executor attempt does not exist'')
     | Some a \<Rightarrow> Inr a)"

text \<open>\<open>==\<close> of two datetimes: instants when both are aware, fields when both are naive.\<close>

definition datetime_eq :: "datetime \<Rightarrow> datetime \<Rightarrow> bool" where
  "datetime_eq a b \<longleftrightarrow>
     (case (dt_offset a, dt_offset b) of
        (Some i, Some j) \<Rightarrow> local_microseconds a - i = local_microseconds b - j
      | (None, None) \<Rightarrow> local_microseconds a = local_microseconds b
      | _ \<Rightarrow> False)"

definition conflict :: "string \<Rightarrow> 'a res" where
  "conflict m = Inl (ExecutorAttemptConflictError m)"

definition reserve_executor_attempt ::
    "(string \<Rightarrow> datetime res) \<Rightarrow> datetime \<Rightarrow> OwnerAuthority \<Rightarrow> string \<Rightarrow> string \<Rightarrow> string \<Rightarrow> string
     \<Rightarrow> datetime \<Rightarrow> local_db \<Rightarrow> (ExecutorAttemptRecord \<times> local_db) res" where
  "reserve_executor_attempt fromisoformat utc_now authority effect_id attempt_id
       authorization_transition_id executor_id lease_expires_at db =
     (let key = (own_session_id authority, effect_id, attempt_id, authorization_transition_id) in
      bind_res (assert_authority fromisoformat utc_now db authority) (\<lambda>_.
      bind_res (existing_attempt fromisoformat db key) (\<lambda>current.
      if att_status current = RESERVED
      then
        (if att_executor_id current = Some executor_id
            \<and> (case att_reservation_lease_expires_at current of
                 None \<Rightarrow> False | Some t \<Rightarrow> datetime_eq t lease_expires_at)
         then Inr (current, db)
         else conflict ''executor reservation replay changed content'')
      else
        bind_res (ExecutorAttemptRecord_init
          (current\<lparr>att_status := RESERVED, att_executor_id := Some executor_id,
             att_claim_generation := att_claim_generation current + 1,
             att_reservation_lease_expires_at := Some lease_expires_at\<rparr>)) (\<lambda>reserved.
        if att_status current \<noteq> AUTHORIZED_UNCLAIMED
           \<or> att_dispatch_owner_epoch current \<noteq> own_epoch authority
        then conflict ''executor attempt cannot be reserved''
        else Inr (reserved, put_attempt key reserved db)))))"

definition revocation_allowed ::
    "ExecutorAttemptRecord \<Rightarrow> OwnerAuthority \<Rightarrow> datetime \<Rightarrow> unit res" where
  "revocation_allowed current authority now =
     (let refused = conflict ''reservation is not both expired and owner-fenced'' in
      if att_status current \<noteq> RESERVED then refused
      else case att_reservation_lease_expires_at current of
        None \<Rightarrow> refused
      | Some lease \<Rightarrow>
          bind_res (datetime_le lease now) (\<lambda>expired.
          if \<not> expired \<or> own_epoch authority \<le> att_dispatch_owner_epoch current
          then refused else Inr ()))"

definition transition_allowed ::
    "ExecutorAttemptRecord \<Rightarrow> OwnerAuthority \<Rightarrow> datetime \<Rightarrow> ExecutorAttemptStatus \<Rightarrow> unit res" where
  "transition_allowed current authority now target =
     (let expected = (if target = STARTED then RESERVED else STARTED);
          owner_allowed =
            (if target = STARTED then att_dispatch_owner_epoch current = own_epoch authority
             else att_dispatch_owner_epoch current \<le> own_epoch authority)
      in if att_status current \<noteq> expected \<or> \<not> owner_allowed
         then conflict ''executor attempt transition is not authorized''
         else if target = STARTED
         then (case att_reservation_lease_expires_at current of
                 None \<Rightarrow> Inr ()
               | Some lease \<Rightarrow>
                   bind_res (datetime_le lease now) (\<lambda>expired.
                   if expired then conflict ''executor reservation has expired'' else Inr ()))
         else Inr ())"

definition transition_executor_attempt ::
    "(string \<Rightarrow> datetime res) \<Rightarrow> datetime \<Rightarrow> OwnerAuthority \<Rightarrow> string \<Rightarrow> string \<Rightarrow> string \<Rightarrow> string
     \<Rightarrow> int \<Rightarrow> datetime \<Rightarrow> ExecutorAttemptStatus \<Rightarrow> string option \<Rightarrow> bool \<Rightarrow> local_db
     \<Rightarrow> (ExecutorAttemptRecord \<times> local_db) res" where
  "transition_executor_attempt fromisoformat utc_now authority effect_id attempt_id
       authorization_transition_id executor_id claim_generation now target_status evidence_ref
       require_fenced_expired_reservation db =
     (let key = (own_session_id authority, effect_id, attempt_id, authorization_transition_id) in
      bind_res (assert_authority fromisoformat utc_now db authority) (\<lambda>_.
      bind_res (existing_attempt fromisoformat db key) (\<lambda>current.
      if att_status current = target_status
      then
        (if att_executor_id current = Some executor_id
            \<and> att_claim_generation current = claim_generation
            \<and> att_quiescence_evidence_ref current = evidence_ref
         then Inr (current, db)
         else conflict ''executor transition replay changed content'')
      else if att_executor_id current \<noteq> Some executor_id
              \<or> att_claim_generation current \<noteq> claim_generation
      then conflict ''executor claim identity mismatch''
      else
        bind_res
          (if require_fenced_expired_reservation then revocation_allowed current authority now
           else transition_allowed current authority now target_status) (\<lambda>_.
        bind_res (ExecutorAttemptRecord_init
          (current\<lparr>att_status := target_status, att_quiescence_evidence_ref := evidence_ref\<rparr>))
          (\<lambda>updated. Inr (updated, put_attempt key updated db))))))"

definition mark_executor_attempt_started ::
    "(string \<Rightarrow> datetime res) \<Rightarrow> datetime \<Rightarrow> OwnerAuthority \<Rightarrow> string \<Rightarrow> string \<Rightarrow> string \<Rightarrow> string
     \<Rightarrow> int \<Rightarrow> datetime \<Rightarrow> local_db \<Rightarrow> (ExecutorAttemptRecord \<times> local_db) res" where
  "mark_executor_attempt_started fromisoformat utc_now authority effect_id attempt_id
       authorization_transition_id executor_id claim_generation now db =
     transition_executor_attempt fromisoformat utc_now authority effect_id attempt_id
       authorization_transition_id executor_id claim_generation now STARTED None False db"

definition mark_executor_attempt_quiescent ::
    "(string \<Rightarrow> datetime res) \<Rightarrow> datetime \<Rightarrow> OwnerAuthority \<Rightarrow> string \<Rightarrow> string \<Rightarrow> string \<Rightarrow> string
     \<Rightarrow> int \<Rightarrow> datetime \<Rightarrow> string \<Rightarrow> local_db \<Rightarrow> (ExecutorAttemptRecord \<times> local_db) res" where
  "mark_executor_attempt_quiescent fromisoformat utc_now authority effect_id attempt_id
       authorization_transition_id executor_id claim_generation now evidence_ref db =
     transition_executor_attempt fromisoformat utc_now authority effect_id attempt_id
       authorization_transition_id executor_id claim_generation now QUIESCENT
       (Some evidence_ref) False db"

definition revoke_expired_executor_reservation ::
    "(string \<Rightarrow> datetime res) \<Rightarrow> datetime \<Rightarrow> OwnerAuthority \<Rightarrow> string \<Rightarrow> string \<Rightarrow> string \<Rightarrow> string
     \<Rightarrow> int \<Rightarrow> datetime \<Rightarrow> string \<Rightarrow> local_db \<Rightarrow> (ExecutorAttemptRecord \<times> local_db) res" where
  "revoke_expired_executor_reservation fromisoformat utc_now authority effect_id attempt_id
       authorization_transition_id executor_id claim_generation now evidence_ref db =
     transition_executor_attempt fromisoformat utc_now authority effect_id attempt_id
       authorization_transition_id executor_id claim_generation now QUIESCENT
       (Some evidence_ref) True db"

definition quiesce_claimed_executor_attempt ::
    "(string \<Rightarrow> datetime res) \<Rightarrow> datetime \<Rightarrow> OwnerAuthority \<Rightarrow> string \<Rightarrow> string \<Rightarrow> string \<Rightarrow> string
     \<Rightarrow> datetime \<Rightarrow> string \<Rightarrow> local_db \<Rightarrow> (ExecutorAttemptRecord \<times> local_db) res" where
  "quiesce_claimed_executor_attempt fromisoformat utc_now authority effect_id attempt_id
       authorization_transition_id executor_id now evidence_ref db =
     (let key = (own_session_id authority, effect_id, attempt_id, authorization_transition_id) in
      bind_res (assert_authority fromisoformat utc_now db authority) (\<lambda>_.
      bind_res (existing_attempt fromisoformat db key) (\<lambda>current.
      if att_status current = QUIESCENT
      then
        (if att_executor_id current = Some executor_id
            \<and> att_quiescence_evidence_ref current = Some evidence_ref
         then Inr (current, db)
         else conflict ''executor quiescence replay changed content'')
      else if own_epoch authority < att_dispatch_owner_epoch current
      then conflict ''executor attempt belongs to a newer owner''
      else if att_status current \<noteq> AUTHORIZED_UNCLAIMED
              \<and> att_executor_id current \<noteq> Some executor_id
      then conflict ''executor claim identity mismatch''
      else
        bind_res (ExecutorAttemptRecord_init
          (current\<lparr>att_status := QUIESCENT, att_executor_id := Some executor_id,
             att_claim_generation := max 1 (att_claim_generation current),
             att_reservation_lease_expires_at :=
               (case att_reservation_lease_expires_at current of
                  None \<Rightarrow> Some now | Some t \<Rightarrow> Some t),
             att_quiescence_evidence_ref := Some evidence_ref\<rparr>)) (\<lambda>updated.
        Inr (updated, put_attempt key updated db)))))"

section \<open>Reconciliation evidence\<close>

definition reconciliation_outcome_of :: "string \<Rightarrow> ReconciliationOutcome res" where
  "reconciliation_outcome_of s =
     (if s = ''completed'' then Inr RO_COMPLETED
      else if s = ''failed'' then Inr RO_FAILED
      else Inl (ValueError ([quote_char] @ s @ [quote_char]
             @ '' is not a valid ReconciliationOutcome'')))"

definition reconciliation_evidence_from_payload ::
    "dict \<Rightarrow> EffectReconciliationEvidence res" where
  "reconciliation_evidence_from_payload payload =
     (let str = row_required_str payload; opt = row_optional_str payload
      in bind_res (str ''evidence_ref'') (\<lambda>ref.
         bind_res (str ''session_id'') (\<lambda>sid.
         bind_res (str ''effect_id'') (\<lambda>eid.
         bind_res (str ''attempt_id'') (\<lambda>aid.
         bind_res (str ''authorization_transition_id'') (\<lambda>auth.
         bind_res (row_required_int payload ''reconciliation_owner_epoch'') (\<lambda>epoch.
         bind_res (str ''outcome'') (\<lambda>raw_outcome.
         bind_res (opt ''reason_code'') (\<lambda>code.
         bind_res (opt ''reason_message'') (\<lambda>msg.
         bind_res (checks [positive_integer ''reconciliation_owner_epoch'' epoch] ()) (\<lambda>_.
         bind_res (reconciliation_outcome_of raw_outcome) (\<lambda>out.
         EffectReconciliationEvidence_init
           \<lparr>evi_evidence_ref = ref, evi_session_id = sid, evi_effect_id = eid,
            evi_attempt_id = aid, evi_authorization_transition_id = auth,
            evi_reconciliation_owner_epoch = epoch, evi_outcome = out,
            evi_result = dict_get payload ''result'', evi_reason_code = code,
            evi_reason_message = msg\<rparr>))))))))))))"

definition evidence_row :: "EffectReconciliationEvidence \<Rightarrow> EvidenceRow" where
  "evidence_row v =
     \<lparr>vr_session_id = evi_session_id v, vr_evidence_ref = evi_evidence_ref v,
      vr_effect_id = evi_effect_id v, vr_attempt_id = evi_attempt_id v,
      vr_authorization_transition_id = evi_authorization_transition_id v,
      vr_reconciliation_owner_epoch = evi_reconciliation_owner_epoch v,
      vr_payload = evidence_payload v\<rparr>"

definition find_evidence :: "local_db \<Rightarrow> string \<Rightarrow> string \<Rightarrow> EvidenceRow option" where
  "find_evidence db session_id ref =
     find (\<lambda>r. vr_session_id r = session_id \<and> vr_evidence_ref r = ref) (db_evidence db)"

definition record_effect_reconciliation_evidence ::
    "(string \<Rightarrow> datetime res) \<Rightarrow> datetime \<Rightarrow> OwnerAuthority \<Rightarrow> EffectReconciliationEvidence \<Rightarrow> local_db
     \<Rightarrow> (EffectReconciliationEvidence \<times> local_db) res" where
  "record_effect_reconciliation_evidence fromisoformat utc_now authority v db =
     (if evi_session_id v \<noteq> own_session_id authority
      then Inl (SessionOwnershipConflictError
             ''reconciliation evidence belongs to another session'' ''stale_owner'')
      else if evi_reconciliation_owner_epoch v \<noteq> own_epoch authority
      then Inl (SessionOwnershipConflictError
             ''reconciliation evidence owner epoch does not match authority'' ''stale_owner'')
      else
        bind_res (assert_authority fromisoformat utc_now db authority) (\<lambda>_.
        case find_evidence db (own_session_id authority) (evi_evidence_ref v) of
          Some row \<Rightarrow>
            (if \<not> py_eq (PDict (vr_payload row)) (PDict (evidence_payload v))
             then Inl (RecoveryEvidenceConflictError
                    ''reconciliation evidence identity changed content'')
             else Inr (v, db))
        | None \<Rightarrow>
            (if list_ex (\<lambda>r. vr_session_id r = own_session_id authority
                  \<and> vr_effect_id r = evi_effect_id v \<and> vr_attempt_id r = evi_attempt_id v
                  \<and> vr_authorization_transition_id r = evi_authorization_transition_id v)
                (db_evidence db)
             then Inl (RecoveryEvidenceConflictError
                    ''reconciliation identity already has different evidence'')
             else Inr (v, db\<lparr>db_evidence := db_evidence db @ [evidence_row v]\<rparr>))))"

definition load_effect_reconciliation_evidence ::
    "local_db \<Rightarrow> string \<Rightarrow> string \<Rightarrow> EffectReconciliationEvidence option res" where
  "load_effect_reconciliation_evidence db session_id evidence_ref =
     optional_res (\<lambda>r. reconciliation_evidence_from_payload (vr_payload r))
       (find_evidence db session_id evidence_ref)"

section \<open>Child bindings\<close>

definition load_child_execution_binding ::
    "local_db \<Rightarrow> string \<Rightarrow> string option \<Rightarrow> string option \<Rightarrow> ChildExecutionBinding option res" where
  "load_child_execution_binding db session_id parent_effect_id child_run_id =
     (case (parent_effect_id, child_run_id) of
        (Some e, None) \<Rightarrow>
          optional_res (\<lambda>r. child_execution_binding_from_payload (br_payload r))
            (find (\<lambda>r. br_session_id r = session_id \<and> br_parent_effect_id r = e) (db_bindings db))
      | (None, Some c) \<Rightarrow>
          optional_res (\<lambda>r. child_execution_binding_from_payload (br_payload r))
            (find (\<lambda>r. br_session_id r = session_id \<and> br_child_run_id r = c) (db_bindings db))
      | _ \<Rightarrow> Inl (ValueError ''exactly one child binding identity must be provided''))"

end
