(* ===== verification/Local_Commit.thy ===== *)
theory Local_Commit
  imports Local_Store
begin

text \<open>
  \<open>LocalUnitOfWorkMixin._commit_transition\<close> of \<open>coding_agent/stores/local_durable/uow.py\<close>: the one
  transaction that commits a typed transition - replay of a stored receipt, recovery and closeout
  guards, child bindings, the mailbox cut, reconciliation preconditions, the compare-and-swap of
  the operation state, the effect ledger, and the writes - with
  \<open>_assert_reconciliation_preconditions\<close>.
\<close>

section \<open>Replay of a stored receipt\<close>

definition replay_commit ::
    "(string \<Rightarrow> datetime res) \<Rightarrow> FactSource \<Rightarrow> string \<Rightarrow> int \<Rightarrow> string \<Rightarrow> string \<times> dict
     \<Rightarrow> AuthoritativeCommit res" where
  "replay_commit fromisoformat fs session_id projection_epoch transition_id stored =
     bind_res (transition_commit_from_payload fromisoformat session_id transition_id
         projection_epoch (fst stored) (snd stored)) (\<lambda>(sv, facts, receipt, raw_cursor).
     bind_res (format_u64 (fs_projection_epoch fs)) (\<lambda>epoch.
     AuthoritativeCommit_init
       \<lparr>auth_event = None, auth_projection = fs_projection fs, auth_projection_epoch = epoch,
        auth_raw_cursor = raw_cursor, auth_idempotent = True, auth_state_version = Some sv,
        auth_facts = facts, auth_transition_receipt = Some receipt\<rparr>))"

definition fingerprint_mismatch :: "'a res" where
  "fingerprint_mismatch =
     Inl (TransitionFingerprintMismatchError ''transition mutation fingerprint mismatch'')"

text \<open>The commit a retry is answered with, if a receipt of it (or an adoptable one) exists.\<close>

definition replayed_commit ::
    "(string \<Rightarrow> datetime res) \<Rightarrow> FactSource \<Rightarrow> OwnerAuthority \<Rightarrow> AuthoritativeUnitOfWork \<Rightarrow> string
     \<Rightarrow> OperationStateCAS \<Rightarrow> string \<Rightarrow> local_db \<Rightarrow> AuthoritativeCommit option res" where
  "replayed_commit fromisoformat fs authority u transition_id c fingerprint db =
     (let sid = own_session_id authority;
          row = (\<lambda>t. db_receipts db (sid, cas_projection_epoch c, t));
          replay = (\<lambda>t stored. map_res Some
            (replay_commit fromisoformat fs sid (cas_projection_epoch c) t stored))
      in if unit_adopt_transition_ids u \<noteq> []
         then
           let status = (case normalized_effect_mutations u of
                  [] \<Rightarrow> None
                | m # _ \<Rightarrow> map_option fx_status (db_effects db (sid, mut_effect_id m)))
           in bind_res
                (adopt_parent_settlement_receipt transition_id (row transition_id)
                   (map (\<lambda>t. (t, row t)) (unit_adopt_transition_ids u)) status) (\<lambda>adopted.
              case adopted of
                None \<Rightarrow> Inr None
              | Some (t, stored) \<Rightarrow>
                  (if t = transition_id \<and> fst stored \<noteq> fingerprint
                   then fingerprint_mismatch else replay t stored))
         else
           case row transition_id of
             None \<Rightarrow> Inr None
           | Some stored \<Rightarrow>
               (if fst stored \<noteq> fingerprint then fingerprint_mismatch
                else replay transition_id stored))"

section \<open>Guards\<close>

definition find_child_binding :: "local_db \<Rightarrow> string \<Rightarrow> string \<Rightarrow> BindingRow option" where
  "find_child_binding db session_id child_run_id =
     find (\<lambda>r. br_session_id r = session_id \<and> br_child_run_id r = child_run_id) (db_bindings db)"

definition lease_matches_guard ::
    "RecoveredChildExecutionLease \<Rightarrow> RecoveryTransitionGuard \<Rightarrow> OwnerAuthority \<Rightarrow> bool" where
  "lease_matches_guard l g authority \<longleftrightarrow>
     lease_lease_id l = guard_lease_id g \<and> lease_resume_generation l = guard_resume_generation g
     \<and> lease_resume_cut l = guard_expected_recovery_cut g
     \<and> lease_owner_epoch l = own_epoch authority"

definition assert_recovery_guard ::
    "OwnerAuthority \<Rightarrow> AuthoritativeUnitOfWork \<Rightarrow> FactSource \<Rightarrow> local_db \<Rightarrow> unit res" where
  "assert_recovery_guard authority u fs db =
     (case unit_recovery_guard u of
        None \<Rightarrow> Inr ()
      | Some g \<Rightarrow>
          (case find_child_binding db (own_session_id authority) (guard_child_run_id g) of
             None \<Rightarrow> Inl (StaleRecoveryGuardError ''recovery guard child binding does not exist'')
           | Some row \<Rightarrow>
               bind_res (child_execution_binding_from_payload (br_payload row)) (\<lambda>b.
               bind_res (assert_recovery_guard_shape u b) (\<lambda>_.
               let stale = Inl (StaleRecoveryGuardError
                     ''recovery guard no longer owns the exact fact cut'')
               in case child_active_lease b of
                    None \<Rightarrow> stale
                  | Some l \<Rightarrow>
                      (if \<not> lease_matches_guard l g authority then stale
                       else
                         bind_res (parse_u64 ''expected_recovery_cut''
                           (guard_expected_recovery_cut g)) (\<lambda>n.
                         if fs_dispatch_generation fs \<noteq> int n then stale else Inr ()))))))"

definition closeout_attempt ::
    "(string \<Rightarrow> datetime res) \<Rightarrow> OwnerAuthority \<Rightarrow> AuthoritativeUnitOfWork \<Rightarrow> local_db
     \<Rightarrow> ExecutorAttemptRecord option res" where
  "closeout_attempt fromisoformat authority u db =
     (case unit_unstarted_dispatch_closeout u of
        None \<Rightarrow> Inr None
      | Some g \<Rightarrow>
          bind_res (stored_attempt fromisoformat db
            (own_session_id authority, close_effect_id g, close_attempt_id g,
             close_authorization_transition_id g)) (\<lambda>found.
          case found of
            None \<Rightarrow> conflict ''unstarted closeout executor attempt does not exist''
          | Some a \<Rightarrow>
              (if att_status a \<noteq> AUTHORIZED_UNCLAIMED
                  \<or> own_epoch authority < att_dispatch_owner_epoch a
               then conflict ''unstarted closeout requires authorized_unclaimed attempt''
               else map_res Some (ExecutorAttemptRecord_init
                 (a\<lparr>att_status := QUIESCENT, att_executor_id := Some (close_executor_id g),
                    att_claim_generation := 1,
                    att_reservation_lease_expires_at := Some (close_closed_at g),
                    att_quiescence_evidence_ref := Some (close_evidence_ref g)\<rparr>)))))"

text \<open>A child run's facts are stamped with its parent, for the session's shared log.\<close>

definition child_fact :: "ChildExecutionBinding option \<Rightarrow> EventRecord \<Rightarrow> EventRecord res" where
  "child_fact binding f =
     (case binding of
        None \<Rightarrow> Inr f
      | Some b \<Rightarrow>
          let approval = (fact_event_kind f = ''approval_requested'') in
          EventRecord_init (f\<lparr>fact_payload := dict_union (fact_payload f) (dict_of
            ([(''run_id'', PStr (if approval then child_parent_run_id b else child_child_run_id b)),
              (''parent_run_id'', PStr (child_parent_run_id b)),
              (''parent_effect_id'', PStr (child_parent_effect_id b)),
              (''subagent_child'', PBool True),
              (''skip_parent_context'', PBool True)]
             @ (if approval
                then [(''target_run_id'', PStr (child_child_run_id b)),
                      (''target_parent_effect_id'', PStr (child_parent_effect_id b))]
                else [])))\<rparr>))"

definition projected_facts ::
    "string \<Rightarrow> string \<Rightarrow> EventRecord list \<Rightarrow> local_db \<Rightarrow> EventRecord list res" where
  "projected_facts session_id run_id facts db =
     bind_res
       (optional_res (\<lambda>r. child_execution_binding_from_payload (br_payload r))
          (find_child_binding db session_id run_id)) (\<lambda>binding.
     traverse_res (child_fact binding) facts)"

definition assert_new_binding ::
    "OwnerAuthority \<Rightarrow> local_db \<Rightarrow> ChildExecutionBinding \<Rightarrow> unit res" where
  "assert_new_binding authority db b =
     (if child_session_id b \<noteq> own_session_id authority
      then Inl (SessionOwnershipConflictError ''child binding belongs to another session''
             ''stale_owner'')
      else case find (\<lambda>r. br_session_id r = own_session_id authority
             \<and> (br_parent_effect_id r = child_parent_effect_id b
                \<or> br_child_run_id r = child_child_run_id b)) (db_bindings db) of
             None \<Rightarrow> Inr ()
           | Some row \<Rightarrow>
               bind_res (child_execution_binding_from_payload (br_payload row)) (\<lambda>stored.
               if stored \<noteq> b
               then Inl (ChildBindingConflictError ''child binding identity changed content'')
               else Inl (ChildBindingConflictError
                      ''child binding exists without a transition receipt'')))"

definition assert_mailbox_cut :: "AuthoritativeUnitOfWork \<Rightarrow> FactSource \<Rightarrow> unit res" where
  "assert_mailbox_cut u fs =
     (case unit_expected_mailbox_cut u of
        None \<Rightarrow> Inr ()
      | Some expected \<Rightarrow>
          bind_res (parse_u64 ''expected_mailbox_cut'' expected) (\<lambda>n.
          if fs_dispatch_generation fs \<noteq> int n
          then Inl (StaleMailboxCutError (int n) (fs_dispatch_generation fs)) else Inr ()))"

section \<open>Reconciliation preconditions\<close>

definition effect_conflict :: "string \<Rightarrow> 'a res" where
  "effect_conflict m = Inl (EffectMutationConflictError m)"

definition stale_state :: "string \<Rightarrow> 'a res" where
  "stale_state m = Inl (StateVersionConflictError m)"

definition expected_evidence ::
    "OwnerAuthority \<Rightarrow> AuthoritativeUnitOfWork \<Rightarrow> string \<Rightarrow> EffectMutation \<Rightarrow> ReconciliationRecord
     \<Rightarrow> dict res" where
  "expected_evidence authority u ref m r =
     map_res (\<lambda>v. dict_of
         [(''evidence_ref'', PStr ref),
          (''session_id'', PStr (own_session_id authority)),
          (''effect_id'', PStr (mut_effect_id m)),
          (''attempt_id'', PStr (mut_attempt_id m)),
          (''authorization_transition_id'', opt_str (unit_expected_authorization u)),
          (''reconciliation_owner_epoch'', PInt (own_epoch authority)),
          (''outcome'', PStr (reconciliation_outcome_value (rec_observed_outcome r))),
          (''result'', v),
          (''reason_code'', dict_get (mut_payload m) ''reason_code''),
          (''reason_message'', dict_get (mut_payload m) ''reason_message'')])
       (plain_json (dict_get (mut_payload m) ''result''))"

definition executor_settled ::
    "ExecutorAttemptRecord \<Rightarrow> int \<Rightarrow> OwnerAuthority \<Rightarrow> bool" where
  "executor_settled a dispatch_owner_epoch authority \<longleftrightarrow>
     att_status a = QUIESCENT \<or> dispatch_owner_epoch = own_epoch authority
     \<or> (att_status a = AUTHORIZED_UNCLAIMED \<and> dispatch_owner_epoch < own_epoch authority)"

text \<open>The state a reconciliation may commit is the one the evidence determines.\<close>

definition assert_reconciled_state ::
    "OwnerAuthority \<Rightarrow> AuthoritativeUnitOfWork \<Rightarrow> ReconciliationRecord \<Rightarrow> dict \<Rightarrow> int \<Rightarrow> local_db
     \<Rightarrow> unit res" where
  "assert_reconciled_state authority u r evidence dispatch_owner_epoch db =
     (case (unit_state_cas u, unit_state_value u) of
        (Some c, Some state_value) \<Rightarrow>
          (case db_states db (own_session_id authority, cas_run_id c) of
             None \<Rightarrow> stale_state ''reconciliation operation state does not exist''
           | Some row \<Rightarrow>
               bind_res (operation_state_from_row (cas_run_id c) row) (\<lambda>current.
               bind_res (osv_cas current) (\<lambda>current_cas.
               if current_cas \<noteq> c
               then stale_state ''operation state compare-and-swap conflict''
               else
                 bind_res (reconciliation_evidence_from_payload evidence) (\<lambda>v.
                 bind_res (state_value_with_reconciled_effect (osv_value current) v r)
                   (\<lambda>expected.
                 case as_dict (dict_get expected runtime_key) of
                   None \<Rightarrow> Inl (KeyError runtime_key)
                 | Some rt \<Rightarrow>
                     (case as_dict (dict_get rt ''unknown_effect'') of
                        None \<Rightarrow> Inl (KeyError ''unknown_effect'')
                      | Some unknown \<Rightarrow>
                          (if \<not> py_eq (dict_get unknown ''dispatch_owner_epoch'')
                                 (PInt dispatch_owner_epoch)
                           then effect_conflict
                             ''unknown effect dispatch owner does not match effect slot''
                           else
                             bind_res (plain_dict state_value) (\<lambda>plain_value.
                             if \<not> py_eq (PDict plain_value) (PDict expected)
                             then effect_conflict
                               ''reconciliation state does not match canonical evidence''
                             else Inr ()))))))))
      | _ \<Rightarrow> Inl (ValueError ''reconciliation transition is incomplete''))"

definition assert_reconciliation_executor ::
    "(string \<Rightarrow> datetime res) \<Rightarrow> OwnerAuthority \<Rightarrow> AuthoritativeUnitOfWork \<Rightarrow> EffectMutation
     \<Rightarrow> string \<Rightarrow> int \<Rightarrow> local_db \<Rightarrow> unit res" where
  "assert_reconciliation_executor fromisoformat authority u m auth dispatch_owner_epoch db =
     bind_res (existing_attempt fromisoformat db
       (own_session_id authority, mut_effect_id m, mut_attempt_id m, auth)) (\<lambda>a.
     if att_dispatch_owner_epoch a \<noteq> dispatch_owner_epoch
     then conflict ''executor attempt dispatch owner does not match effect''
     else if \<not> executor_settled a dispatch_owner_epoch authority
     then conflict ''executor attempt is not durably quiescent''
     else Inr ())"

definition assert_reconciliation_preconditions ::
    "(string \<Rightarrow> datetime res) \<Rightarrow> OwnerAuthority \<Rightarrow> AuthoritativeUnitOfWork \<Rightarrow> local_db \<Rightarrow> unit res" where
  "assert_reconciliation_preconditions fromisoformat authority u db =
     (case unit_reconciliation_evidence_ref u of
        None \<Rightarrow> Inr ()
      | Some ref \<Rightarrow>
          (case find (\<lambda>m. mut_reconciliation m \<noteq> None) (normalized_effect_mutations u) of
             None \<Rightarrow> effect_conflict ''reconciliation mutation is missing''
           | Some m \<Rightarrow>
               (case (db_effects db (own_session_id authority, mut_effect_id m),
                      mut_reconciliation m) of
                  (Some fx, Some r) \<Rightarrow>
                    (if fx_status fx \<noteq> ''unknown''
                     then effect_conflict ''reconciliation requires a durable UNKNOWN effect''
                     else if dict_get (fx_payload fx) ''attempt_id'' \<noteq> PStr (mut_attempt_id m)
                             \<or> dict_get (fx_payload fx) ''authorization_transition_id''
                                 \<noteq> opt_str (unit_expected_authorization u)
                     then effect_conflict ''reconciliation retained authorization does not match''
                     else case as_plain_int (dict_get (fx_payload fx) ''dispatch_owner_epoch'') of
                            None \<Rightarrow> effect_conflict ''effect dispatch owner epoch is missing''
                          | Some epoch \<Rightarrow>
                              (if epoch \<le> 0
                               then effect_conflict ''effect dispatch owner epoch is missing''
                               else case find_evidence db (own_session_id authority) ref of
                                      None \<Rightarrow> effect_conflict
                                        ''reconciliation evidence does not exist''
                                    | Some row \<Rightarrow>
                                        bind_res (expected_evidence authority u ref m r) (\<lambda>expected.
                                        if \<not> py_eq (PDict (vr_payload row)) (PDict expected)
                                        then effect_conflict
                                          ''reconciliation evidence does not match terminal payload''
                                        else
                                          bind_res (assert_reconciliation_executor fromisoformat
                                            authority u m
                                            (case unit_expected_authorization u of
                                               None \<Rightarrow> [] | Some s \<Rightarrow> s) epoch db) (\<lambda>_.
                                          assert_reconciled_state authority u r (vr_payload row)
                                            epoch db))))
                | _ \<Rightarrow> effect_conflict ''reconciliation requires a durable UNKNOWN effect'')))"

section \<open>Compare and swap\<close>

definition assert_state_cas ::
    "OwnerAuthority \<Rightarrow> OperationStateCAS \<Rightarrow> local_db \<Rightarrow> unit res" where
  "assert_state_cas authority c db =
     (case db_states db (own_session_id authority, cas_run_id c) of
        None \<Rightarrow>
          (if cas_revision c \<noteq> 0 then stale_state ''operation state revision is stale''
           else Inr ())
      | Some row \<Rightarrow>
          bind_res (operation_state_from_row (cas_run_id c) row) (\<lambda>current.
          bind_res (osv_cas current) (\<lambda>current_cas.
          if current_cas \<noteq> c then stale_state ''operation state compare-and-swap conflict''
          else Inr ())))"

section \<open>Mailbox and ledger rows\<close>

definition disposition_row ::
    "string \<Rightarrow> local_db \<Rightarrow> CommandDisposition \<Rightarrow> (string \<times> MailboxRow) res" where
  "disposition_row session_id db d =
     bind_res (mailbox_slot_from_disposition d) (\<lambda>slot.
     case db_mailbox db (session_id, slot_slot_id slot) of
       None \<Rightarrow> Inl (CommandDispositionConflictError
                 ''command disposition requires an admitted mailbox row'')
     | Some row \<Rightarrow>
         (if mr_disposition row \<notin> {''pending'', ''admitted''}
          then Inl (CommandDispositionConflictError ''command mailbox row is already terminal'')
          else
            map_res (\<lambda>merged. (slot_slot_id merged, row\<lparr>mr_lane := slot_lane merged,
                mr_disposition := slot_disposition merged, mr_payload := slot_payload merged\<rparr>))
              (MailboxDispositionSlot_init
                 (slot\<lparr>slot_lane := mr_lane row,
                    slot_payload := dict_union (mr_payload row) (slot_payload slot)\<rparr>))))"

definition dispatched_mutation :: "EffectMutation list \<Rightarrow> EffectMutation option" where
  "dispatched_mutation ms =
     find (\<lambda>m. mut_expected_status m = Some PREPARED \<and> mut_status m = DISPATCHED) ms"

definition effect_row ::
    "OwnerAuthority \<Rightarrow> string \<Rightarrow> EffectMutation option \<Rightarrow> local_db \<Rightarrow> EffectMutation
     \<Rightarrow> (string \<times> EffectRow) res" where
  "effect_row authority transition_id dispatched db m =
     bind_res (effect_slot_from_mutation m) (\<lambda>slot.
     bind_res
       (case (mut_expected_status m, db_effects db (own_session_id authority, mut_effect_id m)) of
          (None, Some _) \<Rightarrow> effect_conflict ''effect already exists''
        | (None, None) \<Rightarrow> Inr slot
        | (Some _, None) \<Rightarrow> effect_conflict ''effect does not exist''
        | (Some s, Some fx) \<Rightarrow>
            (if fx_status fx \<noteq> effect_status_value s
             then effect_conflict ''effect status precondition failed''
             else if dict_get (fx_payload fx) ''attempt_id'' \<noteq> PStr (mut_attempt_id m)
             then effect_conflict ''effect attempt precondition failed''
             else EffectLedgerSlot_init
               (slot\<lparr>ledger_payload := dict_union (fx_payload fx) (ledger_payload slot)\<rparr>)))
       (\<lambda>slot.
     map_res (\<lambda>s. (ledger_effect_id s,
         \<lparr>fx_status = ledger_status s, fx_payload = ledger_payload s\<rparr>))
       (if dispatched = Some m
        then EffectLedgerSlot_init
          (slot\<lparr>ledger_payload := dict_union (ledger_payload slot) (dict_of
             [(''authorization_transition_id'', PStr transition_id),
              (''dispatch_owner_epoch'', PInt (own_epoch authority))])\<rparr>)
        else Inr slot)))"

definition dispatched_attempt ::
    "OwnerAuthority \<Rightarrow> AuthoritativeUnitOfWork \<Rightarrow> string \<Rightarrow> FactSource \<Rightarrow> EffectMutation option
     \<Rightarrow> local_db \<Rightarrow> ExecutorAttemptRecord option res" where
  "dispatched_attempt authority u transition_id fs dispatched db =
     (case dispatched of
        None \<Rightarrow> Inr None
      | Some m \<Rightarrow>
          bind_res (format_u64 (fs_session_seq fs)) (\<lambda>seq.
          bind_res (ExecutorAttemptRecord_init
            \<lparr>att_session_id = own_session_id authority, att_effect_id = mut_effect_id m,
             att_attempt_id = mut_attempt_id m, att_authorization_transition_id = transition_id,
             att_dispatch_owner_epoch = own_epoch authority, att_status = AUTHORIZED_UNCLAIMED,
             att_executor_id = None, att_claim_generation = 0,
             att_reservation_lease_expires_at = None, att_quiescence_evidence_ref = None,
             att_authorization_mailbox_cut =
               (case unit_expected_mailbox_cut u of
                  None \<Rightarrow> ''0'' | Some s \<Rightarrow> if s = [] then ''0'' else s),
             att_authorization_mailbox_session_seq = seq\<rparr>) (\<lambda>a.
          if db_attempts db (attempt_key a) \<noteq> None
          then conflict ''dispatch executor attempt already exists without a receipt''
          else Inr (Some a))))"

section \<open>Stamping\<close>

definition stamped_fact :: "FactSource \<Rightarrow> nat \<Rightarrow> EventRecord \<Rightarrow> EventRecord res" where
  "stamped_fact fs offset f =
     bind_res (format_u64 (fs_session_seq fs + int offset + 1)) (\<lambda>seq.
     bind_res (format_u64 (fs_projection_epoch fs)) (\<lambda>epoch.
     EventRecord_init
       (f\<lparr>fact_session_seq := Some seq, fact_projection_epoch := Some epoch\<rparr>)))"

definition stamped_facts :: "FactSource \<Rightarrow> EventRecord list \<Rightarrow> EventRecord list res" where
  "stamped_facts fs facts =
     traverse_res (\<lambda>(n, f). stamped_fact fs n f) (zip [0..<length facts] facts)"

definition committed_notice :: "int \<Rightarrow> EventRecord \<Rightarrow> CommittedFactNotice res" where
  "committed_notice projection_epoch f =
     CommittedFactNotice_init
       \<lparr>notice_fact_id = fact_event_id f, notice_fact_kind = fact_event_kind f,
        notice_payload = fact_payload f, notice_session_seq = fact_session_seq f,
        notice_projection_epoch = Some projection_epoch, notice_event_record_id = None\<rparr>"


definition commit_range :: "FactSource \<Rightarrow> EventRecord list \<Rightarrow> (int \<times> int) option" where
  "commit_range fs facts =
     (if facts = [] then None
      else Some (fs_session_seq fs + 1, fs_session_seq fs + int (length facts)))"

definition commit_ref_for :: "string \<Rightarrow> (int \<times> int) option \<Rightarrow> CommitRef res" where
  "commit_ref_for transition_id seqs =
     bind_res (optional_res (\<lambda>(begin_seq, _). format_u64 begin_seq) seqs) (\<lambda>seq_start.
     bind_res (optional_res (\<lambda>(_, final). format_u64 final) seqs) (\<lambda>seq_end.
     CommitRef_init
       \<lparr>cr_transition_id = transition_id, cr_fact_seq_start = seq_start,
        cr_fact_seq_end = seq_end\<rparr>))"

section \<open>The writes\<close>

definition integrity_error :: "string \<Rightarrow> 'a res" where
  "integrity_error columns =
     Inl (OtherError ''IntegrityError'' (''UNIQUE constraint failed: '' @ columns))"

definition insert_event :: "EventRow \<Rightarrow> local_db \<Rightarrow> local_db res" where
  "insert_event row db =
     (if list_ex (\<lambda>r. er_event_id r = er_event_id row) (db_events db)
      then integrity_error ''session_event_records.event_id''
      else if list_ex (\<lambda>r. er_session_id r = er_session_id row
                \<and> er_session_seq r = er_session_seq row) (db_events db)
      then integrity_error
        ''session_event_records.session_id, session_event_records.session_seq''
      else Inr (db\<lparr>db_events := db_events db @ [row]\<rparr>))"

definition event_row :: "string \<Rightarrow> int \<Rightarrow> EventRecord \<Rightarrow> EventRow res" where
  "event_row session_id projection_epoch f =
     map_res (\<lambda>n. \<lparr>er_session_id = session_id, er_session_seq = int n,
         er_event_id = fact_event_id f, er_event_kind = fact_event_kind f,
         er_payload = fact_payload f, er_created_at = isoformat (fact_created_at f),
         er_projection_epoch = projection_epoch\<rparr>)
       (parse_u64 ''session_seq'' (case fact_session_seq f of None \<Rightarrow> [] | Some s \<Rightarrow> s))"

definition insert_binding ::
    "string \<Rightarrow> ChildExecutionBinding \<Rightarrow> local_db \<Rightarrow> local_db res" where
  "insert_binding session_id b db =
     (if list_ex (\<lambda>r. br_session_id r = session_id
           \<and> (br_parent_effect_id r = child_parent_effect_id b
              \<or> br_child_run_id r = child_child_run_id b)) (db_bindings db)
      then integrity_error ''session_child_bindings''
      else
        map_res (\<lambda>p. db\<lparr>db_bindings := db_bindings db @
            [\<lparr>br_session_id = session_id, br_parent_effect_id = child_parent_effect_id b,
              br_child_run_id = child_child_run_id b,
              br_payload = (case as_dict p of None \<Rightarrow> [] | Some d \<Rightarrow> d)\<rparr>]\<rparr>)
          (child_execution_binding_payload b))"

fun fold_res :: "('a \<Rightarrow> 's \<Rightarrow> 's res) \<Rightarrow> 'a list \<Rightarrow> 's \<Rightarrow> 's res" where
  "fold_res f [] s = Inr s"
| "fold_res f (x # xs) s = bind_res (f x s) (fold_res f xs)"

definition write_state ::
    "string \<Rightarrow> OperationStateVersion \<Rightarrow> (int \<times> int) option \<Rightarrow> dict \<Rightarrow> local_db \<Rightarrow> local_db" where
  "write_state session_id sv seqs plain_value db =
     db\<lparr>db_states := (db_states db)((session_id, osv_run_id sv) \<mapsto>
       \<lparr>sr_revision = osv_revision sv, sr_projection_epoch = osv_projection_epoch sv,
        sr_transition_id = cr_transition_id (osv_commit_ref sv),
        sr_fact_seq_start = map_option fst seqs, sr_fact_seq_end = map_option snd seqs,
        sr_value = plain_value\<rparr>)\<rparr>"

definition write_mailbox :: "string \<Rightarrow> string \<times> MailboxRow \<Rightarrow> local_db \<Rightarrow> local_db" where
  "write_mailbox session_id p db =
     db\<lparr>db_mailbox := (db_mailbox db)((session_id, fst p) \<mapsto> snd p)\<rparr>"

definition write_effect :: "string \<Rightarrow> string \<times> EffectRow \<Rightarrow> local_db \<Rightarrow> local_db" where
  "write_effect session_id p db =
     db\<lparr>db_effects := (db_effects db)((session_id, fst p) \<mapsto> snd p)\<rparr>"

definition write_source_seq :: "string \<Rightarrow> (int \<times> int) option \<Rightarrow> local_db \<Rightarrow> local_db" where
  "write_source_seq session_id seqs db =
     (case seqs of
        None \<Rightarrow> db
      | Some (_, final) \<Rightarrow>
          db\<lparr>db_fact_source := (db_fact_source db)(session_id :=
            map_option (\<lambda>r. r\<lparr>fr_session_seq := final\<rparr>) (db_fact_source db session_id))\<rparr>)"

text \<open>What a transition has been found to write, before it writes it.\<close>

record prepared_commit =
  pc_state :: OperationStateVersion
  pc_facts :: "EventRecord list"
  pc_cursor :: RawCursor
  pc_receipt :: TransitionReceipt
  pc_payload :: dict
  pc_plain_value :: dict
  pc_range :: "(int \<times> int) option"
  pc_mailbox :: "(string \<times> MailboxRow) list"
  pc_effects :: "(string \<times> EffectRow) list"
  pc_closeout :: "ExecutorAttemptRecord option"
  pc_attempt :: "ExecutorAttemptRecord option"

definition write_receipt :: "string \<Rightarrow> prepared_commit \<Rightarrow> local_db \<Rightarrow> local_db" where
  "write_receipt session_id pc db =
     db\<lparr>db_receipts := (db_receipts db)
       ((session_id, rcpt_projection_epoch (pc_receipt pc), rcpt_transition_id (pc_receipt pc))
          \<mapsto> (rcpt_mutation_fingerprint (pc_receipt pc), pc_payload pc))\<rparr>"

definition write_closeout :: "prepared_commit \<Rightarrow> local_db \<Rightarrow> local_db" where
  "write_closeout pc db =
     (case pc_closeout pc of None \<Rightarrow> db | Some a \<Rightarrow> put_attempt (attempt_key a) a db)"

definition write_attempt :: "prepared_commit \<Rightarrow> local_db \<Rightarrow> local_db" where
  "write_attempt pc db =
     (case pc_attempt pc of
        None \<Rightarrow> db
      | Some a \<Rightarrow> db\<lparr>db_attempts := (db_attempts db)(attempt_key a \<mapsto> attempt_row a)\<rparr>)"

text \<open>The rows that replace others: sequence, state, mailbox and ledger slots, the closeout.\<close>

definition write_slots :: "string \<Rightarrow> prepared_commit \<Rightarrow> local_db \<Rightarrow> local_db" where
  "write_slots session_id pc db =
     (let db = write_source_seq session_id (pc_range pc) db;
          db = write_state session_id (pc_state pc) (pc_range pc) (pc_plain_value pc) db;
          db = fold (write_mailbox session_id) (pc_mailbox pc) db;
          db = fold (write_effect session_id) (pc_effects pc) db
      in write_closeout pc db)"

definition write_commit ::
    "OwnerAuthority \<Rightarrow> AuthoritativeUnitOfWork \<Rightarrow> FactSource \<Rightarrow> prepared_commit \<Rightarrow> local_db
     \<Rightarrow> local_db res" where
  "write_commit authority u fs pc db =
     (let sid = own_session_id authority in
      bind_res (traverse_res (event_row sid (fs_projection_epoch fs)) (pc_facts pc)) (\<lambda>rows.
      bind_res (fold_res insert_event rows (write_receipt sid pc db)) (\<lambda>db.
      bind_res (fold_res (insert_binding sid) (unit_child_bindings u) (write_slots sid pc db))
        (\<lambda>db. Inr (write_attempt pc db)))))"

section \<open>The transaction\<close>

definition prepare_commit ::
    "(string \<Rightarrow> datetime res) \<Rightarrow> OwnerAuthority \<Rightarrow> AuthoritativeUnitOfWork \<Rightarrow> string
     \<Rightarrow> OperationStateCAS \<Rightarrow> dict \<Rightarrow> string \<Rightarrow> FactSource \<Rightarrow> local_db \<Rightarrow> prepared_commit res" where
  "prepare_commit fromisoformat authority u transition_id c state_value fingerprint fs db =
     (let sid = own_session_id authority;
          mutations = normalized_effect_mutations u;
          dispatched = dispatched_mutation mutations
      in bind_res (assert_recovery_guard authority u fs db) (\<lambda>_.
         bind_res (closeout_attempt fromisoformat authority u db) (\<lambda>closeout.
         bind_res (projected_facts sid (cas_run_id c) (unit_facts u) db) (\<lambda>facts.
         bind_res (traverse_res (assert_new_binding authority db) (unit_child_bindings u)) (\<lambda>_.
         bind_res (assert_mailbox_cut u fs) (\<lambda>_.
         bind_res (assert_reconciliation_preconditions fromisoformat authority u db) (\<lambda>_.
         bind_res (assert_state_cas authority c db) (\<lambda>_.
         bind_res (traverse_res (disposition_row sid db) (unit_dispositions u)) (\<lambda>mailbox.
         bind_res (traverse_res (effect_row authority transition_id dispatched db) mutations)
           (\<lambda>effects.
         bind_res (dispatched_attempt authority u transition_id fs dispatched db) (\<lambda>attempt.
         bind_res (stamped_facts fs facts) (\<lambda>committed.
         let seqs = commit_range fs facts in
         bind_res (format_u64 (case seqs of None \<Rightarrow> fs_session_seq fs | Some (_, final) \<Rightarrow> final))
           (\<lambda>cursor_seq.
         bind_res (RawCursor_init \<lparr>raw_session_id = sid, raw_session_seq = cursor_seq\<rparr>) (\<lambda>cursor.
         bind_res (commit_ref_for transition_id seqs) (\<lambda>ref.
         bind_res (OperationStateVersion_init
           \<lparr>osv_run_id = cas_run_id c, osv_revision = cas_revision c + 1,
            osv_projection_epoch = cas_projection_epoch c, osv_commit_ref = ref,
            osv_value = state_value\<rparr>) (\<lambda>sv.
         bind_res (traverse_res (committed_notice (cas_projection_epoch c)) committed) (\<lambda>notices.
         bind_res (TransitionReceipt_init
           \<lparr>rcpt_session_id = sid, rcpt_projection_epoch = cas_projection_epoch c,
            rcpt_transition_id = transition_id, rcpt_mutation_fingerprint = fingerprint,
            rcpt_state_version = sv, rcpt_facts = notices,
            rcpt_effect_plans = unit_effect_plans u\<rparr>) (\<lambda>receipt.
         bind_res (transition_commit_payload sv committed cursor (unit_effect_plans u)) (\<lambda>payload.
         bind_res (plain_dict (osv_value sv)) (\<lambda>plain_value.
         Inr \<lparr>pc_state = sv, pc_facts = committed, pc_cursor = cursor, pc_receipt = receipt,
              pc_payload = payload, pc_plain_value = plain_value, pc_range = seqs,
              pc_mailbox = mailbox, pc_effects = effects, pc_closeout = closeout,
              pc_attempt = attempt\<rparr>))))))))))))))))))))"

text \<open>
  A transaction ends in the answer to a retry, or in the writes; the commit result of the latter
  is built after the transaction has committed.
\<close>

datatype committed = Replayed AuthoritativeCommit | Written prepared_commit

definition commit_transaction ::
    "(string \<Rightarrow> datetime res) \<Rightarrow> datetime \<Rightarrow> OwnerAuthority \<Rightarrow> AuthoritativeUnitOfWork \<Rightarrow> string
     \<Rightarrow> OperationStateCAS \<Rightarrow> dict \<Rightarrow> string \<Rightarrow> local_db \<Rightarrow> (committed \<times> FactSource \<times> local_db) res" where
  "commit_transaction fromisoformat utc_now authority u transition_id c state_value fingerprint db =
     bind_res (assert_authority fromisoformat utc_now db authority) (\<lambda>_.
     bind_res (ensure_fact_source db (own_session_id authority)) (\<lambda>(fs, db).
     if cas_projection_epoch c \<noteq> fs_projection_epoch fs
     then stale_state ''operation state projection epoch is stale''
     else
       bind_res (replayed_commit fromisoformat fs authority u transition_id c fingerprint db)
         (\<lambda>replay.
       case replay of
         Some commit \<Rightarrow> Inr (Replayed commit, fs, db)
       | None \<Rightarrow>
           bind_res (prepare_commit fromisoformat authority u transition_id c state_value
               fingerprint fs db) (\<lambda>pc.
           map_res (\<lambda>db. (Written pc, fs, db)) (write_commit authority u fs pc db)))))"

definition written_commit :: "FactSource \<Rightarrow> prepared_commit \<Rightarrow> AuthoritativeCommit res" where
  "written_commit fs pc =
     bind_res (format_u64 (fs_projection_epoch fs)) (\<lambda>epoch.
     AuthoritativeCommit_init
       \<lparr>auth_event = None, auth_projection = fs_projection fs, auth_projection_epoch = epoch,
        auth_raw_cursor = pc_cursor pc, auth_idempotent = False,
        auth_state_version = Some (pc_state pc), auth_facts = pc_facts pc,
        auth_transition_receipt = Some (pc_receipt pc)\<rparr>)"

definition commit_prechecks ::
    "OwnerAuthority \<Rightarrow> AuthoritativeUnitOfWork \<Rightarrow> unit res" where
  "commit_prechecks authority u =
     checks
       [fails_when (list_ex (\<lambda>f. fact_session_id f \<noteq> own_session_id authority) (unit_facts u))
          (SessionOwnershipConflictError ''transition fact belongs to another session''
             ''stale_owner''),
        fails_when
          (list_ex (\<lambda>m. case mut_reconciliation m of
               None \<Rightarrow> False | Some r \<Rightarrow> rec_owner_epoch r \<noteq> own_epoch authority)
             (normalized_effect_mutations u))
          (SessionOwnershipConflictError
             ''reconciliation owner epoch does not match authority'' ''stale_owner'')] ()"

definition commit_transition ::
    "(rat \<Rightarrow> string) \<Rightarrow> (nat list \<Rightarrow> string) \<Rightarrow> (string \<Rightarrow> datetime res) \<Rightarrow> datetime
     \<Rightarrow> OwnerAuthority \<Rightarrow> AuthoritativeUnitOfWork \<Rightarrow> local_db
     \<Rightarrow> AuthoritativeCommit res \<times> local_db" where
  "commit_transition float_repr sha256_hex fromisoformat utc_now authority u db =
     (case (unit_state_cas u, unit_transition_id u, unit_state_value u) of
        (Some c, Some transition_id, Some state_value) \<Rightarrow>
          (case bind_res (commit_prechecks authority u) (\<lambda>_.
                bind_res (transition_mutation_fingerprint float_repr sha256_hex u) (\<lambda>fingerprint.
                commit_transaction fromisoformat utc_now authority u transition_id c state_value
                  fingerprint db)) of
             Inl e \<Rightarrow> (Inl e, db)
           | Inr (Replayed commit, _, db') \<Rightarrow> (Inr commit, db')
           | Inr (Written pc, fs, db') \<Rightarrow> (written_commit fs pc, db'))
      | _ \<Rightarrow> (Inl (ValueError ''typed transition is incomplete''), db))"

end
