(* ===== verification/Local_Laws.thy ===== *)
theory Local_Laws
  imports Local_Commit Store_Laws
begin

text \<open>What the local store's transactions change, table by table, and what they leave alone.\<close>

section \<open>Executor attempts as payloads\<close>

lemma ExecutorAttemptRecord_init_Inr:
  "ExecutorAttemptRecord_init a = Inr b \<Longrightarrow> b = a"
  by (simp add: ExecutorAttemptRecord_init_def checks_eq_Inr)

lemma attempt_init_parts:
  assumes "ExecutorAttemptRecord_init a = Inr a"
  shows "att_session_id a \<noteq> []" "att_effect_id a \<noteq> []" "att_attempt_id a \<noteq> []"
    "att_authorization_transition_id a \<noteq> []" "0 < att_dispatch_owner_epoch a"
    "is_u64 (att_authorization_mailbox_cut a)" "is_u64 (att_authorization_mailbox_session_seq a)"
    "att_status a = AUTHORIZED_UNCLAIMED \<Longrightarrow> att_executor_id a = None \<and> att_claim_generation a = 0
       \<and> att_reservation_lease_expires_at a = None \<and> att_quiescence_evidence_ref a = None"
    "att_status a \<noteq> AUTHORIZED_UNCLAIMED \<Longrightarrow> (\<exists>x. att_executor_id a = Some x \<and> x \<noteq> [])
       \<and> 0 < att_claim_generation a \<and> att_reservation_lease_expires_at a \<noteq> None"
    "att_status a = QUIESCENT \<Longrightarrow> \<exists>r. att_quiescence_evidence_ref a = Some r \<and> r \<noteq> []"
    "att_status a \<noteq> QUIESCENT \<Longrightarrow> att_quiescence_evidence_ref a = None"
  using assms
  by (auto simp: ExecutorAttemptRecord_init_def checks_eq_Inr attempt_claim_checks_def
      split: if_splits option.splits)

definition attempt_valid ::
    "(string \<Rightarrow> datetime res) \<Rightarrow> ExecutorAttemptRecord \<Rightarrow> bool" where
  "attempt_valid fromisoformat a \<longleftrightarrow> ExecutorAttemptRecord_init a = Inr a
     \<and> (\<forall>t. att_reservation_lease_expires_at a = Some t \<longrightarrow> fromisoformat (isoformat t) = Inr t)"

lemma attempt_status_of_value [simp]: "attempt_status_of (attempt_status_value s) = Inr s"
  by (cases s) (simp_all add: attempt_status_of_def)

lemma attempt_status_value_nonempty [simp]: "attempt_status_value s \<noteq> []"
  by (cases s) simp_all

lemma row_required_str_of [simp]:
  "map_of kvs k = Some (PStr s) \<Longrightarrow> s \<noteq> [] \<Longrightarrow> row_required_str (dict_of kvs) k = Inr s"
  by (simp add: row_required_str_def)

lemma row_required_int_of [simp]:
  "map_of kvs k = Some (PInt i) \<Longrightarrow> row_required_int (dict_of kvs) k = Inr i"
  by (simp add: row_required_int_def)

lemma row_optional_str_of [simp]:
  "map_of kvs k = Some (opt_str x) \<Longrightarrow> x \<noteq> Some [] \<Longrightarrow> row_optional_str (dict_of kvs) k = Inr x"
  by (cases x) (simp_all add: row_optional_str_def)

lemma row_optional_str_of_str [simp]:
  "map_of kvs k = Some (PStr s) \<Longrightarrow> s \<noteq> [] \<Longrightarrow> row_optional_str (dict_of kvs) k = Inr (Some s)"
  by (simp add: row_optional_str_def)

lemma attempt_roundtrip:
  assumes "attempt_valid fi a"
  shows "\<exists>p. Inr (attempt_payload a) = (Inr p :: dict res) \<and> executor_attempt_from_payload fi p = Inr a"
proof -
  have init: "ExecutorAttemptRecord_init a = Inr a" using assms by (simp add: attempt_valid_def)
  note parts = attempt_init_parts [OF init]
  have opts: "att_executor_id a \<noteq> Some []" "att_quiescence_evidence_ref a \<noteq> Some []"
    using parts(8-11) by (cases "att_status a"; force)+
  have u64: "att_authorization_mailbox_cut a \<noteq> []" "att_authorization_mailbox_session_seq a \<noteq> []"
    using parts(6,7) is_u64_nonempty by auto
  show ?thesis
  proof (cases "att_reservation_lease_expires_at a")
    case None
    with parts opts u64 init show ?thesis
      by (cases a) (simp add: attempt_payload_def executor_attempt_from_payload_def Let_def or_zero_def)
  next
    case (Some t)
    with assms have "fi (isoformat t) = Inr t" by (simp add: attempt_valid_def)
    with Some parts opts u64 init show ?thesis
      by (cases a) (simp add: attempt_payload_def executor_attempt_from_payload_def Let_def or_zero_def)
  qed
qed

interpretation attempts: codec "\<lambda>a. Inr (attempt_payload a)" "executor_attempt_from_payload fi"
    "attempt_valid fi" for fi
  by unfold_locales (rule attempt_roundtrip)

lemma stored_attempt_put [simp]:
  "attempt_valid fi a \<Longrightarrow> db_attempts db key \<noteq> None \<Longrightarrow>
   stored_attempt fi (put_attempt key a db) key = Inr (Some a)"
  using attempts.decode_encode [of fi a "attempt_payload a"]
  by (auto simp: stored_attempt_def put_attempt_def optional_res_def)

lemma stored_attempt_put_other [simp]:
  "key' \<noteq> key \<Longrightarrow> stored_attempt fi (put_attempt key a db) key' = stored_attempt fi db key'"
  by (simp add: stored_attempt_def put_attempt_def)

lemma put_attempt_tables [simp]:
  "db_owners (put_attempt key a db) = db_owners db"
  "db_effects (put_attempt key a db) = db_effects db"
  "db_states (put_attempt key a db) = db_states db"
  "db_receipts (put_attempt key a db) = db_receipts db"
  "db_events (put_attempt key a db) = db_events db"
  "db_fact_source (put_attempt key a db) = db_fact_source db"
  "db_mailbox (put_attempt key a db) = db_mailbox db"
  "db_evidence (put_attempt key a db) = db_evidence db"
  "db_bindings (put_attempt key a db) = db_bindings db"
  "db_sessions (put_attempt key a db) = db_sessions db"
  "db_activation (put_attempt key a db) = db_activation db"
  by (simp_all add: put_attempt_def)

section \<open>The writes of a commit\<close>

lemma fold_insert_event:
  "fold_res insert_event rows db = Inr db' \<Longrightarrow> db' = db\<lparr>db_events := db_events db @ rows\<rparr>"
proof (induction rows arbitrary: db)
  case (Cons row rows)
  then obtain db1 where db1: "insert_event row db = Inr db1" "fold_res insert_event rows db1 = Inr db'"
    by (auto simp: res_simps)
  then have "db1 = db\<lparr>db_events := db_events db @ [row]\<rparr>"
    by (auto simp: insert_event_def integrity_error_def split: if_splits)
  with Cons.IH [OF db1(2)] show ?case by simp
qed simp

lemma insert_binding_frame:
  "insert_binding sid b db = Inr db' \<Longrightarrow> \<exists>new. db' = db\<lparr>db_bindings := db_bindings db @ new\<rparr>"
  by (auto simp: insert_binding_def integrity_error_def res_simps split: if_splits)

lemma fold_insert_binding:
  "fold_res (insert_binding sid) bs db = Inr db' \<Longrightarrow>
   \<exists>new. db' = db\<lparr>db_bindings := db_bindings db @ new\<rparr>"
proof (induction bs arbitrary: db)
  case Nil
  then show ?case by (intro exI [of _ "[]"]) simp
next
  case (Cons b bs)
  then obtain db1 where db1: "insert_binding sid b db = Inr db1"
      "fold_res (insert_binding sid) bs db1 = Inr db'"
    by (auto simp: res_simps)
  obtain n1 where "db1 = db\<lparr>db_bindings := db_bindings db @ n1\<rparr>"
    using insert_binding_frame [OF db1(1)] by blast
  moreover obtain n2 where "db' = db1\<lparr>db_bindings := db_bindings db1 @ n2\<rparr>"
    using Cons.IH [OF db1(2)] by blast
  ultimately show ?case by (intro exI [of _ "n1 @ n2"]) simp
qed

lemma fold_write_mailbox:
  "fold (write_mailbox sid) ps db =
   db\<lparr>db_mailbox := fold (\<lambda>p m. m((sid, fst p) \<mapsto> snd p)) ps (db_mailbox db)\<rparr>"
  by (induction ps arbitrary: db) (simp_all add: write_mailbox_def)

lemma fold_write_effect:
  "fold (write_effect sid) ps db =
   db\<lparr>db_effects := fold (\<lambda>p m. m((sid, fst p) \<mapsto> snd p)) ps (db_effects db)\<rparr>"
  by (induction ps arbitrary: db) (simp_all add: write_effect_def)

lemmas write_defs =
  write_receipt_def write_slots_def write_attempt_def write_closeout_def write_state_def
  write_source_seq_def fold_write_mailbox fold_write_effect put_attempt_def

text \<open>The tables after a commit.\<close>

lemma write_commit_tables:
  assumes "write_commit authority u fs pc db = Inr db'"
  defines "sid \<equiv> own_session_id authority"
  obtains rows bindings where
    "traverse_res (event_row sid (fs_projection_epoch fs)) (pc_facts pc) = Inr rows"
    "db' = write_attempt pc (write_slots sid pc (write_receipt sid pc
       (db\<lparr>db_events := db_events db @ rows, db_bindings := db_bindings db @ bindings\<rparr>)))"
proof -
  obtain rows db1 db2 where rows:
      "traverse_res (event_row sid (fs_projection_epoch fs)) (pc_facts pc) = Inr rows"
    and db1: "fold_res insert_event rows (write_receipt sid pc db) = Inr db1"
    and db2: "fold_res (insert_binding sid) (unit_child_bindings u) (write_slots sid pc db1) = Inr db2"
    and db': "db' = write_attempt pc db2"
    using assms(1) by (auto simp: write_commit_def sid_def Let_def bind_res_eq_Inr)
  from fold_insert_binding [OF db2] obtain bindings where
    "db2 = (write_slots sid pc db1)\<lparr>db_bindings := db_bindings (write_slots sid pc db1) @ bindings\<rparr>"
    by blast
  then show ?thesis
    using that [OF rows, of bindings] db' fold_insert_event [OF db1]
    by (cases "pc_closeout pc"; cases "pc_range pc")
       (auto simp: write_defs Let_def split: option.splits)
qed

lemma write_commit_other_tables:
  assumes "write_commit authority u fs pc db = Inr db'"
  shows "db_owners db' = db_owners db" "db_evidence db' = db_evidence db"
    "db_effects db' = fold (\<lambda>p m. m((own_session_id authority, fst p) \<mapsto> snd p)) (pc_effects pc)
       (db_effects db)"
    "db_states db' = (db_states db)((own_session_id authority, osv_run_id (pc_state pc)) \<mapsto>
       \<lparr>sr_revision = osv_revision (pc_state pc),
        sr_projection_epoch = osv_projection_epoch (pc_state pc),
        sr_transition_id = cr_transition_id (osv_commit_ref (pc_state pc)),
        sr_fact_seq_start = map_option fst (pc_range pc),
        sr_fact_seq_end = map_option snd (pc_range pc), sr_value = pc_plain_value pc\<rparr>)"
    "db_receipts db' = (db_receipts db)
       ((own_session_id authority, rcpt_projection_epoch (pc_receipt pc),
         rcpt_transition_id (pc_receipt pc))
          \<mapsto> (rcpt_mutation_fingerprint (pc_receipt pc), pc_payload pc))"
    "db_fact_source db' = db_fact_source (write_source_seq (own_session_id authority) (pc_range pc) db)"
    "db_attempts db' = db_attempts (write_attempt pc (write_closeout pc db))"
proof -
  obtain rows bindings where db': "db' = write_attempt pc (write_slots (own_session_id authority) pc
      (write_receipt (own_session_id authority) pc
       (db\<lparr>db_events := db_events db @ rows, db_bindings := db_bindings db @ bindings\<rparr>)))"
    using write_commit_tables [OF assms] by metis
  show "db_owners db' = db_owners db" "db_evidence db' = db_evidence db"
    "db_effects db' = fold (\<lambda>p m. m((own_session_id authority, fst p) \<mapsto> snd p)) (pc_effects pc)
       (db_effects db)"
    "db_states db' = (db_states db)((own_session_id authority, osv_run_id (pc_state pc)) \<mapsto>
       \<lparr>sr_revision = osv_revision (pc_state pc),
        sr_projection_epoch = osv_projection_epoch (pc_state pc),
        sr_transition_id = cr_transition_id (osv_commit_ref (pc_state pc)),
        sr_fact_seq_start = map_option fst (pc_range pc),
        sr_fact_seq_end = map_option snd (pc_range pc), sr_value = pc_plain_value pc\<rparr>)"
    "db_receipts db' = (db_receipts db)
       ((own_session_id authority, rcpt_projection_epoch (pc_receipt pc),
         rcpt_transition_id (pc_receipt pc))
          \<mapsto> (rcpt_mutation_fingerprint (pc_receipt pc), pc_payload pc))"
    "db_fact_source db' = db_fact_source (write_source_seq (own_session_id authority) (pc_range pc) db)"
    "db_attempts db' = db_attempts (write_attempt pc (write_closeout pc db))"
    unfolding db'
    by (cases "pc_closeout pc"; cases "pc_attempt pc"; cases "pc_range pc";
        force simp: write_defs Let_def)+
qed

section \<open>What a prepared commit has passed\<close>

lemma prepare_commit_parts:
  assumes "prepare_commit fi authority u t c v fp fs db = Inr pc"
  defines "sid \<equiv> own_session_id authority"
    and "disp \<equiv> dispatched_mutation (normalized_effect_mutations u)"
  obtains facts notices where
    "assert_recovery_guard authority u fs db = Inr ()"
    "closeout_attempt fi authority u db = Inr (pc_closeout pc)"
    "projected_facts sid (cas_run_id c) (unit_facts u) db = Inr facts"
    "assert_mailbox_cut u fs = Inr ()"
    "assert_reconciliation_preconditions fi authority u db = Inr ()"
    "assert_state_cas authority c db = Inr ()"
    "traverse_res (disposition_row sid db) (unit_dispositions u) = Inr (pc_mailbox pc)"
    "traverse_res (effect_row authority t disp db) (normalized_effect_mutations u)
       = Inr (pc_effects pc)"
    "dispatched_attempt authority u t fs disp db = Inr (pc_attempt pc)"
    "stamped_facts fs facts = Inr (pc_facts pc)"
    "pc_range pc = commit_range fs facts"
    "format_u64 (case pc_range pc of None \<Rightarrow> fs_session_seq fs | Some (_, final) \<Rightarrow> final)
       = Inr (raw_session_seq (pc_cursor pc))"
    "RawCursor_init (pc_cursor pc) = Inr (pc_cursor pc)" "raw_session_id (pc_cursor pc) = sid"
    "commit_ref_for t (pc_range pc) = Inr (osv_commit_ref (pc_state pc))"
    "OperationStateVersion_init
       \<lparr>osv_run_id = cas_run_id c, osv_revision = cas_revision c + 1,
        osv_projection_epoch = cas_projection_epoch c,
        osv_commit_ref = osv_commit_ref (pc_state pc), osv_value = v\<rparr> = Inr (pc_state pc)"
    "traverse_res (committed_notice (cas_projection_epoch c)) (pc_facts pc) = Inr notices"
    "pc_receipt pc = \<lparr>rcpt_session_id = sid, rcpt_projection_epoch = cas_projection_epoch c,
       rcpt_transition_id = t, rcpt_mutation_fingerprint = fp, rcpt_state_version = pc_state pc,
       rcpt_facts = notices, rcpt_effect_plans = unit_effect_plans u\<rparr>"
    "TransitionReceipt_init (pc_receipt pc) = Inr (pc_receipt pc)"
    "transition_commit_payload (pc_state pc) (pc_facts pc) (pc_cursor pc) (unit_effect_plans u)
       = Inr (pc_payload pc)"
    "plain_dict (osv_value (pc_state pc)) = Inr (pc_plain_value pc)"
proof -
  have receipt: "TransitionReceipt_init r = Inr r' \<longleftrightarrow> r' = r \<and> is_ok (TransitionReceipt_init r)"
    for r r' by (auto simp: TransitionReceipt_init_def checks_eq_Inr is_ok_iff)
  have cursor: "RawCursor_init x = Inr x' \<longleftrightarrow> x' = x \<and> is_ok (RawCursor_init x)" for x x'
    by (auto simp: RawCursor_init_def checks_eq_Inr is_ok_iff)
  have state: "osv_commit_ref x' = r \<and> OperationStateVersion_init \<lparr>osv_run_id = a,
      osv_revision = b, osv_projection_epoch = e, osv_commit_ref = osv_commit_ref x',
      osv_value = w\<rparr> = Inr x'"
    if "OperationStateVersion_init \<lparr>osv_run_id = a, osv_revision = b, osv_projection_epoch = e,
      osv_commit_ref = r, osv_value = w\<rparr> = Inr x'" for a b e r w x'
  proof -
    have "osv_commit_ref x' = r" using that by (auto simp: OperationStateVersion_init_def res_simps)
    with that show ?thesis by simp
  qed
  from assms(1) show ?thesis
    unfolding prepare_commit_def Let_def bind_res_eq_Inr sid_def [symmetric] disp_def [symmetric]
    by - (elim exE conjE, drule state, erule conjE, rule that, auto simp: receipt cursor)
qed

end
