(* ===== verification/Local_Lifecycle.thy ===== *)
theory Local_Lifecycle
  imports Local_Laws
begin

text \<open>
  The life of an executor attempt, as an abstract state machine, and the proof that the store's
  operations implement it.
\<close>

section \<open>The abstract lifecycle\<close>

inductive attempt_step :: "ExecutorAttemptRecord \<Rightarrow> ExecutorAttemptRecord \<Rightarrow> bool" where
  stay: "attempt_step a a"
| claim: "att_status a = AUTHORIZED_UNCLAIMED \<Longrightarrow>
    attempt_step a (a\<lparr>att_status := RESERVED, att_executor_id := Some x,
      att_claim_generation := 1, att_reservation_lease_expires_at := Some t\<rparr>)"
| start: "att_status a = RESERVED \<Longrightarrow> attempt_step a (a\<lparr>att_status := STARTED\<rparr>)"
| finish: "att_status a \<in> {RESERVED, STARTED} \<Longrightarrow>
    attempt_step a (a\<lparr>att_status := QUIESCENT, att_quiescence_evidence_ref := Some r\<rparr>)"
| close: "att_status a = AUTHORIZED_UNCLAIMED \<Longrightarrow>
    attempt_step a (a\<lparr>att_status := QUIESCENT, att_executor_id := Some x,
      att_claim_generation := 1, att_reservation_lease_expires_at := Some t,
      att_quiescence_evidence_ref := Some r\<rparr>)"

inductive_cases attempt_stepE: "attempt_step a b"

fun status_order :: "ExecutorAttemptStatus \<Rightarrow> nat" where
  "status_order AUTHORIZED_UNCLAIMED = 0"
| "status_order RESERVED = 1"
| "status_order STARTED = 2"
| "status_order QUIESCENT = 3"

text \<open>Whatever happens to an attempt, its identity stays, its status moves forward only, a claim
  is never handed over, and a quiescent attempt is final.\<close>

definition attempt_progress :: "ExecutorAttemptRecord \<Rightarrow> ExecutorAttemptRecord \<Rightarrow> bool" where
  "attempt_progress a b \<longleftrightarrow>
     attempt_key b = attempt_key a \<and> att_dispatch_owner_epoch b = att_dispatch_owner_epoch a
     \<and> status_order (att_status a) \<le> status_order (att_status b)
     \<and> (att_status a \<noteq> AUTHORIZED_UNCLAIMED \<longrightarrow>
          att_executor_id b = att_executor_id a
          \<and> att_claim_generation b = att_claim_generation a
          \<and> att_reservation_lease_expires_at b = att_reservation_lease_expires_at a)
     \<and> (att_status a = QUIESCENT \<longrightarrow> b = a)"

lemma attempt_step_progress: "attempt_step a b \<Longrightarrow> attempt_progress a b"
  by (induction rule: attempt_step.induct) (auto simp: attempt_progress_def attempt_key_def)

lemma attempt_progress_refl [simp]: "attempt_progress a a"
  by (simp add: attempt_progress_def)

lemma status_order_less: "status_order s < 3 \<longleftrightarrow> s \<noteq> QUIESCENT" "0 < status_order s \<longleftrightarrow> s \<noteq> AUTHORIZED_UNCLAIMED"
  by (cases s; simp)+

lemma attempt_progress_trans:
  assumes "attempt_progress a b" "attempt_progress b c"
  shows "attempt_progress a c"
proof -
  have order: "status_order (att_status a) \<le> status_order (att_status b)"
    "status_order (att_status b) \<le> status_order (att_status c)"
    using assms by (simp_all add: attempt_progress_def)
  have claimed: "att_status a \<noteq> AUTHORIZED_UNCLAIMED \<Longrightarrow> att_status b \<noteq> AUTHORIZED_UNCLAIMED"
    using order(1) status_order_less(2) [of "att_status a"] status_order_less(2) [of "att_status b"]
    by linarith
  show ?thesis using assms order claimed by (simp add: attempt_progress_def)
qed

lemma attempt_steps_progress: "attempt_step\<^sup>*\<^sup>* a b \<Longrightarrow> attempt_progress a b"
  by (induction rule: rtranclp_induct) (auto dest: attempt_step_progress attempt_progress_trans)

section \<open>The operations implement it\<close>

definition iso_law :: "(string \<Rightarrow> datetime res) \<Rightarrow> datetime \<Rightarrow> bool" where
  "iso_law fromisoformat t \<longleftrightarrow> fromisoformat (isoformat t) = Inr t"

text \<open>What an attempt operation may do to the database.\<close>

definition attempt_update ::
    "(string \<Rightarrow> datetime res) \<Rightarrow> attempt_row_key \<Rightarrow> ExecutorAttemptRecord \<Rightarrow> local_db \<Rightarrow> local_db \<Rightarrow> bool" where
  "attempt_update fi key b db db' \<longleftrightarrow>
     (db' = db \<and> stored_attempt fi db key = Inr (Some b))
     \<or> (\<exists>a. stored_attempt fi db key = Inr (Some a) \<and> attempt_step a b \<and> attempt_valid fi b
          \<and> db' = put_attempt key b db)"

lemma existing_attempt_Inr:
  "existing_attempt fi db key = Inr a \<longleftrightarrow> stored_attempt fi db key = Inr (Some a)"
  by (auto simp: existing_attempt_def res_simps split: option.splits)

lemma attempt_valid_lease:
  "attempt_valid fi a \<Longrightarrow> ExecutorAttemptRecord_init b = Inr c \<Longrightarrow>
   (\<forall>t. att_reservation_lease_expires_at b = Some t \<longrightarrow>
      att_reservation_lease_expires_at a = Some t \<or> iso_law fi t) \<Longrightarrow> c = b \<and> attempt_valid fi b"
  using ExecutorAttemptRecord_init_Inr by (fastforce simp: attempt_valid_def iso_law_def)

lemma reserve_update:
  assumes "reserve_executor_attempt fi now authority e a auth x t db = Inr (b, db')"
    and "\<And>c. stored_attempt fi db (own_session_id authority, e, a, auth) = Inr (Some c) \<Longrightarrow>
      attempt_valid fi c"
    and "iso_law fi t"
  shows "attempt_update fi (own_session_id authority, e, a, auth) b db db'"
proof -
  obtain c where c: "stored_attempt fi db (own_session_id authority, e, a, auth) = Inr (Some c)"
    and rest: "(if att_status c = RESERVED
      then
        (if att_executor_id c = Some x
            \<and> (case att_reservation_lease_expires_at c of
                 None \<Rightarrow> False | Some s \<Rightarrow> datetime_eq s t)
         then Inr (c, db)
         else conflict ''executor reservation replay changed content'')
      else
        bind_res (ExecutorAttemptRecord_init
          (c\<lparr>att_status := RESERVED, att_executor_id := Some x,
             att_claim_generation := att_claim_generation c + 1,
             att_reservation_lease_expires_at := Some t\<rparr>)) (\<lambda>reserved.
        if att_status c \<noteq> AUTHORIZED_UNCLAIMED
           \<or> att_dispatch_owner_epoch c \<noteq> own_epoch authority
        then conflict ''executor attempt cannot be reserved''
        else Inr (reserved, put_attempt (own_session_id authority, e, a, auth) reserved db)))
      = Inr (b, db')"
    using assms(1) by (auto simp: reserve_executor_attempt_def Let_def res_simps existing_attempt_Inr)
  have valid: "attempt_valid fi c" by (rule assms(2) [OF c])
  show ?thesis
  proof (cases "att_status c = RESERVED")
    case True
    with rest c show ?thesis by (auto simp: attempt_update_def conflict_def split: if_splits)
  next
    case False
    with rest have init: "ExecutorAttemptRecord_init
          (c\<lparr>att_status := RESERVED, att_executor_id := Some x,
             att_claim_generation := att_claim_generation c + 1,
             att_reservation_lease_expires_at := Some t\<rparr>) = Inr b"
      and un: "att_status c = AUTHORIZED_UNCLAIMED"
      and db': "db' = put_attempt (own_session_id authority, e, a, auth) b db"
      by (auto simp: conflict_def res_simps split: if_splits)
    have zero: "att_claim_generation c = 0"
      using attempt_init_parts(8) [of c] valid un by (simp add: attempt_valid_def)
    from attempt_valid_lease [OF valid init] assms(3)
    have b: "b = c\<lparr>att_status := RESERVED, att_executor_id := Some x,
        att_claim_generation := 1, att_reservation_lease_expires_at := Some t\<rparr>"
      "attempt_valid fi b"
      using zero by auto
    with c db' claim [OF un, where x = x and t = t] show ?thesis by (auto simp: attempt_update_def)
  qed
qed

lemma transition_update:
  assumes "transition_executor_attempt fi now authority e a auth x g ts target ref fenced db
      = Inr (b, db')"
    and "\<And>c. stored_attempt fi db (own_session_id authority, e, a, auth) = Inr (Some c) \<Longrightarrow>
      attempt_valid fi c"
    and "target = STARTED \<and> ref = None \<and> \<not> fenced \<or> target = QUIESCENT \<and> ref \<noteq> None"
  shows "attempt_update fi (own_session_id authority, e, a, auth) b db db'"
proof -
  let ?key = "(own_session_id authority, e, a, auth)"
  obtain c where c: "stored_attempt fi db ?key = Inr (Some c)"
    and rest: "(if att_status c = target
      then
        (if att_executor_id c = Some x \<and> att_claim_generation c = g
            \<and> att_quiescence_evidence_ref c = ref
         then Inr (c, db)
         else conflict ''executor transition replay changed content'')
      else if att_executor_id c \<noteq> Some x \<or> att_claim_generation c \<noteq> g
      then conflict ''executor claim identity mismatch''
      else
        bind_res
          (if fenced then revocation_allowed c authority ts
           else transition_allowed c authority ts target) (\<lambda>_.
        bind_res (ExecutorAttemptRecord_init
          (c\<lparr>att_status := target, att_quiescence_evidence_ref := ref\<rparr>))
          (\<lambda>updated. Inr (updated, put_attempt ?key updated db)))) = Inr (b, db')"
    using assms(1)
    by (auto simp: transition_executor_attempt_def Let_def bind_res_eq_Inr existing_attempt_Inr)
  have valid: "attempt_valid fi c" by (rule assms(2) [OF c])
  show ?thesis
  proof (cases "att_status c = target")
    case True
    with rest c show ?thesis by (auto simp: attempt_update_def conflict_def split: if_splits)
  next
    case False
    with rest have allowed: "(if fenced then revocation_allowed c authority ts
           else transition_allowed c authority ts target) = Inr ()"
      and init: "ExecutorAttemptRecord_init
          (c\<lparr>att_status := target, att_quiescence_evidence_ref := ref\<rparr>) = Inr b"
      and db': "db' = put_attempt ?key b db"
      by (auto simp: conflict_def bind_res_eq_Inr split: if_splits)
    have b: "b = c\<lparr>att_status := target, att_quiescence_evidence_ref := ref\<rparr>" "attempt_valid fi b"
      using attempt_valid_lease [OF valid init] by auto
    have "attempt_step c b"
    proof (cases "target = STARTED")
      case True
      then have st: "att_status c = RESERVED" and ref: "ref = None" and "\<not> fenced"
        using allowed assms(3)
        by (auto simp: transition_allowed_def conflict_def Let_def split: if_splits)
      have "att_quiescence_evidence_ref c = None"
        using attempt_init_parts(11) [of c] valid st by (simp add: attempt_valid_def)
      then have "b = c\<lparr>att_status := STARTED\<rparr>" using b(1) True ref by simp
      with start [OF st] show ?thesis by simp
    next
      case quiet: False
      then obtain r where r: "target = QUIESCENT" "ref = Some r" using assms(3) by auto
      have "att_status c \<in> {RESERVED, STARTED}"
        using allowed r
        by (auto simp: transition_allowed_def revocation_allowed_def conflict_def Let_def
            split: if_splits option.splits)
      with finish [OF this, of r] b(1) r show ?thesis by simp
    qed
    with c b db' show ?thesis by (auto simp: attempt_update_def)
  qed
qed

lemma quiesce_update:
  assumes "quiesce_claimed_executor_attempt fi now authority e a auth x ts ref db = Inr (b, db')"
    and "\<And>c. stored_attempt fi db (own_session_id authority, e, a, auth) = Inr (Some c) \<Longrightarrow>
      attempt_valid fi c"
    and "iso_law fi ts"
  shows "attempt_update fi (own_session_id authority, e, a, auth) b db db'"
proof -
  let ?key = "(own_session_id authority, e, a, auth)"
  obtain c where c: "stored_attempt fi db ?key = Inr (Some c)"
    and rest: "(if att_status c = QUIESCENT
      then
        (if att_executor_id c = Some x \<and> att_quiescence_evidence_ref c = Some ref
         then Inr (c, db)
         else conflict ''executor quiescence replay changed content'')
      else if own_epoch authority < att_dispatch_owner_epoch c
      then conflict ''executor attempt belongs to a newer owner''
      else if att_status c \<noteq> AUTHORIZED_UNCLAIMED \<and> att_executor_id c \<noteq> Some x
      then conflict ''executor claim identity mismatch''
      else
        bind_res (ExecutorAttemptRecord_init
          (c\<lparr>att_status := QUIESCENT, att_executor_id := Some x,
             att_claim_generation := max 1 (att_claim_generation c),
             att_reservation_lease_expires_at :=
               (case att_reservation_lease_expires_at c of
                  None \<Rightarrow> Some ts | Some t \<Rightarrow> Some t),
             att_quiescence_evidence_ref := Some ref\<rparr>)) (\<lambda>updated.
        Inr (updated, put_attempt ?key updated db))) = Inr (b, db')"
    using assms(1)
    by (auto simp: quiesce_claimed_executor_attempt_def Let_def bind_res_eq_Inr existing_attempt_Inr)
  have valid: "attempt_valid fi c" by (rule assms(2) [OF c])
  then have init_c: "ExecutorAttemptRecord_init c = Inr c" by (simp add: attempt_valid_def)
  note parts = attempt_init_parts [OF init_c]
  show ?thesis
  proof (cases "att_status c = QUIESCENT")
    case True
    with rest c show ?thesis by (auto simp: attempt_update_def conflict_def split: if_splits)
  next
    case False
    with rest have same: "att_status c \<noteq> AUTHORIZED_UNCLAIMED \<longrightarrow> att_executor_id c = Some x"
      and init: "ExecutorAttemptRecord_init
          (c\<lparr>att_status := QUIESCENT, att_executor_id := Some x,
             att_claim_generation := max 1 (att_claim_generation c),
             att_reservation_lease_expires_at :=
               (case att_reservation_lease_expires_at c of
                  None \<Rightarrow> Some ts | Some t \<Rightarrow> Some t),
             att_quiescence_evidence_ref := Some ref\<rparr>) = Inr b"
      and db': "db' = put_attempt ?key b db"
      by (auto simp: conflict_def bind_res_eq_Inr split: if_splits)
    have b: "b = c\<lparr>att_status := QUIESCENT, att_executor_id := Some x,
             att_claim_generation := max 1 (att_claim_generation c),
             att_reservation_lease_expires_at :=
               (case att_reservation_lease_expires_at c of
                  None \<Rightarrow> Some ts | Some t \<Rightarrow> Some t),
             att_quiescence_evidence_ref := Some ref\<rparr>" "attempt_valid fi b"
      using attempt_valid_lease [OF valid init] assms(3) by (auto split: option.splits)
    have "attempt_step c b"
    proof (cases "att_status c = AUTHORIZED_UNCLAIMED")
      case True
      with parts(8) b(1) attempt_step.close [OF True, where x = x and t = ts and r = ref]
      show ?thesis by simp
    next
      case claimed: False
      with parts(9) obtain t where "att_reservation_lease_expires_at c = Some t"
          "0 < att_claim_generation c" by auto
      then have "b = c\<lparr>att_status := QUIESCENT, att_quiescence_evidence_ref := Some ref\<rparr>"
        using b(1) same claimed by (cases c) auto
      moreover have "att_status c \<in> {RESERVED, STARTED}"
        using claimed False by (cases "att_status c") auto
      ultimately show ?thesis using finish by simp
    qed
    with c b db' show ?thesis by (auto simp: attempt_update_def)
  qed
qed

end
