(* ===== verification/Local_Admission.thy ===== *)
theory Local_Admission
  imports Local_Commit
begin

text \<open>
  The admission of runtime commands to the mailbox of the local store: \<open>admit_runtime_command\<close> and
  \<open>admit_new_runtime_command\<close> of \<open>coding_agent/stores/local_durable/uow.py\<close>. A command that stops
  work (a cancel, an interrupt, a denied approval) moves the dispatch generation of its session on,
  which is the mailbox cut that authorizations are computed against.
\<close>

section \<open>Admission\<close>

definition admission_entry ::
    "RuntimeCommand \<Rightarrow> int \<Rightarrow> int \<Rightarrow> string \<Rightarrow> CommandMailboxEntry res" where
  "admission_entry command session_seq generation disp =
     bind_res (format_u64 session_seq) (\<lambda>seq.
     bind_res (format_u64 generation) (\<lambda>gen.
     CommandMailboxEntry_init
       \<lparr>ent_command = command, ent_admitted_session_seq = seq,
        ent_admitted_dispatch_generation = gen, ent_disposition = disp\<rparr>))"

definition admission_result ::
    "CommandMailboxEntry \<Rightarrow> int \<Rightarrow> bool \<Rightarrow> RuntimeCommandAdmission res" where
  "admission_result e generation idempotent =
     bind_res (format_u64 generation) (\<lambda>cut.
     RuntimeCommandAdmission_init
       \<lparr>adm_entry = e, adm_mailbox_cut = cut, adm_idempotent = idempotent\<rparr>)"

text \<open>The slot exists already: the same command again, or a conflict.\<close>

definition readmitted ::
    "(rat \<Rightarrow> string) \<Rightarrow> RuntimeCommand \<Rightarrow> dict \<Rightarrow> FactSource \<Rightarrow> MailboxRow
     \<Rightarrow> RuntimeCommandAdmission res" where
  "readmitted float_repr command payload fs row =
     (case (mr_admitted_session_seq row, mr_admitted_dispatch_generation row) of
        (Some seq, Some generation) \<Rightarrow>
          bind_res (runtime_command_mailbox_payloads_equal float_repr (mr_payload row) payload)
            (\<lambda>same.
          if \<not> same
          then Inl (RuntimeCommandAdmissionConflictError
                 ''runtime command identity was reused with different content'')
          else
            bind_res (runtime_command_from_mailbox_payload (cmd_command_id command)
                (mr_payload row)) (\<lambda>existing.
            bind_res (admission_entry existing seq generation (mr_disposition row)) (\<lambda>e.
            admission_result e (fs_dispatch_generation fs) True)))
      | _ \<Rightarrow> Inl (RuntimeCommandAdmissionConflictError
               ''runtime command identity collides with a legacy mailbox slot''))"

definition admission_generation :: "FactSource \<Rightarrow> bool \<Rightarrow> int" where
  "admission_generation fs invalidates = fs_dispatch_generation fs + (if invalidates then 1 else 0)"

text \<open>The update of the source and the insertion of the slot.\<close>

definition write_admission ::
    "string \<Rightarrow> string \<Rightarrow> int \<Rightarrow> int \<Rightarrow> dict \<Rightarrow> local_db \<Rightarrow> local_db" where
  "write_admission session_id slot_id session_seq generation payload db =
     db\<lparr>db_fact_source := (db_fact_source db)(session_id :=
          map_option (\<lambda>r. r\<lparr>fr_session_seq := session_seq, fr_dispatch_generation := generation\<rparr>)
            (db_fact_source db session_id)),
        db_mailbox := (db_mailbox db)((session_id, slot_id) \<mapsto>
          \<lparr>mr_lane = ''runtime'', mr_disposition = ''pending'', mr_payload = payload,
           mr_admitted_session_seq = Some session_seq,
           mr_admitted_dispatch_generation = Some generation\<rparr>)\<rparr>"

definition admitted_fresh ::
    "OwnerAuthority \<Rightarrow> RuntimeCommand \<Rightarrow> dict \<Rightarrow> bool \<Rightarrow> FactSource \<Rightarrow> local_db
     \<Rightarrow> (RuntimeCommandAdmission \<times> local_db) res" where
  "admitted_fresh authority command payload invalidates fs db =
     (let seq = fs_session_seq fs + 1; generation = admission_generation fs invalidates in
      bind_res (admission_entry command seq generation ''pending'') (\<lambda>e.
      map_res (\<lambda>a. (a, write_admission (own_session_id authority) (cmd_command_id command) seq
          generation payload db))
        (admission_result e generation False)))"

definition admit_runtime_command ::
    "(rat \<Rightarrow> string) \<Rightarrow> (string \<Rightarrow> datetime res) \<Rightarrow> datetime \<Rightarrow> OwnerAuthority \<Rightarrow> RuntimeCommand
     \<Rightarrow> local_db \<Rightarrow> (RuntimeCommandAdmission \<times> local_db) res" where
  "admit_runtime_command float_repr fromisoformat now authority command db =
     bind_res (runtime_command_mailbox_payload command) (\<lambda>payload.
     bind_res (runtime_command_invalidates_dispatch command) (\<lambda>invalidates.
     bind_res (assert_authority fromisoformat now db authority) (\<lambda>_.
     bind_res (ensure_fact_source db (own_session_id authority)) (\<lambda>(fs, db0).
     case db_mailbox db0 (own_session_id authority, cmd_command_id command) of
       Some row \<Rightarrow>
         map_res (\<lambda>a. (a, db0)) (readmitted float_repr command payload fs row)
     | None \<Rightarrow> admitted_fresh authority command payload invalidates fs db0))))"

definition admit_new_runtime_command ::
    "(rat \<Rightarrow> string) \<Rightarrow> (string \<Rightarrow> datetime res) \<Rightarrow> datetime \<Rightarrow> OwnerAuthority \<Rightarrow> RuntimeCommand
     \<Rightarrow> local_db \<Rightarrow> (RuntimeCommandAdmission \<times> local_db) res" where
  "admit_new_runtime_command float_repr fromisoformat now authority command db =
     bind_res (validate_new_runtime_command_target command) (\<lambda>_.
     admit_runtime_command float_repr fromisoformat now authority command db)"

end
