(* ===== verification/Local_Calls.thy ===== *)
theory Local_Calls
  imports Local_Lifecycle Local_Admission
begin

text \<open>
  The calls a process makes on the local store (commits, executor calls, evidence, admissions) and the
  runs they form. Writers exclude one another, so a history of the store is a sequence of calls by any
  number of owners and executors, at any clock readings, each atomic; what an exception leaves behind
  is the database before.
\<close>

section \<open>Calls\<close>

datatype attempt_call =
    Reserve string datetime
  | Start string int datetime
  | Finish string int datetime string
  | Revoke string int datetime string
  | Quiesce string datetime string

datatype store_call =
    Commit OwnerAuthority AuthoritativeUnitOfWork
  | Attempt OwnerAuthority string string string attempt_call
  | Record OwnerAuthority EffectReconciliationEvidence
  | Admit OwnerAuthority RuntimeCommand

fun attempt_result ::
    "(string \<Rightarrow> datetime res) \<Rightarrow> datetime \<Rightarrow> OwnerAuthority \<Rightarrow> string \<Rightarrow> string \<Rightarrow> string
     \<Rightarrow> attempt_call \<Rightarrow> local_db \<Rightarrow> (ExecutorAttemptRecord \<times> local_db) res" where
  "attempt_result fi now authority e a auth (Reserve x t) db =
     reserve_executor_attempt fi now authority e a auth x t db"
| "attempt_result fi now authority e a auth (Start x g ts) db =
     mark_executor_attempt_started fi now authority e a auth x g ts db"
| "attempt_result fi now authority e a auth (Finish x g ts ref) db =
     mark_executor_attempt_quiescent fi now authority e a auth x g ts ref db"
| "attempt_result fi now authority e a auth (Revoke x g ts ref) db =
     revoke_expired_executor_reservation fi now authority e a auth x g ts ref db"
| "attempt_result fi now authority e a auth (Quiesce x ts ref) db =
     quiesce_claimed_executor_attempt fi now authority e a auth x ts ref db"

definition rolled_back :: "('a \<times> local_db) res \<Rightarrow> local_db \<Rightarrow> local_db" where
  "rolled_back r db = (case r of Inl _ \<Rightarrow> db | Inr (_, db') \<Rightarrow> db')"

lemma rolled_back_simps [simp]:
  "rolled_back (Inl e) db = db" "rolled_back (Inr (x, db')) db = db'"
  by (simp_all add: rolled_back_def)

fun perform_call ::
    "(rat \<Rightarrow> string) \<Rightarrow> (nat list \<Rightarrow> string) \<Rightarrow> (string \<Rightarrow> datetime res) \<Rightarrow> datetime \<Rightarrow> store_call
     \<Rightarrow> local_db \<Rightarrow> local_db" where
  "perform_call fr sh fi now (Commit authority u) db = snd (commit_transition fr sh fi now authority u db)"
| "perform_call fr sh fi now (Attempt authority e a auth c) db =
     rolled_back (attempt_result fi now authority e a auth c db) db"
| "perform_call fr sh fi now (Record authority v) db =
     rolled_back (record_effect_reconciliation_evidence fi now authority v db) db"
| "perform_call fr sh fi now (Admit authority c) db =
     rolled_back (admit_runtime_command fr fi now authority c db) db"

text \<open>
  The arguments are constructed values: a unit and the parts its constructors accept, with mappings
  that have each key once and string keys where they are written as JSON, and times that
  \<open>fromisoformat\<close> reads back from \<open>isoformat\<close>.
\<close>

definition fact_ok :: "(string \<Rightarrow> datetime res) \<Rightarrow> EventRecord \<Rightarrow> bool" where
  "fact_ok fi f \<longleftrightarrow>
     \<not> list_ex (\<lambda>(k, _). \<not> is_str k) (fact_payload f) \<and> iso_law fi (fact_created_at f)"

definition mutation_ok :: "EffectMutation \<Rightarrow> bool" where
  "mutation_ok m \<longleftrightarrow> EffectMutation_init m = Inr m \<and> distinct (map fst (mut_payload m))"

definition unit_ok :: "(string \<Rightarrow> datetime res) \<Rightarrow> AuthoritativeUnitOfWork \<Rightarrow> bool" where
  "unit_ok fi u \<longleftrightarrow> AuthoritativeUnitOfWork_init u = Inr u
     \<and> list_all mutation_ok (normalized_effect_mutations u)
     \<and> list_all plan_ok (unit_effect_plans u)
     \<and> list_all (fact_ok fi) (unit_facts u)
     \<and> (case unit_unstarted_dispatch_closeout u of
          None \<Rightarrow> True | Some g \<Rightarrow> iso_law fi (close_closed_at g))"

fun attempt_call_ok :: "(string \<Rightarrow> datetime res) \<Rightarrow> attempt_call \<Rightarrow> bool" where
  "attempt_call_ok fi (Reserve _ t) \<longleftrightarrow> iso_law fi t"
| "attempt_call_ok fi (Quiesce _ ts _) \<longleftrightarrow> iso_law fi ts"
| "attempt_call_ok fi _ \<longleftrightarrow> True"

fun store_call_ok :: "(string \<Rightarrow> datetime res) \<Rightarrow> store_call \<Rightarrow> bool" where
  "store_call_ok fi (Commit _ u) \<longleftrightarrow> unit_ok fi u"
| "store_call_ok fi (Attempt _ _ _ _ c) \<longleftrightarrow> attempt_call_ok fi c"
| "store_call_ok fi (Record _ _) \<longleftrightarrow> True"
| "store_call_ok fi (Admit _ _) \<longleftrightarrow> True"

lemma unit_ok_parts:
  assumes "unit_ok fi u"
  shows "AuthoritativeUnitOfWork_init u = Inr u"
    "m \<in> set (normalized_effect_mutations u) \<Longrightarrow> EffectMutation_init m = Inr m"
    "m \<in> set (normalized_effect_mutations u) \<Longrightarrow> distinct (map fst (mut_payload m))"
    "list_all plan_ok (unit_effect_plans u)" "list_all (fact_ok fi) (unit_facts u)"
    "unit_unstarted_dispatch_closeout u = Some g \<Longrightarrow> iso_law fi (close_closed_at g)"
    "distinct (map mut_effect_id (normalized_effect_mutations u))"
  using assms
  by (auto simp: unit_ok_def mutation_ok_def list_all_iff AuthoritativeUnitOfWork_init_def
      checks_eq_Inr unit_mutation_checks_def)

inductive store_step ::
    "(rat \<Rightarrow> string) \<Rightarrow> (nat list \<Rightarrow> string) \<Rightarrow> (string \<Rightarrow> datetime res) \<Rightarrow> local_db \<Rightarrow> local_db \<Rightarrow> bool"
  for fr sh fi where
  call: "store_call_ok fi c \<Longrightarrow> store_step fr sh fi db (perform_call fr sh fi now c db)"

inductive_cases store_stepE: "store_step fr sh fi db db'"

text \<open>An invariant of every call holds after every run.\<close>

lemma store_run_invariant:
  assumes run: "(store_step fr sh fi)\<^sup>*\<^sup>* db db'" and init: "P db"
    and step: "\<And>db1 now c. P db1 \<Longrightarrow> store_call_ok fi c \<Longrightarrow> P (perform_call fr sh fi now c db1)"
  shows "P db'"
  using run by (induction rule: rtranclp_induct) (auto intro: init step elim: store_stepE)

section \<open>What a commit does\<close>

lemma ensure_fact_source_Inr:
  assumes "ensure_fact_source db sid = Inr (fs, db0)"
  obtains row where "fact_source_from_row sid row = Inr fs"
    "db0 = db\<lparr>db_fact_source := (db_fact_source db)(sid \<mapsto> row)\<rparr>"
    "db_fact_source db sid = Some row \<or> db_fact_source db sid = None \<and> row = new_fact_source"
proof (cases "db_fact_source db sid")
  case None
  with assms show ?thesis by (intro that [of new_fact_source]) (auto simp: ensure_fact_source_def res_simps)
next
  case (Some row)
  then have "(db_fact_source db)(sid \<mapsto> row) = db_fact_source db" by auto
  with assms Some show ?thesis
    by (intro that [of row]) (auto simp: ensure_fact_source_def res_simps)
qed

text \<open>An admission answers a repetition, or writes the slot and moves the source on.\<close>

lemma admission_cases:
  assumes "admit_runtime_command fr fi now authority c db = Inr (a, db')"
  obtains (again) fs where "ensure_fact_source db (own_session_id authority) = Inr (fs, db')"
  | (fresh) fs db0 g p where "ensure_fact_source db (own_session_id authority) = Inr (fs, db0)"
      "fs_dispatch_generation fs \<le> g"
      "db' = write_admission (own_session_id authority) (cmd_command_id c) (fs_session_seq fs + 1) g p db0"
proof -
  obtain p b fs db0 where source: "ensure_fact_source db (own_session_id authority) = Inr (fs, db0)"
      and run: "(case db_mailbox db0 (own_session_id authority, cmd_command_id c) of
       Some row \<Rightarrow> map_res (\<lambda>a. (a, db0)) (readmitted fr c p fs row)
     | None \<Rightarrow> admitted_fresh authority c p b fs db0) = Inr (a, db')"
    using assms by (auto simp: admit_runtime_command_def bind_res_eq_Inr)
  have "fs_dispatch_generation fs \<le> admission_generation fs b" by (simp add: admission_generation_def)
  with run source again fresh show thesis
    by (auto simp: admitted_fresh_def Let_def bind_res_eq_Inr map_res_eq_Inr split: option.splits)
qed

lemma write_admission_tables [simp]:
  "db_effects (write_admission sid c n g p db) = db_effects db"
  "db_attempts (write_admission sid c n g p db) = db_attempts db"
  "db_owners (write_admission sid c n g p db) = db_owners db"
  "db_receipts (write_admission sid c n g p db) = db_receipts db"
  "db_states (write_admission sid c n g p db) = db_states db"
  "db_events (write_admission sid c n g p db) = db_events db"
  by (simp_all add: write_admission_def)

text \<open>A commit fails and changes nothing, answers a retry, or writes what it has prepared.\<close>

lemma commit_transition_cases:
  assumes "commit_transition fr sh fi now authority u db = (r, db')"
  obtains (failed) e where "r = Inl e" "db' = db"
  | (replayed) c t fp fs commit where
      "unit_state_cas u = Some c" "unit_transition_id u = Some t"
      "transition_mutation_fingerprint fr sh u = Inr fp"
      "assert_authority fi now db authority = Inr ()"
      "ensure_fact_source db (own_session_id authority) = Inr (fs, db')"
      "replayed_commit fi fs authority u t c fp db' = Inr (Some commit)" "r = Inr commit"
  | (written) c t v fp fs db0 pc where
      "unit_state_cas u = Some c" "unit_transition_id u = Some t" "unit_state_value u = Some v"
      "commit_prechecks authority u = Inr ()"
      "transition_mutation_fingerprint fr sh u = Inr fp"
      "assert_authority fi now db authority = Inr ()"
      "ensure_fact_source db (own_session_id authority) = Inr (fs, db0)"
      "cas_projection_epoch c = fs_projection_epoch fs"
      "replayed_commit fi fs authority u t c fp db0 = Inr None"
      "prepare_commit fi authority u t c v fp fs db0 = Inr pc"
      "write_commit authority u fs pc db0 = Inr db'" "r = written_commit fs pc"
proof -
  show ?thesis
  proof (cases "\<exists>c t v. unit_state_cas u = Some c \<and> unit_transition_id u = Some t
      \<and> unit_state_value u = Some v")
    case False
    with assms show ?thesis
      by (intro failed) (auto simp: commit_transition_def split: option.splits)
  next
    case True
    then obtain c t v where u: "unit_state_cas u = Some c" "unit_transition_id u = Some t"
        "unit_state_value u = Some v" by blast
    define outcome where "outcome = bind_res (commit_prechecks authority u) (\<lambda>_.
        bind_res (transition_mutation_fingerprint fr sh u) (\<lambda>fingerprint.
        commit_transaction fi now authority u t c v fingerprint db))"
    have result: "(case outcome of Inl e \<Rightarrow> (Inl e, db) | Inr (Replayed commit, _, db') \<Rightarrow> (Inr commit, db')
        | Inr (Written pc, fs, db') \<Rightarrow> (written_commit fs pc, db')) = (r, db')"
      using assms u by (simp add: commit_transition_def outcome_def)
    show ?thesis
    proof (cases outcome)
      case (Inl e)
      with result show ?thesis by (intro failed) auto
    next
      case (Inr out)
      obtain k fs db1 where out: "out = (k, fs, db1)" by (metis prod_cases3)
      from Inr out obtain fp where pre: "commit_prechecks authority u = Inr ()"
          "transition_mutation_fingerprint fr sh u = Inr fp"
        and tx: "commit_transaction fi now authority u t c v fp db = Inr (k, fs, db1)"
        by (auto simp: outcome_def bind_res_eq_Inr)
      from tx obtain db0 where auth: "assert_authority fi now db authority = Inr ()"
          "ensure_fact_source db (own_session_id authority) = Inr (fs, db0)"
          "cas_projection_epoch c = fs_projection_epoch fs"
        and replay: "(case k of
          Replayed commit \<Rightarrow> replayed_commit fi fs authority u t c fp db0 = Inr (Some commit) \<and> db1 = db0
        | Written pc \<Rightarrow> replayed_commit fi fs authority u t c fp db0 = Inr None
            \<and> prepare_commit fi authority u t c v fp fs db0 = Inr pc
            \<and> write_commit authority u fs pc db0 = Inr db1)"
        by (auto simp: commit_transaction_def bind_res_eq_Inr map_res_eq_Inr stale_state_def
            split: if_splits option.splits)
      show ?thesis
      proof (cases k)
        case (Replayed commit)
        with Inr out result replay auth show ?thesis
          by (intro replayed [OF u(1,2) pre(2) auth(1)]) auto
      next
        case (Written pc)
        with Inr out result replay auth show ?thesis
          by (intro written [OF u pre auth]) auto
      qed
    qed
  qed
qed

end
