(* ===== verification/Local_Ledger.thy ===== *)
theory Local_Ledger
  imports Local_Calls
begin

text \<open>
  The effect ledger as an abstract state machine - an effect is prepared once, then moves along the
  legal transitions under one attempt - and the proof that every call of the store implements it.
\<close>

section \<open>The abstract ledger\<close>

inductive ledger_step :: "EffectRow option \<Rightarrow> EffectRow option \<Rightarrow> bool" where
  same: "ledger_step r r"
| prepare: "fx_status fx = ''prepared'' \<Longrightarrow> ledger_step None (Some fx)"
| move: "(s, s') \<in> set legal_effect_transitions \<Longrightarrow> fx_status fx = effect_status_value s \<Longrightarrow>
    fx_status fx' = effect_status_value s' \<Longrightarrow>
    dict_get (fx_payload fx') ''attempt_id'' = dict_get (fx_payload fx) ''attempt_id'' \<Longrightarrow>
    ledger_step (Some fx) (Some fx')"

inductive_cases ledger_stepE: "ledger_step r r'"

text \<open>How far an effect has come: absent, prepared, dispatched, unknown, settled.\<close>

definition status_level :: "string \<Rightarrow> nat" where
  "status_level s = (if s = ''prepared'' then 1 else if s = ''dispatched'' then 2
     else if s = ''unknown'' then 3 else 4)"

definition ledger_level :: "EffectRow option \<Rightarrow> nat" where
  "ledger_level r = (case r of None \<Rightarrow> 0 | Some fx \<Rightarrow> status_level (fx_status fx))"

lemma status_level_prepared [simp]: "status_level ''prepared'' = 1"
  by (simp add: status_level_def)

lemma legal_level:
  "(s, s') \<in> set legal_effect_transitions \<Longrightarrow>
   status_level (effect_status_value s) < status_level (effect_status_value s')
     \<and> status_level (effect_status_value s) < 4"
  by (auto simp: legal_effect_transitions_def status_level_def)

definition ledger_progress :: "EffectRow option \<Rightarrow> EffectRow option \<Rightarrow> bool" where
  "ledger_progress r r' \<longleftrightarrow> r' = r
     \<or> ledger_level r < ledger_level r' \<and> ledger_level r < 4
       \<and> (\<forall>fx. r = Some fx \<longrightarrow> (\<exists>fx'. r' = Some fx' \<and>
            dict_get (fx_payload fx') ''attempt_id'' = dict_get (fx_payload fx) ''attempt_id''))"

lemma ledger_step_progress: "ledger_step r r' \<Longrightarrow> ledger_progress r r'"
  by (induction rule: ledger_step.induct)
     (auto simp: ledger_progress_def ledger_level_def status_level_prepared dest!: legal_level)

lemma ledger_progress_trans: "ledger_progress a b \<Longrightarrow> ledger_progress b c \<Longrightarrow> ledger_progress a c"
  by (fastforce simp: ledger_progress_def)

lemma ledger_steps_progress: "ledger_step\<^sup>*\<^sup>* r r' \<Longrightarrow> ledger_progress r r'"
  by (induction rule: rtranclp_induct)
     (auto simp: ledger_progress_def [of r r] intro: ledger_progress_trans ledger_step_progress)

section \<open>The rows a commit writes\<close>

lemma EffectLedgerSlot_init_Inr: "EffectLedgerSlot_init s = Inr s' \<Longrightarrow> s' = s"
  by (simp add: EffectLedgerSlot_init_def checks_eq_Inr)

lemma effect_slot_Inr:
  assumes "effect_slot_from_mutation m = Inr slot"
  shows "ledger_effect_id slot = mut_effect_id m" "ledger_status slot = effect_status_value (mut_status m)"
    "distinct (map fst (mut_payload m)) \<Longrightarrow>
       dict_find (ledger_payload slot) ''attempt_id'' = Some (PStr (mut_attempt_id m))
       \<and> distinct (map fst (ledger_payload slot))"
proof -
  obtain p where p: "plain_dict (mut_payload m) = Inr p"
    and init: "EffectLedgerSlot_init
       \<lparr>ledger_effect_id = mut_effect_id m, ledger_status = effect_status_value (mut_status m),
        ledger_payload =
          (case mut_reconciliation m of
             None \<Rightarrow> dict_set ''attempt_id'' (PStr (mut_attempt_id m)) p
           | Some r \<Rightarrow> dict_set ''reconciliation'' (reconciliation_value r)
               (dict_set ''attempt_id'' (PStr (mut_attempt_id m)) p))\<rparr> = Inr slot"
    using assms(1) by (auto simp: effect_slot_from_mutation_def bind_res_eq_Inr Let_def)
  have "map fst p = map fst (mut_payload m)"
    using p plain_items_keys by (auto simp: plain_dict_eq split: if_splits)
  with EffectLedgerSlot_init_Inr [OF init] show "ledger_effect_id slot = mut_effect_id m"
      "ledger_status slot = effect_status_value (mut_status m)"
      "distinct (map fst (mut_payload m)) \<Longrightarrow>
         dict_find (ledger_payload slot) ''attempt_id'' = Some (PStr (mut_attempt_id m))
         \<and> distinct (map fst (ledger_payload slot))"
    by (auto split: option.splits)
qed

text \<open>The row a mutation becomes, and what it needs of the row it replaces.\<close>

lemma effect_row_Inr:
  assumes "effect_row authority t disp db m = Inr (e, fx)"
  shows "e = mut_effect_id m" "fx_status fx = effect_status_value (mut_status m)"
    "distinct (map fst (mut_payload m)) \<Longrightarrow>
       dict_get (fx_payload fx) ''attempt_id'' = PStr (mut_attempt_id m)"
    "mut_expected_status m = None \<Longrightarrow> db_effects db (own_session_id authority, mut_effect_id m) = None"
    "mut_expected_status m = Some s \<Longrightarrow>
       \<exists>old. db_effects db (own_session_id authority, mut_effect_id m) = Some old
         \<and> fx_status old = effect_status_value s
         \<and> dict_get (fx_payload old) ''attempt_id'' = PStr (mut_attempt_id m)"
    "disp = Some m \<Longrightarrow>
       dict_get (fx_payload fx) ''authorization_transition_id'' = PStr t
       \<and> dict_get (fx_payload fx) ''dispatch_owner_epoch'' = PInt (own_epoch authority)"
proof -
  obtain slot slot1 where slot: "effect_slot_from_mutation m = Inr slot"
    and slot1: "(case (mut_expected_status m, db_effects db (own_session_id authority, mut_effect_id m)) of
          (None, Some _) \<Rightarrow> effect_conflict ''effect already exists''
        | (None, None) \<Rightarrow> Inr slot
        | (Some _, None) \<Rightarrow> effect_conflict ''effect does not exist''
        | (Some s, Some fx) \<Rightarrow>
            (if fx_status fx \<noteq> effect_status_value s
             then effect_conflict ''effect status precondition failed''
             else if dict_get (fx_payload fx) ''attempt_id'' \<noteq> PStr (mut_attempt_id m)
             then effect_conflict ''effect attempt precondition failed''
             else EffectLedgerSlot_init
               (slot\<lparr>ledger_payload := dict_union (fx_payload fx) (ledger_payload slot)\<rparr>)))
        = Inr slot1"
    and final: "map_res (\<lambda>s. (ledger_effect_id s,
         \<lparr>fx_status = ledger_status s, fx_payload = ledger_payload s\<rparr>))
       (if disp = Some m
        then EffectLedgerSlot_init
          (slot1\<lparr>ledger_payload := dict_union (ledger_payload slot1) (dict_of
             [(''authorization_transition_id'', PStr t),
              (''dispatch_owner_epoch'', PInt (own_epoch authority))])\<rparr>)
        else Inr slot1) = Inr (e, fx)"
    using assms(1) by (auto simp: effect_row_def bind_res_eq_Inr)
  note slot = effect_slot_Inr [OF slot]
  have slot1_payload: "ledger_effect_id slot1 = mut_effect_id m"
    "ledger_status slot1 = effect_status_value (mut_status m)"
    "distinct (map fst (mut_payload m)) \<Longrightarrow>
       dict_get (ledger_payload slot1) ''attempt_id'' = PStr (mut_attempt_id m)"
    using slot slot1
    by (auto simp: effect_conflict_def dict_get_find dict_get_union_right simp del: dict_union.simps
        dest!: EffectLedgerSlot_init_Inr split: option.splits if_splits)
  show "e = mut_effect_id m" "fx_status fx = effect_status_value (mut_status m)"
    "distinct (map fst (mut_payload m)) \<Longrightarrow>
       dict_get (fx_payload fx) ''attempt_id'' = PStr (mut_attempt_id m)"
    using final slot1_payload
    by (auto simp: map_res_eq_Inr dict_get_union dict_of_def simp del: dict_union.simps
        dest!: EffectLedgerSlot_init_Inr split: if_splits)
  show "mut_expected_status m = None \<Longrightarrow> db_effects db (own_session_id authority, mut_effect_id m) = None"
    using slot1 by (auto simp: effect_conflict_def split: option.splits)
  show "mut_expected_status m = Some s \<Longrightarrow>
       \<exists>old. db_effects db (own_session_id authority, mut_effect_id m) = Some old
         \<and> fx_status old = effect_status_value s
         \<and> dict_get (fx_payload old) ''attempt_id'' = PStr (mut_attempt_id m)"
    using slot1 by (auto simp: effect_conflict_def split: option.splits if_splits)
  show "disp = Some m \<Longrightarrow>
       dict_get (fx_payload fx) ''authorization_transition_id'' = PStr t
       \<and> dict_get (fx_payload fx) ''dispatch_owner_epoch'' = PInt (own_epoch authority)"
    using final
    by (auto simp: map_res_eq_Inr dict_get_union dict_of_def simp del: dict_union.simps
        dest!: EffectLedgerSlot_init_Inr)
qed

lemma fold_slots:
  "fold (\<lambda>p m. m((sid, fst p) \<mapsto> snd p)) ps m (s, k) =
     (if s = sid then (case map_of (rev ps) k of None \<Rightarrow> m (s, k) | Some x \<Rightarrow> Some x) else m (s, k))"
  by (induction ps arbitrary: m) (auto simp: map_add_def split: option.splits)

lemma mutation_status:
  "EffectMutation_init m = Inr m \<Longrightarrow>
   (case mut_expected_status m of None \<Rightarrow> mut_status m = PREPARED
    | Some s \<Rightarrow> (s, mut_status m) \<in> set legal_effect_transitions)"
  by (auto simp: EffectMutation_init_def res_simps split: option.splits)

text \<open>Each mutation's row is the one the ledger holds afterwards, and nothing else changes.\<close>

lemma commit_effect_rows:
  assumes "prepare_commit fi authority u t c v fp fs db = Inr pc"
    and "write_commit authority u fs pc db = Inr db'"
    and one: "distinct (map mut_effect_id (normalized_effect_mutations u))"
  shows "m \<in> set (normalized_effect_mutations u) \<Longrightarrow>
      \<exists>fx. db_effects db' (own_session_id authority, mut_effect_id m) = Some fx
        \<and> effect_row authority t (dispatched_mutation (normalized_effect_mutations u)) db m
            = Inr (mut_effect_id m, fx)"
    and "(\<And>m. m \<in> set (normalized_effect_mutations u) \<Longrightarrow>
        key \<noteq> (own_session_id authority, mut_effect_id m)) \<Longrightarrow> db_effects db' key = db_effects db key"
proof -
  let ?ms = "normalized_effect_mutations u"
  let ?row = "effect_row authority t (dispatched_mutation ?ms) db"
  have rows: "traverse_res ?row ?ms = Inr (pc_effects pc)"
    using prepare_commit_parts [OF assms(1)] by metis
  have fst_row: "?row m = Inr p \<Longrightarrow> m \<in> set ?ms \<Longrightarrow> fst p = mut_effect_id m" for m p
    using effect_row_Inr(1) by (metis prod.collapse)
  have "map fst (pc_effects pc) = map mut_effect_id ?ms"
    by (rule nth_equalityI)
      (use rows fst_row traverse_res_length [OF rows] traverse_res_nth [OF rows] in auto)
  then have dist: "distinct (map fst (pc_effects pc))" using one by simp
  note table = write_commit_other_tables(3) [OF assms(2)]
  show "\<exists>fx. db_effects db' (own_session_id authority, mut_effect_id m) = Some fx
        \<and> ?row m = Inr (mut_effect_id m, fx)" if m: "m \<in> set ?ms" for m
  proof -
    obtain p where "p \<in> set (pc_effects pc)" "?row m = Inr p" "fst p = mut_effect_id m"
      using traverse_res_member [OF rows m] fst_row [OF _ m] by blast
    then have "map_of (rev (pc_effects pc)) (mut_effect_id m) = Some (snd p)"
      using dist by (metis map_of_is_SomeI map_of_rev_distinct prod.collapse)
    with \<open>?row m = Inr p\<close> \<open>fst p = _\<close> show ?thesis by (cases p) (simp add: table fold_slots)
  qed
  show "db_effects db' key = db_effects db key"
    if other: "\<And>m. m \<in> set ?ms \<Longrightarrow> key \<noteq> (own_session_id authority, mut_effect_id m)"
  proof (cases key)
    case (Pair s e)
    have "map_of (rev (pc_effects pc)) e = None" if "s = own_session_id authority"
    proof (rule ccontr)
      assume "map_of (rev (pc_effects pc)) e \<noteq> None"
      then obtain x where "(e, x) \<in> set (pc_effects pc)" by (auto dest: map_of_SomeD)
      with traverse_res_image [OF rows] fst_row other Pair that show False by fastforce
    qed
    with Pair show ?thesis by (simp add: table fold_slots)
  qed
qed

lemma commit_ledger_step:
  assumes "prepare_commit fi authority u t c v fp fs db = Inr pc"
    and "write_commit authority u fs pc db = Inr db'" and "unit_ok fi u"
  shows "ledger_step (db_effects db key) (db_effects db' key)"
proof (cases "\<exists>m \<in> set (normalized_effect_mutations u). key = (own_session_id authority, mut_effect_id m)")
  case False
  then have "db_effects db' key = db_effects db key"
    by (intro commit_effect_rows(2) [OF assms(1,2) unit_ok_parts(7) [OF assms(3)]]) auto
  then show ?thesis by (simp add: same)
next
  case True
  then obtain m where m: "m \<in> set (normalized_effect_mutations u)"
      and key: "key = (own_session_id authority, mut_effect_id m)" by blast
  note ok = unit_ok_parts(2,3) [OF assms(3) m]
  obtain fx where fx: "db_effects db' key = Some fx"
      and row: "effect_row authority t (dispatched_mutation (normalized_effect_mutations u)) db m
        = Inr (mut_effect_id m, fx)"
    using commit_effect_rows(1) [OF assms(1,2) unit_ok_parts(7) [OF assms(3)] m] key by auto
  note row = effect_row_Inr [OF row]
  show ?thesis
  proof (cases "mut_expected_status m")
    case None
    with row(4) key mutation_status [OF ok(1)] row(2) fx show ?thesis
      by (simp add: prepare)
  next
    case (Some s)
    then obtain old where "db_effects db key = Some old" "fx_status old = effect_status_value s"
        "dict_get (fx_payload old) ''attempt_id'' = PStr (mut_attempt_id m)"
      using row(5) key by blast
    with mutation_status [OF ok(1)] row(2) row(3) [OF ok(2)] fx Some show ?thesis
      by (auto intro: move)
  qed
qed

text \<open>Of a commit's unit the levels need only one mutation per effect, and each a legal one.\<close>

definition legal_mutation :: "EffectMutation \<Rightarrow> bool" where
  "legal_mutation m \<longleftrightarrow>
     (case mut_expected_status m of None \<Rightarrow> mut_status m = PREPARED
      | Some s \<Rightarrow> (s, mut_status m) \<in> set legal_effect_transitions)"

lemma commit_ledger_level:
  assumes "prepare_commit fi authority u t c v fp fs db = Inr pc"
    and "write_commit authority u fs pc db = Inr db'"
    and "distinct (map mut_effect_id (normalized_effect_mutations u))"
  shows "list_all legal_mutation (normalized_effect_mutations u) \<Longrightarrow>
      ledger_level (db_effects db key) \<le> ledger_level (db_effects db' key)"
    and "m \<in> set (normalized_effect_mutations u) \<Longrightarrow> mut_expected_status m = Some PREPARED \<Longrightarrow>
      mut_status m = DISPATCHED \<Longrightarrow>
      ledger_level (db_effects db (own_session_id authority, mut_effect_id m)) = 1
      \<and> ledger_level (db_effects db' (own_session_id authority, mut_effect_id m)) = 2"
proof -
  let ?ms = "normalized_effect_mutations u"
  have change: "\<exists>fx. db_effects db' (own_session_id authority, mut_effect_id m) = Some fx
      \<and> fx_status fx = effect_status_value (mut_status m)
      \<and> (case mut_expected_status m of
           None \<Rightarrow> db_effects db (own_session_id authority, mut_effect_id m) = None
         | Some s \<Rightarrow> \<exists>old. db_effects db (own_session_id authority, mut_effect_id m) = Some old
             \<and> fx_status old = effect_status_value s)" if m: "m \<in> set ?ms" for m
  proof -
    obtain fx where fx: "db_effects db' (own_session_id authority, mut_effect_id m) = Some fx"
        and row: "effect_row authority t (dispatched_mutation ?ms) db m = Inr (mut_effect_id m, fx)"
      using commit_effect_rows(1) [OF assms m] by auto
    note row = effect_row_Inr [OF row]
    show ?thesis using fx row(2,4,5) by (cases "mut_expected_status m") auto
  qed
  show "ledger_level (db_effects db key) \<le> ledger_level (db_effects db' key)"
    if legal: "list_all legal_mutation ?ms"
  proof (cases "\<exists>m \<in> set ?ms. key = (own_session_id authority, mut_effect_id m)")
    case False
    then have "db_effects db' key = db_effects db key"
      by (intro commit_effect_rows(2) [OF assms]) auto
    then show ?thesis by simp
  next
    case True
    then obtain m where m: "m \<in> set ?ms" "key = (own_session_id authority, mut_effect_id m)" by blast
    with legal have "legal_mutation m" by (simp add: list_all_iff)
    with change [OF m(1)] m(2) show ?thesis
      by (auto simp: legal_mutation_def ledger_level_def dest!: legal_level split: option.splits)
  qed
  show "ledger_level (db_effects db (own_session_id authority, mut_effect_id m)) = 1
      \<and> ledger_level (db_effects db' (own_session_id authority, mut_effect_id m)) = 2"
    if "m \<in> set ?ms" "mut_expected_status m = Some PREPARED" "mut_status m = DISPATCHED"
    using change [OF that(1)] that(2,3) by (auto simp: ledger_level_def status_level_def)
qed

section \<open>Every call implements it\<close>

text \<open>The other operations do not touch the tables of a transition.\<close>

definition attempt_put :: "local_db \<Rightarrow> local_db \<Rightarrow> bool" where
  "attempt_put db db' \<longleftrightarrow> db' = db \<or> (\<exists>k r. db' = put_attempt k r db)"

lemma attempt_put_simps [simp]: "attempt_put db db" "attempt_put db (put_attempt k r db)"
  unfolding attempt_put_def by blast+

lemma transition_frame:
  "transition_executor_attempt fi now authority e a auth x g ts target ref fenced db = Inr (b, db') \<Longrightarrow>
   attempt_put db db'"
  by (auto simp: transition_executor_attempt_def Let_def bind_res_eq_Inr conflict_def split: if_splits)

lemma attempt_result_frame:
  "attempt_result fi now authority e a auth c db = Inr (b, db') \<Longrightarrow>
   attempt_put db db'"
proof (cases c)
  case Reserve
  assume "attempt_result fi now authority e a auth c db = Inr (b, db')"
  with Reserve show ?thesis
    by (auto simp: reserve_executor_attempt_def Let_def bind_res_eq_Inr conflict_def split: if_splits)
next
  case Quiesce
  assume "attempt_result fi now authority e a auth c db = Inr (b, db')"
  with Quiesce show ?thesis
    by (auto simp: quiesce_claimed_executor_attempt_def Let_def bind_res_eq_Inr conflict_def
        split: if_splits)
qed (auto simp: mark_executor_attempt_started_def mark_executor_attempt_quiescent_def
    revoke_expired_executor_reservation_def dest: transition_frame)

lemma record_frame:
  "record_effect_reconciliation_evidence fi now authority v db = Inr (b, db') \<Longrightarrow>
   db' = db \<or> (\<exists>rows. db' = db\<lparr>db_evidence := db_evidence db @ rows\<rparr>)"
  by (auto simp: record_effect_reconciliation_evidence_def bind_res_eq_Inr
      split: if_splits option.splits)

lemma other_call_frame:
  assumes "\<nexists>authority u. c = Commit authority u"
  obtains (attempts) k r where "perform_call fr sh fi now c db = put_attempt k r db"
  | (evidence) rows where "perform_call fr sh fi now c db = db\<lparr>db_evidence := db_evidence db @ rows\<rparr>"
  | (registered) sid fs where "ensure_fact_source db sid = Inr (fs, perform_call fr sh fi now c db)"
  | (admitted) sid fs db0 k g p where "ensure_fact_source db sid = Inr (fs, db0)"
      "fs_dispatch_generation fs \<le> g"
      "perform_call fr sh fi now c db = write_admission sid k (fs_session_seq fs + 1) g p db0"
proof (cases c)
  case (Commit authority u)
  with assms show ?thesis by simp
next
  case (Attempt authority e a auth k)
  have same: "db\<lparr>db_evidence := db_evidence db @ []\<rparr> = db" by simp
  show ?thesis
  proof (cases "attempt_result fi now authority e a auth k db")
    case Inl
    with Attempt same show ?thesis by (intro evidence [of "[]"]) simp
  next
    case (Inr p)
    with Attempt same attempt_result_frame [of fi now authority e a auth k db "fst p" "snd p"]
    show ?thesis by (cases p) (auto simp: attempt_put_def intro: attempts evidence [of "[]"])
  qed
next
  case (Record authority v)
  have same: "db\<lparr>db_evidence := db_evidence db @ []\<rparr> = db" by simp
  show ?thesis
  proof (cases "record_effect_reconciliation_evidence fi now authority v db")
    case Inl
    with Record same show ?thesis by (intro evidence [of "[]"]) simp
  next
    case (Inr p)
    with Record same record_frame [of fi now authority v db "fst p" "snd p"]
    show ?thesis by (cases p) (auto intro: evidence [of "[]"] evidence)
  qed
next
  case (Admit authority k)
  have same: "db\<lparr>db_evidence := db_evidence db @ []\<rparr> = db" by simp
  show ?thesis
  proof (cases "admit_runtime_command fr fi now authority k db")
    case Inl
    with Admit same show ?thesis by (intro evidence [of "[]"]) simp
  next
    case (Inr q)
    obtain a db' where q: "q = (a, db')" by fastforce
    from Inr [unfolded q] show ?thesis
    proof (cases rule: admission_cases)
      case (again fs)
      with Admit Inr q show ?thesis by (intro registered) simp
    next
      case (fresh fs db0 g p)
      with Admit Inr q show ?thesis by (intro admitted [of _ fs db0 g]) simp_all
    qed
  qed
qed

lemma perform_ledger_step:
  assumes "store_call_ok fi c"
  shows "ledger_step (db_effects db key) (db_effects (perform_call fr sh fi now c db) key)"
proof (cases "\<exists>authority u. c = Commit authority u")
  case True
  then obtain authority u where c: "c = Commit authority u" by blast
  obtain r db' where result: "commit_transition fr sh fi now authority u db = (r, db')" by fastforce
  from result show ?thesis
  proof (cases rule: commit_transition_cases)
    case failed
    then show ?thesis using c result by (simp add: same)
  next
    case replayed
    then show ?thesis using c result by (auto simp: same elim: ensure_fact_source_Inr)
  next
    case (written k t v fp fs db0 pc)
    have "db_effects db0 = db_effects db" using written(7) by (auto elim: ensure_fact_source_Inr)
    with commit_ledger_step [OF written(10,11)] assms c result show ?thesis by simp
  qed
next
  case False
  then show ?thesis
    by (cases rule: other_call_frame [of c fr sh fi now db])
       (auto simp: same elim!: ensure_fact_source_Inr)
qed

lemma run_ledger_steps:
  "(store_step fr sh fi)\<^sup>*\<^sup>* db db' \<Longrightarrow> ledger_step\<^sup>*\<^sup>* (db_effects db key) (db_effects db' key)"
  by (induction rule: rtranclp_induct)
     (auto elim!: store_stepE intro: rtranclp.rtrancl_into_rtrancl perform_ledger_step)

end
