(* ===== verification/Local_Attempts.thy ===== *)
theory Local_Attempts
  imports Local_Ledger
begin

text \<open>
  Executor attempts over whole runs: the table's invariant, and the refinement of the abstract
  lifecycle by every call of the store.
\<close>

section \<open>The table\<close>

definition attempts_ok :: "(string \<Rightarrow> datetime res) \<Rightarrow> local_db \<Rightarrow> bool" where
  "attempts_ok fi db \<longleftrightarrow> (\<forall>key row. db_attempts db key = Some row \<longrightarrow>
     (\<exists>a. attempt_valid fi a \<and> attempt_key a = key \<and> row = attempt_row a))"

definition attempt_at :: "(string \<Rightarrow> datetime res) \<Rightarrow> local_db \<Rightarrow> attempt_row_key \<Rightarrow> ExecutorAttemptRecord option" where
  "attempt_at fi db key = (case stored_attempt fi db key of Inl _ \<Rightarrow> None | Inr x \<Rightarrow> x)"

lemma stored_attempt_row:
  "db_attempts db key = Some (attempt_row a) \<Longrightarrow> attempt_valid fi a \<Longrightarrow>
   stored_attempt fi db key = Inr (Some a)"
  using attempts.decode_encode [of fi a "attempt_payload a"]
  by (auto simp: stored_attempt_def attempt_row_def optional_res_def)

lemma attempts_ok_cases:
  assumes "attempts_ok fi db"
  obtains (absent) "db_attempts db key = None" "stored_attempt fi db key = Inr None"
    | (present) a where "db_attempts db key = Some (attempt_row a)" "attempt_valid fi a"
        "attempt_key a = key" "stored_attempt fi db key = Inr (Some a)"
proof (cases "db_attempts db key")
  case None
  then show ?thesis by (intro absent) (auto simp: stored_attempt_def optional_res_def)
next
  case (Some row)
  with assms obtain a where "attempt_valid fi a" "attempt_key a = key" "row = attempt_row a"
    unfolding attempts_ok_def by blast
  with Some show ?thesis by (intro present [of a]) (auto intro: stored_attempt_row)
qed

lemma attempts_ok_stored:
  "attempts_ok fi db \<Longrightarrow> stored_attempt fi db key = Inr (Some a) \<Longrightarrow>
   attempt_valid fi a \<and> attempt_key a = key \<and> db_attempts db key = Some (attempt_row a)"
  by (cases rule: attempts_ok_cases [of fi db key]) auto

lemma attempt_at_Some:
  "attempts_ok fi db \<Longrightarrow> attempt_at fi db key = Some a \<longleftrightarrow> stored_attempt fi db key = Inr (Some a)"
  by (cases rule: attempts_ok_cases [of fi db key]) (auto simp: attempt_at_def)

lemma attempts_ok_cong: "db_attempts db' = db_attempts db \<Longrightarrow> attempts_ok fi db' \<longleftrightarrow> attempts_ok fi db"
  by (simp add: attempts_ok_def)

lemma attempt_at_cong: "db_attempts db' key = db_attempts db key \<Longrightarrow> attempt_at fi db' key = attempt_at fi db key"
  by (simp add: attempt_at_def stored_attempt_def)

section \<open>The abstract table\<close>

inductive slot_step :: "ExecutorAttemptRecord option \<Rightarrow> ExecutorAttemptRecord option \<Rightarrow> bool" where
  keep: "slot_step x x"
| dispatch: "att_status a = AUTHORIZED_UNCLAIMED \<Longrightarrow> slot_step None (Some a)"
| advance: "attempt_step a b \<Longrightarrow> slot_step (Some a) (Some b)"

inductive_cases slot_step_SomeE: "slot_step (Some a) x"

lemma slot_steps_Some:
  "slot_step\<^sup>*\<^sup>* (Some a) x \<Longrightarrow> \<exists>b. x = Some b \<and> attempt_step\<^sup>*\<^sup>* a b"
proof (induction rule: rtranclp_induct)
  case (step y z)
  then obtain b where b: "y = Some b" "attempt_step\<^sup>*\<^sup>* a b" by blast
  with step(2) show ?case
    by (auto elim!: slot_step_SomeE intro: rtranclp.rtrancl_into_rtrancl)
qed simp

section \<open>What the store does to it\<close>

lemma attempt_step_row:
  "attempt_step c b \<Longrightarrow> attempt_key b = attempt_key c \<and> att_dispatch_owner_epoch b = att_dispatch_owner_epoch c"
  using attempt_step_progress by (auto simp: attempt_progress_def)

lemma put_attempt_ok:
  assumes "attempts_ok fi db" "stored_attempt fi db key = Inr (Some c)" "attempt_step c b"
    "attempt_valid fi b"
  shows "db_attempts (put_attempt key b db) = (db_attempts db)(key \<mapsto> attempt_row b)"
    "attempts_ok fi (put_attempt key b db)"
    "attempt_at fi (put_attempt key b db) = (attempt_at fi db)(key \<mapsto> b)"
proof -
  note c = attempts_ok_stored [OF assms(1,2)]
  show table: "db_attempts (put_attempt key b db) = (db_attempts db)(key \<mapsto> attempt_row b)"
    using c attempt_step_row [OF assms(3)] by (auto simp: put_attempt_def attempt_row_def)
  show "attempts_ok fi (put_attempt key b db)"
    unfolding attempts_ok_def table
    using assms(1,4) c attempt_step_row [OF assms(3)] by (auto simp: attempts_ok_def)
  show "attempt_at fi (put_attempt key b db) = (attempt_at fi db)(key \<mapsto> b)"
    using stored_attempt_row [of "put_attempt key b db" key b fi] assms(4) c
    by (auto simp: fun_eq_iff attempt_at_def table)
qed

lemma attempt_update_ok:
  assumes "attempts_ok fi db" "attempt_update fi key b db db'"
  shows "attempts_ok fi db' \<and> slot_step (attempt_at fi db k) (attempt_at fi db' k)
    \<and> attempt_at fi db' key = Some b"
  using assms(2)
proof (cases "db' = db \<and> stored_attempt fi db key = Inr (Some b)")
  case True
  then show ?thesis using assms(1) by (auto simp: attempt_at_def keep)
next
  case False
  then obtain a where a: "stored_attempt fi db key = Inr (Some a)" "attempt_step a b"
      "attempt_valid fi b" "db' = put_attempt key b db"
    using assms(2) by (auto simp: attempt_update_def)
  note ok = put_attempt_ok [OF assms(1) a(1,2,3)]
  show ?thesis
    using ok(2,3) a by (auto simp: attempt_at_def keep advance)
qed

lemma attempt_result_update:
  assumes "attempts_ok fi db" "attempt_call_ok fi c"
    and "attempt_result fi now authority e a auth c db = Inr (b, db')"
  shows "attempt_update fi (own_session_id authority, e, a, auth) b db db'"
proof -
  have valid: "\<And>c. stored_attempt fi db (own_session_id authority, e, a, auth) = Inr (Some c) \<Longrightarrow>
      attempt_valid fi c"
    using attempts_ok_stored [OF assms(1)] by blast
  show ?thesis
  proof (cases c)
    case Reserve
    with assms(2,3) show ?thesis by (auto intro: reserve_update [OF _ valid])
  next
    case Quiesce
    with assms(2,3) show ?thesis by (auto intro: quiesce_update [OF _ valid])
  qed (use assms(3) in \<open>auto simp: mark_executor_attempt_started_def
        mark_executor_attempt_quiescent_def revoke_expired_executor_reservation_def
        intro: transition_update [OF _ valid]\<close>)
qed

lemma closeout_attempt_Inr:
  assumes "closeout_attempt fi authority u db = Inr (Some a)" "attempts_ok fi db" "unit_ok fi u"
  obtains g c where "unit_unstarted_dispatch_closeout u = Some g"
    "attempt_key a = (own_session_id authority, close_effect_id g, close_attempt_id g,
       close_authorization_transition_id g)"
    "stored_attempt fi db (attempt_key a) = Inr (Some c)"
    "att_status c = AUTHORIZED_UNCLAIMED" "attempt_step c a" "attempt_valid fi a"
    "att_status a = QUIESCENT"
proof -
  obtain g c where g: "unit_unstarted_dispatch_closeout u = Some g"
    and c: "stored_attempt fi db (own_session_id authority, close_effect_id g, close_attempt_id g,
       close_authorization_transition_id g) = Inr (Some c)"
    and un: "att_status c = AUTHORIZED_UNCLAIMED"
    and init: "ExecutorAttemptRecord_init
       (c\<lparr>att_status := QUIESCENT, att_executor_id := Some (close_executor_id g),
          att_claim_generation := 1, att_reservation_lease_expires_at := Some (close_closed_at g),
          att_quiescence_evidence_ref := Some (close_evidence_ref g)\<rparr>) = Inr a"
    using assms(1)
    by (auto simp: closeout_attempt_def conflict_def res_simps split: option.splits if_splits)
  note ok = attempts_ok_stored [OF assms(2) c]
  from attempt_valid_lease [OF conjunct1 [OF ok] init] unit_ok_parts(6) [OF assms(3) g]
  have a: "a = c\<lparr>att_status := QUIESCENT, att_executor_id := Some (close_executor_id g),
          att_claim_generation := 1, att_reservation_lease_expires_at := Some (close_closed_at g),
          att_quiescence_evidence_ref := Some (close_evidence_ref g)\<rparr>" "attempt_valid fi a"
    by auto
  from a(1) ok have key: "attempt_key a = (own_session_id authority, close_effect_id g,
      close_attempt_id g, close_authorization_transition_id g)"
    by (simp add: attempt_key_def)
  show ?thesis
    using that [OF g key _ un _ a(2)] c key a(1)
      attempt_step.close [OF un, where x = "close_executor_id g" and t = "close_closed_at g"
        and r = "close_evidence_ref g"] by simp
qed

lemma dispatched_attempt_Inr:
  assumes "dispatched_attempt authority u t fs disp db = Inr (Some a)"
  obtains m where "disp = Some m" "db_attempts db (attempt_key a) = None"
    "attempt_key a = (own_session_id authority, mut_effect_id m, mut_attempt_id m, t)"
    "att_status a = AUTHORIZED_UNCLAIMED" "att_dispatch_owner_epoch a = own_epoch authority"
    "attempt_valid fi a"
proof -
  obtain m b where m: "disp = Some m" and init: "ExecutorAttemptRecord_init b = Inr a"
    and b: "attempt_key b = (own_session_id authority, mut_effect_id m, mut_attempt_id m, t)"
      "att_status b = AUTHORIZED_UNCLAIMED" "att_dispatch_owner_epoch b = own_epoch authority"
      "att_reservation_lease_expires_at b = None"
    and fresh: "db_attempts db (attempt_key a) = None"
    using assms
    by (auto simp: dispatched_attempt_def conflict_def bind_res_eq_Inr attempt_key_def
        split: option.splits if_splits)
  have "a = b" using ExecutorAttemptRecord_init_Inr [OF init] .
  with m init b fresh show ?thesis by (intro that) (auto simp: attempt_valid_def)
qed

lemma commit_attempts:
  assumes "prepare_commit fi authority u t c v fp fs db = Inr pc"
    and "write_commit authority u fs pc db = Inr db'" and "attempts_ok fi db" and "unit_ok fi u"
  shows "attempts_ok fi db'" "slot_step (attempt_at fi db k) (attempt_at fi db' k)"
proof -
  have parts: "closeout_attempt fi authority u db = Inr (pc_closeout pc)"
      "dispatched_attempt authority u t fs (dispatched_mutation (normalized_effect_mutations u)) db
        = Inr (pc_attempt pc)"
    using prepare_commit_parts [OF assms(1)] by metis+
  define db1 where "db1 = write_closeout pc db"
  have one: "attempts_ok fi db1 \<and> slot_step (attempt_at fi db k) (attempt_at fi db1 k)
      \<and> (\<forall>k. db_attempts db k = None \<longrightarrow> db_attempts db1 k = None)" for k
  proof (cases "pc_closeout pc")
    case None
    then show ?thesis using assms(3) by (simp add: db1_def write_closeout_def keep)
  next
    case (Some a)
    with parts(1) have "closeout_attempt fi authority u db = Inr (Some a)" by simp
    then obtain g b where b: "stored_attempt fi db (attempt_key a) = Inr (Some b)"
        "attempt_step b a" "attempt_valid fi a"
      by (rule closeout_attempt_Inr [OF _ assms(3,4)]) blast+
    have "db1 = put_attempt (attempt_key a) a db" by (simp add: db1_def write_closeout_def Some)
    with put_attempt_ok(2,3) [OF assms(3) b] b attempts_ok_stored [OF assms(3) b(1)] show ?thesis
      by (auto simp: attempt_at_def keep advance put_attempt_def)
  qed
  have table: "db_attempts db' = db_attempts (write_attempt pc db1)"
    using write_commit_other_tables(7) [OF assms(2)] by (simp add: db1_def)
  have "attempts_ok fi (write_attempt pc db1)
      \<and> slot_step (attempt_at fi db k) (attempt_at fi (write_attempt pc db1) k)"
  proof (cases "pc_attempt pc")
    case None
    then show ?thesis using one by (simp add: write_attempt_def)
  next
    case (Some a)
    with parts(2) obtain m where a: "db_attempts db (attempt_key a) = None"
        "att_status a = AUTHORIZED_UNCLAIMED" "attempt_valid fi a"
      using dispatched_attempt_Inr [of authority u t fs _ db a fi] by metis
    define db2 where "db2 = db1\<lparr>db_attempts := (db_attempts db1)(attempt_key a \<mapsto> attempt_row a)\<rparr>"
    have db2: "write_attempt pc db1 = db2" by (simp add: write_attempt_def Some db2_def)
    have absent: "attempt_at fi db (attempt_key a) = None"
      using a(1) by (simp add: attempt_at_def stored_attempt_def optional_res_def)
    have at: "attempt_at fi db2 k = (if k = attempt_key a then Some a else attempt_at fi db1 k)"
      using stored_attempt_row [of db2 "attempt_key a" a fi] a(3)
      by (auto simp: attempt_at_def db2_def stored_attempt_def)
    have "attempts_ok fi db2" using one a by (auto simp: attempts_ok_def db2_def)
    with one a absent at db2 show ?thesis by (auto intro: dispatch)
  qed
  then show "attempts_ok fi db'" "slot_step (attempt_at fi db k) (attempt_at fi db' k)"
    using attempts_ok_cong [OF table] attempt_at_cong [of db' k "write_attempt pc db1"] table by auto
qed

lemma perform_attempts:
  assumes "attempts_ok fi db" "store_call_ok fi c"
  shows "attempts_ok fi (perform_call fr sh fi now c db)
    \<and> slot_step (attempt_at fi db k) (attempt_at fi (perform_call fr sh fi now c db) k)"
proof (cases c)
  case (Commit authority u)
  obtain r db' where result: "commit_transition fr sh fi now authority u db = (r, db')" by fastforce
  have same: "attempts_ok fi db' \<and> slot_step (attempt_at fi db k) (attempt_at fi db' k)"
    if "db_attempts db' = db_attempts db" for db'
    using that assms(1) attempts_ok_cong [OF that] attempt_at_cong [of db' k db] by (auto intro: keep)
  from result show ?thesis
  proof (cases rule: commit_transition_cases)
    case failed
    with same show ?thesis using Commit result by simp
  next
    case replayed
    then have "db_attempts db' = db_attempts db" by (auto elim: ensure_fact_source_Inr)
    with same show ?thesis using Commit result by simp
  next
    case (written k' t v fp fs db0 pc)
    have tables: "db_attempts db0 = db_attempts db"
      using written(7) by (auto elim: ensure_fact_source_Inr)
    then have "attempts_ok fi db0" "attempt_at fi db0 k = attempt_at fi db k"
      using assms(1) attempts_ok_cong attempt_at_cong by metis+
    moreover have "unit_ok fi u" using assms(2) Commit by simp
    ultimately show ?thesis
      using commit_attempts(1) [OF written(10,11)] commit_attempts(2) [OF written(10,11), where k = k]
        Commit result by simp
  qed
next
  case (Attempt authority e a auth k')
  show ?thesis
  proof (cases "attempt_result fi now authority e a auth k' db")
    case Inl
    with Attempt assms(1) show ?thesis by (simp add: keep)
  next
    case (Inr p)
    obtain b db' where p: "p = (b, db')" by fastforce
    with attempt_result_update [OF assms(1), of k' now authority e a auth b db'] Attempt Inr assms(2)
    have "attempt_update fi (own_session_id authority, e, a, auth) b db db'" by simp
    from attempt_update_ok [OF assms(1) this] Attempt Inr p show ?thesis by simp
  qed
next
  case (Record authority v)
  then have "\<nexists>authority u. c = Commit authority u" by simp
  with Record assms(1) show ?thesis
    by (cases "record_effect_reconciliation_evidence fi now authority v db")
       (auto dest!: record_frame simp: keep attempts_ok_def attempt_at_def stored_attempt_def)
next
  case (Admit authority k')
  have "db_attempts (perform_call fr sh fi now c db) = db_attempts db"
  proof (cases "admit_runtime_command fr fi now authority k' db")
    case (Inr q)
    obtain a db' where q: "q = (a, db')" by fastforce
    from Inr [unfolded q] have "db_attempts db' = db_attempts db"
      by (cases rule: admission_cases) (auto elim!: ensure_fact_source_Inr)
    then show ?thesis by (simp add: Admit Inr q)
  qed (simp add: Admit)
  then have "attempts_ok fi (perform_call fr sh fi now c db)"
    "attempt_at fi (perform_call fr sh fi now c db) k = attempt_at fi db k"
    using assms(1) attempts_ok_cong attempt_at_cong by metis+
  then show ?thesis by (simp add: keep)
qed

lemma run_attempts:
  assumes "(store_step fr sh fi)\<^sup>*\<^sup>* db db'" "attempts_ok fi db"
  shows "attempts_ok fi db' \<and> slot_step\<^sup>*\<^sup>* (attempt_at fi db k) (attempt_at fi db' k)"
  using assms
proof (induction rule: rtranclp_induct)
  case (step y z)
  then show ?case
    by (auto elim!: store_stepE dest: perform_attempts intro: rtranclp.rtrancl_into_rtrancl)
qed simp

end
