(* ===== verification/Local_Results.thy ===== *)
theory Local_Results
  imports Local_Attempts
begin

text \<open>
  What a transaction that wrote reports, and that its receipt reads back as the same commit.
\<close>

section \<open>The committed facts\<close>

lemma EventRecord_init_Inr: "EventRecord_init f = Inr g \<Longrightarrow> g = f"
  by (simp add: EventRecord_init_def checks_eq_Inr)

lemma child_fact_Inr:
  "child_fact b f = Inr g \<Longrightarrow> fact_session_id g = fact_session_id f
     \<and> fact_created_at g = fact_created_at f"
  by (auto simp: child_fact_def Let_def dest!: EventRecord_init_Inr split: option.splits)

lemma string_keys_iff:
  "\<not> list_ex (\<lambda>(k, _). \<not> is_str k) d \<longleftrightarrow> fst ` set d \<subseteq> {k. is_str k}"
  by (auto simp: list_ex_iff)

lemma keys_dict_union: "fst ` set (dict_union d e) = fst ` set d \<union> fst ` set e"
  by (induction d e rule: dict_union.induct) (auto simp: dom_update)

lemma string_keys_union:
  "\<not> list_ex (\<lambda>(k, _). \<not> is_str k) d \<Longrightarrow> \<not> list_ex (\<lambda>(k, _). \<not> is_str k) (dict_union d (dict_of kvs))"
  using string_keys_dict_of [of kvs] by (simp only: string_keys_iff keys_dict_union) blast

lemma child_fact_ok:
  assumes "child_fact b f = Inr g" "fact_ok fi f"
  shows "fact_ok fi g"
proof (cases b)
  case None
  with assms show ?thesis by (simp add: child_fact_def)
next
  case (Some x)
  with assms(1) obtain kvs where "g = f\<lparr>fact_payload := dict_union (fact_payload f) (dict_of kvs)\<rparr>"
    unfolding child_fact_def Let_def by (auto dest: EventRecord_init_Inr simp del: dict_union.simps)
  with assms(2) string_keys_union show ?thesis by (simp add: fact_ok_def)
qed

lemma projected_facts_Inr:
  assumes "projected_facts sid r facts db = Inr gs"
  shows "length gs = length facts"
    "i < length facts \<Longrightarrow> fact_session_id (gs ! i) = fact_session_id (facts ! i)"
    "list_all (fact_ok fi) facts \<Longrightarrow> list_all (fact_ok fi) gs"
proof -
  obtain b where t: "traverse_res (child_fact b) facts = Inr gs"
    using assms by (auto simp: projected_facts_def bind_res_eq_Inr)
  show "length gs = length facts" by (rule traverse_res_length [OF t])
  show "i < length facts \<Longrightarrow> fact_session_id (gs ! i) = fact_session_id (facts ! i)"
    using traverse_res_nth [OF t] child_fact_Inr by blast
  show "list_all (fact_ok fi) facts \<Longrightarrow> list_all (fact_ok fi) gs"
    using traverse_res_image [OF t] child_fact_ok by (fastforce simp: list_all_iff)
qed

text \<open>A committed fact: validated, at its place after the session's last, in the epoch.\<close>

lemma stamped_facts_nth:
  assumes "stamped_facts fs facts = Inr gs" "i < length facts"
  shows "gs ! i = (facts ! i)\<lparr>fact_session_seq := Some (str_of_int (fs_session_seq fs + int i + 1)),
      fact_projection_epoch := Some (str_of_int (fs_projection_epoch fs))\<rparr>
    \<and> EventRecord_init (gs ! i) = Inr (gs ! i)"
proof -
  have "stamped_fact fs i (facts ! i) = Inr (gs ! i)"
    using traverse_res_nth [OF assms(1) [unfolded stamped_facts_def], of i] assms(2) by simp
  then have "EventRecord_init ((facts ! i)\<lparr>
      fact_session_seq := Some (str_of_int (fs_session_seq fs + int i + 1)),
      fact_projection_epoch := Some (str_of_int (fs_projection_epoch fs))\<rparr>) = Inr (gs ! i)"
    by (auto simp: stamped_fact_def bind_res_eq_Inr format_u64_def split: if_splits)
  from EventRecord_init_Inr [OF this] this show ?thesis by simp
qed

lemma stamped_facts_length: "stamped_facts fs facts = Inr gs \<Longrightarrow> length gs = length facts"
  using traverse_res_length by (fastforce simp: stamped_facts_def)

lemma commit_facts:
  assumes "prepare_commit fi authority u t c v fp fs db = Inr pc"
    and "commit_prechecks authority u = Inr ()"
  shows "length (pc_facts pc) = length (unit_facts u)"
    "pc_range pc = commit_range fs (pc_facts pc)"
    "i < length (pc_facts pc) \<Longrightarrow>
       fact_session_id (pc_facts pc ! i) = own_session_id authority
       \<and> fact_session_seq (pc_facts pc ! i) = Some (str_of_int (fs_session_seq fs + int i + 1))
       \<and> fact_projection_epoch (pc_facts pc ! i) = Some (str_of_int (fs_projection_epoch fs))
       \<and> EventRecord_init (pc_facts pc ! i) = Inr (pc_facts pc ! i)"
    "list_all (fact_ok fi) (unit_facts u) \<Longrightarrow> list_all (fact_ok fi) (pc_facts pc)"
proof -
  obtain facts where facts: "projected_facts (own_session_id authority) (cas_run_id c) (unit_facts u) db
        = Inr facts"
      "stamped_facts fs facts = Inr (pc_facts pc)" "pc_range pc = commit_range fs facts"
    using prepare_commit_parts [OF assms(1)] by metis
  note proj = projected_facts_Inr [OF facts(1)]
  have len: "length (pc_facts pc) = length facts" by (rule stamped_facts_length [OF facts(2)])
  show "length (pc_facts pc) = length (unit_facts u)" using len proj(1) by simp
  have "facts = [] \<longleftrightarrow> pc_facts pc = []" using len by (metis length_0_conv)
  then show "pc_range pc = commit_range fs (pc_facts pc)"
    using len facts(3) by (simp add: commit_range_def)
  have own: "fact_session_id (unit_facts u ! i) = own_session_id authority" if "i < length (unit_facts u)" for i
    using assms(2) nth_mem [OF that] by (auto simp: commit_prechecks_def checks_eq_Inr list_ex_iff)
  show "i < length (pc_facts pc) \<Longrightarrow>
       fact_session_id (pc_facts pc ! i) = own_session_id authority
       \<and> fact_session_seq (pc_facts pc ! i) = Some (str_of_int (fs_session_seq fs + int i + 1))
       \<and> fact_projection_epoch (pc_facts pc ! i) = Some (str_of_int (fs_projection_epoch fs))
       \<and> EventRecord_init (pc_facts pc ! i) = Inr (pc_facts pc ! i)"
    using stamped_facts_nth [OF facts(2), of i] own [of i] proj(1) proj(2) [of i] len by auto
  show "list_all (fact_ok fi) (unit_facts u) \<Longrightarrow> list_all (fact_ok fi) (pc_facts pc)"
  proof -
    assume "list_all (fact_ok fi) (unit_facts u)"
    then have "list_all (fact_ok fi) facts" by (rule proj(3))
    then show ?thesis
      using stamped_facts_nth [OF facts(2)] len by (simp add: list_all_length fact_ok_def)
  qed
qed

section \<open>The commit that is reported\<close>

lemma fact_source_from_row_Inr:
  assumes "fact_source_from_row sid r = Inr fs"
  shows "fs_projection_epoch fs = fr_projection_epoch r" "fs_session_seq fs = fr_session_seq r"
    "fs_dispatch_generation fs = fr_dispatch_generation r" "fs_projection fs = fr_projection r"
    "0 \<le> fr_projection_epoch r" "0 \<le> fr_session_seq r" "fr_projection r \<noteq> []" "sid \<noteq> []"
  using assms
  by (auto simp: fact_source_from_row_def bind_res_eq_Inr map_res_eq_Inr format_u64_def
      SessionFactSourceState_init_def checks_eq_Inr split: if_splits)

text \<open>Whatever a transaction has written, its result can be built: no commit is lost to an error
  raised after the fact.\<close>

lemma written_commit_built:
  assumes "prepare_commit fi authority u t c v fp fs db = Inr pc"
    and "commit_prechecks authority u = Inr ()"
    and "fact_source_from_row (own_session_id authority) r = Inr fs"
    and "cas_projection_epoch c = fs_projection_epoch fs"
  shows "written_commit fs pc = Inr
    \<lparr>auth_event = None, auth_projection = fs_projection fs,
     auth_projection_epoch = str_of_int (fs_projection_epoch fs), auth_raw_cursor = pc_cursor pc,
     auth_idempotent = False, auth_state_version = Some (pc_state pc), auth_facts = pc_facts pc,
     auth_transition_receipt = Some (pc_receipt pc)\<rparr>"
proof -
  note source = fact_source_from_row_Inr [OF assms(3)]
  note facts = commit_facts [OF assms(1,2)]
  from assms(1) obtain notices where cursor:
      "format_u64 (case pc_range pc of None \<Rightarrow> fs_session_seq fs | Some (_, final) \<Rightarrow> final)
       = Inr (raw_session_seq (pc_cursor pc))" "raw_session_id (pc_cursor pc) = own_session_id authority"
    and ref: "commit_ref_for t (pc_range pc) = Inr (osv_commit_ref (pc_state pc))"
    and state: "OperationStateVersion_init
       \<lparr>osv_run_id = cas_run_id c, osv_revision = cas_revision c + 1,
        osv_projection_epoch = cas_projection_epoch c,
        osv_commit_ref = osv_commit_ref (pc_state pc), osv_value = v\<rparr> = Inr (pc_state pc)"
    and receipt: "pc_receipt pc = \<lparr>rcpt_session_id = own_session_id authority,
       rcpt_projection_epoch = cas_projection_epoch c,
       rcpt_transition_id = t, rcpt_mutation_fingerprint = fp, rcpt_state_version = pc_state pc,
       rcpt_facts = notices, rcpt_effect_plans = unit_effect_plans u\<rparr>"
    by (rule prepare_commit_parts)
  have epoch: "osv_projection_epoch (pc_state pc) = cas_projection_epoch c"
    using state unfolding OperationStateVersion_init_def res_simps by (metis
      OperationStateVersion.select_convs(3) OperationStateVersion.update_convs(5))
  define commit where "commit = \<lparr>auth_event = None, auth_projection = fs_projection fs,
     auth_projection_epoch = str_of_int (fs_projection_epoch fs), auth_raw_cursor = pc_cursor pc,
     auth_idempotent = False, auth_state_version = Some (pc_state pc), auth_facts = pc_facts pc,
     auth_transition_receipt = Some (pc_receipt pc)\<rparr>"
  have per_fact: "list_all (\<lambda>x. x = None) (committed_fact_checks commit f)"
    if "f \<in> set (pc_facts pc)" for f
    using that facts(3) cursor(2)
    by (auto simp: in_set_conv_nth committed_fact_checks_def commit_def)
  have bounds: "list_all (\<lambda>x. x = None) (commit_range_checks commit (osv_commit_ref (pc_state pc)))"
  proof (cases "pc_facts pc = []")
    case True
    with facts(2) ref show ?thesis
      by (auto simp: commit_range_checks_def commit_def commit_range_def commit_ref_for_def
          optional_res_def res_simps dest!: CommitRef_init_parts)
  next
    case False
    then have len: "0 < length (pc_facts pc)" by simp
    have ends: "fact_session_seq (hd (pc_facts pc)) = Some (str_of_int (fs_session_seq fs + 1))"
      "fact_session_seq (last (pc_facts pc))
         = Some (str_of_int (fs_session_seq fs + int (length (pc_facts pc))))"
      using facts(3) [OF len] facts(3) [of "length (pc_facts pc) - 1"] False len
      by (simp_all add: hd_conv_nth last_conv_nth of_nat_diff)
    have range: "pc_range pc = Some (fs_session_seq fs + 1, fs_session_seq fs + int (length (pc_facts pc)))"
      using facts(2) False by (simp add: commit_range_def)
    with ref have "cr_fact_seq_start (osv_commit_ref (pc_state pc)) = Some (str_of_int (fs_session_seq fs + 1))"
      "cr_fact_seq_end (osv_commit_ref (pc_state pc))
         = Some (str_of_int (fs_session_seq fs + int (length (pc_facts pc))))"
      by (auto simp: commit_ref_for_def optional_res_def res_simps format_u64_def
          dest!: CommitRef_init_parts split: if_splits)
    moreover have "raw_session_seq (pc_cursor pc) = str_of_int (fs_session_seq fs + int (length (pc_facts pc)))"
      using cursor(1) range by (auto simp: format_u64_def split: if_splits)
    ultimately show ?thesis using False ends by (simp add: commit_range_checks_def commit_def)
  qed
  have "AuthoritativeCommit_init commit = Inr commit"
  proof -
    have "parse_u64 ''projection_epoch'' (auth_projection_epoch commit)
        = Inr (nat (fs_projection_epoch fs))"
      using source(1,5) by (simp add: commit_def parse_u64_Inr str_of_int_nat)
    moreover have "list_all (\<lambda>x. x = None)
        (transition_commit_checks commit (nat (fs_projection_epoch fs)) (pc_state pc) (pc_receipt pc))"
      using per_fact bounds source(1,5) assms(4) epoch receipt cursor(2)
      by (auto simp: transition_commit_checks_def commit_def list_all_iff)
    ultimately show ?thesis
      using source(4,7)
      by (simp add: AuthoritativeCommit_init_def) (simp add: commit_def)
  qed
  with source show ?thesis by (simp add: written_commit_def format_u64_def commit_def)
qed

lemma commit_init_idempotent:
  assumes "AuthoritativeCommit_init c = Inr c"
  shows "AuthoritativeCommit_init (c\<lparr>auth_idempotent := b\<rparr>) = Inr (c\<lparr>auth_idempotent := b\<rparr>)"
proof -
  have same: "legacy_commit_checks (c\<lparr>auth_idempotent := b\<rparr>) e = legacy_commit_checks c e"
    "transition_commit_checks (c\<lparr>auth_idempotent := b\<rparr>) n sv r = transition_commit_checks c n sv r" for e n sv r
    by (simp_all add: legacy_commit_checks_def transition_commit_checks_def
        committed_fact_checks_def [abs_def] commit_range_checks_def)
  from assms show ?thesis
    by (auto simp: AuthoritativeCommit_init_def bind_res_eq_Inr checks_eq_Inr same
        split: option.splits)
qed

section \<open>The receipt reads back\<close>

lemma OperationStateVersion_init_idem:
  assumes "OperationStateVersion_init x = Inr y"
  shows "OperationStateVersion_init y = Inr y"
proof -
  obtain m where "freeze_mapping ''value'' (osv_value x) = Inr m" "y = x\<lparr>osv_value := m\<rparr>"
      "checks [require_non_empty ''run_id'' (osv_run_id x),
           require_non_negative_int ''revision'' (osv_revision x),
           require_non_negative_int ''projection_epoch'' (osv_projection_epoch x)] x = Inr x"
    using assms by (auto simp: OperationStateVersion_init_def res_simps)
  then show ?thesis
    using freeze_mapping_frozen [of "''value''" "osv_value x" m]
    by (auto simp: OperationStateVersion_init_def res_simps)
qed

lemma commit_ref_for_ok: "commit_ref_for t r = Inr ref \<Longrightarrow> CommitRef_init ref = Inr ref"
  unfolding commit_ref_for_def bind_res_eq_Inr using CommitRef_init_parts by metis

lemma commit_receipt_reads_back:
  assumes "prepare_commit fi authority u t c v fp fs db = Inr pc"
    and "commit_prechecks authority u = Inr ()" and "unit_ok fi u"
    and "0 \<le> fs_projection_epoch fs" and "cas_projection_epoch c = fs_projection_epoch fs"
  shows "transition_commit_from_payload fi (own_session_id authority) t (cas_projection_epoch c) fp
      (pc_payload pc) = Inr (pc_state pc, pc_facts pc, pc_receipt pc, pc_cursor pc)"
proof -
  let ?sid = "own_session_id authority"
  note facts = commit_facts [OF assms(1,2)]
  from assms(1) obtain notices where cursor:
      "RawCursor_init (pc_cursor pc) = Inr (pc_cursor pc)" "raw_session_id (pc_cursor pc) = ?sid"
    and ref: "commit_ref_for t (pc_range pc) = Inr (osv_commit_ref (pc_state pc))"
    and state: "OperationStateVersion_init
       \<lparr>osv_run_id = cas_run_id c, osv_revision = cas_revision c + 1,
        osv_projection_epoch = cas_projection_epoch c,
        osv_commit_ref = osv_commit_ref (pc_state pc), osv_value = v\<rparr> = Inr (pc_state pc)"
    and notices: "traverse_res (committed_notice (cas_projection_epoch c)) (pc_facts pc) = Inr notices"
    and receipt: "pc_receipt pc = \<lparr>rcpt_session_id = ?sid,
       rcpt_projection_epoch = cas_projection_epoch c,
       rcpt_transition_id = t, rcpt_mutation_fingerprint = fp, rcpt_state_version = pc_state pc,
       rcpt_facts = notices, rcpt_effect_plans = unit_effect_plans u\<rparr>"
      "TransitionReceipt_init (pc_receipt pc) = Inr (pc_receipt pc)"
    and payload: "transition_commit_payload (pc_state pc) (pc_facts pc) (pc_cursor pc)
        (unit_effect_plans u) = Inr (pc_payload pc)"
    by (rule prepare_commit_parts)
  have state_ok: "state_version_ok (pc_state pc)"
    using OperationStateVersion_init_idem [OF state] commit_ref_for_ok [OF ref]
    by (simp add: state_version_ok_def)
  have epoch: "osv_projection_epoch (pc_state pc) = cas_projection_epoch c"
      "cr_transition_id (osv_commit_ref (pc_state pc)) = t"
    using receipt by (auto simp: TransitionReceipt_init_def checks_eq_Inr)
  have "list_all (fact_ok fi) (pc_facts pc)" by (rule facts(4) [OF unit_ok_parts(5) [OF assms(3)]])
  then have stored: "list_all (fact_stored fi ?sid) (pc_facts pc)"
    using facts(3) by (auto simp: list_all_length fact_stored_def fact_ok_def iso_law_def)
  have "committed_notice (cas_projection_epoch c) f = stored_notice f" if "f \<in> set (pc_facts pc)" for f
  proof -
    have "fact_projection_epoch f = Some (str_of_int (fs_projection_epoch fs))"
      using that facts(3) by (auto simp: in_set_conv_nth)
    with assms(4,5) show ?thesis
      by (simp add: committed_notice_def stored_notice_def optional_res_def parse_u64_is
          str_of_int_nat)
  qed
  then have "traverse_res stored_notice (pc_facts pc) = Inr notices"
    using notices by (metis traverse_res_cong)
  from commit_payload_reads_back [OF state_ok stored unit_ok_parts(4) [OF assms(3)] cursor this
      receipt(1) [folded epoch] receipt(2)] payload
  show ?thesis by (auto simp: epoch)
qed

text \<open>A retry under the same epoch and projection is answered with the commit, marked idempotent.\<close>

lemma replay_commit_stored:
  assumes "prepare_commit fi authority u t c v fp fs db = Inr pc"
    and "commit_prechecks authority u = Inr ()" and "unit_ok fi u"
    and "fact_source_from_row (own_session_id authority) r = Inr fs"
    and "cas_projection_epoch c = fs_projection_epoch fs"
    and "written_commit fs pc = Inr commit"
    and "fs_projection fs' = fs_projection fs" "fs_projection_epoch fs' = fs_projection_epoch fs"
  shows "replay_commit fi fs' (own_session_id authority) (cas_projection_epoch c) t
      (fp, pc_payload pc) = Inr (commit\<lparr>auth_idempotent := True\<rparr>)"
proof -
  note source = fact_source_from_row_Inr [OF assms(4)]
  have epoch: "0 \<le> fs_projection_epoch fs" using source(1,5) by simp
  have commit: "commit = \<lparr>auth_event = None, auth_projection = fs_projection fs,
     auth_projection_epoch = str_of_int (fs_projection_epoch fs), auth_raw_cursor = pc_cursor pc,
     auth_idempotent = False, auth_state_version = Some (pc_state pc), auth_facts = pc_facts pc,
     auth_transition_receipt = Some (pc_receipt pc)\<rparr>"
    using written_commit_built [OF assms(1,2,4,5)] assms(6) by simp
  have init: "AuthoritativeCommit_init commit = Inr commit"
    using assms(6) epoch commit by (simp add: written_commit_def format_u64_def)
  then have "AuthoritativeCommit_init (commit\<lparr>auth_idempotent := True\<rparr>)
      = Inr (commit\<lparr>auth_idempotent := True\<rparr>)"
    by (rule commit_init_idempotent)
  then show ?thesis
    using commit_receipt_reads_back [OF assms(1-3) epoch assms(5)] assms(7,8) epoch
    by (simp add: replay_commit_def format_u64_def commit)
qed

end
