(* ===== verification/Local_History.thy ===== *)
theory Local_History
  imports Local_Results
begin

text \<open>
  What only grows: a receipt once written, the revision of a state, the source sequence and the
  event log of a session, over any run of the store.
\<close>

section \<open>The tables after a call\<close>

lemma write_commit_events:
  assumes "write_commit authority u fs pc db = Inr db'"
  obtains rows where "db_events db' = db_events db @ rows"
    "traverse_res (event_row (own_session_id authority) (fs_projection_epoch fs)) (pc_facts pc) = Inr rows"
proof -
  obtain rows bindings where rows:
      "traverse_res (event_row (own_session_id authority) (fs_projection_epoch fs)) (pc_facts pc) = Inr rows"
    and db': "db' = write_attempt pc (write_slots (own_session_id authority) pc
       (write_receipt (own_session_id authority) pc
       (db\<lparr>db_events := db_events db @ rows, db_bindings := db_bindings db @ bindings\<rparr>)))"
    using write_commit_tables [OF assms] by metis
  have "db_events db' = db_events db @ rows"
    unfolding db' by (cases "pc_closeout pc"; cases "pc_attempt pc"; cases "pc_range pc";
      force simp: write_defs Let_def)
  with rows that show ?thesis by blast
qed

text \<open>A call leaves the tables of transitions alone, registers a source, or writes a commit.\<close>

lemma perform_cases:
  obtains (same) "db_receipts (perform_call fr sh fi now k db) = db_receipts db"
      "db_states (perform_call fr sh fi now k db) = db_states db"
      "db_events (perform_call fr sh fi now k db) = db_events db"
      "db_fact_source (perform_call fr sh fi now k db) = db_fact_source db"
  | (registered) sid fs where "ensure_fact_source db sid = Inr (fs, perform_call fr sh fi now k db)"
  | (admitted) sid fs db0 x g p where "ensure_fact_source db sid = Inr (fs, db0)"
      "fs_dispatch_generation fs \<le> g"
      "perform_call fr sh fi now k db = write_admission sid x (fs_session_seq fs + 1) g p db0"
  | (wrote) authority u c t v fp fs db0 pc where "k = Commit authority u"
      "unit_state_cas u = Some c" "unit_transition_id u = Some t" "unit_state_value u = Some v"
      "commit_prechecks authority u = Inr ()"
      "transition_mutation_fingerprint fr sh u = Inr fp"
      "assert_authority fi now db authority = Inr ()"
      "ensure_fact_source db (own_session_id authority) = Inr (fs, db0)"
      "cas_projection_epoch c = fs_projection_epoch fs"
      "replayed_commit fi fs authority u t c fp db0 = Inr None"
      "prepare_commit fi authority u t c v fp fs db0 = Inr pc"
      "write_commit authority u fs pc db0 = Inr (perform_call fr sh fi now k db)"
      "commit_transition fr sh fi now authority u db = (written_commit fs pc, perform_call fr sh fi now k db)"
proof (cases "\<exists>authority u. k = Commit authority u")
  case True
  then obtain authority u where k: "k = Commit authority u" by blast
  obtain r db' where result: "commit_transition fr sh fi now authority u db = (r, db')" by fastforce
  from result show ?thesis
  proof (cases rule: commit_transition_cases)
    case failed
    then show ?thesis using k result by (intro same) simp_all
  next
    case (replayed c t fp fs commit)
    then show ?thesis using k result by (intro registered) simp
  next
    case (written c t v fp fs db0 pc)
    then show ?thesis using k result by (intro wrote [OF k]) simp_all
  qed
next
  case False
  then show ?thesis
  proof (cases rule: other_call_frame [of k fr sh fi now db])
    case (admitted sid fs db0 x g p)
    then show ?thesis using that(3) by blast
  qed (blast intro: registered | intro same; simp)+
qed

lemma ensure_fact_source_tables:
  "ensure_fact_source db sid = Inr (fs, db0) \<Longrightarrow>
   db_receipts db0 = db_receipts db \<and> db_states db0 = db_states db \<and> db_events db0 = db_events db
   \<and> db_effects db0 = db_effects db \<and> db_attempts db0 = db_attempts db"
  by (auto elim: ensure_fact_source_Inr)

lemma perform_owners: "db_owners (perform_call fr sh fi now k db) = db_owners db"
proof (cases "\<exists>authority u. k = Commit authority u")
  case True
  then obtain authority u where k: "k = Commit authority u" by blast
  obtain r db' where result: "commit_transition fr sh fi now authority u db = (r, db')" by fastforce
  from result show ?thesis
  proof (cases rule: commit_transition_cases)
    case (written c t v fp fs db0 pc)
    have "db_owners db0 = db_owners db" using written(7) by (auto elim: ensure_fact_source_Inr)
    with k result write_commit_other_tables(1) [OF written(11)] show ?thesis by simp
  qed (use k result in \<open>auto elim: ensure_fact_source_Inr\<close>)
next
  case False
  then show ?thesis
    by (cases rule: other_call_frame [of k fr sh fi now db]) (auto elim!: ensure_fact_source_Inr)
qed

lemma run_owners: "(store_step fr sh fi)\<^sup>*\<^sup>* db db' \<Longrightarrow> db_owners db' = db_owners db"
  by (induction rule: rtranclp_induct) (auto elim!: store_stepE simp: perform_owners)

section \<open>Receipts\<close>

lemma replayed_commit_None:
  "replayed_commit fi fs authority u t c fp db = Inr None \<Longrightarrow>
   db_receipts db (own_session_id authority, cas_projection_epoch c, t) = None"
  by (auto simp: replayed_commit_def Let_def bind_res_eq_Inr map_res_eq_Inr fingerprint_mismatch_def
      adopt_parent_settlement_receipt_def split: if_splits option.splits)

lemma receipt_key:
  assumes "prepare_commit fi authority u t c v fp fs db = Inr pc"
  shows "rcpt_transition_id (pc_receipt pc) = t"
    "rcpt_projection_epoch (pc_receipt pc) = cas_projection_epoch c"
    "rcpt_mutation_fingerprint (pc_receipt pc) = fp"
  using prepare_commit_parts [OF assms] by (metis TransitionReceipt.select_convs(2,3,4))+

lemma perform_receipts:
  assumes "db_receipts db key = Some x"
  shows "db_receipts (perform_call fr sh fi now k db) key = Some x"
proof (cases rule: perform_cases [of fr sh fi now k db])
  case (wrote authority u c t v fp fs db0 pc)
  have "db_receipts db0 = db_receipts db" using ensure_fact_source_tables [OF wrote(8)] by simp
  with assms replayed_commit_None [OF wrote(10)] receipt_key [OF wrote(11)]
  show ?thesis by (auto simp: write_commit_other_tables(5) [OF wrote(12)])
qed (use assms ensure_fact_source_tables in auto)

lemma run_receipts:
  "(store_step fr sh fi)\<^sup>*\<^sup>* db db' \<Longrightarrow> db_receipts db key = Some x \<Longrightarrow> db_receipts db' key = Some x"
  by (induction rule: rtranclp_induct) (auto elim!: store_stepE intro: perform_receipts)

text \<open>A row that each call may only advance is advanced by a run.\<close>

lemma run_advances:
  assumes run: "(store_step fr sh fi)\<^sup>*\<^sup>* db db'" and row: "table db = Some r"
    and step: "\<And>db k now r. table db = Some r \<Longrightarrow>
      \<exists>r'. table (perform_call fr sh fi now k db) = Some r' \<and> le r r'"
    and refl: "\<And>r. le r r" and trans: "\<And>a b c. le a b \<Longrightarrow> le b c \<Longrightarrow> le a c"
  shows "\<exists>r'. table db' = Some r' \<and> le r r'"
  using run
proof (induction rule: rtranclp_induct)
  case base
  then show ?case using row refl by blast
next
  case (step y z)
  then obtain r1 where r1: "table y = Some r1" "le r r1" by blast
  from step.hyps(2) obtain now k where "z = perform_call fr sh fi now k y" by (auto elim: store_stepE)
  with assms(3) [OF r1(1)] r1(2) trans show ?case by blast
qed

section \<open>States\<close>

definition state_le :: "OperationStateRow \<Rightarrow> OperationStateRow \<Rightarrow> bool" where
  "state_le r r' \<longleftrightarrow> r' = r \<or> sr_revision r < sr_revision r'"

lemma state_le_trans: "state_le a b \<Longrightarrow> state_le b c \<Longrightarrow> state_le a c"
  by (auto simp: state_le_def)

lemma OperationStateVersion_init_fields:
  "OperationStateVersion_init x = Inr y \<Longrightarrow>
   osv_run_id y = osv_run_id x \<and> osv_revision y = osv_revision x
     \<and> osv_projection_epoch y = osv_projection_epoch x \<and> osv_commit_ref y = osv_commit_ref x"
  by (auto simp: OperationStateVersion_init_def res_simps)

text \<open>The check of the compare-and-swap: the row's revision, or none at revision zero.\<close>

lemma state_cas_Inr:
  assumes "assert_state_cas authority c db = Inr ()"
  shows "case db_states db (own_session_id authority, cas_run_id c) of
      None \<Rightarrow> cas_revision c = 0
    | Some row \<Rightarrow> (\<exists>sv. operation_state_from_row (cas_run_id c) row = Inr sv \<and> osv_cas sv = Inr c)
        \<and> sr_revision row = cas_revision c"
proof (cases "db_states db (own_session_id authority, cas_run_id c)")
  case None
  with assms show ?thesis by (simp add: assert_state_cas_def stale_state_def split: if_splits)
next
  case (Some row)
  with assms obtain sv where sv: "operation_state_from_row (cas_run_id c) row = Inr sv" "osv_cas sv = Inr c"
    by (auto simp: assert_state_cas_def bind_res_eq_Inr stale_state_def split: if_splits)
  have "osv_revision sv = sr_revision row"
    using sv(1) OperationStateVersion_init_fields
    by (auto simp: operation_state_from_row_def bind_res_eq_Inr)
  moreover have "cas_revision c = osv_revision sv"
    using sv(2) by (auto simp: osv_cas_def OperationStateCAS_init_def checks_eq_Inr)
  ultimately show ?thesis using Some sv by simp
qed

lemma committed_state_fields:
  assumes "prepare_commit fi authority u t c v fp fs db = Inr pc"
  shows "osv_run_id (pc_state pc) = cas_run_id c" "osv_revision (pc_state pc) = cas_revision c + 1"
    "osv_projection_epoch (pc_state pc) = cas_projection_epoch c"
    "assert_state_cas authority c db = Inr ()"
proof -
  from assms have state: "OperationStateVersion_init
       \<lparr>osv_run_id = cas_run_id c, osv_revision = cas_revision c + 1,
        osv_projection_epoch = cas_projection_epoch c,
        osv_commit_ref = osv_commit_ref (pc_state pc), osv_value = v\<rparr> = Inr (pc_state pc)"
    by (rule prepare_commit_parts)
  from assms show "assert_state_cas authority c db = Inr ()" by (rule prepare_commit_parts)
  from OperationStateVersion_init_fields [OF state]
  show "osv_run_id (pc_state pc) = cas_run_id c" "osv_revision (pc_state pc) = cas_revision c + 1"
    "osv_projection_epoch (pc_state pc) = cas_projection_epoch c"
    by simp_all
qed

lemma write_commit_state:
  assumes "prepare_commit fi authority u t c v fp fs db = Inr pc"
    and "write_commit authority u fs pc db = Inr db'"
  shows "db_states db' = (db_states db)((own_session_id authority, cas_run_id c) \<mapsto>
      \<lparr>sr_revision = cas_revision c + 1, sr_projection_epoch = cas_projection_epoch c,
       sr_transition_id = cr_transition_id (osv_commit_ref (pc_state pc)),
       sr_fact_seq_start = map_option fst (pc_range pc),
       sr_fact_seq_end = map_option snd (pc_range pc), sr_value = pc_plain_value pc\<rparr>)"
  unfolding write_commit_other_tables(4) [OF assms(2)] committed_state_fields(1-3) [OF assms(1)] ..

lemma perform_states:
  assumes "db_states db key = Some r"
  shows "\<exists>r'. db_states (perform_call fr sh fi now k db) key = Some r' \<and> state_le r r'"
proof (cases rule: perform_cases [of fr sh fi now k db])
  case same
  with assms show ?thesis by (simp add: state_le_def)
next
  case registered
  with assms ensure_fact_source_tables [OF registered] show ?thesis by (simp add: state_le_def)
next
  case admitted
  with assms ensure_fact_source_tables [OF admitted(1)] show ?thesis by (simp add: state_le_def)
next
  case (wrote authority u c t v fp fs db0 pc)
  have db0: "db_states db0 = db_states db" using ensure_fact_source_tables [OF wrote(8)] by simp
  note table = write_commit_state [OF wrote(11,12)]
  show ?thesis
  proof (cases "key = (own_session_id authority, cas_run_id c)")
    case True
    with assms db0 state_cas_Inr [OF committed_state_fields(4) [OF wrote(11)]]
    have "sr_revision r = cas_revision c" by simp
    with True show ?thesis by (simp add: table state_le_def)
  next
    case False
    with assms db0 show ?thesis by (simp add: table state_le_def)
  qed
qed

lemma run_states:
  "(store_step fr sh fi)\<^sup>*\<^sup>* db db' \<Longrightarrow> db_states db key = Some r \<Longrightarrow>
   \<exists>r'. db_states db' key = Some r' \<and> state_le r r'"
  by (rule run_advances [where table = "\<lambda>db. db_states db key" and le = state_le])
     (auto intro: perform_states state_le_trans simp: state_le_def [of r r for r])

section \<open>The source of a session\<close>

definition source_le :: "FactSourceRow \<Rightarrow> FactSourceRow \<Rightarrow> bool" where
  "source_le r r' \<longleftrightarrow> (\<exists>n \<ge> fr_session_seq r. \<exists>g \<ge> fr_dispatch_generation r.
     r' = r\<lparr>fr_session_seq := n, fr_dispatch_generation := g\<rparr>)"

lemma source_le_set:
  "fr_session_seq r \<le> n \<Longrightarrow> fr_dispatch_generation r \<le> g \<Longrightarrow>
     source_le r (r\<lparr>fr_session_seq := n, fr_dispatch_generation := g\<rparr>)"
  "fr_session_seq r \<le> n \<Longrightarrow> source_le r (r\<lparr>fr_session_seq := n\<rparr>)"
proof -
  show "source_le r (r\<lparr>fr_session_seq := n, fr_dispatch_generation := g\<rparr>)"
    if "fr_session_seq r \<le> n" "fr_dispatch_generation r \<le> g" for n g
    using that unfolding source_le_def by blast
  from this [of n "fr_dispatch_generation r"]
  show "source_le r (r\<lparr>fr_session_seq := n\<rparr>)" if "fr_session_seq r \<le> n" using that by simp
qed

lemma source_le_refl [simp]: "source_le r r"
  using source_le_set(2) [of r "fr_session_seq r"] by simp

lemma source_le_trans: "source_le a b \<Longrightarrow> source_le b c \<Longrightarrow> source_le a c"
  by (auto simp: source_le_def) (metis order_trans)

lemma source_le_reads:
  assumes "source_le r r'" "fact_source_from_row sid r = Inr fs"
  shows "\<exists>fs'. fact_source_from_row sid r' = Inr fs' \<and> fs_projection fs' = fs_projection fs
    \<and> fs_projection_epoch fs' = fs_projection_epoch fs
    \<and> fs_dispatch_generation fs \<le> fs_dispatch_generation fs' \<and> fs_session_seq fs \<le> fs_session_seq fs'"
  using assms
  by (auto simp: source_le_def fact_source_from_row_def bind_res_eq_Inr map_res_eq_Inr
      SessionFactSourceState_init_def checks_eq_Inr format_u64_def str_of_int_nat split: if_splits)

lemma write_commit_source:
  assumes "prepare_commit fi authority u t c v fp fs db = Inr pc"
    and "write_commit authority u fs pc db = Inr db'" "commit_prechecks authority u = Inr ()"
    and "db_fact_source db (own_session_id authority) = Some r"
    and "fact_source_from_row (own_session_id authority) r = Inr fs"
  shows "db_fact_source db' = (db_fact_source db)(own_session_id authority \<mapsto>
    r\<lparr>fr_session_seq := fs_session_seq fs + int (length (pc_facts pc))\<rparr>)"
  using commit_facts(2) [OF assms(1,3)] fact_source_from_row_Inr(2) [OF assms(5)] assms(4)
  by (auto simp: write_commit_other_tables(6) [OF assms(2)] write_source_seq_def commit_range_def
      fun_eq_iff)

lemma perform_source:
  assumes "db_fact_source db s = Some r"
  shows "\<exists>r'. db_fact_source (perform_call fr sh fi now k db) s = Some r' \<and> source_le r r'"
proof (cases rule: perform_cases [of fr sh fi now k db])
  case same
  with assms show ?thesis by simp
next
  case registered
  then show ?thesis using assms by (auto elim!: ensure_fact_source_Inr)
next
  case (admitted sid fs db0 x g p)
  from admitted(1) obtain row where row: "fact_source_from_row sid row = Inr fs"
      "db_fact_source db0 = (db_fact_source db)(sid \<mapsto> row)"
      "db_fact_source db sid = Some row \<or> db_fact_source db sid = None \<and> row = new_fact_source"
    by (rule ensure_fact_source_Inr) auto
  with assms admitted(2) fact_source_from_row_Inr(2,3) [OF row(1)] show ?thesis
    by (auto simp: admitted(3) write_admission_def intro!: source_le_set(1))
next
  case (wrote authority u c t v fp fs db0 pc)
  from wrote(8) obtain row where row: "fact_source_from_row (own_session_id authority) row = Inr fs"
      "db_fact_source db0 = (db_fact_source db)(own_session_id authority \<mapsto> row)"
      "db_fact_source db (own_session_id authority) = Some row
        \<or> db_fact_source db (own_session_id authority) = None \<and> row = new_fact_source"
    by (rule ensure_fact_source_Inr) auto
  have "fs_session_seq fs = fr_session_seq row" by (rule fact_source_from_row_Inr(2) [OF row(1)])
  with row assms write_commit_source [OF wrote(11,12,5) _ row(1)] show ?thesis
    by (auto simp: source_le_set)
qed

lemma run_source:
  "(store_step fr sh fi)\<^sup>*\<^sup>* db db' \<Longrightarrow> db_fact_source db s = Some r \<Longrightarrow>
   \<exists>r'. db_fact_source db' s = Some r' \<and> source_le r r'"
  by (rule run_advances [where table = "\<lambda>db. db_fact_source db s" and le = source_le])
     (auto intro: perform_source source_le_trans)

section \<open>The event log\<close>

definition session_seqs :: "local_db \<Rightarrow> string \<Rightarrow> int list" where
  "session_seqs db s = map er_session_seq (filter (\<lambda>r. er_session_id r = s) (db_events db))"

definition source_seq :: "local_db \<Rightarrow> string \<Rightarrow> int" where
  "source_seq db s = (case db_fact_source db s of None \<Rightarrow> 0 | Some r \<Rightarrow> fr_session_seq r)"

text \<open>The log of a session ascends and does not run ahead of its source; an admission leaves a gap.\<close>

definition log_ok :: "local_db \<Rightarrow> string \<Rightarrow> bool" where
  "log_ok db s \<longleftrightarrow> sorted_wrt (<) (session_seqs db s) \<and> (\<forall>n \<in> set (session_seqs db s). n \<le> source_seq db s)"

lemma event_rows_nth:
  assumes "traverse_res (event_row sid epoch) facts = Inr rows" "i < length facts"
  shows "er_session_id (rows ! i) = sid"
    "fact_session_seq (facts ! i) = Some (str_of_int n) \<Longrightarrow> 0 \<le> n \<Longrightarrow> er_session_seq (rows ! i) = n"
  using traverse_res_nth [OF assms(1,2)]
  by (auto simp: event_row_def map_res_eq_Inr parse_u64_Inr str_of_int_nat)

lemma commit_log:
  assumes "prepare_commit fi authority u t c v fp fs db = Inr pc"
    and "write_commit authority u fs pc db = Inr db'" "commit_prechecks authority u = Inr ()"
    and "db_fact_source db (own_session_id authority) = Some r"
    and "fact_source_from_row (own_session_id authority) r = Inr fs"
  shows "session_seqs db' s = (if s = own_session_id authority
      then session_seqs db s @ [source_seq db s + 1..source_seq db' s] else session_seqs db s)"
    "source_seq db' s = (if s = own_session_id authority
      then source_seq db s + int (length (pc_facts pc)) else source_seq db s)"
proof -
  let ?sid = "own_session_id authority"
  obtain rows where events: "db_events db' = db_events db @ rows"
    and rows: "traverse_res (event_row ?sid (fs_projection_epoch fs)) (pc_facts pc) = Inr rows"
    by (rule write_commit_events [OF assms(2)])
  have len: "length rows = length (pc_facts pc)" by (rule traverse_res_length [OF rows])
  have row: "er_session_id (rows ! i) = ?sid \<and> er_session_seq (rows ! i) = fs_session_seq fs + int i + 1"
    if "i < length rows" for i
    using that event_rows_nth [OF rows] commit_facts(3) [OF assms(1,3)] len
      fact_source_from_row_Inr(2,6) [OF assms(5)] by simp
  have sids: "\<forall>x \<in> set rows. er_session_id x = ?sid"
    using row by (auto simp: in_set_conv_nth)
  have seqs: "map er_session_seq rows = [fs_session_seq fs + 1..fs_session_seq fs + int (length (pc_facts pc))]"
    by (rule nth_equalityI) (use row len in \<open>auto simp: nth_upto\<close>)
  note source = write_commit_source [OF assms(1,2,3,4,5)]
  have seq: "fs_session_seq fs = fr_session_seq r" by (rule fact_source_from_row_Inr(2) [OF assms(5)])
  show "source_seq db' s = (if s = ?sid
      then source_seq db s + int (length (pc_facts pc)) else source_seq db s)"
    using assms(4) source seq by (simp add: source_seq_def)
  then show "session_seqs db' s = (if s = ?sid
      then session_seqs db s @ [source_seq db s + 1..source_seq db' s] else session_seqs db s)"
    using sids seqs seq assms(4) by (auto simp: session_seqs_def events source_seq_def)
qed

lemma perform_log:
  assumes "log_ok db s"
  shows "log_ok (perform_call fr sh fi now k db) s
    \<and> (\<exists>rows. db_events (perform_call fr sh fi now k db) = db_events db @ rows)"
proof (cases rule: perform_cases [of fr sh fi now k db])
  case same
  with assms show ?thesis by (simp add: log_ok_def session_seqs_def source_seq_def)
next
  case registered
  then have "source_seq (perform_call fr sh fi now k db) s = source_seq db s"
    by (auto simp: source_seq_def new_fact_source_def elim!: ensure_fact_source_Inr)
  with assms ensure_fact_source_tables [OF registered] show ?thesis
    by (simp add: log_ok_def session_seqs_def)
next
  case (admitted sid fs db0 x g p)
  have "source_seq (perform_call fr sh fi now k db) s = (if s = sid then source_seq db s + 1 else source_seq db s)"
    using admitted(1,3) fact_source_from_row_Inr(2)
    by (auto simp: source_seq_def write_admission_def new_fact_source_def elim!: ensure_fact_source_Inr)
  with assms ensure_fact_source_tables [OF admitted(1)] show ?thesis
    by (auto simp: log_ok_def session_seqs_def admitted(3))
next
  case (wrote authority u c t v fp fs db0 pc)
  let ?sid = "own_session_id authority"
  from wrote(8) obtain row where row: "fact_source_from_row ?sid row = Inr fs"
      "db0 = db\<lparr>db_fact_source := (db_fact_source db)(?sid \<mapsto> row)\<rparr>"
      "db_fact_source db ?sid = Some row \<or> db_fact_source db ?sid = None \<and> row = new_fact_source"
    by (rule ensure_fact_source_Inr)
  have same: "session_seqs db0 s = session_seqs db s" "source_seq db0 s = source_seq db s"
    using row(2,3) by (auto simp: session_seqs_def source_seq_def new_fact_source_def)
  have source: "db_fact_source db0 ?sid = Some row" by (simp add: row(2))
  note log = commit_log [OF wrote(11,12,5) source row(1), of s]
  have "log_ok (perform_call fr sh fi now k db) s"
    using assms log same by (force simp: log_ok_def sorted_wrt_append sorted_wrt_upto)
  moreover have "\<exists>rows. db_events (perform_call fr sh fi now k db) = db_events db @ rows"
    using write_commit_events [OF wrote(12)] ensure_fact_source_tables [OF wrote(8)] by metis
  ultimately show ?thesis ..
qed

lemma run_log:
  assumes "(store_step fr sh fi)\<^sup>*\<^sup>* db db'" "log_ok db s"
  shows "log_ok db' s \<and> (\<exists>rows. db_events db' = db_events db @ rows)"
  using assms
proof (induction rule: rtranclp_induct)
  case (step y z)
  then obtain now k where z: "z = perform_call fr sh fi now k y" by (auto elim: store_stepE)
  from step obtain rows where "log_ok y s" "db_events y = db_events db @ rows" by auto
  with perform_log [of y s fr sh fi now k] z show ?case by auto
qed simp

section \<open>The state that is stored\<close>

lemma stored_state_reads_back:
  assumes "prepare_commit fi authority u t c v fp fs db = Inr pc"
    and "write_commit authority u fs pc db = Inr db'"
  shows "\<exists>row. db_states db' (own_session_id authority, cas_run_id c) = Some row
    \<and> operation_state_from_row (cas_run_id c) row = Inr (pc_state pc)"
proof -
  note fields = committed_state_fields [OF assms(1)]
  have ref: "commit_ref_for t (pc_range pc) = Inr (osv_commit_ref (pc_state pc))"
    by (rule prepare_commit_parts [OF assms(1)])
  have state: "OperationStateVersion_init
       \<lparr>osv_run_id = cas_run_id c, osv_revision = cas_revision c + 1,
        osv_projection_epoch = cas_projection_epoch c,
        osv_commit_ref = osv_commit_ref (pc_state pc), osv_value = v\<rparr> = Inr (pc_state pc)"
    by (rule prepare_commit_parts [OF assms(1)])
  have plain: "plain_dict (osv_value (pc_state pc)) = Inr (pc_plain_value pc)"
    by (rule prepare_commit_parts [OF assms(1)])
  let ?ref = "osv_commit_ref (pc_state pc)"
  have "?ref = \<lparr>cr_transition_id = cr_transition_id ?ref,
      cr_fact_seq_start = map_option str_of_int (map_option fst (pc_range pc)),
      cr_fact_seq_end = map_option str_of_int (map_option snd (pc_range pc))\<rparr>"
    using ref
    by (auto simp: commit_ref_for_def optional_res_def res_simps format_u64_def
        dest!: CommitRef_init_parts split: option.splits if_splits)
  then have ref_row: "CommitRef_init \<lparr>cr_transition_id = cr_transition_id ?ref,
      cr_fact_seq_start = map_option str_of_int (map_option fst (pc_range pc)),
      cr_fact_seq_end = map_option str_of_int (map_option snd (pc_range pc))\<rparr> = Inr ?ref"
    using commit_ref_for_ok [OF ref] by simp
  have "state_version_ok (pc_state pc)"
    using OperationStateVersion_init_idem [OF state] commit_ref_for_ok [OF ref]
    by (simp add: state_version_ok_def)
  then have "frozen_dict (osv_value (pc_state pc))" using state_version_parts by blast
  then have frozen: "freeze_mapping ''value'' (pc_plain_value pc) = Inr (osv_value (pc_state pc))"
    using mapping.decode_encode plain by blast
  have "OperationStateVersion_init (pc_state pc\<lparr>osv_value := pc_plain_value pc\<rparr>) = Inr (pc_state pc)"
    using OperationStateVersion_init_idem [OF state] frozen
    by (auto simp: OperationStateVersion_init_def res_simps)
  moreover have "pc_state pc\<lparr>osv_value := pc_plain_value pc\<rparr> =
      \<lparr>osv_run_id = cas_run_id c, osv_revision = cas_revision c + 1,
        osv_projection_epoch = cas_projection_epoch c, osv_commit_ref = ?ref,
        osv_value = pc_plain_value pc\<rparr>"
    using fields(1-3) by (cases "pc_state pc") simp
  ultimately show ?thesis
    using ref_row by (simp add: write_commit_state [OF assms] operation_state_from_row_def
        del: option.map_comp)
qed

section \<open>A commit that wrote\<close>

lemma AuthoritativeCommit_init_Inr: "AuthoritativeCommit_init c = Inr c' \<Longrightarrow> c' = c"
  by (auto simp: AuthoritativeCommit_init_def bind_res_eq_Inr checks_eq_Inr split: option.splits)

lemma replay_commit_idempotent:
  "replay_commit fi fs sid epoch t stored = Inr commit \<Longrightarrow> auth_idempotent commit"
  by (auto simp: replay_commit_def bind_res_eq_Inr dest!: AuthoritativeCommit_init_Inr)

lemma replayed_commit_idempotent:
  assumes "replayed_commit fi fs authority u t c fp db = Inr (Some commit)"
  shows "auth_idempotent commit"
proof -
  obtain t' stored where "replay_commit fi fs (own_session_id authority) (cas_projection_epoch c) t'
      stored = Inr commit"
    using assms
    by (fastforce simp: replayed_commit_def Let_def bind_res_eq_Inr map_res_eq_Inr
        fingerprint_mismatch_def split: if_splits option.splits)
  then show ?thesis by (rule replay_commit_idempotent)
qed

lemma commit_wrote:
  assumes "commit_transition fr sh fi now authority u db = (Inr commit, db')"
    and "\<not> auth_idempotent commit"
  obtains c t v fp fs row db0 pc where
      "unit_state_cas u = Some c" "unit_transition_id u = Some t" "unit_state_value u = Some v"
      "commit_prechecks authority u = Inr ()"
      "transition_mutation_fingerprint fr sh u = Inr fp"
      "assert_authority fi now db authority = Inr ()"
      "ensure_fact_source db (own_session_id authority) = Inr (fs, db0)"
      "cas_projection_epoch c = fs_projection_epoch fs"
      "replayed_commit fi fs authority u t c fp db0 = Inr None"
      "prepare_commit fi authority u t c v fp fs db0 = Inr pc"
      "write_commit authority u fs pc db0 = Inr db'" "written_commit fs pc = Inr commit"
      "fact_source_from_row (own_session_id authority) row = Inr fs"
      "db_fact_source db0 (own_session_id authority) = Some row"
  using assms(1)
proof (cases rule: commit_transition_cases)
  case (replayed c t fp fs k)
  then show ?thesis using replayed_commit_idempotent assms(2) by blast
next
  case (written c t v fp fs db0 pc)
  from written(7) obtain row where "fact_source_from_row (own_session_id authority) row = Inr fs"
      "db_fact_source db0 (own_session_id authority) = Some row"
    by (rule ensure_fact_source_Inr) auto
  with written that show ?thesis by metis
qed simp

section \<open>A dispatch in the ledger\<close>

lemma dispatch_commit_row:
  assumes "prepare_commit fi authority u t c v fp fs db = Inr pc"
    and "write_commit authority u fs pc db = Inr db'" and "unit_ok fi u"
    and "m \<in> set (normalized_effect_mutations u)"
    and "mut_expected_status m = Some PREPARED" "mut_status m = DISPATCHED"
  shows "ledger_level (db_effects db (own_session_id authority, mut_effect_id m)) = 1"
    "ledger_level (db_effects db' (own_session_id authority, mut_effect_id m)) = 2"
  using commit_ledger_level(2) [OF assms(1,2) unit_ok_parts(7) [OF assms(3)] assms(4-6)] by auto

end
