(* ===== verification/Local_Demo.thy ===== *)
theory Local_Demo
  imports Local_History
begin

text \<open>A small history for the witnesses of the local store's properties: two prepared effects are
  dispatched one after the other, and an open attempt is claimed and started.\<close>

definition demo_now :: datetime where
  "demo_now = \<lparr>dt_year = 1, dt_month = 1, dt_day = 1, dt_hour = 0, dt_minute = 0,
     dt_second = 0, dt_microsecond = 0, dt_offset = Some 0\<rparr>"

definition demo_stamp :: datetime where
  "demo_stamp = demo_now\<lparr>dt_offset := None\<rparr>"

definition demo_lease :: datetime where
  "demo_lease = demo_stamp\<lparr>dt_second := 9\<rparr>"

definition demo_iso :: "string \<Rightarrow> datetime res" where
  "demo_iso s =
     (if s = isoformat demo_stamp then Inr demo_stamp
      else if s = isoformat demo_lease then Inr demo_lease
      else Inl (ValueError ''Invalid isoformat string''))"

definition demo_sha :: "nat list \<Rightarrow> string" where
  "demo_sha bytes = ''f''"

definition demo_repr :: "rat \<Rightarrow> string" where
  "demo_repr q = ''0.5''"

definition demo_owner :: OwnerAuthority where
  "demo_owner = \<lparr>own_session_id = ''s'', own_owner_id = ''o'', own_epoch = 1\<rparr>"

definition demo_db :: local_db where
  "demo_db =
     \<lparr>db_owners = [''s'' \<mapsto> \<lparr>so_owner_id = ''o'', so_lease_expires_at = isoformat demo_lease,
        so_fencing_token = 1\<rparr>],
      db_fact_source = Map.empty, db_receipts = Map.empty,
      db_states = [(''s'', ''r'') \<mapsto> \<lparr>sr_revision = 1, sr_projection_epoch = 0,
        sr_transition_id = ''p'', sr_fact_seq_start = None, sr_fact_seq_end = None, sr_value = []\<rparr>],
      db_events = [], db_mailbox = Map.empty,
      db_effects =
        [(''s'', ''e'') \<mapsto> \<lparr>fx_status = ''prepared'', fx_payload = dict_of [(''attempt_id'', PStr ''a'')]\<rparr>,
         (''s'', ''g'') \<mapsto> \<lparr>fx_status = ''prepared'', fx_payload = dict_of [(''attempt_id'', PStr ''a'')]\<rparr>],
      db_evidence = [], db_attempts = Map.empty, db_bindings = [],
      db_sessions = Map.empty, db_activation = Some True\<rparr>"

definition demo_event :: EventRecord where
  "demo_event =
     \<lparr>fact_event_id = ''f'', fact_session_id = ''s'', fact_event_kind = ''effect_dispatched'',
      fact_payload = [], fact_created_at = demo_stamp, fact_session_seq = None,
      fact_projection_epoch = None\<rparr>"

definition demo_effect :: "string \<Rightarrow> EffectMutation" where
  "demo_effect e =
     \<lparr>mut_effect_id = e, mut_attempt_id = ''a'', mut_status = DISPATCHED, mut_payload = [],
      mut_expected_status = Some PREPARED, mut_reconciliation = None\<rparr>"

definition demo_dispatch :: "string \<Rightarrow> string \<Rightarrow> int \<Rightarrow> EventRecord list \<Rightarrow> AuthoritativeUnitOfWork" where
  "demo_dispatch e t n facts = empty_unit
     \<lparr>unit_transition_id := Some t,
      unit_state_cas := Some \<lparr>cas_run_id = ''r'', cas_revision = n, cas_projection_epoch = 0\<rparr>,
      unit_state_value := Some [], unit_facts := facts, unit_effect_mutations := [demo_effect e],
      unit_expected_mailbox_cut := Some ''0''\<rparr>"

definition demo_first :: AuthoritativeUnitOfWork where
  "demo_first = demo_dispatch ''e'' ''d'' 1 [demo_event]"

definition demo_second :: AuthoritativeUnitOfWork where
  "demo_second = demo_dispatch ''g'' ''q'' 2 []"

definition demo_opened :: ExecutorAttemptRecord where
  "demo_opened =
     \<lparr>att_session_id = ''s'', att_effect_id = ''e'', att_attempt_id = ''a'',
      att_authorization_transition_id = ''d'', att_dispatch_owner_epoch = 1,
      att_status = AUTHORIZED_UNCLAIMED, att_executor_id = None, att_claim_generation = 0,
      att_reservation_lease_expires_at = None, att_quiescence_evidence_ref = None,
      att_authorization_mailbox_cut = ''0'', att_authorization_mailbox_session_seq = ''0''\<rparr>"

definition demo_open :: local_db where
  "demo_open = demo_db\<lparr>db_attempts := [attempt_key demo_opened \<mapsto> attempt_row demo_opened]\<rparr>"

definition demo_quiet :: ExecutorAttemptRecord where
  "demo_quiet = demo_opened
     \<lparr>att_status := QUIESCENT, att_executor_id := Some ''x'', att_claim_generation := 1,
      att_reservation_lease_expires_at := Some demo_lease,
      att_quiescence_evidence_ref := Some ''v''\<rparr>"

definition demo_closed :: local_db where
  "demo_closed = demo_db\<lparr>db_attempts := [attempt_key demo_quiet \<mapsto> attempt_row demo_quiet]\<rparr>"

abbreviation demo_commit ::
    "AuthoritativeUnitOfWork \<Rightarrow> local_db \<Rightarrow> AuthoritativeCommit res \<times> local_db" where
  "demo_commit \<equiv> commit_transition demo_repr demo_sha demo_iso demo_now demo_owner"

abbreviation demo_attempt :: "attempt_call \<Rightarrow> local_db \<Rightarrow> (ExecutorAttemptRecord \<times> local_db) res" where
  "demo_attempt \<equiv> attempt_result demo_iso demo_now demo_owner ''e'' ''a'' ''d''"

abbreviation demo_history :: "local_db \<Rightarrow> local_db \<Rightarrow> bool" where
  "demo_history \<equiv> (store_step demo_repr demo_sha demo_iso)\<^sup>*\<^sup>*"

definition demo_reserve :: attempt_call where "demo_reserve = Reserve ''x'' demo_lease"
definition demo_start :: attempt_call where "demo_start = Start ''x'' 1 demo_stamp"

definition demo_dispatched :: local_db where
  "demo_dispatched = snd (demo_commit demo_first demo_db)"

definition demo_reserved :: local_db where
  "demo_reserved = rolled_back (demo_attempt demo_reserve demo_open) demo_open"

section \<open>It runs\<close>

definition fresh_commit :: "AuthoritativeCommit res \<times> local_db \<Rightarrow> bool" where
  "fresh_commit r = (case fst r of Inl _ \<Rightarrow> False | Inr c \<Rightarrow> \<not> auth_idempotent c)"

lemma fresh_commitE:
  assumes "fresh_commit r"
  obtains c where "r = (Inr c, snd r)" "\<not> auth_idempotent c"
  using assms by (cases r) (auto simp: fresh_commit_def split: sum.splits)

lemma demo_first_commits: "fresh_commit (demo_commit demo_first demo_db)"
  by code_simp

lemma demo_second_commits: "fresh_commit (demo_commit demo_second demo_dispatched)"
  by code_simp

lemma demo_reserves: "is_ok (demo_attempt demo_reserve demo_open)"
  by code_simp

lemma demo_starts: "is_ok (demo_attempt demo_start demo_reserved)"
  by code_simp

lemma demo_iso_laws: "iso_law demo_iso demo_stamp" "iso_law demo_iso demo_lease"
proof -
  have "isoformat demo_lease \<noteq> isoformat demo_stamp" by code_simp
  then show "iso_law demo_iso demo_stamp" "iso_law demo_iso demo_lease"
    by (simp_all add: iso_law_def demo_iso_def)
qed

lemma demo_units_ok: "unit_ok demo_iso demo_first" "unit_ok demo_iso demo_second"
proof -
  have mcut: "is_u64 ''0'' \<and> u64_of ''0'' \<le> max_u64"
    by (simp add: is_u64_def u64_of_def max_u64_def is_ascii_digit_def char_code_def)
  have m: "mutation_ok (demo_effect ''e'')" "mutation_ok (demo_effect ''g'')"
    by (simp_all add: mutation_ok_def demo_effect_def EffectMutation_init_def freeze_mapping_def
        legal_effect_transitions_def)
  note defs = unit_simps demo_dispatch_def unit_ok_def fact_ok_def demo_event_def demo_iso_laws
  show "unit_ok demo_iso demo_first" using m(1) mcut
    by (simp add: demo_first_def defs) (simp add: demo_effect_def)
  show "unit_ok demo_iso demo_second" using m(2) mcut
    by (simp add: demo_second_def defs) (simp add: demo_effect_def)
qed

lemma demo_call: "store_call_ok demo_iso c \<Longrightarrow>
    demo_history db (perform_call demo_repr demo_sha demo_iso demo_now c db)"
  using store_step.call [of demo_iso c demo_repr demo_sha db demo_now] by blast

lemma demo_histories:
  "demo_history demo_db demo_dispatched"
  "demo_history demo_dispatched (snd (demo_commit demo_second demo_dispatched))"
  "demo_history demo_open demo_reserved"
  "demo_history demo_closed (snd (demo_commit demo_first demo_closed))"
  using demo_call [of "Commit demo_owner demo_first" demo_db]
    demo_call [of "Commit demo_owner demo_second" demo_dispatched]
    demo_call [of "Attempt demo_owner ''e'' ''a'' ''d'' demo_reserve" demo_open]
    demo_call [of "Commit demo_owner demo_first" demo_closed] demo_units_ok demo_iso_laws
  by (simp_all add: demo_dispatched_def demo_reserved_def demo_reserve_def)

lemma demo_still_owner:
  "assert_authority demo_iso demo_now (snd (demo_commit demo_second demo_dispatched)) demo_owner = Inr ()"
proof -
  have "demo_history demo_db (snd (demo_commit demo_second demo_dispatched))"
    using demo_histories(1,2) by simp
  from run_owners [OF this] have owners:
    "db_owners (snd (demo_commit demo_second demo_dispatched)) = db_owners demo_db" .
  have "assert_authority demo_iso demo_now demo_db demo_owner = Inr ()" by code_simp
  then show ?thesis by (simp add: assert_authority_def owners)
qed

text \<open>Tables with one attempt, in two stages of its life.\<close>

lemma demo_tables:
  "attempts_ok demo_iso demo_open" "attempts_ok demo_iso demo_closed"
  "stored_attempt demo_iso demo_open (attempt_key demo_opened) = Inr (Some demo_opened)"
  "stored_attempt demo_iso demo_closed (attempt_key demo_quiet) = Inr (Some demo_quiet)"
proof -
  have "ExecutorAttemptRecord_init demo_opened = Inr demo_opened" by code_simp
  then have opened: "attempt_valid demo_iso demo_opened"
    by (simp add: attempt_valid_def) (simp add: demo_opened_def)
  have "ExecutorAttemptRecord_init demo_quiet = Inr demo_quiet" by code_simp
  then have quiet: "attempt_valid demo_iso demo_quiet"
    using demo_iso_laws by (simp add: attempt_valid_def) (simp add: demo_quiet_def iso_law_def)
  from opened quiet show "attempts_ok demo_iso demo_open" "attempts_ok demo_iso demo_closed"
    by (auto simp: attempts_ok_def demo_open_def demo_closed_def demo_db_def)
  show "stored_attempt demo_iso demo_open (attempt_key demo_opened) = Inr (Some demo_opened)"
    by (rule stored_attempt_row [OF _ opened]) (simp add: demo_open_def)
  show "stored_attempt demo_iso demo_closed (attempt_key demo_quiet) = Inr (Some demo_quiet)"
    by (rule stored_attempt_row [OF _ quiet]) (simp add: demo_closed_def)
qed

end
