(* ===== verification/Local_Theorems.thy ===== *)
theory Local_Theorems
  imports Local_Demo
begin

text \<open>The properties of the local store over whole histories, each with a witness.\<close>

section \<open>Transitions\<close>

text \<open>C19: A commit is all or nothing: when it raises, for whatever reason and at whatever point, the
  database is exactly the one before, and once its rows are written its result is always built and
  returned.\<close>

theorem commit_atomic:
  "case commit_transition fr sh fi now authority u db of
     (Inl _, db') \<Rightarrow> db' = db | (Inr _, _) \<Rightarrow> True"
proof -
  obtain r db' where result: "commit_transition fr sh fi now authority u db = (r, db')" by fastforce
  from result have "\<And>e. r = Inl e \<Longrightarrow> db' = db"
  proof (cases rule: commit_transition_cases)
    case (written c t v fp fs db0 pc)
    from written(7) obtain row where "fact_source_from_row (own_session_id authority) row = Inr fs"
      by (rule ensure_fact_source_Inr)
    from written_commit_built [OF written(10,4) this written(8)] written(12)
    show "\<And>e. r = Inl e \<Longrightarrow> db' = db" by simp
  qed simp_all
  with result show ?thesis by (auto split: sum.splits)
qed

text \<open>C15: A commit that writes was made by the live owner of the session, found the run's operation
  state exactly as its compare-and-swap expected it (absent at revision zero), and leaves there a
  state that loads back as the one it reports, one revision further, together with its receipt.\<close>

theorem commit_advances_state:
  assumes "commit_transition fr sh fi now authority u db = (Inr commit, db')"
    and "\<not> auth_idempotent commit"
  shows "\<exists>c t sv. unit_state_cas u = Some c \<and> unit_transition_id u = Some t
    \<and> assert_authority fi now db authority = Inr ()
    \<and> (case db_states db (own_session_id authority, cas_run_id c) of
         None \<Rightarrow> cas_revision c = 0
       | Some row \<Rightarrow> bind_res (operation_state_from_row (cas_run_id c) row) osv_cas = Inr c)
    \<and> auth_state_version commit = Some sv \<and> osv_revision sv = cas_revision c + 1
    \<and> load_operation_state db' (own_session_id authority) (cas_run_id c) = Inr (Some sv)
    \<and> db_receipts db' (own_session_id authority, cas_projection_epoch c, t) \<noteq> None"
  using assms
proof (rule commit_wrote)
  fix c t v fp fs row db0 pc
  assume u: "unit_state_cas u = Some c" "unit_transition_id u = Some t"
    and pre: "commit_prechecks authority u = Inr ()"
    and auth: "assert_authority fi now db authority = Inr ()"
    and source: "ensure_fact_source db (own_session_id authority) = Inr (fs, db0)"
    and epoch: "cas_projection_epoch c = fs_projection_epoch fs"
    and prepared: "prepare_commit fi authority u t c v fp fs db0 = Inr pc"
    and written: "write_commit authority u fs pc db0 = Inr db'"
    and commit: "written_commit fs pc = Inr commit"
    and row: "fact_source_from_row (own_session_id authority) row = Inr fs"
  note fields = committed_state_fields [OF prepared]
  have db0: "db_states db0 = db_states db" using ensure_fact_source_tables [OF source] by simp
  have sv: "auth_state_version commit = Some (pc_state pc)"
    using written_commit_built [OF prepared pre row epoch] commit by auto
  obtain srow where srow: "db_states db' (own_session_id authority, cas_run_id c) = Some srow"
      "operation_state_from_row (cas_run_id c) srow = Inr (pc_state pc)"
    using stored_state_reads_back [OF prepared written] by blast
  have run: "cas_run_id c \<noteq> []"
    using srow(2) by (auto simp: operation_state_from_row_def OperationStateVersion_init_def res_simps)
  have load: "load_operation_state db' (own_session_id authority) (cas_run_id c) = Inr (Some (pc_state pc))"
    using srow run fact_source_from_row_Inr(8) [OF row]
    by (simp add: load_operation_state_def optional_res_def)
  have receipt: "db_receipts db' (own_session_id authority, cas_projection_epoch c, t) \<noteq> None"
    using receipt_key [OF prepared] by (simp add: write_commit_other_tables(5) [OF written])
  have before: "case db_states db (own_session_id authority, cas_run_id c) of
         None \<Rightarrow> cas_revision c = 0
       | Some row \<Rightarrow> bind_res (operation_state_from_row (cas_run_id c) row) osv_cas = Inr c"
    using state_cas_Inr [OF fields(4)] db0 by (auto split: option.splits)
  show ?thesis
    using u auth before sv fields(2) load receipt by (intro exI conjI)
qed

theorem commit_advances_state_witness:
  "\<exists>sv. load_operation_state demo_dispatched ''s'' ''r'' = Inr (Some sv) \<and> osv_revision sv = 2"
proof -
  obtain c where "demo_commit demo_first demo_db = (Inr c, demo_dispatched)" "\<not> auth_idempotent c"
    using fresh_commitE [OF demo_first_commits] by (metis demo_dispatched_def)
  from commit_advances_state [OF this] show ?thesis
    by (auto simp: demo_first_def demo_dispatch_def demo_owner_def)
qed

text \<open>C16: No update is lost: whatever any owners and executors do after a commit of a run, a later
  commit that writes that run's state again expected a strictly newer revision than the first one
  did, so of two commits made on the same state at most one writes.\<close>

theorem no_lost_update:
  assumes "commit_transition fr sh fi now authority u db = (Inr commit, db1)"
    and "\<not> auth_idempotent commit" and "(store_step fr sh fi)\<^sup>*\<^sup>* db1 db2"
    and "commit_transition fr sh fi now' authority' u' db2 = (Inr commit', db3)"
    and "\<not> auth_idempotent commit'" and "own_session_id authority' = own_session_id authority"
    and "unit_state_cas u = Some c" "unit_state_cas u' = Some c'" "cas_run_id c' = cas_run_id c"
  shows "cas_revision c < cas_revision c'"
proof -
  let ?key = "(own_session_id authority, cas_run_id c)"
  from assms(1,2) have "\<exists>row. db_states db1 ?key = Some row \<and> sr_revision row = cas_revision c + 1"
  proof (rule commit_wrote)
    fix d t v fp fs row db0 pc
    assume "unit_state_cas u = Some d" "prepare_commit fi authority u t d v fp fs db0 = Inr pc"
      "write_commit authority u fs pc db0 = Inr db1"
    with assms(7) write_commit_state show ?thesis by auto
  qed
  then obtain row row' where row: "sr_revision row = cas_revision c + 1"
      "db_states db2 ?key = Some row'" "state_le row row'"
    using run_states [OF assms(3)] by blast
  from assms(4,5) show ?thesis
  proof (rule commit_wrote)
    fix d t v fp fs r db0 pc
    assume "unit_state_cas u' = Some d"
      and source: "ensure_fact_source db2 (own_session_id authority') = Inr (fs, db0)"
      and prepared: "prepare_commit fi authority' u' t d v fp fs db0 = Inr pc"
    with assms(8) have "d = c'" by simp
    with state_cas_Inr [OF committed_state_fields(4) [OF prepared]] row
      ensure_fact_source_tables [OF source] assms(6,9)
    show ?thesis by (auto simp: state_le_def)
  qed
qed

theorem no_lost_update_witness:
  "\<exists>c c'. unit_state_cas demo_first = Some c \<and> unit_state_cas demo_second = Some c'
     \<and> cas_revision c < cas_revision c'"
proof -
  let ?db = "snd (demo_commit demo_second demo_dispatched)"
  obtain c where c: "demo_commit demo_first demo_db = (Inr c, demo_dispatched)" "\<not> auth_idempotent c"
    using fresh_commitE [OF demo_first_commits] by (metis demo_dispatched_def)
  obtain d where d: "demo_commit demo_second demo_dispatched = (Inr d, ?db)" "\<not> auth_idempotent d"
    by (rule fresh_commitE [OF demo_second_commits])
  obtain r r' where r: "unit_state_cas demo_first = Some r" "unit_state_cas demo_second = Some r'"
      "cas_run_id r' = cas_run_id r"
    by (simp add: demo_first_def demo_second_def demo_dispatch_def)
  from no_lost_update [OF c rtranclp.rtrancl_refl d refl r] r show ?thesis by blast
qed



text \<open>The event log only grows, and each session's part of it stays in order: over any history the
  sequence numbers of a session's facts ascend and do not run ahead of its fact source.\<close>

theorem log_ordered:
  assumes "(store_step fr sh fi)\<^sup>*\<^sup>* db db'" "log_ok db s"
  shows "sorted_wrt (<) (session_seqs db' s) \<and> (\<forall>n \<in> set (session_seqs db' s). n \<le> source_seq db' s)
    \<and> (\<exists>rows. db_events db' = db_events db @ rows)"
  using run_log [OF assms] by (auto simp: log_ok_def)



text \<open>C17: No effect is dispatched twice: once a commit has authorized the dispatch of an effect, no
  later commit in any history of the session, by whatever owner and under whatever attempt, ever
  authorizes a dispatch of it again.\<close>

theorem dispatched_once:
  assumes "commit_transition fr sh fi now authority u db = (Inr commit, db1)"
    and "\<not> auth_idempotent commit" "unit_ok fi u" "m \<in> set (normalized_effect_mutations u)"
    and "mut_expected_status m = Some PREPARED" "mut_status m = DISPATCHED"
    and "(store_step fr sh fi)\<^sup>*\<^sup>* db1 db2"
    and "commit_transition fr sh fi now' authority' u' db2 = (Inr commit', db3)"
    and "\<not> auth_idempotent commit'" "unit_ok fi u'" "m' \<in> set (normalized_effect_mutations u')"
    and "mut_expected_status m' = Some PREPARED" "mut_status m' = DISPATCHED"
    and "own_session_id authority' = own_session_id authority"
  shows "mut_effect_id m' \<noteq> mut_effect_id m"
proof
  assume same: "mut_effect_id m' = mut_effect_id m"
  let ?key = "(own_session_id authority, mut_effect_id m)"
  from assms(1,2) have "ledger_level (db_effects db1 ?key) = 2"
    by (rule commit_wrote) (rule dispatch_commit_row(2) [OF _ _ assms(3-6)])
  moreover have "ledger_progress (db_effects db1 ?key) (db_effects db2 ?key)"
    using run_ledger_steps [OF assms(7)] by (rule ledger_steps_progress)
  moreover from assms(8,9) have "ledger_level (db_effects db2 ?key) = 1"
  proof (rule commit_wrote)
    fix c t v fp fs row db0 pc
    assume source: "ensure_fact_source db2 (own_session_id authority') = Inr (fs, db0)"
      and prepared: "prepare_commit fi authority' u' t c v fp fs db0 = Inr pc"
      and written: "write_commit authority' u' fs pc db0 = Inr db3"
    from dispatch_commit_row(1) [OF prepared written assms(10-13)] assms(14) same
      ensure_fact_source_tables [OF source]
    show ?thesis by simp
  qed
  ultimately show False by (auto simp: ledger_progress_def)
qed

theorem dispatched_once_witness:
  "mut_effect_id (demo_effect ''g'') \<noteq> mut_effect_id (demo_effect ''e'')"
proof -
  let ?db = "snd (demo_commit demo_second demo_dispatched)"
  obtain c where c: "demo_commit demo_first demo_db = (Inr c, demo_dispatched)" "\<not> auth_idempotent c"
    using fresh_commitE [OF demo_first_commits] by (metis demo_dispatched_def)
  obtain d where d: "demo_commit demo_second demo_dispatched = (Inr d, ?db)" "\<not> auth_idempotent d"
    by (rule fresh_commitE [OF demo_second_commits])
  have m: "demo_effect ''e'' \<in> set (normalized_effect_mutations demo_first)"
    "demo_effect ''g'' \<in> set (normalized_effect_mutations demo_second)"
    "mut_expected_status (demo_effect e) = Some PREPARED" "mut_status (demo_effect e) = DISPATCHED" for e
    by (simp_all add: demo_first_def demo_second_def demo_dispatch_def empty_unit_def
        normalized_effect_mutations_def demo_effect_def)
  show ?thesis
    by (rule dispatched_once [OF c demo_units_ok(1) m(1,3,4) rtranclp.rtrancl_refl d
          demo_units_ok(2) m(2-4) refl])
qed

section \<open>Executor attempts\<close>

text \<open>C23: A dispatch is fenced and opens one attempt: a commit that writes an authorization names the
  dispatch generation the session's mailbox is at, turns the prepared effect into a dispatched one
  that carries the transition and the owner epoch, and adds exactly one executor attempt, which
  nobody has claimed, where there was none.\<close>

theorem dispatch_opens_attempt:
  assumes "commit_transition fr sh fi now authority u db = (Inr commit, db')"
    and "\<not> auth_idempotent commit" "unit_ok fi u" "m \<in> set (normalized_effect_mutations u)"
    and "mut_expected_status m = Some PREPARED" "mut_status m = DISPATCHED"
  shows "\<exists>t fs n a fx. unit_transition_id u = Some t
    \<and> map_res fst (ensure_fact_source db (own_session_id authority)) = Inr fs
    \<and> unit_expected_mailbox_cut u = Some n \<and> fs_dispatch_generation fs = int (u64_of n)
    \<and> db_attempts db (attempt_key a) = None
    \<and> db_attempts db' = (db_attempts db)(attempt_key a \<mapsto> attempt_row a)
    \<and> attempt_key a = (own_session_id authority, mut_effect_id m, mut_attempt_id m, t)
    \<and> att_status a = AUTHORIZED_UNCLAIMED \<and> att_dispatch_owner_epoch a = own_epoch authority
    \<and> db_effects db' = (db_effects db)((own_session_id authority, mut_effect_id m) \<mapsto> fx)
    \<and> fx_status fx = ''dispatched''
    \<and> dict_get (fx_payload fx) ''authorization_transition_id'' = PStr t
    \<and> dict_get (fx_payload fx) ''dispatch_owner_epoch'' = PInt (own_epoch authority)"
  using assms(1,2)
proof (rule commit_wrote)
  fix c t v fp fs row db0 pc
  assume t: "unit_transition_id u = Some t"
    and source: "ensure_fact_source db (own_session_id authority) = Inr (fs, db0)"
    and prepared: "prepare_commit fi authority u t c v fp fs db0 = Inr pc"
    and written: "write_commit authority u fs pc db0 = Inr db'"
  let ?sid = "own_session_id authority"
  note unit = unit_dispatch [OF unit_ok_parts(1) [OF assms(3)] assms(4-6)]
  note db0 = ensure_fact_source_tables [OF source]
  have only: "normalized_effect_mutations u = [m]" using unit by blast
  then have disp: "dispatched_mutation (normalized_effect_mutations u) = Some m"
    using assms(5,6) by (simp add: dispatched_mutation_def)
  have opened: "dispatched_attempt authority u t fs (Some m) db0 = Inr (pc_attempt pc)"
    unfolding disp [symmetric] by (rule prepare_commit_parts [OF prepared])
  then have "pc_attempt pc \<noteq> None"
    by (cases "pc_attempt pc")
       (auto simp: dispatched_attempt_def conflict_def bind_res_eq_Inr split: if_splits)
  then obtain a where a: "pc_attempt pc = Some a" by blast
  with opened have "dispatched_attempt authority u t fs (Some m) db0 = Inr (Some a)" by simp
  then have key: "attempt_key a = (?sid, mut_effect_id m, mut_attempt_id m, t)"
      "att_status a = AUTHORIZED_UNCLAIMED" "att_dispatch_owner_epoch a = own_epoch authority"
      "db_attempts db0 (attempt_key a) = None"
    by (rule dispatched_attempt_Inr [where fi = fi]; simp)+
  have closeout: "closeout_attempt fi authority u db0 = Inr (pc_closeout pc)"
    by (rule prepare_commit_parts [OF prepared])
  with unit have "pc_closeout pc = None" by (simp add: closeout_attempt_def)
  then have attempts: "db_attempts db' = (db_attempts db)(attempt_key a \<mapsto> attempt_row a)"
    using a db0 by (simp add: write_commit_other_tables(7) [OF written] write_attempt_def
        write_closeout_def)
  have mailbox: "assert_mailbox_cut u fs = Inr ()" by (rule prepare_commit_parts [OF prepared])
  obtain n where n: "unit_expected_mailbox_cut u = Some n" "is_u64 n" using unit by blast
  with mailbox have generation: "fs_dispatch_generation fs = int (u64_of n)"
    by (simp add: assert_mailbox_cut_def parse_u64_is split: if_splits)
  obtain fx where fx: "db_effects db' (?sid, mut_effect_id m) = Some fx"
      "effect_row authority t (Some m) db0 m = Inr (mut_effect_id m, fx)"
    using commit_effect_rows(1) [OF prepared written unit_ok_parts(7) [OF assms(3)] assms(4)] disp by auto
  have "db_effects db' = (db_effects db)((?sid, mut_effect_id m) \<mapsto> fx)"
    using commit_effect_rows(2) [OF prepared written unit_ok_parts(7) [OF assms(3)]] fx(1) db0 only
    by (fastforce simp: fun_eq_iff)
  with effect_row_Inr(2,6) [OF fx(2)] assms(6)
    t source n(1) generation key attempts db0
  show ?thesis by (intro exI [of _ t] exI [of _ fs] exI [of _ n] exI [of _ a] exI [of _ fx]) simp
qed

theorem dispatch_opens_attempt_witness:
  "\<exists>a. attempt_key a = (''s'', ''e'', ''a'', ''d'') \<and> att_status a = AUTHORIZED_UNCLAIMED
     \<and> db_attempts demo_dispatched (attempt_key a) = Some (attempt_row a)"
proof -
  obtain c where c: "demo_commit demo_first demo_db = (Inr c, demo_dispatched)" "\<not> auth_idempotent c"
    using fresh_commitE [OF demo_first_commits] by (metis demo_dispatched_def)
  have m: "demo_effect ''e'' \<in> set (normalized_effect_mutations demo_first)"
    "mut_expected_status (demo_effect ''e'') = Some PREPARED" "mut_status (demo_effect ''e'') = DISPATCHED"
    by (simp_all add: demo_first_def demo_dispatch_def empty_unit_def normalized_effect_mutations_def
        demo_effect_def)
  have ids: "unit_transition_id demo_first = Some ''d''" "mut_effect_id (demo_effect ''e'') = ''e''"
    "mut_attempt_id (demo_effect ''e'') = ''a''" "own_session_id demo_owner = ''s''"
    by (simp_all add: demo_first_def demo_dispatch_def demo_effect_def demo_owner_def)
  obtain a where "attempt_key a = (''s'', ''e'', ''a'', ''d'')" "att_status a = AUTHORIZED_UNCLAIMED"
      "db_attempts demo_dispatched = (db_attempts demo_db)(attempt_key a \<mapsto> attempt_row a)"
    using dispatch_opens_attempt [OF c demo_units_ok(1) m] unfolding ids by auto
  then show ?thesis by (intro exI [of _ a]) simp
qed

text \<open>C22: The attempt table refines the abstract lifecycle: over any history every attempt stays
  readable under its key and moves only from unclaimed to reserved to started to quiescent (or
  straight to quiescent when it is closed unstarted), and the table stays well formed.\<close>

theorem attempt_refined:
  assumes "(store_step fr sh fi)\<^sup>*\<^sup>* db db'" "attempts_ok fi db"
    and "stored_attempt fi db key = Inr (Some a)"
  shows "\<exists>b. stored_attempt fi db' key = Inr (Some b) \<and> attempt_step\<^sup>*\<^sup>* a b \<and> attempts_ok fi db'"
  using run_attempts [OF assms(1,2), of key] slot_steps_Some attempt_at_Some assms(2,3) by metis

theorem attempt_refined_witness:
  "\<exists>b. stored_attempt demo_iso demo_reserved (attempt_key demo_opened) = Inr (Some b)
     \<and> attempt_step\<^sup>*\<^sup>* demo_opened b"
  using attempt_refined [OF demo_histories(3) demo_tables(1,3)] by blast

fun call_executor :: "attempt_call \<Rightarrow> string" where
  "call_executor (Reserve x _) = x"
| "call_executor (Start x _ _) = x"
| "call_executor (Finish x _ _ _) = x"
| "call_executor (Revoke x _ _ _) = x"
| "call_executor (Quiesce x _ _) = x"

lemma call_claims:
  assumes "attempt_result fi now authority e a auth c db = Inr (b, db')"
    and "stored_attempt fi db (own_session_id authority, e, a, auth) = Inr (Some r)"
  shows "att_executor_id b = Some (call_executor c)" "att_status b \<noteq> AUTHORIZED_UNCLAIMED"
    "att_status r \<noteq> AUTHORIZED_UNCLAIMED \<Longrightarrow> att_executor_id r = Some (call_executor c)"
  using assms
  by (cases c; force simp: reserve_executor_attempt_def mark_executor_attempt_started_def
      mark_executor_attempt_quiescent_def revoke_expired_executor_reservation_def
      quiesce_claimed_executor_attempt_def transition_executor_attempt_def Let_def bind_res_eq_Inr
      existing_attempt_Inr conflict_def dest!: ExecutorAttemptRecord_init_Inr split: if_splits)+

text \<open>C18: A claim is exclusive for ever: once any operation of one executor has succeeded on an
  attempt, no operation of another executor succeeds on it, whatever happens in between and
  whoever owns the session by then.\<close>

theorem claim_exclusive:
  assumes "attempts_ok fi db" "attempt_call_ok fi c"
    and "attempt_result fi now authority e a auth c db = Inr (b, db1)"
    and "(store_step fr sh fi)\<^sup>*\<^sup>* db1 db2"
    and "own_session_id authority' = own_session_id authority"
    and "attempt_result fi now' authority' e a auth c' db2 = Inr (b', db3)"
  shows "call_executor c' = call_executor c"
proof -
  let ?key = "(own_session_id authority, e, a, auth)"
  have update: "attempt_update fi ?key b db db1" by (rule attempt_result_update [OF assms(1-3)])
  have ok: "attempts_ok fi db1" "attempt_at fi db1 ?key = Some b"
    using attempt_update_ok [OF assms(1) update] by auto
  obtain r where r: "stored_attempt fi db ?key = Inr (Some r)"
    using update by (auto simp: attempt_update_def)
  have claimed: "att_executor_id b = Some (call_executor c)" "att_status b \<noteq> AUTHORIZED_UNCLAIMED"
    using call_claims(1,2) [OF assms(3) r] .
  obtain b2 where b2: "stored_attempt fi db2 ?key = Inr (Some b2)" "attempt_step\<^sup>*\<^sup>* b b2"
    using run_attempts [OF assms(4) ok(1), of ?key] ok(2) slot_steps_Some attempt_at_Some by metis
  have "att_executor_id b2 = att_executor_id b" "att_status b2 \<noteq> AUTHORIZED_UNCLAIMED"
    using attempt_steps_progress [OF b2(2)] claimed(2)
    by (auto simp: attempt_progress_def) (cases "att_status b"; auto)
  with call_claims(3) [OF assms(6), of b2] b2(1) assms(5) claimed(1) show ?thesis by simp
qed

theorem claim_exclusive_witness: "call_executor demo_start = call_executor demo_reserve"
proof -
  obtain b where b: "demo_attempt demo_reserve demo_open = Inr (b, demo_reserved)"
    using demo_reserves by (auto simp: is_ok_iff demo_reserved_def)
  obtain d db where d: "demo_attempt demo_start demo_reserved = Inr (d, db)"
    using demo_starts by (auto simp: is_ok_iff)
  have "attempt_call_ok demo_iso demo_reserve" using demo_iso_laws by (simp add: demo_reserve_def)
  from claim_exclusive [OF demo_tables(1) this b rtranclp.rtrancl_refl refl d] show ?thesis .
qed

text \<open>Quiescence is final: over any history a quiescent attempt stays as it is, with the executor
  and the evidence it was closed with, and no executor can reserve or start it again.\<close>

theorem quiescent_final:
  assumes "(store_step fr sh fi)\<^sup>*\<^sup>* db db'" "attempts_ok fi db"
    and "stored_attempt fi db (own_session_id authority, e, a, auth) = Inr (Some r)"
    and "att_status r = QUIESCENT"
  shows "stored_attempt fi db' (own_session_id authority, e, a, auth) = Inr (Some r)
    \<and> \<not> is_ok (reserve_executor_attempt fi now authority e a auth x t db')
    \<and> \<not> is_ok (mark_executor_attempt_started fi now authority e a auth x g ts db')"
proof -
  let ?key = "(own_session_id authority, e, a, auth)"
  obtain b where b: "stored_attempt fi db' ?key = Inr (Some b)" "attempt_step\<^sup>*\<^sup>* r b"
    using run_attempts [OF assms(1,2), of ?key] slot_steps_Some attempt_at_Some assms(2,3) by metis
  have "b = r" using attempt_steps_progress [OF b(2)] assms(4) by (simp add: attempt_progress_def)
  with b(1) assms(4) show ?thesis
    by (auto simp: is_ok_iff reserve_executor_attempt_def mark_executor_attempt_started_def
        transition_executor_attempt_def transition_allowed_def Let_def bind_res_eq_Inr
        existing_attempt_Inr conflict_def split: if_splits)
qed

end
