(* ===== verification/Segment_Hosts.thy ===== *)
theory Segment_Hosts
  imports Segment_Theorems
begin

text \<open>
  A predicate on the world and the trace that every port call keeps holds after a segment: the
  coordinator touches the world through its ports only, and asks for an authorization only with
  a valid request.
\<close>

section \<open>Actions that keep a predicate\<close>

definition kept :: "('w \<Rightarrow> event list \<Rightarrow> bool) \<Rightarrow> 'w seg \<Rightarrow> bool" where
  "kept I s \<longleftrightarrow> I (host_world (sg_host s)) (host_trace (sg_host s))"

definition keeps :: "('w \<Rightarrow> event list \<Rightarrow> bool) \<Rightarrow> ('w, 'a) seg_action \<Rightarrow> bool" where
  "keeps I m \<longleftrightarrow> (\<forall>s. kept I s \<longrightarrow> kept I (snd (m s)))"

definition host_keeps ::
    "('w \<Rightarrow> event list \<Rightarrow> bool) \<Rightarrow> ('w host \<Rightarrow> 'a res \<times> 'w host) \<Rightarrow> bool" where
  "host_keeps I f \<longleftrightarrow> (\<forall>h. I (host_world h) (host_trace h) \<longrightarrow>
     I (host_world (snd (f h))) (host_trace (snd (f h))))"

lemma keepsD: "keeps I m \<Longrightarrow> kept I s \<Longrightarrow> m s = (c, t) \<Longrightarrow> kept I t"
  by (metis keeps_def snd_conv)

lemma keeps_and_then:
  assumes "keeps I m" "\<And>x. keeps I (f x)"
  shows "keeps I (and_then m f)"
proof -
  have "kept I (snd (and_then m f s))" if "kept I s" for s
  proof (cases "m s")
    case (Pair c t)
    with assms(1) that have "kept I t" by (rule keepsD)
    with assms(2) Pair show ?thesis by (cases c) (auto simp: and_then_def keeps_def)
  qed
  then show ?thesis by (simp add: keeps_def)
qed

lemma keeps_simple:
  "keeps I (go x)" "keeps I (raising e)" "keeps I current"
  by (simp_all add: keeps_def go_def raising_def current_def)

lemma keeps_lift: "keeps I (lift_res r)"
  by (cases r) (simp_all add: keeps_def lift_res_def)

lemma keeps_return: "keeps I (return_outcome r)"
  by (cases r) (simp_all add: keeps_def return_outcome_def)

lemma keeps_update: "(\<And>s. kept I s \<Longrightarrow> kept I (f s)) \<Longrightarrow> keeps I (update_seg f)"
  by (simp add: keeps_def update_seg_def)

lemma keeps_again: "(\<And>s. sg_host (f s) = sg_host s) \<Longrightarrow> keeps I (\<lambda>s. (Again, f s))"
  by (simp add: keeps_def kept_def)

lemma keeps_update_host: "(\<And>s. sg_host (f s) = sg_host s) \<Longrightarrow> keeps I (update_seg f)"
  by (simp add: keeps_def update_seg_def kept_def)

lemma keeps_attempt: "host_keeps I f \<Longrightarrow> keeps I (attempt f)"
  by (auto simp: keeps_def host_keeps_def attempt_def kept_def split: prod.splits)

lemma keeps_perform: "host_keeps I f \<Longrightarrow> keeps I (perform f)"
  unfolding perform_def by (intro keeps_and_then keeps_attempt keeps_lift)

lemma keeps_if: "keeps I m \<Longrightarrow> keeps I n \<Longrightarrow> keeps I (if b then m else n)"
  by simp

lemma keeps_sum:
  "(\<And>e. keeps I (f e)) \<Longrightarrow> (\<And>x. keeps I (g x)) \<Longrightarrow>
   keeps I (case r of Inl e \<Rightarrow> f e | Inr x \<Rightarrow> g x)"
  by (cases r) auto

lemma keeps_option:
  "keeps I m \<Longrightarrow> (\<And>x. keeps I (f x)) \<Longrightarrow> keeps I (case v of None \<Rightarrow> m | Some x \<Rightarrow> f x)"
  by (cases v) auto

lemma keeps_prod: "(\<And>a b. keeps I (f a b)) \<Longrightarrow> keeps I (case p of (a, b) \<Rightarrow> f a b)"
  by (cases p) auto

lemma host_call_keeps:
  assumes "\<And>w tr r w'. I w tr \<Longrightarrow> f w = (r, w') \<Longrightarrow> I w' (tr @ [ev r])"
  shows "host_keeps I (host_call f ev)"
  using assms by (auto simp: host_keeps_def host_call_def record_event_def split: prod.splits)

lemmas keeps_intros = keeps_and_then keeps_simple keeps_lift keeps_return keeps_attempt keeps_perform
  keeps_if keeps_sum keeps_option keeps_prod

section \<open>A predicate the ports keep\<close>

locale host_invariant =
  fixes ports :: "'w ports" and I :: "'w \<Rightarrow> event list \<Rightarrow> bool"
  assumes observe_kept: "I w tr \<Longrightarrow> port_observe ports w = (c, w') \<Longrightarrow> I w' (tr @ [EvObserve c])"
    and transition_kept: "I w tr \<Longrightarrow> port_commit_transition ports q w = (r, w') \<Longrightarrow>
      I w' (tr @ [EvTransition q r])"
    and settlement_kept: "I w tr \<Longrightarrow> port_commit_settlement ports p w = (r, w') \<Longrightarrow>
      I w' (tr @ [EvSettle p r])"
    and authorize_kept: "I w tr \<Longrightarrow> is_ok (DispatchAuthorizationRequest_init a) \<Longrightarrow>
      port_authorize_dispatch ports a w = (r, w') \<Longrightarrow> I w' (tr @ [EvAuthorize a r])"
    and execute_kept: "I w tr \<Longrightarrow> port_execute ports k w = (x, w') \<Longrightarrow> I w' (tr @ [EvExecute k x])"
    and generate_kept: "I w tr \<Longrightarrow> I (port_generate ports m w) (tr @ [EvGenerate m])"
    and race_kept: "I w tr \<Longrightarrow> port_race ports g w = (e, w') \<Longrightarrow> I w' tr"
    and drain_generate_kept: "I w tr \<Longrightarrow> port_drain_generate ports w = (d, w') \<Longrightarrow> I w' tr"
    and drain_wait_kept: "I w tr \<Longrightarrow> port_drain_wait ports w = (z, w') \<Longrightarrow> I w' tr"
    and emit_frame_kept: "I w tr \<Longrightarrow> port_emit_frame ports f w = (u, w') \<Longrightarrow> I w' (tr @ [EvFrame f])"
    and emit_fact_kept: "I w tr \<Longrightarrow> port_emit_fact ports n w = (u, w') \<Longrightarrow> I w' (tr @ [EvFact n])"
begin

lemma observe_keeps: "keeps I (observe ports)"
  unfolding observe_def by (intro keeps_perform host_call_keeps observe_kept)

lemma observe_or_yield_keeps: "keeps I (observe_or_yield ports)"
  unfolding observe_or_yield_def by (intro keeps_intros observe_keeps)

lemma emit_each_keeps:
  "I (host_world h) (host_trace h) \<Longrightarrow>
   I (host_world (snd (emit_each ports ns h))) (host_trace (snd (emit_each ports ns h)))"
proof (induction ns arbitrary: h)
  case (Cons n ns)
  obtain r w where call: "port_emit_fact ports n (host_world h) = (r, w)" by fastforce
  have "I w (host_trace h @ [EvFact n])" by (rule emit_fact_kept [OF Cons.prems call])
  with Cons.IH [of "record_event (EvFact n) w h"] show ?case
    by (auto simp: host_call_def call record_event_def Let_def split: sum.splits)
qed simp

lemma emit_all_keeps: "keeps I (perform (emit_all ports ns))"
  by (intro keeps_perform) (auto simp: host_keeps_def emit_all_def emit_each_keeps)

lemma emit_frame_keeps:
  "I (host_world h) (host_trace h) \<Longrightarrow>
   I (host_world (snd (emit_frame ports f h))) (host_trace (snd (emit_frame ports f h)))"
proof -
  assume before: "I (host_world h) (host_trace h)"
  obtain r w where call: "port_emit_frame ports f (host_world h) = (r, w)" by fastforce
  have "I w (host_trace h @ [EvFrame f])" by (rule emit_frame_kept [OF before call])
  with before show ?thesis
    by (auto simp: emit_frame_def host_call_def call record_event_def Let_def split: sum.splits)
qed

lemma emit_frames_keeps:
  "I (host_world h) (host_trace h) \<Longrightarrow>
   I (host_world (emit_frames ports fs h)) (host_trace (emit_frames ports fs h))"
proof (induction fs arbitrary: h)
  case (Cons f fs)
  then show ?case using emit_frame_keeps [of h f] by (simp add: emit_frames_def)
qed (simp add: emit_frames_def)

lemma commit_call_keeps: "keeps I (commit_call ports request er p)"
  unfolding commit_call_def Let_def
  by (intro keeps_intros host_call_keeps transition_kept settlement_kept)

lemma adopt_commit_keeps: "keeps I (adopt_commit ports i r)"
  unfolding adopt_commit_def
  by (intro keeps_intros keeps_update_host emit_all_keeps observe_or_yield_keeps) simp_all

lemma commit_proposal_keeps: "keeps I (commit_proposal ports request er p)"
  unfolding commit_proposal_def
  by (intro keeps_intros observe_or_yield_keeps commit_call_keeps)
     (auto intro!: adopt_commit_keeps keeps_again split: CommitResult.split)

lemma begin_generation_keeps: "keeps I (begin_generation ports request m)"
  unfolding begin_generation_def
  by (intro keeps_intros observe_or_yield_keeps keeps_update)
     (simp add: kept_def record_event_def generate_kept)

lemma begin_dispatch_keeps: "keeps I (begin_dispatch ports request p deferred plan)"
  unfolding begin_dispatch_def Let_def
  by (intro keeps_intros observe_or_yield_keeps keeps_update_host) (simp_all split: prod.splits)

lemma act_keeps: "keeps I (act ports request p deferred)"
  unfolding act_def Let_def
  by (auto intro!: keeps_intros begin_generation_keeps begin_dispatch_keeps
      split: NextAction.splits PreparedEffectActionKind.splits)

lemma top_step_keeps: "keeps I (top_step ports request)"
  unfolding top_step_def Let_def
  by (intro keeps_intros observe_or_yield_keeps commit_proposal_keeps act_keeps)

lemma abandon_wait_keeps: "keeps I (abandon_wait ports)"
  by (auto simp: keeps_def kept_def abandon_wait_def dest: drain_wait_kept split: prod.splits option.splits)

lemma drain_generate_keeps: "keeps I (drain_generate ports b)"
  by (auto simp: keeps_def kept_def drain_generate_def Let_def
      intro!: emit_frames_keeps dest: drain_generate_kept split: prod.splits option.splits)

lemma generated_keeps: "keeps I (generated m r)"
  unfolding generated_def by (intro keeps_intros keeps_update_host) simp_all

lemma generate_step_keeps: "keeps I (generate_step ports m g)"
  unfolding keeps_def
proof (intro allI impI)
  fix s assume s: "kept I s"
  obtain e w where race: "port_race ports g (host_world (sg_host s)) = (e, w)" by fastforce
  have s1: "kept I (s\<lparr>sg_host := (sg_host s)\<lparr>host_world := w\<rparr>\<rparr>)"
    using race_kept [OF _ race] s by (simp add: kept_def)
  have "keeps I (case e of
       RaceFrame frame \<Rightarrow>
         update_seg (\<lambda>s. s\<lparr>sg_host := snd (emit_frame ports frame (sg_host s))\<rparr>)
     | RaceControl (Inl e) \<Rightarrow> and_then (drain_generate ports False) (\<lambda>_. raising e)
     | RaceControl (Inr control) \<Rightarrow>
         (if snap_raised control
          then and_then (drain_generate ports True) (\<lambda>_.
            case snap_reason control of
              None \<Rightarrow> generated m None
            | Some reason \<Rightarrow> and_then current (\<lambda>s. return_outcome (SegmentOutcome_init
                  (SafeYieldOutcome (sg_state s) reason (sg_steps s)))))
          else update_seg (\<lambda>s. s\<lparr>sg_phase := Generating m (snap_generation control)\<rparr>))
     | RaceGenerated r \<Rightarrow> and_then (abandon_wait ports) (\<lambda>_. and_then (lift_res r) (generated m))
     | RaceCancelled \<Rightarrow> and_then (abandon_wait ports) (\<lambda>_.
         and_then (drain_generate ports False) (\<lambda>_. raising CancelledError)))"
  proof (cases e)
    case (RaceFrame f)
    then show ?thesis by (auto intro!: keeps_update simp: kept_def emit_frame_keeps)
  qed (auto intro!: keeps_intros keeps_update_host drain_generate_keeps abandon_wait_keeps
      generated_keeps split: sum.split option.split)
  with s1 show "kept I (snd (generate_step ports m g s))"
    by (simp add: generate_step_def race keeps_def)
qed

lemma execution_result_keeps: "keeps I (execution_result ports permit)"
  unfolding execution_result_def
  by (intro keeps_intros observe_keeps keeps_update_host host_call_keeps execute_kept) simp_all

lemma dispatch_authorized_keeps: "keeps I (dispatch_authorized ports request plan p r)"
  unfolding dispatch_authorized_def
  by (intro keeps_intros keeps_update_host emit_all_keeps execution_result_keeps) simp_all

lemma authorize_step_keeps:
  assumes "is_ok (DispatchAuthorizationRequest_init a)"
  shows "keeps I (authorize_step ports request plan p a)"
  unfolding authorize_step_def Let_def
  by (intro keeps_and_then keeps_perform host_call_keeps authorize_kept [OF _ assms])
     (auto intro!: keeps_intros keeps_update_host observe_or_yield_keeps dispatch_authorized_keeps
       split: CommitResult.split)

lemma seg_step_keeps:
  assumes "protocol request s" "kept I s"
  shows "seg_step ports request s = Inl t \<Longrightarrow> kept I t"
    and "seg_step ports request s = Inr (v, t) \<Longrightarrow> kept I t"
proof -
  have "kept I (snd ((case sg_phase s of
         Top \<Rightarrow> top_step ports request
       | Generating r g \<Rightarrow> generate_step ports r g
       | Authorizing plan p r \<Rightarrow> authorize_step ports request plan p r) s))"
  proof (cases "sg_phase s")
    case (Authorizing plan p a)
    then have "is_ok (DispatchAuthorizationRequest_init a)"
      using assms(1) by (simp add: protocol_def authorizing_ok_def)
    then show ?thesis using Authorizing authorize_step_keeps assms(2) by (simp add: keeps_def)
  qed (use assms(2) top_step_keeps generate_step_keeps in \<open>simp_all add: keeps_def\<close>)
  then show "seg_step ports request s = Inl t \<Longrightarrow> kept I t"
    and "seg_step ports request s = Inr (v, t) \<Longrightarrow> kept I t"
    by (auto simp: seg_step_def split: prod.splits ctl.splits if_splits)
qed

end

sublocale host_invariant \<subseteq> kept: step_invariant "seg_step ports request"
    "\<lambda>s. protocol request s \<and> kept I s" "\<lambda>r. kept I (snd r)"
  for request
  by unfold_locales (auto dest: protocol.inv_step seg_step_keeps)

context host_invariant
begin

lemma run_segment_kept:
  assumes "run_segment ports request w = Some (v, h)" "I w []"
  shows "I (host_world h) (host_trace h)"
proof (cases "mailbox_cut_of request")
  case (Inl e)
  with assms show ?thesis by (auto simp: run_segment_def start_host_def)
next
  case (Inr n)
  with assms(1) obtain s where
      run: "step_loop (seg_step ports request) (seg_start request n w) = Some (v, s)" "h = sg_host s"
    by (auto simp: run_segment_def seg_loop_def)
  have "protocol request (seg_start request n w) \<and> kept I (seg_start request n w)"
    using assms(2) protocol_start by (simp add: kept_def seg_start_def start_host_def)
  from kept.loop_post [OF this run(1)] run(2) show ?thesis by (simp add: kept_def)
qed

end

end
