(* ===== verification/Store_Actions.thy ===== *)
theory Store_Actions
  imports Store_Unit Store_Commit
begin

text \<open>
  Asynchronous code over a store: an action takes the state of the world to its result or the
  exception it raises and the next state. Every \<open>await\<close> on the store is an action of its own, so
  whatever other processes do meanwhile is part of the next state it gives.
\<close>

type_synonym ('s, 'a) action = "'s \<Rightarrow> 'a res \<times> 's"

definition act_bind :: "('s, 'a) action \<Rightarrow> ('a \<Rightarrow> ('s, 'b) action) \<Rightarrow> ('s, 'b) action" where
  "act_bind m f s = (case m s of (Inl e, s1) \<Rightarrow> (Inl e, s1) | (Inr x, s1) \<Rightarrow> f x s1)"

definition act_res :: "'a res \<Rightarrow> ('s, 'a) action" where
  "act_res r s = (r, s)"

text \<open>\<open>try ... except Exception as exc\<close>.\<close>

definition act_catch :: "('s, 'a) action \<Rightarrow> (exn \<Rightarrow> ('s, 'a) action) \<Rightarrow> ('s, 'a) action" where
  "act_catch m handler s =
     (case m s of
        (Inl e, s1) \<Rightarrow> (if is_exception e then handler e s1 else (Inl e, s1))
      | (Inr x, s1) \<Rightarrow> (Inr x, s1))"

text \<open>The outcome of an action as a value, for handlers that continue.\<close>

definition act_try :: "('s, 'a) action \<Rightarrow> ('s, 'a res) action" where
  "act_try m s = (case m s of (r, s1) \<Rightarrow> (Inr r, s1))"

fun act_traverse :: "('a \<Rightarrow> ('s, 'b) action) \<Rightarrow> 'a list \<Rightarrow> ('s, 'b list) action" where
  "act_traverse f [] = act_res (Inr [])"
| "act_traverse f (x # xs) =
     act_bind (f x) (\<lambda>y. act_bind (act_traverse f xs) (\<lambda>ys. act_res (Inr (y # ys))))"

section \<open>What an action does to the world\<close>

text \<open>The world only moves along a preorder: composed of such steps, an action is such a step.\<close>

definition moves :: "('s \<Rightarrow> 's \<Rightarrow> bool) \<Rightarrow> ('s, 'a) action \<Rightarrow> bool" where
  "moves later m \<longleftrightarrow> (\<forall>s. later s (snd (m s)))"

lemma movesD: "moves later m \<Longrightarrow> m s = (r, s') \<Longrightarrow> later s s'"
  by (metis moves_def snd_conv)

lemma act_bind_eq:
  "act_bind m f s = (r, s') \<longleftrightarrow>
     (\<exists>e. m s = (Inl e, s') \<and> r = Inl e) \<or> (\<exists>x s1. m s = (Inr x, s1) \<and> f x s1 = (r, s'))"
  by (auto simp: act_bind_def split: prod.splits sum.splits)

lemma act_bind_Inr:
  "act_bind m f s = (Inr y, s') \<longleftrightarrow> (\<exists>x s1. m s = (Inr x, s1) \<and> f x s1 = (Inr y, s'))"
  by (auto simp: act_bind_eq)

lemma act_res_eq [simp]: "act_res r s = (r', s') \<longleftrightarrow> r = r' \<and> s = s'"
  by (auto simp: act_res_def)

lemma act_try_eq: "act_try m s = (r, s') \<longleftrightarrow> (\<exists>q. m s = (q, s') \<and> r = Inr q)"
  by (auto simp: act_try_def split: prod.splits)

locale world_order =
  fixes later :: "'s \<Rightarrow> 's \<Rightarrow> bool"
  assumes later_refl: "later s s"
    and later_trans: "later s t \<Longrightarrow> later t u \<Longrightarrow> later s u"
begin

lemma moves_res: "moves later (act_res r)"
  by (simp add: moves_def act_res_def later_refl)

lemma moves_bind_known:
  assumes "moves later m" "\<And>x s s'. m s = (Inr x, s') \<Longrightarrow> moves later (f x)"
  shows "moves later (act_bind m f)"
proof -
  have "later s (snd (act_bind m f s))" for s
  proof (cases "m s")
    case (Pair r s1)
    with assms(1) have "later s s1" by (rule movesD)
    then show ?thesis
      using assms(2) Pair
      by (cases r) (auto simp: act_bind_def moves_def intro: later_trans)
  qed
  then show ?thesis by (simp add: moves_def)
qed

lemma moves_bind:
  "moves later m \<Longrightarrow> (\<And>x. moves later (f x)) \<Longrightarrow> moves later (act_bind m f)"
  by (rule moves_bind_known)

lemma moves_catch:
  assumes "moves later m" "\<And>e. moves later (h e)"
  shows "moves later (act_catch m h)"
proof -
  have "later s (snd (act_catch m h s))" for s
  proof (cases "m s")
    case (Pair r s1)
    with assms(1) have "later s s1" by (rule movesD)
    then show ?thesis
      using assms(2) Pair
      by (cases r) (auto simp: act_catch_def moves_def intro: later_trans)
  qed
  then show ?thesis by (simp add: moves_def)
qed

lemma moves_try: "moves later m \<Longrightarrow> moves later (act_try m)"
  by (auto simp: moves_def act_try_def split: prod.splits) (metis snd_conv)

lemma moves_traverse: "(\<And>x. moves later (f x)) \<Longrightarrow> moves later (act_traverse f xs)"
  by (induction xs) (auto intro: moves_bind moves_res)

lemma moves_if: "moves later m \<Longrightarrow> moves later k \<Longrightarrow> moves later (if b then m else k)"
  by simp

lemma moves_option:
  "moves later m \<Longrightarrow> (\<And>x. moves later (f x)) \<Longrightarrow>
   moves later (case v of None \<Rightarrow> m | Some x \<Rightarrow> f x)"
  by (cases v) auto

lemma moves_sum:
  "(\<And>e. moves later (f e)) \<Longrightarrow> (\<And>x. moves later (g x)) \<Longrightarrow>
   moves later (case r of Inl e \<Rightarrow> f e | Inr x \<Rightarrow> g x)"
  by (cases r) auto

lemmas moves_intros = moves_res moves_bind moves_catch moves_try moves_traverse moves_if
  moves_option moves_sum

end

end
