(* ===== verification/Commit_Port.thy ===== *)
theory Commit_Port
  imports Store_Actions Local_Store Contracts_Results Step_Loop
begin

text \<open>
  \<open>coding_agent/stores/durable_commit_port.py\<close>: the commit port of the coordinator over a durable
  store - the unit of work it builds from a request, the mapping of the store's answers and
  exceptions to commit results, the permit of a fresh authorization, the markers of a replayed one
  and what is recovered from them. \<open>child_execution_binding\<close> is in \<open>runs/child_execution.py\<close>.

  The store is the protocol \<open>_DurableCommitStore\<close>, a record of actions on the world \<open>'s\<close>, with the
  clock, the token factory and \<open>asyncio.sleep\<close> the port is given.
\<close>

section \<open>The store and the port\<close>

record 's durable_store =
  st_commit :: "OwnerAuthority \<Rightarrow> AuthoritativeUnitOfWork \<Rightarrow> ('s, AuthoritativeCommit) action"
  st_operation_state :: "string \<Rightarrow> string \<Rightarrow> ('s, OperationStateVersion option) action"
  st_effect_slot :: "string \<Rightarrow> string \<Rightarrow> ('s, EffectLedgerSlot option) action"
  st_evidence :: "string \<Rightarrow> string \<Rightarrow> ('s, EffectReconciliationEvidence option) action"
  st_effect_binding :: "string \<Rightarrow> string \<Rightarrow> ('s, ChildExecutionBinding option) action"
  st_child_binding :: "string \<Rightarrow> string \<Rightarrow> ('s, ChildExecutionBinding option) action"
  st_attempt :: "string \<Rightarrow> string \<Rightarrow> string \<Rightarrow> string \<Rightarrow> ('s, ExecutorAttemptRecord option) action"
  st_clock :: "('s, datetime) action"
  st_token :: "('s, pyval) action"
  st_sleep :: "('s, unit) action"

record AuthorizationReplayMarker =
  mark_session_id :: string
  mark_run_id :: string
  mark_authorization_transition_id :: string
  mark_effect_id :: string
  mark_attempt_id :: string
  mark_owner_epoch :: int
  mark_authorization_state :: OperationStateVersion

record AuthorizationReplayRecovery =
  rcv_state_version :: OperationStateVersion
  rcv_settlement :: EffectSettlement

text \<open>The port's own state: its session payload and the markers it keeps per session and run.\<close>

type_synonym markers = "string \<times> string \<Rightarrow> AuthorizationReplayMarker option"

definition commit_port_init :: "dict \<Rightarrow> dict res" where
  "commit_port_init session_state =
     (case as_nonempty_str (dict_get session_state ''id'') of
        None \<Rightarrow> Inl (ValueError ''session_state.id must be a non-empty string'')
      | Some sid \<Rightarrow>
          (if \<not> hashable (dict_get session_state ''session_id'')
           then Inl (TypeError ''unhashable type'')
           else if dict_get session_state ''session_id'' \<notin> {PNone, PStr sid}
           then Inl (ValueError ''session_state.session_id must match session_state.id'')
           else Inr session_state))"

section \<open>Failures\<close>

fun name_pieces :: "string \<Rightarrow> string \<Rightarrow> string list" where
  "name_pieces piece [] = (if piece = [] then [] else [piece])"
| "name_pieces piece (c # cs) =
     (let upper = 65 \<le> char_code c \<and> char_code c \<le> 90;
          lower = (if upper then char_of (char_code c + 32) else c)
      in if upper \<and> piece \<noteq> [] then piece # name_pieces [lower] cs
         else name_pieces (piece @ [lower]) cs)"

fun join_underscore :: "string list \<Rightarrow> string" where
  "join_underscore [] = []"
| "join_underscore [p] = p"
| "join_underscore (p # q # ps) = p @ ''_'' @ join_underscore (q # ps)"

definition reason_code :: "exn \<Rightarrow> string" where
  "reason_code e =
     (let code = join_underscore (name_pieces [] (exn_class e))
      in if code = [] then ''invalid_transition'' else code)"

definition port_exception_message :: "exn \<Rightarrow> string" where
  "port_exception_message e =
     (let message = py_strip (exn_str e)
      in if message \<noteq> [] then message
         else if exn_class e \<noteq> [] then exn_class e else ''unknown error'')"

definition storage_failure :: "exn \<Rightarrow> CommitResult res" where
  "storage_failure e =
     bind_res (failure_report ''storage_failure'' (port_exception_message e)) (\<lambda>f.
     CommitResult_init (StorageFailureCommitResult f))"

section \<open>Units of work\<close>

definition child_execution_binding ::
    "string \<Rightarrow> string \<Rightarrow> string \<Rightarrow> string \<Rightarrow> string \<Rightarrow> ChildExecutionBinding res" where
  "child_execution_binding session_id parent_run_id parent_effect_id parent_attempt_id
       prepared_transition_id =
     (let authorization = prepared_transition_id @ '':dispatch:'' @ parent_effect_id @ '':''
            @ parent_attempt_id
      in ChildExecutionBinding_init
           \<lparr>child_session_id = session_id, child_parent_run_id = parent_run_id,
            child_parent_effect_id = parent_effect_id,
            child_parent_attempt_id = parent_attempt_id,
            child_child_run_id = session_id @ '':'' @ parent_run_id @ '':child:''
              @ parent_effect_id @ '':'' @ parent_attempt_id,
            child_authorization_transition_id = authorization,
            child_live_parent_settlement_transition_id = parent_run_id
              @ '':transition:EffectSettled:'' @ authorization @ '':settlement:''
              @ parent_attempt_id,
            child_active_lease = None\<rparr>)"

definition child_bindings ::
    "string \<Rightarrow> string \<Rightarrow> string \<Rightarrow> EffectPlan list \<Rightarrow> ChildExecutionBinding list res" where
  "child_bindings session_id parent_run_id prepared_transition_id plans =
     traverse_res
       (\<lambda>q. child_execution_binding session_id parent_run_id (plan_effect_id q)
          (plan_attempt_id q) prepared_transition_id)
       (filter (\<lambda>q. dict_get (plan_payload q) ''tool_name'' = PStr ''subagent'') plans)"

text \<open>What the port reads of a request: its owner, the state it was proposed on, the proposal.\<close>

record port_request =
  pq_session_id :: string
  pq_owner_id :: string
  pq_owner_epoch :: int
  pq_state_version :: OperationStateVersion
  pq_proposal :: TransitionProposal

definition stamped_pending_fact ::
    "'s durable_store \<Rightarrow> string \<Rightarrow> string \<Rightarrow> PendingFact \<Rightarrow> ('s, EventRecord) action" where
  "stamped_pending_fact st session_id run_id f =
     (let existing = dict_get (pf_payload f) ''run_id''
      in act_bind
           (act_res
              (if existing = PNone then Inr (dict_set ''run_id'' (PStr run_id) (pf_payload f))
               else if as_nonempty_str existing = None
               then Inl (ValueError ''pending fact run_id must be a non-empty string'')
               else Inr (pf_payload f))) (\<lambda>payload.
         act_bind (st_clock st) (\<lambda>created_at.
         act_res (EventRecord_init
           \<lparr>fact_event_id = pf_fact_id f, fact_session_id = session_id,
            fact_event_kind = pf_fact_kind f, fact_payload = payload,
            fact_created_at = created_at, fact_session_seq = None,
            fact_projection_epoch = None\<rparr>))))"

record unit_options =
  opt_mutations :: "EffectMutation list"
  opt_create_child_bindings :: bool
  opt_expected_mailbox_cut :: "string option"
  opt_recovery_guard :: "RecoveryTransitionGuard option"
  opt_transition_id :: "string option"
  opt_adopt_transition_ids :: "string list"
  opt_terminal_action :: "bool option"
  opt_closeout :: "UnstartedDispatchCloseoutGuard option"

definition unit_defaults :: "EffectMutation list \<Rightarrow> bool \<Rightarrow> unit_options" where
  "unit_defaults mutations create_child_bindings =
     \<lparr>opt_mutations = mutations, opt_create_child_bindings = create_child_bindings,
      opt_expected_mailbox_cut = None, opt_recovery_guard = None, opt_transition_id = None,
      opt_adopt_transition_ids = [], opt_terminal_action = None, opt_closeout = None\<rparr>"

definition is_terminal :: "NextAction \<Rightarrow> bool" where
  "is_terminal a \<longleftrightarrow> (case a of TerminalAction _ _ \<Rightarrow> True | _ \<Rightarrow> False)"

definition proposal_unit ::
    "dict \<Rightarrow> port_request \<Rightarrow> unit_options \<Rightarrow> OperationStateCAS \<Rightarrow> EventRecord list
     \<Rightarrow> ChildExecutionBinding list \<Rightarrow> AuthoritativeUnitOfWork" where
  "proposal_unit session_state r opts c facts bindings =
     (let p = pq_proposal r in
      empty_unit
        \<lparr>unit_session_state := session_state,
         unit_transition_id := Some (case opt_transition_id opts of
           None \<Rightarrow> prop_transition_id p
         | Some t \<Rightarrow> if t = [] then prop_transition_id p else t),
         unit_state_cas := Some c,
         unit_adopt_transition_ids := opt_adopt_transition_ids opts,
         unit_state_value := Some (prop_state_value p), unit_facts := facts,
         unit_dispositions := prop_dispositions p,
         unit_effect_mutations := opt_mutations opts,
         unit_effect_plans := prop_effect_plans p, unit_child_bindings := bindings,
         unit_expected_mailbox_cut := opt_expected_mailbox_cut opts,
         unit_recovery_guard := opt_recovery_guard opts,
         unit_terminal_action := (case opt_terminal_action opts of
           None \<Rightarrow> is_terminal (prop_next_action p) | Some b \<Rightarrow> b),
         unit_unstarted_dispatch_closeout := opt_closeout opts\<rparr>)"

definition transition_unit ::
    "'s durable_store \<Rightarrow> dict \<Rightarrow> port_request \<Rightarrow> unit_options
     \<Rightarrow> ('s, AuthoritativeUnitOfWork) action" where
  "transition_unit st session_state r opts =
     (let p = pq_proposal r; run_id = osv_run_id (pq_state_version r) in
      if run_id = []
      then act_res (Inl (ValueError ''transition state_version.run_id must be a non-empty string''))
      else
        act_bind (act_traverse (stamped_pending_fact st (pq_session_id r) run_id)
          (prop_pending_facts p)) (\<lambda>facts.
        act_res
          (bind_res (osv_cas (pq_state_version r)) (\<lambda>c.
           bind_res
             (if opt_create_child_bindings opts
              then child_bindings (pq_session_id r) run_id (prop_transition_id p)
                     (prop_effect_plans p)
              else Inr [])
             (\<lambda>bindings.
                AuthoritativeUnitOfWork_init (proposal_unit session_state r opts c facts bindings))))))"

section \<open>Results of a commit\<close>

definition required_transition_result ::
    "AuthoritativeCommit \<Rightarrow> (OperationStateVersion \<times> TransitionReceipt) res" where
  "required_transition_result c =
     (case (auth_state_version c, auth_transition_receipt c) of
        (Some v, Some r) \<Rightarrow> Inr (v, r)
      | _ \<Rightarrow> Inl (RuntimeError ''authoritative transition commit omitted its result''))"

definition commit_notice :: "EventRecord \<Rightarrow> CommittedFactNotice res" where
  "commit_notice f =
     bind_res (optional_res (\<lambda>s. map_res int (parse_u64 ''projection_epoch'' s))
       (fact_projection_epoch f)) (\<lambda>epoch.
     CommittedFactNotice_init
       \<lparr>notice_fact_id = fact_event_id f, notice_fact_kind = fact_event_kind f,
        notice_payload = fact_payload f, notice_session_seq = fact_session_seq f,
        notice_projection_epoch = epoch, notice_event_record_id = Some (fact_event_id f)\<rparr>)"

definition committed_notices :: "AuthoritativeCommit \<Rightarrow> CommittedFactNotice list res" where
  "committed_notices c = traverse_res commit_notice (auth_facts c)"

definition exact_replay :: "AuthoritativeCommit \<Rightarrow> CommitResult res" where
  "exact_replay c =
     bind_res (required_transition_result c) (\<lambda>(v, receipt).
     CommitResult_init (ExactReplayCommitResult v receipt))"

text \<open>What \<open>_commit\<close> gives: the store's commit, or the result a refusal is mapped to.\<close>

datatype port_commit = Accepted AuthoritativeCommit | Refused CommitResult

definition ordinary_result :: "port_commit \<Rightarrow> CommitResult res" where
  "ordinary_result k =
     (case k of
        Refused r \<Rightarrow> Inr r
      | Accepted c \<Rightarrow>
          (if auth_idempotent c then exact_replay c
           else
             bind_res (required_transition_result c) (\<lambda>(v, receipt).
             bind_res (committed_notices c) (\<lambda>notices.
             CommitResult_init (CommittedCommitResult v notices (Some receipt))))))"

section \<open>Committing\<close>

text \<open>
  The handlers of \<open>_commit\<close>, in their order. No exception of the store carries a
  \<open>current_owner_epoch\<close>, so a stale owner is told the epoch it sent.
\<close>

definition state_conflict ::
    "'s durable_store \<Rightarrow> string \<Rightarrow> AuthoritativeUnitOfWork \<Rightarrow> ('s, CommitResult) action" where
  "state_conflict st session_id u =
     act_bind
       (act_try (st_operation_state st session_id
          (case unit_state_cas u of None \<Rightarrow> [] | Some c \<Rightarrow> cas_run_id c))) (\<lambda>found.
     act_res
       (case found of
          Inl e \<Rightarrow> (if is_exception e then storage_failure e else Inl e)
        | Inr None \<Rightarrow> CommitResult_init (InvalidTransitionCommitResult ''operation_state_missing''
            ''current operation state does not exist'')
        | Inr (Some v) \<Rightarrow> CommitResult_init (CASConflictCommitResult v)))"

fun is_invalid_transition :: "exn \<Rightarrow> bool" where
  "is_invalid_transition (CommandDispositionConflictError _) = True"
| "is_invalid_transition (ChildBindingConflictError _) = True"
| "is_invalid_transition (EffectMutationConflictError _) = True"
| "is_invalid_transition (ExecutorAttemptConflictError _) = True"
| "is_invalid_transition (RecoveryEvidenceConflictError _) = True"
| "is_invalid_transition (TransitionFingerprintMismatchError _) = True"
| "is_invalid_transition (StaleRecoveryGuardError _) = True"
| "is_invalid_transition e = is_value_error e"

definition refusal ::
    "'s durable_store \<Rightarrow> string \<Rightarrow> int \<Rightarrow> AuthoritativeUnitOfWork \<Rightarrow> exn
     \<Rightarrow> ('s, CommitResult) action" where
  "refusal st session_id owner_epoch u e =
     (case handled_as e of
        StaleMailboxCutError expected current_cut \<Rightarrow>
          act_res (CommitResult_init (StaleMailboxCutCommitResult expected current_cut))
      | StateVersionConflictError _ \<Rightarrow> state_conflict st session_id u
      | SessionOwnershipConflictError _ _ \<Rightarrow>
          act_res (CommitResult_init (StaleOwnerCommitResult owner_epoch owner_epoch))
      | b \<Rightarrow>
          act_res
            (if is_invalid_transition b
             then CommitResult_init (InvalidTransitionCommitResult (reason_code e)
                    (port_exception_message e))
             else storage_failure e))"

definition port_commit_unit ::
    "'s durable_store \<Rightarrow> string \<Rightarrow> string \<Rightarrow> int \<Rightarrow> AuthoritativeUnitOfWork
     \<Rightarrow> ('s, port_commit) action" where
  "port_commit_unit st session_id owner_id owner_epoch u =
     act_catch
       (act_bind
          (st_commit st
             \<lparr>own_session_id = session_id, own_owner_id = owner_id, own_epoch = owner_epoch\<rparr> u)
          (\<lambda>c. act_res (Inr (Accepted c))))
       (\<lambda>e. act_bind (refusal st session_id owner_epoch u e) (\<lambda>r. act_res (Inr (Refused r))))"

definition transition_pq :: "CommitTransitionRequest \<Rightarrow> port_request" where
  "transition_pq r =
     \<lparr>pq_session_id = ctr_session_id r, pq_owner_id = ctr_owner_id r,
      pq_owner_epoch = ctr_owner_epoch r,
      pq_state_version = esr_state_version (ctr_engine_request r), pq_proposal = ctr_proposal r\<rparr>"

definition settlement_pq :: "CommitSettlementRequest \<Rightarrow> port_request" where
  "settlement_pq r =
     \<lparr>pq_session_id = csr_session_id r, pq_owner_id = csr_owner_id r,
      pq_owner_epoch = csr_owner_epoch r,
      pq_state_version = esr_state_version (csr_engine_request r), pq_proposal = csr_proposal r\<rparr>"

definition dispatch_pq :: "DispatchAuthorizationRequest \<Rightarrow> port_request" where
  "dispatch_pq r =
     \<lparr>pq_session_id = dar_session_id r, pq_owner_id = dar_owner_id r,
      pq_owner_epoch = dar_owner_epoch r,
      pq_state_version = esr_state_version (dar_engine_request r), pq_proposal = dar_proposal r\<rparr>"

definition commit_built ::
    "'s durable_store \<Rightarrow> dict \<Rightarrow> port_request \<Rightarrow> unit_options \<Rightarrow> ('s, port_commit) action" where
  "commit_built st session_state q opts =
     act_bind (transition_unit st session_state q opts) (\<lambda>u.
     port_commit_unit st (pq_session_id q) (pq_owner_id q) (pq_owner_epoch q) u)"

definition commit_built_result ::
    "'s durable_store \<Rightarrow> dict \<Rightarrow> port_request \<Rightarrow> unit_options \<Rightarrow> ('s, CommitResult) action" where
  "commit_built_result st session_state q opts =
     act_bind (commit_built st session_state q opts) (\<lambda>k. act_res (ordinary_result k))"

definition preparations :: "TransitionProposal \<Rightarrow> EffectMutation list res" where
  "preparations p = traverse_res EffectMutation_prepare (prop_effect_plans p)"

definition recovery_suffix :: "string \<Rightarrow> RecoveryTransitionGuard \<Rightarrow> string" where
  "recovery_suffix t g = t @ '':recovery:'' @ guard_lease_id g @ '':'' @ str_of_int (guard_resume_generation g)
     @ '':'' @ guard_expected_recovery_cut g"

definition port_commit_transition_op ::
    "'s durable_store \<Rightarrow> dict \<Rightarrow> CommitTransitionRequest \<Rightarrow> ('s, CommitResult) action" where
  "port_commit_transition_op st session_state r =
     act_bind (act_res (preparations (ctr_proposal r))) (\<lambda>ms.
     commit_built_result st session_state (transition_pq r) (unit_defaults ms True))"

definition commit_transition_with_recovery_guard ::
    "'s durable_store \<Rightarrow> dict \<Rightarrow> CommitTransitionRequest \<Rightarrow> RecoveryTransitionGuard
     \<Rightarrow> ('s, CommitResult) action" where
  "commit_transition_with_recovery_guard st session_state r g =
     act_bind (act_res (preparations (ctr_proposal r))) (\<lambda>ms.
     commit_built_result st session_state (transition_pq r)
       ((unit_defaults ms True)
          \<lparr>opt_recovery_guard := Some g,
           opt_transition_id := Some (recovery_suffix (prop_transition_id (ctr_proposal r)) g),
           opt_terminal_action := Some (guard_kind g = CHILD_TERMINAL)\<rparr>))"

section \<open>Settlements\<close>

definition recovery_parent_settlement_transition_id ::
    "ChildExecutionBinding \<Rightarrow> RecoveryTransitionGuard \<Rightarrow> string" where
  "recovery_parent_settlement_transition_id b g =
     recovery_suffix (child_live_parent_settlement_transition_id b) g"

definition distinct_transition_ids :: "string \<Rightarrow> string list \<Rightarrow> string list" where
  "distinct_transition_ids current_transition_id candidates =
     fold (\<lambda>c result. if c \<noteq> current_transition_id \<and> c \<notin> set result then result @ [c] else result)
       candidates []"

definition parent_settlement_transition_ids ::
    "'s durable_store \<Rightarrow> CommitSettlementRequest \<Rightarrow> ('s, string \<times> string list) action" where
  "parent_settlement_transition_ids st r =
     act_bind (st_effect_binding st (csr_session_id r) (settlement_effect_id (csr_settlement r)))
       (\<lambda>found. act_res
       (case found of
          None \<Rightarrow> Inr (prop_transition_id (csr_proposal r), [])
        | Some b \<Rightarrow>
            (if child_parent_attempt_id b \<noteq> settlement_attempt_id (csr_settlement r)
             then Inl (ValueError ''parent settlement attempt does not match child binding'')
             else
               let live = child_live_parent_settlement_transition_id b;
                   candidate = prop_transition_id (csr_proposal r)
               in case child_active_lease b of
                    None \<Rightarrow> Inr (live, distinct_transition_ids live [candidate])
                  | Some l \<Rightarrow>
                      map_res (\<lambda>g. (live, distinct_transition_ids live
                          [candidate, recovery_parent_settlement_transition_id b g]))
                        (RecoveryTransitionGuard_init
                           \<lparr>guard_lease_id = lease_lease_id l,
                            guard_child_run_id = lease_child_run_id l,
                            guard_resume_generation = lease_resume_generation l,
                            guard_expected_recovery_cut = lease_resume_cut l,
                            guard_kind = PARENT_SETTLEMENT\<rparr>))))"

definition unstarted_closeout_guard ::
    "'s durable_store \<Rightarrow> CommitSettlementRequest
     \<Rightarrow> ('s, UnstartedDispatchCloseoutGuard option) action" where
  "unstarted_closeout_guard st r =
     (case csr_settlement r of
        SettleApproval _ \<Rightarrow> act_res (Inr None)
      | SettleEffect s \<Rightarrow>
          (if mut_expected_status (csr_effect_mutation r) \<noteq> Some DISPATCHED
              \<or> mut_status (csr_effect_mutation r) \<noteq> UNKNOWN
           then act_res (Inr None)
           else
             act_bind (st_attempt st (csr_session_id r) (es_effect_id s) (es_attempt_id s)
               (es_authorization_transition_id s)) (\<lambda>found.
             if (case found of None \<Rightarrow> True | Some a \<Rightarrow> att_status a \<noteq> AUTHORIZED_UNCLAIMED)
             then act_res (Inr None)
             else
               act_bind (st_clock st) (\<lambda>closed_at.
               act_res (map_res Some (UnstartedDispatchCloseoutGuard_init
                 \<lparr>close_effect_id = es_effect_id s, close_attempt_id = es_attempt_id s,
                  close_authorization_transition_id = es_authorization_transition_id s,
                  close_executor_id = ''coordinator-unstarted'',
                  close_evidence_ref = prop_transition_id (csr_proposal r)
                    @ '':unstarted-control'',
                  close_closed_at = closed_at\<rparr>))))))"

definition port_commit_settlement_op ::
    "'s durable_store \<Rightarrow> dict \<Rightarrow> CommitSettlementRequest \<Rightarrow> ('s, CommitResult) action" where
  "port_commit_settlement_op st session_state r =
     act_bind
       (act_try
          (act_bind (parent_settlement_transition_ids st r) (\<lambda>ids.
           act_bind (unstarted_closeout_guard st r) (\<lambda>g. act_res (Inr (ids, g)))))) (\<lambda>found.
     case found of
       Inl e \<Rightarrow> act_res (if is_exception e then storage_failure e else Inl e)
     | Inr ((transition_id, adopt_ids), closeout) \<Rightarrow>
         act_bind (act_res (preparations (csr_proposal r))) (\<lambda>ms.
         commit_built_result st session_state (settlement_pq r)
           ((unit_defaults (csr_effect_mutation r # ms) True)
              \<lparr>opt_transition_id := Some transition_id, opt_closeout := closeout,
               opt_adopt_transition_ids := adopt_ids\<rparr>)))"

definition commit_settlement_with_recovery_guard ::
    "'s durable_store \<Rightarrow> dict \<Rightarrow> CommitSettlementRequest \<Rightarrow> RecoveryTransitionGuard
     \<Rightarrow> ('s, CommitResult) action" where
  "commit_settlement_with_recovery_guard st session_state r g =
     act_bind (act_res (preparations (csr_proposal r))) (\<lambda>ms.
     let t = prop_transition_id (csr_proposal r);
         commit = (\<lambda>transition_id adopt_ids.
           commit_built_result st session_state (settlement_pq r)
             ((unit_defaults (csr_effect_mutation r # ms) True)
                \<lparr>opt_recovery_guard := Some g, opt_transition_id := Some transition_id,
                 opt_adopt_transition_ids := adopt_ids,
                 opt_terminal_action := Some (guard_kind g = CHILD_TERMINAL)\<rparr>))
     in if guard_kind g \<noteq> PARENT_SETTLEMENT then commit (recovery_suffix t g) []
        else
          act_bind (act_try (st_child_binding st (csr_session_id r) (guard_child_run_id g)))
            (\<lambda>found.
          case found of
            Inl e \<Rightarrow> act_res (if is_exception e then storage_failure e else Inl e)
          | Inr None \<Rightarrow>
              act_res (CommitResult_init (InvalidTransitionCommitResult ''child_binding_missing''
                ''recovery parent settlement requires child binding''))
          | Inr (Some b) \<Rightarrow>
              let live = recovery_parent_settlement_transition_id b g
              in commit live (distinct_transition_ids live
                   [t, child_live_parent_settlement_transition_id b])))"

section \<open>Reconciliations\<close>

fun reconciled_status :: "ReconciliationOutcome \<Rightarrow> EffectStatus" where
  "reconciled_status RO_COMPLETED = COMPLETED"
| "reconciled_status RO_FAILED = FAILED"

definition reconciliation_unit ::
    "dict \<Rightarrow> CommitReconciliationRequest \<Rightarrow> EffectReconciliationEvidence
     \<Rightarrow> AuthoritativeUnitOfWork res" where
  "reconciliation_unit session_state r v =
     bind_res (EffectMutation_init
       \<lparr>mut_effect_id = rec_effect_id (crr_record r), mut_attempt_id = rec_attempt_id (crr_record r),
        mut_status = reconciled_status (rec_observed_outcome (crr_record r)),
        mut_payload = dict_of
          [(''result'', evi_result v), (''reason_code'', opt_str (evi_reason_code v)),
           (''reason_message'', opt_str (evi_reason_message v))],
        mut_expected_status = Some UNKNOWN, mut_reconciliation = Some (crr_record r)\<rparr>) (\<lambda>m.
     bind_res (osv_cas (crr_state_version r)) (\<lambda>c.
     bind_res (state_value_with_reconciled_effect (osv_value (crr_state_version r)) v
       (crr_record r)) (\<lambda>state_value.
     AuthoritativeUnitOfWork_init
       (empty_unit
          \<lparr>unit_session_state := session_state,
           unit_transition_id := Some (rec_transition_id (crr_record r)),
           unit_state_cas := Some c, unit_state_value := Some state_value,
           unit_effect_mutations := [m],
           unit_expected_authorization := Some (evi_authorization_transition_id v),
           unit_reconciliation_evidence_ref := Some (evi_evidence_ref v)\<rparr>))))"

definition port_commit_reconciliation_op ::
    "'s durable_store \<Rightarrow> dict \<Rightarrow> CommitReconciliationRequest \<Rightarrow> ('s, CommitResult) action" where
  "port_commit_reconciliation_op st session_state r =
     act_bind (act_try (st_evidence st (crr_session_id r) (rec_evidence_ref (crr_record r))))
       (\<lambda>found.
     case found of
       Inl e \<Rightarrow> act_res (if is_exception e then storage_failure e else Inl e)
     | Inr None \<Rightarrow>
         act_res (CommitResult_init (InvalidTransitionCommitResult
           ''missing_reconciliation_evidence''
           ''durable reconciliation evidence does not exist''))
     | Inr (Some v) \<Rightarrow>
         act_bind (act_res (reconciliation_unit session_state r v)) (\<lambda>u.
         act_bind (port_commit_unit st (crr_session_id r) (crr_owner_id r) (crr_owner_epoch r) u)
           (\<lambda>k. act_res (ordinary_result k))))"

section \<open>Authorizations\<close>

text \<open>
  The answer to an authorization, with the marker the port keeps when it was a replay.
\<close>

definition replay_marker ::
    "DispatchAuthorizationRequest \<Rightarrow> OperationStateVersion \<Rightarrow> AuthorizationReplayMarker" where
  "replay_marker r v =
     \<lparr>mark_session_id = dar_session_id r,
      mark_run_id = osv_run_id (esr_state_version (dar_engine_request r)),
      mark_authorization_transition_id = prop_transition_id (dar_proposal r),
      mark_effect_id = plan_effect_id (dar_effect_plan r),
      mark_attempt_id = plan_attempt_id (dar_effect_plan r),
      mark_owner_epoch = dar_owner_epoch r, mark_authorization_state = v\<rparr>"

definition authorized_permit ::
    "'s durable_store \<Rightarrow> DispatchAuthorizationRequest \<Rightarrow> AuthoritativeCommit
     \<Rightarrow> ('s, CommitResult) action" where
  "authorized_permit st r c =
     act_bind (act_res (required_transition_result c)) (\<lambda>(v, receipt).
     act_bind (st_token st) (\<lambda>token.
     act_res
       (case as_nonempty_str token of
          None \<Rightarrow>
            bind_res (failure_report ''invalid_permit_token''
              ''permit token factory returned an empty token'') (\<lambda>f.
            CommitResult_init (StorageFailureCommitResult f))
        | Some tok \<Rightarrow>
            bind_res (DispatchPermit_issue tok (dar_session_id r)
              (plan_effect_id (dar_effect_plan r)) (plan_attempt_id (dar_effect_plan r))
              (prop_transition_id (dar_proposal r)) (dar_owner_epoch r)
              (plan_idempotency_key (dar_effect_plan r))) (\<lambda>permit.
            bind_res (committed_notices c) (\<lambda>notices.
            CommitResult_init (DispatchAuthorizedResult v permit notices (Some receipt)))))))"

definition port_authorize_dispatch_op ::
    "'s durable_store \<Rightarrow> dict \<Rightarrow> DispatchAuthorizationRequest
     \<Rightarrow> ('s, CommitResult \<times> AuthorizationReplayMarker option) action" where
  "port_authorize_dispatch_op st session_state r =
     act_bind (commit_built st session_state (dispatch_pq r)
       ((unit_defaults [dar_effect_mutation r] False)
          \<lparr>opt_expected_mailbox_cut := Some (str_of_int (dar_mailbox_cut r))\<rparr>)) (\<lambda>k.
     case k of
       Refused result \<Rightarrow> act_res (Inr (result, None))
     | Accepted c \<Rightarrow>
         (if auth_idempotent c
          then act_res
            (bind_res (required_transition_result c) (\<lambda>(v, _).
             map_res (\<lambda>result. (result, Some (replay_marker r v))) (exact_replay c)))
          else act_bind (authorized_permit st r c) (\<lambda>result. act_res (Inr (result, None)))))"

definition keep_marker :: "AuthorizationReplayMarker option \<Rightarrow> markers \<Rightarrow> markers" where
  "keep_marker m ms =
     (case m of None \<Rightarrow> ms | Some k \<Rightarrow> ms((mark_session_id k, mark_run_id k) \<mapsto> k))"

definition consume_authorization_replay_marker ::
    "RunSegmentRequest \<Rightarrow> markers \<Rightarrow> AuthorizationReplayMarker option res \<times> markers" where
  "consume_authorization_replay_marker r ms =
     (let key = (seg_session_id r, osv_run_id (seg_state_version r)) in
      case ms key of
        None \<Rightarrow> (Inr None, ms)
      | Some k \<Rightarrow>
          (if seg_owner_epoch r \<noteq> mark_owner_epoch k
           then Inl (ValueError ''authorization replay marker owner epoch changed'')
           else Inr (Some k), ms(key := None)))"

section \<open>Recovering a replayed authorization\<close>

definition active_authorization ::
    "OperationStateVersion \<Rightarrow> AuthorizationReplayMarker \<Rightarrow> bool" where
  "active_authorization v k \<longleftrightarrow>
     (case as_dict (dict_get (osv_value v) runtime_key) of
        None \<Rightarrow> False
      | Some rt \<Rightarrow>
          (case as_dict (dict_get rt ''active_effect_authorization'') of
             None \<Rightarrow> False
           | Some active \<Rightarrow>
               dict_get active ''effect_id'' = PStr (mark_effect_id k)
               \<and> dict_get active ''attempt_id'' = PStr (mark_attempt_id k)
               \<and> dict_get active ''authorization_transition_id''
                   = PStr (mark_authorization_transition_id k)))"

definition nonempty_payload_text :: "dict \<Rightarrow> string \<Rightarrow> string \<Rightarrow> string" where
  "nonempty_payload_text payload field_name fallback =
     (case as_str (dict_get payload field_name) of
        None \<Rightarrow> fallback | Some s \<Rightarrow> if is_blank s then fallback else s)"

definition replayed_tool :: "OperationStateVersion \<Rightarrow> (string \<times> string) res" where
  "replayed_tool v =
     (case as_dict (dict_get (osv_value v) runtime_key) of
        None \<Rightarrow> Inl (RuntimeError ''authorization replay state lacks runtime metadata'')
      | Some rt \<Rightarrow>
          (case as_dict (dict_get rt ''active_effect_authorization'') of
             None \<Rightarrow> Inl (RuntimeError ''authorization replay state lacks active effect'')
           | Some active \<Rightarrow>
               (case (as_nonempty_str (dict_get active ''tool_call_id''),
                      as_nonempty_str (dict_get active ''tool_name'')) of
                  (None, _) \<Rightarrow>
                    Inl (RuntimeError ''authorization replay tool call identity is missing'')
                | (_, None) \<Rightarrow> Inl (RuntimeError ''authorization replay tool name is missing'')
                | (Some c, Some n) \<Rightarrow> Inr (c, n))))"

definition replayed_effect_settlement ::
    "AuthorizationReplayMarker \<Rightarrow> OperationStateVersion \<Rightarrow> EffectLedgerSlot
     \<Rightarrow> ExecutorAttemptRecord \<Rightarrow> EffectSettlement res" where
  "replayed_effect_settlement k v effect a =
     bind_res (replayed_tool v) (\<lambda>(tool_call_id, tool_name).
     let payload = ledger_payload effect;
         settle = (\<lambda>out result reason_code reason_message. EffectSettlement_init
           \<lparr>es_input_id = mark_authorization_transition_id k @ '':settlement:''
              @ mark_attempt_id k,
            es_tool_call_id = tool_call_id, es_tool_name = tool_name,
            es_effect_id = mark_effect_id k, es_attempt_id = mark_attempt_id k,
            es_authorization_transition_id = mark_authorization_transition_id k,
            es_owner_epoch = mark_owner_epoch k, es_outcome = out, es_result = result,
            es_reason_code = reason_code, es_reason_message = reason_message\<rparr>);
         result = dict_get_or payload ''result'' (PDict []);
         reasoned = (\<lambda>out code message. settle out result
           (Some (nonempty_payload_text payload ''reason_code'' code))
           (Some (nonempty_payload_text payload ''reason_message'' message)))
     in if ledger_status effect = ''completed'' then settle ESO_COMPLETED result None None
        else if ledger_status effect = ''failed''
        then reasoned ESO_FAILED ''effect_failed'' ''durable effect failed''
        else if ledger_status effect = ''unknown''
        then reasoned ESO_INDETERMINATE ''effect_indeterminate''
               ''durable effect outcome is indeterminate''
        else if ledger_status effect \<noteq> ''dispatched''
        then Inl (RuntimeError (''authorization replay effect status is unsupported: ''
               @ ledger_status effect))
        else if att_status a = RESERVED \<or> att_status a = STARTED
        then Inl (RuntimeError ''authorization replay cannot settle an active executor attempt'')
        else settle ESO_INDETERMINATE (PDict []) (Some ''authorization_replay_unclaimed'')
               (Some ''authorized effect execution could not be proven''))"

definition load_marked ::
    "'s durable_store \<Rightarrow> AuthorizationReplayMarker
     \<Rightarrow> ('s, EffectLedgerSlot option \<times> ExecutorAttemptRecord option) action" where
  "load_marked st k =
     act_bind (st_effect_slot st (mark_session_id k) (mark_effect_id k)) (\<lambda>effect.
     act_bind (st_attempt st (mark_session_id k) (mark_effect_id k) (mark_attempt_id k)
       (mark_authorization_transition_id k)) (\<lambda>a. act_res (Inr (effect, a))))"

text \<open>
  The polling loop: \<open>Inl\<close> the ledger and attempt to look at next, \<open>Inr\<close> the end, the exception
  or the last ones read.
\<close>

definition poll_step ::
    "'s durable_store \<Rightarrow> AuthorizationReplayMarker \<Rightarrow> (EffectLedgerSlot \<times> ExecutorAttemptRecord) \<times> 's
     \<Rightarrow> (EffectLedgerSlot \<times> ExecutorAttemptRecord) \<times> 's
        + (EffectLedgerSlot \<times> ExecutorAttemptRecord) res \<times> 's" where
  "poll_step st k = (\<lambda>((effect, a), s).
     if att_status a \<noteq> RESERVED \<and> att_status a \<noteq> STARTED then Inr (Inr (effect, a), s)
     else case act_bind (st_sleep st) (\<lambda>_. load_marked st k) s of
            (Inl e, s1) \<Rightarrow> Inr (Inl e, s1)
          | (Inr (Some effect', Some a'), s1) \<Rightarrow> Inl ((effect', a'), s1)
          | (Inr _, s1) \<Rightarrow>
              Inr (Inl (RuntimeError
                ''authorization replay evidence disappeared while waiting''), s1))"

definition replay_recovery ::
    "AuthorizationReplayMarker \<Rightarrow> OperationStateVersion \<Rightarrow> EffectLedgerSlot \<Rightarrow> ExecutorAttemptRecord
     \<Rightarrow> AuthorizationReplayRecovery res" where
  "replay_recovery k current_state effect a =
     (let v = (if active_authorization current_state k then current_state
               else mark_authorization_state k)
      in map_res (\<lambda>s. \<lparr>rcv_state_version = v, rcv_settlement = s\<rparr>)
           (replayed_effect_settlement k v effect a))"

definition replay_start ::
    "'s durable_store \<Rightarrow> AuthorizationReplayMarker
     \<Rightarrow> ('s, OperationStateVersion \<times> EffectLedgerSlot \<times> ExecutorAttemptRecord) action" where
  "replay_start st k =
     act_bind (st_operation_state st (mark_session_id k) (mark_run_id k)) (\<lambda>current_state.
     case current_state of
       None \<Rightarrow> act_res (Inl (RuntimeError ''authorization replay operation state is missing''))
     | Some v \<Rightarrow>
         act_bind (st_effect_slot st (mark_session_id k) (mark_effect_id k)) (\<lambda>effect.
         case effect of
           None \<Rightarrow> act_res (Inl (RuntimeError ''authorization replay effect is missing''))
         | Some fx \<Rightarrow>
             act_bind (st_attempt st (mark_session_id k) (mark_effect_id k) (mark_attempt_id k)
               (mark_authorization_transition_id k)) (\<lambda>found.
             act_res (case found of
               None \<Rightarrow> Inl (RuntimeError ''authorization replay attempt is missing'')
             | Some a \<Rightarrow> Inr (v, fx, a)))))"

definition recover_authorization_replay ::
    "'s durable_store \<Rightarrow> AuthorizationReplayMarker \<Rightarrow> 's
     \<Rightarrow> (AuthorizationReplayRecovery res \<times> 's) option" where
  "recover_authorization_replay st k s =
     (case replay_start st k s of
        (Inl e, s1) \<Rightarrow> Some (Inl e, s1)
      | (Inr (v, effect, a), s1) \<Rightarrow>
          map_option (\<lambda>(r, s2). (bind_res r (\<lambda>(effect', a'). replay_recovery k v effect' a'), s2))
            (step_loop (poll_step st k) ((effect, a), s1)))"

definition recover_authorization_without_marker ::
    "'s durable_store \<Rightarrow> RunSegmentRequest \<Rightarrow> 's
     \<Rightarrow> (AuthorizationReplayRecovery option res \<times> 's) option" where
  "recover_authorization_without_marker st r s =
     (if seg_owner_epoch r \<le> 0
      then Some (Inl (TypeError ''runner request lacks durable authorization authority''), s)
      else case as_dict (dict_get (osv_value (seg_state_version r)) runtime_key) of
        None \<Rightarrow> Some (Inr None, s)
      | Some rt \<Rightarrow>
          (case as_dict (dict_get rt ''active_effect_authorization'') of
             None \<Rightarrow> Some (Inr None, s)
           | Some active \<Rightarrow>
               (case (as_nonempty_str (dict_get active ''authorization_transition_id''),
                      as_nonempty_str (dict_get active ''effect_id''),
                      as_nonempty_str (dict_get active ''attempt_id'')) of
                  (Some t, Some e, Some a) \<Rightarrow>
                    map_option (\<lambda>(r, s1). (map_res Some r, s1))
                      (recover_authorization_replay st
                         \<lparr>mark_session_id = seg_session_id r,
                          mark_run_id = osv_run_id (seg_state_version r),
                          mark_authorization_transition_id = t, mark_effect_id = e,
                          mark_attempt_id = a, mark_owner_epoch = seg_owner_epoch r,
                          mark_authorization_state = seg_state_version r\<rparr> s)
                | _ \<Rightarrow> Some (Inl (RuntimeError
                    ''active effect authorization identity is incomplete''), s))))"

end
