(* ===== verification/Port_Laws.thy ===== *)
theory Port_Laws
  imports Commit_Port Store_Laws
begin

text \<open>
  What every operation of the port inherits from its store: it moves the world only as the store
  does, and a permit comes only from a commit that was not a replay.
\<close>

section \<open>The unit a commit is made of\<close>

lemma transition_unit_Inr:
  assumes "transition_unit st ss q opts s = (Inr u, s')"
  obtains c facts bindings where "u = proposal_unit ss q opts c facts bindings"
    "AuthoritativeUnitOfWork_init u = Inr u"
proof -
  obtain c facts bindings where
      u: "AuthoritativeUnitOfWork_init (proposal_unit ss q opts c facts bindings) = Inr u"
    using assms
    by (auto simp: transition_unit_def Let_def act_bind_Inr bind_res_eq_Inr split: if_splits)
  then show thesis by (intro that [of c facts bindings]) (auto simp: AuthoritativeUnitOfWork_init_iff)
qed

lemma proposal_unit_parts [simp]:
  "normalized_effect_mutations (proposal_unit ss q opts c facts bindings) = opt_mutations opts"
  "unit_expected_mailbox_cut (proposal_unit ss q opts c facts bindings) = opt_expected_mailbox_cut opts"
  "unit_unstarted_dispatch_closeout (proposal_unit ss q opts c facts bindings) = opt_closeout opts"
  "unit_state_cas (proposal_unit ss q opts c facts bindings) = Some c"
  by (simp_all add: proposal_unit_def empty_unit_def normalized_effect_mutations_def Let_def)

lemma proposal_unit_transition [simp]: "is_transition (proposal_unit ss q opts c facts bindings)"
  by (simp add: proposal_unit_def is_transition_def Let_def)

lemma reconciliation_unit_transition: "reconciliation_unit ss r v = Inr u \<Longrightarrow> is_transition u"
  by (auto simp: reconciliation_unit_def bind_res_eq_Inr AuthoritativeUnitOfWork_init_iff
      is_transition_def)

lemma port_commit_unit_Accepted:
  "port_commit_unit st sid o' epoch u s = (Inr (Accepted c), s') \<longleftrightarrow>
   st_commit st \<lparr>own_session_id = sid, own_owner_id = o', own_epoch = epoch\<rparr> u s = (Inr c, s')"
  by (auto simp: port_commit_unit_def act_catch_def act_bind_def act_res_def
      split: prod.splits sum.splits if_splits)

lemma commit_built_Accepted:
  assumes "commit_built st ss q opts s = (Inr (Accepted k), s')"
  obtains c facts bindings s1 where
    "transition_unit st ss q opts s = (Inr (proposal_unit ss q opts c facts bindings), s1)"
    "AuthoritativeUnitOfWork_init (proposal_unit ss q opts c facts bindings)
       = Inr (proposal_unit ss q opts c facts bindings)"
    "st_commit st \<lparr>own_session_id = pq_session_id q, own_owner_id = pq_owner_id q,
       own_epoch = pq_owner_epoch q\<rparr> (proposal_unit ss q opts c facts bindings) s1 = (Inr k, s')"
proof -
  obtain u s1 where u: "transition_unit st ss q opts s = (Inr u, s1)"
      and k: "st_commit st \<lparr>own_session_id = pq_session_id q, own_owner_id = pq_owner_id q,
        own_epoch = pq_owner_epoch q\<rparr> u s1 = (Inr k, s')"
    using assms by (auto simp: commit_built_def act_bind_Inr port_commit_unit_Accepted)
  from u obtain c facts bindings where "u = proposal_unit ss q opts c facts bindings"
      "AuthoritativeUnitOfWork_init u = Inr u"
    by (rule transition_unit_Inr)
  with u k show thesis by (auto intro: that)
qed

section \<open>The port over a store that keeps an order\<close>

locale durable_store_order = world_order later
  for later :: "'s \<Rightarrow> 's \<Rightarrow> bool" +
  fixes st :: "'s durable_store"
  assumes commit_moves: "is_transition u \<Longrightarrow> moves later (st_commit st authority u)"
    and operation_state_moves: "moves later (st_operation_state st sid run)"
    and effect_slot_moves: "moves later (st_effect_slot st sid e)"
    and evidence_moves: "moves later (st_evidence st sid ref)"
    and effect_binding_moves: "moves later (st_effect_binding st sid e)"
    and child_binding_moves: "moves later (st_child_binding st sid c)"
    and attempt_moves: "moves later (st_attempt st sid e a t)"
    and clock_moves: "moves later (st_clock st)"
    and token_moves: "moves later (st_token st)"
    and sleep_moves: "moves later (st_sleep st)"
begin

lemmas store_moves = operation_state_moves effect_slot_moves evidence_moves
  effect_binding_moves child_binding_moves attempt_moves clock_moves token_moves sleep_moves

lemma transition_unit_moves: "moves later (transition_unit st ss q opts)"
  unfolding transition_unit_def stamped_pending_fact_def Let_def
  by (intro moves_intros store_moves)

lemma refusal_moves: "moves later (refusal st sid epoch u e)"
  unfolding refusal_def state_conflict_def
  by (cases "handled_as e") (auto intro!: moves_intros store_moves)

lemma port_commit_unit_moves:
  "is_transition u \<Longrightarrow> moves later (port_commit_unit st sid o' epoch u)"
  unfolding port_commit_unit_def by (intro moves_intros commit_moves refusal_moves)

lemma commit_built_moves: "moves later (commit_built st ss q opts)"
  unfolding commit_built_def
  by (intro moves_bind_known transition_unit_moves port_commit_unit_moves)
     (auto elim!: transition_unit_Inr)

lemma commit_built_result_moves: "moves later (commit_built_result st ss q opts)"
  unfolding commit_built_result_def by (intro moves_intros commit_built_moves)

lemma commit_transition_moves: "moves later (port_commit_transition_op st ss r)"
  unfolding port_commit_transition_op_def by (intro moves_intros commit_built_result_moves)

lemma closeout_guard_moves: "moves later (unstarted_closeout_guard st r)"
  unfolding unstarted_closeout_guard_def
  by (cases "csr_settlement r") (auto intro!: moves_intros store_moves)

lemma commit_settlement_moves: "moves later (port_commit_settlement_op st ss r)"
  unfolding port_commit_settlement_op_def parent_settlement_transition_ids_def
  by (intro moves_intros store_moves closeout_guard_moves)
     (auto intro!: moves_intros commit_built_result_moves split: sum.splits)

lemma commit_reconciliation_moves: "moves later (port_commit_reconciliation_op st ss r)"
  unfolding port_commit_reconciliation_op_def
  by (intro moves_intros moves_bind_known [of "act_res _"] store_moves port_commit_unit_moves)
     (auto intro: reconciliation_unit_transition)

lemma authorized_permit_moves: "moves later (authorized_permit st r c)"
  unfolding authorized_permit_def by (auto intro!: moves_intros store_moves)

lemma authorize_dispatch_moves: "moves later (port_authorize_dispatch_op st ss r)"
  unfolding port_authorize_dispatch_op_def
  by (intro moves_intros commit_built_moves)
     (auto intro!: moves_intros authorized_permit_moves split: port_commit.splits)

end

section \<open>What a refusal reports\<close>

text \<open>A commit that the store refused is never reported as one that took place.\<close>

lemma CommitResult_init_kind: "CommitResult_init x = Inr r \<Longrightarrow> r = x"
  by (cases x) (auto simp: checks_eq_Inr)

definition reports_failure :: "CommitResult \<Rightarrow> bool" where
  "reports_failure r \<longleftrightarrow>
     commit_result_kind r \<notin> {CRK_COMMITTED, CRK_EXACT_REPLAY}"

lemma init_reports:
  "CommitResult_init x = Inr r \<Longrightarrow> reports_failure x \<Longrightarrow> reports_failure r"
  by (auto dest!: CommitResult_init_kind)

lemma storage_failure_reports: "storage_failure e = Inr r \<Longrightarrow> reports_failure r"
  by (auto simp: storage_failure_def bind_res_eq_Inr reports_failure_def dest!: CommitResult_init_kind
      simp del: CommitResult_init.simps)

lemma state_conflict_reports:
  assumes "state_conflict st sid u s = (Inr r, s')"
  shows "reports_failure r"
proof -
  obtain found s1 where "(case found of
          Inl e \<Rightarrow> (if is_exception e then storage_failure e else Inl e)
        | Inr None \<Rightarrow> CommitResult_init (InvalidTransitionCommitResult ''operation_state_missing''
            ''current operation state does not exist'')
        | Inr (Some v) \<Rightarrow> CommitResult_init (CASConflictCommitResult v)) = Inr r"
    using assms
    by (auto simp: state_conflict_def act_bind_Inr act_try_eq simp del: CommitResult_init.simps)
  then show ?thesis
    by (auto simp: reports_failure_def dest: storage_failure_reports dest!: CommitResult_init_kind
        simp del: CommitResult_init.simps split: sum.splits option.splits if_splits)
qed

lemma refusal_other:
  assumes "(if is_invalid_transition b
     then CommitResult_init (InvalidTransitionCommitResult x y) else storage_failure e) = Inr r"
  shows "reports_failure r"
  using assms
  by (auto simp: reports_failure_def dest: storage_failure_reports dest!: CommitResult_init_kind
      simp del: CommitResult_init.simps split: if_splits)

lemma handled_as_not_raised [simp]: "handled_as e \<noteq> RaisedFrom b c"
  by (induction e arbitrary: b c rule: handled_as.induct) auto

lemma refusal_reports:
  assumes "refusal st sid epoch u e s = (Inr r, s')"
  shows "reports_failure r"
  using assms
  by (cases "handled_as e")
     (auto simp: refusal_def reports_failure_def simp del: CommitResult_init.simps
      dest!: state_conflict_reports [unfolded reports_failure_def] CommitResult_init_kind
      refusal_other [unfolded reports_failure_def]
      storage_failure_reports [unfolded reports_failure_def])

lemma port_commit_unit_Refused:
  assumes "port_commit_unit st sid o' epoch u s = (Inr (Refused r), s')"
  shows "reports_failure r"
  using assms
  by (auto simp: port_commit_unit_def act_catch_def act_bind_def act_res_def
      split: prod.splits sum.splits if_splits dest!: refusal_reports)

lemma commit_built_Refused:
  "commit_built st ss q opts s = (Inr (Refused r), s') \<Longrightarrow> reports_failure r"
  by (auto simp: commit_built_def act_bind_Inr dest: port_commit_unit_Refused)

text \<open>Where a permit comes from.\<close>

lemma authorized_by:
  assumes "port_authorize_dispatch_op st ss r s = (Inr (DispatchAuthorizedResult v p ns rc, k), s')"
  obtains c s1 where "commit_built st ss (dispatch_pq r) ((unit_defaults [dar_effect_mutation r] False)
      \<lparr>opt_expected_mailbox_cut := Some (str_of_int (dar_mailbox_cut r))\<rparr>) s = (Inr (Accepted c), s1)"
    "\<not> auth_idempotent c" "k = None"
    "authorized_permit st r c s1 = (Inr (DispatchAuthorizedResult v p ns rc), s')"
proof -
  let ?opts = "(unit_defaults [dar_effect_mutation r] False)
    \<lparr>opt_expected_mailbox_cut := Some (str_of_int (dar_mailbox_cut r))\<rparr>"
  obtain q s1 where built: "commit_built st ss (dispatch_pq r) ?opts s = (Inr q, s1)"
      and rest: "(case q of
         Refused result \<Rightarrow> act_res (Inr (result, None))
       | Accepted c \<Rightarrow>
           (if auth_idempotent c
            then act_res
              (bind_res (required_transition_result c) (\<lambda>(v, _).
               map_res (\<lambda>result. (result, Some (replay_marker r v))) (exact_replay c)))
            else act_bind (authorized_permit st r c) (\<lambda>result. act_res (Inr (result, None))))) s1
        = (Inr (DispatchAuthorizedResult v p ns rc, k), s')"
    using assms by (auto simp: port_authorize_dispatch_op_def act_bind_Inr)
  show thesis
  proof (cases q)
    case (Refused result)
    with built commit_built_Refused [of st ss "dispatch_pq r" ?opts s result s1] rest show ?thesis
      by (auto simp: reports_failure_def)
  next
    case (Accepted c)
    with built rest that [of c s1] show ?thesis
      by (auto simp: exact_replay_def bind_res_eq_Inr map_res_eq_Inr act_bind_Inr
          dest!: CommitResult_init_kind split: if_splits)
  qed
qed

end
