(* ===== verification/Durable_Segments.thy ===== *)
theory Durable_Segments
  imports Segment_Hosts Port_Laws "HOL-Library.Multiset"
begin

text \<open>
  Segments on a durable commit port: the ports of a host whose commits go to a durable store, and
  what the store's effect ledger makes of them. An authorization that is granted takes its effect
  from undispatched to dispatched, so no effect is authorized, and none executed, twice.
\<close>

section \<open>The ports of a durable host\<close>

definition on_store :: "('q \<Rightarrow> ('s, 'a) action) \<Rightarrow> 'q \<Rightarrow> 's \<times> markers \<Rightarrow> 'a res \<times> 's \<times> markers" where
  "on_store f q w = (case f q (fst w) of (r, s) \<Rightarrow> (r, s, snd w))"

text \<open>\<open>authorize_dispatch\<close>: the marker of a replayed authorization is kept by the port.\<close>

definition authorize_port ::
    "'s durable_store \<Rightarrow> dict \<Rightarrow> DispatchAuthorizationRequest \<Rightarrow> 's \<times> markers
     \<Rightarrow> CommitResult res \<times> 's \<times> markers" where
  "authorize_port st session_state r w =
     (case port_authorize_dispatch_op st session_state r (fst w) of
        (Inl e, s) \<Rightarrow> (Inl e, s, snd w)
      | (Inr (result, k), s) \<Rightarrow> (Inr result, s, keep_marker k (snd w)))"

definition durable_ports ::
    "'s durable_store \<Rightarrow> dict \<Rightarrow> ('s \<times> markers) ports \<Rightarrow> ('s \<times> markers) ports" where
  "durable_ports st session_state base =
     base\<lparr>port_commit_transition := on_store (port_commit_transition_op st session_state),
          port_commit_settlement := on_store (port_commit_settlement_op st session_state),
          port_commit_reconciliation := on_store (port_commit_reconciliation_op st session_state),
          port_authorize_dispatch := authorize_port st session_state\<rparr>"

section \<open>Effects of a trace\<close>

fun authorized_key :: "event \<Rightarrow> (string \<times> string) list" where
  "authorized_key (EvAuthorize r (Inr (DispatchAuthorizedResult v p ns rc))) =
     [(dar_session_id r, plan_effect_id (dar_effect_plan r))]"
| "authorized_key _ = []"

definition authorized_keys :: "event list \<Rightarrow> (string \<times> string) list" where
  "authorized_keys tr = concat (map authorized_key tr)"

fun executed_key :: "event \<Rightarrow> (string \<times> string) list" where
  "executed_key (EvExecute p r) = [(permit_session_id p, permit_effect_id p)]"
| "executed_key _ = []"

definition executed_keys :: "event list \<Rightarrow> (string \<times> string) list" where
  "executed_keys tr = concat (map executed_key tr)"

lemma keys_snoc [simp]:
  "authorized_keys (tr @ [ev]) = authorized_keys tr @ authorized_key ev"
  "executed_keys (tr @ [ev]) = executed_keys tr @ executed_key ev"
  by (simp_all add: authorized_keys_def executed_keys_def)

lemma keys_Nil [simp]: "authorized_keys [] = []" "executed_keys [] = []"
  by (simp_all add: authorized_keys_def executed_keys_def)

text \<open>Every execution uses up an authorization of its own.\<close>

definition unspent :: "duty \<Rightarrow> (string \<times> string) multiset" where
  "unspent d = (case d of Held r p Ready \<Rightarrow> {#(dar_session_id r, plan_effect_id (dar_effect_plan r))#}
     | _ \<Rightarrow> {#})"

lemma duty_step_spends:
  assumes "duty_step d ev = Some d'"
  shows "mset (executed_key ev) + unspent d' \<subseteq># mset (authorized_key ev) + unspent d"
proof (cases ev)
  case (EvAuthorize r res)
  with assms have "d = Free" "d' = (case res of Inr (DispatchAuthorizedResult _ p _ _) \<Rightarrow> Held r p Ready
      | _ \<Rightarrow> Free)"
    by (auto simp: duty_step_def split: if_splits)
  with EvAuthorize show ?thesis
    by (auto simp: unspent_def split: sum.split CommitResult.split)
next
  case (EvExecute q res)
  with assms show ?thesis
    by (auto simp: duty_step_def unspent_def permit_for_def
        split: duty.splits exec_status.splits if_splits)
qed (use assms in \<open>auto simp: duty_step_def unspent_def commit_duty_def paid_def
       split: duty.splits exec_status.splits if_splits Settlement.splits\<close>)

lemma executed_authorized:
  "duty_after tr = Some d \<Longrightarrow> mset (executed_keys tr) + unspent d \<subseteq># mset (authorized_keys tr)"
proof (induction tr arbitrary: d rule: rev_induct)
  case (snoc ev tr)
  then obtain d0 where d0: "duty_after tr = Some d0" "duty_step d0 ev = Some d"
    by (auto split: option.splits)
  have "mset (executed_keys tr) + (mset (executed_key ev) + unspent d)
      \<subseteq># mset (executed_keys tr) + (mset (authorized_key ev) + unspent d0)"
    using duty_step_spends [OF d0(2)] by (rule subset_mset.add_left_mono)
  also have "\<dots> = mset (authorized_key ev) + (mset (executed_keys tr) + unspent d0)"
    by (simp only: ac_simps)
  also have "\<dots> \<subseteq># mset (authorized_key ev) + mset (authorized_keys tr)"
    using snoc.IH [OF d0(1)] by (rule subset_mset.add_left_mono)
  finally show ?case by (simp only: keys_snoc mset_append ac_simps)
qed (simp add: unspent_def)

lemma distinct_submset:
  assumes "mset xs \<subseteq># mset ys" "distinct ys"
  shows "distinct xs"
proof -
  have "count (mset xs) a \<le> 1" for a
    using mset_subset_eq_count [OF assms(1), of a] assms(2)
    by (auto simp: distinct_count_atmost_1 intro: order_trans)
  then show ?thesis
    by (metis One_nat_def count_mset_0_iff distinct_count_atmost_1 le_Suc_eq le_zero_eq)
qed

lemma run_segment_executions:
  assumes "run_segment ports request w = Some (v, h)"
  shows "mset (executed_keys (host_trace h)) \<subseteq># mset (authorized_keys (host_trace h))"
proof -
  obtain d where "duty_after (host_trace h) = Some d"
    using run_segment_protocol [OF assms] by blast
  from executed_authorized [OF this] show ?thesis by (rule subset_mset.order_trans [rotated]) simp
qed

section \<open>A store with an effect ledger\<close>

text \<open>
  \<open>level\<close> is how far the ledger has taken an effect, 2 and above when it was dispatched: it never
  falls, and a commit that is no replay and dispatches an effect finds it below.
\<close>

lemma dispatch_request_mutation:
  assumes "is_ok (DispatchAuthorizationRequest_init r)"
  shows "mut_effect_id (dar_effect_mutation r) = plan_effect_id (dar_effect_plan r)
    \<and> mut_expected_status (dar_effect_mutation r) = Some PREPARED
    \<and> mut_status (dar_effect_mutation r) = DISPATCHED"
proof -
  obtain q where "DispatchAuthorizationRequest_init r = Inr q"
    using assms by (cases "DispatchAuthorizationRequest_init r") auto
  then show ?thesis by (auto simp: DispatchAuthorizationRequest_init_def res_simps)
qed

locale dispatch_ledger = durable_store_order later st
  for later :: "'s \<Rightarrow> 's \<Rightarrow> bool" and st :: "'s durable_store" +
  fixes level :: "'s \<Rightarrow> string \<times> string \<Rightarrow> nat"
  assumes level_later: "later s t \<Longrightarrow> level s key \<le> level t key"
    and fresh_dispatch: "st_commit st authority u s = (Inr c, s') \<Longrightarrow> is_transition u \<Longrightarrow>
      \<not> auth_idempotent c \<Longrightarrow> m \<in> set (normalized_effect_mutations u) \<Longrightarrow>
      mut_expected_status m = Some PREPARED \<Longrightarrow> mut_status m = DISPATCHED \<Longrightarrow>
      level s (own_session_id authority, mut_effect_id m) < 2
      \<and> 2 \<le> level s' (own_session_id authority, mut_effect_id m)"
begin

lemma authorization_dispatches:
  assumes "port_authorize_dispatch_op st ss r s = (Inr (DispatchAuthorizedResult v p ns rc, k), s')"
    and "is_ok (DispatchAuthorizationRequest_init r)"
  shows "level s (dar_session_id r, plan_effect_id (dar_effect_plan r)) < 2"
    and "2 \<le> level s' (dar_session_id r, plan_effect_id (dar_effect_plan r))"
proof -
  let ?key = "(dar_session_id r, plan_effect_id (dar_effect_plan r))"
  let ?opts = "(unit_defaults [dar_effect_mutation r] False)
    \<lparr>opt_expected_mailbox_cut := Some (str_of_int (dar_mailbox_cut r))\<rparr>"
  have m: "mut_effect_id (dar_effect_mutation r) = plan_effect_id (dar_effect_plan r)"
    "mut_expected_status (dar_effect_mutation r) = Some PREPARED"
    "mut_status (dar_effect_mutation r) = DISPATCHED"
    using dispatch_request_mutation [OF assms(2)] by simp_all
  obtain c s1 where c: "commit_built st ss (dispatch_pq r) ?opts s = (Inr (Accepted c), s1)"
      "\<not> auth_idempotent c" "k = None"
      and permit: "authorized_permit st r c s1 = (Inr (DispatchAuthorizedResult v p ns rc), s')"
    using assms(1) by (rule authorized_by)
  from c(1) obtain x facts bindings s2 where
      tu: "transition_unit st ss (dispatch_pq r) ?opts s
        = (Inr (proposal_unit ss (dispatch_pq r) ?opts x facts bindings), s2)"
      and commit: "st_commit st \<lparr>own_session_id = pq_session_id (dispatch_pq r),
         own_owner_id = pq_owner_id (dispatch_pq r), own_epoch = pq_owner_epoch (dispatch_pq r)\<rparr>
         (proposal_unit ss (dispatch_pq r) ?opts x facts bindings) s2 = (Inr c, s1)"
    by (rule commit_built_Accepted)
  have "level s2 ?key < 2 \<and> 2 \<le> level s1 ?key"
    using fresh_dispatch [OF commit _ c(2), of "dar_effect_mutation r"] m
    by (simp add: dispatch_pq_def unit_defaults_def)
  moreover have "level s ?key \<le> level s2 ?key"
    by (rule level_later) (rule movesD [OF transition_unit_moves tu])
  moreover have "level s1 ?key \<le> level s' ?key"
    by (rule level_later) (rule movesD [OF authorized_permit_moves permit])
  ultimately show "level s ?key < 2" "2 \<le> level s' ?key" by simp_all
qed

end

section \<open>Segments on it\<close>

text \<open>What holds along a trace that started in \<open>s0\<close>.\<close>

definition dispatched_apart ::
    "('s \<Rightarrow> 's \<Rightarrow> bool) \<Rightarrow> ('s \<Rightarrow> string \<times> string \<Rightarrow> nat) \<Rightarrow> 's \<Rightarrow> 's \<times> markers \<Rightarrow> event list \<Rightarrow> bool" where
  "dispatched_apart later level s0 w tr \<longleftrightarrow>
     later s0 (fst w) \<and> distinct (authorized_keys tr)
     \<and> (\<forall>key \<in> set (authorized_keys tr). level s0 key < 2 \<and> 2 \<le> level (fst w) key)"

text \<open>The other ports of the host move the store along its order.\<close>

definition base_moves :: "('s \<Rightarrow> 's \<Rightarrow> bool) \<Rightarrow> ('s \<times> markers) ports \<Rightarrow> bool" where
  "base_moves later base \<longleftrightarrow>
     (\<forall>w. later (fst w) (fst (snd (port_observe base w)))
       \<and> (\<forall>p. later (fst w) (fst (snd (port_execute base p w))))
       \<and> (\<forall>m. later (fst w) (fst (port_generate base m w)))
       \<and> (\<forall>g. later (fst w) (fst (snd (port_race base g w))))
       \<and> later (fst w) (fst (snd (port_drain_generate base w)))
       \<and> later (fst w) (fst (snd (port_drain_wait base w)))
       \<and> (\<forall>f. later (fst w) (fst (snd (port_emit_frame base f w))))
       \<and> (\<forall>n. later (fst w) (fst (snd (port_emit_fact base n w)))))"

lemma base_movesD:
  assumes "base_moves later base"
  shows "port_observe base w = (a, w') \<Longrightarrow> later (fst w) (fst w')"
    "port_execute base p w = (b, w') \<Longrightarrow> later (fst w) (fst w')"
    "later (fst w) (fst (port_generate base m w))"
    "port_race base g w = (c, w') \<Longrightarrow> later (fst w) (fst w')"
    "port_drain_generate base w = (d, w') \<Longrightarrow> later (fst w) (fst w')"
    "port_drain_wait base w = (z, w') \<Longrightarrow> later (fst w) (fst w')"
    "port_emit_frame base f w = (x, w') \<Longrightarrow> later (fst w) (fst w')"
    "port_emit_fact base n w = (y, w') \<Longrightarrow> later (fst w) (fst w')"
  using assms unfolding base_moves_def by (metis snd_conv)+

locale durable_host = dispatch_ledger later st level
  for later :: "'s \<Rightarrow> 's \<Rightarrow> bool" and st :: "'s durable_store" and level +
  fixes base :: "('s \<times> markers) ports"
  assumes host_moves: "base_moves later base"
begin

lemma apart_moves:
  "dispatched_apart later level s0 w tr \<Longrightarrow> later (fst w) (fst w') \<Longrightarrow> authorized_key ev = [] \<Longrightarrow>
   dispatched_apart later level s0 w' (tr @ [ev])"
  by (auto simp: dispatched_apart_def intro: later_trans level_later order_trans)

lemma apart_moves_silent:
  "dispatched_apart later level s0 w tr \<Longrightarrow> later (fst w) (fst w') \<Longrightarrow>
   dispatched_apart later level s0 w' tr"
  by (auto simp: dispatched_apart_def intro: later_trans level_later order_trans)

lemma on_store_moves:
  "moves later (f q) \<Longrightarrow> on_store f q w = (r, w') \<Longrightarrow> later (fst w) (fst w')"
  by (auto simp: on_store_def dest: movesD split: prod.splits)

lemma commit_port_moves:
  "on_store (port_commit_transition_op st ss) q w = (r, w') \<Longrightarrow> later (fst w) (fst w')"
  "on_store (port_commit_settlement_op st ss) p w = (r, w') \<Longrightarrow> later (fst w) (fst w')"
  by (auto elim: on_store_moves [rotated] intro: commit_transition_moves commit_settlement_moves)

lemma authorize_port_moves: "authorize_port st ss r w = (x, w') \<Longrightarrow> later (fst w) (fst w')"
  using movesD [OF authorize_dispatch_moves, of ss r "fst w"]
  by (auto simp: authorize_port_def split: prod.splits sum.splits)

lemma apart_authorize:
  assumes apart: "dispatched_apart later level s0 w tr"
    and ok: "is_ok (DispatchAuthorizationRequest_init a)"
    and call: "authorize_port st ss a w = (r, w')"
  shows "dispatched_apart later level s0 w' (tr @ [EvAuthorize a r])"
proof (cases "authorized_key (EvAuthorize a r) = []")
  case True
  with apart authorize_port_moves [OF call] show ?thesis by (rule apart_moves)
next
  case False
  let ?key = "(dar_session_id a, plan_effect_id (dar_effect_plan a))"
  from False have key: "authorized_key (EvAuthorize a r) = [?key]"
    by (cases "EvAuthorize a r" rule: authorized_key.cases) auto
  from False obtain v p ns rc where r: "r = Inr (DispatchAuthorizedResult v p ns rc)"
    by (cases "EvAuthorize a r" rule: authorized_key.cases) auto
  with call obtain k where op: "port_authorize_dispatch_op st ss a (fst w)
      = (Inr (DispatchAuthorizedResult v p ns rc, k), fst w')"
    by (auto simp: authorize_port_def split: prod.splits sum.splits)
  note crossed = authorization_dispatches [OF op ok]
  have later: "later s0 (fst w)" "later (fst w) (fst w')"
    using apart authorize_port_moves [OF call] by (simp_all add: dispatched_apart_def)
  then have "level s0 ?key < 2" using crossed(1) level_later by (metis order_le_less_trans)
  moreover have "?key \<notin> set (authorized_keys tr)"
    using apart crossed(1) by (force simp: dispatched_apart_def)
  moreover have "\<forall>key \<in> set (authorized_keys tr). 2 \<le> level (fst w') key"
    using apart level_later [OF later(2)] by (auto simp: dispatched_apart_def intro: order_trans)
  ultimately show ?thesis
    using apart crossed(2) later key later_trans by (auto simp: dispatched_apart_def)
qed

end

sublocale durable_host \<subseteq> host: host_invariant "durable_ports st ss base" "dispatched_apart later level s0"
  for ss s0
  by unfold_locales
     (auto simp: durable_ports_def
       intro: apart_moves apart_moves_silent apart_authorize base_movesD [OF host_moves]
         commit_port_moves)

context durable_host
begin

lemma segment_apart:
  assumes "run_segment (durable_ports st ss base) request w = Some (v, h)"
  shows "dispatched_apart later level (fst w) (host_world h) (host_trace h)"
  by (rule host.run_segment_kept [OF assms]) (simp add: dispatched_apart_def later_refl)

text \<open>What a segment executes it found undispatched and leaves dispatched, each effect once.\<close>

lemma segment_executes_once:
  assumes "run_segment (durable_ports st ss base) request w = Some (v, h)"
  shows "distinct (executed_keys (host_trace h))"
    "key \<in> set (executed_keys (host_trace h)) \<Longrightarrow>
       level (fst w) key < 2 \<and> 2 \<le> level (fst (host_world h)) key"
    "later (fst w) (fst (host_world h))"
proof -
  note apart = segment_apart [OF assms, unfolded dispatched_apart_def]
  note sub = run_segment_executions [OF assms]
  show "distinct (executed_keys (host_trace h))" using distinct_submset [OF sub] apart by blast
  show "later (fst w) (fst (host_world h))" using apart by blast
  show "key \<in> set (executed_keys (host_trace h)) \<Longrightarrow>
      level (fst w) key < 2 \<and> 2 \<le> level (fst (host_world h)) key"
    using apart mset_subset_eqD [OF sub] by auto
qed

end

end
