(* ===== verification/Activation.thy ===== *)
theory Activation
  imports Py_Values
begin

text \<open>
  \<open>coding_agent/runtime_activation.py\<close>: the runtime version a session is stamped with, the fence
  that keeps it immutable, and what each version may write. \<open>repr\<close> of an arbitrary value is a
  parameter; of a checkpoint only the fields read here are modelled.
\<close>

definition known_runtime_versions :: "string list" where
  "known_runtime_versions = [''legacy'', ''agentkit-1'']"

datatype RuntimePath = LEGACY_PATH | NEW_PATH

record CheckpointSnapshot =
  ckpt_tape_entries :: "dict list"
  ckpt_plugin_states :: dict
  ckpt_extra :: dict

definition parse_runtime_version :: "(pyval \<Rightarrow> string) \<Rightarrow> dict \<Rightarrow> string res" where
  "parse_runtime_version py_repr payload =
     (let v = dict_get payload ''runtime_version'';
          unknown = Inl (UnknownRuntimeVersionError (''unknown runtime_version: '' @ py_repr v))
      in if v = PNone then Inr ''legacy''
         else case as_str v of
                None \<Rightarrow> unknown
              | Some s \<Rightarrow> (if s \<in> set known_runtime_versions then Inr s else unknown))"

definition runtime_path_for_version :: "(pyval \<Rightarrow> string) \<Rightarrow> string \<Rightarrow> RuntimePath res" where
  "runtime_path_for_version py_repr version =
     (if version = ''agentkit-1'' then Inr NEW_PATH
      else if version = ''legacy'' then Inr LEGACY_PATH
      else Inl (UnknownRuntimeVersionError
             (''unknown runtime_version: '' @ py_repr (PStr version))))"

definition version_for_new_session :: "bool \<Rightarrow> string" where
  "version_for_new_session new_sessions_enabled =
     (if new_sessions_enabled then ''agentkit-1'' else ''legacy'')"

definition stamp_session_payload_for_save ::
    "(pyval \<Rightarrow> string) \<Rightarrow> dict \<Rightarrow> dict option \<Rightarrow> bool \<Rightarrow> dict res" where
  "stamp_session_payload_for_save py_repr incoming stored new_sessions_enabled =
     (let stamped = (\<lambda>v. dict_set ''runtime_version'' (PStr v) incoming)
      in bind_res
           (if dict_get incoming ''runtime_version'' = PNone then Inr None
            else map_res Some (parse_runtime_version py_repr incoming)) (\<lambda>parsed.
         case stored of
           None \<Rightarrow>
             (case parsed of
                None \<Rightarrow> Inr (stamped (version_for_new_session new_sessions_enabled))
              | Some v \<Rightarrow>
                  (if \<not> new_sessions_enabled \<and> v = ''agentkit-1''
                   then Inl (CrossVersionWriteError
                          ''new-runtime sessions cannot be created while activation is off'')
                   else Inr (stamped v)))
         | Some row \<Rightarrow>
             bind_res (parse_runtime_version py_repr row) (\<lambda>stored_version.
             if parsed \<noteq> None \<and> parsed \<noteq> Some stored_version
             then Inl (CrossVersionWriteError ''session runtime_version is immutable'')
             else Inr (stamped stored_version))))"

definition is_new_runtime_restore_point :: "CheckpointSnapshot \<Rightarrow> bool" where
  "is_new_runtime_restore_point s \<longleftrightarrow>
     dict_get (ckpt_extra s) ''checkpoint_format'' = PStr ''agentkit-1''
     \<and> dict_find (ckpt_extra s) ''operation_state_version'' \<noteq> None
     \<and> ckpt_tape_entries s = [] \<and> ckpt_plugin_states s = []"

definition restore_point_stamp :: "dict \<Rightarrow> dict option res" where
  "restore_point_stamp extra =
     (let stamp = dict_get extra ''operation_state_version''
      in if stamp = PNone then Inr None
         else case as_dict stamp of
                Some d \<Rightarrow> Inr (Some d)
              | None \<Rightarrow> Inl (ValueError ''operation_state_version must be an object or null''))"

definition restore_point_cas_matches :: "dict \<Rightarrow> string \<Rightarrow> int \<Rightarrow> int \<Rightarrow> string \<Rightarrow> bool" where
  "restore_point_cas_matches stamp run_id revision projection_epoch transition_id \<longleftrightarrow>
     dict_get stamp ''run_id'' = PStr run_id
     \<and> py_eq (dict_get stamp ''revision'') (PInt revision)
     \<and> py_eq (dict_get stamp ''projection_epoch'') (PInt projection_epoch)
     \<and> (case as_dict (dict_get stamp ''commit_ref'') of
          None \<Rightarrow> False
        | Some ref \<Rightarrow> dict_get ref ''transition_id'' = PStr transition_id)"

definition assert_checkpoint_allowed ::
    "(pyval \<Rightarrow> string) \<Rightarrow> dict \<Rightarrow> CheckpointSnapshot option \<Rightarrow> unit res" where
  "assert_checkpoint_allowed py_repr payload snapshot =
     bind_res (parse_runtime_version py_repr payload) (\<lambda>version.
     let restore_point =
           (case snapshot of None \<Rightarrow> False | Some s \<Rightarrow> is_new_runtime_restore_point s)
     in if version = ''agentkit-1''
        then (if restore_point then Inr ()
              else Inl (NewRuntimeCheckpointRejectedError
                ''new-runtime checkpoint capture and restore require RestorePoint format''))
        else if restore_point
        then Inl (NewRuntimeCheckpointRejectedError
               ''legacy sessions cannot capture or restore agentkit-1 RestorePoints'')
        else Inr ())"

definition assert_effect_status_allowed ::
    "(pyval \<Rightarrow> string) \<Rightarrow> string \<Rightarrow> string \<Rightarrow> unit res" where
  "assert_effect_status_allowed py_repr status runtime_version =
     checks
       [fails_when (status = []) (ValueError ''status must be non-empty''),
        fails_when (runtime_version \<notin> set known_runtime_versions)
          (UnknownRuntimeVersionError
            (''unknown runtime_version: '' @ py_repr (PStr runtime_version))),
        fails_when (runtime_version = ''agentkit-1'' \<and> status = ''settled'')
          (NewRuntimeSettledWriteError ''new-runtime sessions cannot write settled'')] ()"

definition serving_turn_kind :: "(pyval \<Rightarrow> string) \<Rightarrow> dict \<Rightarrow> string res" where
  "serving_turn_kind py_repr payload =
     bind_res (parse_runtime_version py_repr payload) (\<lambda>version.
     map_res (\<lambda>path. case path of
         NEW_PATH \<Rightarrow> ''durable_segment_runner'' | LEGACY_PATH \<Rightarrow> ''pipeline_adapter'')
       (runtime_path_for_version py_repr version))"

definition assert_legacy_terminal_writer_allowed ::
    "(pyval \<Rightarrow> string) \<Rightarrow> dict \<Rightarrow> unit res" where
  "assert_legacy_terminal_writer_allowed py_repr payload =
     bind_res (parse_runtime_version py_repr payload)
       (assert_effect_status_allowed py_repr ''settled'')"

section \<open>The fence\<close>

lemma parse_runtime_version_known:
  "parse_runtime_version r payload = Inr v \<Longrightarrow> v \<in> {''legacy'', ''agentkit-1''}"
  by (auto simp: parse_runtime_version_def known_runtime_versions_def Let_def
      split: option.splits if_splits)

lemma parse_runtime_version_set [simp]:
  "v \<in> {''legacy'', ''agentkit-1''} \<Longrightarrow>
   parse_runtime_version r (dict_set ''runtime_version'' (PStr v) d) = Inr v"
  by (auto simp: parse_runtime_version_def known_runtime_versions_def Let_def)

text \<open>A saved payload carries a known version, and the version of a stored session never changes.\<close>

lemma stamp_session_payload_Inr:
  assumes "stamp_session_payload_for_save r incoming stored enabled = Inr payload"
  obtains v where "parse_runtime_version r payload = Inr v" "v \<in> {''legacy'', ''agentkit-1''}"
    "payload = dict_set ''runtime_version'' (PStr v) incoming"
    "\<And>row. stored = Some row \<Longrightarrow> parse_runtime_version r row = Inr v"
    "stored = None \<Longrightarrow> v = ''agentkit-1'' \<Longrightarrow> enabled"
proof -
  obtain parsed where parsed: "parsed = None \<or> (\<exists>v. parsed = Some v \<and> v \<in> {''legacy'', ''agentkit-1''})"
    and rest: "(case stored of
           None \<Rightarrow>
             (case parsed of
                None \<Rightarrow> Inr (dict_set ''runtime_version'' (PStr (version_for_new_session enabled)) incoming)
              | Some v \<Rightarrow>
                  (if \<not> enabled \<and> v = ''agentkit-1''
                   then Inl (CrossVersionWriteError
                          ''new-runtime sessions cannot be created while activation is off'')
                   else Inr (dict_set ''runtime_version'' (PStr v) incoming)))
         | Some row \<Rightarrow>
             bind_res (parse_runtime_version r row) (\<lambda>stored_version.
             if parsed \<noteq> None \<and> parsed \<noteq> Some stored_version
             then Inl (CrossVersionWriteError ''session runtime_version is immutable'')
             else Inr (dict_set ''runtime_version'' (PStr stored_version) incoming))) = Inr payload"
    using assms
    by (auto simp: stamp_session_payload_for_save_def Let_def bind_res_eq_Inr map_res_eq_Inr
        dest: parse_runtime_version_known split: if_splits)
  show thesis
  proof (cases stored)
    case None
    with rest parsed obtain v where "payload = dict_set ''runtime_version'' (PStr v) incoming"
        "v \<in> {''legacy'', ''agentkit-1''}" "v = ''agentkit-1'' \<longrightarrow> enabled"
      by (cases parsed) (auto simp: version_for_new_session_def split: if_splits)
    with None that [of v] show ?thesis by simp
  next
    case (Some row)
    with rest obtain v where "parse_runtime_version r row = Inr v"
        "payload = dict_set ''runtime_version'' (PStr v) incoming"
      by (auto simp: bind_res_eq_Inr split: if_splits)
    with Some that [of v] parse_runtime_version_known [of r row v] show ?thesis by simp
  qed
qed

end
