(* ===== verification/Local_Mailbox.thy ===== *)
theory Local_Mailbox
  imports Local_Ledger Local_History
begin

text \<open>
  What an admission does to the database: the source and the slot it writes, the dispatch generation
  it moves on, and the same command admitted again.
\<close>

section \<open>The dispatch generation\<close>

definition generation_at :: "local_db \<Rightarrow> string \<Rightarrow> int" where
  "generation_at db sid =
     (case db_fact_source db sid of None \<Rightarrow> 0 | Some r \<Rightarrow> fr_dispatch_generation r)"

lemma generation_at_same: "db_fact_source db' = db_fact_source db \<Longrightarrow> generation_at db' = generation_at db"
  by (simp add: generation_at_def fun_eq_iff)

lemma ensure_fact_source_generation:
  assumes "ensure_fact_source db sid = Inr (fs, db0)"
  shows "generation_at db0 = generation_at db" "fs_dispatch_generation fs = generation_at db sid"
    "db_mailbox db0 = db_mailbox db" "db_fact_source db0 sid \<noteq> None" "db_owners db0 = db_owners db"
    "ensure_fact_source db0 sid = Inr (fs, db0)"
    "db_effects db0 = db_effects db" "db_attempts db0 = db_attempts db"
proof -
  obtain row where row: "fact_source_from_row sid row = Inr fs"
      "db0 = db\<lparr>db_fact_source := (db_fact_source db)(sid \<mapsto> row)\<rparr>"
      "db_fact_source db sid = Some row \<or> db_fact_source db sid = None \<and> row = new_fact_source"
    using assms by (rule ensure_fact_source_Inr)
  then show "generation_at db0 = generation_at db" "db_mailbox db0 = db_mailbox db"
      "db_fact_source db0 sid \<noteq> None" "db_owners db0 = db_owners db"
      "ensure_fact_source db0 sid = Inr (fs, db0)"
      "db_effects db0 = db_effects db" "db_attempts db0 = db_attempts db"
    by (auto simp: generation_at_def fun_eq_iff new_fact_source_def ensure_fact_source_def
        map_res_eq_Inr)
  show "fs_dispatch_generation fs = generation_at db sid"
    using row fact_source_from_row_Inr(3) [OF row(1)]
    by (auto simp: generation_at_def new_fact_source_def)
qed

text \<open>What an admission leaves: the same database, or the slot with the source moved on.\<close>

lemma admit_runtime_command_Inr:
  assumes "admit_runtime_command fr fi now authority c db = Inr (a, db')"
  obtains (again) payload fs row where "adm_idempotent a" "ensure_fact_source db (own_session_id authority) = Inr (fs, db')"
    "runtime_command_mailbox_payload c = Inr payload"
    "db_mailbox db (own_session_id authority, cmd_command_id c) = Some row"
    "readmitted fr c payload fs row = Inr a"
  | (fresh) payload b fs db0 e where "\<not> adm_idempotent a"
    "runtime_command_mailbox_payload c = Inr payload"
    "runtime_command_invalidates_dispatch c = Inr b"
    "assert_authority fi now db authority = Inr ()"
    "ensure_fact_source db (own_session_id authority) = Inr (fs, db0)"
    "db_mailbox db (own_session_id authority, cmd_command_id c) = None"
    "admission_entry c (fs_session_seq fs + 1) (admission_generation fs b) ''pending'' = Inr e"
    "admission_result e (admission_generation fs b) False = Inr a"
    "db' = write_admission (own_session_id authority) (cmd_command_id c) (fs_session_seq fs + 1)
       (admission_generation fs b) payload db0"
proof -
  obtain payload b fs db0 where parts: "runtime_command_mailbox_payload c = Inr payload"
      "runtime_command_invalidates_dispatch c = Inr b" "assert_authority fi now db authority = Inr ()"
      "ensure_fact_source db (own_session_id authority) = Inr (fs, db0)"
      and run: "(case db_mailbox db0 (own_session_id authority, cmd_command_id c) of
       Some row \<Rightarrow> map_res (\<lambda>a. (a, db0)) (readmitted fr c payload fs row)
     | None \<Rightarrow> admitted_fresh authority c payload b fs db0) = Inr (a, db')"
    using assms by (auto simp: admit_runtime_command_def bind_res_eq_Inr)
  note mailbox = ensure_fact_source_generation(3) [OF parts(4)]
  have idem: "adm_idempotent a = i" if "admission_result e g i = Inr a" for e g i
    using that by (auto simp: admission_result_def RuntimeCommandAdmission_init_def bind_res_eq_Inr
        checks_eq_Inr)
  show thesis
  proof (cases "db_mailbox db (own_session_id authority, cmd_command_id c)")
    case (Some row)
    with run mailbox have "readmitted fr c payload fs row = Inr a" "db' = db0"
      by (simp_all add: map_res_eq_Inr)
    moreover from this(1) have "adm_idempotent a"
      by (auto simp: readmitted_def bind_res_eq_Inr dest: idem split: option.splits if_splits)
    ultimately show thesis using again parts Some by blast
  next
    case None
    with run mailbox obtain e where e:
        "admission_entry c (fs_session_seq fs + 1) (admission_generation fs b) ''pending'' = Inr e"
        "admission_result e (admission_generation fs b) False = Inr a"
        "db' = write_admission (own_session_id authority) (cmd_command_id c) (fs_session_seq fs + 1)
           (admission_generation fs b) payload db0"
      by (auto simp: admitted_fresh_def Let_def bind_res_eq_Inr map_res_eq_Inr)
    from idem [OF e(2)] have "\<not> adm_idempotent a" by simp
    then show thesis using fresh parts None e by blast
  qed
qed


text \<open>Nothing else changes, and the generation only grows, by one if the command stops work.\<close>

lemma write_admission_generation:
  "db_fact_source db sid \<noteq> None \<Longrightarrow>
   generation_at (write_admission sid c n g p db) s = (if s = sid then g else generation_at db s)"
  by (auto simp: generation_at_def write_admission_def)

lemma admission_frame:
  assumes "admit_runtime_command fr fi now authority c db = Inr (a, db')"
  shows "db_effects db' = db_effects db" "db_attempts db' = db_attempts db"
    "db_owners db' = db_owners db" "generation_at db s \<le> generation_at db' s"
    "\<not> adm_idempotent a \<Longrightarrow> runtime_command_invalidates_dispatch c = Inr True \<Longrightarrow>
       generation_at db' (own_session_id authority) = generation_at db (own_session_id authority) + 1"
  using assms
  by (cases rule: admit_runtime_command_Inr;
      simp add: ensure_fact_source_generation write_admission_generation admission_generation_def)+

section \<open>The same command again\<close>

lemma plain_is_json:
  "plain v \<Longrightarrow> \<exists>p. plain_json v = Inr p"
  "plain_list xs \<Longrightarrow> \<exists>ps. plain_seq xs = Inr ps"
  "plain_members d \<Longrightarrow> (\<exists>e. plain_items d = Inr e) \<and> \<not> list_ex (\<lambda>(k, _). \<not> is_str k) d"
  by (induction v and xs and d rule: plain_plain_list_plain_members.induct)
     (auto simp: res_simps split: pyfloat.splits if_splits)

lemma mailbox_payload_equal:
  assumes "runtime_command_mailbox_payload c = Inr p"
  shows "runtime_command_mailbox_payloads_equal fr p p = Inr True"
proof -
  obtain q where q: "plain_json (PDict (cmd_payload c)) = Inr q"
      "p = dict_of [(''runtime_command_kind'', PStr (cmd_command_kind c)), (''runtime_command_payload'', q)]"
    using assms by (auto simp: runtime_command_mailbox_payload_def map_res_eq_Inr)
  have "plain q" by (rule plain_json_plain(1) [OF q(1)])
  with q(2) have "plain (PDict p)" by (simp add: dict_of_def)
  then obtain j where "plain_json (PDict p) = Inr j" using plain_is_json(1) by blast
  then show ?thesis
    by (simp add: runtime_command_mailbox_payloads_equal_def canonical_json_def)
qed

lemma command_read_back:
  assumes "RuntimeCommand_init c = Inr c" "runtime_command_mailbox_payload c = Inr p"
  shows "runtime_command_from_mailbox_payload (cmd_command_id c) p = Inr c"
proof -
  have c: "cmd_command_id c \<noteq> []" "cmd_command_kind c \<noteq> []" "frozen_dict (cmd_payload c)"
    using assms(1) stored_command_ok_iff [of c] unfolding stored_command_ok_def by blast+
  obtain d where d: "plain_dict (cmd_payload c) = Inr d" "freeze_mapping ''payload'' d = Inr (cmd_payload c)"
    using plain_dict_roundtrip [OF c(3)] by blast
  then have "plain_json (PDict (cmd_payload c)) = Inr (PDict d)"
    by (auto simp: plain_dict_eq split: if_splits)
  with assms(2) have "p = dict_of [(''runtime_command_kind'', PStr (cmd_command_kind c)),
      (''runtime_command_payload'', PDict d)]"
    by (auto simp: runtime_command_mailbox_payload_def)
  with c d(2) show ?thesis
    by (simp add: runtime_command_from_mailbox_payload_def RuntimeCommand_init_def)
qed

text \<open>The source of a written admission is read back with the new sequence and generation.\<close>

lemma admission_source:
  assumes "ensure_fact_source db sid = Inr (fs, db0)"
    and "format_u64 n = Inr x" "format_u64 g = Inr y"
  shows "\<exists>fs'. ensure_fact_source (write_admission sid c n g p db0) sid
      = Inr (fs', write_admission sid c n g p db0) \<and> fs_dispatch_generation fs' = g"
proof -
  obtain row where row: "fact_source_from_row sid row = Inr fs"
      "db0 = db\<lparr>db_fact_source := (db_fact_source db)(sid \<mapsto> row)\<rparr>"
    using assms(1) by (rule ensure_fact_source_Inr)
  let ?row = "row\<lparr>fr_session_seq := n, fr_dispatch_generation := g\<rparr>"
  have "db_fact_source (write_admission sid c n g p db0) sid = Some ?row"
    using row(2) by (simp add: write_admission_def)
  moreover have "\<exists>fs'. fact_source_from_row sid ?row = Inr fs' \<and> fs_dispatch_generation fs' = g"
    using row(1) assms(2,3)
    by (auto simp: fact_source_from_row_def bind_res_eq_Inr map_res_eq_Inr
        SessionFactSourceState_init_def checks_eq_Inr format_u64_def str_of_int_nat split: if_splits)
  ultimately show ?thesis by (auto simp: ensure_fact_source_def)
qed

lemma admit_again:
  assumes "RuntimeCommand_init c = Inr c"
    and "admit_runtime_command fr fi now authority c db = Inr (a, db1)"
    and "assert_authority fi now' db1 authority' = Inr ()"
    and "own_session_id authority' = own_session_id authority"
  shows "admit_runtime_command fr fi now' authority' c db1 = Inr (a\<lparr>adm_idempotent := True\<rparr>, db1)"
proof -
  let ?sid = "own_session_id authority"
  obtain b where b: "runtime_command_invalidates_dispatch c = Inr b"
    using assms(2) by (auto simp: admit_runtime_command_def bind_res_eq_Inr)
  have idem: "a\<lparr>adm_idempotent := True\<rparr> = \<lparr>adm_entry = e, adm_mailbox_cut = g, adm_idempotent = True\<rparr>"
    if "adm_entry a = e" "adm_mailbox_cut a = g" for e g
    using that by (cases a) simp
  from assms(2) show ?thesis
  proof (cases rule: admit_runtime_command_Inr)
    case (again payload fs row)
    have "a\<lparr>adm_idempotent := True\<rparr> = a" using again(1) by (cases a) simp
    with again b assms(3,4) ensure_fact_source_generation [OF again(2)] show ?thesis
      by (simp add: admit_runtime_command_def)
  next
    case (fresh payload b' fs db0 e)
    let ?seq = "fs_session_seq fs + 1" and ?g = "admission_generation fs b'"
    obtain x y where u64: "format_u64 ?seq = Inr x" "format_u64 ?g = Inr y"
      using fresh(7) by (auto simp: admission_entry_def bind_res_eq_Inr)
    obtain fs' where fs': "ensure_fact_source db1 ?sid = Inr (fs', db1)" "fs_dispatch_generation fs' = ?g"
      using admission_source [OF fresh(5) u64] fresh(9) by auto
    have row: "db_mailbox db1 (?sid, cmd_command_id c) = Some
        \<lparr>mr_lane = ''runtime'', mr_disposition = ''pending'', mr_payload = payload,
         mr_admitted_session_seq = Some ?seq, mr_admitted_dispatch_generation = Some ?g\<rparr>"
      by (simp add: fresh(9) write_admission_def)
    have "admission_result e ?g True = Inr (a\<lparr>adm_idempotent := True\<rparr>)"
      using fresh(8) by (auto simp: admission_result_def RuntimeCommandAdmission_init_def
          bind_res_eq_Inr checks_eq_Inr)
    with mailbox_payload_equal [OF fresh(2)] command_read_back [OF assms(1) fresh(2)] fresh(7) fs'(2)
    have "readmitted fr c payload fs' \<lparr>mr_lane = ''runtime'', mr_disposition = ''pending'',
        mr_payload = payload, mr_admitted_session_seq = Some ?seq,
        mr_admitted_dispatch_generation = Some ?g\<rparr> = Inr (a\<lparr>adm_idempotent := True\<rparr>)"
      by (simp add: readmitted_def)
    with fresh(2) b assms(3,4) fs'(1) row show ?thesis by (simp add: admit_runtime_command_def)
  qed
qed

end
