(* ===== verification/Session_Owners.thy ===== *)
theory Session_Owners
  imports Local_Store
begin

text \<open>
  \<open>SQLiteSessionOwnerStore\<close> of \<open>coding_agent/server/stores/session_owner_store.py\<close>, over the table
  \<open>session_owners\<close> that the local durable store reads to fence its writers. The readings of
  the clock, \<open>datetime.now(UTC)\<close> and that plus the lease, are arguments of the operations; both are
  in UTC, so \<open>_datetime_to_sqlite_text\<close> is \<open>isoformat\<close>.
\<close>

section \<open>Input\<close>

definition require_owner_input :: "string \<Rightarrow> string \<Rightarrow> rat \<Rightarrow> int \<Rightarrow> unit res" where
  "require_owner_input session_id owner_id lease_seconds fencing_token =
     checks
       [fails_when (py_strip session_id = []) (ValueError ''session_id must be non-empty''),
        fails_when (py_strip owner_id = []) (ValueError ''owner_id must be non-empty''),
        fails_when (lease_seconds \<le> 0) (ValueError ''lease_seconds must be positive''),
        fails_when (fencing_token \<le> 0) (ValueError ''fencing_token must be positive'')] ()"

definition stale_owner_error :: exn where
  "stale_owner_error =
     SessionOwnershipConflictError ''stale owner or fencing token rejected'' ''stale_owner''"

text \<open>\<open>current_expiry > now\<close>, of the text in the row.\<close>

definition lease_live ::
    "(string \<Rightarrow> datetime res) \<Rightarrow> datetime \<Rightarrow> SessionOwnerRow \<Rightarrow> bool res" where
  "lease_live fromisoformat now row =
     bind_res (datetime_from_sqlite_text fromisoformat (so_lease_expires_at row)) (\<lambda>lease.
     map_res Not (datetime_le lease now))"

text \<open>\<open>>\<close> on two columns of text: the order of their bytes.\<close>

fun text_less :: "string \<Rightarrow> string \<Rightarrow> bool" where
  "text_less _ [] = False"
| "text_less [] (_ # _) = True"
| "text_less (a # s) (b # t) =
     (char_code a < char_code b \<or> char_code a = char_code b \<and> text_less s t)"

definition put_owner :: "string \<Rightarrow> SessionOwnerRow \<Rightarrow> local_db \<Rightarrow> local_db" where
  "put_owner session_id row db = db\<lparr>db_owners := (db_owners db)(session_id \<mapsto> row)\<rparr>"

section \<open>Authorities\<close>

text \<open>The epoch of a new authority: a lapsed lease makes it the next one.\<close>

definition next_epoch ::
    "(string \<Rightarrow> datetime res) \<Rightarrow> datetime \<Rightarrow> string \<Rightarrow> SessionOwnerRow option \<Rightarrow> int res" where
  "next_epoch fromisoformat now owner_id found =
     (case found of
        None \<Rightarrow> Inr 1
      | Some row \<Rightarrow>
          bind_res (lease_live fromisoformat now row) (\<lambda>live.
          if live \<and> so_owner_id row \<noteq> owner_id then Inl stale_owner_error
          else if live then Inr (so_fencing_token row)
          else Inr (so_fencing_token row + 1)))"

definition acquire_authority ::
    "(string \<Rightarrow> datetime res) \<Rightarrow> datetime \<Rightarrow> datetime \<Rightarrow> string \<Rightarrow> string \<Rightarrow> rat \<Rightarrow> local_db
     \<Rightarrow> (OwnerAuthority \<times> local_db) res" where
  "acquire_authority fromisoformat now expires_at session_id owner_id lease_seconds db =
     bind_res (require_owner_input session_id owner_id lease_seconds 1) (\<lambda>_.
     bind_res (next_epoch fromisoformat now owner_id (db_owners db session_id)) (\<lambda>epoch.
     Inr (\<lparr>own_session_id = session_id, own_owner_id = owner_id, own_epoch = epoch\<rparr>,
          put_owner session_id
            \<lparr>so_owner_id = owner_id, so_lease_expires_at = isoformat expires_at,
             so_fencing_token = epoch\<rparr> db)))"

text \<open>The row an update of a live lease finds: its owner, its token and a lease that has not lapsed.\<close>

definition held_row :: "datetime \<Rightarrow> string \<Rightarrow> string \<Rightarrow> int \<Rightarrow> local_db \<Rightarrow> SessionOwnerRow option" where
  "held_row now session_id owner_id token db =
     (case db_owners db session_id of
        None \<Rightarrow> None
      | Some row \<Rightarrow>
          (if so_owner_id row = owner_id \<and> text_less (isoformat now) (so_lease_expires_at row)
              \<and> so_fencing_token row = token
           then Some row else None))"

definition renew_authority ::
    "datetime \<Rightarrow> datetime \<Rightarrow> OwnerAuthority \<Rightarrow> rat \<Rightarrow> local_db \<Rightarrow> (OwnerAuthority \<times> local_db) res" where
  "renew_authority now expires_at authority lease_seconds db =
     bind_res (require_owner_input (own_session_id authority) (own_owner_id authority)
       lease_seconds (own_epoch authority)) (\<lambda>_.
     case held_row now (own_session_id authority) (own_owner_id authority) (own_epoch authority) db of
       None \<Rightarrow> Inl stale_owner_error
     | Some row \<Rightarrow>
         Inr (authority, put_owner (own_session_id authority)
           (row\<lparr>so_lease_expires_at := isoformat expires_at\<rparr>) db))"

section \<open>Leases with the caller's token\<close>

definition acquire_owner ::
    "(string \<Rightarrow> datetime res) \<Rightarrow> datetime \<Rightarrow> datetime \<Rightarrow> string \<Rightarrow> string \<Rightarrow> rat \<Rightarrow> int \<Rightarrow> local_db
     \<Rightarrow> (bool \<times> local_db) res" where
  "acquire_owner fromisoformat now expires_at session_id owner_id lease_seconds fencing_token db =
     (let taken = put_owner session_id
            \<lparr>so_owner_id = owner_id, so_lease_expires_at = isoformat expires_at,
             so_fencing_token = fencing_token\<rparr> db
      in bind_res (require_owner_input session_id owner_id lease_seconds fencing_token) (\<lambda>_.
         case db_owners db session_id of
           None \<Rightarrow> Inr (True, taken)
         | Some row \<Rightarrow>
             bind_res (lease_live fromisoformat now row) (\<lambda>live.
             if live
             then Inr (so_owner_id row = owner_id \<and> so_fencing_token row = fencing_token, db)
             else if so_owner_id row \<noteq> owner_id \<and> fencing_token \<le> so_fencing_token row
             then Inr (False, db)
             else if so_owner_id row = owner_id \<and> fencing_token < so_fencing_token row
             then Inr (False, db)
             else Inr (True, taken))))"

definition renew_owner ::
    "datetime \<Rightarrow> datetime \<Rightarrow> string \<Rightarrow> string \<Rightarrow> rat \<Rightarrow> int \<Rightarrow> int \<Rightarrow> local_db
     \<Rightarrow> (bool \<times> local_db) res" where
  "renew_owner now expires_at session_id owner_id lease_seconds new_fencing_token
       current_fencing_token db =
     bind_res (require_owner_input session_id owner_id lease_seconds new_fencing_token) (\<lambda>_.
     if current_fencing_token \<le> 0
     then Inl (ValueError ''current_fencing_token must be positive'')
     else case held_row now session_id owner_id current_fencing_token db of
            None \<Rightarrow> Inr (False, db)
          | Some row \<Rightarrow>
              Inr (True, put_owner session_id
                (row\<lparr>so_lease_expires_at := isoformat expires_at,
                     so_fencing_token := new_fencing_token\<rparr>) db))"

definition release_owner ::
    "string \<Rightarrow> string \<Rightarrow> int \<Rightarrow> local_db \<Rightarrow> (bool \<times> local_db) res" where
  "release_owner session_id owner_id fencing_token db =
     bind_res (require_owner_input session_id owner_id 1 fencing_token) (\<lambda>_.
     case db_owners db session_id of
       None \<Rightarrow> Inr (False, db)
     | Some row \<Rightarrow>
         (if so_owner_id row = owner_id \<and> so_fencing_token row = fencing_token
          then Inr (True, db\<lparr>db_owners := (db_owners db)(session_id := None)\<rparr>)
          else Inr (False, db)))"

section \<open>What an owner call leaves\<close>

datatype owner_call =
    AcquireAuthority datetime datetime string string rat
  | RenewAuthority datetime datetime OwnerAuthority rat
  | AcquireOwner datetime datetime string string rat int
  | RenewOwner datetime datetime string string rat int int
  | ReleaseOwner string string int

definition left_by :: "('a \<times> local_db) res \<Rightarrow> local_db \<Rightarrow> local_db" where
  "left_by r db = (case r of Inl _ \<Rightarrow> db | Inr (_, db') \<Rightarrow> db')"

fun perform_owner_call :: "(string \<Rightarrow> datetime res) \<Rightarrow> owner_call \<Rightarrow> local_db \<Rightarrow> local_db" where
  "perform_owner_call fi (AcquireAuthority now x sid oid lease) db =
     left_by (acquire_authority fi now x sid oid lease db) db"
| "perform_owner_call fi (RenewAuthority now x a lease) db =
     left_by (renew_authority now x a lease db) db"
| "perform_owner_call fi (AcquireOwner now x sid oid lease token) db =
     left_by (acquire_owner fi now x sid oid lease token db) db"
| "perform_owner_call fi (RenewOwner now x sid oid lease token current_token) db =
     left_by (renew_owner now x sid oid lease token current_token db) db"
| "perform_owner_call fi (ReleaseOwner sid oid token) db =
     left_by (release_owner sid oid token db) db"

text \<open>Only the owners' table changes.\<close>

definition owners_only :: "local_db \<Rightarrow> local_db \<Rightarrow> bool" where
  "owners_only db db' \<longleftrightarrow> (\<exists>f. db' = db\<lparr>db_owners := f\<rparr>)"

lemma owners_only_refl [simp]: "owners_only db db"
  unfolding owners_only_def by (rule exI [of _ "db_owners db"]) simp

lemma owners_only_put [simp]: "owners_only db (put_owner sid row db)"
  unfolding owners_only_def put_owner_def by blast

lemma owners_only_tables:
  "owners_only db db' \<Longrightarrow> db_effects db' = db_effects db"
  "owners_only db db' \<Longrightarrow> db_attempts db' = db_attempts db"
  "owners_only db db' \<Longrightarrow> db_states db' = db_states db"
  by (auto simp: owners_only_def)

lemma perform_owner_frame: "owners_only db (perform_owner_call fi c db)"
  by (cases c)
     (auto simp: left_by_def acquire_authority_def renew_authority_def acquire_owner_def renew_owner_def
       release_owner_def bind_res_def Let_def owners_only_def [of db "db\<lparr>db_owners := _\<rparr>"]
       split: sum.splits option.splits)

section \<open>The fence moves forward\<close>

text \<open>The calls that hand out or extend an authority.\<close>

fun is_authority_call :: "owner_call \<Rightarrow> bool" where
  "is_authority_call (AcquireAuthority _ _ _ _ _) = True"
| "is_authority_call (RenewAuthority _ _ _ _) = True"
| "is_authority_call _ = False"

definition token_from :: "string \<Rightarrow> int \<Rightarrow> local_db \<Rightarrow> bool" where
  "token_from sid n db \<longleftrightarrow> (\<exists>row. db_owners db sid = Some row \<and> n \<le> so_fencing_token row)"

lemma token_from_owners: "db_owners db' = db_owners db \<Longrightarrow> token_from sid n db' = token_from sid n db"
  by (simp add: token_from_def)

lemma next_epoch_grows:
  "next_epoch fi now oid (Some row) = Inr n \<Longrightarrow> so_fencing_token row \<le> n"
  by (auto simp: next_epoch_def bind_res_eq_Inr split: if_splits)

lemma acquire_authority_Inr:
  assumes "acquire_authority fi now x sid oid lease db = Inr (a, db')"
  obtains n where "next_epoch fi now oid (db_owners db sid) = Inr n"
    "a = \<lparr>own_session_id = sid, own_owner_id = oid, own_epoch = n\<rparr>"
    "db' = put_owner sid \<lparr>so_owner_id = oid, so_lease_expires_at = isoformat x,
       so_fencing_token = n\<rparr> db"
  using assms by (auto simp: acquire_authority_def bind_res_eq_Inr)

lemma held_row_Some:
  "held_row now sid oid n db = Some row \<Longrightarrow>
     db_owners db sid = Some row \<and> so_owner_id row = oid \<and> so_fencing_token row = n"
  by (auto simp: held_row_def split: option.splits if_splits)

lemma renew_authority_Inr:
  assumes "renew_authority now x a lease db = Inr (b, db')"
  obtains row where "db_owners db (own_session_id a) = Some row" "so_owner_id row = own_owner_id a"
    "so_fencing_token row = own_epoch a" "b = a"
    "db' = put_owner (own_session_id a) (row\<lparr>so_lease_expires_at := isoformat x\<rparr>) db"
proof (cases "held_row now (own_session_id a) (own_owner_id a) (own_epoch a) db")
  case None
  with assms show ?thesis by (simp add: renew_authority_def bind_res_eq_Inr)
next
  case (Some row)
  with assms held_row_Some [OF Some] show ?thesis
    by (intro that [of row]) (auto simp: renew_authority_def bind_res_eq_Inr)
qed

lemma authority_call_token:
  assumes "is_authority_call c" "token_from sid n db"
  shows "token_from sid n (perform_owner_call fi c db)"
proof (cases c)
  case (AcquireAuthority now x sid' oid lease)
  show ?thesis
  proof (cases "acquire_authority fi now x sid' oid lease db")
    case (Inr p)
    obtain a db' where p: "p = (a, db')" by fastforce
    with Inr obtain k where "next_epoch fi now oid (db_owners db sid') = Inr k"
        "db' = put_owner sid' \<lparr>so_owner_id = oid, so_lease_expires_at = isoformat x,
           so_fencing_token = k\<rparr> db"
      by (auto elim: acquire_authority_Inr)
    with AcquireAuthority Inr p assms(2) show ?thesis
      by (auto simp: left_by_def token_from_def put_owner_def dest!: next_epoch_grows)
  qed (use AcquireAuthority assms(2) in \<open>simp add: left_by_def\<close>)
next
  case (RenewAuthority now x a lease)
  show ?thesis
  proof (cases "renew_authority now x a lease db")
    case (Inr p)
    obtain b db' where p: "p = (b, db')" by fastforce
    with Inr obtain row where "db_owners db (own_session_id a) = Some row"
        "db' = put_owner (own_session_id a) (row\<lparr>so_lease_expires_at := isoformat x\<rparr>) db"
      by (auto elim: renew_authority_Inr)
    with RenewAuthority Inr p assms(2) show ?thesis
      by (auto simp: left_by_def token_from_def put_owner_def)
  qed (use RenewAuthority assms(2) in \<open>simp add: left_by_def\<close>)
qed (use assms(1) in simp_all)

text \<open>An epoch below the row's token is fenced.\<close>

lemma token_fences:
  assumes "token_from (own_session_id a) n db" "own_epoch a < n"
  shows "\<exists>e. assert_authority fi now db a = Inl e"
proof -
  obtain row where "db_owners db (own_session_id a) = Some row" "own_epoch a < so_fencing_token row"
    using assms by (auto simp: token_from_def)
  then have "assert_authority fi now db a \<noteq> Inr ()"
    by (auto simp: assert_authority_def bind_res_eq_Inr split: if_splits)
  then show ?thesis by (cases "assert_authority fi now db a") auto
qed

lemma authority_epoch:
  assumes "assert_authority fi now db a = Inr ()"
  obtains row where "db_owners db (own_session_id a) = Some row" "so_owner_id row = own_owner_id a"
    "so_fencing_token row = own_epoch a"
  using assms
  by (auto simp: assert_authority_def bind_res_eq_Inr split: option.splits if_splits)

text \<open>A release forgets the token: the next authority has epoch 1 again, whatever came before.\<close>

theorem release_restarts_epoch:
  assumes "release_owner sid oid n db = Inr (True, db1)"
    and "acquire_authority fi now x sid oid' lease db1 = Inr (a, db2)"
  shows "own_epoch a = 1"
proof -
  have "db_owners db1 sid = None"
    using assms(1) by (auto simp: release_owner_def bind_res_eq_Inr split: option.splits if_splits)
  with assms(2) show ?thesis by (auto elim!: acquire_authority_Inr simp: next_epoch_def)
qed

end
