(* ===== verification/Local_Session.thy ===== *)
theory Local_Session
  imports Activation Port_Laws Local_Mailbox Session_Owners
begin

text \<open>
  The local store as processes see it: the typed path of \<open>LocalUnitOfWorkMixin.commit_authoritative_uow\<close>
  (\<open>local_durable/uow.py\<close>), the session rows and the activation flag of \<open>local_durable/core.py\<close>, the
  effect slot of \<open>local_durable/fact_source.py\<close>, and the world in which one process awaits them while
  others use the same database.
\<close>

section \<open>Session rows\<close>

definition load_runtime_activation :: "local_db \<Rightarrow> bool" where
  "load_runtime_activation db = (case db_activation db of None \<Rightarrow> False | Some b \<Rightarrow> b)"

definition set_new_session_runtime_activation :: "bool \<Rightarrow> local_db \<Rightarrow> bool \<times> local_db" where
  "set_new_session_runtime_activation enabled db = (enabled, db\<lparr>db_activation := Some enabled\<rparr>)"

definition load_session :: "local_db \<Rightarrow> string \<Rightarrow> dict option res" where
  "load_session db session_id =
     bind_res (checks [require_non_empty ''session_id'' session_id] ()) (\<lambda>_.
     Inr (db_sessions db session_id))"

definition assert_session_payload :: "OwnerAuthority \<Rightarrow> dict \<Rightarrow> unit res" where
  "assert_session_payload authority payload =
     (let other = SessionOwnershipConflictError ''session payload belongs to another owner''
            ''stale_owner''
      in checks
           [fails_when (dict_get payload ''id'' \<noteq> PStr (own_session_id authority)) other,
            fails_when (dict_get payload ''session_id'' \<notin> {PNone, PStr (own_session_id authority)})
              other,
            fails_when (dict_get payload ''tape_id'' \<noteq> PNone
                \<and> as_str (dict_get payload ''tape_id'') = None)
              (TypeError ''session payload tape_id must be a string'')] ())"

definition load_effect_slot :: "local_db \<Rightarrow> string \<Rightarrow> string \<Rightarrow> EffectLedgerSlot option res" where
  "load_effect_slot db session_id effect_id =
     bind_res (checks [require_non_empty ''session_id'' session_id,
                       require_non_empty ''effect_id'' effect_id] ()) (\<lambda>_.
     optional_res (\<lambda>fx. EffectLedgerSlot_init
         \<lparr>ledger_effect_id = effect_id, ledger_status = fx_status fx,
          ledger_payload = fx_payload fx\<rparr>)
       (db_effects db (session_id, effect_id)))"

section \<open>Other processes\<close>

text \<open>
  What another process may do to the database between two awaits: any operation of the model. A
  transition reaches the transaction only as a snapshot.
\<close>

datatype peer_call =
    PeerCommit datetime OwnerAuthority AuthoritativeUnitOfWork
  | PeerAttempt datetime OwnerAuthority string string string attempt_call
  | PeerRecord datetime OwnerAuthority EffectReconciliationEvidence
  | PeerAdmit datetime OwnerAuthority RuntimeCommand
  | PeerOwner owner_call
  | PeerSession string dict
  | PeerActivation bool

record codecs =
  cd_float_repr :: "rat \<Rightarrow> string"
  cd_sha256_hex :: "nat list \<Rightarrow> string"
  cd_fromisoformat :: "string \<Rightarrow> datetime res"
  cd_py_repr :: "pyval \<Rightarrow> string"

definition commit_snapshot ::
    "codecs \<Rightarrow> datetime \<Rightarrow> OwnerAuthority \<Rightarrow> AuthoritativeUnitOfWork \<Rightarrow> local_db
     \<Rightarrow> AuthoritativeCommit res \<times> local_db" where
  "commit_snapshot cd now authority u db =
     (case snapshot_transition_unit u of
        Inl e \<Rightarrow> (Inl e, db)
      | Inr snapshot \<Rightarrow>
          commit_transition (cd_float_repr cd) (cd_sha256_hex cd) (cd_fromisoformat cd) now
            authority snapshot db)"

fun perform_peer :: "codecs \<Rightarrow> peer_call \<Rightarrow> local_db \<Rightarrow> local_db" where
  "perform_peer cd (PeerCommit now authority u) db =
     (if is_transition u then snd (commit_snapshot cd now authority u db) else db)"
| "perform_peer cd (PeerAttempt now authority e a t c) db =
     rolled_back (attempt_result (cd_fromisoformat cd) now authority e a t c db) db"
| "perform_peer cd (PeerRecord now authority v) db =
     rolled_back (record_effect_reconciliation_evidence (cd_fromisoformat cd) now authority v db) db"
| "perform_peer cd (PeerAdmit now authority c) db =
     rolled_back (admit_runtime_command (cd_float_repr cd) (cd_fromisoformat cd) now authority c db) db"
| "perform_peer cd (PeerOwner c) db = perform_owner_call (cd_fromisoformat cd) c db"
| "perform_peer cd (PeerSession sid payload) db =
     db\<lparr>db_sessions := (db_sessions db)(sid \<mapsto> payload)\<rparr>"
| "perform_peer cd (PeerActivation b) db = snd (set_new_session_runtime_activation b db)"

definition peers_run :: "codecs \<Rightarrow> local_db \<Rightarrow> local_db \<Rightarrow> bool" where
  "peers_run cd db db' \<longleftrightarrow> (\<exists>cs. db' = fold (perform_peer cd) cs db)"

section \<open>The world of one process\<close>

record 'x local_world =
  lw_db :: local_db
  lw_rest :: 'x

text \<open>
  The environment: what the others do before a call, the clocks, the token factory, and the
  commit of a unit that is no transition, which is not modelled.
\<close>

record 'x local_env =
  env_codecs :: codecs
  env_peers :: "'x local_world \<Rightarrow> peer_call list \<times> 'x"
  env_utc_now :: "'x local_world \<Rightarrow> datetime"
  env_clock :: "'x local_world \<Rightarrow> datetime"
  env_token :: "'x local_world \<Rightarrow> pyval"
  env_legacy_commit :: "OwnerAuthority \<Rightarrow> AuthoritativeUnitOfWork
     \<Rightarrow> ('x local_world, AuthoritativeCommit) action"

definition env_turn :: "'x local_env \<Rightarrow> 'x local_world \<Rightarrow> 'x local_world" where
  "env_turn env w =
     (case env_peers env w of (cs, x) \<Rightarrow>
        \<lparr>lw_db = fold (perform_peer (env_codecs env)) cs (lw_db w), lw_rest = x\<rparr>)"

definition local_read :: "'x local_env \<Rightarrow> (local_db \<Rightarrow> 'a res) \<Rightarrow> ('x local_world, 'a) action" where
  "local_read env f w = (let w1 = env_turn env w in (f (lw_db w1), w1))"

definition local_write ::
    "'x local_env \<Rightarrow> ('x local_world \<Rightarrow> local_db \<Rightarrow> 'a res \<times> local_db) \<Rightarrow> ('x local_world, 'a) action" where
  "local_write env f w =
     (let w1 = env_turn env w
      in case f w1 (lw_db w1) of (r, db) \<Rightarrow> (r, w1\<lparr>lw_db := db\<rparr>))"

section \<open>The commit of a unit\<close>

definition stamped_unit ::
    "(pyval \<Rightarrow> string) \<Rightarrow> OwnerAuthority \<Rightarrow> dict option \<Rightarrow> bool \<Rightarrow> AuthoritativeUnitOfWork
     \<Rightarrow> AuthoritativeUnitOfWork res" where
  "stamped_unit py_repr authority stored activation u =
     bind_res (stamp_session_payload_for_save py_repr (unit_session_state u) stored activation)
       (\<lambda>stamped.
     bind_res (parse_runtime_version py_repr stamped) (\<lambda>version.
     bind_res
       (case unit_effect u of
          None \<Rightarrow> Inr ()
        | Some e \<Rightarrow> assert_effect_status_allowed py_repr (ledger_status e) version) (\<lambda>_.
     bind_res
       (traverse_res
          (\<lambda>m. assert_effect_status_allowed py_repr (effect_status_value (mut_status m)) version)
          (normalized_effect_mutations u)) (\<lambda>_.
     bind_res (AuthoritativeUnitOfWork_init (u\<lparr>unit_session_state := stamped\<rparr>)) (\<lambda>v.
     case unit_run_state v of
       None \<Rightarrow> Inr v
     | Some r \<Rightarrow>
         (if run_session_id r \<noteq> own_session_id authority
          then Inl (SessionOwnershipConflictError ''agent run belongs to another session''
                 ''stale_owner'')
          else Inr v))))))"

definition commit_authoritative_uow ::
    "'x local_env \<Rightarrow> OwnerAuthority \<Rightarrow> AuthoritativeUnitOfWork
     \<Rightarrow> ('x local_world, AuthoritativeCommit) action" where
  "commit_authoritative_uow env authority u =
     act_bind (act_res (assert_session_payload authority (unit_session_state u))) (\<lambda>_.
     act_bind (local_read env (\<lambda>db. load_session db (own_session_id authority))) (\<lambda>stored.
     act_bind (local_read env (\<lambda>db. Inr (load_runtime_activation db))) (\<lambda>activation.
     act_bind (act_res (stamped_unit (cd_py_repr (env_codecs env)) authority stored activation u))
       (\<lambda>v.
     if is_transition v
     then local_write env (\<lambda>w. commit_snapshot (env_codecs env) (env_utc_now env w) authority v)
     else env_legacy_commit env authority v))))"

definition local_store :: "'x local_env \<Rightarrow> 'x local_world durable_store" where
  "local_store env =
     \<lparr>st_commit = commit_authoritative_uow env,
      st_operation_state = (\<lambda>sid run. local_read env (\<lambda>db. load_operation_state db sid run)),
      st_effect_slot = (\<lambda>sid e. local_read env (\<lambda>db. load_effect_slot db sid e)),
      st_evidence = (\<lambda>sid ref. local_read env
        (\<lambda>db. load_effect_reconciliation_evidence db sid ref)),
      st_effect_binding = (\<lambda>sid e. local_read env
        (\<lambda>db. load_child_execution_binding db sid (Some e) None)),
      st_child_binding = (\<lambda>sid c. local_read env
        (\<lambda>db. load_child_execution_binding db sid None (Some c))),
      st_attempt = (\<lambda>sid e a t. local_read env
        (\<lambda>db. load_executor_attempt (cd_fromisoformat (env_codecs env)) db sid e a t)),
      st_clock = (\<lambda>w. (Inr (env_clock env w), w)),
      st_token = (\<lambda>w. (Inr (env_token env w), w)),
      st_sleep = (\<lambda>w. (Inr (), env_turn env w))\<rparr>"

section \<open>The ledger only moves forward\<close>

definition ledger_at :: "local_db \<Rightarrow> string \<times> string \<Rightarrow> nat" where
  "ledger_at db key = ledger_level (db_effects db key)"

definition ledger_forward :: "local_db \<Rightarrow> local_db \<Rightarrow> bool" where
  "ledger_forward db db' \<longleftrightarrow> (\<forall>key. ledger_at db key \<le> ledger_at db' key)"

lemma ledger_forward_refl [simp]: "ledger_forward db db"
  by (simp add: ledger_forward_def)

lemma ledger_forward_trans: "ledger_forward a b \<Longrightarrow> ledger_forward b c \<Longrightarrow> ledger_forward a c"
  unfolding ledger_forward_def using order_trans by blast

lemma ledger_forward_same: "db_effects db' = db_effects db \<Longrightarrow> ledger_forward db db'"
  by (simp add: ledger_forward_def ledger_at_def)

text \<open>What a snapshot is made of.\<close>

lemma snapshot_mutation_Inr:
  "snapshot_mutation m = Inr n \<Longrightarrow>
     legal_mutation n \<and> mut_effect_id n = mut_effect_id m \<and> mut_status n = mut_status m
     \<and> mut_expected_status n = mut_expected_status m"
  by (auto simp: snapshot_mutation_def bind_res_eq_Inr legal_mutation_def EffectMutation_init_def
      res_simps split: option.splits)

lemma snapshot_transition_Inr:
  assumes "snapshot_transition_unit u = Inr v" "is_transition u"
  shows "AuthoritativeUnitOfWork_init v = Inr v"
    "traverse_res snapshot_mutation (normalized_effect_mutations u)
       = Inr (normalized_effect_mutations v)"
    "unit_transition_id v = unit_transition_id u" "unit_state_cas v = unit_state_cas u"
    "unit_expected_mailbox_cut v = unit_expected_mailbox_cut u"
proof -
  obtain state_value where "unit_state_value u = Some state_value"
    using assms by (auto simp: snapshot_transition_unit_def split: option.splits)
  with assms show "AuthoritativeUnitOfWork_init v = Inr v"
    "traverse_res snapshot_mutation (normalized_effect_mutations u)
       = Inr (normalized_effect_mutations v)"
    "unit_transition_id v = unit_transition_id u" "unit_state_cas v = unit_state_cas u"
    "unit_expected_mailbox_cut v = unit_expected_mailbox_cut u"
    by (auto simp: snapshot_transition_unit_def bind_res_eq_Inr AuthoritativeUnitOfWork_init_iff
        normalized_effect_mutations_def empty_unit_def)
qed

lemma snapshot_distinct:
  assumes "AuthoritativeUnitOfWork_init v = Inr v"
  shows "distinct (map mut_effect_id (normalized_effect_mutations v))"
  using assms by (simp add: AuthoritativeUnitOfWork_init_def checks_eq_Inr unit_mutation_checks_def)

lemma snapshot_legal:
  assumes "snapshot_transition_unit u = Inr v" "is_transition u"
  shows "list_all legal_mutation (normalized_effect_mutations v)"
  using traverse_res_image [OF snapshot_transition_Inr(2) [OF assms]]
  by (force simp: list_all_iff dest: snapshot_mutation_Inr)

lemma commit_snapshot_forward:
  assumes "is_transition u"
  shows "ledger_forward db (snd (commit_snapshot cd now authority u db))"
proof (cases "snapshot_transition_unit u")
  case (Inr v)
  obtain r db' where result: "commit_transition (cd_float_repr cd) (cd_sha256_hex cd)
      (cd_fromisoformat cd) now authority v db = (r, db')"
    by fastforce
  from result show ?thesis
  proof (cases rule: commit_transition_cases)
    case failed
    with result Inr show ?thesis by (simp add: commit_snapshot_def)
  next
    case replayed
    with result Inr show ?thesis
      by (auto simp: commit_snapshot_def ledger_forward_same elim: ensure_fact_source_Inr)
  next
    case (written k t x fp fs db0 pc)
    have "db_effects db0 = db_effects db" using written(7) by (auto elim: ensure_fact_source_Inr)
    with commit_ledger_level(1) [OF written(10,11)
        snapshot_distinct [OF snapshot_transition_Inr(1) [OF Inr assms]] snapshot_legal [OF Inr assms]]
      result Inr
    show ?thesis by (simp add: commit_snapshot_def ledger_forward_def ledger_at_def)
  qed
qed (simp add: commit_snapshot_def)

lemma perform_peer_forward: "ledger_forward db (perform_peer cd c db)"
proof (cases c)
  case (PeerCommit now authority u)
  then show ?thesis by (simp add: commit_snapshot_forward)
next
  case (PeerAttempt now authority e a t k)
  then show ?thesis
    using attempt_result_frame [of "cd_fromisoformat cd" now authority e a t k db]
    by (cases "attempt_result (cd_fromisoformat cd) now authority e a t k db")
       (auto simp: rolled_back_def attempt_put_def put_attempt_def intro!: ledger_forward_same)
next
  case (PeerRecord now authority v)
  then show ?thesis
    using record_frame [of "cd_fromisoformat cd" now authority v db]
    by (cases "record_effect_reconciliation_evidence (cd_fromisoformat cd) now authority v db")
       (fastforce simp: rolled_back_def intro: ledger_forward_same)+
next
  case (PeerAdmit now authority c)
  then show ?thesis
    using admission_frame(1) [of "cd_float_repr cd" "cd_fromisoformat cd" now authority c db]
    by (cases "admit_runtime_command (cd_float_repr cd) (cd_fromisoformat cd) now authority c db")
       (auto simp: rolled_back_def intro: ledger_forward_same)
next
  case (PeerOwner k)
  then show ?thesis
    using perform_owner_frame owners_only_tables(1) by (simp add: ledger_forward_same)
qed (simp_all add: ledger_forward_same set_new_session_runtime_activation_def)

lemma peers_forward: "ledger_forward db (fold (perform_peer cd) cs db)"
  by (induction cs arbitrary: db) (auto intro: perform_peer_forward ledger_forward_trans)

lemma peers_run_forward: "peers_run cd db db' \<Longrightarrow> ledger_forward db db'"
  by (auto simp: peers_run_def peers_forward)

section \<open>The local store keeps the order\<close>

definition local_later :: "'x local_world \<Rightarrow> 'x local_world \<Rightarrow> bool" where
  "local_later s t \<longleftrightarrow> ledger_forward (lw_db s) (lw_db t)"

lemma env_turn_later: "local_later w (env_turn env w)"
  by (auto simp: local_later_def env_turn_def peers_forward split: prod.splits)

interpretation local_order: world_order local_later
  by unfold_locales (auto simp: local_later_def intro: ledger_forward_trans)

lemma local_read_moves: "moves local_later (local_read env f)"
  by (simp add: moves_def local_read_def Let_def env_turn_later)

lemma local_commit_moves:
  assumes "is_transition u"
  shows "moves local_later (local_write env (\<lambda>w. commit_snapshot cd (env_utc_now env w) authority u))"
proof -
  have "local_later w (snd (local_write env (\<lambda>w. commit_snapshot cd (env_utc_now env w) authority u) w))"
    for w
    using commit_snapshot_forward [OF assms, of "lw_db (env_turn env w)" cd
        "env_utc_now env (env_turn env w)" authority] env_turn_later [of w env]
    by (auto simp: local_write_def Let_def local_later_def split: prod.splits
        intro: ledger_forward_trans)
  then show ?thesis by (simp add: moves_def)
qed

section \<open>The fence\<close>

text \<open>Every call of another process but those that take or give up a lease with a token of their own.\<close>

fun authority_peer :: "peer_call \<Rightarrow> bool" where
  "authority_peer (PeerOwner c) = is_authority_call c"
| "authority_peer _ = True"

lemma commit_snapshot_owners: "db_owners (snd (commit_snapshot cd now authority u db)) = db_owners db"
proof (cases "snapshot_transition_unit u")
  case (Inr v)
  obtain r db' where result: "commit_transition (cd_float_repr cd) (cd_sha256_hex cd)
      (cd_fromisoformat cd) now authority v db = (r, db')"
    by fastforce
  from result have "db_owners db' = db_owners db"
  proof (cases rule: commit_transition_cases)
    case (written k t x fp fs db0 pc)
    have "db_owners db0 = db_owners db" using written(7) by (auto elim: ensure_fact_source_Inr)
    with write_commit_other_tables(1) [OF written(11)] show ?thesis by simp
  qed (auto elim: ensure_fact_source_Inr)
  with result Inr show ?thesis by (simp add: commit_snapshot_def)
qed (simp add: commit_snapshot_def)

lemma authority_peer_token:
  assumes "authority_peer c" "token_from sid n db"
  shows "token_from sid n (perform_peer cd c db)"
proof (cases c)
  case (PeerCommit now authority u)
  with assms(2) show ?thesis
    by (simp add: token_from_def commit_snapshot_owners)
next
  case (PeerAttempt now authority e a t k)
  with assms(2) attempt_result_frame [of "cd_fromisoformat cd" now authority e a t k db] show ?thesis
    by (cases "attempt_result (cd_fromisoformat cd) now authority e a t k db")
       (auto simp: rolled_back_def attempt_put_def put_attempt_def token_from_def)
next
  case (PeerRecord now authority v)
  with assms(2) record_frame [of "cd_fromisoformat cd" now authority v db] show ?thesis
    by (cases "record_effect_reconciliation_evidence (cd_fromisoformat cd) now authority v db")
       (fastforce simp: rolled_back_def token_from_def)+
next
  case (PeerAdmit now authority c)
  with assms(2) admission_frame(3) [of "cd_float_repr cd" "cd_fromisoformat cd" now authority c db]
  show ?thesis
    by (cases "admit_runtime_command (cd_float_repr cd) (cd_fromisoformat cd) now authority c db")
       (auto simp: rolled_back_def token_from_def)
next
  case (PeerOwner k)
  with assms authority_call_token show ?thesis by simp
qed (use assms(2) in \<open>simp_all add: token_from_def set_new_session_runtime_activation_def\<close>)

lemma authority_peers_token:
  "\<forall>c \<in> set cs. authority_peer c \<Longrightarrow> token_from sid n db \<Longrightarrow>
   token_from sid n (fold (perform_peer cd) cs db)"
  by (induction cs arbitrary: db) (auto intro: authority_peer_token)

lemma fenced_commit:
  assumes "assert_authority (cd_fromisoformat cd) now db authority = Inl e"
  shows "\<exists>e. commit_snapshot cd now authority u db = (Inl e, db)"
proof (cases "snapshot_transition_unit u")
  case (Inr v)
  obtain r db' where result: "commit_transition (cd_float_repr cd) (cd_sha256_hex cd)
      (cd_fromisoformat cd) now authority v db = (r, db')"
    by fastforce
  from result show ?thesis
    by (cases rule: commit_transition_cases) (use assms result Inr in \<open>auto simp: commit_snapshot_def\<close>)
qed (simp add: commit_snapshot_def)

end
