(* ===== verification/Local_Segments.thy ===== *)
theory Local_Segments
  imports Durable_Segments Local_Session Local_Demo
begin

text \<open>
  Segments of a process on the local store: the commit port of \<open>Commit_Port\<close> over the store of
  \<open>Local_Session\<close>, with other processes using the same database at every await.
\<close>

section \<open>The local store has an effect ledger\<close>

definition local_level :: "'x local_world \<Rightarrow> string \<times> string \<Rightarrow> nat" where
  "local_level w = ledger_at (lw_db w)"

lemma local_later_level: "local_later s t \<Longrightarrow> local_level s key \<le> local_level t key"
  unfolding local_later_def local_level_def ledger_forward_def by blast

lemma AuthoritativeUnitOfWork_init_same: "AuthoritativeUnitOfWork_init u = Inr v \<Longrightarrow> v = u"
  by (simp add: AuthoritativeUnitOfWork_init_def checks_eq_Inr)

lemma stamped_unit_Inr:
  assumes "stamped_unit py authority stored activation u = Inr v"
  obtains payload where "v = u\<lparr>unit_session_state := payload\<rparr>"
    "stamp_session_payload_for_save py (unit_session_state u) stored activation = Inr payload"
proof -
  obtain payload x where payload: "stamp_session_payload_for_save py (unit_session_state u) stored
        activation = Inr payload"
      and x: "AuthoritativeUnitOfWork_init (u\<lparr>unit_session_state := payload\<rparr>) = Inr x"
      "(case unit_run_state x of
         None \<Rightarrow> Inr x
       | Some r \<Rightarrow>
           (if run_session_id r \<noteq> own_session_id authority
            then Inl (SessionOwnershipConflictError ''agent run belongs to another session''
                   ''stale_owner'')
            else Inr x)) = Inr v"
    using assms unfolding stamped_unit_def bind_res_eq_Inr by blast
  from x(2) have "x = v" by (simp split: option.splits if_splits)
  with AuthoritativeUnitOfWork_init_same [OF x(1)] payload show thesis by (intro that) auto
qed

lemma stamped_unit_same:
  assumes "stamped_unit py authority stored activation u = Inr v"
  shows "is_transition v \<longleftrightarrow> is_transition u"
    "normalized_effect_mutations v = normalized_effect_mutations u"
  using assms by (auto elim!: stamped_unit_Inr simp: is_transition_def normalized_effect_mutations_def split: option.split)

lemma commit_moves_local:
  assumes "is_transition u"
  shows "moves local_later (commit_authoritative_uow env authority u)"
  unfolding commit_authoritative_uow_def
proof (rule local_order.moves_bind_known [OF local_order.moves_res],
    rule local_order.moves_bind_known [OF local_read_moves],
    rule local_order.moves_bind_known [OF local_read_moves],
    rule local_order.moves_bind_known [OF local_order.moves_res])
  fix stored activation v s s'
  assume "act_res (stamped_unit (cd_py_repr (env_codecs env)) authority stored activation u) s
      = (Inr v, s')"
  then have "is_transition v" using assms stamped_unit_same(1) by auto
  then show "moves local_later (if is_transition v
      then local_write env (\<lambda>w. commit_snapshot (env_codecs env) (env_utc_now env w) authority v)
      else env_legacy_commit env authority v)"
    by (simp add: local_commit_moves)
qed

interpretation local_store: durable_store_order local_later "local_store env"
  for env :: "'x local_env"
  by unfold_locales
     (simp_all add: local_store_def commit_moves_local local_read_moves,
      simp_all add: moves_def env_turn_later local_order.later_refl)

text \<open>A commit that is no replay has run on a snapshot of the unit, after the others' calls.\<close>

lemma commit_uow_fresh:
  assumes "commit_authoritative_uow env authority u s = (Inr c, s')" "is_transition u"
  obtains py stored activation v w n where
    "stamped_unit py authority stored activation u = Inr v" "local_later s w"
    "w = env_turn env (env_turn env (env_turn env s))"
    "snapshot_transition_unit v = Inr n"
    "commit_transition (cd_float_repr (env_codecs env)) (cd_sha256_hex (env_codecs env))
       (cd_fromisoformat (env_codecs env)) (env_utc_now env w) authority n (lw_db w)
       = (Inr c, lw_db s')"
proof -
  let ?read = "\<lambda>s. snd (local_read env (\<lambda>db. load_session db (own_session_id authority)) s)"
  obtain stored activation s1 s2 v where
      reads: "local_read env (\<lambda>db. load_session db (own_session_id authority)) s = (Inr stored, s1)"
        "local_read env (\<lambda>db. Inr (load_runtime_activation db)) s1 = (Inr activation, s2)"
      and v: "stamped_unit (cd_py_repr (env_codecs env)) authority stored activation u = Inr v"
      and run: "(if is_transition v
        then local_write env (\<lambda>w. commit_snapshot (env_codecs env) (env_utc_now env w) authority v)
        else env_legacy_commit env authority v) s2 = (Inr c, s')"
    using assms(1) by (auto simp: commit_authoritative_uow_def act_bind_Inr)
  have later: "local_later s s2"
    using local_order.later_trans movesD [OF local_read_moves reads(1)]
      movesD [OF local_read_moves reads(2)] by blast
  have s2: "s2 = env_turn env (env_turn env s)"
    using reads by (simp add: local_read_def Let_def)
  let ?w = "env_turn env s2"
  have "is_transition v" using stamped_unit_same(1) [OF v] assms(2) by simp
  with run have "commit_snapshot (env_codecs env) (env_utc_now env ?w) authority v (lw_db ?w)
      = (Inr c, lw_db s')"
    by (auto simp: local_write_def Let_def split: prod.splits)
  then obtain n where "snapshot_transition_unit v = Inr n"
      "commit_transition (cd_float_repr (env_codecs env)) (cd_sha256_hex (env_codecs env))
       (cd_fromisoformat (env_codecs env)) (env_utc_now env ?w) authority n (lw_db ?w)
       = (Inr c, lw_db s')"
    by (auto simp: commit_snapshot_def split: sum.splits)
  with v s2 show thesis
    using local_order.later_trans [OF later env_turn_later] by (intro that [of _ _ _ v ?w n]) auto
qed

lemma snapshot_member:
  assumes "snapshot_transition_unit v = Inr n" "is_transition v"
    and "m \<in> set (normalized_effect_mutations v)"
  obtains k where "k \<in> set (normalized_effect_mutations n)" "snapshot_mutation m = Inr k"
  using traverse_res_member [OF snapshot_transition_Inr(2) [OF assms(1,2)] assms(3)] by blast

lemma local_fresh_dispatch:
  assumes "commit_authoritative_uow env authority u s = (Inr c, s')" "is_transition u"
    and "\<not> auth_idempotent c" "m \<in> set (normalized_effect_mutations u)"
    and "mut_expected_status m = Some PREPARED" "mut_status m = DISPATCHED"
  shows "local_level s (own_session_id authority, mut_effect_id m) < 2
    \<and> 2 \<le> local_level s' (own_session_id authority, mut_effect_id m)"
proof -
  obtain py stored activation v w n where
      v: "stamped_unit py authority stored activation u = Inr v" and later: "local_later s w"
      and n: "snapshot_transition_unit v = Inr n"
      and run: "commit_transition (cd_float_repr (env_codecs env)) (cd_sha256_hex (env_codecs env))
        (cd_fromisoformat (env_codecs env)) (env_utc_now env w) authority n (lw_db w)
        = (Inr c, lw_db s')"
    by (rule commit_uow_fresh [OF assms(1,2)])
  have tr: "is_transition v" using stamped_unit_same(1) [OF v] assms(2) by simp
  obtain k where k: "k \<in> set (normalized_effect_mutations n)" "snapshot_mutation m = Inr k"
    using snapshot_member [OF n tr] assms(4) stamped_unit_same(2) [OF v] by metis
  note same = snapshot_mutation_Inr [OF k(2)]
  have one: "distinct (map mut_effect_id (normalized_effect_mutations n))"
    by (rule snapshot_distinct [OF snapshot_transition_Inr(1) [OF n tr]])
  let ?key = "(own_session_id authority, mut_effect_id m)"
  have "ledger_at (lw_db w) ?key = 1 \<and> ledger_at (lw_db s') ?key = 2"
    using run assms(3)
  proof (rule commit_wrote)
    fix x t y fp fs row db0 pc
    assume source: "ensure_fact_source (lw_db w) (own_session_id authority) = Inr (fs, db0)"
      and prepared: "prepare_commit (cd_fromisoformat (env_codecs env)) authority n t x y fp fs db0 = Inr pc"
      and written: "write_commit authority n fs pc db0 = Inr (lw_db s')"
    from commit_ledger_level(2) [OF prepared written one k(1)] same assms(5,6)
      ensure_fact_source_tables [OF source]
    show ?thesis by (simp add: ledger_at_def)
  qed
  with local_later_level [OF later, of ?key] show ?thesis by (simp add: local_level_def)
qed

interpretation local_ledger: dispatch_ledger local_later "local_store env" local_level
  for env :: "'x local_env"
proof
  show "local_level s key \<le> local_level t key" if "local_later s t" for s t :: "'x local_world" and key
    using that by (rule local_later_level)
qed (rule local_fresh_dispatch, simp_all add: local_store_def)

section \<open>A host on it\<close>

text \<open>
  The rest of a host has no hold on the database but through calls, which are among those of the
  environment: before each of its operations the others have their turn.
\<close>

definition on_rest ::
    "'x local_env \<Rightarrow> ('x \<Rightarrow> 'a \<times> 'x) \<Rightarrow> 'x local_world \<times> markers \<Rightarrow> 'a \<times> 'x local_world \<times> markers" where
  "on_rest env f w =
     (let w1 = env_turn env (fst w)
      in case f (lw_rest w1) of (r, x) \<Rightarrow> (r, w1\<lparr>lw_rest := x\<rparr>, snd w))"

definition local_base :: "'x local_env \<Rightarrow> 'x ports \<Rightarrow> ('x local_world \<times> markers) ports" where
  "local_base env p =
     \<lparr>port_observe = on_rest env (port_observe p),
      port_commit_transition = (\<lambda>r. on_rest env (port_commit_transition p r)),
      port_commit_settlement = (\<lambda>r. on_rest env (port_commit_settlement p r)),
      port_authorize_dispatch = (\<lambda>r. on_rest env (port_authorize_dispatch p r)),
      port_commit_reconciliation = (\<lambda>r. on_rest env (port_commit_reconciliation p r)),
      port_execute = (\<lambda>k. on_rest env (port_execute p k)),
      port_generate = (\<lambda>m w. snd (on_rest env (\<lambda>x. ((), port_generate p m x)) w)),
      port_race = (\<lambda>g. on_rest env (port_race p g)),
      port_drain_generate = on_rest env (port_drain_generate p),
      port_drain_wait = on_rest env (port_drain_wait p),
      port_emit_frame = (\<lambda>f. on_rest env (port_emit_frame p f)),
      port_emit_fact = (\<lambda>n. on_rest env (port_emit_fact p n))\<rparr>"

lemma on_rest_later: "local_later (fst w) (fst (snd (on_rest env f w)))"
  using env_turn_later [of "fst w" env]
  by (simp add: on_rest_def Let_def local_later_def split: prod.splits)

lemma local_base_moves: "base_moves local_later (local_base env p)"
  by (simp add: base_moves_def local_base_def on_rest_later)

interpretation local_host: durable_host local_later "local_store env" local_level "local_base env p"
  for env :: "'x local_env" and p
  by unfold_locales (rule local_base_moves)

definition local_ports ::
    "'x local_env \<Rightarrow> dict \<Rightarrow> 'x ports \<Rightarrow> ('x local_world \<times> markers) ports" where
  "local_ports env session_state p = durable_ports (local_store env) session_state (local_base env p)"

definition host_db :: "('x local_world \<times> markers) host \<Rightarrow> local_db" where
  "host_db h = lw_db (fst (host_world h))"

section \<open>A sample host\<close>

text \<open>
  The sample segment of \<open>Segment_Theorems\<close> on the local store: its effect is prepared, its command is
  in the mailbox. After the effect has run, another process changes the session row, so that the
  settlement is refused.
\<close>

definition demo_codecs :: codecs where
  "demo_codecs = \<lparr>cd_float_repr = demo_repr, cd_sha256_hex = demo_sha, cd_fromisoformat = demo_iso,
     cd_py_repr = (\<lambda>_. ''v'')\<rparr>"

definition demo_others :: "nat local_world \<Rightarrow> peer_call list" where
  "demo_others w = (if lw_rest w < 2 then []
     else [PeerSession ''se'' (dict_of [(''runtime_version'', PStr ''next'')])])"

definition demo_env :: "nat local_env" where
  "demo_env =
     \<lparr>env_codecs = demo_codecs, env_peers = (\<lambda>w. (demo_others w, lw_rest w)),
      env_utc_now = (\<lambda>w. demo_now), env_clock = (\<lambda>w. demo_stamp), env_token = (\<lambda>w. PStr ''tok''),
      env_legacy_commit = (\<lambda>_ _ w. (Inl CancelledError, w))\<rparr>"

definition demo_shared :: local_db where
  "demo_shared = demo_db
     \<lparr>db_owners := [''se'' \<mapsto> \<lparr>so_owner_id = ''o'', so_lease_expires_at = isoformat demo_lease,
        so_fencing_token = 1\<rparr>],
      db_fact_source := [''se'' \<mapsto> new_fact_source\<lparr>fr_dispatch_generation := 1\<rparr>],
      db_states := [(''se'', ''r'') \<mapsto> \<lparr>sr_revision = 4, sr_projection_epoch = 0,
        sr_transition_id = ''s'', sr_fact_seq_start = None, sr_fact_seq_end = None,
        sr_value = osv_value (seg_state_version demo_segment)\<rparr>],
      db_mailbox := [(''se'', ''c'') \<mapsto> \<lparr>mr_lane = ''command'', mr_disposition = ''admitted'',
        mr_payload = [], mr_admitted_session_seq = None, mr_admitted_dispatch_generation = None\<rparr>],
      db_effects := [(''se'', ''b'') \<mapsto>
        \<lparr>fx_status = ''prepared'', fx_payload = dict_of [(''attempt_id'', PStr ''b'')]\<rparr>]\<rparr>"

definition demo_payload :: dict where
  "demo_payload = dict_of [(''id'', PStr ''se'')]"

definition demo_local :: "(nat local_world \<times> markers) ports" where
  "demo_local = local_ports demo_env demo_payload (demo_ports 3)"

definition demo_world :: "nat local_world" where
  "demo_world = \<lparr>lw_db = demo_shared, lw_rest = 0\<rparr>"

text \<open>Its ports, each by a name of its own, so that they are evaluated only when they are called.\<close>

definition demo_on_observe ::
    "nat local_world \<times> markers \<Rightarrow> ControlSnapshot res \<times> nat local_world \<times> markers" where
  "demo_on_observe w = on_rest demo_env (demo_observe 3) w"

definition demo_on_transition where
  "demo_on_transition r w =
     on_store (port_commit_transition_op (local_store demo_env) demo_payload) r w"

definition demo_on_settlement where
  "demo_on_settlement r w =
     on_store (port_commit_settlement_op (local_store demo_env) demo_payload) r w"

definition demo_on_reconciliation where
  "demo_on_reconciliation r w =
     on_store (port_commit_reconciliation_op (local_store demo_env) demo_payload) r w"

definition demo_on_authorize where
  "demo_on_authorize r w = authorize_port (local_store demo_env) demo_payload r w"

definition demo_on_execute where
  "demo_on_execute k w = on_rest demo_env (port_execute (demo_ports 3) k) w"

lemma demo_local_code [code]:
  "demo_local = (local_base demo_env (demo_ports 3))
     \<lparr>port_observe := demo_on_observe, port_commit_transition := demo_on_transition,
      port_commit_settlement := demo_on_settlement,
      port_authorize_dispatch := demo_on_authorize,
      port_commit_reconciliation := demo_on_reconciliation,
      port_execute := demo_on_execute\<rparr>"
  by (simp add: demo_local_def local_ports_def durable_ports_def local_base_def fun_eq_iff
      demo_on_observe_def demo_on_transition_def demo_on_settlement_def demo_on_authorize_def
      demo_on_reconciliation_def demo_on_execute_def demo_ports_def)

definition demo_local_run :: "(SegmentOutcome res \<times> (nat local_world \<times> markers) seg) option" where
  "demo_local_run =
     step_fuel (seg_step demo_local demo_segment) 5 (seg_start demo_segment 1 (demo_world, Map.empty))"

lemma demo_local_runs:
  "case demo_local_run of
     Some (Inr out, s) \<Rightarrow> is_failed out \<and> executed_keys (host_trace (sg_host s)) = [(''se'', ''b'')]
   | _ \<Rightarrow> False"
  by code_simp

lemma demo_local_segment:
  obtains out h where "run_segment demo_local demo_segment (demo_world, Map.empty) = Some (Inr out, h)"
    "executed_keys (host_trace h) = [(''se'', ''b'')]"
proof -
  obtain out s where run: "demo_local_run = Some (Inr out, s)"
      and keys: "executed_keys (host_trace (sg_host s)) = [(''se'', ''b'')]"
    using demo_local_runs by (auto split: option.splits prod.splits sum.splits)
  have "mailbox_cut_of demo_segment = Inr 1" by code_simp
  moreover have "step_loop (seg_step demo_local demo_segment)
      (seg_start demo_segment 1 (demo_world, Map.empty)) = Some (Inr out, s)"
    by (rule step_fuel_loop [OF run [unfolded demo_local_run_def]])
  ultimately have "run_segment demo_local demo_segment (demo_world, Map.empty) = Some (Inr out, sg_host s)"
    by (simp add: run_segment_def seg_loop_def)
  with keys show thesis by (intro that) auto
qed

text \<open>A segment that control stops at once, in any world.\<close>

definition demo_stopped :: RunSegmentRequest where
  "demo_stopped = demo_segment
     \<lparr>seg_state_version := demo_version 0 ''t'' [], seg_step_input := Initial demo_initial_input\<rparr>"

lemma demo_stopped_segment:
  "\<exists>v h. run_segment (local_ports demo_env demo_payload (demo_ports 0)) demo_stopped (w, ms) = Some (v, h)"
proof -
  let ?ports = "local_ports demo_env demo_payload (demo_ports 0)"
  have cut: "mailbox_cut_of demo_stopped = Inr 1" by code_simp
  have initial: "\<not> is_settlement_input (sg_input (seg_start demo_stopped 1 (w, ms)))"
    by (simp add: seg_start_def demo_stopped_def is_settlement_input_def)
  have "\<exists>r. seg_step ?ports demo_stopped (seg_start demo_stopped 1 (w, ms)) = Inr r"
    using initial
    by (simp add: seg_step_def seg_start_def top_step_def and_then_def current_def observe_or_yield_def
        observe_def perform_def attempt_def host_call_def local_ports_def durable_ports_def
        local_base_def on_rest_def Let_def demo_ports_def demo_observe_def lift_res_def
        return_outcome_def split: prod.split sum.split)
  then show ?thesis using cut
    by (auto simp: run_segment_def seg_loop_def step_loop_Inr)
qed

section \<open>Properties\<close>

text \<open>A segment on the local store executes an effect only if the ledger had not dispatched it:
  whatever other processes do to the database meanwhile, every effect a segment hands to its executor
  was absent or prepared when the segment started, is dispatched or settled when it ends, and is
  executed once.\<close>

theorem executes_undispatched:
  assumes "run_segment (local_ports env session_state p) request (w, ms) = Some (v, h)"
  shows "distinct (executed_keys (host_trace h))
    \<and> (\<forall>key \<in> set (executed_keys (host_trace h)).
         ledger_at (lw_db w) key < 2 \<and> 2 \<le> ledger_at (host_db h) key)"
  using local_host.segment_executes_once(1,2) [OF assms [unfolded local_ports_def]]
  by (auto simp: local_level_def host_db_def)

text \<open>C2: No effect runs twice: of two segments on one database, by whatever owners and with any
  calls of other processes before, between and during them, no effect of a session is executed by
  both, nor by one of them twice.\<close>

theorem effects_execute_once:
  assumes "run_segment (local_ports env session_state p) request (w, ms) = Some (v, h)"
    and "peers_run cd (host_db h) (lw_db w')"
    and "run_segment (local_ports env' session_state' p') request' (w', ms') = Some (v', h')"
  shows "distinct (executed_keys (host_trace h) @ executed_keys (host_trace h'))"
proof -
  note first = local_host.segment_executes_once [OF assms(1) [unfolded local_ports_def]]
  note second = local_host.segment_executes_once [OF assms(3) [unfolded local_ports_def]]
  have "\<not> (key \<in> set (executed_keys (host_trace h)) \<and> key \<in> set (executed_keys (host_trace h')))" for key
  proof
    assume "key \<in> set (executed_keys (host_trace h)) \<and> key \<in> set (executed_keys (host_trace h'))"
    then have "2 \<le> ledger_at (host_db h) key" "ledger_at (lw_db w') key < 2"
      using first(2) second(2) by (auto simp: local_level_def host_db_def)
    moreover have "ledger_at (host_db h) key \<le> ledger_at (lw_db w') key"
      using peers_run_forward [OF assms(2)] unfolding ledger_forward_def by blast
    ultimately show False by simp
  qed
  with first(1) second(1) show ?thesis by auto
qed

theorem effects_execute_once_witness:
  "\<exists>(h :: (nat local_world \<times> markers) host) (h' :: (nat local_world \<times> markers) host).
     executed_keys (host_trace h) = [(''se'', ''b'')] \<and> distinct (executed_keys (host_trace h) @ executed_keys (host_trace h'))"
proof -
  obtain out h where run: "run_segment demo_local demo_segment (demo_world, Map.empty) = Some (Inr out, h)"
      and keys: "executed_keys (host_trace h) = [(''se'', ''b'')]"
    by (rule demo_local_segment)
  have same: "peers_run demo_codecs (host_db h) (lw_db \<lparr>lw_db = host_db h, lw_rest = (0 :: nat)\<rparr>)"
    unfolding peers_run_def by (rule exI [of _ "[]"]) simp
  obtain v h' where "run_segment (local_ports demo_env demo_payload (demo_ports 0)) demo_stopped
      (\<lparr>lw_db = host_db h, lw_rest = 0\<rparr>, Map.empty) = Some (v, h')"
    using demo_stopped_segment by blast
  from effects_execute_once [OF run [unfolded demo_local_def] same this] keys
  show ?thesis by (intro exI [of _ h] exI [of _ h']) simp
qed

text \<open>C8: A takeover fences every earlier owner for good: once an authority with a new epoch has been
  acquired, no authority of an earlier epoch passes the store's fence again, whatever the owners
  acquire and renew and whatever is written afterwards; a commit under it fails and changes nothing.
  (A release forgets the epoch: see \<open>release_restarts_epoch\<close>.)\<close>

theorem takeover_fences:
  assumes "db_owners db sid = Some row"
    and "acquire_authority (cd_fromisoformat cd) now x sid oid lease db = Inr (a, db1)"
    and "own_epoch a \<noteq> so_fencing_token row"
    and "db2 = fold (perform_peer cd) cs db1" and "\<forall>c \<in> set cs. authority_peer c"
    and "own_session_id b = sid" "own_epoch b \<le> so_fencing_token row"
  shows "(\<exists>e. assert_authority (cd_fromisoformat cd) now' db2 b = Inl e)
    \<and> (\<exists>e. commit_snapshot cd now' b u db2 = (Inl e, db2))"
proof -
  obtain n where n: "next_epoch (cd_fromisoformat cd) now oid (Some row) = Inr n" "own_epoch a = n"
      and db1: "db1 = put_owner sid \<lparr>so_owner_id = oid, so_lease_expires_at = isoformat x,
        so_fencing_token = n\<rparr> db"
    using assms(1,2) by (auto elim: acquire_authority_Inr)
  have "so_fencing_token row < n" using next_epoch_grows [OF n(1)] n(2) assms(3) by simp
  moreover have "token_from sid n db1" by (simp add: db1 token_from_def put_owner_def)
  then have "token_from sid n db2" using assms(4,5) by (auto intro: authority_peers_token)
  ultimately obtain e where e: "assert_authority (cd_fromisoformat cd) now' db2 b = Inl e"
    using token_fences [of b n db2] assms(6,7) by fastforce
  moreover have "\<exists>e. commit_snapshot cd now' b u db2 = (Inl e, db2)"
    by (rule fenced_commit) (rule e)
  ultimately show ?thesis by blast
qed

definition demo_hour :: datetime where
  "demo_hour = demo_now\<lparr>dt_hour := 1\<rparr>"

theorem takeover_fences_witness:
  "\<exists>e db. commit_snapshot demo_codecs demo_now demo_owner demo_first db = (Inl e, db)"
proof -
  have row: "db_owners demo_db ''s'' = Some \<lparr>so_owner_id = ''o'',
      so_lease_expires_at = isoformat demo_lease, so_fencing_token = 1\<rparr>"
    by (simp add: demo_db_def)
  have "case acquire_authority (cd_fromisoformat demo_codecs) demo_hour demo_stamp ''s'' ''p'' 1 demo_db of
      Inr (a, db1) \<Rightarrow> own_epoch a = 2 | _ \<Rightarrow> False"
    by code_simp
  then obtain a db1 where acquired: "acquire_authority (cd_fromisoformat demo_codecs) demo_hour
      demo_stamp ''s'' ''p'' 1 demo_db = Inr (a, db1)" "own_epoch a = 2"
    by (auto split: sum.splits)
  have "own_session_id demo_owner = ''s''" "own_epoch demo_owner = 1" by (simp_all add: demo_owner_def)
  then show ?thesis
    using takeover_fences [OF row acquired(1), of db1 "[]" demo_owner demo_now demo_first] acquired(2)
    by auto
qed

end
