(* ===== verification/Serving.thy ===== *)
theory Serving
  imports Commit_Port Segment_Loop
begin

text \<open>
  A serving turn: \<open>DurableSegmentRunner\<close> of \<open>coding_agent/runs/turn_execution.py\<close>, which hides the
  recovery of replayed authorizations from its caller, and \<open>DurableSegmentTurnAdapter\<close> with its
  helpers of \<open>coding_agent/runs/serving_runtime.py\<close>, which runs segments until one needs no approval
  it can get.

  The runner's world carries the trace of the port calls of its segments; nothing reads it.
\<close>

section \<open>The runner\<close>

definition needs_recovery :: "SegmentOutcome \<Rightarrow> bool" where
  "needs_recovery out \<longleftrightarrow>
     (case out of FailedOutcome _ f _ \<Rightarrow> fail_code f = ''exact_replay_requires_recovery'' | _ \<Rightarrow> False)"

definition recovered_request :: "RunSegmentRequest \<Rightarrow> AuthorizationReplayRecovery \<Rightarrow> RunSegmentRequest res" where
  "recovered_request request r =
     RunSegmentRequest_init
       (request\<lparr>seg_state_version := rcv_state_version r,
          seg_step_input := EffectSettled (rcv_settlement r)\<rparr>)"

definition recover_request ::
    "'s durable_store \<Rightarrow> RunSegmentRequest \<Rightarrow> 's \<times> markers \<Rightarrow> (RunSegmentRequest res \<times> 's \<times> markers) option" where
  "recover_request st request w =
     (case consume_authorization_replay_marker request (snd w) of
        (Inl e, ms) \<Rightarrow> Some (Inl e, fst w, ms)
      | (Inr None, ms) \<Rightarrow>
          map_option
            (\<lambda>(r, s).
               (bind_res r (\<lambda>found.
                  case found of
                    None \<Rightarrow> Inl (RuntimeError ''authorization replay failed without durable identity'')
                  | Some recovery \<Rightarrow> recovered_request request recovery), s, ms))
            (recover_authorization_without_marker st request (fst w))
      | (Inr (Some k), ms) \<Rightarrow>
          map_option (\<lambda>(r, s). (bind_res r (recovered_request request), s, ms))
            (recover_authorization_replay st k (fst w)))"

partial_function (option) run_durable ::
    "'s durable_store \<Rightarrow> ('s \<times> markers) ports \<Rightarrow> RunSegmentRequest \<Rightarrow> ('s \<times> markers) \<times> event list
     \<Rightarrow> (SegmentOutcome res \<times> ('s \<times> markers) \<times> event list) option" where
  "run_durable st ports request w =
     Option.bind (run_segment ports request (fst w)) (\<lambda>(v, h).
     let trace = snd w @ host_trace h in
     case v of
       Inl e \<Rightarrow> Some (Inl e, host_world h, trace)
     | Inr out \<Rightarrow>
         if \<not> needs_recovery out then Some (Inr out, host_world h, trace)
         else
           Option.bind (recover_request st request (host_world h)) (\<lambda>(r, w1).
           case r of
             Inl e \<Rightarrow> Some (Inl e, w1, trace)
           | Inr request' \<Rightarrow> run_durable st ports request' (w1, trace)))"

section \<open>What a state says of its turn\<close>

definition serving_runtime :: "OperationStateVersion \<Rightarrow> dict option res" where
  "serving_runtime v =
     (let raw = dict_get (osv_value v) runtime_key in
      if raw = PNone then Inr None
      else case as_dict raw of
             None \<Rightarrow> Inl (TypeError ''engine runtime state must be a mapping'')
           | Some d \<Rightarrow> Inr (Some d))"

definition persisted_rounds :: "OperationStateVersion \<Rightarrow> int res" where
  "persisted_rounds v =
     bind_res (serving_runtime v) (\<lambda>found.
     case found of
       None \<Rightarrow> Inr 0
     | Some runtime \<Rightarrow>
         (case as_plain_int (dict_get_or runtime ''round_index'' (PInt 0)) of
            None \<Rightarrow> Inl (TypeError ''engine runtime round_index must be an integer'')
          | Some i \<Rightarrow>
              (if i < 0 then Inl (ValueError ''engine runtime round_index must be non-negative'')
               else Inr i)))"

definition pending_effect_plan :: "OperationStateVersion \<Rightarrow> dict option res" where
  "pending_effect_plan v =
     bind_res (serving_runtime v) (\<lambda>found.
     case found of
       None \<Rightarrow> Inr None
     | Some runtime \<Rightarrow>
         (case as_seq (or_val (dict_get runtime ''pending_effect_plans'') (PTuple [])) of
            None \<Rightarrow> Inl (TypeError ''pending effect plans must be a sequence'')
          | Some [] \<Rightarrow> Inr None
          | Some (plan # _) \<Rightarrow>
              (case as_dict plan of
                 None \<Rightarrow> Inl (TypeError ''pending effect plan must be a mapping'')
               | Some d \<Rightarrow> Inr (Some d))))"

definition required_plan_string :: "dict \<Rightarrow> string \<Rightarrow> string res" where
  "required_plan_string plan field_name =
     (case as_nonempty_str (dict_get plan field_name) of
        None \<Rightarrow> Inl (ValueError (''pending effect plan requires '' @ field_name))
      | Some s \<Rightarrow> Inr s)"

definition plan_payload_mapping :: "dict \<Rightarrow> dict res" where
  "plan_payload_mapping plan =
     (case as_dict (dict_get plan ''payload'') of
        None \<Rightarrow> Inl (TypeError ''pending effect plan payload must be a mapping'')
      | Some d \<Rightarrow> Inr d)"

definition plan_approval_request :: "dict \<Rightarrow> string option res" where
  "plan_approval_request plan =
     (let v = dict_get plan ''approval_request_id'' in
      if v = PNone then Inr None
      else case as_nonempty_str v of
             None \<Rightarrow> Inl (ValueError ''pending effect plan approval_request_id must be non-empty'')
           | Some s \<Rightarrow> Inr (Some s))"

definition blocked_on_plan :: "OperationStateVersion \<Rightarrow> dict \<Rightarrow> SegmentOutcome res" where
  "blocked_on_plan v plan =
     bind_res (plan_payload_mapping plan) (\<lambda>payload.
     bind_res (required_plan_string payload ''tool_call_id'') (\<lambda>tool_call_id.
     bind_res (plan_approval_request plan) (\<lambda>approval_request_id.
     bind_res (required_plan_string plan ''effect_id'') (\<lambda>effect_id.
     bind_res (required_plan_string plan ''attempt_id'') (\<lambda>attempt_id.
     bind_res (EffectReference_init
       \<lparr>ref_effect_id = effect_id, ref_attempt_id = attempt_id,
        ref_tool_call_id = tool_call_id, ref_approval_request_id = approval_request_id\<rparr>) (\<lambda>effect.
     SegmentOutcome_init (BlockedOutcome v ''approval_required'' (Some effect) 0)))))))"

definition blocked_approval_from_state :: "OperationStateVersion \<Rightarrow> SegmentOutcome option res" where
  "blocked_approval_from_state v =
     bind_res (pending_effect_plan v) (\<lambda>found.
     case found of
       None \<Rightarrow> Inr None
     | Some plan \<Rightarrow>
         (case as_bool (dict_get_or plan ''requires_approval'' (PBool False)) of
            None \<Rightarrow> Inl (TypeError ''pending effect plan requires_approval must be a bool'')
          | Some requires_approval \<Rightarrow>
              (if requires_approval then map_res Some (blocked_on_plan v plan) else Inr None)))"

section \<open>Approvals\<close>

definition serving_approval_identity :: "string \<Rightarrow> string \<Rightarrow> (string \<times> string) res" where
  "serving_approval_identity run_id request_id =
     (let command_id = ''serving-approval:'' @ request_id in
      checks
        [fails_when (run_id = []) (ValueError ''serving approval requires a run_id''),
         fails_when (request_id = []) (ValueError ''serving approval requires a request_id'')]
        (command_id, run_id @ '':approval:'' @ command_id))"

definition blocked_payload :: "OperationStateVersion \<Rightarrow> dict res" where
  "blocked_payload v =
     bind_res (pending_effect_plan v) (\<lambda>found.
     case found of
       None \<Rightarrow> Inl (ValueError ''blocked state has no pending effect plan'')
     | Some plan \<Rightarrow> plan_payload_mapping plan)"

text \<open>\<open>{str(key): value for ...}\<close>: a later key of the same text replaces the value of an earlier one.\<close>

definition str_key :: "(pyval \<Rightarrow> string) \<Rightarrow> pyval \<Rightarrow> string" where
  "str_key py_str k = (case k of PStr s \<Rightarrow> s | _ \<Rightarrow> py_str k)"

definition text_keys :: "(pyval \<Rightarrow> string) \<Rightarrow> dict \<Rightarrow> dict" where
  "text_keys py_str d = fold (\<lambda>(k, v) r. dict_set (str_key py_str k) v r) d []"

definition blocked_approval_tool ::
    "(pyval \<Rightarrow> string) \<Rightarrow> OperationStateVersion \<Rightarrow> (string \<times> dict) res" where
  "blocked_approval_tool py_str v =
     bind_res (blocked_payload v) (\<lambda>payload.
     case as_nonempty_str (dict_get payload ''tool_name'') of
       None \<Rightarrow> Inl (ValueError ''pending effect plan requires a tool_name'')
     | Some tool_name \<Rightarrow>
         (case as_dict (or_val (dict_get payload ''arguments'') (PDict [])) of
            None \<Rightarrow> Inl (TypeError ''pending effect plan arguments must be a mapping'')
          | Some arguments \<Rightarrow> Inr (tool_name, text_keys py_str arguments)))"

text \<open>The approval request of a blocked effect: its own id, or that of its tool call.\<close>

definition blocked_request_id :: "EffectReference \<Rightarrow> string" where
  "blocked_request_id e =
     (case ref_approval_request_id e of
        None \<Rightarrow> ref_tool_call_id e
      | Some s \<Rightarrow> if s = [] then ref_tool_call_id e else s)"

definition approval_settlement_from_blocked ::
    "(pyval \<Rightarrow> string) \<Rightarrow> OperationStateVersion \<Rightarrow> EffectReference option \<Rightarrow> bool \<Rightarrow> int
     \<Rightarrow> string option \<Rightarrow> ApprovalSettlement res" where
  "approval_settlement_from_blocked py_str v effect approved owner_epoch command_id =
     (case effect of
        None \<Rightarrow> Inl (ValueError ''blocked approval outcome requires an effect'')
      | Some e \<Rightarrow>
          bind_res (serving_approval_identity (osv_run_id v) (blocked_request_id e))
            (\<lambda>(default_command_id, _).
          let resolved = (case command_id of
                None \<Rightarrow> default_command_id
              | Some c \<Rightarrow> if c = [] then default_command_id else c)
          in bind_res (blocked_approval_tool py_str v) (\<lambda>(tool_name, _).
             ApprovalSettlement_init
               \<lparr>ap_input_id = osv_run_id v @ '':approval:'' @ resolved, ap_command_id = resolved,
                ap_tool_call_id = ref_tool_call_id e, ap_tool_name = tool_name,
                ap_effect_id = ref_effect_id e, ap_attempt_id = ref_attempt_id e,
                ap_transition_id = cr_transition_id (osv_commit_ref v),
                ap_owner_epoch = owner_epoch, ap_approved = approved,
                ap_rejection_reason_code = (if approved then None else Some ''user_denied''),
                ap_rejection_message =
                  (if approved then None else Some ''User denied this tool call'')\<rparr>)))"

definition mailbox_decision ::
    "(pyval \<Rightarrow> string) \<Rightarrow> OperationStateVersion \<Rightarrow> EffectReference option \<Rightarrow> int \<Rightarrow> string
     \<Rightarrow> string \<Rightarrow> RuntimeCommand \<Rightarrow> ApprovalSettlement res" where
  "mailbox_decision py_str v effect owner_epoch command_id input_id c =
     (let payload = cmd_payload c in
      if cmd_command_kind c \<noteq> ''approval_decision''
      then Inl (ValueError ''serving approval command has the wrong kind'')
      else case as_bool (dict_get payload ''approved'') of
        None \<Rightarrow> Inl (TypeError ''serving approval command approved must be a bool'')
      | Some approved \<Rightarrow>
          (if dict_get payload ''request_id'' \<noteq> PStr input_id
           then Inl (ValueError ''serving approval command request_id does not match'')
           else if dict_get payload ''target_run_id'' \<noteq> PStr (osv_run_id v)
           then Inl (ValueError ''serving approval command target_run_id does not match'')
           else approval_settlement_from_blocked py_str v effect approved owner_epoch
                  (Some command_id)))"

definition approval_settlement_from_mailbox ::
    "(pyval \<Rightarrow> string) \<Rightarrow> OperationStateVersion \<Rightarrow> EffectReference option
     \<Rightarrow> CommandMailboxEntry list \<Rightarrow> int \<Rightarrow> ApprovalSettlement option res" where
  "approval_settlement_from_mailbox py_str v effect entries owner_epoch =
     (case effect of
        None \<Rightarrow> Inl (ValueError ''blocked approval outcome requires an effect'')
      | Some e \<Rightarrow>
          bind_res (serving_approval_identity (osv_run_id v) (blocked_request_id e))
            (\<lambda>(command_id, input_id).
          case filter (\<lambda>x. cmd_command_id (ent_command x) = command_id) entries of
            [] \<Rightarrow> Inr None
          | x # _ \<Rightarrow>
              map_res Some
                (mailbox_decision py_str v effect owner_epoch command_id input_id (ent_command x))))"

text \<open>The command \<open>admit_blocked_approval\<close> admits for a decision, with the settlement it returns.\<close>

definition admitted_approval ::
    "(pyval \<Rightarrow> string) \<Rightarrow> OwnerAuthority \<Rightarrow> OperationStateVersion \<Rightarrow> EffectReference option \<Rightarrow> bool
     \<Rightarrow> (RuntimeCommand \<times> ApprovalSettlement) res" where
  "admitted_approval py_str authority v effect approved =
     bind_res (approval_settlement_from_blocked py_str v effect approved (own_epoch authority) None)
       (\<lambda>s.
     map_res (\<lambda>c. (c, s))
       (RuntimeCommand_init
          \<lparr>cmd_command_id = ap_command_id s, cmd_command_kind = ''approval_decision'',
           cmd_payload = dict_of
             [(''approved'', PBool approved), (''request_id'', PStr (ap_input_id s)),
              (''target_run_id'', PStr (osv_run_id v))]\<rparr>))"

definition admit_blocked_approval ::
    "(pyval \<Rightarrow> string) \<Rightarrow> (OwnerAuthority \<Rightarrow> RuntimeCommand \<Rightarrow> ('s, RuntimeCommandAdmission) action)
     \<Rightarrow> OwnerAuthority \<Rightarrow> OperationStateVersion \<Rightarrow> EffectReference option \<Rightarrow> bool
     \<Rightarrow> ('s, ApprovalSettlement) action" where
  "admit_blocked_approval py_str admit authority v effect approved =
     act_bind (act_res (admitted_approval py_str authority v effect approved)) (\<lambda>(c, s).
     act_bind (admit authority c) (\<lambda>_. act_res (Inr s)))"

definition initial_operation_state :: "string \<Rightarrow> string \<Rightarrow> int \<Rightarrow> OperationStateVersion res" where
  "initial_operation_state run_id system_prompt projection_epoch =
     bind_res (CommitRef_init
       \<lparr>cr_transition_id = run_id @ '':admission'', cr_fact_seq_start = None,
        cr_fact_seq_end = None\<rparr>) (\<lambda>ref.
     OperationStateVersion_init
       \<lparr>osv_run_id = run_id, osv_revision = 0, osv_projection_epoch = projection_epoch,
        osv_commit_ref = ref,
        osv_value = dict_of
          [(''context'', PDict (dict_of
             [(''messages'', PTuple [PDict (dict_of
                [(''role'', PStr ''system''), (''content'', PStr system_prompt)])])]))]\<rparr>)"

section \<open>The turn\<close>

record turn_adapter =
  ta_session_id :: string
  ta_owner_id :: string
  ta_owner_epoch :: int
  ta_state_version :: OperationStateVersion
  ta_max_rounds :: int

text \<open>\<open>dict(v)\<close> and \<open>list(v)\<close> of a value that is true.\<close>

definition dict_pair :: "nat \<Rightarrow> pyval \<Rightarrow> (pyval \<times> pyval) res" where
  "dict_pair i v =
     (case (case v of
              PTuple xs \<Rightarrow> Some xs | PList xs \<Rightarrow> Some xs
            | PStr s \<Rightarrow> Some (map (\<lambda>c. PStr [c]) s) | PDict d \<Rightarrow> Some (map fst d)
            | _ \<Rightarrow> None) of
        None \<Rightarrow> Inl (TypeError (''cannot convert dictionary update sequence element #''
          @ str_of_int (int i) @ '' to a sequence''))
      | Some [k, x] \<Rightarrow>
          (if hashable k then Inr (k, x) else Inl (TypeError ''unhashable type''))
      | Some xs \<Rightarrow> Inl (ValueError (''dictionary update sequence element #'' @ str_of_int (int i)
          @ '' has length '' @ str_of_int (int (length xs)) @ ''; 2 is required'')))"

fun dict_from_pairs :: "nat \<Rightarrow> pyval list \<Rightarrow> dict \<Rightarrow> dict res" where
  "dict_from_pairs i [] d = Inr d"
| "dict_from_pairs i (v # vs) d =
     bind_res (dict_pair i v) (\<lambda>(k, x). dict_from_pairs (Suc i) vs (AList.update k x d))"

definition py_dict :: "pyval \<Rightarrow> dict res" where
  "py_dict v =
     (case v of
        PDict d \<Rightarrow> Inr d
      | PTuple xs \<Rightarrow> dict_from_pairs 0 xs []
      | PList xs \<Rightarrow> dict_from_pairs 0 xs []
      | PStr s \<Rightarrow> dict_from_pairs 0 (map (\<lambda>c. PStr [c]) s) []
      | _ \<Rightarrow> Inl (TypeError ''object is not iterable''))"

definition py_list :: "pyval \<Rightarrow> pyval list res" where
  "py_list v =
     (case v of
        PTuple xs \<Rightarrow> Inr xs
      | PList xs \<Rightarrow> Inr xs
      | PStr s \<Rightarrow> Inr (map (\<lambda>c. PStr [c]) s)
      | PDict d \<Rightarrow> Inr (map fst d)
      | _ \<Rightarrow> Inl (TypeError ''object is not iterable''))"

definition with_prompt :: "string \<Rightarrow> OperationStateVersion \<Rightarrow> OperationStateVersion res" where
  "with_prompt prompt v =
     bind_res (py_dict (or_val (dict_get (osv_value v) ''context'') (PDict []))) (\<lambda>context.
     bind_res (py_list (or_val (dict_get context ''messages'') (PTuple []))) (\<lambda>messages.
     OperationStateVersion_init
       (v\<lparr>osv_value := dict_set ''context''
            (PDict (dict_set ''messages''
               (PTuple (messages @ [PDict (dict_of
                  [(''role'', PStr ''user''), (''content'', PStr prompt)])])) context))
            (osv_value v)\<rparr>)))"

definition turn_request ::
    "turn_adapter \<Rightarrow> string \<Rightarrow> EngineStepInput \<Rightarrow> int \<Rightarrow> RunSegmentRequest res" where
  "turn_request a prompt step_input max_rounds =
     bind_res
       (case step_input of
          Initial _ \<Rightarrow>
            (if py_strip prompt \<noteq> [] then with_prompt prompt (ta_state_version a)
             else Inr (ta_state_version a))
        | _ \<Rightarrow> Inr (ta_state_version a)) (\<lambda>v.
     RunSegmentRequest_init
       \<lparr>seg_session_id = ta_session_id a, seg_owner_id = ta_owner_id a,
        seg_owner_epoch = ta_owner_epoch a, seg_state_version = v, seg_step_input = step_input,
        seg_max_rounds = max_rounds\<rparr>)"

text \<open>\<open>replace(outcome, steps_taken=n)\<close>.\<close>

fun with_steps :: "int \<Rightarrow> SegmentOutcome \<Rightarrow> SegmentOutcome" where
  "with_steps n (CompletedOutcome v m _ r) = CompletedOutcome v m n r"
| "with_steps n (BlockedOutcome v r e _) = BlockedOutcome v r e n"
| "with_steps n (SafeYieldOutcome v r _) = SafeYieldOutcome v r n"
| "with_steps n (CancelledOutcome v d _) = CancelledOutcome v d n"
| "with_steps n (RoundLimitOutcome v _) = RoundLimitOutcome v n"
| "with_steps n (FailedOutcome v f _) = FailedOutcome v f n"

definition awaits_approval :: "SegmentOutcome \<Rightarrow> OperationStateVersion option" where
  "awaits_approval out =
     (case out of
        BlockedOutcome v reason (Some _) _ \<Rightarrow>
          (if reason = ''approval_required'' then Some v else None)
      | _ \<Rightarrow> None)"

type_synonym 'w runner = "RunSegmentRequest \<Rightarrow> 'w \<Rightarrow> (SegmentOutcome res \<times> 'w) option"
type_synonym 'w resolver = "SegmentOutcome \<Rightarrow> ('w, ApprovalSettlement) action"

text \<open>
  After a segment: the outcome of the turn (\<open>Inr\<close>), or the request to run next with the rounds
  completed so far (\<open>Inl\<close>).
\<close>

definition after_segment ::
    "'w resolver option \<Rightarrow> int \<Rightarrow> RunSegmentRequest \<Rightarrow> int \<Rightarrow> SegmentOutcome \<Rightarrow> 'w
     \<Rightarrow> (RunSegmentRequest \<times> int) \<times> 'w + SegmentOutcome res \<times> 'w" where
  "after_segment resolve max_rounds request completed out w =
     (case (awaits_approval out, resolve) of
        (Some v, Some f) \<Rightarrow>
          (let completed' = completed + outcome_steps out; remaining = max_rounds - completed' in
           if remaining \<le> 0 then Inr (SegmentOutcome_init (RoundLimitOutcome v completed'), w)
           else case f out w of
                  (Inl e, w1) \<Rightarrow> Inr (Inl e, w1)
                | (Inr settlement, w1) \<Rightarrow>
                    (case RunSegmentRequest_init
                            (request\<lparr>seg_state_version := v,
                               seg_step_input := ApprovalResolved settlement,
                               seg_max_rounds := remaining\<rparr>) of
                       Inl e \<Rightarrow> Inr (Inl e, w1)
                     | Inr request' \<Rightarrow> Inl ((request', completed'), w1)))
      | _ \<Rightarrow>
          Inr (if completed = 0 then Inr out
               else SegmentOutcome_init (with_steps (completed + outcome_steps out) out), w))"

partial_function (option) turn_loop ::
    "'w runner \<Rightarrow> 'w resolver option \<Rightarrow> int \<Rightarrow> RunSegmentRequest \<Rightarrow> int \<Rightarrow> 'w
     \<Rightarrow> (SegmentOutcome res \<times> 'w) option" where
  "turn_loop runner resolve max_rounds request completed w =
     Option.bind (runner request w) (\<lambda>(v, w1).
     case v of
       Inl e \<Rightarrow> Some (Inl e, w1)
     | Inr out \<Rightarrow>
         (case after_segment resolve max_rounds request completed out w1 of
            Inr r \<Rightarrow> Some r
          | Inl ((request', completed'), w2) \<Rightarrow>
              turn_loop runner resolve max_rounds request' completed' w2))"

text \<open>How a turn starts: with its outcome at once, or with a request and the rounds of earlier turns.\<close>

definition turn_start ::
    "'w resolver option \<Rightarrow> turn_adapter \<Rightarrow> string \<Rightarrow> 'w
     \<Rightarrow> (RunSegmentRequest \<times> int) \<times> 'w + SegmentOutcome res \<times> 'w" where
  "turn_start resolve a prompt w =
     (let v = ta_state_version a;
          started = (\<lambda>completed w r. case r of
            Inl e \<Rightarrow> Inr (Inl e, w) | Inr request \<Rightarrow> Inl ((request, completed), w))
      in case bind_res (persisted_rounds v) (\<lambda>completed.
              map_res (Pair completed) (blocked_approval_from_state v)) of
           Inl e \<Rightarrow> Inr (Inl e, w)
         | Inr (completed, Some blocked) \<Rightarrow>
             (let remaining = ta_max_rounds a - completed in
              if remaining \<le> 0 then Inr (SegmentOutcome_init (RoundLimitOutcome v completed), w)
              else case resolve of
                     None \<Rightarrow> Inr (SegmentOutcome_init (with_steps completed blocked), w)
                   | Some f \<Rightarrow>
                       (case f blocked w of
                          (Inl e, w1) \<Rightarrow> Inr (Inl e, w1)
                        | (Inr settlement, w1) \<Rightarrow>
                            started completed w1
                              (turn_request a [] (ApprovalResolved settlement) remaining)))
         | Inr (completed, None) \<Rightarrow>
             (if osv_revision v \<noteq> 0
              then Inr (Inl (RuntimeError
                     ''new-runtime serving cannot restart a non-approval state''), w)
              else started completed w
                     (bind_res (Initial_init
                        \<lparr>init_input_id = osv_run_id v @ '':initial'', init_command_batch = [],
                         init_mailbox_cut = 0\<rparr>) (\<lambda>i.
                      turn_request a prompt (Initial i) (ta_max_rounds a)))))"

definition run_turn ::
    "'w runner \<Rightarrow> 'w resolver option \<Rightarrow> turn_adapter \<Rightarrow> string \<Rightarrow> 'w
     \<Rightarrow> (SegmentOutcome res \<times> 'w) option" where
  "run_turn runner resolve a prompt w =
     (case turn_start resolve a prompt w of
        Inr r \<Rightarrow> Some r
      | Inl ((request, completed), w1) \<Rightarrow>
          turn_loop runner resolve (ta_max_rounds a) request completed w1)"

end
