(* ===== verification/Serving_Laws.thy ===== *)
theory Serving_Laws
  imports Serving Durable_Segments
begin

text \<open>
  What a runner passes on from its segments and a turn from its runner: the bound on the rounds, and
  any predicate on the world that every segment and every decision keeps.
\<close>

section \<open>The runner's rounds\<close>

lemma segment_rounds:
  "run_segment ports request w = Some (Inr out, h) \<Longrightarrow> 0 < seg_max_rounds request \<Longrightarrow>
   0 \<le> outcome_steps out"
  "run_segment ports request w = Some (Inr out, h) \<Longrightarrow> 0 < seg_max_rounds request \<Longrightarrow>
   outcome_steps out \<le> seg_max_rounds request"
  using rounds_bounded [of ports request w out h] by auto

lemma recovered_request_rounds:
  "recovered_request request r = Inr q \<Longrightarrow> seg_max_rounds q = seg_max_rounds request"
  by (auto simp: recovered_request_def RunSegmentRequest_init_def checks_eq_Inr)

lemma recover_request_rounds:
  assumes "recover_request st request w = Some (Inr q, w')"
  shows "seg_max_rounds q = seg_max_rounds request"
  using assms
  by (auto simp: recover_request_def bind_res_eq_Inr dest!: recovered_request_rounds
      split: prod.splits sum.splits option.splits)

text \<open>What holds of a run: it holds of a segment that ends it, and is passed back by a recovery.\<close>

lemma run_durable_induct:
  assumes "run_durable st ports request w = Some y"
    and ended: "\<And>request w r h. run_segment ports request (fst w) = Some (r, h) \<Longrightarrow>
      P request w (r, host_world h, snd w @ host_trace h)"
    and stopped: "\<And>request w r h e w1. run_segment ports request (fst w) = Some (r, h) \<Longrightarrow>
      recover_request st request (host_world h) = Some (Inl e, w1) \<Longrightarrow>
      P request w (Inl e, w1, snd w @ host_trace h)"
    and again: "\<And>request w r h q w1 y. run_segment ports request (fst w) = Some (r, h) \<Longrightarrow>
      recover_request st request (host_world h) = Some (Inr q, w1) \<Longrightarrow>
      P q (w1, snd w @ host_trace h) y \<Longrightarrow> P request w y"
  shows "P request w y"
proof -
  let ?Q = "\<lambda>st' ports' request w y. st' = st \<longrightarrow> ports' = ports \<longrightarrow> P request w y"
  have "?Q st ports request w y"
  proof (rule run_durable.raw_induct [of ?Q, OF _ assms(1)], intro impI)
    fix run st' ports' request w y
    assume IH: "\<And>st' ports' request w y. run st' ports' request w = Some y \<Longrightarrow> ?Q st' ports' request w y"
      and body: "Option.bind (run_segment ports' request (fst w)) (\<lambda>(v, h).
        let trace = snd w @ host_trace h in
        case v of
          Inl e \<Rightarrow> Some (Inl e, host_world h, trace)
        | Inr out \<Rightarrow>
            if \<not> needs_recovery out then Some (Inr out, host_world h, trace)
            else Option.bind (recover_request st' request (host_world h)) (\<lambda>(r, w1).
              case r of
                Inl e \<Rightarrow> Some (Inl e, w1, trace)
              | Inr request' \<Rightarrow> run st' ports' request' (w1, trace))) = Some y"
      and same: "st' = st" "ports' = ports"
    let ?tr = "\<lambda>h. snd w @ host_trace h"
    from body same obtain v h where seg: "run_segment ports request (fst w) = Some (v, h)"
        and rest: "(case v of
          Inl e \<Rightarrow> Some (Inl e, host_world h, ?tr h)
        | Inr out \<Rightarrow>
            if \<not> needs_recovery out then Some (Inr out, host_world h, ?tr h)
            else Option.bind (recover_request st request (host_world h)) (\<lambda>(r, w1).
              case r of
                Inl e \<Rightarrow> Some (Inl e, w1, ?tr h)
              | Inr request' \<Rightarrow> run st ports request' (w1, ?tr h))) = Some y"
      by (auto simp: Let_def bind_eq_Some_conv)
    show "P request w y"
    proof (cases "y = (v, host_world h, ?tr h)")
      case True
      with ended [OF seg] show ?thesis by simp
    next
      case False
      with rest obtain r w1 where rec: "recover_request st request (host_world h) = Some (r, w1)"
          and next_run: "(case r of Inl e \<Rightarrow> Some (Inl e, w1, ?tr h)
            | Inr request' \<Rightarrow> run st ports request' (w1, ?tr h)) = Some y"
        by (cases v; cases "recover_request st request (host_world h)")
           (auto split: if_splits prod.splits)
      show ?thesis
      proof (cases r)
        case (Inl e)
        with stopped [OF seg] rec next_run show ?thesis by auto
      next
        case (Inr q)
        with next_run IH [of st ports q "(w1, ?tr h)" y] have "P q (w1, ?tr h) y" by simp
        with again [OF seg] rec Inr show ?thesis by blast
      qed
    qed
  qed
  then show ?thesis by simp
qed

lemma run_durable_rounds:
  assumes "run_durable st ports request w = Some (Inr out, w')" "0 < seg_max_rounds request"
  shows "0 \<le> outcome_steps out \<and> outcome_steps out \<le> seg_max_rounds request"
proof -
  let ?P = "\<lambda>request w (y :: SegmentOutcome res \<times> ('a \<times> markers) \<times> event list).
    \<forall>out. fst y = Inr out \<longrightarrow> 0 < seg_max_rounds request \<longrightarrow>
      0 \<le> outcome_steps out \<and> outcome_steps out \<le> seg_max_rounds request"
  have "?P request w (Inr out, w')"
    using assms(1)
    by (rule run_durable_induct [of _ _ _ _ _ ?P])
       (auto dest: recover_request_rounds segment_rounds)
  with assms(2) show ?thesis by simp
qed

section \<open>The turn's rounds\<close>

locale bounded_runner =
  fixes runner :: "'w runner"
  assumes runner_rounds: "runner request w = Some (Inr out, w') \<Longrightarrow> 0 < seg_max_rounds request \<Longrightarrow>
    0 \<le> outcome_steps out \<and> outcome_steps out \<le> seg_max_rounds request"

interpretation durable: bounded_runner "run_durable st ports" for st ports
  by unfold_locales (rule run_durable_rounds)

lemma after_segment_rounds:
  assumes "0 \<le> outcome_steps out" "outcome_steps out \<le> seg_max_rounds request"
    and "0 \<le> completed" "completed + seg_max_rounds request \<le> b" "m \<le> b"
  shows "after_segment resolve m request completed out w = Inr (Inr out', w') \<Longrightarrow>
      completed \<le> outcome_steps out' \<and> outcome_steps out' \<le> b"
    and "after_segment resolve m request completed out w = Inl ((q, n), w') \<Longrightarrow>
      completed \<le> n \<and> 0 < seg_max_rounds q \<and> n + seg_max_rounds q = m"
proof -
  have steps: "outcome_steps (with_steps k out) = k" for k by (cases out) simp_all
  show "after_segment resolve m request completed out w = Inr (Inr out', w') \<Longrightarrow>
      completed \<le> outcome_steps out' \<and> outcome_steps out' \<le> b"
    using assms steps
    by (auto simp: after_segment_def Let_def checks_eq_Inr split: option.splits if_splits sum.splits
        prod.splits dest!: SegmentOutcome_init_Inr)
  show "after_segment resolve m request completed out w = Inl ((q, n), w') \<Longrightarrow>
      completed \<le> n \<and> 0 < seg_max_rounds q \<and> n + seg_max_rounds q = m"
    using assms
    by (auto simp: after_segment_def Let_def RunSegmentRequest_init_def checks_eq_Inr
        split: option.splits if_splits sum.splits prod.splits)
qed

lemma turn_loop_induct:
  assumes "turn_loop runner resolve m request completed w = Some y"
    and failed: "\<And>request completed w e w1. runner request w = Some (Inl e, w1) \<Longrightarrow>
      P request completed w (Inl e, w1)"
    and ended: "\<And>request completed w out w1 r. runner request w = Some (Inr out, w1) \<Longrightarrow>
      after_segment resolve m request completed out w1 = Inr r \<Longrightarrow> P request completed w r"
    and again: "\<And>request completed w out w1 q n w2 y. runner request w = Some (Inr out, w1) \<Longrightarrow>
      after_segment resolve m request completed out w1 = Inl ((q, n), w2) \<Longrightarrow>
      P q n w2 y \<Longrightarrow> P request completed w y"
  shows "P request completed w y"
proof -
  let ?Q = "\<lambda>runner' resolve' m' request completed w y.
    runner' = runner \<longrightarrow> resolve' = resolve \<longrightarrow> m' = m \<longrightarrow> P request completed w y"
  have "?Q runner resolve m request completed w y"
  proof (rule turn_loop.raw_induct [of ?Q, OF _ assms(1)], intro impI)
    fix run runner' resolve' m' request completed w y
    assume IH: "\<And>runner' resolve' m' request completed w y.
        run runner' resolve' m' request completed w = Some y \<Longrightarrow>
        ?Q runner' resolve' m' request completed w y"
      and body: "Option.bind (runner' request w) (\<lambda>(v, w1).
        case v of
          Inl e \<Rightarrow> Some (Inl e, w1)
        | Inr out \<Rightarrow>
            (case after_segment resolve' m' request completed out w1 of
               Inr r \<Rightarrow> Some r
             | Inl ((request', completed'), w2) \<Rightarrow>
                 run runner' resolve' m' request' completed' w2)) = Some y"
      and same: "runner' = runner" "resolve' = resolve" "m' = m"
    from body same obtain v w1 where seg: "runner request w = Some (v, w1)"
        and rest: "(case v of
          Inl e \<Rightarrow> Some (Inl e, w1)
        | Inr out \<Rightarrow>
            (case after_segment resolve m request completed out w1 of
               Inr r \<Rightarrow> Some r
             | Inl ((request', completed'), w2) \<Rightarrow>
                 run runner resolve m request' completed' w2)) = Some y"
      by (auto simp: bind_eq_Some_conv)
    show "P request completed w y"
    proof (cases v)
      case (Inl e)
      with rest failed seg show ?thesis by auto
    next
      case (Inr out)
      show ?thesis
      proof (cases "after_segment resolve m request completed out w1")
        case (Inl x)
        obtain q n w2 where x: "x = ((q, n), w2)" by (metis prod.exhaust)
        have "P q n w2 y" using IH [of runner resolve m q n w2 y] rest Inr Inl x by simp
        with again seg Inr Inl x show ?thesis by blast
      next
        case (Inr r)
        with ended rest seg \<open>v = Inr out\<close> show ?thesis by auto
      qed
    qed
  qed
  then show ?thesis by simp
qed

context bounded_runner
begin

lemma turn_loop_rounds:
  assumes "turn_loop runner resolve m request completed w = Some (Inr out, w')"
    and "0 \<le> completed" "0 < seg_max_rounds request" "completed + seg_max_rounds request \<le> b" "m \<le> b"
  shows "completed \<le> outcome_steps out \<and> outcome_steps out \<le> b"
proof -
  let ?P = "\<lambda>request completed (w :: 'a) (y :: SegmentOutcome res \<times> 'a).
    \<forall>out. fst y = Inr out \<longrightarrow> 0 \<le> completed \<longrightarrow> 0 < seg_max_rounds request \<longrightarrow>
      completed + seg_max_rounds request \<le> b \<longrightarrow> completed \<le> outcome_steps out \<and> outcome_steps out \<le> b"
  have "?P request completed w (Inr out, w')"
    using assms(1)
  proof (rule turn_loop_induct [of _ _ _ _ _ _ _ ?P])
    fix request completed w out w1 r
    assume "runner request w = Some (Inr out, w1)"
      "after_segment resolve m request completed out w1 = Inr r"
    then show "?P request completed w r"
      using runner_rounds [of request w out w1]
        after_segment_rounds(1) [OF _ _ _ _ assms(5), of out request completed resolve w1]
      by (cases r) auto
  next
    fix request completed w out w1 q n w2 y
    assume "runner request w = Some (Inr out, w1)"
      "after_segment resolve m request completed out w1 = Inl ((q, n), w2)" "?P q n w2 y"
    then show "?P request completed w y"
      using runner_rounds [of request w out w1] assms(5)
        after_segment_rounds(2) [OF _ _ _ _ assms(5), of out request completed resolve w1 q n w2]
      by force
  qed auto
  with assms(2-4) show ?thesis by simp
qed

text \<open>A turn goes on from the rounds its state has used; a state at its first revision gets the full
  number.\<close>

lemma run_turn_rounds:
  assumes "run_turn runner resolve a prompt w = Some (Inr out, w')"
    and "persisted_rounds (ta_state_version a) = Inr n" "0 < ta_max_rounds a"
  shows "n \<le> outcome_steps out
    \<and> outcome_steps out \<le> (if osv_revision (ta_state_version a) = 0 then n + ta_max_rounds a
        else max n (ta_max_rounds a))"
proof -
  let ?v = "ta_state_version a" and ?m = "ta_max_rounds a"
  have n: "0 \<le> n"
    using assms(2) unfolding persisted_rounds_def bind_res_eq_Inr
    by (fastforce split: option.splits if_splits)
  have steps: "outcome_steps (with_steps k out) = k" for k out by (cases out) simp_all
  have request: "seg_max_rounds q = k" "0 < k" if "turn_request a prompt i k = Inr q" for prompt i k q
    using that by (auto simp: turn_request_def bind_res_eq_Inr RunSegmentRequest_init_def checks_eq_Inr)
  show ?thesis
  proof (cases "turn_start resolve a prompt w")
    case (Inr r)
    then have "n \<le> outcome_steps out \<and> outcome_steps out \<le> max n ?m"
      using assms n steps
      by (auto simp: run_turn_def turn_start_def Let_def bind_res_eq_Inr map_res_eq_Inr
          dest!: SegmentOutcome_init_Inr split: sum.splits option.splits if_splits prod.splits)
    with n assms(3) show ?thesis by auto
  next
    case (Inl x)
    then obtain q k w1 where x: "x = ((q, k), w1)" by (metis prod.exhaust)
    have start: "k = n \<and> 0 < seg_max_rounds q
        \<and> (seg_max_rounds q = ?m - n \<or> osv_revision ?v = 0 \<and> seg_max_rounds q = ?m)"
      using Inl x assms(2) request
      by (auto simp: turn_start_def Let_def bind_res_eq_Inr map_res_eq_Inr
          split: sum.splits option.splits if_splits prod.splits)
    have loop: "turn_loop runner resolve ?m q n w1 = Some (Inr out, w')"
      using assms(1) Inl x start by (simp add: run_turn_def)
    show ?thesis
      using turn_loop_rounds [OF loop n, of "max n ?m"] turn_loop_rounds [OF loop n, of "n + ?m"] start n
      by (cases "osv_revision ?v = 0") auto
  qed
qed

end

end
