(* ===== verification/Serving_Approval.thy ===== *)
theory Serving_Approval
  imports Serving_Laws Local_Mailbox
begin

text \<open>
  How a blocked turn gets its decision: \<open>load_runtime_command_mailbox\<close> of
  \<open>coding_agent/stores/local_durable/fact_source.py\<close>, and \<open>resolve_blocked\<close>, the closure of
  \<open>_build_new_runtime_turn_adapter\<close> in \<open>coding_agent/server/session/manager.py\<close>, over what it uses of
  its session: the mailbox, the admission of commands, and the approval coordinator.
\<close>

section \<open>Reading the mailbox\<close>

definition slot_int :: "string \<Rightarrow> int option \<Rightarrow> string res" where
  "slot_int key v =
     (case v of
        None \<Rightarrow> Inl (TypeError (''sqlite runtime command mailbox slot row must include int '' @ key))
      | Some i \<Rightarrow> format_u64 i)"

definition mailbox_row_entry :: "string \<times> MailboxRow \<Rightarrow> CommandMailboxEntry res" where
  "mailbox_row_entry = (\<lambda>(slot_id, row).
     bind_res (runtime_command_from_mailbox_payload slot_id (mr_payload row)) (\<lambda>c.
     bind_res (slot_int ''admitted_session_seq'' (mr_admitted_session_seq row)) (\<lambda>seq.
     bind_res (slot_int ''admitted_dispatch_generation'' (mr_admitted_dispatch_generation row))
       (\<lambda>generation.
     CommandMailboxEntry_init
       \<lparr>ent_command = c, ent_admitted_session_seq = seq,
        ent_admitted_dispatch_generation = generation, ent_disposition = mr_disposition row\<rparr>))))"

definition open_slot :: "MailboxRow \<Rightarrow> bool" where
  "open_slot row \<longleftrightarrow> mr_admitted_session_seq row \<noteq> None \<and> mr_disposition row \<in> {''pending'', ''admitted''}"

text \<open>The rows of the query: \<open>slots\<close> are the slot ids of the session in the order of the table.\<close>

definition open_rows :: "string list \<Rightarrow> local_db \<Rightarrow> string \<Rightarrow> (string \<times> MailboxRow) list" where
  "open_rows slots db session_id =
     sort_key (\<lambda>(_, row). case mr_admitted_session_seq row of None \<Rightarrow> 0 | Some n \<Rightarrow> n)
       (filter (\<lambda>(_, row). open_slot row)
          (List.map_filter (\<lambda>k. map_option (Pair k) (db_mailbox db (session_id, k))) slots))"

definition load_runtime_command_mailbox ::
    "string list \<Rightarrow> local_db \<Rightarrow> string \<Rightarrow> CommandMailboxSnapshot res" where
  "load_runtime_command_mailbox slots db session_id =
     bind_res (checks [require_non_empty ''session_id'' session_id] ()) (\<lambda>_.
     case db_fact_source db session_id of
       None \<Rightarrow> CommandMailboxSnapshot_init \<lparr>snapm_entries = [], snapm_mailbox_cut = ''0''\<rparr>
     | Some source \<Rightarrow>
         bind_res (format_u64 (fr_dispatch_generation source)) (\<lambda>cut.
         bind_res (traverse_res mailbox_row_entry (open_rows slots db session_id)) (\<lambda>entries.
         CommandMailboxSnapshot_init \<lparr>snapm_entries = entries, snapm_mailbox_cut = cut\<rparr>)))"

section \<open>Resolving a blocked outcome\<close>

text \<open>
  What the closure uses of its session. \<open>ah_wait\<close> registers the request, waits for a response until
  the timeout and clears the registration; of the response it only reads whether there is one.
\<close>

record 's approval_host =
  ah_mailbox :: "('s, CommandMailboxSnapshot) action"
  ah_admit :: "RuntimeCommand \<Rightarrow> ('s, RuntimeCommandAdmission) action"
  ah_session_approved :: "string \<Rightarrow> string \<Rightarrow> dict \<Rightarrow> ('s, bool) action"
  ah_wait :: "string \<Rightarrow> string \<Rightarrow> dict \<Rightarrow> ('s, bool) action"

definition durable_settlement ::
    "(pyval \<Rightarrow> string) \<Rightarrow> 's approval_host \<Rightarrow> OwnerAuthority \<Rightarrow> OperationStateVersion
     \<Rightarrow> EffectReference option \<Rightarrow> ('s, ApprovalSettlement option) action" where
  "durable_settlement py_str h authority v effect =
     act_bind (ah_mailbox h) (\<lambda>m.
     act_res (approval_settlement_from_mailbox py_str v effect (snapm_entries m)
       (own_epoch authority)))"

text \<open>The decision in the mailbox, or what is to be done without one.\<close>

definition settled_or ::
    "(pyval \<Rightarrow> string) \<Rightarrow> 's approval_host \<Rightarrow> OwnerAuthority \<Rightarrow> OperationStateVersion
     \<Rightarrow> EffectReference option \<Rightarrow> ('s, ApprovalSettlement) action \<Rightarrow> ('s, ApprovalSettlement) action" where
  "settled_or py_str h authority v effect otherwise =
     act_bind (durable_settlement py_str h authority v effect) (\<lambda>found.
     case found of Some s \<Rightarrow> act_res (Inr s) | None \<Rightarrow> otherwise)"

definition resolve_blocked ::
    "(pyval \<Rightarrow> string) \<Rightarrow> 's approval_host \<Rightarrow> OwnerAuthority \<Rightarrow> OperationStateVersion
     \<Rightarrow> EffectReference option \<Rightarrow> ('s, ApprovalSettlement) action" where
  "resolve_blocked py_str h authority v effect =
     (case effect of
        None \<Rightarrow> act_res (Inl (ValueError ''blocked approval outcome requires an effect''))
      | Some e \<Rightarrow>
          settled_or py_str h authority v effect
            (act_bind (act_res (blocked_approval_tool py_str v)) (\<lambda>(tool_name, arguments).
             let request_id = blocked_request_id e;
                 admitted = admit_blocked_approval py_str (\<lambda>_. ah_admit h) authority v effect
             in act_bind (ah_session_approved h request_id tool_name arguments) (\<lambda>approved.
                if approved then settled_or py_str h authority v effect (admitted True)
                else act_bind (ah_wait h request_id tool_name arguments) (\<lambda>responded.
                     settled_or py_str h authority v effect
                       (if responded
                        then act_res (Inl (RuntimeError
                               ''new-runtime approval response was not durably admitted''))
                        else admitted False))))))"

text \<open>The closure as a turn calls it, on the blocked outcome.\<close>

definition resolver_of ::
    "(pyval \<Rightarrow> string) \<Rightarrow> 's approval_host \<Rightarrow> OwnerAuthority \<Rightarrow> SegmentOutcome
     \<Rightarrow> ('s, ApprovalSettlement) action" where
  "resolver_of py_str h authority out =
     (case out of
        BlockedOutcome v _ effect _ \<Rightarrow> resolve_blocked py_str h authority v effect
      | _ \<Rightarrow> act_res (Inl (TypeError ''only a blocked outcome is resolved'')))"

end
