(* ===== verification/Durable_Executor.thy ===== *)
theory Durable_Executor
  imports Commit_Port
begin

text \<open>
  \<open>coding_agent/executors/durable.py\<close>: the effect executor that claims the durable attempt of a
  dispatched effect before it calls the backend and closes it afterwards, and the two backends.

  The executor runs its store calls in tasks of their own and awaits them through cancellation, so a
  cancellation of the caller is noticed only when the task has ended: it is a fact of the world
  that task leaves.
\<close>

section \<open>The store, the backend and the executor\<close>

record DurableEffectInvocation =
  inv_session_id :: string
  inv_effect_id :: string
  inv_attempt_id :: string
  inv_authorization_transition_id :: string
  inv_owner_epoch :: int
  inv_effect_kind :: string
  inv_payload :: dict
  inv_idempotency_key :: "string option"

text \<open>
  The protocol \<open>DurableExecutorStore\<close> and what else the executor awaits or reads. \<open>xs_lease_end\<close> is
  the clock plus the reservation lease; a backend's answer of another type is \<open>None\<close>.
\<close>

record 's effect_world =
  xs_effect_slot :: "string \<Rightarrow> string \<Rightarrow> ('s, EffectLedgerSlot option) action"
  xs_attempt :: "string \<Rightarrow> string \<Rightarrow> string \<Rightarrow> string \<Rightarrow> ('s, ExecutorAttemptRecord option) action"
  xs_reserve :: "OwnerAuthority \<Rightarrow> string \<Rightarrow> string \<Rightarrow> string \<Rightarrow> string \<Rightarrow> datetime
     \<Rightarrow> ('s, ExecutorAttemptRecord) action"
  xs_start :: "OwnerAuthority \<Rightarrow> string \<Rightarrow> string \<Rightarrow> string \<Rightarrow> string \<Rightarrow> int \<Rightarrow> datetime
     \<Rightarrow> ('s, ExecutorAttemptRecord) action"
  xs_quiesce :: "OwnerAuthority \<Rightarrow> string \<Rightarrow> string \<Rightarrow> string \<Rightarrow> string \<Rightarrow> datetime \<Rightarrow> string
     \<Rightarrow> ('s, ExecutorAttemptRecord) action"
  xs_clock :: "('s, datetime) action"
  xs_lease_end :: "('s, datetime) action"
  xs_evidence :: "DurableEffectInvocation \<Rightarrow> int \<Rightarrow> ('s, pyval) action"
  xs_backend :: "DurableEffectInvocation \<Rightarrow> ('s, EffectExecutionResult option) action"
  xs_caller_cancelled :: "'s \<Rightarrow> bool"
  xs_token_cancelled :: "'s \<Rightarrow> bool"

record effect_executor =
  ex_owner_id :: string
  ex_executor_id :: string

definition DurableEffectExecutor_init :: "string \<Rightarrow> string \<Rightarrow> int \<Rightarrow> effect_executor res" where
  "DurableEffectExecutor_init owner_id executor_id reservation_lease =
     checks
       [fails_when (owner_id = []) (ValueError ''owner_id must be non-empty''),
        fails_when (executor_id = []) (ValueError ''executor_id must be non-empty''),
        fails_when (reservation_lease \<le> 0) (ValueError ''reservation_lease must be positive'')]
       \<lparr>ex_owner_id = owner_id, ex_executor_id = executor_id\<rparr>"

definition default_quiescence_evidence :: "effect_executor \<Rightarrow> DurableEffectInvocation \<Rightarrow> int \<Rightarrow> string" where
  "default_quiescence_evidence x i generation =
     ''executor:'' @ ex_executor_id x @ '':'' @ inv_effect_id i @ '':'' @ inv_attempt_id i @ '':''
       @ str_of_int generation @ '':quiescent''"

definition permit_authority :: "effect_executor \<Rightarrow> DispatchPermit \<Rightarrow> OwnerAuthority" where
  "permit_authority x p =
     \<lparr>own_session_id = permit_session_id p, own_owner_id = ex_owner_id x,
      own_epoch = permit_owner_epoch p\<rparr>"

section \<open>Claiming the attempt\<close>

definition permit_mismatch :: "dict \<Rightarrow> DispatchPermit \<Rightarrow> bool" where
  "permit_mismatch payload p \<longleftrightarrow>
     \<not> (dict_get payload ''attempt_id'' = PStr (permit_attempt_id p)
        \<and> dict_get payload ''authorization_transition_id''
            = PStr (permit_authorization_transition_id p)
        \<and> py_eq (dict_get payload ''dispatch_owner_epoch'') (PInt (permit_owner_epoch p))
        \<and> dict_get payload ''idempotency_key'' = opt_str (permit_idempotency_key p))"

definition invocation_of :: "DispatchPermit \<Rightarrow> EffectLedgerSlot option \<Rightarrow> DurableEffectInvocation res" where
  "invocation_of p found =
     (case found of
        None \<Rightarrow> Inl (ValueError ''dispatched effect slot does not exist'')
      | Some slot \<Rightarrow>
          (let payload = ledger_payload slot in
           if ledger_status slot \<noteq> ''dispatched''
           then Inl (ValueError ''effect slot is not dispatched'')
           else if permit_mismatch payload p
           then Inl (ValueError ''dispatch permit does not match durable effect authority'')
           else case as_nonempty_str (dict_get payload ''effect_kind'') of
                  None \<Rightarrow> Inl (ValueError ''durable effect kind is missing'')
                | Some kind \<Rightarrow>
                    (case as_dict (dict_get payload ''payload'') of
                       None \<Rightarrow> Inl (ValueError ''durable effect payload is missing'')
                     | Some d \<Rightarrow> Inr
                         \<lparr>inv_session_id = permit_session_id p, inv_effect_id = permit_effect_id p,
                          inv_attempt_id = permit_attempt_id p,
                          inv_authorization_transition_id = permit_authorization_transition_id p,
                          inv_owner_epoch = permit_owner_epoch p, inv_effect_kind = kind,
                          inv_payload = d, inv_idempotency_key = permit_idempotency_key p\<rparr>)))"

definition load_invocation :: "'s effect_world \<Rightarrow> DispatchPermit \<Rightarrow> ('s, DurableEffectInvocation) action" where
  "load_invocation w p =
     act_bind (xs_effect_slot w (permit_session_id p) (permit_effect_id p)) (\<lambda>found.
     act_res (invocation_of p found))"

definition validate_authorized_attempt :: "ExecutorAttemptRecord option \<Rightarrow> DispatchPermit \<Rightarrow> unit res" where
  "validate_authorized_attempt found p =
     (case found of
        None \<Rightarrow> Inl (ValueError ''executor attempt does not exist'')
      | Some a \<Rightarrow>
          (if (att_session_id a, att_effect_id a, att_attempt_id a,
               att_authorization_transition_id a, att_dispatch_owner_epoch a, att_status a)
              \<noteq> (permit_session_id p, permit_effect_id p, permit_attempt_id p,
                  permit_authorization_transition_id p, permit_owner_epoch p,
                  AUTHORIZED_UNCLAIMED)
           then Inl (ValueError ''executor attempt does not match claimed dispatch permit'')
           else Inr ()))"

definition claim_attempt ::
    "'s effect_world \<Rightarrow> effect_executor \<Rightarrow> DispatchPermit
     \<Rightarrow> ('s, DurableEffectInvocation \<times> ExecutorAttemptRecord) action" where
  "claim_attempt w x p =
     (let authority = permit_authority x p; e = permit_effect_id p; a = permit_attempt_id p;
          t = permit_authorization_transition_id p
      in act_bind (load_invocation w p) (\<lambda>invocation.
         act_bind (xs_attempt w (permit_session_id p) e a t) (\<lambda>found.
         act_bind (act_res (validate_authorized_attempt found p)) (\<lambda>_.
         act_bind (xs_lease_end w) (\<lambda>lease_expires_at.
         act_bind (xs_reserve w authority e a t (ex_executor_id x) lease_expires_at) (\<lambda>reserved.
         act_bind (xs_clock w) (\<lambda>now.
         act_bind (xs_start w authority e a t (ex_executor_id x) (att_claim_generation reserved) now)
           (\<lambda>started.
         act_res
           (if att_status started \<noteq> STARTED
            then Inl (RuntimeError ''executor attempt did not enter started state'')
            else Inr (invocation, started))))))))))"

section \<open>Closing it\<close>

text \<open>A task awaited through cancellation: its result, and whether the caller was cancelled meanwhile.\<close>

definition await_through :: "'s effect_world \<Rightarrow> ('s, 'a) action \<Rightarrow> ('s, 'a \<times> bool) action" where
  "await_through w task =
     act_bind task (\<lambda>r s. (Inr (r, xs_caller_cancelled w s), s))"

definition claim_evidence :: "effect_executor \<Rightarrow> DispatchPermit \<Rightarrow> string" where
  "claim_evidence x p =
     ''executor:'' @ ex_executor_id x @ '':'' @ permit_effect_id p @ '':'' @ permit_attempt_id p
       @ '':claim:quiescent''"

definition quiesce_through_cancellation ::
    "'s effect_world \<Rightarrow> effect_executor \<Rightarrow> DispatchPermit \<Rightarrow> DurableEffectInvocation option \<Rightarrow> int
     \<Rightarrow> ('s, unit) action" where
  "quiesce_through_cancellation w x p invocation claim_generation =
     act_bind
       (case invocation of
          Some i \<Rightarrow> xs_evidence w i claim_generation
        | None \<Rightarrow> act_res (Inr (PStr (claim_evidence x p)))) (\<lambda>evidence.
     case as_nonempty_str evidence of
       None \<Rightarrow> act_res (Inl (ValueError ''quiescence evidence reference must be non-empty''))
     | Some evidence_ref \<Rightarrow>
         act_bind (xs_clock w) (\<lambda>now.
         act_bind (await_through w
           (xs_quiesce w (permit_authority x p) (permit_effect_id p) (permit_attempt_id p)
              (permit_authorization_transition_id p) (ex_executor_id x) now evidence_ref))
           (\<lambda>(quiescent, caller_cancelled).
         act_res
           (if att_status quiescent \<noteq> QUIESCENT
            then Inl (RuntimeError ''executor attempt did not enter quiescent state'')
            else if caller_cancelled then Inl CancelledError else Inr ()))))"

definition indeterminate :: "string \<Rightarrow> exn \<Rightarrow> EffectExecutionResult res" where
  "indeterminate code e =
     EffectExecutionResult_init
       (EffectIndeterminateResult code (port_exception_message e) None)"

section \<open>Executing\<close>

text \<open>After a claim that failed: the attempt is closed, and the outcome of the effect is unknown.\<close>

definition claim_failed ::
    "'s effect_world \<Rightarrow> effect_executor \<Rightarrow> DispatchPermit \<Rightarrow> exn \<Rightarrow> ('s, EffectExecutionResult) action" where
  "claim_failed w x p e =
     act_bind
       (act_catch
          (act_bind (quiesce_through_cancellation w x p None 0) (\<lambda>_. act_res (Inr e)))
          (\<lambda>cleanup. act_res (Inr cleanup))) (\<lambda>reported.
     act_res (indeterminate ''durable_executor_claim_indeterminate'' reported))"

text \<open>The backend's answer, or the exception that leaves \<open>execute\<close> after the attempt is closed.\<close>

definition backend_answer ::
    "'s effect_world \<Rightarrow> effect_executor \<Rightarrow> DispatchPermit \<Rightarrow> DurableEffectInvocation \<Rightarrow> int
     \<Rightarrow> ('s, EffectExecutionResult) action" where
  "backend_answer w x p i generation =
     act_bind (act_try (xs_backend w i)) (\<lambda>answer.
     case answer of
       Inr (Some result) \<Rightarrow> act_res (Inr result)
     | Inr None \<Rightarrow> act_res (EffectExecutionResult_init
         (EffectIndeterminateResult ''invalid_effect_backend_result''
            ''effect backend returned an unsupported result'' None))
     | Inl e \<Rightarrow>
         (if is_exception e then act_res (indeterminate ''effect_backend_error'' e)
          else act_bind (quiesce_through_cancellation w x p (Some i) generation)
                 (\<lambda>_. act_res (Inl e))))"

definition execute_started ::
    "'s effect_world \<Rightarrow> effect_executor \<Rightarrow> DispatchPermit \<Rightarrow> DurableEffectInvocation
     \<Rightarrow> ExecutorAttemptRecord \<Rightarrow> ('s, EffectExecutionResult) action" where
  "execute_started w x p i started =
     act_bind (backend_answer w x p i (att_claim_generation started)) (\<lambda>result.
     act_catch
       (act_bind (quiesce_through_cancellation w x p (Some i) (att_claim_generation started))
          (\<lambda>_. act_res (Inr result)))
       (\<lambda>e. act_res (indeterminate ''executor_quiescence_failed'' e)))"

definition cancel_started ::
    "'s effect_world \<Rightarrow> effect_executor \<Rightarrow> DispatchPermit \<Rightarrow> DurableEffectInvocation
     \<Rightarrow> ExecutorAttemptRecord \<Rightarrow> ('s, EffectExecutionResult) action" where
  "cancel_started w x p i started =
     act_bind (quiesce_through_cancellation w x p (Some i) (att_claim_generation started))
       (\<lambda>_. act_res (Inl CancelledError))"

definition validate_permit :: "DispatchPermit \<Rightarrow> unit res" where
  "validate_permit p =
     checks [fails_when (\<not> permit_claimed p)
       (ValueError ''dispatch permit must be claimed before execution'')] ()"

definition execute_effect ::
    "'s effect_world \<Rightarrow> effect_executor \<Rightarrow> DispatchPermit \<Rightarrow> ('s, EffectExecutionResult) action" where
  "execute_effect w x p =
     act_bind (act_res (validate_permit p)) (\<lambda>_.
     act_bind (act_try (await_through w (claim_attempt w x p))) (\<lambda>claimed.
     case claimed of
       Inl e \<Rightarrow> (if is_exception e then claim_failed w x p e else act_res (Inl e))
     | Inr ((i, started), caller_cancelled) \<Rightarrow>
         (\<lambda>s. if caller_cancelled \<or> xs_token_cancelled w s then cancel_started w x p i started s
              else execute_started w x p i started s)))"

text \<open>The call \<open>execute\<close> makes to the backend, if it gets so far.\<close>

definition backend_call ::
    "'s effect_world \<Rightarrow> effect_executor \<Rightarrow> DispatchPermit \<Rightarrow> 's \<Rightarrow> (DurableEffectInvocation \<times> 's) option" where
  "backend_call w x p s =
     (if \<not> permit_claimed p then None
      else case await_through w (claim_attempt w x p) s of
        (Inr ((i, started), caller_cancelled), s1) \<Rightarrow>
          (if caller_cancelled \<or> xs_token_cancelled w s1 then None else Some (i, s1))
      | _ \<Rightarrow> None)"

section \<open>The backends\<close>

text \<open>\<open>LocalToolEffectBackend\<close>: the host's tool executor, whose \<open>UNHANDLED_TOOL_RESULT\<close> is \<open>None\<close>.\<close>

definition local_tool_backend ::
    "(string \<Rightarrow> dict \<Rightarrow> ('s, pyval option) action) \<Rightarrow> DurableEffectInvocation
     \<Rightarrow> ('s, EffectExecutionResult option) action" where
  "local_tool_backend execute_tool i =
     (let fail = (\<lambda>code message. act_res
            (map_res (\<lambda>f. Some (EffectFailedResult f)) (failure_report code message)))
      in case as_nonempty_str (dict_get (inv_payload i) ''tool_name'') of
           None \<Rightarrow> fail ''invalid_tool_effect'' ''tool effect is missing tool_name''
         | Some tool_name \<Rightarrow>
             (case as_dict (dict_get_or (inv_payload i) ''arguments'' (PDict [])) of
                None \<Rightarrow> fail ''invalid_tool_effect'' ''tool effect arguments must be an object''
              | Some arguments \<Rightarrow>
                  act_bind (execute_tool tool_name arguments) (\<lambda>result.
                  case result of
                    None \<Rightarrow> fail ''unhandled_tool_effect''
                      (''host tool executor does not handle '' @ tool_name)
                  | Some v \<Rightarrow> act_res
                      (map_res Some (EffectExecutionResult_init (EffectCompletedResult v))))))"

record ExecutorResult =
  xr_status :: string
  xr_sanitized_summary :: "string option"
  xr_evidence :: "dict list"
  xr_error_type :: "string option"
  xr_error_message :: "string option"
  xr_metadata :: dict

text \<open>\<open>a or b\<close> on an optional string: the empty one counts as absent.\<close>

definition text_or :: "string option \<Rightarrow> string \<Rightarrow> string" where
  "text_or a b = (case a of Some s \<Rightarrow> if s = [] then b else s | None \<Rightarrow> b)"

definition remote_result :: "ExecutorResult \<Rightarrow> EffectExecutionResult res" where
  "remote_result r =
     (let payload = dict_of
            [(''status'', PStr (xr_status r)), (''summary'', opt_str (xr_sanitized_summary r)),
             (''evidence'', PList (map PDict (xr_evidence r))),
             (''metadata'', PDict (xr_metadata r))]
      in if xr_status r = ''succeeded''
         then EffectExecutionResult_init (EffectCompletedResult (PDict payload))
         else map_res EffectFailedResult (FailureReport_init
           \<lparr>fail_code = text_or (xr_error_type r) (''external_executor_'' @ xr_status r),
            fail_message = text_or (xr_error_message r) (text_or (xr_sanitized_summary r)
              (''external executor returned '' @ xr_status r)),
            fail_details = payload\<rparr>))"

definition remote_backend ::
    "(DurableEffectInvocation \<Rightarrow> ('s, 'plan) action) \<Rightarrow> ('plan \<Rightarrow> ('s, ExecutorResult) action)
     \<Rightarrow> DurableEffectInvocation \<Rightarrow> ('s, EffectExecutionResult option) action" where
  "remote_backend plan_builder submit i =
     act_bind (plan_builder i) (\<lambda>plan. act_bind (submit plan) (\<lambda>r.
     act_res (map_res Some (remote_result r))))"

end
