(* ===== verification/Executor_Laws.thy ===== *)
theory Executor_Laws
  imports Durable_Executor Port_Laws
begin

text \<open>
  What an execution of \<open>Durable_Executor\<close> does to a store: it moves the world as the store does,
  calls the backend only on an attempt that nobody had claimed before, which is claimed from then
  on, and reports the backend's answer only after the attempt has been closed.
\<close>

section \<open>Without a call of the backend\<close>

lemma load_invocation_backend [simp]:
  "load_invocation (w\<lparr>xs_backend := b\<rparr>) p = load_invocation w p"
  by (simp add: load_invocation_def)

lemma claim_attempt_backend [simp]: "claim_attempt (w\<lparr>xs_backend := b\<rparr>) x p = claim_attempt w x p"
  by (simp add: claim_attempt_def)

lemma await_through_backend [simp]: "await_through (w\<lparr>xs_backend := b\<rparr>) m = await_through w m"
  by (simp add: await_through_def)

lemma quiesce_through_cancellation_backend [simp]:
  "quiesce_through_cancellation (w\<lparr>xs_backend := b\<rparr>) x p i g = quiesce_through_cancellation w x p i g"
  by (cases i) (simp_all add: quiesce_through_cancellation_def cong: option.case_cong)

text \<open>What \<open>backend_call\<close> leaves out is not called: the execution does not depend on the backend.\<close>

lemma failed_backend [simp]:
  "claim_failed (w\<lparr>xs_backend := b\<rparr>) x p e = claim_failed w x p e"
  "cancel_started (w\<lparr>xs_backend := b\<rparr>) x p i started = cancel_started w x p i started"
  by (simp_all add: claim_failed_def cancel_started_def)

lemma execute_unfold:
  "execute_effect w x p s =
     (if \<not> permit_claimed p
      then (Inl (ValueError ''dispatch permit must be claimed before execution''), s)
      else case await_through w (claim_attempt w x p) s of
        (Inl e, s1) \<Rightarrow> (if is_exception e then claim_failed w x p e s1 else (Inl e, s1))
      | (Inr ((i, started), c), s1) \<Rightarrow>
          (if c \<or> xs_token_cancelled w s1 then cancel_started w x p i started s1
           else execute_started w x p i started s1))"
  by (cases "await_through w (claim_attempt w x p) s")
     (auto simp: execute_effect_def validate_permit_def act_bind_def act_res_def act_try_def
       fails_when_def split: sum.split)

lemma no_backend_call:
  assumes "backend_call w x p s = None"
  shows "execute_effect (w\<lparr>xs_backend := b\<rparr>) x p s = execute_effect w x p s"
  using assms
  by (cases "await_through w (claim_attempt w x p) s")
     (auto simp: backend_call_def execute_unfold split: sum.splits if_splits)

text \<open>And with it the backend runs on the invocation and the state it names.\<close>

lemma with_backend_call:
  assumes "backend_call w x p s = Some (i, s1)"
  obtains started where "await_through w (claim_attempt w x p) s = (Inr ((i, started), False), s1)"
    "execute_effect w x p s = execute_started w x p i started s1"
  using assms
  by (cases "await_through w (claim_attempt w x p) s")
     (auto simp: backend_call_def execute_unfold split: sum.splits if_splits)

lemma await_through_Inr:
  "await_through w m s = (Inr (r, c), s') \<longleftrightarrow> m s = (Inr r, s') \<and> c = xs_caller_cancelled w s'"
  by (auto simp: await_through_def act_bind_Inr)

section \<open>Closing\<close>

lemma quiesce_Inr:
  assumes "quiesce_through_cancellation w x p i g s = (Inr u, s')"
  obtains now ref s1 q where
    "xs_quiesce w (permit_authority x p) (permit_effect_id p) (permit_attempt_id p)
       (permit_authorization_transition_id p) (ex_executor_id x) now ref s1 = (Inr q, s')"
    "att_status q = QUIESCENT" "\<not> xs_caller_cancelled w s'"
  using assms
  by (auto simp: quiesce_through_cancellation_def act_bind_Inr await_through_Inr
      split: option.splits if_splits)

lemma indeterminate_not:
  "indeterminate code e = Inr r \<Longrightarrow> \<exists>m. r = EffectIndeterminateResult code m None"
  by (auto simp: indeterminate_def checks_eq_Inr)

section \<open>Executions move the world as the store does\<close>

locale effect_store = world_order later
  for later :: "'s \<Rightarrow> 's \<Rightarrow> bool" +
  fixes w :: "'s effect_world"
  assumes slot_moves: "moves later (xs_effect_slot w sid e)"
    and read_moves: "moves later (xs_attempt w sid e a t)"
    and reserve_moves: "moves later (xs_reserve w authority e a t x lease)"
    and start_moves: "moves later (xs_start w authority e a t x g now)"
    and quiesce_moves: "moves later (xs_quiesce w authority e a t x now ref)"
    and clock_moves: "moves later (xs_clock w)"
    and lease_end_moves: "moves later (xs_lease_end w)"
    and ref_moves: "moves later (xs_evidence w i g)"
    and backend_moves: "moves later (xs_backend w i)"
begin

lemmas effect_moves = slot_moves read_moves reserve_moves start_moves quiesce_moves clock_moves
  lease_end_moves ref_moves backend_moves

lemma load_invocation_moves: "moves later (load_invocation w p)"
  unfolding load_invocation_def by (intro moves_intros effect_moves)

lemma claim_moves: "moves later (claim_attempt w x p)"
  unfolding claim_attempt_def Let_def
  by (intro moves_intros effect_moves load_invocation_moves)

lemma await_moves: "moves later m \<Longrightarrow> moves later (await_through w m)"
  unfolding await_through_def by (rule moves_bind) (simp_all add: moves_def later_refl)

lemma quiescing_moves: "moves later (quiesce_through_cancellation w x p i g)"
  unfolding quiesce_through_cancellation_def
  by (auto intro!: moves_intros effect_moves await_moves)

lemma claim_failed_moves: "moves later (claim_failed w x p e)"
  unfolding claim_failed_def by (intro moves_intros quiescing_moves)

lemma execute_started_moves: "moves later (execute_started w x p i started)"
  unfolding execute_started_def backend_answer_def
  by (auto intro!: moves_intros effect_moves quiescing_moves split: sum.splits)

lemma cancel_started_moves: "moves later (cancel_started w x p i started)"
  unfolding cancel_started_def by (intro moves_intros quiescing_moves)

lemma execute_moves: "moves later (execute_effect w x p)"
proof -
  have "moves later (\<lambda>s. if c \<or> xs_token_cancelled w s then cancel_started w x p i started s
      else execute_started w x p i started s)" for c i started
    using cancel_started_moves execute_started_moves by (auto simp: moves_def)
  then show ?thesis
    unfolding execute_effect_def
    by (auto intro!: moves_intros await_moves claim_moves claim_failed_moves split: sum.splits)
qed

end

section \<open>Executions on claimed attempts\<close>

definition permit_key :: "DispatchPermit \<Rightarrow> attempt_row_key" where
  "permit_key p = (permit_session_id p, permit_effect_id p, permit_attempt_id p,
     permit_authorization_transition_id p)"

text \<open>A store in which a claimed attempt stays claimed, and no reader takes it for unclaimed.\<close>

locale claim_store = effect_store later w
  for later :: "'s \<Rightarrow> 's \<Rightarrow> bool" and w :: "'s effect_world" +
  fixes claimed :: "'s \<Rightarrow> attempt_row_key \<Rightarrow> bool"
  assumes later_claimed: "later s s2 \<Longrightarrow> claimed s key \<Longrightarrow> claimed s2 key"
    and unclaimed_read: "xs_attempt w sid e a t s = (Inr (Some r), s') \<Longrightarrow>
      att_status r = AUTHORIZED_UNCLAIMED \<Longrightarrow> \<not> claimed s' (sid, e, a, t)"
    and start_claims: "xs_start w authority e a t x g now s = (Inr r, s') \<Longrightarrow>
      att_status r = STARTED \<Longrightarrow> claimed s' (own_session_id authority, e, a, t)"
begin

lemma claim_attempt_claims:
  assumes "claim_attempt w x p s = (Inr (i, started), s')"
  shows "\<not> claimed s (permit_key p)" "claimed s' (permit_key p)" "att_status started = STARTED"
proof -
  let ?e = "permit_effect_id p" and ?a = "permit_attempt_id p"
    and ?t = "permit_authorization_transition_id p"
  obtain found s1 s2 g now s3 where
      load: "load_invocation w p s = (Inr i, s1)"
      and read: "xs_attempt w (permit_session_id p) ?e ?a ?t s1 = (Inr found, s2)"
      and valid: "validate_authorized_attempt found p = Inr ()"
      and start: "xs_start w (permit_authority x p) ?e ?a ?t (ex_executor_id x) g now s3
        = (Inr started, s')"
      and status: "att_status started = STARTED"
    using assms by (auto simp: claim_attempt_def Let_def act_bind_Inr split: if_splits)
  from valid obtain r where r: "found = Some r" "att_status r = AUTHORIZED_UNCLAIMED"
    by (auto simp: validate_authorized_attempt_def split: option.splits if_splits)
  have "\<not> claimed s2 (permit_key p)" using unclaimed_read read r by (simp add: permit_key_def)
  moreover have "later s s2"
    using movesD [OF load_invocation_moves load] movesD [OF read_moves read] later_trans by blast
  ultimately show "\<not> claimed s (permit_key p)" using later_claimed by blast
  show "claimed s' (permit_key p)"
    using start_claims [OF start status] by (simp add: permit_key_def permit_authority_def)
  show "att_status started = STARTED" by (rule status)
qed

lemma backend_call_claims:
  assumes "backend_call w x p s = Some (i, s1)"
  shows "\<not> claimed s (permit_key p)" "claimed s1 (permit_key p)"
    "claimed (snd (execute_effect w x p s)) (permit_key p)"
proof -
  obtain started where
      call: "await_through w (claim_attempt w x p) s = (Inr ((i, started), False), s1)"
      and run: "execute_effect w x p s = execute_started w x p i started s1"
    using assms by (rule with_backend_call)
  from call have claim: "claim_attempt w x p s = (Inr (i, started), s1)"
    by (simp add: await_through_Inr)
  show "\<not> claimed s (permit_key p)" "claimed s1 (permit_key p)"
    using claim_attempt_claims [OF claim] by simp_all
  then show "claimed (snd (execute_effect w x p s)) (permit_key p)"
    using execute_started_moves later_claimed by (simp add: run moves_def) blast
qed

end

end
