(* ===== verification/Turn_Laws.thy ===== *)
theory Turn_Laws
  imports Serving_Approval Executor_Laws
begin

text \<open>
  Turns on a durable host: a predicate that segments and decisions keep holds after a turn; with it,
  no effect is executed twice in a turn, its recoveries and approvals included.
\<close>

section \<open>A predicate a turn keeps\<close>

locale kept_turn =
  fixes runner :: "'w runner" and resolve :: "'w resolver option" and J :: "'w \<Rightarrow> bool"
  assumes runner_kept: "J w \<Longrightarrow> runner request w = Some (v, w') \<Longrightarrow> J w'"
    and resolve_kept: "resolve = Some f \<Longrightarrow> J w \<Longrightarrow> f out w = (r, w') \<Longrightarrow> J w'"
begin

lemma after_segment_kept:
  assumes "J w" "after_segment resolve m request completed out w = Inl ((q, n), w') \<or>
    after_segment resolve m request completed out w = Inr (v, w')"
  shows "J w'"
  using assms
  by (auto simp: after_segment_def Let_def split: option.splits if_splits sum.splits prod.splits
      intro: resolve_kept)

lemma turn_loop_kept:
  assumes "turn_loop runner resolve m request completed w = Some (v, w')" "J w"
  shows "J w'"
proof -
  let ?P = "\<lambda>request completed w (y :: SegmentOutcome res \<times> 'w). J w \<longrightarrow> J (snd y)"
  have "?P request completed w (v, w')"
    using assms(1)
  proof (rule turn_loop_induct [of _ _ _ _ _ _ _ ?P])
    fix request completed w e w1
    assume "runner request w = Some (Inl e :: SegmentOutcome res, w1)"
    then show "?P request completed w (Inl e, w1)" by (auto intro: runner_kept)
  next
    fix request completed w out w1 r
    assume "runner request w = Some (Inr out, w1)" "after_segment resolve m request completed out w1 = Inr r"
    then show "?P request completed w r"
      by (cases r) (auto dest: runner_kept intro: after_segment_kept)
  next
    fix request completed w out w1 q n w2 y
    assume "runner request w = Some (Inr out, w1)"
      "after_segment resolve m request completed out w1 = Inl ((q, n), w2)" "?P q n w2 y"
    then show "?P request completed w y" by (auto dest: runner_kept after_segment_kept)
  qed
  with assms(2) show ?thesis by simp
qed

lemma run_turn_kept:
  assumes "run_turn runner resolve a prompt w = Some (v, w')" "J w"
  shows "J w'"
proof -
  have start: "J w1" if "turn_start resolve a prompt w = Inr (x, w1)
      \<or> turn_start resolve a prompt w = Inl (y, w1)" for x y w1
    using that assms(2)
    by (auto simp: turn_start_def Let_def split: sum.splits option.splits if_splits prod.splits
        intro: resolve_kept)
  show ?thesis
    using assms(1) start
    by (auto simp: run_turn_def intro: turn_loop_kept split: sum.splits prod.splits)
qed

end

section \<open>Recoveries read the store\<close>

context durable_store_order
begin

lemma replay_start_moves: "moves later (replay_start st k)"
  unfolding replay_start_def by (intro moves_intros store_moves)

lemma load_marked_moves: "moves later (load_marked st k)"
  unfolding load_marked_def by (intro moves_intros store_moves)

lemma poll_await_moves: "moves later (act_bind (st_sleep st) (\<lambda>_. load_marked st k))"
  by (intro moves_intros store_moves load_marked_moves)

end

sublocale durable_store_order \<subseteq> poll: step_invariant "poll_step st k" "\<lambda>t. later s0 (snd t)"
    "\<lambda>r. later s0 (snd r)"
  for k s0
proof
  have await: "later s0 s1" if "later s0 s" "act_bind (st_sleep st) (\<lambda>_. load_marked st k) s = (r, s1)" for r s s1
    using that poll_await_moves [of k] later_trans by (blast dest: movesD)
  show "later s0 (snd t')" if "later s0 (snd t)" "poll_step st k t = Inl t'" for t t'
    using that await
    by (cases t) (auto simp: poll_step_def split: if_splits prod.splits sum.splits option.splits)
  show "later s0 (snd r)" if "later s0 (snd t)" "poll_step st k t = Inr r" for t r
    using that await
    by (cases t) (auto simp: poll_step_def split: if_splits prod.splits sum.splits option.splits)
qed

context durable_store_order
begin

lemma replay_moves:
  assumes "recover_authorization_replay st k s = Some (r, s')"
  shows "later s s'"
proof (cases "replay_start st k s")
  case (Pair x s1)
  then have start: "later s s1" by (rule movesD [OF replay_start_moves])
  show ?thesis
  proof (cases x)
    case (Inl e)
    with assms Pair start show ?thesis by (simp add: recover_authorization_replay_def)
  next
    case (Inr y)
    with assms Pair obtain v fx a q where "step_loop (poll_step st k) ((fx, a), s1) = Some (q, s')"
      by (auto simp: recover_authorization_replay_def split: prod.splits)
    from poll.loop_post [OF _ this, of s1] start show ?thesis by (auto simp: later_refl intro: later_trans)
  qed
qed

lemma without_marker_moves:
  assumes "recover_authorization_without_marker st request s = Some (r, s')"
  shows "later s s'"
  using assms replay_moves
  by (auto simp: recover_authorization_without_marker_def later_refl split: if_splits option.splits)

lemma recover_request_moves:
  assumes "recover_request st request w = Some (r, w')"
  shows "later (fst w) (fst w')"
  using assms replay_moves without_marker_moves
  by (auto simp: recover_request_def later_refl split: prod.splits sum.splits option.splits)

end

section \<open>What a turn executes\<close>

text \<open>The world of a turn started in \<open>s0\<close>, with the trace of its segments.\<close>

definition executed_apart ::
    "('s \<Rightarrow> 's \<Rightarrow> bool) \<Rightarrow> ('s \<Rightarrow> string \<times> string \<Rightarrow> nat) \<Rightarrow> 's \<Rightarrow> ('s \<times> markers) \<times> event list \<Rightarrow> bool" where
  "executed_apart later level s0 w \<longleftrightarrow>
     later s0 (fst (fst w)) \<and> distinct (executed_keys (snd w))
     \<and> (\<forall>key \<in> set (executed_keys (snd w)). level s0 key < 2 \<and> 2 \<le> level (fst (fst w)) key)"

definition on_turn ::
    "(SegmentOutcome \<Rightarrow> ('s, ApprovalSettlement) action) \<Rightarrow> (('s \<times> markers) \<times> event list) resolver" where
  "on_turn f out w = (case f out (fst (fst w)) of (r, s) \<Rightarrow> (r, (s, snd (fst w)), snd w))"

lemma executed_keys_append: "executed_keys (xs @ ys) = executed_keys xs @ executed_keys ys"
  by (simp add: executed_keys_def)

context durable_host
begin

lemma apart_later:
  "executed_apart later level s0 w \<Longrightarrow> later (fst (fst w)) (fst w') \<Longrightarrow>
   executed_apart later level s0 (w', snd w)"
  by (auto simp: executed_apart_def intro: later_trans level_later order_trans)

lemma apart_segment:
  assumes apart: "executed_apart later level s0 w"
    and run: "run_segment (durable_ports st ss base) request (fst w) = Some (v, h)"
  shows "executed_apart later level s0 (host_world h, snd w @ host_trace h)"
proof -
  note seg = segment_executes_once [OF run]
  have later: "later s0 (fst (fst w))" using apart by (simp add: executed_apart_def)
  have old: "2 \<le> level (fst (fst w)) key" if "key \<in> set (executed_keys (snd w))" for key
    using that apart by (simp add: executed_apart_def)
  have new: "level s0 key < 2" if "key \<in> set (executed_keys (host_trace h))" for key
    using seg(2) [OF that] level_later [OF later] by (metis order_le_less_trans)
  have "key \<notin> set (executed_keys (host_trace h))" if "key \<in> set (executed_keys (snd w))" for key
    using old [OF that] seg(2) by fastforce
  moreover have "2 \<le> level (fst (host_world h)) key" if "key \<in> set (executed_keys (snd w))" for key
    using old [OF that] level_later [OF seg(3)] order_trans by blast
  ultimately show ?thesis
    using apart seg(1,2) new later_trans [OF later seg(3)]
    by (auto simp: executed_apart_def executed_keys_append)
qed

lemma run_durable_apart:
  assumes "run_durable st (durable_ports st ss base) request w = Some (v, w')"
    and "executed_apart later level s0 w"
  shows "executed_apart later level s0 w'"
proof -
  let ?P = "\<lambda>request w (y :: SegmentOutcome res \<times> ('s \<times> markers) \<times> event list).
    executed_apart later level s0 w \<longrightarrow> executed_apart later level s0 (snd y)"
  have recovered: "executed_apart later level s0 (w1, snd w @ host_trace h)"
    if "run_segment (durable_ports st ss base) request (fst w) = Some (r, h)"
      "recover_request st request (host_world h) = Some (q, w1)" "executed_apart later level s0 w"
    for request w r h q w1
    using apart_later [OF apart_segment [OF that(3,1)]] recover_request_moves [OF that(2)] by simp
  have "?P request w (v, w')"
    using assms(1)
    by (rule run_durable_induct [of _ _ _ _ _ ?P]) (auto intro: apart_segment recovered)
  with assms(2) show ?thesis by simp
qed

end

locale serving_host = durable_host later st level base
  for later :: "'s \<Rightarrow> 's \<Rightarrow> bool" and st and level and base +
  fixes answer :: "SegmentOutcome \<Rightarrow> ('s, ApprovalSettlement) action"
  assumes answer_moves: "moves later (answer out)"

sublocale serving_host \<subseteq> turns: kept_turn "run_durable st (durable_ports st ss base)"
    "Some (on_turn answer)" "executed_apart later level s0"
  for ss s0
proof
  show "executed_apart later level s0 w'"
    if "executed_apart later level s0 w"
      "run_durable st (durable_ports st ss base) request w = Some (v, w')" for w request v w'
    using that(2,1) by (rule run_durable_apart)
  show "executed_apart later level s0 w'"
    if "Some (on_turn answer) = Some f" "executed_apart later level s0 w" "f out w = (r, w')"
    for f w out r w'
  proof -
    obtain q s where call: "answer out (fst (fst w)) = (q, s)" by (rule prod.exhaust)
    from movesD [OF answer_moves call] that call show ?thesis
      using apart_later [of s0 w "(s, snd (fst w))"] by (auto simp: on_turn_def)
  qed
qed

context serving_host
begin

text \<open>A turn with an empty trace at its start.\<close>

lemma turn_executes_once:
  assumes "run_turn (run_durable st (durable_ports st ss base)) (Some (on_turn answer)) a prompt (w, [])
    = Some (v, w', tr)"
  shows "distinct (executed_keys tr)"
    "key \<in> set (executed_keys tr) \<Longrightarrow> level (fst w) key < 2 \<and> 2 \<le> level (fst w') key"
    "later (fst w) (fst w')"
  using turns.run_turn_kept [OF assms, of "fst w"]
  by (auto simp: executed_apart_def later_refl)

end

end
