(* ===== verification/Peer_Orders.thy ===== *)
theory Peer_Orders
  imports Local_Segments
begin

text \<open>
  Orders on the database that every call of any process keeps: what a process does to its world, and
  what the others do meanwhile, moves along them. The effect ledger moves forward in one, the
  dispatch generations of the sessions in another.
\<close>

definition on_db :: "(local_db \<Rightarrow> local_db \<Rightarrow> bool) \<Rightarrow> 'x local_world \<Rightarrow> 'x local_world \<Rightarrow> bool" where
  "on_db le s t \<longleftrightarrow> le (lw_db s) (lw_db t)"

lemma local_later_on_db: "local_later = on_db ledger_forward"
  by (simp add: fun_eq_iff local_later_def on_db_def)

locale peer_order =
  fixes le :: "local_db \<Rightarrow> local_db \<Rightarrow> bool"
  assumes le_refl: "le db db"
    and le_trans: "le db db1 \<Longrightarrow> le db1 db2 \<Longrightarrow> le db db2"
    and peer_le: "le db (perform_peer cd k db)"
begin

lemma peers_le: "le db (fold (perform_peer cd) cs db)"
proof (induction cs arbitrary: db)
  case (Cons c cs)
  then show ?case using le_trans [OF peer_le [of db cd c]] by simp
qed (simp add: le_refl)

lemma peers_run_le: "peers_run cd db db' \<Longrightarrow> le db db'"
  by (auto simp: peers_run_def peers_le)

lemma env_turn_le: "on_db le w (env_turn env w)"
  by (auto simp: on_db_def env_turn_def peers_le split: prod.splits)

end

sublocale peer_order \<subseteq> on: world_order "on_db le"
  by unfold_locales (auto simp: on_db_def le_refl intro: le_trans)

context peer_order
begin

lemma read_le: "moves (on_db le) (local_read env f)"
  by (simp add: moves_def local_read_def Let_def env_turn_le)

lemma write_le:
  assumes "\<And>w db. le db (snd (f w db))"
  shows "moves (on_db le) (local_write env f)"
proof -
  have "on_db le w (snd (local_write env f w))" for w
  proof -
    let ?w = "env_turn env w"
    have "le (lw_db ?w) (snd (f ?w (lw_db ?w)))" by (rule assms)
    with env_turn_le [of w env] show ?thesis
      by (auto simp: local_write_def Let_def on_db_def split: prod.splits intro: le_trans)
  qed
  then show ?thesis by (simp add: moves_def)
qed

lemma commit_le:
  assumes "is_transition u"
  shows "moves (on_db le) (commit_authoritative_uow env authority u)"
  unfolding commit_authoritative_uow_def
proof (rule on.moves_bind_known [OF on.moves_res], rule on.moves_bind_known [OF read_le],
    rule on.moves_bind_known [OF read_le], rule on.moves_bind_known [OF on.moves_res])
  fix stored activation v s s'
  assume "act_res (stamped_unit (cd_py_repr (env_codecs env)) authority stored activation u) s
      = (Inr v, s')"
  then have v: "is_transition v" using assms stamped_unit_same(1) by auto
  have "le db (snd (commit_snapshot cd now authority v db))" for cd now db
    using peer_le [of db cd "PeerCommit now authority v"] v by simp
  with v show "moves (on_db le) (if is_transition v
      then local_write env (\<lambda>w. commit_snapshot (env_codecs env) (env_utc_now env w) authority v)
      else env_legacy_commit env authority v)"
    by (simp add: write_le)
qed

lemma on_rest_le: "on_db le (fst w) (fst (snd (on_rest env f w)))"
  using env_turn_le [of "fst w" env]
  by (simp add: on_rest_def Let_def on_db_def split: prod.splits)

lemma base_le: "base_moves (on_db le) (local_base env p)"
  by (simp add: base_moves_def local_base_def on_rest_le)

end

sublocale peer_order \<subseteq> store: durable_store_order "on_db le" "local_store env" for env
  by unfold_locales
     (simp_all add: local_store_def commit_le read_le, simp_all add: moves_def env_turn_le on.later_refl)

interpretation ledger: peer_order ledger_forward
  by unfold_locales (auto intro: perform_peer_forward ledger_forward_trans)

section \<open>The dispatch generation\<close>

definition generation_grows :: "local_db \<Rightarrow> local_db \<Rightarrow> bool" where
  "generation_grows db db' \<longleftrightarrow> (\<forall>sid. generation_at db sid \<le> generation_at db' sid)"

lemma generation_grows_same: "db_fact_source db' = db_fact_source db \<Longrightarrow> generation_grows db db'"
  using generation_at_same [of db' db] by (simp add: generation_grows_def)

lemma commit_generation: "generation_at (snd (commit_snapshot cd now authority u db)) = generation_at db"
proof (cases "snapshot_transition_unit u")
  case (Inr v)
  obtain r db' where result: "commit_transition (cd_float_repr cd) (cd_sha256_hex cd)
      (cd_fromisoformat cd) now authority v db = (r, db')"
    by fastforce
  from result have "generation_at db' = generation_at db"
  proof (cases rule: commit_transition_cases)
    case (written k t x fp fs db0 pc)
    have "generation_at (write_source_seq (own_session_id authority) q db0) = generation_at db0" for q
      by (cases q) (auto simp: write_source_seq_def generation_at_def fun_eq_iff
          split: option.splits if_splits)
    moreover have "db_fact_source db' = db_fact_source (write_source_seq (own_session_id authority) (pc_range pc) db0)"
      by (rule write_commit_other_tables(6) [OF written(11)])
    ultimately show ?thesis
      using ensure_fact_source_generation(1) [OF written(7)] generation_at_same by metis
  qed (auto dest: ensure_fact_source_generation(1))
  with result Inr show ?thesis by (simp add: commit_snapshot_def)
qed (simp add: commit_snapshot_def)

lemma perform_peer_generation: "generation_grows db (perform_peer cd c db)"
proof (cases c)
  case (PeerCommit now authority u)
  then show ?thesis by (simp add: commit_generation generation_grows_def)
next
  case (PeerAttempt now authority e a t k)
  then show ?thesis
    using attempt_result_frame [of "cd_fromisoformat cd" now authority e a t k db]
    by (cases "attempt_result (cd_fromisoformat cd) now authority e a t k db")
       (auto simp: rolled_back_def attempt_put_def put_attempt_def intro!: generation_grows_same)
next
  case (PeerRecord now authority v)
  then show ?thesis
    using record_frame [of "cd_fromisoformat cd" now authority v db]
    by (cases "record_effect_reconciliation_evidence (cd_fromisoformat cd) now authority v db")
       (fastforce simp: rolled_back_def intro: generation_grows_same)+
next
  case (PeerAdmit now authority c)
  then show ?thesis
    using admission_frame(4) [of "cd_float_repr cd" "cd_fromisoformat cd" now authority c db]
    by (cases "admit_runtime_command (cd_float_repr cd) (cd_fromisoformat cd) now authority c db")
       (auto simp: rolled_back_def generation_grows_def)
next
  case (PeerOwner k)
  then show ?thesis
    using perform_owner_frame [of db "cd_fromisoformat cd" k]
    by (auto simp: owners_only_def intro!: generation_grows_same)
qed (simp_all add: generation_grows_same set_new_session_runtime_activation_def)

interpretation generations: peer_order generation_grows
  by unfold_locales
     (auto simp: generation_grows_def intro: order_trans
       perform_peer_generation [unfolded generation_grows_def, rule_format])

end
