(* ===== verification/Local_Executor.thy ===== *)
theory Local_Executor
  imports Executor_Laws Peer_Orders
begin

text \<open>
  The durable executor on the local store, with other processes using the same database: an attempt
  once claimed is never open again, so the backend is called at most once under an authorization.
\<close>

section \<open>Claimed attempts\<close>

definition slot_claimed :: "AttemptRow option \<Rightarrow> bool" where
  "slot_claimed x = (case x of None \<Rightarrow> False
     | Some row \<Rightarrow> dict_get (ar_payload row) ''status'' \<noteq> PStr ''authorized_unclaimed'')"

definition claims_kept :: "local_db \<Rightarrow> local_db \<Rightarrow> bool" where
  "claims_kept db db' \<longleftrightarrow>
     (\<forall>key. slot_claimed (db_attempts db key) \<longrightarrow> slot_claimed (db_attempts db' key))"

lemma claims_kept_refl [simp]: "claims_kept db db"
  by (simp add: claims_kept_def)

lemma claims_kept_trans: "claims_kept a b \<Longrightarrow> claims_kept b c \<Longrightarrow> claims_kept a c"
  by (simp add: claims_kept_def)

lemma claims_keptD:
  "claims_kept db db' \<Longrightarrow> slot_claimed (db_attempts db key) \<Longrightarrow> slot_claimed (db_attempts db' key)"
  unfolding claims_kept_def by blast

lemma claims_kept_same: "db_attempts db' = db_attempts db \<Longrightarrow> claims_kept db db'"
  by (simp add: claims_kept_def)

lemma attempt_payload_status [simp]:
  "dict_get (attempt_payload a) ''status'' = PStr (attempt_status_value (att_status a))"
  by (simp add: attempt_payload_def dict_of_def dict_get_def dict_find_def)

lemma attempt_status_unclaimed [simp]:
  "attempt_status_value s = ''authorized_unclaimed'' \<longleftrightarrow> s = AUTHORIZED_UNCLAIMED"
  by (cases s) auto

lemma put_attempt_claims:
  assumes "att_status r \<noteq> AUTHORIZED_UNCLAIMED"
  shows "claims_kept db (put_attempt k r db)"
    "db_attempts db k \<noteq> None \<Longrightarrow> slot_claimed (db_attempts (put_attempt k r db) k)"
  using assms by (auto simp: claims_kept_def put_attempt_def slot_claimed_def split: option.splits)

lemma put_attempt_absent:
  "db_attempts db k = None \<Longrightarrow> db_attempts (put_attempt k' r db) k = None"
  by (auto simp: put_attempt_def)

lemma executor_attempt_status:
  assumes "executor_attempt_from_payload fi payload = Inr a"
  shows "dict_get payload ''status'' = PStr (attempt_status_value (att_status a))"
proof -
  obtain raw status x where "row_required_str payload ''status'' = Inr raw"
      "attempt_status_of raw = Inr status" "ExecutorAttemptRecord_init x = Inr a"
      "att_status x = status"
    using assms unfolding executor_attempt_from_payload_def Let_def bind_res_eq_Inr
    by (metis (no_types, lifting) ExecutorAttemptRecord.select_convs(6))
  then show ?thesis
    by (auto simp: row_required_str_def attempt_status_of_def dest!: ExecutorAttemptRecord_init_Inr
        split: option.splits if_splits)
qed

lemma stored_attempt_claimed:
  assumes "stored_attempt fi db key = Inr (Some a)"
  shows "slot_claimed (db_attempts db key) \<longleftrightarrow> att_status a \<noteq> AUTHORIZED_UNCLAIMED"
    "db_attempts db key \<noteq> None"
proof -
  obtain row where row: "db_attempts db key = Some row"
      "executor_attempt_from_payload fi (ar_payload row) = Inr a"
    using assms by (auto simp: stored_attempt_def optional_res_def map_res_eq_Inr split: option.splits)
  with executor_attempt_status [OF row(2)]
  show "slot_claimed (db_attempts db key) \<longleftrightarrow> att_status a \<noteq> AUTHORIZED_UNCLAIMED"
    "db_attempts db key \<noteq> None"
    by (simp_all add: slot_claimed_def)
qed

lemmas attempt_call_defs = reserve_executor_attempt_def mark_executor_attempt_started_def
  mark_executor_attempt_quiescent_def revoke_expired_executor_reservation_def
  quiesce_claimed_executor_attempt_def transition_executor_attempt_def

text \<open>A call that succeeds leaves the record it returns, claimed, in its row.\<close>

lemma attempt_result_put:
  assumes "attempt_result fi now authority e a t c db = Inr (b, db')"
  obtains r where "stored_attempt fi db (own_session_id authority, e, a, t) = Inr (Some r)"
    "att_status b \<noteq> AUTHORIZED_UNCLAIMED"
    "db' = db \<and> b = r \<or> db' = put_attempt (own_session_id authority, e, a, t) b db"
proof -
  obtain r where r: "stored_attempt fi db (own_session_id authority, e, a, t) = Inr (Some r)"
    using assms
    by (cases c; force simp: attempt_call_defs Let_def bind_res_eq_Inr existing_attempt_Inr)
  from assms r have "att_status b \<noteq> AUTHORIZED_UNCLAIMED
      \<and> (db' = db \<and> b = r \<or> db' = put_attempt (own_session_id authority, e, a, t) b db)"
    by (cases c; force simp: attempt_call_defs Let_def bind_res_eq_Inr existing_attempt_Inr
        conflict_def dest!: ExecutorAttemptRecord_init_Inr split: if_splits)
  with r show thesis by (auto intro: that)
qed

lemma attempt_result_claims:
  assumes "attempt_result fi now authority e a t c db = Inr (b, db')"
  shows "claims_kept db db'" "slot_claimed (db_attempts db' (own_session_id authority, e, a, t))"
proof -
  obtain r where r: "stored_attempt fi db (own_session_id authority, e, a, t) = Inr (Some r)"
      "att_status b \<noteq> AUTHORIZED_UNCLAIMED"
      "db' = db \<and> b = r \<or> db' = put_attempt (own_session_id authority, e, a, t) b db"
    using assms by (rule attempt_result_put)
  note stored = stored_attempt_claimed [OF r(1)]
  from r(2,3) stored put_attempt_claims [OF r(2)]
  show "claims_kept db db'" "slot_claimed (db_attempts db' (own_session_id authority, e, a, t))"
    by auto
qed

lemma closeout_quiescent:
  "closeout_attempt fi authority u db = Inr (Some a) \<Longrightarrow> att_status a = QUIESCENT"
  by (auto simp: closeout_attempt_def conflict_def res_simps dest!: ExecutorAttemptRecord_init_Inr
      split: option.splits if_splits)

lemma commit_claims:
  assumes "prepare_commit fi authority u t c v fp fs db = Inr pc"
    and "write_commit authority u fs pc db = Inr db'"
  shows "claims_kept db db'"
proof -
  have parts: "closeout_attempt fi authority u db = Inr (pc_closeout pc)"
      "dispatched_attempt authority u t fs (dispatched_mutation (normalized_effect_mutations u)) db
        = Inr (pc_attempt pc)"
    using prepare_commit_parts [OF assms(1)] by metis+
  define db1 where "db1 = write_closeout pc db"
  have "claims_kept db db1 \<and> (\<forall>k. db_attempts db k = None \<longrightarrow> db_attempts db1 k = None)"
    using parts(1) closeout_quiescent [of fi authority u db]
    by (cases "pc_closeout pc")
       (auto simp: db1_def write_closeout_def put_attempt_claims put_attempt_absent)
  moreover have "claims_kept db1 (write_attempt pc db1)"
    if "\<forall>k. db_attempts db k = None \<longrightarrow> db_attempts db1 k = None"
  proof (cases "pc_attempt pc")
    case (Some a)
    then have "db_attempts db (attempt_key a) = None"
      using parts(2) by (auto simp: dispatched_attempt_def conflict_def bind_res_eq_Inr
          split: option.splits if_splits)
    with that have "db_attempts db1 (attempt_key a) = None" by blast
    with Some show ?thesis
      by (auto simp: claims_kept_def write_attempt_def slot_claimed_def)
  qed (simp add: write_attempt_def)
  ultimately have "claims_kept db (write_attempt pc db1)" using claims_kept_trans by blast
  with write_commit_other_tables(7) [OF assms(2)] show ?thesis by (simp add: claims_kept_def db1_def)
qed

lemma commit_snapshot_claims: "claims_kept db (snd (commit_snapshot cd now authority u db))"
proof (cases "snapshot_transition_unit u")
  case (Inr v)
  obtain r db' where result: "commit_transition (cd_float_repr cd) (cd_sha256_hex cd)
      (cd_fromisoformat cd) now authority v db = (r, db')"
    by fastforce
  from result show ?thesis
  proof (cases rule: commit_transition_cases)
    case failed
    with result Inr show ?thesis by (simp add: commit_snapshot_def)
  next
    case replayed
    with result Inr show ?thesis
      by (auto simp: commit_snapshot_def intro!: claims_kept_same elim: ensure_fact_source_Inr)
  next
    case (written k t x fp fs db0 pc)
    have "claims_kept db db0"
      using written(7) by (auto intro!: claims_kept_same elim: ensure_fact_source_Inr)
    with commit_claims [OF written(10,11)] result Inr show ?thesis
      by (auto simp: commit_snapshot_def intro: claims_kept_trans)
  qed
qed (simp add: commit_snapshot_def)

lemma perform_peer_claims: "claims_kept db (perform_peer cd c db)"
proof (cases c)
  case (PeerCommit now authority u)
  then show ?thesis by (simp add: commit_snapshot_claims)
next
  case (PeerAttempt now authority e a t k)
  then show ?thesis
    by (cases "attempt_result (cd_fromisoformat cd) now authority e a t k db")
       (auto simp: rolled_back_def intro: attempt_result_claims)
next
  case (PeerRecord now authority v)
  then show ?thesis
    using record_frame [of "cd_fromisoformat cd" now authority v db]
    by (cases "record_effect_reconciliation_evidence (cd_fromisoformat cd) now authority v db")
       (fastforce simp: rolled_back_def intro: claims_kept_same)+
next
  case (PeerAdmit now authority c)
  then show ?thesis
    using admission_frame(2) [of "cd_float_repr cd" "cd_fromisoformat cd" now authority c db]
    by (cases "admit_runtime_command (cd_float_repr cd) (cd_fromisoformat cd) now authority c db")
       (auto simp: rolled_back_def intro: claims_kept_same)
next
  case (PeerOwner k)
  then show ?thesis
    using perform_owner_frame owners_only_tables(2) by (simp add: claims_kept_same)
qed (simp_all add: claims_kept_same set_new_session_runtime_activation_def)

interpretation claims: peer_order claims_kept
  by unfold_locales (auto intro: perform_peer_claims claims_kept_trans)

section \<open>The executor's world\<close>

text \<open>
  What an executor has of its own: the clock plus the reservation lease, its backend, and when its
  caller or the cancellation token is cancelled.
\<close>

record 'x executor_env =
  xe_lease_end :: "'x local_world \<Rightarrow> datetime res"
  xe_backend :: "DurableEffectInvocation \<Rightarrow> 'x \<Rightarrow> EffectExecutionResult option res \<times> 'x"
  xe_caller_cancelled :: "'x local_world \<Rightarrow> bool"
  xe_token_cancelled :: "'x local_world \<Rightarrow> bool"

text \<open>A call on an attempt: its transaction is written or rolled back.\<close>

definition local_attempt ::
    "'x local_env \<Rightarrow> OwnerAuthority \<Rightarrow> string \<Rightarrow> string \<Rightarrow> string \<Rightarrow> attempt_call
     \<Rightarrow> ('x local_world, ExecutorAttemptRecord) action" where
  "local_attempt env authority e a t c =
     local_write env (\<lambda>w db.
       case attempt_result (cd_fromisoformat (env_codecs env)) (env_utc_now env w) authority e a t c db of
         Inl err \<Rightarrow> (Inl err, db)
       | Inr (b, db') \<Rightarrow> (Inr b, db'))"

definition local_effects ::
    "'x local_env \<Rightarrow> 'x executor_env \<Rightarrow> effect_executor \<Rightarrow> 'x local_world effect_world" where
  "local_effects env xe x =
     \<lparr>xs_effect_slot = (\<lambda>sid e. local_read env (\<lambda>db. load_effect_slot db sid e)),
      xs_attempt = (\<lambda>sid e a t. local_read env
        (\<lambda>db. load_executor_attempt (cd_fromisoformat (env_codecs env)) db sid e a t)),
      xs_reserve = (\<lambda>authority e a t y lease. local_attempt env authority e a t (Reserve y lease)),
      xs_start = (\<lambda>authority e a t y g now. local_attempt env authority e a t (Start y g now)),
      xs_quiesce = (\<lambda>authority e a t y now ref. local_attempt env authority e a t (Quiesce y now ref)),
      xs_clock = (\<lambda>w. (Inr (env_clock env w), w)),
      xs_lease_end = (\<lambda>w. (xe_lease_end xe w, w)),
      xs_evidence = (\<lambda>i g w. (Inr (PStr (default_quiescence_evidence x i g)), w)),
      xs_backend = (\<lambda>i w.
        (let w1 = env_turn env w
         in case xe_backend xe i (lw_rest w1) of (r, y) \<Rightarrow> (r, w1\<lparr>lw_rest := y\<rparr>))),
      xs_caller_cancelled = xe_caller_cancelled xe,
      xs_token_cancelled = xe_token_cancelled xe\<rparr>"

lemma local_attempt_Inr:
  assumes "local_attempt env authority e a t c w = (Inr b, w')"
  shows "attempt_result (cd_fromisoformat (env_codecs env)) (env_utc_now env (env_turn env w))
      authority e a t c (lw_db (env_turn env w)) = Inr (b, lw_db w')"
  using assms by (auto simp: local_attempt_def local_write_def Let_def split: sum.splits prod.splits)

text \<open>A process's own calls are calls like those of the others: they keep every order of \<open>Peer_Orders\<close>.\<close>

context peer_order
begin

lemma attempt_le: "moves (on_db le) (local_attempt env authority e a t c)"
  unfolding local_attempt_def
proof (rule write_le)
  fix w :: "'a local_world" and db
  show "le db (snd (case attempt_result (cd_fromisoformat (env_codecs env)) (env_utc_now env w) authority
      e a t c db of Inl err \<Rightarrow> (Inl err, db) | Inr (b, db') \<Rightarrow> (Inr b, db')))"
    using peer_le [of db "env_codecs env" "PeerAttempt (env_utc_now env w) authority e a t c"]
    by (cases "attempt_result (cd_fromisoformat (env_codecs env)) (env_utc_now env w) authority e a t c db")
       (auto simp: rolled_back_def)
qed

lemma own_backend_le: "moves (on_db le) (xs_backend (local_effects env xe x) i)"
  using env_turn_le by (auto simp: moves_def local_effects_def Let_def on_db_def split: prod.splits)

end

sublocale peer_order \<subseteq> effects: effect_store "on_db le" "local_effects env xe x" for env xe x
  by unfold_locales
     (simp_all add: own_backend_le, simp_all add: local_effects_def read_le attempt_le,
      simp_all add: moves_def on.later_refl)

interpretation local_claims: claim_store "on_db claims_kept" "local_effects env xe x"
    "\<lambda>w key. slot_claimed (db_attempts (lw_db w) key)"
  for env :: "'x local_env" and xe x
proof
  fix authority e a t y now and s s' :: "'x local_world" and r :: ExecutorAttemptRecord and g and sid key
  show "slot_claimed (db_attempts (lw_db s') key)"
    if "on_db claims_kept s s'" "slot_claimed (db_attempts (lw_db s) key)"
    using that by (auto simp: on_db_def intro: claims_keptD)
  show "\<not> slot_claimed (db_attempts (lw_db s') (sid, e, a, t))"
    if "xs_attempt (local_effects env xe x) sid e a t s = (Inr (Some r), s')"
      "att_status r = AUTHORIZED_UNCLAIMED"
    using that stored_attempt_claimed(1)
    by (auto simp: local_effects_def local_read_def Let_def load_executor_attempt_def)
  show "slot_claimed (db_attempts (lw_db s') (own_session_id authority, e, a, t))"
    if "xs_start (local_effects env xe x) authority e a t y g now s = (Inr r, s')"
    using that attempt_result_claims(2) [OF local_attempt_Inr]
    by (simp add: local_effects_def)
qed

section \<open>The backend is called once\<close>

text \<open>An attempt is open on its dispatched effect; the backend counts its calls.\<close>

definition demo_executor :: effect_executor where
  "demo_executor = \<lparr>ex_owner_id = ''o'', ex_executor_id = ''local-daemon''\<rparr>"

definition demo_permit :: DispatchPermit where
  "demo_permit =
     \<lparr>permit_opaque_token = ''tok'', permit_session_id = ''s'', permit_effect_id = ''e'',
      permit_attempt_id = ''a'', permit_authorization_transition_id = ''d'', permit_owner_epoch = 1,
      permit_idempotency_key = None, permit_claimed = True\<rparr>"

definition demo_executor_env :: "nat executor_env" where
  "demo_executor_env =
     \<lparr>xe_lease_end = (\<lambda>_. Inr demo_lease),
      xe_backend = (\<lambda>_ n. (Inr (Some (EffectCompletedResult PNone)), Suc n)),
      xe_caller_cancelled = (\<lambda>_. False), xe_token_cancelled = (\<lambda>_. False)\<rparr>"

definition demo_effects :: "nat local_world effect_world" where
  "demo_effects = local_effects demo_env demo_executor_env demo_executor"

definition demo_claimable :: "nat local_world" where
  "demo_claimable =
     \<lparr>lw_db = demo_open\<lparr>db_effects := [(''s'', ''e'') \<mapsto> \<lparr>fx_status = ''dispatched'', fx_payload = dict_of
        [(''attempt_id'', PStr ''a''), (''authorization_transition_id'', PStr ''d''),
         (''dispatch_owner_epoch'', PInt 1), (''effect_kind'', PStr ''tool''),
         (''payload'', PDict [])]\<rparr>]\<rparr>, lw_rest = 0\<rparr>"

lemma demo_backend_called:
  "backend_call demo_effects demo_executor demo_permit demo_claimable \<noteq> None"
  "fst (execute_effect demo_effects demo_executor demo_permit demo_claimable)
     = Inr (EffectCompletedResult PNone)"
  by code_simp+

text \<open>C6: The backend is called at most once under an authorization: when an execution has called its
  backend for an attempt, no execution that starts afterwards on the same database does, by whatever
  executor and owner and with any calls of other processes before, during and in between - and the
  attempt was nobody's when the first one started.\<close>

theorem backend_called_once:
  assumes "backend_call (local_effects env xe x) x p w = Some (i, w1)"
    and "execute_effect (local_effects env xe x) x p w = (r, w2)"
    and "peers_run cd (lw_db w2) (lw_db w')"
    and "permit_key p' = permit_key p"
  shows "\<not> slot_claimed (db_attempts (lw_db w) (permit_key p))
    \<and> backend_call (local_effects env' xe' x') x' p' w' = None"
proof -
  have "slot_claimed (db_attempts (lw_db w2) (permit_key p))"
    using local_claims.backend_call_claims(3) [OF assms(1)] assms(2) by simp
  then have "slot_claimed (db_attempts (lw_db w') (permit_key p'))"
    unfolding assms(4) by (rule claims_keptD [OF claims.peers_run_le [OF assms(3)]])
  then have "backend_call (local_effects env' xe' x') x' p' w' = None"
    using local_claims.backend_call_claims(1) [of env' xe' x' x' p' w']
    by (cases "backend_call (local_effects env' xe' x') x' p' w'") auto
  with local_claims.backend_call_claims(1) [OF assms(1)] show ?thesis by simp
qed

theorem backend_called_once_witness:
  "\<exists>w2. snd (execute_effect demo_effects demo_executor demo_permit demo_claimable) = w2
     \<and> backend_call demo_effects demo_executor demo_permit w2 = None"
proof -
  obtain i w1 where call: "backend_call demo_effects demo_executor demo_permit demo_claimable
      = Some (i, w1)"
    using demo_backend_called(1) by auto
  obtain r w2 where run: "execute_effect demo_effects demo_executor demo_permit demo_claimable = (r, w2)"
    by (rule prod.exhaust)
  have "peers_run demo_codecs (lw_db w2) (lw_db w2)"
    unfolding peers_run_def by (rule exI [of _ "[]"]) simp
  from backend_called_once [OF call [unfolded demo_effects_def] run [unfolded demo_effects_def] this HOL.refl,
      of demo_env demo_executor_env demo_executor] run
  show ?thesis by (simp add: demo_effects_def)
qed

text \<open>C11: What a backend has answered is reported only after the attempt is closed: an execution that
  returns a completion or a failure called its backend, which answered just that, and the last thing it
  did was to have the store close the attempt in the name of its executor.\<close>

theorem answer_after_quiescence:
  assumes "execute_effect w x p s = (Inr r, s')" "\<forall>code m ref. r \<noteq> EffectIndeterminateResult code m ref"
  shows "\<exists>i s1 s2 now ref q s3. backend_call w x p s = Some (i, s1)
    \<and> xs_backend w i s1 = (Inr (Some r), s2)
    \<and> xs_quiesce w (permit_authority x p) (permit_effect_id p) (permit_attempt_id p)
        (permit_authorization_transition_id p) (ex_executor_id x) now ref s3 = (Inr q, s')
    \<and> att_status q = QUIESCENT"
proof -
  obtain i started s1 where
      call: "await_through w (claim_attempt w x p) s = (Inr ((i, started), False), s1)"
        "permit_claimed p" "\<not> xs_token_cancelled w s1"
      and run: "execute_started w x p i started s1 = (Inr r, s')"
    using assms
    by (cases "await_through w (claim_attempt w x p) s")
       (auto simp: execute_unfold claim_failed_def cancel_started_def act_bind_Inr
         split: sum.splits if_splits dest!: indeterminate_not)
  obtain r0 s2 where answer: "backend_answer w x p i (att_claim_generation started) s1 = (Inr r0, s2)"
      and close: "act_catch
        (act_bind (quiesce_through_cancellation w x p (Some i) (att_claim_generation started))
          (\<lambda>_. act_res (Inr r0)))
        (\<lambda>e. act_res (indeterminate ''executor_quiescence_failed'' e)) s2 = (Inr r, s')"
    using run by (auto simp: execute_started_def act_bind_Inr)
  have closed: "quiesce_through_cancellation w x p (Some i) (att_claim_generation started) s2
      = (Inr (), s')" "r0 = r"
    using close assms(2)
    by (cases "quiesce_through_cancellation w x p (Some i) (att_claim_generation started) s2";
        auto simp: act_catch_def act_bind_def act_res_def split: sum.splits if_splits
          dest!: indeterminate_not)+
  have "xs_backend w i s1 = (Inr (Some r), s2)"
  proof (cases "xs_backend w i s1")
    case (Pair ans s3)
    with answer assms(2) closed(2) show ?thesis
      by (cases ans; cases "projr ans")
         (auto simp: backend_answer_def act_bind_def act_try_def act_res_def checks_eq_Inr
           split: prod.splits sum.splits if_splits dest!: indeterminate_not)
  qed
  moreover have "backend_call w x p s = Some (i, s1)" using call by (simp add: backend_call_def)
  ultimately show ?thesis using closed(1) by (blast elim: quiesce_Inr)
qed

theorem answer_after_quiescence_witness:
  "\<exists>i w1. backend_call demo_effects demo_executor demo_permit demo_claimable = Some (i, w1)"
proof -
  obtain w2 where "execute_effect demo_effects demo_executor demo_permit demo_claimable
      = (Inr (EffectCompletedResult PNone), w2)"
    using demo_backend_called(2) by (metis prod.collapse)
  from answer_after_quiescence [OF this] show ?thesis by blast
qed

end
