(* ===== verification/Mailbox_Theorems.thy ===== *)
theory Mailbox_Theorems
  imports Peer_Orders Port_Theorems
begin

text \<open>
  Properties of the command mailbox: admitting a command again changes nothing, and a command that
  stops work fences off every dispatch that was decided before it.
\<close>

section \<open>The cut a fresh commit was made at\<close>

lemma fresh_commit_cut:
  assumes "commit_authoritative_uow env authority u s = (Inr c, s')" "is_transition u"
    and "\<not> auth_idempotent c" "unit_expected_mailbox_cut u = Some (str_of_int n)"
  shows "generation_at (lw_db s) (own_session_id authority) \<le> n"
proof -
  let ?sid = "own_session_id authority"
  obtain py stored activation v w k where
      v: "stamped_unit py authority stored activation u = Inr v"
      and w: "w = env_turn env (env_turn env (env_turn env s))"
      and k: "snapshot_transition_unit v = Inr k"
      and run: "commit_transition (cd_float_repr (env_codecs env)) (cd_sha256_hex (env_codecs env))
        (cd_fromisoformat (env_codecs env)) (env_utc_now env w) authority k (lw_db w)
        = (Inr c, lw_db s')"
    by (rule commit_uow_fresh [OF assms(1,2)])
  have "is_transition v" using stamped_unit_same(1) [OF v] assms(2) by simp
  then have cut: "unit_expected_mailbox_cut k = Some (str_of_int n)"
    using v assms(4) snapshot_transition_Inr(5) [OF k] by (auto elim!: stamped_unit_Inr)
  have "generation_at (lw_db w) ?sid = n"
    using run assms(3)
  proof (rule commit_wrote)
    fix x t y fp fs row db0 pc
    assume source: "ensure_fact_source (lw_db w) ?sid = Inr (fs, db0)"
      and prepared: "prepare_commit (cd_fromisoformat (env_codecs env)) authority k t x y fp fs db0 = Inr pc"
    have "assert_mailbox_cut k fs = Inr ()" by (rule prepare_commit_parts [OF prepared])
    then obtain m where m: "parse_u64 ''expected_mailbox_cut'' (str_of_int n) = Inr m"
        "fs_dispatch_generation fs = int m"
      using cut by (auto simp: assert_mailbox_cut_def bind_res_eq_Inr split: if_splits)
    have "0 \<le> n" using m(1) by (cases "n < 0") (auto simp: parse_u64_Inr is_u64_def str_of_int_def
        is_ascii_digit_def char_code_def)
    with m show "generation_at (lw_db w) ?sid = n"
      using ensure_fact_source_generation(2) [OF source] by (simp add: parse_u64_Inr str_of_int_nat)
  qed
  moreover have "on_db generation_grows s w"
    unfolding w using generations.env_turn_le generations.on.later_trans by blast
  ultimately show ?thesis by (auto simp: on_db_def generation_grows_def)
qed

text \<open>A permit is granted only at the cut of its request.\<close>

lemma permit_cut:
  assumes "port_authorize_dispatch_op (local_store env) ss r s = (Inr (DispatchAuthorizedResult v p ns rc, k), s')"
  shows "generation_at (lw_db s) (dar_session_id r) \<le> dar_mailbox_cut r"
proof -
  let ?opts = "(unit_defaults [dar_effect_mutation r] False)
    \<lparr>opt_expected_mailbox_cut := Some (str_of_int (dar_mailbox_cut r))\<rparr>"
  obtain c s1 where c: "commit_built (local_store env) ss (dispatch_pq r) ?opts s = (Inr (Accepted c), s1)"
      "\<not> auth_idempotent c"
    using assms by (rule authorized_by)
  from c(1) obtain x facts bindings s2 where
      tu: "transition_unit (local_store env) ss (dispatch_pq r) ?opts s
        = (Inr (proposal_unit ss (dispatch_pq r) ?opts x facts bindings), s2)"
      and commit: "st_commit (local_store env) \<lparr>own_session_id = pq_session_id (dispatch_pq r),
         own_owner_id = pq_owner_id (dispatch_pq r), own_epoch = pq_owner_epoch (dispatch_pq r)\<rparr>
         (proposal_unit ss (dispatch_pq r) ?opts x facts bindings) s2 = (Inr c, s1)"
    by (rule commit_built_Accepted)
  have "generation_at (lw_db s2) (dar_session_id r) \<le> dar_mailbox_cut r"
    using fresh_commit_cut [OF commit [unfolded local_store_def, simplified] _ c(2), of "dar_mailbox_cut r"]
    by (simp add: dispatch_pq_def)
  moreover have "on_db generation_grows s s2"
    by (rule movesD [OF generations.store.transition_unit_moves tu])
  ultimately show ?thesis
    unfolding on_db_def generation_grows_def by (meson order_trans)
qed

section \<open>Properties\<close>

text \<open>C7: Who stops work, stops it: once a cancel, an interrupt or a denial has been admitted to the
  mailbox of a session, no dispatch that was decided before it is permitted, however long other
  processes go on meanwhile.\<close>

theorem stop_fences_dispatch:
  assumes "admit_runtime_command fr fi now authority c db = Inr (a, db1)"
    and "\<not> adm_idempotent a" "runtime_command_invalidates_dispatch c = Inr True"
    and "peers_run cd db1 (lw_db w)" "dar_session_id r = own_session_id authority"
    and "dar_mailbox_cut r \<le> generation_at db (own_session_id authority)"
    and "port_authorize_dispatch_op (local_store env) ss r w = (res, w')"
  shows "\<nexists>v p ns rc k. res = Inr (DispatchAuthorizedResult v p ns rc, k)"
proof
  assume "\<exists>v p ns rc k. res = Inr (DispatchAuthorizedResult v p ns rc, k)"
  then have "generation_at (lw_db w) (own_session_id authority) \<le> dar_mailbox_cut r"
    using permit_cut assms(5,7) by metis
  moreover have "generation_at db1 (own_session_id authority) \<le> generation_at (lw_db w) (own_session_id authority)"
    using generations.peers_run_le [OF assms(4)] unfolding generation_grows_def by blast
  ultimately show False using admission_frame(5) [OF assms(1,2,3)] assms(6) by simp
qed

definition demo_cancel :: RuntimeCommand where
  "demo_cancel = \<lparr>cmd_command_id = ''stop'', cmd_command_kind = ''cancel'',
     cmd_payload = dict_of [(''target_scope'', PStr ''global'')]\<rparr>"

definition demo_stopper :: OwnerAuthority where
  "demo_stopper = \<lparr>own_session_id = ''se'', own_owner_id = ''o'', own_epoch = 1\<rparr>"

text \<open>The sample authorization is permitted at the sample cut, until the command is admitted.\<close>

lemma demo_admission:
  "case admit_new_runtime_command demo_repr demo_iso demo_now demo_stopper demo_cancel demo_shared of
     Inr (a, db1) \<Rightarrow> \<not> adm_idempotent a \<and> assert_authority demo_iso demo_now db1 demo_stopper = Inr ()
   | _ \<Rightarrow> False"
  "runtime_command_invalidates_dispatch demo_cancel = Inr True"
  "RuntimeCommand_init demo_cancel = Inr demo_cancel"
  "generation_at demo_shared ''se'' = 1"
  "map_res (\<lambda>r. (dar_session_id r, dar_mailbox_cut r)) port_authorization = Inr (''se'', 1)"
  by code_simp+

lemma demo_permitted:
  "case port_authorization of
     Inr r \<Rightarrow> (case fst (port_authorize_dispatch_op (local_store demo_env) demo_payload r demo_world) of
       Inr (DispatchAuthorizedResult v p ns rc, k) \<Rightarrow> True | _ \<Rightarrow> False)
   | _ \<Rightarrow> False"
  by code_simp

lemma demo_admitted:
  obtains a db1 where "admit_runtime_command demo_repr demo_iso demo_now demo_stopper demo_cancel demo_shared
      = Inr (a, db1)" "\<not> adm_idempotent a" "assert_authority demo_iso demo_now db1 demo_stopper = Inr ()"
  using demo_admission(1)
  by (auto simp: admit_new_runtime_command_def bind_res_def split: sum.splits)

theorem stop_fences_dispatch_witness:
  "\<exists>r (w :: nat local_world). port_authorization = Inr r
     \<and> (\<nexists>v p ns rc k. fst (port_authorize_dispatch_op (local_store demo_env) demo_payload r w)
           = Inr (DispatchAuthorizedResult v p ns rc, k))"
proof -
  obtain a db1 where a: "admit_runtime_command demo_repr demo_iso demo_now demo_stopper demo_cancel demo_shared
      = Inr (a, db1)" "\<not> adm_idempotent a"
    by (rule demo_admitted)
  obtain r where r: "port_authorization = Inr r" "dar_session_id r = ''se''" "dar_mailbox_cut r = 1"
    using demo_admission(5) by (auto simp: map_res_eq_Inr)
  let ?w = "\<lparr>lw_db = db1, lw_rest = (0 :: nat)\<rparr>"
  have run: "peers_run demo_codecs db1 (lw_db ?w)"
    unfolding peers_run_def by (rule exI [of _ "[]"]) simp
  have own: "dar_session_id r = own_session_id demo_stopper"
    "dar_mailbox_cut r \<le> generation_at demo_shared (own_session_id demo_stopper)"
    using r demo_admission(4) by (simp_all add: demo_stopper_def)
  obtain res w' where res: "port_authorize_dispatch_op (local_store demo_env) demo_payload r ?w = (res, w')"
    by (rule prod.exhaust)
  from stop_fences_dispatch [OF a demo_admission(2) run own res] r(1) res show ?thesis
    by (intro exI [of _ r] exI [of _ ?w]) simp
qed

text \<open>C30: Admission is idempotent: a command admitted once and submitted again, by whatever owner
  holds the session then, is answered with the entry and the cut of the first time, marked as a
  repetition, and nothing is written.\<close>

theorem readmission_idempotent:
  assumes "RuntimeCommand_init c = Inr c"
    and "admit_runtime_command fr fi now authority c db = Inr (a, db1)"
    and "assert_authority fi now' db1 authority' = Inr ()"
    and "own_session_id authority' = own_session_id authority"
  shows "admit_runtime_command fr fi now' authority' c db1 = Inr (a\<lparr>adm_idempotent := True\<rparr>, db1)"
  by (rule admit_again [OF assms])

theorem readmission_idempotent_witness:
  "\<exists>a db1. adm_idempotent a
     \<and> admit_runtime_command demo_repr demo_iso demo_now demo_stopper demo_cancel db1 = Inr (a, db1)"
proof -
  obtain a db1 where "admit_runtime_command demo_repr demo_iso demo_now demo_stopper demo_cancel demo_shared
      = Inr (a, db1)" "assert_authority demo_iso demo_now db1 demo_stopper = Inr ()"
    by (rule demo_admitted)
  from readmission_idempotent [OF demo_admission(3) this HOL.refl] show ?thesis
    by (intro exI [of _ "a\<lparr>adm_idempotent := True\<rparr>"] exI [of _ db1]) simp
qed

end
