(* ===== verification/Local_Turns.thy ===== *)
theory Local_Turns
  imports Turn_Laws Local_Executor Mailbox_Theorems
begin

text \<open>
  Serving turns of a process on the local store: its runner commits through the durable port, executes
  through the durable executor, and gets its decisions from the mailbox and the user, with other
  processes using the same database at every await.
\<close>

section \<open>The turn's world\<close>

text \<open>
  What the approvals of a session rest on besides its store: \<open>str\<close> of a key, the order of the slots
  in the table, and the coordinator.
\<close>

record 'x approval_env =
  ae_py_str :: "pyval \<Rightarrow> string"
  ae_slots :: "local_db \<Rightarrow> string \<Rightarrow> string list"
  ae_session_approved :: "string \<Rightarrow> string \<Rightarrow> dict \<Rightarrow> 'x \<Rightarrow> bool res \<times> 'x"
  ae_wait :: "string \<Rightarrow> string \<Rightarrow> dict \<Rightarrow> 'x \<Rightarrow> bool res \<times> 'x"

definition rest_action :: "'x local_env \<Rightarrow> ('x \<Rightarrow> 'a res \<times> 'x) \<Rightarrow> ('x local_world, 'a) action" where
  "rest_action env f w =
     (let w1 = env_turn env w in case f (lw_rest w1) of (r, y) \<Rightarrow> (r, w1\<lparr>lw_rest := y\<rparr>))"

definition local_approvals ::
    "'x local_env \<Rightarrow> 'x approval_env \<Rightarrow> OwnerAuthority \<Rightarrow> 'x local_world approval_host" where
  "local_approvals env ae authority =
     \<lparr>ah_mailbox = local_read env (\<lambda>db. load_runtime_command_mailbox
        (ae_slots ae db (own_session_id authority)) db (own_session_id authority)),
      ah_admit = (\<lambda>c. local_write env (\<lambda>w db.
        case admit_new_runtime_command (cd_float_repr (env_codecs env))
               (cd_fromisoformat (env_codecs env)) (env_utc_now env w) authority c db of
          Inl e \<Rightarrow> (Inl e, db)
        | Inr (a, db') \<Rightarrow> (Inr a, db'))),
      ah_session_approved = (\<lambda>i n d. rest_action env (ae_session_approved ae i n d)),
      ah_wait = (\<lambda>i n d. rest_action env (ae_wait ae i n d))\<rparr>"

definition local_resolver ::
    "'x local_env \<Rightarrow> 'x approval_env \<Rightarrow> OwnerAuthority \<Rightarrow> SegmentOutcome
     \<Rightarrow> ('x local_world, ApprovalSettlement) action" where
  "local_resolver env ae authority = resolver_of (ae_py_str ae) (local_approvals env ae authority) authority"

definition serving_base ::
    "'x local_env \<Rightarrow> 'x executor_env \<Rightarrow> effect_executor \<Rightarrow> 'x ports \<Rightarrow> ('x local_world \<times> markers) ports" where
  "serving_base env xe x p =
     (local_base env p)\<lparr>port_execute := on_store (execute_effect (local_effects env xe x) x)\<rparr>"

definition local_runner ::
    "'x local_env \<Rightarrow> 'x executor_env \<Rightarrow> effect_executor \<Rightarrow> dict \<Rightarrow> 'x ports
     \<Rightarrow> (('x local_world \<times> markers) \<times> event list) runner" where
  "local_runner env xe x session_state p =
     run_durable (local_store env) (durable_ports (local_store env) session_state (serving_base env xe x p))"

definition local_turn ::
    "'x local_env \<Rightarrow> 'x executor_env \<Rightarrow> effect_executor \<Rightarrow> 'x approval_env \<Rightarrow> dict \<Rightarrow> 'x ports
     \<Rightarrow> turn_adapter \<Rightarrow> string \<Rightarrow> 'x local_world \<times> markers
     \<Rightarrow> (SegmentOutcome res \<times> ('x local_world \<times> markers) \<times> event list) option" where
  "local_turn env xe x ae session_state p a prompt w =
     run_turn (local_runner env xe x session_state p)
       (Some (on_turn (local_resolver env ae
          \<lparr>own_session_id = ta_session_id a, own_owner_id = ta_owner_id a, own_epoch = ta_owner_epoch a\<rparr>)))
       a prompt (w, [])"

section \<open>It keeps the orders of the store\<close>

context peer_order
begin

lemma rest_le: "moves (on_db le) (rest_action env f)"
  using env_turn_le by (auto simp: moves_def rest_action_def Let_def on_db_def split: prod.splits)

lemma admission_le: "moves (on_db le) (ah_admit (local_approvals env ae authority) c)"
proof -
  have "le db (snd (case admit_new_runtime_command (cd_float_repr cd) (cd_fromisoformat cd) now authority c db of
      Inl e \<Rightarrow> (Inl e, db) | Inr (a, db') \<Rightarrow> (Inr a, db')))" for cd :: codecs and now db
    using peer_le [of db cd "PeerAdmit now authority c"] le_refl
    by (auto simp: admit_new_runtime_command_def rolled_back_def bind_res_def split: sum.splits)
  then show ?thesis by (simp add: local_approvals_def write_le)
qed

lemma settlement_le: "moves (on_db le) (durable_settlement py (local_approvals env ae authority) b v e)"
  unfolding durable_settlement_def
  by (intro on.moves_intros) (simp add: local_approvals_def read_le)

lemma settled_le:
  "moves (on_db le) m \<Longrightarrow> moves (on_db le) (settled_or py (local_approvals env ae authority) b v e m)"
  unfolding settled_or_def by (intro on.moves_intros settlement_le)

lemma admit_blocked_le:
  "moves (on_db le) (admit_blocked_approval py (\<lambda>_. ah_admit (local_approvals env ae authority)) b v e y)"
  unfolding admit_blocked_approval_def by (auto intro!: on.moves_intros admission_le split: prod.splits)

lemma resolve_le: "moves (on_db le) (resolve_blocked py (local_approvals env ae authority) b v e)"
proof (cases e)
  case (Some r)
  have asks: "moves (on_db le) (ah_session_approved (local_approvals env ae authority) i n d)"
    "moves (on_db le) (ah_wait (local_approvals env ae authority) i n d)" for i n d
    by (simp_all add: local_approvals_def rest_le)
  show ?thesis
    unfolding resolve_blocked_def Some option.case Let_def
    by (auto intro!: settled_le admit_blocked_le on.moves_intros asks split: prod.splits)
qed (simp add: resolve_blocked_def on.moves_res)

lemma resolver_le: "moves (on_db le) (local_resolver env ae authority out)"
  by (cases out) (simp_all add: local_resolver_def resolver_of_def resolve_le on.moves_res)

lemma serving_base_le: "base_moves (on_db le) (serving_base env xe x p)"
proof -
  have "on_db le s (fst (snd (on_store (execute_effect (local_effects env xe x) x) k (s, ms))))" for k s ms
    using effects.execute_moves [of env xe x x k]
    by (auto simp: moves_def on_store_def split: prod.split) (metis snd_conv)
  with base_le [of env p] show ?thesis by (simp add: base_moves_def serving_base_def)
qed

end

interpretation local_turns: serving_host local_later "local_store env" local_level
    "serving_base env xe x p" "local_resolver env ae authority"
  for env :: "'x local_env" and xe x p ae authority
  by unfold_locales
     (simp_all add: local_later_on_db ledger.serving_base_le ledger.resolver_le)

section \<open>A sample turn\<close>

text \<open>
  The sample segment of \<open>Segment_Theorems\<close> as a turn: its state waits on the approval of an effect, the
  decision is in the mailbox, and the executor finds the effect with its kind in the ledger.
\<close>

definition demo_adapter :: "int \<Rightarrow> turn_adapter" where
  "demo_adapter n = \<lparr>ta_session_id = ''se'', ta_owner_id = ''o'', ta_owner_epoch = 1,
     ta_state_version = seg_state_version demo_segment, ta_max_rounds = n\<rparr>"

definition demo_approvals :: "nat approval_env" where
  "demo_approvals = \<lparr>ae_py_str = (\<lambda>_. ''k''), ae_slots = (\<lambda>db sid. [''c'', ''serving-approval:q'']),
     ae_session_approved = (\<lambda>_ _ _ n. (Inr True, n)), ae_wait = (\<lambda>_ _ _ n. (Inr False, n))\<rparr>"

definition demo_turn_world :: "nat local_world" where
  "demo_turn_world = demo_world\<lparr>lw_db := demo_shared
     \<lparr>db_effects := [(''se'', ''b'') \<mapsto> \<lparr>fx_status = ''prepared'', fx_payload = dict_of
        [(''attempt_id'', PStr ''b''), (''effect_kind'', PStr ''tool''), (''payload'', PDict [])]\<rparr>],
      db_mailbox := [(''se'', ''serving-approval:q'') \<mapsto>
        \<lparr>mr_lane = ''runtime'', mr_disposition = ''pending'', mr_payload = dict_of
           [(''runtime_command_kind'', PStr ''approval_decision''),
            (''runtime_command_payload'', PDict (dict_of
               [(''approved'', PBool True), (''request_id'', PStr ''r:approval:serving-approval:q''),
                (''target_run_id'', PStr ''r'')]))],
         mr_admitted_session_seq = Some 1, mr_admitted_dispatch_generation = Some 1\<rparr>]\<rparr>\<rparr>"

definition demo_decision :: ApprovalSettlement where
  "demo_decision =
     \<lparr>ap_input_id = ''r:approval:serving-approval:q'', ap_command_id = ''serving-approval:q'',
      ap_tool_call_id = ''b'', ap_tool_name = ''f'', ap_effect_id = ''b'', ap_attempt_id = ''b'',
      ap_transition_id = ''s'', ap_owner_epoch = 1, ap_approved = True,
      ap_rejection_reason_code = None, ap_rejection_message = None\<rparr>"

definition demo_turn_request :: RunSegmentRequest where
  "demo_turn_request = demo_segment\<lparr>seg_step_input := ApprovalResolved demo_decision, seg_max_rounds := 1\<rparr>"

definition demo_serving :: "(nat local_world \<times> markers) ports" where
  "demo_serving = durable_ports (local_store demo_env) demo_payload
     (serving_base demo_env demo_executor_env demo_executor (demo_ports 3))"

definition demo_on_effect where
  "demo_on_effect k w = on_store (execute_effect demo_effects demo_executor) k w"

lemma demo_serving_code [code]:
  "demo_serving = (local_base demo_env (demo_ports 3))
     \<lparr>port_observe := demo_on_observe, port_commit_transition := demo_on_transition,
      port_commit_settlement := demo_on_settlement,
      port_authorize_dispatch := demo_on_authorize,
      port_commit_reconciliation := demo_on_reconciliation,
      port_execute := demo_on_effect\<rparr>"
  by (simp add: demo_serving_def serving_base_def durable_ports_def local_base_def fun_eq_iff
      demo_on_observe_def demo_on_transition_def demo_on_settlement_def demo_on_authorize_def
      demo_on_reconciliation_def demo_on_effect_def demo_ports_def demo_effects_def)

definition demo_turn_segment where
  "demo_turn_segment =
     step_fuel (seg_step demo_serving demo_turn_request) 5
       (seg_start demo_turn_request 1 (demo_turn_world, Map.empty))"

lemma demo_turn_segment_runs:
  "case demo_turn_segment of
     Some (Inr out, s) \<Rightarrow> \<not> needs_recovery out \<and> awaits_approval out = None
       \<and> executed_keys (host_trace (sg_host s)) = [(''se'', ''b'')]
   | _ \<Rightarrow> False"
  by code_simp

lemma demo_turn_facts:
  "persisted_rounds (seg_state_version demo_segment) = Inr 1"
  "case blocked_approval_from_state (seg_state_version demo_segment) of
     Inr (Some (BlockedOutcome v reason (Some e) n)) \<Rightarrow>
       fst (local_resolver demo_env demo_approvals demo_stopper (BlockedOutcome v reason (Some e) n) demo_turn_world)
         = Inr demo_decision
       \<and> approval_settlement_from_mailbox (\<lambda>_. ''k'') v (Some e)
           (snapm_entries (projr (load_runtime_command_mailbox [''c'', ''serving-approval:q''] (lw_db demo_turn_world) ''se''))) 1
           = Inr (Some demo_decision)
   | _ \<Rightarrow> False"
  "turn_request (demo_adapter 2) [] (ApprovalResolved demo_decision) 1 = Inr demo_turn_request"
  "mailbox_cut_of demo_turn_request = Inr 1"
  "case load_runtime_command_mailbox [''c'', ''serving-approval:q''] (lw_db demo_turn_world) ''se'' of
     Inr m \<Rightarrow> True | _ \<Rightarrow> False"
  by code_simp+

lemma demo_turn:
  obtains v w ms tr where "local_turn demo_env demo_executor_env demo_executor demo_approvals demo_payload
      (demo_ports 3) (demo_adapter 2) [] (demo_turn_world, Map.empty) = Some (v, (w, ms), tr)"
    "executed_keys tr = [(''se'', ''b'')]"
proof -
  let ?r = demo_turn_request and ?w = "(demo_turn_world, Map.empty)"
  let ?f = "Some (on_turn (local_resolver demo_env demo_approvals demo_stopper))"
  let ?runner = "local_runner demo_env demo_executor_env demo_executor demo_payload (demo_ports 3)"
  obtain out s where fuel: "demo_turn_segment = Some (Inr out, s)"
      and out: "\<not> needs_recovery out" "awaits_approval out = None"
      and keys: "executed_keys (host_trace (sg_host s)) = [(''se'', ''b'')]"
    using demo_turn_segment_runs by (auto split: option.splits prod.splits sum.splits)
  obtain y where y: "blocked_approval_from_state (seg_state_version demo_segment) = Inr (Some y)"
    using demo_turn_facts(2) by (auto split: sum.splits option.splits)
  with demo_turn_facts(2) obtain v reason e n where "y = BlockedOutcome v reason (Some e) n"
    by (cases y) (auto split: option.splits)
  with y demo_turn_facts(2) have
      blocked: "blocked_approval_from_state (seg_state_version demo_segment)
        = Inr (Some (BlockedOutcome v reason (Some e) n))"
      and answer: "fst (local_resolver demo_env demo_approvals demo_stopper
        (BlockedOutcome v reason (Some e) n) demo_turn_world) = Inr demo_decision"
      "approval_settlement_from_mailbox (\<lambda>_. ''k'') v (Some e) (snapm_entries (projr
         (load_runtime_command_mailbox [''c'', ''serving-approval:q''] (lw_db demo_turn_world) ''se''))) 1
         = Inr (Some demo_decision)"
    by simp_all
  obtain w1 where resolved: "local_resolver demo_env demo_approvals demo_stopper
      (BlockedOutcome v reason (Some e) n) demo_turn_world = (Inr demo_decision, w1)"
    using answer(1) by (metis prod.collapse)
  have alone: "env_turn demo_env demo_turn_world = demo_turn_world"
    by (simp add: env_turn_def demo_env_def demo_others_def demo_turn_world_def demo_world_def)
  have w1: "w1 = demo_turn_world"
    using resolved answer(2) demo_turn_facts(5)
    by (simp add: local_resolver_def resolver_of_def resolve_blocked_def settled_or_def
        durable_settlement_def local_approvals_def local_read_def act_bind_def act_res_def Let_def alone
        demo_approvals_def demo_stopper_def split: sum.splits)
  have start: "turn_start ?f (demo_adapter 2) [] (?w, []) = Inl ((?r, 1), (?w, []))"
    using blocked resolved w1 demo_turn_facts(1,3)
    by (simp add: turn_start_def Let_def on_turn_def demo_adapter_def)
  let ?last = "(host_world (sg_host s), host_trace (sg_host s))"
  have "run_segment demo_serving ?r ?w = Some (Inr out, sg_host s)"
    using demo_turn_facts(4) step_fuel_loop [OF fuel [unfolded demo_turn_segment_def]]
    by (simp add: run_segment_def seg_loop_def)
  then have run: "?runner ?r (?w, []) = Some (Inr out, ?last)"
    using out(1) by (subst local_runner_def, subst run_durable.simps)
      (simp add: demo_serving_def [symmetric])
  obtain x where "after_segment ?f 2 ?r 1 out ?last = Inr (x, ?last)"
    using out(2) by (simp add: after_segment_def)
  with run have "turn_loop ?runner ?f 2 ?r 1 (?w, []) = Some (x, ?last)"
    by (subst turn_loop.simps) simp
  with start have "local_turn demo_env demo_executor_env demo_executor demo_approvals demo_payload
      (demo_ports 3) (demo_adapter 2) [] ?w = Some (x, ?last)"
    by (simp add: local_turn_def run_turn_def demo_adapter_def demo_stopper_def)
  with keys that show thesis by (metis prod.collapse)
qed

text \<open>A turn without rounds left ends at once.\<close>

lemma demo_spent_turn:
  "local_turn demo_env demo_executor_env demo_executor demo_approvals demo_payload
     (demo_ports 3) (demo_adapter 1) [] (w, ms)
   = Some (Inr (RoundLimitOutcome (seg_state_version demo_segment) 1), (w, ms), [])"
proof -
  obtain b where "blocked_approval_from_state (seg_state_version demo_segment) = Inr (Some b)"
    using demo_turn_facts(2) by (auto split: sum.splits option.splits)
  then show ?thesis
    by (simp add: local_turn_def run_turn_def turn_start_def demo_adapter_def demo_turn_facts(1))
qed

section \<open>Properties\<close>

text \<open>C1: No effect runs twice in serving either: of two turns on one database, each with its recoveries
  of replayed authorizations, its approvals and its durable executor, by whatever owners and with any
  calls of other processes before, between and during them, no effect of a session is executed by
  both, nor twice by one.\<close>

theorem turns_execute_once:
  assumes "local_turn env xe x ae session_state p a prompt (w, ms) = Some (v, (w1, ms1), tr)"
    and "peers_run cd (lw_db w1) (lw_db w2)"
    and "local_turn env' xe' x' ae' session_state' p' a' prompt' (w2, ms2) = Some (v', (w3, ms3), tr')"
  shows "distinct (executed_keys tr @ executed_keys tr')"
proof -
  note first = local_turns.turn_executes_once [OF assms(1) [unfolded local_turn_def local_runner_def]]
  note second = local_turns.turn_executes_once [OF assms(3) [unfolded local_turn_def local_runner_def]]
  have "\<not> (key \<in> set (executed_keys tr) \<and> key \<in> set (executed_keys tr'))" for key
  proof
    assume "key \<in> set (executed_keys tr) \<and> key \<in> set (executed_keys tr')"
    then have "2 \<le> ledger_at (lw_db w1) key" "ledger_at (lw_db w2) key < 2"
      using first(2) second(2) by (auto simp: local_level_def)
    moreover have "ledger_at (lw_db w1) key \<le> ledger_at (lw_db w2) key"
      using peers_run_forward [OF assms(2)] unfolding ledger_forward_def by blast
    ultimately show False by simp
  qed
  with first(1) second(1) show ?thesis by auto
qed

theorem turns_execute_once_witness:
  "\<exists>tr tr'. executed_keys tr = [(''se'', ''b'')] \<and> distinct (executed_keys tr @ executed_keys tr')"
proof -
  obtain v w ms tr where turn: "local_turn demo_env demo_executor_env demo_executor demo_approvals demo_payload
      (demo_ports 3) (demo_adapter 2) [] (demo_turn_world, Map.empty) = Some (v, (w, ms), tr)"
      and keys: "executed_keys tr = [(''se'', ''b'')]"
    by (rule demo_turn)
  have same: "peers_run demo_codecs (lw_db w) (lw_db w)"
    unfolding peers_run_def by (rule exI [of _ "[]"]) simp
  from turns_execute_once [OF turn same demo_spent_turn] keys show ?thesis by blast
qed



end
