(* ===== verification/Serving_Theorems.thy ===== *)
theory Serving_Theorems
  imports Serving_Approval Mailbox_Theorems
begin

text \<open>
  Properties of approvals in serving: the decision that is admitted to the mailbox is the decision a
  blocked turn finds there, and the engine accepts it.
\<close>

section \<open>The command of a decision\<close>

lemma admitted_approval_Inr:
  assumes "admitted_approval py authority v effect approved = Inr (c, s)"
  obtains e cid where "effect = Some e" "cid = ''serving-approval:'' @ blocked_request_id e"
    "serving_approval_identity (osv_run_id v) (blocked_request_id e)
      = Inr (cid, osv_run_id v @ '':approval:'' @ cid)"
    "approval_settlement_from_blocked py v effect approved (own_epoch authority) None = Inr s"
    "approval_settlement_from_blocked py v effect approved (own_epoch authority) (Some cid) = Inr s"
    "RuntimeCommand_init c = Inr c" "cmd_command_id c = cid" "cmd_command_kind c = ''approval_decision''"
    "cmd_payload c = dict_of [(''approved'', PBool approved),
       (''request_id'', PStr (osv_run_id v @ '':approval:'' @ cid)), (''target_run_id'', PStr (osv_run_id v))]"
proof -
  have init: "ApprovalSettlement_init x = Inr y \<Longrightarrow> y = x" for x y
    by (auto simp: ApprovalSettlement_init_def checks_eq_Inr)
  obtain e where e: "effect = Some e"
    using assms by (auto simp: admitted_approval_def approval_settlement_from_blocked_def bind_res_eq_Inr
        split: option.splits)
  let ?cid = "''serving-approval:'' @ blocked_request_id e"
  obtain c0 where s: "approval_settlement_from_blocked py v effect approved (own_epoch authority) None = Inr s"
      and c: "RuntimeCommand_init
          \<lparr>cmd_command_id = ap_command_id s, cmd_command_kind = ''approval_decision'',
           cmd_payload = dict_of
             [(''approved'', PBool approved), (''request_id'', PStr (ap_input_id s)),
              (''target_run_id'', PStr (osv_run_id v))]\<rparr> = Inr c"
    using assms by (auto simp: admitted_approval_def bind_res_eq_Inr map_res_eq_Inr)
  from s have ids: "ap_command_id s = ?cid" "ap_input_id s = osv_run_id v @ '':approval:'' @ ?cid"
      "serving_approval_identity (osv_run_id v) (blocked_request_id e)
        = Inr (?cid, osv_run_id v @ '':approval:'' @ ?cid)"
      "approval_settlement_from_blocked py v effect approved (own_epoch authority) (Some ?cid) = Inr s"
    by (auto simp: e approval_settlement_from_blocked_def bind_res_eq_Inr serving_approval_identity_def
        checks_eq_Inr Let_def dest!: init)
  have "c = \<lparr>cmd_command_id = ap_command_id s, cmd_command_kind = ''approval_decision'',
           cmd_payload = dict_of
             [(''approved'', PBool approved), (''request_id'', PStr (ap_input_id s)),
              (''target_run_id'', PStr (osv_run_id v))]\<rparr> \<and> RuntimeCommand_init c = Inr c"
    using c ids(1) by (auto simp: RuntimeCommand_init_def bind_res_eq_Inr map_res_eq_Inr checks_eq_Inr
        dict_of_def)
  with e s ids show thesis by (intro that [of e ?cid]) auto
qed

section \<open>Found again\<close>

lemma open_rows_member:
  assumes "db_mailbox db (sid, k) = Some row" "open_slot row" "k \<in> set slots"
  shows "(k, row) \<in> set (open_rows slots db sid)"
  using assms by (force simp: open_rows_def List.map_filter_def)

lemma filter_key:
  "distinct (map f xs) \<Longrightarrow> x \<in> set xs \<Longrightarrow> filter (\<lambda>y. f y = f x) xs = [x]"
  by (induction xs) (auto simp: filter_empty_conv rev_image_eqI)

lemma loaded_entry:
  assumes "load_runtime_command_mailbox slots db sid = Inr m" "db_fact_source db sid \<noteq> None"
    and "db_mailbox db (sid, cmd_command_id c) = Some row" "open_slot row" "cmd_command_id c \<in> set slots"
    and "runtime_command_from_mailbox_payload (cmd_command_id c) (mr_payload row) = Inr c"
  shows "\<exists>x. filter (\<lambda>x. cmd_command_id (ent_command x) = cmd_command_id c) (snapm_entries m) = [x]
    \<and> ent_command x = c"
proof -
  obtain entries where entries: "traverse_res mailbox_row_entry (open_rows slots db sid) = Inr entries"
      and m: "snapm_entries m = entries" "distinct (map (cmd_command_id \<circ> ent_command) entries)"
    using assms(1,2)
    by (auto simp: load_runtime_command_mailbox_def CommandMailboxSnapshot_init_def bind_res_eq_Inr
        checks_eq_Inr split: option.splits)
  obtain x where x: "x \<in> set entries" "mailbox_row_entry (cmd_command_id c, row) = Inr x"
    using traverse_res_member [OF entries open_rows_member [OF assms(3,4,5)]] by blast
  with assms(6) have cmd: "ent_command x = c"
    by (auto simp: mailbox_row_entry_def bind_res_eq_Inr CommandMailboxEntry_init_iff)
  have "filter (\<lambda>x. cmd_command_id (ent_command x) = cmd_command_id c) entries = [x]"
    using filter_key [OF m(2) x(1)] cmd by simp
  with m(1) cmd show ?thesis by blast
qed

text \<open>C20: The decision admitted is the decision found: once \<open>admit_blocked_approval\<close> has put a decision in the
  mailbox, a turn that is blocked on the same effect reads back from it, through the stored payload,
  exactly the settlement that the admission returned, approved or denied.\<close>

theorem decision_found:
  assumes "admitted_approval py authority v effect approved = Inr (c, s)"
    and "admit_new_runtime_command fr fi now authority c db = Inr (a, db1)" "\<not> adm_idempotent a"
    and "load_runtime_command_mailbox slots db1 (own_session_id authority) = Inr m"
    and "cmd_command_id c \<in> set slots"
  shows "approval_settlement_from_mailbox py v effect (snapm_entries m) (own_epoch authority) = Inr (Some s)"
proof -
  let ?sid = "own_session_id authority"
  have "admit_runtime_command fr fi now authority c db = Inr (a, db1)"
    using assms(2) by (auto simp: admit_new_runtime_command_def bind_res_eq_Inr)
  then obtain payload n g db0 where payload: "runtime_command_mailbox_payload c = Inr payload"
      and db1: "db1 = write_admission ?sid (cmd_command_id c) n g payload db0"
      and source: "db_fact_source db0 ?sid \<noteq> None"
    using assms(3) ensure_fact_source_generation(4) by (cases rule: admit_runtime_command_Inr) blast+
  obtain e cid where parts: "effect = Some e"
      "serving_approval_identity (osv_run_id v) (blocked_request_id e)
        = Inr (cid, osv_run_id v @ '':approval:'' @ cid)"
      "approval_settlement_from_blocked py v effect approved (own_epoch authority) (Some cid) = Inr s"
      "RuntimeCommand_init c = Inr c" "cmd_command_id c = cid" "cmd_command_kind c = ''approval_decision''"
      "cmd_payload c = dict_of [(''approved'', PBool approved),
         (''request_id'', PStr (osv_run_id v @ '':approval:'' @ cid)), (''target_run_id'', PStr (osv_run_id v))]"
    using assms(1) by (rule admitted_approval_Inr)
  let ?row = "\<lparr>mr_lane = ''runtime'', mr_disposition = ''pending'', mr_payload = payload,
    mr_admitted_session_seq = Some n, mr_admitted_dispatch_generation = Some g\<rparr>"
  have "db_fact_source db1 ?sid \<noteq> None" "db_mailbox db1 (?sid, cmd_command_id c) = Some ?row"
    using source by (simp_all add: db1 write_admission_def)
  then have "\<exists>x. filter (\<lambda>x. cmd_command_id (ent_command x) = cmd_command_id c) (snapm_entries m) = [x]
      \<and> ent_command x = c"
    by (rule loaded_entry [OF assms(4)])
       (use assms(5) command_read_back [OF parts(4) payload] in \<open>simp_all add: open_slot_def\<close>)
  then obtain x where x: "filter (\<lambda>x. cmd_command_id (ent_command x) = cid) (snapm_entries m) = [x]"
      "ent_command x = c"
    using parts(5) by blast
  have "mailbox_decision py v effect (own_epoch authority) cid (osv_run_id v @ '':approval:'' @ cid) c = Inr s"
    using parts by (simp add: mailbox_decision_def Let_def)
  with parts(1,2) x show ?thesis by (simp add: approval_settlement_from_mailbox_def)
qed

definition demo_waiting :: OperationStateVersion where
  "demo_waiting = demo_version 4 ''s'' (demo_value [demo_plan True ''b''] [])"

definition demo_reference :: EffectReference where
  "demo_reference = \<lparr>ref_effect_id = ''b'', ref_attempt_id = ''b'', ref_tool_call_id = ''b'',
     ref_approval_request_id = Some ''q''\<rparr>"

definition demo_denied :: "(RuntimeCommand \<times> ApprovalSettlement) res" where
  "demo_denied = admitted_approval (\<lambda>_. ''k'') demo_stopper demo_waiting (Some demo_reference) False"

lemma demo_denial:
  "case demo_denied of
     Inr (c, s) \<Rightarrow> \<not> ap_approved s \<and> cmd_command_id c = ''serving-approval:q''
       \<and> (case admit_new_runtime_command demo_repr demo_iso demo_now demo_stopper c demo_shared of
            Inr (a, db1) \<Rightarrow> \<not> adm_idempotent a
              \<and> is_ok (load_runtime_command_mailbox [''serving-approval:q''] db1 (own_session_id demo_stopper))
          | _ \<Rightarrow> False)
   | _ \<Rightarrow> False"
  by code_simp

theorem decision_found_witness:
  "\<exists>s (m :: CommandMailboxSnapshot). \<not> ap_approved s
     \<and> approval_settlement_from_mailbox (\<lambda>_. ''k'') demo_waiting (Some demo_reference) (snapm_entries m) 1
         = Inr (Some s)"
proof -
  obtain c s a db1 where c: "demo_denied = Inr (c, s)" "\<not> ap_approved s" "cmd_command_id c = ''serving-approval:q''"
      and a: "admit_new_runtime_command demo_repr demo_iso demo_now demo_stopper c demo_shared = Inr (a, db1)"
        "\<not> adm_idempotent a"
      and loads: "is_ok (load_runtime_command_mailbox [''serving-approval:q''] db1 (own_session_id demo_stopper))"
    using demo_denial by (auto split: sum.splits)
  obtain m where m: "load_runtime_command_mailbox [''serving-approval:q''] db1 (own_session_id demo_stopper) = Inr m"
    using loads by (cases "load_runtime_command_mailbox [''serving-approval:q''] db1 (own_session_id demo_stopper)")
      simp_all
  have "own_epoch demo_stopper = 1" by (simp add: demo_stopper_def)
  with decision_found [OF c(1) [unfolded demo_denied_def] a m] c(2,3) show ?thesis
    by (intro exI [of _ s] exI [of _ m]) simp
qed

section \<open>The plan a state is blocked on\<close>

text \<open>What serving reads of a stored plan is what the engine reads.\<close>

lemma plan_read:
  assumes "effect_plan_of_value raw = Inr p" "frozen raw"
  obtains d where "as_dict raw = Some d" "as_dict (dict_get d ''payload'') = Some (plan_payload p)"
    "as_nonempty_str (dict_get d ''effect_id'') = Some (plan_effect_id p)"
    "as_nonempty_str (dict_get d ''attempt_id'') = Some (plan_attempt_id p)"
    "as_bool (dict_get_or d ''requires_approval'' (PBool False)) = Some (plan_requires_approval p)"
    "plan_approval_request d = Inr (plan_approval_request_id p)"
proof -
  obtain d payload eff att kind key req apr where d: "as_dict raw = Some d"
      "as_dict (dict_get d ''payload'') = Some payload"
      "as_nonempty_str (dict_get d ''effect_id'') = Some eff"
      "as_nonempty_str (dict_get d ''attempt_id'') = Some att"
      "as_bool (dict_get_or d ''requires_approval'' (PBool False)) = Some req"
      "optional_string d ''approval_request_id'' = Inr apr"
      and p: "EffectPlan_init
        \<lparr>plan_effect_id = eff, plan_attempt_id = att, plan_effect_kind = kind, plan_payload = payload,
         plan_idempotency_key = key, plan_requires_approval = req, plan_approval_request_id = apr\<rparr> = Inr p"
    using assms(1)
    by (auto simp: effect_plan_of_value_def bind_res_eq_Inr required_string_def required_bool_def
        split: option.splits)
  have "frozen_dict d" using assms(2) d(1) by (cases raw) auto
  then have "frozen (dict_get d ''payload'')" by (rule frozen_get)
  then have "frozen_dict payload" using d(2) by (cases "dict_get d ''payload''") auto
  with p have "p = \<lparr>plan_effect_id = eff, plan_attempt_id = att, plan_effect_kind = kind, plan_payload = payload,
         plan_idempotency_key = key, plan_requires_approval = req, plan_approval_request_id = apr\<rparr>"
    by (auto simp: EffectPlan_init_def bind_res_eq_Inr checks_eq_Inr map_res_eq_Inr)
  with d that show thesis
    by (auto simp: plan_approval_request_def optional_string_def Let_def split: option.splits if_splits)
qed

lemma pending_plan_read:
  assumes "engine_ok (osv_value v)" "runtime_state (osv_value v) = Inr rt"
    and "pending_effect_plans rt = Inr (p # ps)"
  obtains d raw where "pending_effect_plan v = Inr (Some d)" "as_dict raw = Some d"
    "effect_plan_of_value raw = Inr p" "frozen raw"
proof -
  have frozen: "frozen_dict (osv_value v)" using assms(1) by (simp add: engine_ok_def)
  have some: "dict_get (osv_value v) runtime_key \<noteq> PNone"
    using assms(2,3) by (auto simp: runtime_state_def default_runtime_state_def pending_effect_plans_def
        dict_get_or_def dict_find_def dict_of_def Let_def split: if_splits)
  with assms(2) have rt: "as_dict (dict_get (osv_value v) runtime_key) = Some rt"
    by (auto simp: runtime_state_def Let_def split: option.splits)
  have "frozen (dict_get (osv_value v) runtime_key)" using frozen by (rule frozen_get)
  then have "frozen_dict rt" using rt by (cases "dict_get (osv_value v) runtime_key") auto
  then have fplans: "frozen (dict_get rt ''pending_effect_plans'')" by (rule frozen_get)
  obtain raw raws where raws: "as_seq (dict_get_or rt ''pending_effect_plans'' (PTuple [])) = Some (raw # raws)"
      "effect_plan_of_value raw = Inr p"
    using assms(3) unfolding pending_effect_plans_def
    by (cases "as_seq (dict_get_or rt ''pending_effect_plans'' (PTuple []))";
        cases "projr (Inr (the (as_seq (dict_get_or rt ''pending_effect_plans'' (PTuple [])))))")
       (auto simp: res_simps)
  then have get: "as_seq (dict_get rt ''pending_effect_plans'') = Some (raw # raws)"
    by (auto simp: dict_get_or_def dict_get_def split: option.splits)
  then have "frozen raw" using fplans by (cases "dict_get rt ''pending_effect_plans''") auto
  moreover obtain d where "as_dict raw = Some d"
    using raws(2) by (auto simp: effect_plan_of_value_def split: option.splits)
  moreover have "or_val (dict_get rt ''pending_effect_plans'') (PTuple []) = dict_get rt ''pending_effect_plans''"
    using get by (cases "dict_get rt ''pending_effect_plans''") (auto simp: or_val_def)
  ultimately show thesis
    using some rt get raws(2)
    by (intro that [of d raw]) (simp_all add: pending_effect_plan_def serving_runtime_def Let_def)
qed

text \<open>The settlement of a decision on a blocked effect.\<close>

lemma blocked_settlement:
  assumes "osv_run_id v \<noteq> []" "cr_transition_id (osv_commit_ref v) \<noteq> []" "0 < epoch"
    and "blocked_request_id e \<noteq> []" "ref_effect_id e \<noteq> []" "ref_attempt_id e \<noteq> []" "ref_tool_call_id e \<noteq> []"
    and "blocked_approval_tool py v = Inr (n, x)" "n \<noteq> []"
  shows "\<exists>s. approval_settlement_from_blocked py v (Some e) approved epoch None = Inr s
    \<and> ap_approved s = approved \<and> ap_effect_id s = ref_effect_id e \<and> ap_attempt_id s = ref_attempt_id e
    \<and> ap_tool_call_id s = ref_tool_call_id e \<and> ap_tool_name s = n
    \<and> ap_transition_id s = cr_transition_id (osv_commit_ref v) \<and> approval_ok s"
proof -
  have blank: "\<not> is_blank ''User denied this tool call''" by code_simp
  let ?s = "\<lparr>ap_input_id = osv_run_id v @ '':approval:'' @ ''serving-approval:'' @ blocked_request_id e,
    ap_command_id = ''serving-approval:'' @ blocked_request_id e, ap_tool_call_id = ref_tool_call_id e,
    ap_tool_name = n, ap_effect_id = ref_effect_id e, ap_attempt_id = ref_attempt_id e,
    ap_transition_id = cr_transition_id (osv_commit_ref v), ap_owner_epoch = epoch, ap_approved = approved,
    ap_rejection_reason_code = (if approved then None else Some ''user_denied''),
    ap_rejection_message = (if approved then None else Some ''User denied this tool call'')\<rparr>"
  have init: "ApprovalSettlement_init ?s = Inr ?s"
    using assms blank
    by (cases approved) (simp_all add: ApprovalSettlement_init_def checks_eq_Inr fails_when_def
        require_non_empty_def require_non_blank_def)
  then have "approval_settlement_from_blocked py v (Some e) approved epoch None = Inr ?s"
    using assms(1,4,8)
    by (simp add: approval_settlement_from_blocked_def serving_approval_identity_def checks_eq_Inr Let_def)
  with ApprovalSettlement_init_ok [OF init] show ?thesis by (intro exI [of _ ?s]) simp
qed

text \<open>C12: A turn that resumes on an approval is let through by the engine: on every well-formed state that
  waits for the approval of its next effect, serving finds that effect, and the settlement it builds
  from the state, approved or denied, is accepted by the engine's guard: \<open>propose\<close> succeeds on it. No
  decision of the user is lost to a refusal.\<close>

theorem resumed_approval_accepted:
  assumes "engine_ok (osv_value v)" "runtime_state (osv_value v) = Inr rt"
    and "pending_effect_plans rt = Inr (p # ps)" "plan_requires_approval p"
    and "osv_run_id v \<noteq> []" "cr_transition_id (osv_commit_ref v) \<noteq> []" "0 < epoch"
    and "\<not> truthy (dict_get (plan_payload p) ''arguments'')
      \<or> as_dict (dict_get (plan_payload p) ''arguments'') \<noteq> None"
  shows "\<exists>e s. blocked_approval_from_state v = Inr (Some (BlockedOutcome v ''approval_required'' (Some e) 0))
    \<and> ref_effect_id e = plan_effect_id p \<and> ref_attempt_id e = plan_attempt_id p
    \<and> approval_settlement_from_blocked py v (Some e) approved epoch None = Inr s
    \<and> ap_approved s = approved
    \<and> is_ok (propose \<lparr>esr_state_version = v, esr_step_input = ApprovalResolved s\<rparr>)"
proof -
  let ?run = "osv_run_id v"
  obtain d raw where d: "pending_effect_plan v = Inr (Some d)" "as_dict raw = Some d"
      "effect_plan_of_value raw = Inr p" "frozen raw"
    using assms(1-3) by (rule pending_plan_read)
  have read: "as_dict (dict_get d ''payload'') = Some (plan_payload p)"
      "as_nonempty_str (dict_get d ''effect_id'') = Some (plan_effect_id p)"
      "as_nonempty_str (dict_get d ''attempt_id'') = Some (plan_attempt_id p)"
      "as_bool (dict_get_or d ''requires_approval'' (PBool False)) = Some (plan_requires_approval p)"
      "plan_approval_request d = Inr (plan_approval_request_id p)"
    using plan_read [OF d(3,4)] d(2) by auto
  obtain ps' where "runtime_ok rt" "pending_is rt ps'" "ps' = p # ps"
    using assms(1-3) by (auto simp: engine_ok_def runtime_ok_def pending_is_def)
  then have "tool_plan p" by (simp add: pending_is_def)
  then obtain c n where p: "plan_ok p" "as_nonempty_str (dict_get (plan_payload p) ''tool_call_id'') = Some c"
      "as_nonempty_str (dict_get (plan_payload p) ''tool_name'') = Some n"
    by (auto simp: tool_plan_def)
  then have nonempty: "c \<noteq> []" "n \<noteq> []" "plan_effect_id p \<noteq> []" "plan_attempt_id p \<noteq> []"
      "plan_approval_request_id p \<noteq> Some []"
    using assms(4) by (auto simp: plan_ok_def approval_pair_ok_def)
  let ?e = "\<lparr>ref_effect_id = plan_effect_id p, ref_attempt_id = plan_attempt_id p, ref_tool_call_id = c,
    ref_approval_request_id = plan_approval_request_id p\<rparr>"
  have "EffectReference_init ?e = Inr ?e"
    using nonempty by (cases "plan_approval_request_id p") (auto simp: EffectReference_init_def checks_eq_Inr)
  then have blocked: "blocked_approval_from_state v
      = Inr (Some (BlockedOutcome v ''approval_required'' (Some ?e) 0))"
    using d(1) read assms(4) p(2)
    by (simp add: blocked_approval_from_state_def blocked_on_plan_def plan_payload_mapping_def
        required_plan_string_def checks_eq_Inr)
  have request: "blocked_request_id ?e \<noteq> []"
    using nonempty by (auto simp: blocked_request_id_def split: option.splits)
  obtain x where tool: "blocked_approval_tool py v = Inr (n, x)"
    using d(1) read(1) p(3) assms(8)
    by (cases "as_dict (or_val (dict_get (plan_payload p) ''arguments'') (PDict []))")
       (auto simp: blocked_approval_tool_def blocked_payload_def plan_payload_mapping_def or_val_def
         split: if_splits)
  obtain s where s: "approval_settlement_from_blocked py v (Some ?e) approved epoch None = Inr s"
      "ap_approved s = approved" "ap_effect_id s = plan_effect_id p" "ap_attempt_id s = plan_attempt_id p"
      "ap_tool_call_id s = c" "ap_tool_name s = n"
      "ap_transition_id s = cr_transition_id (osv_commit_ref v)" "approval_ok s"
    using blocked_settlement [OF assms(5-7) request _ _ _ tool nonempty(2), of approved] nonempty by auto
  let ?request = "\<lparr>esr_state_version = v, esr_step_input = ApprovalResolved s\<rparr>"
  have "approval_guard ?request rt s = Inr (p # ps)"
    using assms(3,4) s(3-7) p(2,3)
    by (simp add: approval_guard_Inr require_next_effect_def required_string_def)
  then have "accepts ?request rt" by (simp add: accepts_def)
  with propose_runs [of ?request rt] assms(1,2,5) s(8) have "is_ok (propose ?request)" by auto
  with blocked s(1,2) show ?thesis by (intro exI [of _ ?e] exI [of _ s]) simp
qed

theorem resumed_approval_accepted_witness:
  "\<exists>e s. approval_settlement_from_blocked (\<lambda>_. ''k'') demo_waiting (Some e) True 1 None = Inr s
     \<and> is_ok (propose \<lparr>esr_state_version = demo_waiting, esr_step_input = ApprovalResolved s\<rparr>)"
proof -
  have state: "engine_ok (osv_value demo_waiting)" by code_simp
  have "case runtime_state (osv_value demo_waiting) of
      Inr rt \<Rightarrow> pending_effect_plans rt = Inr [demo_plan True ''b''] | _ \<Rightarrow> False"
    by code_simp
  then obtain rt where rt: "runtime_state (osv_value demo_waiting) = Inr rt"
      "pending_effect_plans rt = Inr [demo_plan True ''b'']"
    by (auto split: sum.splits)
  have rest: "plan_requires_approval (demo_plan True ''b'')" "osv_run_id demo_waiting \<noteq> []"
    "cr_transition_id (osv_commit_ref demo_waiting) \<noteq> []" "(0 :: int) < 1"
    "\<not> truthy (dict_get (plan_payload (demo_plan True ''b'')) ''arguments'')
      \<or> as_dict (dict_get (plan_payload (demo_plan True ''b'')) ''arguments'') \<noteq> None"
    by code_simp+
  from resumed_approval_accepted [OF state rt rest, of "\<lambda>_. ''k''" True] show ?thesis by blast
qed

end
