(* ===== verification/Provider_Adapter.thy ===== *)
theory Provider_Adapter
  imports Serving
begin

text \<open>
  \<open>ProviderModelAdapter\<close> of \<open>coding_agent/runs/serving_runtime.py\<close>: the messages it sends to the
  provider and the result it makes of the provider's stream, with the tools that \<open>PolicyEngine\<close> of
  \<open>coding_agent/approval/policy.py\<close> lets run only with an approval.

  The provider's stream is a list of the events, or the exceptions, it gives in turn; \<open>dumps\<close>
  is \<open>json.dumps(v, default=str)\<close> and \<open>py_str\<close> is \<open>str(v)\<close> of a value that is no text.
\<close>

section \<open>Approval policy\<close>

datatype ApprovalPolicy = YOLO | INTERACTIVE | AUTO

record PolicyConfig =
  pol_policy :: ApprovalPolicy
  pol_safe_tools :: "string list"
  pol_timeout_seconds :: int

definition policy_config :: "ApprovalPolicy \<Rightarrow> PolicyConfig" where
  "policy_config p =
     \<lparr>pol_policy = p, pol_safe_tools = [''file_read'', ''repo_list'', ''git_status''],
      pol_timeout_seconds = 120\<rparr>"

definition needs_approval :: "PolicyConfig \<Rightarrow> string \<Rightarrow> bool" where
  "needs_approval c tool_name =
     (case pol_policy c of
        YOLO \<Rightarrow> False
      | INTERACTIVE \<Rightarrow> True
      | AUTO \<Rightarrow> tool_name \<notin> set (pol_safe_tools c))"

section \<open>The messages of a request\<close>

definition text_or_dumps :: "(pyval \<Rightarrow> string) \<Rightarrow> pyval \<Rightarrow> string" where
  "text_or_dumps dumps v = (case v of PStr s \<Rightarrow> s | _ \<Rightarrow> dumps v)"

definition message_text :: "(pyval \<Rightarrow> string) \<Rightarrow> dict \<Rightarrow> string" where
  "message_text dumps m =
     (let content = dict_get m ''content'' in
      text_or_dumps dumps
        (if content = PNone then or_val (dict_get m ''text'') (PStr []) else content))"

definition openai_tool_call :: "(pyval \<Rightarrow> string) \<Rightarrow> dict \<Rightarrow> pyval res" where
  "openai_tool_call dumps raw =
     (case as_nonempty_str (or_val (dict_get raw ''tool_call_id'') (dict_get raw ''id'')) of
        None \<Rightarrow> Inl (ValueError ''assistant tool_call requires tool_call_id'')
      | Some call_id \<Rightarrow>
          (case as_nonempty_str (dict_get raw ''name'') of
             None \<Rightarrow> Inl (ValueError ''assistant tool_call requires name'')
           | Some name \<Rightarrow> Inr (PDict (dict_of
               [(''id'', PStr call_id), (''type'', PStr ''function''),
                (''function'', PDict (dict_of
                   [(''name'', PStr name),
                    (''arguments'', PStr (text_or_dumps dumps
                       (or_val (dict_get raw ''arguments'') (PDict []))))]))]))))"

text \<open>Only the mappings of a sequence count.\<close>

definition mappings_of :: "pyval \<Rightarrow> dict list" where
  "mappings_of v = (case as_seq v of None \<Rightarrow> [] | Some xs \<Rightarrow> List.map_filter as_dict xs)"

definition openai_tool_calls :: "(pyval \<Rightarrow> string) \<Rightarrow> pyval \<Rightarrow> pyval list res" where
  "openai_tool_calls dumps v = traverse_res (openai_tool_call dumps) (mappings_of v)"

definition model_message :: "(pyval \<Rightarrow> string) \<Rightarrow> (pyval \<Rightarrow> string) \<Rightarrow> dict \<Rightarrow> pyval res" where
  "model_message dumps py_str m =
     (let role = or_val (dict_get m ''role'') (PStr ''assistant'');
          content = (''content'', PStr (message_text dumps m))
      in if role = PStr ''assistant''
         then map_res
                (\<lambda>calls. PDict (dict_of
                   ([(''role'', PStr ''assistant''), content]
                    @ (if calls = [] then [] else [(''tool_calls'', PList calls)]))))
                (openai_tool_calls dumps (dict_get m ''tool_calls''))
         else if role = PStr ''tool''
         then (case as_nonempty_str (dict_get m ''tool_call_id'') of
                 None \<Rightarrow> Inl (ValueError ''tool message requires tool_call_id'')
               | Some i \<Rightarrow> Inr (PDict (dict_of
                   [(''role'', PStr ''tool''), (''tool_call_id'', PStr i),
                    (''name'', or_val (dict_get m ''name'') (PStr [])), content])))
         else Inr (PDict (dict_of [(''role'', PStr (str_key py_str role)), content])))"

definition messages_from_model_request ::
    "(pyval \<Rightarrow> string) \<Rightarrow> (pyval \<Rightarrow> string) \<Rightarrow> ModelRequest \<Rightarrow> pyval list res" where
  "messages_from_model_request dumps py_str r =
     traverse_res (model_message dumps py_str)
       (mappings_of (dict_get_or (mreq_context r) ''messages'' (PTuple [])))"

section \<open>The result of a stream\<close>

datatype stream_event =
    TextEvent string
  | ThinkingEvent string
  | ToolCallEvent string string dict
  | UsageEvent int int
  | DoneEvent
  | OtherEvent

record stream_state =
  ss_text :: string
  ss_thinking :: string
  ss_calls :: "ModelToolCall list"
  ss_input_tokens :: int
  ss_output_tokens :: int
  ss_frame_index :: int

definition stream_start :: stream_state where
  "stream_start =
     \<lparr>ss_text = [], ss_thinking = [], ss_calls = [], ss_input_tokens = 0, ss_output_tokens = 0,
      ss_frame_index = 0\<rparr>"

definition token_frame :: "string \<Rightarrow> int \<Rightarrow> string \<Rightarrow> StreamFrame res" where
  "token_frame request_id index s =
     StreamFrame_init
       \<lparr>frame_frame_id = request_id @ '':frame:'' @ str_of_int index, frame_kind = TOKEN_DELTA,
        frame_payload = dict_of [(''text'', PStr s)]\<rparr>"

definition streamed_call ::
    "ApprovalPolicy \<Rightarrow> string \<Rightarrow> string \<Rightarrow> string \<Rightarrow> dict \<Rightarrow> ModelToolCall res" where
  "streamed_call policy request_id tool_call_id name arguments =
     (let gated = needs_approval (policy_config policy) name in
      ModelToolCall_init
        \<lparr>call_tool_call_id = tool_call_id, call_name = name, call_arguments = arguments,
         call_idempotency_key = None, call_requires_approval = gated,
         call_approval_request_id =
           (if gated then Some (request_id @ '':'' @ tool_call_id) else None)\<rparr>)"

text \<open>The loop over the stream. A text goes to the frame sink before the next event is read.\<close>

fun consume_stream ::
    "ApprovalPolicy \<Rightarrow> string \<Rightarrow> (StreamFrame \<Rightarrow> ('w, unit) action) \<Rightarrow> stream_event res list \<Rightarrow> stream_state
     \<Rightarrow> ('w, stream_state) action" where
  "consume_stream policy rid emit [] g = act_res (Inr g)"
| "consume_stream policy rid emit (Inl e # es) g = act_res (Inl e)"
| "consume_stream policy rid emit (Inr DoneEvent # es) g = act_res (Inr g)"
| "consume_stream policy rid emit (Inr (TextEvent s) # es) g =
     (if s = [] then consume_stream policy rid emit es g
      else
        act_bind (act_res (token_frame rid (ss_frame_index g) s)) (\<lambda>frame.
        act_bind (emit frame) (\<lambda>_.
        consume_stream policy rid emit es
          (g\<lparr>ss_text := ss_text g @ s, ss_frame_index := ss_frame_index g + 1\<rparr>))))"
| "consume_stream policy rid emit (Inr (ThinkingEvent s) # es) g =
     consume_stream policy rid emit es (g\<lparr>ss_thinking := ss_thinking g @ s\<rparr>)"
| "consume_stream policy rid emit (Inr (ToolCallEvent i name arguments) # es) g =
     (if i = [] \<or> name = [] then consume_stream policy rid emit es g
      else act_bind (act_res (streamed_call policy rid i name arguments)) (\<lambda>c.
           consume_stream policy rid emit es (g\<lparr>ss_calls := ss_calls g @ [c]\<rparr>)))"
| "consume_stream policy rid emit (Inr (UsageEvent i n) # es) g =
     consume_stream policy rid emit es (g\<lparr>ss_input_tokens := i, ss_output_tokens := n\<rparr>)"
| "consume_stream policy rid emit (Inr OtherEvent # es) g = consume_stream policy rid emit es g"

definition generation_result :: "string \<Rightarrow> stream_state \<Rightarrow> ModelGenerationResult res" where
  "generation_result rid g =
     bind_res (ModelUsage_init
       \<lparr>usage_input_tokens = ss_input_tokens g, usage_output_tokens = ss_output_tokens g,
        usage_provider_details = []\<rparr>) (\<lambda>usage.
     bind_res (ProviderStopMetadata_init
       \<lparr>stop_reason_code = (if ss_calls g = [] then ''stop'' else ''tool_use''),
        stop_details = []\<rparr>) (\<lambda>stop.
     ModelGenerationResult_init
       \<lparr>gen_result_id = rid @ '':result'', gen_request_id = rid,
        gen_assistant_content = ss_text g,
        gen_finalized_thinking = (if ss_thinking g = [] then None else Some (ss_thinking g)),
        gen_tool_calls = ss_calls g, gen_usage = usage, gen_provider_stop = stop\<rparr>))"

definition provider_generate ::
    "(pyval \<Rightarrow> string) \<Rightarrow> (pyval \<Rightarrow> string) \<Rightarrow> ApprovalPolicy \<Rightarrow> (pyval list \<Rightarrow> stream_event res list)
     \<Rightarrow> (StreamFrame \<Rightarrow> ('w, unit) action) \<Rightarrow> ModelRequest \<Rightarrow> ('w, ModelGenerationResult) action" where
  "provider_generate dumps py_str policy stream emit r =
     act_bind (act_res (messages_from_model_request dumps py_str r)) (\<lambda>messages.
     act_bind (consume_stream policy (mreq_request_id r) emit (stream messages) stream_start) (\<lambda>g.
     act_res (generation_result (mreq_request_id r) g)))"

end
