(* ===== verification/Adapter_Theorems.thy ===== *)
theory Adapter_Theorems
  imports Provider_Adapter
begin

text \<open>
  The result the provider adapter makes of a stream, against what the stream says: its texts joined,
  its tool calls in order, each gated as the approval policy demands.
\<close>

section \<open>What a stream says\<close>

definition events_read :: "stream_event res list \<Rightarrow> stream_event list" where
  "events_read es = map projr (takeWhile (\<lambda>x. x \<noteq> Inr DoneEvent) es)"

fun text_of :: "stream_event \<Rightarrow> string" where
  "text_of (TextEvent s) = s"
| "text_of _ = []"

fun thinking_of :: "stream_event \<Rightarrow> string" where
  "thinking_of (ThinkingEvent s) = s"
| "thinking_of _ = []"

fun call_of :: "stream_event \<Rightarrow> (string \<times> string) list" where
  "call_of (ToolCallEvent i n _) = (if i = [] \<or> n = [] then [] else [(i, n)])"
| "call_of _ = []"

definition call_gated :: "ApprovalPolicy \<Rightarrow> string \<Rightarrow> ModelToolCall \<Rightarrow> bool" where
  "call_gated policy rid c \<longleftrightarrow>
     call_requires_approval c = needs_approval (policy_config policy) (call_name c)
     \<and> call_approval_request_id c =
         (if call_requires_approval c then Some (rid @ '':'' @ call_tool_call_id c) else None)"

lemma streamed_call_Inr:
  "streamed_call policy rid i n d = Inr c \<Longrightarrow>
   call_tool_call_id c = i \<and> call_name c = n \<and> call_gated policy rid c"
  by (auto simp: streamed_call_def Let_def ModelToolCall_init_def call_gated_def res_simps)

lemma consume_stream_reads:
  "consume_stream policy rid emit es g w = (Inr h, w') \<Longrightarrow>
     ss_text h = ss_text g @ concat (map text_of (events_read es))
     \<and> ss_thinking h = ss_thinking g @ concat (map thinking_of (events_read es))
     \<and> map (\<lambda>c. (call_tool_call_id c, call_name c)) (ss_calls h)
         = map (\<lambda>c. (call_tool_call_id c, call_name c)) (ss_calls g) @ concat (map call_of (events_read es))
     \<and> (\<forall>c \<in> set (ss_calls h). c \<in> set (ss_calls g) \<or> call_gated policy rid c)"
proof (induction policy rid emit es g arbitrary: w rule: consume_stream.induct)
  case (4 policy rid emit s es g)
  then show ?case by (cases "s = []") (auto simp: events_read_def act_bind_Inr)
next
  case (6 policy rid emit i name arguments es g)
  then show ?case
    by (cases "i = [] \<or> name = []") (fastforce simp: events_read_def act_bind_Inr dest: streamed_call_Inr)+
qed (auto simp: events_read_def)

section \<open>Properties\<close>

text \<open>C31: The model's tool calls are gated by the policy: whatever the provider streams, the result the
  adapter hands to the engine has the streamed texts joined in order and the streamed calls in order
  (without those that lack an id or a name), nothing after the stream's end, and every call needs an
  approval exactly when the policy says so for its tool, under a request id of its own.\<close>

theorem stream_gated_by_policy:
  assumes "provider_generate dumps py_str policy stream emit r w = (Inr result, w')"
  shows "\<exists>messages es. messages_from_model_request dumps py_str r = Inr messages
    \<and> es = events_read (stream messages)
    \<and> gen_request_id result = mreq_request_id r
    \<and> gen_assistant_content result = concat (map text_of es)
    \<and> map (\<lambda>c. (call_tool_call_id c, call_name c)) (gen_tool_calls result) = concat (map call_of es)
    \<and> (\<forall>c \<in> set (gen_tool_calls result). call_gated policy (mreq_request_id r) c)"
proof -
  let ?rid = "mreq_request_id r"
  obtain messages g where messages: "messages_from_model_request dumps py_str r = Inr messages"
      and g: "consume_stream policy ?rid emit (stream messages) stream_start w = (Inr g, w')"
      and result: "generation_result ?rid g = Inr result"
    using assms by (auto simp: provider_generate_def act_bind_Inr)
  have "gen_request_id result = ?rid \<and> gen_assistant_content result = ss_text g
      \<and> gen_tool_calls result = ss_calls g"
    using result by (auto simp: generation_result_def bind_res_eq_Inr ModelGenerationResult_init_def checks_eq_Inr)
  with consume_stream_reads [OF g] messages show ?thesis by (auto simp: stream_start_def)
qed

definition demo_model_request :: ModelRequest where
  "demo_model_request = \<lparr>mreq_request_id = ''m'', mreq_run_id = ''r'', mreq_round_index = 1,
     mreq_commands = [], mreq_context = dict_of [(''messages'', PTuple [PDict (dict_of
       [(''role'', PStr ''user''), (''content'', PStr ''hi'')])])]\<rparr>"

definition demo_generated :: "nat \<Rightarrow> ModelGenerationResult res \<times> nat" where
  "demo_generated = provider_generate (\<lambda>_. ''j'') (\<lambda>_. ''k'') AUTO
     (\<lambda>_. [Inr (TextEvent ''a''), Inr (ToolCallEvent ''1'' ''file_read'' []), Inr (UsageEvent 2 3),
           Inr (ToolCallEvent ''2'' ''bash'' []), Inr (TextEvent ''b''), Inr DoneEvent,
           Inr (TextEvent ''c'')])
     (\<lambda>_ n. (Inr (), Suc n)) demo_model_request"

lemma demo_generated_runs:
  "case demo_generated 0 of
     (Inr r, n) \<Rightarrow> n = 2 \<and> gen_assistant_content r = ''ab''
       \<and> map (\<lambda>c. (call_name c, call_requires_approval c)) (gen_tool_calls r)
           = [(''file_read'', False), (''bash'', True)]
   | _ \<Rightarrow> False"
  by code_simp

theorem stream_gated_by_policy_witness:
  "\<exists>r. fst (demo_generated 0) = Inr r \<and> gen_request_id r = ''m''
     \<and> (\<forall>c \<in> set (gen_tool_calls r). call_gated AUTO ''m'' c)"
proof -
  obtain r w' where run: "demo_generated 0 = (Inr r, w')"
    using demo_generated_runs by (auto split: prod.splits sum.splits)
  have "mreq_request_id demo_model_request = ''m''" by (simp add: demo_model_request_def)
  with stream_gated_by_policy [OF run [unfolded demo_generated_def]] run show ?thesis by auto
qed

end
