(* ===== verification/Spec2Isabelle.thy ===== *)
theory Spec2Isabelle
  imports Segment_Returns Store_Theorems Local_Theorems Local_Segments Port_Theorems Activation Local_Turns
    Serving_Theorems Adapter_Theorems
begin

text \<open>
  A verification development of the agent runtime of \<open>coding-agent\<close>.
\<close>

end
